(* ===== verification/Prelude.thy ===== *)
theory Prelude
  imports Main
begin

text \<open>
  Shared vocabulary of the development: results with errors, searching and
  updating lists by a key (the projections of the conversation engine are
  arrays with first-seen order, looked up by identity), and the lemma
  collections the component theories fill.

  A fallible operation of the source (one that may throw) has the type
  \<open>'e + 'a\<close>: \<open>Inl e\<close> is the thrown error, \<open>Inr x\<close> the value.
\<close>

named_theorems frame_simps \<open>what an operation leaves unchanged\<close>
named_theorems inv_intros \<open>preservation of an invariant by one operation\<close>

section \<open>Results\<close>

fun bind_result :: "'e + 'a \<Rightarrow> ('a \<Rightarrow> 'e + 'b) \<Rightarrow> 'e + 'b" where
  "bind_result (Inl e) f = Inl e"
| "bind_result (Inr x) f = f x"

lemma bind_result_Inr_iff [simp]:
  "bind_result r f = Inr y \<longleftrightarrow> (\<exists>x. r = Inr x \<and> f x = Inr y)"
  by (cases r) auto

lemma bind_result_Inl_iff:
  "bind_result r f = Inl e \<longleftrightarrow> r = Inl e \<or> (\<exists>x. r = Inr x \<and> f x = Inl e)"
  by (cases r) auto

lemma bind_result_cong [fundef_cong]:
  assumes "r = r'" and "\<And>x. r' = Inr x \<Longrightarrow> f x = g x"
  shows "bind_result r f = bind_result r' g"
  using assms by (cases r) auto

text \<open>\<open>guard c e\<close> is the source's \<open>if (!c) throw e\<close>.\<close>

definition guard :: "bool \<Rightarrow> 'e \<Rightarrow> 'e + unit" where
  "guard c e = (if c then Inr () else Inl e)"

lemma guard_Inr_iff [simp]: "guard c e = Inr u \<longleftrightarrow> c"
  by (simp add: guard_def)

lemma guard_True [simp]: "guard True e = Inr ()"
  and guard_False [simp]: "guard False e = Inl e"
  by (simp_all add: guard_def)

text \<open>\<open>map_result f xs\<close> is \<open>xs.map(f)\<close> for a callback that may throw.\<close>

fun map_result :: "('a \<Rightarrow> 'e + 'b) \<Rightarrow> 'a list \<Rightarrow> 'e + 'b list" where
  "map_result f [] = Inr []"
| "map_result f (x # xs) =
     bind_result (f x) (\<lambda>y. bind_result (map_result f xs) (\<lambda>ys. Inr (y # ys)))"

lemma map_result_cong [fundef_cong]:
  assumes "xs = ys" and "\<And>x. x \<in> set ys \<Longrightarrow> f x = g x"
  shows "map_result f xs = map_result g ys"
proof -
  have "(\<And>x. x \<in> set ys \<Longrightarrow> f x = g x) \<Longrightarrow> map_result f ys = map_result g ys"
    by (induction ys) auto
  with assms show ?thesis by simp
qed

lemma map_result_length: "map_result f xs = Inr ys \<Longrightarrow> length ys = length xs"
  by (induction xs arbitrary: ys) auto

lemma map_result_all:
  "map_result f xs = Inr ys \<Longrightarrow> list_all2 (\<lambda>x y. f x = Inr y) xs ys"
  by (induction xs arbitrary: ys) auto

lemma map_result_set:
  assumes "map_result f xs = Inr ys" and "x \<in> set xs"
  obtains y where "f x = Inr y" and "y \<in> set ys"
  using assms by (induction xs arbitrary: ys) auto

lemma map_result_ok: "(\<And>x. x \<in> set xs \<Longrightarrow> f x = Inr (g x)) \<Longrightarrow> map_result f xs = Inr (map g xs)"
  by (induction xs) auto

text \<open>\<open>each f xs\<close> is \<open>xs.forEach(f)\<close> for a callback that may throw.\<close>

fun each :: "('a \<Rightarrow> 'e + unit) \<Rightarrow> 'a list \<Rightarrow> 'e + unit" where
  "each f [] = Inr ()"
| "each f (x # xs) = bind_result (f x) (\<lambda>_. each f xs)"

lemma each_cong [fundef_cong]:
  assumes "xs = ys" and "\<And>x. x \<in> set ys \<Longrightarrow> f x = g x"
  shows "each f xs = each g ys"
proof -
  have "(\<And>x. x \<in> set ys \<Longrightarrow> f x = g x) \<Longrightarrow> each f ys = each g ys"
    by (induction ys) auto
  with assms show ?thesis by simp
qed

lemma each_Inr_iff [simp]: "each f xs = Inr u \<longleftrightarrow> (\<forall>x\<in>set xs. f x = Inr ())"
  by (induction xs) auto

text \<open>\<open>fold_result f s xs\<close> threads a state through a loop whose body may throw.\<close>

fun fold_result :: "('s \<Rightarrow> 'a \<Rightarrow> 'e + 's) \<Rightarrow> 's \<Rightarrow> 'a list \<Rightarrow> 'e + 's" where
  "fold_result f s [] = Inr s"
| "fold_result f s (x # xs) = bind_result (f s x) (\<lambda>s'. fold_result f s' xs)"

lemma fold_result_cong [fundef_cong]:
  assumes "s = t" and "xs = ys" and "\<And>u x. x \<in> set ys \<Longrightarrow> f u x = g u x"
  shows "fold_result f s xs = fold_result g t ys"
proof -
  have "(\<And>u x. x \<in> set ys \<Longrightarrow> f u x = g u x) \<Longrightarrow> fold_result f t ys = fold_result g t ys"
  proof (induction ys arbitrary: t)
    case (Cons y ys)
    then show ?case by (cases "g t y") auto
  qed simp
  with assms show ?thesis by simp
qed

text \<open>\<open>xs.entries()\<close>: the elements with their index.\<close>

definition indexed :: "'a list \<Rightarrow> (nat \<times> 'a) list" where
  "indexed xs = zip [0..<length xs] xs"

lemma indexed_simps [simp]: "map snd (indexed xs) = xs" "length (indexed xs) = length xs"
  by (simp_all add: indexed_def)

lemma indexed_Nil [simp]: "indexed xs = [] \<longleftrightarrow> xs = []"
  using length_0_conv [of "indexed xs"] by simp

lemma indexed_set: "snd ` set (indexed xs) = set xs"
  by (simp flip: set_map)

lemma indexed_map: "map (\<lambda>p. f (snd p)) (indexed xs) = map f xs"
  using map_map [of f snd "indexed xs"] by (simp add: comp_def del: map_map)

lemma indexed_list_all: "list_all (\<lambda>p. P (snd p)) (indexed xs) = list_all P xs"
  unfolding list_all_iff indexed_set [of xs, symmetric] by simp

lemma indexed_snd: "p \<in> set (indexed xs) \<Longrightarrow> snd p \<in> set xs"
  by (cases p) (auto simp: indexed_def dest: set_zip_rightD)

section \<open>Arrays searched and updated by a predicate\<close>

text \<open>\<open>find_index P xs\<close> is \<open>xs.findIndex(P)\<close>, with None for -1.\<close>

fun find_index :: "('a \<Rightarrow> bool) \<Rightarrow> 'a list \<Rightarrow> nat option" where
  "find_index P [] = None"
| "find_index P (x # xs) = (if P x then Some 0 else map_option Suc (find_index P xs))"

lemma find_index_None_iff: "find_index P xs = None \<longleftrightarrow> (\<forall>x\<in>set xs. \<not> P x)"
  by (induction xs) auto

lemma find_index_SomeD:
  "find_index P xs = Some i \<Longrightarrow> i < length xs \<and> P (xs ! i)"
  by (induction xs arbitrary: i) (auto split: if_splits)

lemma find_index_in_set: "find_index P xs = Some i \<Longrightarrow> xs ! i \<in> set xs"
  by (auto dest: find_index_SomeD)

lemma find_index_first: "find_index P xs = Some i \<Longrightarrow> j < i \<Longrightarrow> \<not> P (xs ! j)"
proof (induction xs arbitrary: i j)
  case (Cons x xs)
  then show ?case by (cases j) (auto split: if_splits)
qed simp

lemma find_index_Some_iff:
  "find_index P xs = Some i \<longleftrightarrow> i < length xs \<and> P (xs ! i) \<and> (\<forall>j<i. \<not> P (xs ! j))"
proof
  assume found: "i < length xs \<and> P (xs ! i) \<and> (\<forall>j<i. \<not> P (xs ! j))"
  then have "find_index P xs \<noteq> None" by (auto simp: find_index_None_iff)
  then obtain k where k: "find_index P xs = Some k" by blast
  then have "\<not> k < i" "\<not> i < k" using found find_index_SomeD [OF k] find_index_first [OF k] by auto
  with k show "find_index P xs = Some i" by simp
qed (use find_index_SomeD find_index_first in blast)

lemma find_index_append:
  "find_index P (xs @ ys) = (case find_index P xs of Some i \<Rightarrow> Some i
     | None \<Rightarrow> map_option (\<lambda>i. length xs + i) (find_index P ys))"
proof (induction xs)
  case Nil
  show ?case by (cases "find_index P ys") simp_all
next
  case (Cons x xs)
  then show ?case by (cases "find_index P xs"; cases "find_index P ys") auto
qed

text \<open>\<open>List.find\<close> and \<open>find_index\<close> agree.\<close>

lemma find_eq_find_index:
  "List.find P xs = map_option (\<lambda>i. xs ! i) (find_index P xs)"
  by (induction xs) (auto simp: option.map_comp comp_def)

text \<open>Arrays of records with a unique key.\<close>

lemma map_key_update:
  assumes "find_index (\<lambda>x. key x = k) xs = Some i" and "key y = k"
  shows "map key (xs[i := y]) = map key xs"
proof -
  from assms have "i < length xs" and "key (xs ! i) = k"
    by (auto dest: find_index_SomeD)
  with \<open>key y = k\<close> show ?thesis
    by (simp add: map_update list_update_same_conv)
qed

lemma set_update_keyed:
  assumes "distinct (map key xs)" and "find_index (\<lambda>x. key x = k) xs = Some i"
  shows "set (xs[i := y]) = insert y {x \<in> set xs. key x \<noteq> k}"
  using assms
proof (induction xs arbitrary: i)
  case (Cons x xs)
  show ?case
  proof (cases "key x = k")
    case True
    with Cons.prems have "i = 0" and "k \<notin> key ` set xs" by auto
    moreover from \<open>k \<notin> key ` set xs\<close> have "{z \<in> set xs. key z \<noteq> k} = set xs" by auto
    ultimately show ?thesis using True by auto
  next
    case False
    with Cons.prems obtain j where "i = Suc j" and "find_index (\<lambda>x. key x = k) xs = Some j"
      by auto
    with Cons.IH Cons.prems False show ?thesis by auto
  qed
qed simp

lemma keyed_unique:
  "distinct (map key xs) \<Longrightarrow> x \<in> set xs \<Longrightarrow> y \<in> set xs \<Longrightarrow> key x = key y \<Longrightarrow> x = y"
  by (auto simp: distinct_map inj_on_def)

lemma keyed_lookup:
  assumes "distinct (map key xs)" and "x \<in> set xs"
  shows "\<exists>i. find_index (\<lambda>y. key y = key x) xs = Some i \<and> xs ! i = x"
proof (cases "find_index (\<lambda>y. key y = key x) xs")
  case None
  with assms(2) show ?thesis by (auto simp: find_index_None_iff)
next
  case (Some i)
  then have "xs ! i \<in> set xs" and "key (xs ! i) = key x"
    by (auto dest: find_index_SomeD)
  with assms Some show ?thesis by (auto dest: keyed_unique)
qed

lemma distinct_keys_append:
  "distinct (map key xs) \<Longrightarrow> find_index (\<lambda>x. key x = k) xs = None \<Longrightarrow> key y = k
   \<Longrightarrow> distinct (map key (xs @ [y]))"
  by (auto simp: find_index_None_iff)

section \<open>Arrays whose records grow\<close>

text \<open>\<open>extends_by R xs ys\<close>: every record of \<open>xs\<close> is still there in \<open>ys\<close>, grown along \<open>R\<close>.\<close>

definition extends_by :: "('a \<Rightarrow> 'a \<Rightarrow> bool) \<Rightarrow> 'a list \<Rightarrow> 'a list \<Rightarrow> bool" where
  "extends_by R xs ys \<longleftrightarrow> (\<forall>x\<in>set xs. \<exists>y\<in>set ys. R x y)"

lemma extends_by_refl [simp]: "(\<And>x. R x x) \<Longrightarrow> extends_by R xs xs"
  unfolding extends_by_def by blast

lemma extends_by_append [simp]: "(\<And>x. R x x) \<Longrightarrow> extends_by R xs (xs @ ys)"
  unfolding extends_by_def set_append by blast

lemma extends_by_trans:
  assumes "\<And>x y z. R x y \<Longrightarrow> R y z \<Longrightarrow> R x z" and "extends_by R xs ys" and "extends_by R ys zs"
  shows "extends_by R xs zs"
  using assms unfolding extends_by_def by meson

lemma extends_by_update:
  assumes "\<And>x. R x x" and "i < length xs" and "R (xs ! i) x"
  shows "extends_by R xs (xs[i := x])"
  unfolding extends_by_def
proof
  fix y assume "y \<in> set xs"
  then obtain j where j: "j < length xs" "y = xs ! j" by (auto simp: in_set_conv_nth)
  then have "xs[i := x] ! j \<in> set (xs[i := x])" by (intro nth_mem) simp
  moreover have "R y (xs[i := x] ! j)"
    using j assms by (auto simp: nth_list_update)
  ultimately show "\<exists>z\<in>set (xs[i := x]). R y z" by blast
qed

text \<open>What a later record keeps: an optional field, once written, stays.\<close>

definition keeps :: "'a option \<Rightarrow> 'a option \<Rightarrow> bool" where
  "keeps a b \<longleftrightarrow> a = None \<or> a = b"

lemma keeps_refl [simp]: "keeps a a"
  and keeps_None [simp]: "keeps None b"
  by (simp_all add: keeps_def)

lemma keeps_trans: "keeps a b \<Longrightarrow> keeps b c \<Longrightarrow> keeps a c"
  by (auto simp: keeps_def)

section \<open>Insertion-ordered maps\<close>

text \<open>
  A JavaScript \<open>Map\<close> is an association list in insertion order: \<open>set\<close> on a present
  key keeps its position, on a new key appends.
\<close>

type_synonym ('k, 'v) jsmap = "('k \<times> 'v) list"

fun map_set :: "'k \<Rightarrow> 'v \<Rightarrow> ('k, 'v) jsmap \<Rightarrow> ('k, 'v) jsmap" where
  "map_set k v [] = [(k, v)]"
| "map_set k v ((k', v') # m) = (if k' = k then (k, v) # m else (k', v') # map_set k v m)"

abbreviation map_get :: "('k, 'v) jsmap \<Rightarrow> 'k \<Rightarrow> 'v option" where
  "map_get m k \<equiv> map_of m k"

lemma map_of_map_set: "map_of (map_set k v m) = (map_of m)(k \<mapsto> v)"
  by (induction k v m rule: map_set.induct) auto

lemma map_get_set [simp]: "map_get (map_set k v m) k' = (if k' = k then Some v else map_get m k')"
  by (simp add: map_of_map_set)

lemma map_set_keys: "fst ` set (map_set k v m) = insert k (fst ` set m)"
  by (induction k v m rule: map_set.induct) auto

lemma map_set_distinct: "distinct (map fst m) \<Longrightarrow> distinct (map fst (map_set k v m))"
proof (induction k v m rule: map_set.induct)
  case (2 k v k' v' m)
  then show ?case by (auto simp: map_set_keys image_iff)
qed simp

lemma map_set_length:
  "length (map_set k v m) = (if k \<in> fst ` set m then length m else Suc (length m))"
  by (induction k v m rule: map_set.induct) auto

lemma map_set_entries: "(k', v') \<in> set (map_set k v m) \<Longrightarrow> (k', v') = (k, v) \<or> (k', v') \<in> set m"
  by (induction k v m rule: map_set.induct) (auto split: if_splits)

section \<open>Sorting with a comparison\<close>

text \<open>\<open>xs.sort(compare)\<close>: a stable sort, where the comparison is consistent.\<close>

fun insert_by :: "('a \<Rightarrow> 'a \<Rightarrow> int) \<Rightarrow> 'a \<Rightarrow> 'a list \<Rightarrow> 'a list" where
  "insert_by compare x [] = [x]"
| "insert_by compare x (y # ys) = (if compare x y \<le> 0 then x # y # ys else y # insert_by compare x ys)"

definition sort_by :: "('a \<Rightarrow> 'a \<Rightarrow> int) \<Rightarrow> 'a list \<Rightarrow> 'a list" where
  "sort_by compare xs = foldr (insert_by compare) xs []"

lemma set_insert_by: "set (insert_by f x xs) = insert x (set xs)"
  by (induction f x xs rule: insert_by.induct) auto

lemma set_sort_by [simp]: "set (sort_by f xs) = set xs"
  unfolding sort_by_def by (induction xs) (simp_all add: set_insert_by)

end
