(* ===== verification/Json.thy ===== *)
theory Json
  imports Complex_Main Prelude "HOL-Library.Char_ord" "HOL-Library.List_Lexorder"
begin

text \<open>
  The values the program exchanges: JSON values as \<open>JSON.parse\<close> produces them, the
  equality tests of src/json-equality.ts and src/conversation/event-store.ts, and
  \<open>JSON.stringify\<close> with the UTF-8 length the size limits use.

  A JavaScript string is a list of UTF-16 code units. The type \<open>string\<close> of the model
  holds the code units below 256; \<open>utf8_units\<close> is the length of any list of code
  units, surrogate pairs included, and \<open>utf8ByteLength\<close> applies it to a string.
  An object is a list of fields in enumeration order, with distinct names
  (\<open>wf_json\<close>). A number is a finite rational, an infinity (\<open>JSON.parse\<close> returns one
  for a literal out of range) or NaN; the sign of zero is not modelled.
\<close>

section \<open>Values\<close>

datatype jsnumber = Fin rat | Infinite bool | NaN

datatype json =
    JNull
  | JBool bool
  | JNum jsnumber
  | JStr string
  | JArr "json list"
  | JObj "(string \<times> json) list"

text \<open>Objects have distinct field names, at every depth.\<close>

fun wf_json :: "json \<Rightarrow> bool" where
  "wf_json (JArr xs) = list_all wf_json xs"
| "wf_json (JObj kvs) = (distinct (map fst kvs) \<and> list_all (\<lambda>kv. wf_json (snd kv)) kvs)"
| "wf_json _ = True"

text \<open>\<open>Number.isFinite\<close>, \<open>Number.isSafeInteger\<close> and numbers that are integers.\<close>

fun isFinite :: "jsnumber \<Rightarrow> bool" where
  "isFinite (Fin q) = True"
| "isFinite _ = False"

definition max_safe_integer :: int where
  "max_safe_integer = 9007199254740991"

definition safe_int :: "int \<Rightarrow> bool" where
  "safe_int n \<longleftrightarrow> - max_safe_integer \<le> n \<and> n \<le> max_safe_integer"

fun isSafeInteger :: "jsnumber \<Rightarrow> bool" where
  "isSafeInteger (Fin q) = (q = of_int \<lfloor>q\<rfloor> \<and> safe_int \<lfloor>q\<rfloor>)"
| "isSafeInteger _ = False"

definition jint :: "int \<Rightarrow> json" where
  "jint n = JNum (Fin (of_int n))"

fun int_of_number :: "jsnumber \<Rightarrow> int" where
  "int_of_number (Fin q) = \<lfloor>q\<rfloor>"
| "int_of_number _ = 0"

lemma isSafeInteger_of_int [simp]: "isSafeInteger (Fin (of_int n)) = safe_int n"
  by simp

lemma isSafeInteger_int:
  "isSafeInteger n \<Longrightarrow> n = Fin (of_int (int_of_number n)) \<and> safe_int (int_of_number n)"
  by (cases n) auto

text \<open>Reading a field: \<open>Object.hasOwn\<close> and \<open>value.field\<close>.\<close>

abbreviation obj_get :: "(string \<times> json) list \<Rightarrow> string \<Rightarrow> json option" where
  "obj_get kvs k \<equiv> map_of kvs k"

abbreviation has_own :: "(string \<times> json) list \<Rightarrow> string \<Rightarrow> bool" where
  "has_own kvs k \<equiv> map_of kvs k \<noteq> None"

section \<open>Equality\<close>

text \<open>\<open>===\<close> on numbers: NaN differs from itself.\<close>

fun number_eq :: "jsnumber \<Rightarrow> jsnumber \<Rightarrow> bool" where
  "number_eq NaN _ = False"
| "number_eq _ NaN = False"
| "number_eq a b = (a = b)"

lemma obj_get_size: "map_of kvs k = Some v \<Longrightarrow> size v < Suc (size_list (size_prod (\<lambda>_. 0) size) kvs)"
  by (induction kvs) (auto split: if_splits)

text \<open>\<open>jsonEqual\<close> of src/conversation/event-store.ts.\<close>

fun jsonEqual :: "json \<Rightarrow> json \<Rightarrow> bool" where
  "jsonEqual JNull JNull = True"
| "jsonEqual (JBool a) (JBool b) = (a = b)"
| "jsonEqual (JNum a) (JNum b) = number_eq a b"
| "jsonEqual (JStr a) (JStr b) = (a = b)"
| "jsonEqual (JArr xs) (JArr ys) = (length xs = length ys \<and> list_all2 jsonEqual xs ys)"
| "jsonEqual (JObj l) (JObj r) =
     (length l = length r \<and>
      list_all (\<lambda>kv. case obj_get r (fst kv) of None \<Rightarrow> False | Some w \<Rightarrow> jsonEqual (snd kv) w) l)"
| "jsonEqual _ _ = False"

text \<open>\<open>jsonValuesEqual\<close> of src/json-equality.ts: \<open>Object.is\<close> on the leaves, sorted keys.\<close>

fun jsonValuesEqual :: "json \<Rightarrow> json \<Rightarrow> bool" where
  "jsonValuesEqual JNull JNull = True"
| "jsonValuesEqual (JBool a) (JBool b) = (a = b)"
| "jsonValuesEqual (JNum a) (JNum b) = (a = b)"
| "jsonValuesEqual (JStr a) (JStr b) = (a = b)"
| "jsonValuesEqual (JArr xs) (JArr ys) =
     (length xs = length ys \<and> list_all2 jsonValuesEqual xs ys)"
| "jsonValuesEqual (JObj l) (JObj r) =
     (length l = length r \<and> sort (map fst l) = sort (map fst r) \<and>
      list_all (\<lambda>kv. case obj_get r (fst kv) of None \<Rightarrow> False
                      | Some w \<Rightarrow> jsonValuesEqual (snd kv) w) l)"
| "jsonValuesEqual _ _ = False"

section \<open>Serialization\<close>

text \<open>
  What the host platform supplies: the URL parser (see Citations) and the decimal form of
  a number that is not an integer. Both are parameters of the model.
\<close>

record parsed_url =
  url_protocol :: string
  url_username :: string
  url_password :: string
  url_search_params :: "(string \<times> string) list"
  url_hash_params :: "(string \<times> string) list"
  url_hostname :: string
  url_href :: string

record host =
  parse_url :: "string \<Rightarrow> parsed_url option"
  fraction_string :: "rat \<Rightarrow> string"

fun nat_digits :: "nat \<Rightarrow> string" where
  "nat_digits n = (if n < 10 then [char_of (48 + n)]
                   else nat_digits (n div 10) @ [char_of (48 + n mod 10)])"

declare nat_digits.simps [simp del]

definition int_string :: "int \<Rightarrow> string" where
  "int_string n = (if n < 0 then CHR ''-'' # nat_digits (nat (- n)) else nat_digits (nat n))"

fun number_string :: "host \<Rightarrow> jsnumber \<Rightarrow> string" where
  "number_string H (Fin q) =
     (if q = of_int \<lfloor>q\<rfloor> then int_string \<lfloor>q\<rfloor> else fraction_string H q)"
| "number_string H _ = ''null''"

definition hex_digit :: "nat \<Rightarrow> char" where
  "hex_digit n = (if n < 10 then char_of (48 + n) else char_of (87 + n))"

text \<open>The escapes of \<open>JSON.stringify\<close> for one code unit.\<close>

definition escape_char :: "char \<Rightarrow> string" where
  "escape_char c =
     (let n = of_char c :: nat in
      if n = 34 then [CHR 0x5C, CHR 0x22]
      else if n = 92 then [CHR 0x5C, CHR 0x5C]
      else if n = 8 then [CHR 0x5C, CHR ''b'']
      else if n = 9 then [CHR 0x5C, CHR ''t'']
      else if n = 10 then [CHR 0x5C, CHR ''n'']
      else if n = 12 then [CHR 0x5C, CHR ''f'']
      else if n = 13 then [CHR 0x5C, CHR ''r'']
      else if n < 32 then CHR 0x5C # ''u00'' @ [hex_digit (n div 16), hex_digit (n mod 16)]
      else [c])"

definition quote :: "string \<Rightarrow> string" where
  "quote s = [CHR 0x22] @ concat (map escape_char s) @ [CHR 0x22]"

fun join_with :: "string \<Rightarrow> string list \<Rightarrow> string" where
  "join_with sep [] = []"
| "join_with sep [x] = x"
| "join_with sep (x # y # ys) = x @ sep @ join_with sep (y # ys)"

fun stringify :: "host \<Rightarrow> json \<Rightarrow> string" where
  "stringify H JNull = ''null''"
| "stringify H (JBool b) = (if b then ''true'' else ''false'')"
| "stringify H (JNum n) = number_string H n"
| "stringify H (JStr s) = quote s"
| "stringify H (JArr xs) = ''['' @ join_with '','' (map (stringify H) xs) @ '']''"
| "stringify H (JObj kvs) =
     ''{'' @ join_with '','' (map (\<lambda>kv. quote (fst kv) @ '':'' @ stringify H (snd kv)) kvs) @ ''}''"

text \<open>
  \<open>utf8ByteLength\<close> of src/conversation/events.ts (and its copy in replay.ts), over UTF-16
  code units: a surrogate pair is four bytes, a lone surrogate three.
\<close>

fun utf8_units :: "nat list \<Rightarrow> nat" where
  "utf8_units [] = 0"
| "utf8_units (c # cs) =
     (if c \<le> 0x7f then 1 + utf8_units cs
      else if c \<le> 0x7ff then 2 + utf8_units cs
      else if 0xd800 \<le> c \<and> c \<le> 0xdbff then
        (case cs of
           d # ds \<Rightarrow> if 0xdc00 \<le> d \<and> d \<le> 0xdfff then 4 + utf8_units ds
                     else 3 + utf8_units cs
         | [] \<Rightarrow> 3 + utf8_units cs)
      else 3 + utf8_units cs)"

definition utf8ByteLength :: "string \<Rightarrow> nat" where
  "utf8ByteLength s = utf8_units (map of_char s)"

section \<open>The byte length is the length of the UTF-8 encoding\<close>

text \<open>
  The reference: UTF-16 is decoded to scalar values, a lone surrogate becoming U+FFFD as
  an encoder replaces it, and each scalar value is encoded in one to four bytes.
\<close>

fun utf16_scalars :: "nat list \<Rightarrow> nat list" where
  "utf16_scalars [] = []"
| "utf16_scalars [c] = [if 0xd800 \<le> c \<and> c \<le> 0xdfff then 0xfffd else c]"
| "utf16_scalars (c # d # cs) =
     (if 0xd800 \<le> c \<and> c \<le> 0xdbff \<and> 0xdc00 \<le> d \<and> d \<le> 0xdfff
      then (0x10000 + (c - 0xd800) * 0x400 + (d - 0xdc00)) # utf16_scalars cs
      else if 0xd800 \<le> c \<and> c \<le> 0xdfff then 0xfffd # utf16_scalars (d # cs)
      else c # utf16_scalars (d # cs))"

definition utf8_encode :: "nat \<Rightarrow> nat list" where
  "utf8_encode n =
     (if n < 0x80 then [n]
      else if n < 0x800 then [0xc0 + n div 0x40, 0x80 + n mod 0x40]
      else if n < 0x10000 then
        [0xe0 + n div 0x1000, 0x80 + n div 0x40 mod 0x40, 0x80 + n mod 0x40]
      else [0xf0 + n div 0x40000, 0x80 + n div 0x1000 mod 0x40,
            0x80 + n div 0x40 mod 0x40, 0x80 + n mod 0x40])"

lemma utf8_encode_length:
  "length (utf8_encode n) =
     (if n < 0x80 then 1 else if n < 0x800 then 2 else if n < 0x10000 then 3 else 4)"
  by (simp add: utf8_encode_def)

lemma utf8_units_reference:
  assumes "\<forall>u\<in>set us. u < 0x10000"
  shows "utf8_units us = length (concat (map utf8_encode (utf16_scalars us)))"
  using assms
proof (induction us rule: utf16_scalars.induct)
  case 1
  show ?case by simp
next
  case (2 c)
  then show ?case by (auto simp: utf8_encode_length)
next
  case (3 c d cs)
  show ?case
  proof (cases "0xd800 \<le> c \<and> c \<le> 0xdbff \<and> 0xdc00 \<le> d \<and> d \<le> 0xdfff")
    case True
    then show ?thesis using 3 by (simp add: utf8_encode_length)
  next
    case not_pair: False
    show ?thesis
    proof (cases "0xd800 \<le> c \<and> c \<le> 0xdfff")
      case True
      then show ?thesis using 3 not_pair by (auto simp: utf8_encode_length)
    next
      case False
      then show ?thesis using 3 not_pair by (auto simp: utf8_encode_length)
    qed
  qed
qed

end
