(* ===== verification/Text.thy ===== *)
theory Text
  imports Json
begin

text \<open>
  The string tests of the validators: character classes, trimming, and the regular
  expressions of src/conversation/events.ts and src/citations.ts, each written as the
  set of positions and character runs it matches. Case-insensitive patterns compare
  ASCII letters without their case. A validation failure carries the path and the
  message of the error the source throws.
\<close>

type_synonym fault = "string \<times> string"

definition fail :: "string \<Rightarrow> string \<Rightarrow> fault + 'a" where
  "fail path message = Inl (path, message)"

lemma fail_not_Inr [simp]: "fail p m = Inr x \<longleftrightarrow> False"
  by (simp add: fail_def)

section \<open>Character classes\<close>

definition code :: "char \<Rightarrow> nat" where
  "code c = of_char c"

definition lower :: "char \<Rightarrow> char" where
  "lower c = (if 65 \<le> code c \<and> code c \<le> 90 then char_of (code c + 32) else c)"

definition is_digit_char :: "char \<Rightarrow> bool" where
  "is_digit_char c \<longleftrightarrow> 48 \<le> code c \<and> code c \<le> 57"

definition is_lower_char :: "char \<Rightarrow> bool" where
  "is_lower_char c \<longleftrightarrow> 97 \<le> code c \<and> code c \<le> 122"

definition is_letter_char :: "char \<Rightarrow> bool" where
  "is_letter_char c \<longleftrightarrow> is_lower_char (lower c)"

definition is_alnum :: "char \<Rightarrow> bool" where
  "is_alnum c \<longleftrightarrow> is_letter_char c \<or> is_digit_char c"

definition is_word_char :: "char \<Rightarrow> bool" where
  "is_word_char c \<longleftrightarrow> is_alnum c \<or> c = CHR ''_''"

text \<open>White space and line terminators (the units below 256 of \<open>\s\<close> and \<open>trim\<close>).\<close>

definition is_space :: "char \<Rightarrow> bool" where
  "is_space c \<longleftrightarrow> code c \<in> {9, 10, 11, 12, 13, 32, 160}"

definition is_control :: "char \<Rightarrow> bool" where
  "is_control c \<longleftrightarrow> code c \<le> 31 \<or> code c = 127"

definition trim :: "string \<Rightarrow> string" where
  "trim s = rev (dropWhile is_space (rev (dropWhile is_space s)))"

text \<open>\<open>value.toLowerCase().replace(/[^a-z0-9]/g, "")\<close>.\<close>

definition normalizeFieldName :: "string \<Rightarrow> string" where
  "normalizeFieldName s = filter (\<lambda>c. is_lower_char c \<or> is_digit_char c) (map lower s)"

section \<open>Matching\<close>

text \<open>A literal, compared without case; the literal is given in lower case.\<close>

fun strip_ci :: "string \<Rightarrow> string \<Rightarrow> string option" where
  "strip_ci [] s = Some s"
| "strip_ci (p # ps) [] = None"
| "strip_ci (p # ps) (c # s) = (if lower c = p then strip_ci ps s else None)"

text \<open>A search from every position; the test sees the preceding unit, if any.\<close>

fun any_position :: "(char option \<Rightarrow> string \<Rightarrow> bool) \<Rightarrow> char option \<Rightarrow> string \<Rightarrow> bool" where
  "any_position P prev [] = P prev []"
| "any_position P prev (c # s) = (P prev (c # s) \<or> any_position P (Some c) s)"

definition starts_word :: "char option \<Rightarrow> bool" where
  "starts_word prev \<longleftrightarrow> (case prev of None \<Rightarrow> True | Some c \<Rightarrow> \<not> is_word_char c)"

definition unit_at :: "string \<Rightarrow> nat \<Rightarrow> char option" where
  "unit_at s i = (if i < length s then Some (s ! i) else None)"

definition word_boundary_at :: "string \<Rightarrow> nat \<Rightarrow> bool" where
  "word_boundary_at s i \<longleftrightarrow>
     (case unit_at s (i - 1) of None \<Rightarrow> False | Some c \<Rightarrow> is_word_char c) \<noteq>
     (case unit_at s i of None \<Rightarrow> False | Some c \<Rightarrow> is_word_char c)"

text \<open>\<open>/\bbearer\s+[a-z0-9._~+/=-]{8,}/i\<close>\<close>

definition bearer_at :: "char option \<Rightarrow> string \<Rightarrow> bool" where
  "bearer_at prev s \<longleftrightarrow> starts_word prev \<and>
     (case strip_ci ''bearer'' s of None \<Rightarrow> False
      | Some r \<Rightarrow> takeWhile is_space r \<noteq> [] \<and>
          8 \<le> length (takeWhile (\<lambda>c. is_alnum c \<or> c \<in> set ''._~+/=-'') (dropWhile is_space r)))"

text \<open>The tail \<open>[a-z0-9_-]{8,}\b\<close> after \<open>sk-\<close>.\<close>

definition secret_tail :: "string \<Rightarrow> bool" where
  "secret_tail r \<longleftrightarrow>
     list_ex (word_boundary_at r)
       [8..<Suc (length (takeWhile (\<lambda>c. is_alnum c \<or> c \<in> set ''_-'') r))]"

text \<open>\<open>/\bsk-[a-z0-9_-]{8,}\b/i\<close> (events) and \<open>/(?:^|[^a-z0-9])sk-[a-z0-9_-]{8,}\b/i\<close> (citations)\<close>

definition secret_key_at :: "(char option \<Rightarrow> bool) \<Rightarrow> char option \<Rightarrow> string \<Rightarrow> bool" where
  "secret_key_at start prev s \<longleftrightarrow> start prev \<and>
     (case strip_ci ''sk-'' s of None \<Rightarrow> False | Some r \<Rightarrow> secret_tail r)"

definition after_non_alnum :: "char option \<Rightarrow> bool" where
  "after_non_alnum prev \<longleftrightarrow> (case prev of None \<Rightarrow> True | Some c \<Rightarrow> \<not> is_alnum c)"

text \<open>\<open>/-----begin (?:rsa |ec |openssh )?private key-----/i\<close>\<close>

definition private_key_at :: "char option \<Rightarrow> string \<Rightarrow> bool" where
  "private_key_at prev s \<longleftrightarrow>
     list_ex (\<lambda>kind. strip_ci (''-----begin '' @ kind @ ''private key-----'') s \<noteq> None)
       ['''', ''rsa '', ''ec '', ''openssh '']"

definition matches_anywhere :: "(char option \<Rightarrow> string \<Rightarrow> bool) \<Rightarrow> string \<Rightarrow> bool" where
  "matches_anywhere P s \<longleftrightarrow> any_position P None s"

text \<open>\<open>CREDENTIAL_VALUE_PATTERNS.some((pattern) => pattern.test(value))\<close> of events.ts.\<close>

definition has_credential :: "string \<Rightarrow> bool" where
  "has_credential s \<longleftrightarrow>
     matches_anywhere bearer_at s \<or>
     matches_anywhere (secret_key_at starts_word) s \<or>
     matches_anywhere private_key_at s"

text \<open>The same of citations.ts.\<close>

definition citation_has_credential :: "string \<Rightarrow> bool" where
  "citation_has_credential s \<longleftrightarrow>
     matches_anywhere bearer_at s \<or>
     matches_anywhere (secret_key_at after_non_alnum) s \<or>
     matches_anywhere private_key_at s"

text \<open>\<open>APPROVAL_BINARY_VALUE_PATTERNS\<close>: a base64 data URL, or 256 base64 digits and more.\<close>

definition base64_data_url :: "string \<Rightarrow> bool" where
  "base64_data_url s \<longleftrightarrow>
     (case strip_ci ''data:'' s of None \<Rightarrow> False
      | Some r \<Rightarrow> list_ex (\<lambda>k. k \<le> length r \<and> CHR '','' \<notin> set (take k r) \<and>
                         strip_ci '';base64,'' (drop k r) \<noteq> None) [1..<257])"

definition base64_digits :: "string \<Rightarrow> bool" where
  "base64_digits s \<longleftrightarrow>
     (let body = takeWhile (\<lambda>c. is_alnum c \<or> c \<in> set ''+/'') s;
          rest = dropWhile (\<lambda>c. is_alnum c \<or> c \<in> set ''+/'') s
      in 256 \<le> length body \<and> rest \<in> {'''', ''='', ''==''})"

definition has_binary_content :: "string \<Rightarrow> bool" where
  "has_binary_content s \<longleftrightarrow> base64_data_url s \<or> base64_digits s"

text \<open>\<open>value.includes("://")\<close>.\<close>

definition includes_scheme :: "string \<Rightarrow> bool" where
  "includes_scheme s \<longleftrightarrow> matches_anywhere (\<lambda>_ t. take 3 t = ''://'') s"

text \<open>A first unit of one class and the rest of another, the form of the identifier patterns.\<close>

definition first_and_rest :: "(char \<Rightarrow> bool) \<Rightarrow> (char \<Rightarrow> bool) \<Rightarrow> string \<Rightarrow> bool" where
  "first_and_rest P Q s \<longleftrightarrow> (case s of [] \<Rightarrow> False | c # t \<Rightarrow> P c \<and> list_all Q t)"

end
