(* ===== verification/Citations.thy ===== *)
theory Citations
  imports Text
begin

text \<open>
  Structured citations (src/citations.ts): the record types, the strict normalization
  of untrusted sources and links, the non-public address tests, and the deduplication
  of a record set by identity. The URL parser is the host's (\<open>parse_url\<close>): the code
  checks the parts it returns and keeps its serialization.
\<close>

section \<open>Records\<close>

datatype CitationSourceType = WebSource | DocumentSource | ToolSource

record CitationSource =
  source_id :: string
  source_type :: CitationSourceType
  label :: string
  locator :: "string option"

datatype CitationAttachmentTarget =
    AssistantMessageCitationTarget string
  | ToolResultCitationTarget string

record Citation =
  citation_id :: string
  cited_source_id :: string
  citation_order :: int
  citation_target :: CitationAttachmentTarget

record CitationRecordSet =
  sources :: "CitationSource list"
  citations :: "Citation list"

definition sourcesPerRecordSet :: nat where "sourcesPerRecordSet = 64"
definition citationsPerRecordSet :: nat where "citationsPerRecordSet = 256"
definition identifierLength :: nat where "identifierLength = 256"
definition labelLength :: nat where "labelLength = 512"
definition locatorLength :: nat where "locatorLength = 2048"
definition totalSerializedUtf8Bytes :: nat where "totalSerializedUtf8Bytes = 131072"

lemmas citation_limits = sourcesPerRecordSet_def citationsPerRecordSet_def
  identifierLength_def labelLength_def locatorLength_def totalSerializedUtf8Bytes_def

text \<open>The JSON form of the records, fields in the order the code writes them.\<close>

fun source_type_string :: "CitationSourceType \<Rightarrow> string" where
  "source_type_string WebSource = ''web''"
| "source_type_string DocumentSource = ''document''"
| "source_type_string ToolSource = ''tool''"

definition source_json :: "CitationSource \<Rightarrow> json" where
  "source_json s = JObj
     ([(''source_id'', JStr (source_id s)), (''type'', JStr (source_type_string (source_type s))),
       (''label'', JStr (label s))]
      @ (case locator s of None \<Rightarrow> [] | Some l \<Rightarrow> [(''locator'', JStr l)]))"

fun target_json :: "CitationAttachmentTarget \<Rightarrow> json" where
  "target_json (AssistantMessageCitationTarget m) =
     JObj [(''type'', JStr ''assistant_message''), (''message_id'', JStr m)]"
| "target_json (ToolResultCitationTarget t) =
     JObj [(''type'', JStr ''tool_result''), (''tool_call_id'', JStr t)]"

definition citation_json :: "Citation \<Rightarrow> json" where
  "citation_json c = JObj
     [(''citation_id'', JStr (citation_id c)), (''source_id'', JStr (cited_source_id c)),
      (''order'', jint (citation_order c)), (''target'', target_json (citation_target c))]"

definition records_json :: "CitationRecordSet \<Rightarrow> json" where
  "records_json r = JObj [(''sources'', JArr (map source_json (sources r))),
                          (''citations'', JArr (map citation_json (citations r)))]"

section \<open>Shape checks\<close>

text \<open>\<open>record\<close>: a JSON object (other JavaScript objects are not JSON values).\<close>

definition citation_record :: "json \<Rightarrow> string \<Rightarrow> fault + (string \<times> json) list" where
  "citation_record v path =
     (case v of JObj kvs \<Rightarrow> Inr kvs | _ \<Rightarrow> fail path ''must be a plain JSON object'')"

definition allowedKeys :: "(string \<times> json) list \<Rightarrow> string list \<Rightarrow> string \<Rightarrow> fault + unit" where
  "allowedKeys kvs keys path =
     each (\<lambda>kv. guard (fst kv \<in> set keys) (path @ ''.'' @ fst kv, ''is not a supported field'')) kvs"

definition requiredKeys :: "(string \<times> json) list \<Rightarrow> string list \<Rightarrow> string \<Rightarrow> fault + unit" where
  "requiredKeys kvs keys path =
     each (\<lambda>key. guard (has_own kvs key) (path @ ''.'' @ key, ''is required'')) keys"

definition boundedString :: "json option \<Rightarrow> string \<Rightarrow> nat \<Rightarrow> fault + string" where
  "boundedString v path maxLength =
     (case v of
        Some (JStr raw) \<Rightarrow>
          if length raw > maxLength
          then fail path (''must be at most '' @ nat_digits maxLength @ '' characters'')
          else (let normalized = trim raw in
            if normalized = [] then fail path ''must not be empty''
            else if list_ex is_control normalized
            then fail path ''must not contain control characters''
            else if citation_has_credential normalized
            then fail path ''must not contain credential material''
            else Inr normalized)
      | _ \<Rightarrow> fail path ''must be a string'')"

definition citation_identifier :: "json option \<Rightarrow> string \<Rightarrow> fault + string" where
  "citation_identifier v path =
     bind_result (boundedString v path identifierLength) (\<lambda>normalized.
       if first_and_rest is_alnum (\<lambda>c. is_alnum c \<or> c \<in> set ''._:@-'') normalized
       then Inr normalized
       else fail path
         ''must use letters, numbers, dot, underscore, colon, at-sign, or hyphen'')"

definition source_type_of :: "json option \<Rightarrow> string \<Rightarrow> fault + CitationSourceType" where
  "source_type_of v path =
     (if v = Some (JStr ''web'') then Inr WebSource
      else if v = Some (JStr ''document'') then Inr DocumentSource
      else if v = Some (JStr ''tool'') then Inr ToolSource
      else fail path ''must be one of: web, document, tool'')"

section \<open>Non-public addresses\<close>

fun split_on :: "char \<Rightarrow> string \<Rightarrow> string list" where
  "split_on sep [] = [[]]"
| "split_on sep (c # s) =
     (if c = sep then [] # split_on sep s
      else (case split_on sep s of [] \<Rightarrow> [[c]] | p # ps \<Rightarrow> (c # p) # ps))"

definition decimal_value :: "string \<Rightarrow> nat" where
  "decimal_value s = foldl (\<lambda>n c. n * 10 + (code c - 48)) 0 s"

definition parseIpv4 :: "string \<Rightarrow> nat list option" where
  "parseIpv4 hostname =
     (let parts = split_on (CHR ''.'') hostname in
      if length parts \<noteq> 4 then None
      else if list_all (\<lambda>p. 1 \<le> length p \<and> length p \<le> 3 \<and> list_all is_digit_char p \<and>
                            decimal_value p \<le> 255) parts
      then Some (map decimal_value parts) else None)"

definition isUnsafeIpv4 :: "nat list \<Rightarrow> bool" where
  "isUnsafeIpv4 octets =
     (case octets of
        first # second # _ \<Rightarrow>
          first = 0 \<or> first = 10 \<or> first = 127 \<or>
          (first = 100 \<and> 64 \<le> second \<and> second \<le> 127) \<or>
          (first = 169 \<and> second = 254) \<or>
          (first = 172 \<and> 16 \<le> second \<and> second \<le> 31) \<or>
          (first = 192 \<and> second = 168) \<or>
          (first = 198 \<and> (second = 18 \<or> second = 19)) \<or>
          224 \<le> first
      | _ \<Rightarrow> False)"

text \<open>\<open>split("::")\<close>: separators are found from the left and do not overlap.\<close>

fun split_double_colon :: "string \<Rightarrow> string list" where
  "split_double_colon [] = [[]]"
| "split_double_colon [c] = [[c]]"
| "split_double_colon (c # d # s) =
     (if c = CHR '':'' \<and> d = CHR '':'' then [] # split_double_colon s
      else (case split_double_colon (d # s) of [] \<Rightarrow> [[c]] | p # ps \<Rightarrow> (c # p) # ps))"

definition hex_value :: "char \<Rightarrow> nat" where
  "hex_value c = (if is_digit_char c then code c - 48 else code (lower c) - 87)"

definition is_hex :: "char \<Rightarrow> bool" where
  "is_hex c \<longleftrightarrow> is_digit_char c \<or> (97 \<le> code (lower c) \<and> code (lower c) \<le> 102)"

definition is_hextet :: "string \<Rightarrow> bool" where
  "is_hextet p \<longleftrightarrow> 1 \<le> length p \<and> length p \<le> 4 \<and> list_all is_hex p"

definition hextet_value :: "string \<Rightarrow> nat" where
  "hextet_value p = foldl (\<lambda>n c. n * 16 + hex_value c) 0 p"

definition unwrap_brackets :: "string \<Rightarrow> string" where
  "unwrap_brackets h =
     (if h \<noteq> [] \<and> hd h = CHR ''['' \<and> last h = CHR '']'' then butlast (tl h) else h)"

definition parseIpv6 :: "string \<Rightarrow> nat option" where
  "parseIpv6 hostname =
     (let unwrapped = unwrap_brackets hostname in
      if CHR '':'' \<notin> set unwrapped then None
      else (let halves = split_double_colon unwrapped in
        if length halves > 2 then None
        else (let left = (if halves ! 0 = [] then [] else split_on (CHR '':'') (halves ! 0));
                  right = (if length halves = 1 \<or> halves ! 1 = [] then []
                           else split_on (CHR '':'') (halves ! 1));
                  missing = 8 - int (length left) - int (length right)
          in if list_ex (\<lambda>p. \<not> is_hextet p) left then None
             else if list_ex (\<lambda>p. \<not> is_hextet p) right then None
             else if (length halves = 1 \<and> missing \<noteq> 0) \<or> (length halves = 2 \<and> missing < 1)
             then None
             else (let segments = left @ replicate (nat missing) ''0'' @ right in
               if length segments \<noteq> 8 then None
               else Some (foldl (\<lambda>n p. n * 65536 + hextet_value p) 0 segments)))))"

text \<open>
  The masks select prefixes of the 128-bit address: the first ten bits of a link-local
  address, the first seven of a unique-local one, all but the last 32 of a mapped one.
\<close>

definition isUnsafeIpv6 :: "nat \<Rightarrow> bool" where
  "isUnsafeIpv6 address \<longleftrightarrow>
     address = 0 \<or> address = 1 \<or>
     address div 2 ^ 118 = 0xfe80 div 2 ^ 6 \<or>
     address div 2 ^ 121 = 0xfc00 div 2 ^ 9 \<or>
     ((address div 2 ^ 32 = 0 \<or> address div 2 ^ 32 = 0xffff) \<and>
      isUnsafeIpv4 [address div 2 ^ 24 mod 256, address div 2 ^ 16 mod 256,
                    address div 2 ^ 8 mod 256, address mod 256])"

section \<open>Locators\<close>

definition credential_query_parameters :: "string list" where
  "credential_query_parameters =
     [''accesstoken'', ''apikey'', ''auth'', ''authorization'', ''clientsecret'',
      ''credential'', ''key'', ''password'', ''passwd'', ''secret'', ''sig'',
      ''signature'', ''token'']"

definition credential_parameter :: "string \<times> string \<Rightarrow> bool" where
  "credential_parameter nv \<longleftrightarrow>
     normalizeFieldName (fst nv) \<in> set credential_query_parameters \<or>
     citation_has_credential (snd nv)"

definition ends_with :: "string \<Rightarrow> string \<Rightarrow> bool" where
  "ends_with s t \<longleftrightarrow> length t \<le> length s \<and> drop (length s - length t) s = t"

definition public_hostname :: "string \<Rightarrow> string" where
  "public_hostname h =
     (let l = map lower h in if ends_with l ''.'' then butlast l else l)"

definition normalizeWebLocator :: "host \<Rightarrow> json option \<Rightarrow> string \<Rightarrow> fault + string" where
  "normalizeWebLocator H v path =
     bind_result (boundedString v path locatorLength) (\<lambda>raw.
     case parse_url H raw of
       None \<Rightarrow> fail path ''must be a valid absolute URL''
     | Some url \<Rightarrow>
         if url_protocol url \<noteq> ''http:'' \<and> url_protocol url \<noteq> ''https:''
         then fail path ''must use one of: http:, https:''
         else if url_username url \<noteq> [] \<or> url_password url \<noteq> []
         then fail path ''must not contain credentials''
         else if list_ex credential_parameter (url_search_params url @ url_hash_params url)
         then fail path ''must not contain credential query parameters or fragments''
         else (let hostname = public_hostname (url_hostname url) in
           if hostname = ''localhost'' \<or> ends_with hostname ''.localhost''
           then fail path ''must not target localhost''
           else if (case parseIpv4 hostname of None \<Rightarrow> False | Some o4 \<Rightarrow> isUnsafeIpv4 o4)
           then fail path ''must not target a private or non-public IPv4 address''
           else if (case parseIpv6 hostname of None \<Rightarrow> False | Some a6 \<Rightarrow> isUnsafeIpv6 a6)
           then fail path ''must not target a private or non-public IPv6 address''
           else if length (url_href url) > locatorLength
           then fail path (''must normalize to at most '' @ nat_digits locatorLength
                           @ '' characters'')
           else Inr (url_href url)))"

text \<open>\<open>/(?:^|[?&#;])(?:access[_-]?token|...)=/i\<close> of \<open>normalizeOpaqueLocator\<close>.\<close>

definition credential_locator_names :: "string list" where
  "credential_locator_names =
     [''access_token'', ''access-token'', ''accesstoken'', ''api_key'', ''api-key'', ''apikey'',
      ''authorization'', ''client_secret'', ''client-secret'', ''clientsecret'',
      ''credential'', ''password'', ''passwd'', ''secret'', ''sig'', ''signature'', ''token'']"

definition credential_locator_at :: "char option \<Rightarrow> string \<Rightarrow> bool" where
  "credential_locator_at prev s \<longleftrightarrow>
     (case prev of None \<Rightarrow> True | Some c \<Rightarrow> c \<in> set ''?&#;'') \<and>
     list_ex (\<lambda>name. strip_ci (name @ ''='') s \<noteq> None) credential_locator_names"

definition normalizeOpaqueLocator :: "json option \<Rightarrow> string \<Rightarrow> fault + string" where
  "normalizeOpaqueLocator v path =
     bind_result (boundedString v path locatorLength) (\<lambda>l.
       if \<not> first_and_rest is_alnum (\<lambda>c. is_alnum c \<or> c \<in> set ''._:@/#?=&%+~-'') l \<or>
          includes_scheme l
       then fail path ''must be a bounded provider-neutral opaque locator''
       else if matches_anywhere credential_locator_at l
       then fail path ''must not contain credential parameters''
       else Inr l)"

section \<open>One source, one link\<close>

definition normalizeCitationSource :: "host \<Rightarrow> json \<Rightarrow> fault + CitationSource" where
  "normalizeCitationSource H input =
     bind_result (citation_record input ''$source'') (\<lambda>src.
     bind_result (requiredKeys src [''source_id'', ''type'', ''label''] ''$source'') (\<lambda>_.
     bind_result (allowedKeys src [''source_id'', ''type'', ''label'', ''locator''] ''$source'') (\<lambda>_.
     bind_result (citation_identifier (obj_get src ''source_id'') ''$source.source_id'') (\<lambda>sid.
     bind_result (source_type_of (obj_get src ''type'') ''$source.type'') (\<lambda>ty.
     bind_result (boundedString (obj_get src ''label'') ''$source.label'' labelLength) (\<lambda>lab.
     bind_result (if has_own src ''locator''
         then bind_result
           (if ty = WebSource
            then normalizeWebLocator H (obj_get src ''locator'') ''$source.locator''
            else normalizeOpaqueLocator (obj_get src ''locator'') ''$source.locator'')
           (\<lambda>l. Inr (Some l))
         else Inr None) (\<lambda>loc.
       Inr \<lparr>source_id = sid, source_type = ty, label = lab, locator = loc\<rparr>)))))))"

definition normalizeTarget :: "json option \<Rightarrow> fault + CitationAttachmentTarget" where
  "normalizeTarget input =
     bind_result (case input of Some v \<Rightarrow> citation_record v ''$citation.target''
                  | None \<Rightarrow> fail ''$citation.target'' ''must be a plain JSON object'') (\<lambda>tgt.
     bind_result (requiredKeys tgt [''type''] ''$citation.target'') (\<lambda>_.
       if obj_get tgt ''type'' = Some (JStr ''assistant_message'') then
         bind_result (requiredKeys tgt [''message_id''] ''$citation.target'') (\<lambda>_.
         bind_result (allowedKeys tgt [''type'', ''message_id''] ''$citation.target'') (\<lambda>_.
         bind_result (citation_identifier (obj_get tgt ''message_id'') ''$citation.target.message_id'')
           (\<lambda>m. Inr (AssistantMessageCitationTarget m))))
       else if obj_get tgt ''type'' = Some (JStr ''tool_result'') then
         bind_result (requiredKeys tgt [''tool_call_id''] ''$citation.target'') (\<lambda>_.
         bind_result (allowedKeys tgt [''type'', ''tool_call_id''] ''$citation.target'') (\<lambda>_.
         bind_result (citation_identifier (obj_get tgt ''tool_call_id'') ''$citation.target.tool_call_id'')
           (\<lambda>t. Inr (ToolResultCitationTarget t))))
       else fail ''$citation.target.type'' ''must be one of: assistant_message, tool_result''))"

text \<open>\<open>Number.isSafeInteger(v) && v >= 0\<close>.\<close>

definition nonnegative_safe :: "json option \<Rightarrow> bool" where
  "nonnegative_safe v \<longleftrightarrow>
     (case v of Some (JNum n) \<Rightarrow> isSafeInteger n \<and> 0 \<le> int_of_number n | _ \<Rightarrow> False)"

fun number_of_json :: "json option \<Rightarrow> int" where
  "number_of_json (Some (JNum n)) = int_of_number n"
| "number_of_json _ = 0"

definition normalizeCitation :: "json \<Rightarrow> fault + Citation" where
  "normalizeCitation input =
     bind_result (citation_record input ''$citation'') (\<lambda>cit.
     bind_result (requiredKeys cit [''citation_id'', ''source_id'', ''order'', ''target'']
                    ''$citation'') (\<lambda>_.
     bind_result (allowedKeys cit [''citation_id'', ''source_id'', ''order'', ''target'']
                    ''$citation'') (\<lambda>_.
     bind_result (guard (nonnegative_safe (obj_get cit ''order''))
                    (''$citation.order'', ''must be a non-negative safe integer'')) (\<lambda>_.
     bind_result (citation_identifier (obj_get cit ''citation_id'') ''$citation.citation_id'') (\<lambda>cid.
     bind_result (citation_identifier (obj_get cit ''source_id'') ''$citation.source_id'') (\<lambda>sid.
     bind_result (normalizeTarget (obj_get cit ''target'')) (\<lambda>tgt.
       Inr \<lparr>citation_id = cid, cited_source_id = sid,
            citation_order = number_of_json (obj_get cit ''order''),
            citation_target = tgt\<rparr>)))))))"

section \<open>Record sets\<close>

definition citation_array :: "json option \<Rightarrow> string \<Rightarrow> nat \<Rightarrow> fault + json list" where
  "citation_array v path maxLength =
     (case v of
        Some (JArr xs) \<Rightarrow>
          if length xs > maxLength
          then fail path (''must contain at most '' @ nat_digits maxLength @ '' records'')
          else Inr xs
      | _ \<Rightarrow> fail path ''must be an array'')"

text \<open>
  \<open>deduplicateByIdentity\<close>: the map keeps the first record of an identity. The
  fingerprints compared are the serializations of two records built with the same field
  order, which are equal exactly when the records are.
\<close>

fun retain_first ::
    "('a \<Rightarrow> string) \<Rightarrow> string \<Rightarrow> (string, 'a) jsmap \<Rightarrow> 'a list \<Rightarrow> fault + (string, 'a) jsmap" where
  "retain_first identity kind retained [] = Inr retained"
| "retain_first identity kind retained (r # rs) =
     (case map_get retained (identity r) of
        None \<Rightarrow> retain_first identity kind (map_set (identity r) r retained) rs
      | Some e \<Rightarrow>
          if e = r then retain_first identity kind retained rs
          else fail (''$'' @ kind @ ''['' @ identity r @ '']'')
                 ''conflicts with an earlier record using the same identity'')"

definition deduplicateByIdentity :: "('a \<Rightarrow> string) \<Rightarrow> string \<Rightarrow> 'a list \<Rightarrow> fault + 'a list" where
  "deduplicateByIdentity identity kind rs =
     bind_result (retain_first identity kind [] rs) (\<lambda>m. Inr (map snd m))"

definition deduplicateCitationRecords ::
    "host \<Rightarrow> json option \<Rightarrow> json option \<Rightarrow> fault + CitationRecordSet" where
  "deduplicateCitationRecords H sourcesInput citationsInput =
     bind_result (citation_array sourcesInput ''$records.sources'' sourcesPerRecordSet) (\<lambda>svs.
     bind_result (citation_array citationsInput ''$records.citations'' citationsPerRecordSet) (\<lambda>cvs.
     bind_result (map_result (normalizeCitationSource H) svs) (\<lambda>ss0.
     bind_result (deduplicateByIdentity source_id ''sources'' ss0) (\<lambda>ss.
     bind_result (map_result normalizeCitation cvs) (\<lambda>cs0.
     bind_result (deduplicateByIdentity citation_id ''citations'' cs0) (\<lambda>cs.
     bind_result (each (\<lambda>c. guard (cited_source_id c \<in> set (map source_id ss))
          (''$citations['' @ citation_id c @ ''].source_id'',
           ''must reference a source in the same record set'')) cs) (\<lambda>_.
       (let normalized = \<lparr>sources = ss, citations = cs\<rparr> in
        if utf8ByteLength (stringify H (records_json normalized)) > totalSerializedUtf8Bytes
        then fail ''$records'' (''must serialize to at most '' @
               nat_digits totalSerializedUtf8Bytes @ '' UTF-8 bytes'')
        else Inr normalized))))))))"

definition normalizeCitationRecords :: "host \<Rightarrow> json \<Rightarrow> fault + CitationRecordSet" where
  "normalizeCitationRecords H input =
     bind_result (citation_record input ''$records'') (\<lambda>records.
     bind_result (requiredKeys records [''sources'', ''citations''] ''$records'') (\<lambda>_.
     bind_result (allowedKeys records [''sources'', ''citations''] ''$records'') (\<lambda>_.
       deduplicateCitationRecords H (obj_get records ''sources'') (obj_get records ''citations''))))"

section \<open>What a normalized record set is\<close>

lemma retain_first_distinct:
  "retain_first identity kind m rs = Inr m' \<Longrightarrow> distinct (map fst m) \<Longrightarrow> distinct (map fst m')"
  by (induction rs arbitrary: m) (auto split: option.splits if_splits intro: map_set_distinct)

lemma retain_first_identity:
  assumes "retain_first identity kind m rs = Inr m'" and "\<forall>(k, v)\<in>set m. identity v = k"
  shows "\<forall>(k, v)\<in>set m'. identity v = k"
  using assms
proof (induction rs arbitrary: m)
  case (Cons r rs)
  show ?case
  proof (cases "map_get m (identity r)")
    case None
    have "\<forall>(k, v)\<in>set (map_set (identity r) r m). identity v = k"
      using Cons.prems(2) by (auto dest!: map_set_entries)
    with Cons None show ?thesis by auto
  next
    case (Some e)
    with Cons show ?thesis by (auto split: if_splits)
  qed
qed simp

text \<open>Every input record is represented, and nothing else is.\<close>

lemma map_set_new:
  "map_get m k = None \<Longrightarrow> map_set k v m = m @ [(k, v)]"
  by (induction k v m rule: map_set.induct) (auto split: if_splits)

lemma retain_first_set:
  assumes "retain_first identity kind m rs = Inr m'"
  shows "snd ` set m' = snd ` set m \<union> set rs"
  using assms
proof (induction rs arbitrary: m)
  case (Cons r rs)
  show ?case
  proof (cases "map_get m (identity r)")
    case None
    with Cons show ?thesis by (auto simp: map_set_new)
  next
    case (Some e)
    with Cons have "e = r" and "snd ` set m' = snd ` set m \<union> set rs"
      by (auto split: if_splits)
    moreover from Some \<open>e = r\<close> have "r \<in> snd ` set m"
      by (metis map_of_SomeD image_eqI snd_conv)
    ultimately show ?thesis by auto
  qed
qed simp

lemma dedup_identities:
  assumes "deduplicateByIdentity identity kind rs = Inr ys"
  shows "distinct (map identity ys)" and "set ys = set rs"
proof -
  obtain m where m: "retain_first identity kind [] rs = Inr m" and ys: "ys = map snd m"
    using assms by (auto simp: deduplicateByIdentity_def)
  have "distinct (map fst m)" using retain_first_distinct [OF m] by simp
  moreover have "\<forall>(k, v)\<in>set m. identity v = k" using retain_first_identity [OF m] by simp
  then have "map identity ys = map fst m" unfolding ys by (auto simp: case_prod_beta)
  ultimately show "distinct (map identity ys)" by simp
  show "set ys = set rs" using retain_first_set [OF m] ys by auto
qed

lemma dedup_distinct_id:
  assumes "distinct (map identity rs)"
  shows "deduplicateByIdentity identity kind rs = Inr rs"
proof -
  have "retain_first identity kind m rs = Inr (m @ map (\<lambda>r. (identity r, r)) rs)"
    if "distinct (map fst m @ map identity rs)" for m
    using that assms
  proof (induction rs arbitrary: m)
    case (Cons r rs)
    then have "map_get m (identity r) = None" by (auto simp: map_of_eq_None_iff)
    with Cons show ?case by (simp add: map_set_new)
  qed simp
  from this [of "[]"] assms show ?thesis by (simp add: deduplicateByIdentity_def comp_def)
qed

definition wf_record_set :: "CitationRecordSet \<Rightarrow> bool" where
  "wf_record_set r \<longleftrightarrow>
     distinct (map source_id (sources r)) \<and> distinct (map citation_id (citations r)) \<and>
     (\<forall>c\<in>set (citations r). cited_source_id c \<in> source_id ` set (sources r)) \<and>
     length (sources r) \<le> sourcesPerRecordSet \<and>
     length (citations r) \<le> citationsPerRecordSet"

lemma distinct_length_le: "distinct xs \<Longrightarrow> set xs \<subseteq> set ys \<Longrightarrow> length xs \<le> length ys"
  by (metis card_length card_mono distinct_card List.finite_set le_trans)

lemma dedup_length:
  assumes "deduplicateByIdentity identity kind rs = Inr ys"
  shows "length ys \<le> length rs"
  using dedup_identities [OF assms] by (metis distinct_length_le distinct_map order_refl)

lemma citation_array_length: "citation_array v path n = Inr xs \<Longrightarrow> length xs \<le> n"
  by (simp add: citation_array_def split: option.splits json.splits if_splits)

lemma deduplicateCitationRecords_wf:
  assumes "deduplicateCitationRecords H sv cv = Inr r"
  shows "wf_record_set r"
proof -
  from assms obtain svs cvs ss0 cs0 ss cs where
    arrays: "citation_array sv ''$records.sources'' sourcesPerRecordSet = Inr svs"
      "citation_array cv ''$records.citations'' citationsPerRecordSet = Inr cvs"
    and maps: "map_result (normalizeCitationSource H) svs = Inr ss0"
      "map_result normalizeCitation cvs = Inr cs0"
    and ss: "deduplicateByIdentity source_id ''sources'' ss0 = Inr ss"
    and cs: "deduplicateByIdentity citation_id ''citations'' cs0 = Inr cs"
    and refs: "\<forall>c\<in>set cs. cited_source_id c \<in> set (map source_id ss)"
    and r: "r = \<lparr>sources = ss, citations = cs\<rparr>"
    unfolding deduplicateCitationRecords_def bind_result_Inr_iff each_Inr_iff guard_Inr_iff Let_def
    by (auto split: if_splits simp del: list.set_map)
  have "length ss \<le> sourcesPerRecordSet" "length cs \<le> citationsPerRecordSet"
    using dedup_length [OF ss] dedup_length [OF cs] arrays [THEN citation_array_length]
      maps [THEN map_result_length] by simp_all
  with dedup_identities [OF ss] dedup_identities [OF cs] refs show ?thesis
    unfolding r wf_record_set_def by simp
qed

lemma normalizeCitationRecords_wf:
  "normalizeCitationRecords H input = Inr r \<Longrightarrow> wf_record_set r"
  unfolding normalizeCitationRecords_def bind_result_Inr_iff
  by (blast intro: deduplicateCitationRecords_wf)

end
