(* ===== verification/Timestamps.thy ===== *)
theory Timestamps
  imports Complex_Main Prelude "HOL-Library.Char_ord"
begin

text \<open>
  RFC 3339 UTC timestamps: \<open>validateTimestamp\<close> of src/conversation/events.ts (its regular
  expression and calendar checks) and \<open>Date.parse\<close> on the strings it accepts, with the
  day arithmetic of the ECMAScript specification. The comparisons of two parsed times
  are those of JavaScript numbers: every comparison with NaN (None) is false.
\<close>

section \<open>The pattern\<close>

definition is_digit :: "char \<Rightarrow> bool" where
  "is_digit c \<longleftrightarrow> CHR ''0'' \<le> c \<and> c \<le> CHR ''9''"

definition digit_value :: "char \<Rightarrow> int" where
  "digit_value c = int (of_char c) - 48"

text \<open>Exactly \<open>n\<close> digits, read as a number, and the rest of the string.\<close>

fun take_digits :: "nat \<Rightarrow> int \<Rightarrow> string \<Rightarrow> (int \<times> string) option" where
  "take_digits 0 acc s = Some (acc, s)"
| "take_digits (Suc n) acc [] = None"
| "take_digits (Suc n) acc (c # s) =
     (if is_digit c then take_digits n (acc * 10 + digit_value c) s else None)"

fun take_char :: "char \<Rightarrow> string \<Rightarrow> string option" where
  "take_char c [] = None"
| "take_char c (d # s) = (if c = d then Some s else None)"

record date_fields =
  year :: int
  month :: int
  day :: int
  hour :: int
  minute :: int
  second :: int
  fraction :: string

text \<open>The optional fraction (one to nine digits), the letter Z and the end of the string.\<close>

definition fraction_and_zone :: "string \<Rightarrow> string option" where
  "fraction_and_zone s =
     (case s of
        [] \<Rightarrow> None
      | c # t \<Rightarrow>
          if c = CHR ''Z'' \<and> t = [] then Some []
          else if c = CHR ''.'' then
            (let ds = takeWhile is_digit t
             in if 1 \<le> length ds \<and> length ds \<le> 9 \<and> dropWhile is_digit t = ''Z''
                then Some ds else None)
          else None)"

definition match_timestamp :: "string \<Rightarrow> date_fields option" where
  "match_timestamp s =
     Option.bind (take_digits 4 0 s) (\<lambda>(y, s).
     Option.bind (take_char (CHR ''-'') s) (\<lambda>s.
     Option.bind (take_digits 2 0 s) (\<lambda>(mo, s).
     Option.bind (take_char (CHR ''-'') s) (\<lambda>s.
     Option.bind (take_digits 2 0 s) (\<lambda>(d, s).
     Option.bind (take_char (CHR ''T'') s) (\<lambda>s.
     Option.bind (take_digits 2 0 s) (\<lambda>(h, s).
     Option.bind (take_char (CHR '':'') s) (\<lambda>s.
     Option.bind (take_digits 2 0 s) (\<lambda>(mi, s).
     Option.bind (take_char (CHR '':'') s) (\<lambda>s.
     Option.bind (take_digits 2 0 s) (\<lambda>(se, s).
     Option.bind (fraction_and_zone s) (\<lambda>f.
       Some \<lparr>year = y, month = mo, day = d, hour = h, minute = mi, second = se,
             fraction = f\<rparr>))))))))))))"

section \<open>The calendar check\<close>

definition leap_year :: "int \<Rightarrow> bool" where
  "leap_year y \<longleftrightarrow> y mod 4 = 0 \<and> (y mod 100 \<noteq> 0 \<or> y mod 400 = 0)"

definition month_lengths :: "int \<Rightarrow> int list" where
  "month_lengths y =
     [31, if leap_year y then 29 else 28, 31, 30, 31, 30, 31, 31, 30, 31, 30, 31]"

text \<open>\<open>[...][month - 1]\<close>: \<open>undefined\<close> (None) outside the array.\<close>

definition days_in_month :: "int \<Rightarrow> int \<Rightarrow> int option" where
  "days_in_month y m = (if 1 \<le> m \<and> m \<le> 12 then Some (month_lengths y ! nat (m - 1)) else None)"

definition valid_fields :: "date_fields \<Rightarrow> bool" where
  "valid_fields d \<longleftrightarrow>
     \<not> (year d = 0 \<or> days_in_month (year d) (month d) = None \<or> day d < 1 \<or>
        (\<exists>n\<in>set_option (days_in_month (year d) (month d)). day d > n) \<or>
        hour d > 23 \<or> minute d > 59 \<or> second d > 59)"

section \<open>Date.parse\<close>

text \<open>\<open>DayFromYear\<close> and the day within the year, counted from 1970-01-01.\<close>

definition day_from_year :: "int \<Rightarrow> int" where
  "day_from_year y =
     365 * (y - 1970) + (y - 1969) div 4 - (y - 1901) div 100 + (y - 1601) div 400"

definition month_start :: "int \<Rightarrow> int \<Rightarrow> int" where
  "month_start y m = sum_list (take (nat (m - 1)) (month_lengths y))"

definition day_number :: "int \<Rightarrow> int \<Rightarrow> int \<Rightarrow> int" where
  "day_number y m d = day_from_year y + month_start y m + (d - 1)"

text \<open>Milliseconds of the fraction: its first three digits, padded with zeros.\<close>

definition fraction_ms :: "string \<Rightarrow> int" where
  "fraction_ms f = (case take 3 (f @ ''000'') of
       [a, b, c] \<Rightarrow> digit_value a * 100 + digit_value b * 10 + digit_value c | _ \<Rightarrow> 0)"

definition time_ms :: "date_fields \<Rightarrow> int" where
  "time_ms d = day_number (year d) (month d) (day d) * 86400000
     + hour d * 3600000 + minute d * 60000 + second d * 1000 + fraction_ms (fraction d)"

definition Date_parse :: "string \<Rightarrow> int option" where
  "Date_parse s = map_option time_ms (match_timestamp s)"

definition time_less :: "int option \<Rightarrow> int option \<Rightarrow> bool" where
  "time_less a b \<longleftrightarrow> (case (a, b) of (Some x, Some y) \<Rightarrow> x < y | _ \<Rightarrow> False)"

definition time_le :: "int option \<Rightarrow> int option \<Rightarrow> bool" where
  "time_le a b \<longleftrightarrow> (case (a, b) of (Some x, Some y) \<Rightarrow> x \<le> y | _ \<Rightarrow> False)"

lemma time_less_iff: "time_less a b \<longleftrightarrow> (\<exists>x y. a = Some x \<and> b = Some y \<and> x < y)"
  by (auto simp: time_less_def split: option.splits)

lemma time_le_iff: "time_le a b \<longleftrightarrow> (\<exists>x y. a = Some x \<and> b = Some y \<and> x \<le> y)"
  by (auto simp: time_le_def split: option.splits)

section \<open>validateTimestamp\<close>

definition isTimestamp :: "string \<Rightarrow> bool" where
  "isTimestamp s \<longleftrightarrow>
     s \<noteq> [] \<and> length s \<le> 64 \<and>
     (case match_timestamp s of None \<Rightarrow> False
      | Some d \<Rightarrow> valid_fields d \<and> Date_parse s \<noteq> None)"

text \<open>The finiteness test of \<open>Date.parse\<close> never rejects what the calendar check accepts.\<close>

lemma isTimestamp_parses: "isTimestamp s \<Longrightarrow> \<exists>t. Date_parse s = Some t"
  by (auto simp: isTimestamp_def split: option.splits)

lemma isTimestamp_fields:
  "isTimestamp s \<Longrightarrow> \<exists>d. match_timestamp s = Some d \<and> valid_fields d \<and> Date_parse s = Some (time_ms d)"
  by (auto simp: isTimestamp_def Date_parse_def split: option.splits)

lemma isTimestamp_le_or_less:
  "isTimestamp s \<Longrightarrow> isTimestamp t
   \<Longrightarrow> time_le (Date_parse s) (Date_parse t) \<longleftrightarrow> \<not> time_less (Date_parse t) (Date_parse s)"
  by (auto dest!: isTimestamp_parses simp: time_le_iff time_less_iff)

section \<open>The day number follows the calendar\<close>

lemma div_succ:
  fixes x k :: int
  assumes "0 < k"
  shows "(x + 1) div k = x div k + (if (x + 1) mod k = 0 then 1 else 0)"
proof (cases "(x + 1) mod k = 0")
  case True
  then have eq: "x = k * ((x + 1) div k) - 1"
    using mult_div_mod_eq [of k "x + 1"] by linarith
  have "x div k = (x + 1) div k - 1"
  proof (rule int_div_pos_eq)
    show "x = k * ((x + 1) div k - 1) + (k - 1)"
      using eq by (simp add: algebra_simps)
  qed (use assms in auto)
  with True show ?thesis by simp
next
  case False
  have "(x + 1) div k = x div k"
  proof (rule int_div_pos_eq [where r = "x mod k + 1"])
    show "x + 1 = k * (x div k) + (x mod k + 1)" by simp
    have "x mod k + 1 \<noteq> k"
    proof
      assume "x mod k + 1 = k"
      have "k * (x div k) + x mod k = x" by simp
      then have "x + 1 = k * (x div k) + (x mod k + 1)" by linarith
      with \<open>x mod k + 1 = k\<close> have "x + 1 = k * (x div k + 1)"
        by (simp only: distrib_left mult_1_right)
      with False show False by simp
    qed
    with pos_mod_bound [OF assms, of x] show "x mod k + 1 < k" by linarith
    show "0 \<le> x mod k + 1" using pos_mod_sign [OF assms, of x] by linarith
  qed
  with False show ?thesis by simp
qed

lemma mod_shift: "k dvd c \<Longrightarrow> (y - c) mod k = y mod (k::int)"
  by (metis diff_zero dvd_eq_mod_eq_0 mod_diff_right_eq)

text \<open>The leap days counted up to a year change exactly at the multiples of the period.\<close>

lemma period_step:
  fixes y k c c' :: int
  assumes "0 < k" and "k dvd c" and "c' = c + 1"
  shows "(y - c) div k = (y - c') div k + (if y mod k = 0 then 1 else 0)"
proof -
  have "(y - c' + 1) div k = (y - c') div k + (if (y - c' + 1) mod k = 0 then 1 else 0)"
    using assms(1) by (rule div_succ)
  moreover have "y - c' + 1 = y - c" using assms(3) by simp
  ultimately show ?thesis using mod_shift [OF assms(2), of y] by metis
qed

lemma leap_sum:
  fixes a b c a' b' c' y :: int
  assumes "a' = a + (if p then 1 else 0)" and "b' = b + (if q then 1 else 0)"
    and "c' = c + (if r then 1 else 0)" and "r \<longrightarrow> q" and "q \<longrightarrow> p"
  shows "365 * (y + 1 - 1970) + a' - b' + c'
    = 365 * (y - 1970) + a - b + c + 365 + (if p \<and> (\<not> q \<or> r) then 1 else 0)"
  using assms by (cases p; cases q; cases r) simp_all

lemma day_from_year_step:
  "day_from_year (y + 1) = day_from_year y + 365 + (if leap_year y then 1 else 0)"
proof -
  have p4: "(y - 1968) div 4 = (y - 1969) div 4 + (if y mod 4 = 0 then 1 else 0)"
    by (rule period_step) simp_all
  have p100: "(y - 1900) div 100 = (y - 1901) div 100 + (if y mod 100 = 0 then 1 else 0)"
    by (rule period_step) simp_all
  have p400: "(y - 1600) div 400 = (y - 1601) div 400 + (if y mod 400 = 0 then 1 else 0)"
    by (rule period_step) simp_all
  have "400 dvd y \<Longrightarrow> 100 dvd y" "100 dvd y \<Longrightarrow> 4 dvd y"
    by (rule dvd_trans [rotated], assumption, simp)+
  then have nested: "y mod 400 = 0 \<longrightarrow> y mod 100 = 0" "y mod 100 = 0 \<longrightarrow> y mod 4 = 0"
    by (simp_all add: mod_eq_0_iff_dvd)
  have shift: "y + 1 - 1969 = y - 1968" "y + 1 - 1901 = y - 1900" "y + 1 - 1601 = y - 1600"
    by simp_all
  show ?thesis
    unfolding day_from_year_def leap_year_def shift
    by (rule leap_sum [OF p4 p100 p400 nested])
qed

lemma month_lengths_sum: "sum_list (month_lengths y) = 365 + (if leap_year y then 1 else 0)"
  by (simp add: month_lengths_def)

text \<open>A valid day never runs past the start of the next month, nor the year past its end.\<close>

lemma month_cases:
  assumes "1 \<le> m" and "m \<le> (12::int)"
  shows "m \<in> {1, 2, 3, 4, 5, 6, 7, 8, 9, 10, 11, 12}"
  using assms by auto presburger

lemma month_start_next:
  assumes "days_in_month y m = Some n" and "m < 12"
  shows "month_start y (m + 1) = month_start y m + n"
proof -
  from assms have "1 \<le> m" "m \<le> 12" and n: "n = month_lengths y ! nat (m - 1)"
    by (auto simp: days_in_month_def split: if_splits)
  then have "nat (m + 1 - 1) = Suc (nat (m - 1))" and "nat (m - 1) < length (month_lengths y)"
    by (auto simp: month_lengths_def)
  with n show ?thesis
    by (simp add: month_start_def take_Suc_conv_app_nth)
qed

lemma month_start_last:
  assumes "days_in_month y 12 = Some n"
  shows "month_start y 12 + n = 365 + (if leap_year y then 1 else 0)"
  using assms by (auto simp: days_in_month_def month_start_def month_lengths_def)

text \<open>Years before a given one end before it starts; dates in order have ordered numbers.\<close>

lemma day_from_year_mono: "y < y' \<Longrightarrow> day_from_year y + 365 + (if leap_year y then 1 else 0) \<le> day_from_year y'"
proof (induction y' rule: int_gr_induct)
  case base
  show ?case by (simp add: day_from_year_step)
next
  case (step i)
  then show ?case using day_from_year_step [of i] by auto
qed

lemma days_in_month_pos:
  assumes "1 \<le> m" and "m \<le> 12"
  obtains n where "days_in_month y m = Some n" and "0 \<le> n"
proof -
  have "month_lengths y ! nat (m - 1) \<in> set (month_lengths y)"
    using assms by (intro nth_mem) (auto simp: month_lengths_def)
  then have "0 \<le> month_lengths y ! nat (m - 1)"
    by (auto simp: month_lengths_def split: if_splits)
  with assms that show ?thesis by (simp add: days_in_month_def)
qed

lemma month_start_mono:
  assumes "1 \<le> m" and "m < m'" and "m' \<le> 12" and "days_in_month y m = Some n"
  shows "month_start y m + n \<le> month_start y m'"
  using assms(2,3)
proof (induction m' rule: int_gr_induct)
  case base
  with assms(4) show ?case by (simp add: month_start_next)
next
  case (step i)
  with assms(1) obtain k where k: "days_in_month y i = Some k" and "0 \<le> k"
    by (auto intro: days_in_month_pos [of i y])
  with step show ?case by (simp add: month_start_next)
qed

lemma month_start_bound:
  assumes "days_in_month y m = Some n"
  shows "month_start y m + n \<le> 365 + (if leap_year y then 1 else 0)"
proof (cases "m = 12")
  case True
  with assms show ?thesis by (simp add: month_start_last)
next
  case False
  with assms have m: "1 \<le> m" "m < 12" by (auto simp: days_in_month_def split: if_splits)
  obtain k where k: "days_in_month y 12 = Some k" and "0 \<le> k"
    by (auto intro: days_in_month_pos [of 12 y])
  have "month_start y m + n \<le> month_start y 12"
    using m assms by (intro month_start_mono) auto
  with month_start_last [OF k] \<open>0 \<le> k\<close> show ?thesis by simp
qed

definition date_before :: "int \<times> int \<times> int \<Rightarrow> int \<times> int \<times> int \<Rightarrow> bool" where
  "date_before a b \<longleftrightarrow> (case (a, b) of ((y, m, d), (y', m', d')) \<Rightarrow>
     y < y' \<or> (y = y' \<and> (m < m' \<or> (m = m' \<and> d < d'))))"

lemma day_number_mono:
  assumes "days_in_month y m = Some n" and "d \<le> n" and "days_in_month y' m' = Some n'"
    and "1 \<le> d'" and "date_before (y, m, d) (y', m', d')"
  shows "day_number y m d < day_number y' m' d'"
proof -
  have m: "1 \<le> m" "m' \<le> 12" "1 \<le> m'" using assms by (auto simp: days_in_month_def split: if_splits)
  have start: "0 \<le> month_start y' m'"
    using m by (auto simp: month_start_def month_lengths_def intro!: sum_list_nonneg dest!: in_set_takeD)
  from assms(5) consider "y < y'" | "y = y'" "m < m'" | "y = y'" "m = m'" "d < d'"
    by (auto simp: date_before_def)
  then show ?thesis
  proof cases
    case 1
    with day_from_year_mono [OF 1] month_start_bound [OF assms(1)] start assms(2,4)
    show ?thesis by (simp add: day_number_def)
  next
    case 2
    with month_start_mono [OF m(1) 2(2) m(2) assms(1)] assms(2,4) show ?thesis
      by (simp add: day_number_def)
  next
    case 3
    then show ?thesis by (simp add: day_number_def)
  qed
qed

section \<open>Parsed timestamps follow the calendar\<close>

lemma digit_value_bounds: "is_digit c \<Longrightarrow> 0 \<le> digit_value c \<and> digit_value c \<le> 9"
  by (simp add: is_digit_def digit_value_def less_eq_char_def)

lemma take_digits_nonneg: "take_digits n acc s = Some (v, r) \<Longrightarrow> 0 \<le> acc \<Longrightarrow> 0 \<le> v"
  by (induction n acc s arbitrary: v r rule: take_digits.induct)
    (auto split: if_splits dest: digit_value_bounds)

lemma fraction_digits: "fraction_and_zone s = Some f \<Longrightarrow> \<forall>c\<in>set f. is_digit c"
  by (auto simp: fraction_and_zone_def Let_def split: list.splits if_splits dest: set_takeWhileD)

lemma fraction_ms_bounds:
  assumes "\<forall>c\<in>set f. is_digit c"
  shows "0 \<le> fraction_ms f \<and> fraction_ms f \<le> 999"
proof -
  obtain a b c where abc: "take 3 (f @ ''000'') = [a, b, c]"
    by (cases f; cases "tl f"; cases "tl (tl f)") (auto simp: numeral_3_eq_3)
  have "\<forall>x\<in>set [a, b, c]. is_digit x"
    unfolding abc [symmetric] using assms by (auto dest!: in_set_takeD simp: is_digit_def less_eq_char_def)
  then have "0 \<le> digit_value x \<and> digit_value x \<le> 9" if "x \<in> {a, b, c}" for x
    using that digit_value_bounds by auto
  from this [of a] this [of b] this [of c] show ?thesis by (simp only: fraction_ms_def abc) simp
qed

lemma match_timestamp_bounds:
  assumes "match_timestamp s = Some d"
  shows "0 \<le> hour d" "0 \<le> minute d" "0 \<le> second d" "0 \<le> fraction_ms (fraction d)" "fraction_ms (fraction d) \<le> 999"
  using assms
  by (auto simp: match_timestamp_def bind_eq_Some_conv dest!: fraction_digits fraction_ms_bounds
      dest: take_digits_nonneg)

definition date_of :: "date_fields \<Rightarrow> int \<times> int \<times> int" where
  "date_of d = (year d, month d, day d)"

lemma timestamps_follow_calendar:
  assumes "isTimestamp s" "isTimestamp t" "match_timestamp s = Some d" "match_timestamp t = Some e"
    and "date_before (date_of d) (date_of e)"
  shows "time_less (Date_parse s) (Date_parse t)"
proof -
  have v: "valid_fields d" "valid_fields e" using assms(1-4) by (auto simp: isTimestamp_def)
  then obtain n n' where n: "days_in_month (year d) (month d) = Some n" "day d \<le> n"
    "days_in_month (year e) (month e) = Some n'" "1 \<le> day e"
    by (auto simp: valid_fields_def not_less)
  have "day_number (year d) (month d) (day d) < day_number (year e) (month e) (day e)"
    using day_number_mono [OF n] assms(5) by (simp add: date_of_def)
  moreover have "hour d \<le> 23" "minute d \<le> 59" "second d \<le> 59" using v(1) by (auto simp: valid_fields_def)
  ultimately have "time_ms d < time_ms e"
    using match_timestamp_bounds [OF assms(3)] match_timestamp_bounds [OF assms(4)] by (simp add: time_ms_def)
  then show ?thesis using assms(3,4) by (simp add: Date_parse_def time_less_def)
qed

end
