(* ===== verification/Events.thy ===== *)
theory Events
  imports Citations Timestamps
begin

text \<open>
  The durable events of a conversation (src/conversation/events.ts): the vocabulary of
  their fields, one constructor per payload, the event envelope, and the legal edges of
  the approval lifecycle. Literal types of the source (the event version, the status
  and version of a new proposal) are constants, so they are not fields here.
\<close>

section \<open>Vocabulary\<close>

datatype ConversationEventActorType = UserActor | AssistantActor | ToolActor | SystemActor

record ConversationEventActor =
  actor_type :: ConversationEventActorType
  actor_id :: "string option"

text \<open>A client source carries its client id and, optionally, its device id.\<close>

datatype ConversationEventSource =
    ClientSource string "string option"
  | RuntimeSource
  | SyncSource
  | ImportSource

datatype ConversationMessageRole = UserRole | AssistantRole | SystemRole

datatype ConversationMessageContentPart = MessageText string

datatype ConversationAttachmentKind = ImageKind | DocumentKind

record ConversationAttachmentReference =
  attachment_id :: string
  attachment_kind :: "ConversationAttachmentKind option"
  media_type :: string
  filename :: "string option"
  size_bytes :: "int option"

datatype ConversationTurnStatus = Queued | Running | WaitingForToolResult

datatype ConversationTurnAttemptOperation = StartOperation | ResumeOperation

datatype ConversationRetryReasonCategory =
  RateLimit | Timeout | Unavailable | Internal | Disconnected | Interrupted

datatype ConversationRetryExhaustionReason = MaximumAttempts | MaximumElapsedTime

datatype ConversationTurnCompletionOutcome = StopOutcome | LengthOutcome | ToolCallsOutcome

datatype ConversationTurnCancellationReason =
  CancelUser | CancelTimeout | CancelSuperseded | CancelRuntimeShutdown

record ConversationTurnError =
  error_code :: string
  error_message :: string
  error_retryable :: bool

datatype ConversationApprovalProposalStatus =
  Pending | Confirmed | Rejected | Expired | Executing | Executed | Failed

datatype ConversationApprovalReviewedArguments =
    RedactedJson json
  | OpaqueReference string

datatype ConversationToolResultContentPart =
    ToolResultText string
  | ToolResultJson json

datatype ConversationCitationTarget =
    AssistantMessageTarget string
  | ToolResultTarget string string \<comment> \<open>the turn and the tool call\<close>

datatype ToolLoopBudget = IterationsBudget | TotalToolCallsBudget | WallClockBudget

section \<open>The approval lifecycle\<close>

text \<open>\<open>CONVERSATION_APPROVAL_PROPOSAL_TRANSITIONS\<close>.\<close>

fun approval_transitions ::
    "ConversationApprovalProposalStatus \<Rightarrow> ConversationApprovalProposalStatus list" where
  "approval_transitions Pending = [Confirmed, Rejected, Expired]"
| "approval_transitions Confirmed = [Executing]"
| "approval_transitions Rejected = []"
| "approval_transitions Expired = []"
| "approval_transitions Executing = [Executed, Failed]"
| "approval_transitions Executed = []"
| "approval_transitions Failed = [Executing]"

definition isLegalConversationApprovalProposalTransition ::
    "ConversationApprovalProposalStatus \<Rightarrow> ConversationApprovalProposalStatus \<Rightarrow> bool" where
  "isLegalConversationApprovalProposalTransition from_status to_status \<longleftrightarrow>
     to_status \<in> set (approval_transitions from_status)"

text \<open>
  The three payloads of a status change: a decision may carry a reason, a failure always
  does, and an execution step carries nothing.
\<close>

datatype ApprovalProposalStatusChange =
    ChangeConfirmed "string option"
  | ChangeRejected "string option"
  | ChangeExpired "string option"
  | ChangeExecuting
  | ChangeExecuted
  | ChangeFailed string

fun change_status :: "ApprovalProposalStatusChange \<Rightarrow> ConversationApprovalProposalStatus" where
  "change_status (ChangeConfirmed _) = Confirmed"
| "change_status (ChangeRejected _) = Rejected"
| "change_status (ChangeExpired _) = Expired"
| "change_status ChangeExecuting = Executing"
| "change_status ChangeExecuted = Executed"
| "change_status (ChangeFailed _) = Failed"

text \<open>\<open>payload.decision_reason ?? null\<close> where the payload has the field.\<close>

fun change_decision_reason :: "ApprovalProposalStatusChange \<Rightarrow> string option" where
  "change_decision_reason (ChangeConfirmed r) = r"
| "change_decision_reason (ChangeRejected r) = r"
| "change_decision_reason (ChangeExpired r) = r"
| "change_decision_reason _ = None"

fun change_failure_reason :: "ApprovalProposalStatusChange \<Rightarrow> string option" where
  "change_failure_reason (ChangeFailed r) = Some r"
| "change_failure_reason _ = None"

definition is_decision :: "ConversationApprovalProposalStatus \<Rightarrow> bool" where
  "is_decision s \<longleftrightarrow> s \<in> {Confirmed, Rejected, Expired}"

section \<open>Payloads and events\<close>

record ApprovalProposalCreatedPayload =
  created_proposal_id :: string
  created_group_id :: "string option"
  created_turn_id :: string
  created_tool_call_id :: string
  created_tool_name :: string
  created_expires_at :: string
  created_reviewed_arguments :: ConversationApprovalReviewedArguments

datatype ConversationEventPayload =
    MessageCreated string ConversationMessageRole "ConversationMessageContentPart list"
  | MessageTextAppended string string string \<comment> \<open>turn, message, text\<close>
  | MessageAttachmentReferenced string ConversationAttachmentReference
  | CitationRecordsLinked ConversationCitationTarget "CitationSource list" "Citation list"
  | TurnStarted string "string list" "string option"
  | TurnStatusChanged string ConversationTurnStatus
  | TurnAttemptStarted string int ConversationTurnAttemptOperation
  | TurnRetryScheduled string int ConversationRetryReasonCategory int
  | TurnRetryExhausted string int ConversationRetryReasonCategory ConversationRetryExhaustionReason
  | TurnCancellationRequested string ConversationTurnCancellationReason
  | TurnCancellationUnsupported string ConversationTurnCancellationReason
  | TurnCompleted string ConversationTurnCompletionOutcome "string list"
  | TurnCancelled string ConversationTurnCancellationReason
  | TurnFailed string ConversationTurnError
  | ToolCallRequested string string string json \<comment> \<open>turn, call, name, arguments\<close>
  | ToolCallDiscovered string string
  | ToolCallStarted string string
  | ToolCallApprovalRequired string string
  | ApprovalProposalCreated ApprovalProposalCreatedPayload
  | ApprovalProposalStatusChanged string int ApprovalProposalStatusChange
  | ToolCallResultRecorded string string "ConversationToolResultContentPart list" bool
      "CitationRecordSet option"
  | ToolLoopBudgetExhausted string ToolLoopBudget int
  | UsageReceiptLinked string string \<comment> \<open>turn, receipt\<close>
  | ConversationMetadataUpdated json
  | ConversationTitleUpdated "string option"

record ConversationEvent =
  event_id :: string
  event_conversation_id :: string
  event_revision :: int
  occurred_at :: string
  actor :: ConversationEventActor
  event_source :: ConversationEventSource
  mutation_id :: "string option"
  event_metadata :: "json option"
  payload :: ConversationEventPayload

section \<open>Facts of the lifecycle\<close>

text \<open>Confirmed leads to execution, a failed execution may be retried; the rest are final.\<close>

lemma legal_transition_iff:
  "isLegalConversationApprovalProposalTransition a b \<longleftrightarrow>
     (a, b) \<in> {(Pending, Confirmed), (Pending, Rejected), (Pending, Expired),
               (Confirmed, Executing), (Executing, Executed), (Executing, Failed),
               (Failed, Executing)}"
  by (cases a) (auto simp: isLegalConversationApprovalProposalTransition_def)

lemma change_status_not_pending [simp]: "change_status c \<noteq> Pending"
  by (cases c) auto

lemma change_decision_reason_None: "\<not> is_decision (change_status c) \<Longrightarrow> change_decision_reason c = None"
  by (cases c) (auto simp: is_decision_def)

end
