(* ===== verification/EventValidation.thy ===== *)
theory EventValidation
  imports Events
begin

text \<open>
  Strict validation of durable events (src/conversation/events.ts): every validator takes
  the untrusted JSON value and returns the typed value it asserts, or the fault it throws.
  The checks are in the source's order. A value is a JSON value, so the tests of the
  source for symbols, getters, sparse arrays and cycles cannot fail here.
\<close>

section \<open>Limits and vocabularies\<close>

definition eventIdentifierLength :: nat where "eventIdentifierLength = 256"
definition textLength :: nat where "textLength = 1000000"
definition textChunkBytes :: nat where "textChunkBytes = 1000000"
definition titleLength :: nat where "titleLength = 4096"
definition filenameLength :: nat where "filenameLength = 255"
definition metadataSerializedBytes :: nat where "metadataSerializedBytes = 16384"
definition approvalReasonLength :: nat where "approvalReasonLength = 1024"
definition approvalArgumentReferenceLength :: nat where "approvalArgumentReferenceLength = 512"
definition approvalSnapshotSerializedBytes :: nat where "approvalSnapshotSerializedBytes = 16384"

definition CREDENTIAL_FIELD_NAMES :: "string list" where
  "CREDENTIAL_FIELD_NAMES =
     [''accesstoken'', ''apikey'', ''apitoken'', ''authorization'', ''bearertoken'', ''clientsecret'',
      ''cookie'', ''credential'', ''credentials'', ''idtoken'', ''password'', ''passwd'',
      ''privatekey'', ''refreshtoken'', ''secret'', ''secretkey'', ''secrets'', ''setcookie'',
      ''signingkey'']"

definition METADATA_FORBIDDEN_FIELD_NAMES :: "string list" where
  "METADATA_FORBIDDEN_FIELD_NAMES = CREDENTIAL_FIELD_NAMES @
     [''anthropic'', ''choices'', ''completiontokens'', ''contentblock'', ''finishreason'',
      ''functioncall'', ''gemini'', ''headers'', ''model'', ''modelid'', ''nativechunk'',
      ''nativepayload'', ''openai'', ''prompttokens'', ''provider'', ''providerchunk'',
      ''providererror'', ''providername'', ''providerpayload'', ''providerrequest'',
      ''providerresponse'', ''rawerror'', ''rawrequest'', ''rawresponse'', ''requestheaders'',
      ''systemfingerprint'', ''usagemetadata'', ''xai'']"

definition APPROVAL_SNAPSHOT_FORBIDDEN_FIELD_NAMES :: "string list" where
  "APPROVAL_SNAPSHOT_FORBIDDEN_FIELD_NAMES = METADATA_FORBIDDEN_FIELD_NAMES @
     [''base64'', ''binary'', ''bytes'', ''hiddeninstruction'', ''hiddeninstructions'', ''prompt'',
      ''systeminstruction'', ''systeminstructions'', ''systemprompt'']"

definition METADATA_FORBIDDEN_STRING_VALUES :: "string list" where
  "METADATA_FORBIDDEN_STRING_VALUES =
     [''anthropic'', ''chatcompletion'', ''chatcompletionchunk'', ''contentblockdelta'',
      ''gemini'', ''openai'', ''xai'']"

record JsonLimits =
  maxDepth :: nat
  maxNodes :: nat
  maxArrayLength :: nat
  maxObjectKeys :: nat
  maxKeyLength :: nat
  maxStringLength :: nat
  forbiddenFields :: "string list"
  forbiddenStringValues :: "string list"
  forbidBinaryStrings :: bool \<comment> \<open>\<open>forbiddenStringPatterns\<close>: the binary patterns or none\<close>

definition JSON_LIMITS :: JsonLimits where
  "JSON_LIMITS = \<lparr>maxDepth = 20, maxNodes = 10000, maxArrayLength = 2000, maxObjectKeys = 2000,
     maxKeyLength = 256, maxStringLength = 1000000, forbiddenFields = CREDENTIAL_FIELD_NAMES,
     forbiddenStringValues = [], forbidBinaryStrings = False\<rparr>"

definition METADATA_LIMITS :: JsonLimits where
  "METADATA_LIMITS = \<lparr>maxDepth = 5, maxNodes = 256, maxArrayLength = 64, maxObjectKeys = 64,
     maxKeyLength = 128, maxStringLength = 4096, forbiddenFields = METADATA_FORBIDDEN_FIELD_NAMES,
     forbiddenStringValues = METADATA_FORBIDDEN_STRING_VALUES, forbidBinaryStrings = False\<rparr>"

definition APPROVAL_SNAPSHOT_LIMITS :: JsonLimits where
  "APPROVAL_SNAPSHOT_LIMITS = \<lparr>maxDepth = 8, maxNodes = 512, maxArrayLength = 128,
     maxObjectKeys = 128, maxKeyLength = 128, maxStringLength = 4096,
     forbiddenFields = APPROVAL_SNAPSHOT_FORBIDDEN_FIELD_NAMES,
     forbiddenStringValues = METADATA_FORBIDDEN_STRING_VALUES, forbidBinaryStrings = True\<rparr>"

text \<open>The literals of each enumeration, with the value each one is.\<close>

definition actor_types :: "(string \<times> ConversationEventActorType) list" where
  "actor_types = [(''user'', UserActor), (''assistant'', AssistantActor), (''tool'', ToolActor),
     (''system'', SystemActor)]"

definition message_roles :: "(string \<times> ConversationMessageRole) list" where
  "message_roles = [(''user'', UserRole), (''assistant'', AssistantRole), (''system'', SystemRole)]"

definition attachment_kinds :: "(string \<times> ConversationAttachmentKind) list" where
  "attachment_kinds = [(''image'', ImageKind), (''document'', DocumentKind)]"

definition TURN_STATUSES :: "(string \<times> ConversationTurnStatus) list" where
  "TURN_STATUSES = [(''queued'', Queued), (''running'', Running),
     (''waiting_for_tool_result'', WaitingForToolResult)]"

definition TURN_COMPLETION_OUTCOMES :: "(string \<times> ConversationTurnCompletionOutcome) list" where
  "TURN_COMPLETION_OUTCOMES =
     [(''stop'', StopOutcome), (''length'', LengthOutcome), (''tool_calls'', ToolCallsOutcome)]"

definition TURN_CANCELLATION_REASONS :: "(string \<times> ConversationTurnCancellationReason) list" where
  "TURN_CANCELLATION_REASONS = [(''user'', CancelUser), (''timeout'', CancelTimeout),
     (''superseded'', CancelSuperseded), (''runtime_shutdown'', CancelRuntimeShutdown)]"

definition RETRY_REASON_CATEGORIES :: "(string \<times> ConversationRetryReasonCategory) list" where
  "RETRY_REASON_CATEGORIES = [(''rate_limit'', RateLimit), (''timeout'', Timeout),
     (''unavailable'', Unavailable), (''internal'', Internal), (''disconnected'', Disconnected),
     (''interrupted'', Interrupted)]"

definition RETRY_EXHAUSTION_REASONS :: "(string \<times> ConversationRetryExhaustionReason) list" where
  "RETRY_EXHAUSTION_REASONS =
     [(''maximum_attempts'', MaximumAttempts), (''maximum_elapsed_time'', MaximumElapsedTime)]"

definition attempt_operations :: "(string \<times> ConversationTurnAttemptOperation) list" where
  "attempt_operations = [(''start'', StartOperation), (''resume'', ResumeOperation)]"

definition tool_loop_budgets :: "(string \<times> ToolLoopBudget) list" where
  "tool_loop_budgets = [(''iterations'', IterationsBudget),
     (''total_tool_calls'', TotalToolCallsBudget), (''wall_clock'', WallClockBudget)]"

text \<open>\<open>CONVERSATION_APPROVAL_PROPOSAL_STATUSES\<close> without \<open>pending\<close>.\<close>

definition transition_statuses :: "(string \<times> ConversationApprovalProposalStatus) list" where
  "transition_statuses = [(''confirmed'', Confirmed), (''rejected'', Rejected),
     (''expired'', Expired), (''executing'', Executing), (''executed'', Executed),
     (''failed'', Failed)]"

text \<open>The literal of a value: the inverse of the table.\<close>

definition enum_string :: "(string \<times> 'a) list \<Rightarrow> 'a \<Rightarrow> string" where
  "enum_string table x = (case List.find (\<lambda>e. snd e = x) table of Some e \<Rightarrow> fst e | None \<Rightarrow> [])"

definition AI_RUNTIME_IMAGE_MIME_TYPES :: "string list" where
  "AI_RUNTIME_IMAGE_MIME_TYPES = [''image/jpeg'', ''image/png'', ''image/gif'', ''image/webp'']"

definition AI_RUNTIME_DOCUMENT_MIME_TYPES :: "string list" where
  "AI_RUNTIME_DOCUMENT_MIME_TYPES = [''application/pdf'',
     ''application/vnd.openxmlformats-officedocument.spreadsheetml.sheet'',
     ''application/vnd.ms-excel'', ''text/csv'', ''text/tab-separated-values'']"

section \<open>Fields\<close>

text \<open>\<open>record\<close>: a JSON object.\<close>

definition event_record :: "json option \<Rightarrow> string \<Rightarrow> fault + (string \<times> json) list" where
  "event_record v path =
     (case v of Some (JObj kvs) \<Rightarrow> Inr kvs | _ \<Rightarrow> fail path ''must be a JSON object'')"

definition stringValue :: "json option \<Rightarrow> string \<Rightarrow> bool \<Rightarrow> nat \<Rightarrow> fault + string" where
  "stringValue v path allowEmpty maxLength =
     (case v of
        Some (JStr s) \<Rightarrow>
          if \<not> allowEmpty \<and> s = [] then fail path ''must not be empty''
          else if length s > maxLength
          then fail path (''must be at most '' @ nat_digits maxLength @ '' characters'')
          else Inr s
      | _ \<Rightarrow> fail path ''must be a string'')"

definition enumValue :: "json option \<Rightarrow> (string \<times> 'a) list \<Rightarrow> string \<Rightarrow> fault + 'a" where
  "enumValue v table path =
     (case v of
        Some (JStr s) \<Rightarrow>
          (case map_of table s of Some x \<Rightarrow> Inr x
           | None \<Rightarrow> fail path (''must be one of: '' @ join_with '', '' (map fst table)))
      | _ \<Rightarrow> fail path (''must be one of: '' @ join_with '', '' (map fst table)))"

definition booleanValue :: "json option \<Rightarrow> string \<Rightarrow> fault + bool" where
  "booleanValue v path = (case v of Some (JBool b) \<Rightarrow> Inr b | _ \<Rightarrow> fail path ''must be a boolean'')"

definition event_identifier :: "json option \<Rightarrow> string \<Rightarrow> fault + string" where
  "event_identifier v path = stringValue v path False eventIdentifierLength"

text \<open>A field the source reads under \<open>Object.hasOwn\<close>.\<close>

definition optional_field ::
    "(json option \<Rightarrow> string \<Rightarrow> fault + 'a) \<Rightarrow> (string \<times> json) list \<Rightarrow> string \<Rightarrow> string \<Rightarrow> fault + 'a option"
where
  "optional_field validate kvs key path =
     (if has_own kvs key
      then bind_result (validate (obj_get kvs key) (path @ ''.'' @ key)) (\<lambda>x. Inr (Some x))
      else Inr None)"

definition item_path :: "string \<Rightarrow> nat \<Rightarrow> string" where
  "item_path path i = path @ ''['' @ nat_digits i @ '']''"

definition identifierArray :: "json option \<Rightarrow> string \<Rightarrow> bool \<Rightarrow> fault + string list" where
  "identifierArray v path allowEmpty =
     (case v of
        Some (JArr xs) \<Rightarrow>
          if \<not> allowEmpty \<and> xs = [] then fail path ''must be a non-empty array''
          else bind_result
            (map_result (\<lambda>(i, x). event_identifier (Some x) (item_path path i)) (indexed xs))
            (\<lambda>identifiers. if \<not> distinct identifiers
                           then fail path ''must contain unique identifiers''
                           else Inr identifiers)
      | _ \<Rightarrow> fail path ''must be an array'')"

section \<open>JSON under limits\<close>

lemma size_indexed [termination_simp]: "(i, x) \<in> set (indexed xs) \<Longrightarrow> size x < Suc (size_list size xs)"
  using indexed_snd [of "(i, x)" xs] size_list_estimation [of x xs "size x" size]
  by (simp add: less_Suc_eq_le size_list_estimation')

lemma size_field [termination_simp]:
  "(k, x) \<in> set kvs \<Longrightarrow> size x < Suc (size_list (size_prod (\<lambda>_. 0) size) kvs)"
  by (induction kvs) auto

text \<open>\<open>visit\<close>: the number of nodes visited is threaded through the recursion.\<close>

fun visit :: "JsonLimits \<Rightarrow> string \<Rightarrow> string \<Rightarrow> nat \<Rightarrow> nat \<Rightarrow> json \<Rightarrow> fault + nat" where
  "visit L path currentPath depth visited current =
     (let nodes = visited + 1 in
      if nodes > maxNodes L
      then fail path (''must contain at most '' @ nat_digits (maxNodes L) @ '' JSON values'')
      else if depth > maxDepth L
      then fail currentPath (''exceeds maximum depth '' @ nat_digits (maxDepth L))
      else case current of
        JNull \<Rightarrow> Inr nodes
      | JBool b \<Rightarrow> Inr nodes
      | JNum n \<Rightarrow> if isFinite n then Inr nodes
                  else fail currentPath ''must be a finite JSON number''
      | JStr s \<Rightarrow>
          if length s > maxStringLength L
          then fail currentPath (''must be at most '' @ nat_digits (maxStringLength L) @ '' characters'')
          else if has_credential s then fail currentPath ''must not contain credential material''
          else if normalizeFieldName s \<in> set (forbiddenStringValues L)
          then fail currentPath ''must not identify provider-native data''
          else if forbidBinaryStrings L \<and> has_binary_content s
          then fail currentPath ''must not contain binary content''
          else Inr nodes
      | JArr xs \<Rightarrow>
          if length xs > maxArrayLength L
          then fail currentPath (''must contain at most '' @ nat_digits (maxArrayLength L) @ '' items'')
          else fold_result (\<lambda>n (i, x). visit L path (item_path currentPath i) (depth + 1) n x)
                 nodes (indexed xs)
      | JObj kvs \<Rightarrow>
          if length kvs > maxObjectKeys L
          then fail currentPath (''must contain at most '' @ nat_digits (maxObjectKeys L) @ '' fields'')
          else fold_result (\<lambda>n (k, x).
                 if k = [] \<or> length k > maxKeyLength L
                 then fail (currentPath @ ''.'' @ k)
                        (''field names must be 1-'' @ nat_digits (maxKeyLength L) @ '' characters'')
                 else if normalizeFieldName k \<in> set (forbiddenFields L)
                 then fail (currentPath @ ''.'' @ k) ''is forbidden in durable public data''
                 else visit L path (currentPath @ ''.'' @ k) (depth + 1) n x)
                 nodes kvs)"

declare visit.simps [simp del]

definition validateJson :: "json \<Rightarrow> string \<Rightarrow> JsonLimits \<Rightarrow> fault + unit" where
  "validateJson v path L = bind_result (visit L path path 0 0 v) (\<lambda>_. Inr ())"

text \<open>\<open>validateMetadata\<close> and the record-then-JSON checks return the object itself.\<close>

definition validateMetadata :: "host \<Rightarrow> json option \<Rightarrow> string \<Rightarrow> fault + json" where
  "validateMetadata H v path =
     bind_result (event_record v path) (\<lambda>kvs.
     bind_result (validateJson (JObj kvs) path METADATA_LIMITS) (\<lambda>_.
       if utf8ByteLength (stringify H (JObj kvs)) > metadataSerializedBytes
       then fail path (''must serialize to at most '' @ nat_digits metadataSerializedBytes @ '' bytes'')
       else Inr (JObj kvs)))"

section \<open>Approval payloads\<close>

definition validateApprovalReason :: "json option \<Rightarrow> string \<Rightarrow> fault + string" where
  "validateApprovalReason v path =
     bind_result (stringValue v path False approvalReasonLength) (\<lambda>reason.
       if has_credential reason \<or> has_binary_content reason
       then fail path ''must not contain credential or binary material''
       else Inr reason)"

definition isConversationApprovalReason :: "json \<Rightarrow> bool" where
  "isConversationApprovalReason v \<longleftrightarrow> \<not> isl (validateApprovalReason (Some v) ''$reason'')"

definition safe_argument_reference :: "string \<Rightarrow> bool" where
  "safe_argument_reference s \<longleftrightarrow>
     first_and_rest is_alnum (\<lambda>c. is_alnum c \<or> c \<in> set ''._:/-'') s \<and>
     \<not> includes_scheme s \<and> \<not> has_credential s"

definition validateApprovalReviewedArguments ::
    "host \<Rightarrow> json option \<Rightarrow> string \<Rightarrow> fault + ConversationApprovalReviewedArguments" where
  "validateApprovalReviewedArguments H v path =
     bind_result (event_record v path) (\<lambda>kvs.
     bind_result (requiredKeys kvs [''type''] path) (\<lambda>_.
       if obj_get kvs ''type'' = Some (JStr ''redacted_json'') then
         bind_result (requiredKeys kvs [''value''] path) (\<lambda>_.
         bind_result (allowedKeys kvs [''type'', ''value''] path) (\<lambda>_.
         bind_result (event_record (obj_get kvs ''value'') (path @ ''.value'')) (\<lambda>fields.
         bind_result (validateJson (JObj fields) (path @ ''.value'') APPROVAL_SNAPSHOT_LIMITS) (\<lambda>_.
           if utf8ByteLength (stringify H (JObj fields)) > approvalSnapshotSerializedBytes
           then fail (path @ ''.value'') (''must serialize to at most '' @
                  nat_digits approvalSnapshotSerializedBytes @ '' bytes'')
           else Inr (RedactedJson (JObj fields))))))
       else if obj_get kvs ''type'' = Some (JStr ''opaque_reference'') then
         bind_result (requiredKeys kvs [''argument_ref''] path) (\<lambda>_.
         bind_result (allowedKeys kvs [''type'', ''argument_ref''] path) (\<lambda>_.
         bind_result (stringValue (obj_get kvs ''argument_ref'') (path @ ''.argument_ref'') False
                        approvalArgumentReferenceLength) (\<lambda>ref.
           if \<not> safe_argument_reference ref
           then fail (path @ ''.argument_ref'') ''must be a safe host-owned opaque reference''
           else Inr (OpaqueReference ref))))
       else fail (path @ ''.type'') ''must equal \"redacted_json\" or \"opaque_reference\"''))"

definition isConversationApprovalReviewedArguments :: "host \<Rightarrow> json \<Rightarrow> bool" where
  "isConversationApprovalReviewedArguments H v \<longleftrightarrow>
     \<not> isl (validateApprovalReviewedArguments H (Some v) ''$reviewed_arguments'')"

section \<open>The envelope's fields\<close>

definition validateActor :: "json option \<Rightarrow> string \<Rightarrow> fault + ConversationEventActor" where
  "validateActor v path =
     bind_result (event_record v path) (\<lambda>kvs.
     bind_result (requiredKeys kvs [''type''] path) (\<lambda>_.
     bind_result (allowedKeys kvs [''type'', ''id''] path) (\<lambda>_.
     bind_result (enumValue (obj_get kvs ''type'') actor_types (path @ ''.type'')) (\<lambda>t.
     bind_result (optional_field event_identifier kvs ''id'' path) (\<lambda>i.
       Inr \<lparr>actor_type = t, actor_id = i\<rparr>)))))"

definition source_types :: "(string \<times> string) list" where
  "source_types = [(''client'', ''client''), (''runtime'', ''runtime''), (''sync'', ''sync''),
     (''import'', ''import'')]"

definition validateSource :: "json option \<Rightarrow> string \<Rightarrow> fault + ConversationEventSource" where
  "validateSource v path =
     bind_result (event_record v path) (\<lambda>kvs.
     bind_result (requiredKeys kvs [''type''] path) (\<lambda>_.
     bind_result (enumValue (obj_get kvs ''type'') source_types (path @ ''.type'')) (\<lambda>t.
       if t = ''client'' then
         bind_result (requiredKeys kvs [''client_id''] path) (\<lambda>_.
         bind_result (allowedKeys kvs [''type'', ''client_id'', ''device_id''] path) (\<lambda>_.
         bind_result (event_identifier (obj_get kvs ''client_id'') (path @ ''.client_id'')) (\<lambda>c.
         bind_result (optional_field event_identifier kvs ''device_id'' path) (\<lambda>d.
           Inr (ClientSource c d)))))
       else
         bind_result (allowedKeys kvs [''type''] path) (\<lambda>_.
           Inr (if t = ''runtime'' then RuntimeSource
                else if t = ''sync'' then SyncSource else ImportSource)))))"

definition validateTimestamp :: "json option \<Rightarrow> string \<Rightarrow> fault + string" where
  "validateTimestamp v path =
     bind_result (stringValue v path False 64) (\<lambda>s.
       if isTimestamp s then Inr s else fail path ''must be a valid RFC 3339 UTC timestamp'')"

definition safe_integer_from :: "int \<Rightarrow> string \<Rightarrow> json option \<Rightarrow> string \<Rightarrow> fault + int" where
  "safe_integer_from least message v path =
     (case v of
        Some (JNum n) \<Rightarrow> if isSafeInteger n \<and> least \<le> int_of_number n then Inr (int_of_number n)
                         else fail path message
      | _ \<Rightarrow> fail path message)"

definition validateRevision :: "json option \<Rightarrow> string \<Rightarrow> fault + int" where
  "validateRevision = safe_integer_from 1 ''must be a positive safe integer monotonic revision''"

definition positiveSafeInteger :: "json option \<Rightarrow> string \<Rightarrow> fault + int" where
  "positiveSafeInteger = safe_integer_from 1 ''must be a positive safe integer''"

definition nonnegativeSafeInteger :: "json option \<Rightarrow> string \<Rightarrow> fault + int" where
  "nonnegativeSafeInteger = safe_integer_from 0 ''must be a non-negative safe integer''"

section \<open>Parts of payloads\<close>

definition validateTextPart :: "json option \<Rightarrow> string \<Rightarrow> fault + string" where
  "validateTextPart v path =
     bind_result (event_record v path) (\<lambda>kvs.
     bind_result (requiredKeys kvs [''type'', ''text''] path) (\<lambda>_.
     bind_result (allowedKeys kvs [''type'', ''text''] path) (\<lambda>_.
     bind_result (guard (obj_get kvs ''type'' = Some (JStr ''text''))
                    (path @ ''.type'', ''must equal \"text\"'')) (\<lambda>_.
       stringValue (obj_get kvs ''text'') (path @ ''.text'') True textLength))))"

definition is_attachment_id :: "string \<Rightarrow> bool" where
  "is_attachment_id s \<longleftrightarrow>
     take 4 s = ''att_'' \<and> length s \<le> 256 \<and>
     first_and_rest is_alnum (\<lambda>c. is_alnum c \<or> c \<in> set ''._-'') (drop 4 s)"

definition unsafe_filename_char :: "char \<Rightarrow> bool" where
  "unsafe_filename_char c \<longleftrightarrow>
     code c \<le> 31 \<or> code c = 127 \<or> c \<in> set ''<>:/|?*'' \<or> code c = 34 \<or> code c = 92"

definition validate_filename :: "json option \<Rightarrow> string \<Rightarrow> fault + string" where
  "validate_filename v path =
     bind_result (stringValue v path False filenameLength) (\<lambda>filename.
       if filename = ''.'' \<or> filename = ''..'' \<or> list_ex unsafe_filename_char filename \<or>
          has_credential filename
       then fail path ''must be a safe filename without path separators or control characters''
       else Inr filename)"

definition attachment_max_bytes :: "ConversationAttachmentKind option \<Rightarrow> int" where
  "attachment_max_bytes kind = (if kind = Some DocumentKind then 26214400 else 10485760)"

definition validate_size_bytes ::
    "ConversationAttachmentKind option \<Rightarrow> json option \<Rightarrow> string \<Rightarrow> fault + int" where
  "validate_size_bytes kind v path =
     (let message = ''must be a safe integer from 1 through '' @ int_string (attachment_max_bytes kind) in
      case v of
        Some (JNum n) \<Rightarrow>
          if isSafeInteger n \<and> 1 \<le> int_of_number n \<and> int_of_number n \<le> attachment_max_bytes kind
          then Inr (int_of_number n) else fail path message
      | _ \<Rightarrow> fail path message)"

definition media_types :: "ConversationAttachmentKind option \<Rightarrow> (string \<times> string) list" where
  "media_types kind = map (\<lambda>m. (m, m))
     (if kind = Some DocumentKind then AI_RUNTIME_DOCUMENT_MIME_TYPES else AI_RUNTIME_IMAGE_MIME_TYPES)"

definition validateAttachmentReference ::
    "json option \<Rightarrow> string \<Rightarrow> fault + ConversationAttachmentReference" where
  "validateAttachmentReference v path =
     bind_result (event_record v path) (\<lambda>kvs.
     bind_result (requiredKeys kvs [''attachment_id'', ''media_type''] path) (\<lambda>_.
     bind_result (allowedKeys kvs [''attachment_id'', ''kind'', ''media_type'', ''filename'',
                                   ''size_bytes''] path) (\<lambda>_.
     bind_result (stringValue (obj_get kvs ''attachment_id'') (path @ ''.attachment_id'') False 256) (\<lambda>aid.
     bind_result (guard (is_attachment_id aid) (path @ ''.attachment_id'',
          ''must be an opaque identifier matching ^att_[A-Za-z0-9][A-Za-z0-9._-]{0,251}$'')) (\<lambda>_.
     bind_result (optional_field (\<lambda>x p. enumValue x attachment_kinds p) kvs ''kind'' path) (\<lambda>kind.
     bind_result (enumValue (obj_get kvs ''media_type'') (media_types kind)
                    (path @ ''.media_type'')) (\<lambda>mt.
     bind_result (optional_field validate_filename kvs ''filename'' path) (\<lambda>name.
     bind_result (guard (\<not> (kind \<noteq> None \<and> \<not> has_own kvs ''size_bytes''))
                    (path @ ''.size_bytes'', ''is required when kind is present'')) (\<lambda>_.
     bind_result (optional_field (validate_size_bytes kind) kvs ''size_bytes'' path) (\<lambda>size.
       Inr \<lparr>attachment_id = aid, attachment_kind = kind, media_type = mt, filename = name,
            size_bytes = size\<rparr>))))))))))"

definition isConversationAttachmentReference :: "json \<Rightarrow> bool" where
  "isConversationAttachmentReference v \<longleftrightarrow>
     \<not> isl (validateAttachmentReference (Some v) ''$attachment'')"

definition validateTurnError :: "json option \<Rightarrow> string \<Rightarrow> fault + ConversationTurnError" where
  "validateTurnError v path =
     bind_result (event_record v path) (\<lambda>kvs.
     bind_result (requiredKeys kvs [''code'', ''message'', ''retryable''] path) (\<lambda>_.
     bind_result (allowedKeys kvs [''code'', ''message'', ''retryable''] path) (\<lambda>_.
     bind_result (event_identifier (obj_get kvs ''code'') (path @ ''.code'')) (\<lambda>c.
     bind_result (stringValue (obj_get kvs ''message'') (path @ ''.message'') True titleLength) (\<lambda>m.
     bind_result (booleanValue (obj_get kvs ''retryable'') (path @ ''.retryable'')) (\<lambda>r.
       Inr \<lparr>error_code = c, error_message = m, error_retryable = r\<rparr>))))))"

definition validateToolResultPart ::
    "json option \<Rightarrow> string \<Rightarrow> fault + ConversationToolResultContentPart" where
  "validateToolResultPart v path =
     bind_result (event_record v path) (\<lambda>kvs.
       if obj_get kvs ''type'' = Some (JStr ''text'')
       then bind_result (validateTextPart v path) (\<lambda>t. Inr (ToolResultText t))
       else if obj_get kvs ''type'' = Some (JStr ''json'') then
         bind_result (requiredKeys kvs [''type'', ''value''] path) (\<lambda>_.
         bind_result (allowedKeys kvs [''type'', ''value''] path) (\<lambda>_.
           (case obj_get kvs ''value'' of
              Some x \<Rightarrow> bind_result (validateJson x (path @ ''.value'') JSON_LIMITS)
                (\<lambda>_. Inr (ToolResultJson x))
            | None \<Rightarrow> fail (path @ ''.value'') ''must be a JSON value'')))
       else fail (path @ ''.type'') ''must equal \"text\" or \"json\"'')"

text \<open>A non-empty array field, each item validated.\<close>

definition nonempty_array ::
    "(json option \<Rightarrow> string \<Rightarrow> fault + 'a) \<Rightarrow> json option \<Rightarrow> string \<Rightarrow> fault + 'a list" where
  "nonempty_array validate v path =
     (case v of
        Some (JArr xs) \<Rightarrow>
          if xs = [] then fail path ''must be a non-empty array''
          else map_result (\<lambda>(i, x). validate (Some x) (item_path path i)) (indexed xs)
      | _ \<Rightarrow> fail path ''must be a non-empty array'')"

section \<open>Payloads\<close>

definition payload_keys :: "(string \<times> json) list \<Rightarrow> string list \<Rightarrow> string list \<Rightarrow> string \<Rightarrow> fault + unit" where
  "payload_keys kvs required optional path =
     bind_result (requiredKeys kvs required path)
       (\<lambda>_. allowedKeys kvs (''type'' # required @ optional) path)"

definition parse_message_created :: "(string \<times> json) list \<Rightarrow> string \<Rightarrow> fault + ConversationEventPayload" where
  "parse_message_created kvs path =
     bind_result (payload_keys kvs [''message_id'', ''role'', ''content''] [] path) (\<lambda>_.
     bind_result (event_identifier (obj_get kvs ''message_id'') (path @ ''.message_id'')) (\<lambda>mid.
     bind_result (enumValue (obj_get kvs ''role'') message_roles (path @ ''.role'')) (\<lambda>r.
     bind_result (nonempty_array validateTextPart (obj_get kvs ''content'') (path @ ''.content'')) (\<lambda>parts.
       Inr (MessageCreated mid r (map MessageText parts))))))"

definition parse_text_appended :: "(string \<times> json) list \<Rightarrow> string \<Rightarrow> fault + ConversationEventPayload" where
  "parse_text_appended kvs path =
     bind_result (payload_keys kvs [''turn_id'', ''message_id'', ''text''] [] path) (\<lambda>_.
     bind_result (event_identifier (obj_get kvs ''turn_id'') (path @ ''.turn_id'')) (\<lambda>tid.
     bind_result (event_identifier (obj_get kvs ''message_id'') (path @ ''.message_id'')) (\<lambda>mid.
     bind_result (stringValue (obj_get kvs ''text'') (path @ ''.text'') False textLength) (\<lambda>chunk.
       if utf8ByteLength chunk > textChunkBytes
       then fail (path @ ''.text'') (''must be at most '' @ nat_digits textChunkBytes @ '' UTF-8 bytes'')
       else Inr (MessageTextAppended tid mid chunk)))))"

definition parse_attachment_referenced ::
    "(string \<times> json) list \<Rightarrow> string \<Rightarrow> fault + ConversationEventPayload" where
  "parse_attachment_referenced kvs path =
     bind_result (payload_keys kvs [''message_id'', ''attachment''] [] path) (\<lambda>_.
     bind_result (event_identifier (obj_get kvs ''message_id'') (path @ ''.message_id'')) (\<lambda>mid.
     bind_result (validateAttachmentReference (obj_get kvs ''attachment'') (path @ ''.attachment'')) (\<lambda>a.
       Inr (MessageAttachmentReferenced mid a))))"

definition parse_citation_target :: "json option \<Rightarrow> string \<Rightarrow> fault + ConversationCitationTarget" where
  "parse_citation_target v path =
     bind_result (event_record v path) (\<lambda>tgt.
     bind_result (requiredKeys tgt [''type''] path) (\<lambda>_.
       if obj_get tgt ''type'' = Some (JStr ''assistant_message'') then
         bind_result (requiredKeys tgt [''message_id''] path) (\<lambda>_.
         bind_result (allowedKeys tgt [''type'', ''message_id''] path) (\<lambda>_.
         bind_result (event_identifier (obj_get tgt ''message_id'') (path @ ''.message_id'')) (\<lambda>m.
           Inr (AssistantMessageTarget m))))
       else if obj_get tgt ''type'' = Some (JStr ''tool_result'') then
         bind_result (requiredKeys tgt [''turn_id'', ''tool_call_id''] path) (\<lambda>_.
         bind_result (allowedKeys tgt [''type'', ''turn_id'', ''tool_call_id''] path) (\<lambda>_.
         bind_result (event_identifier (obj_get tgt ''turn_id'') (path @ ''.turn_id'')) (\<lambda>t.
         bind_result (event_identifier (obj_get tgt ''tool_call_id'') (path @ ''.tool_call_id'')) (\<lambda>c.
           Inr (ToolResultTarget t c)))))
       else fail (path @ ''.type'') ''must equal \"assistant_message\" or \"tool_result\"''))"

text \<open>A fault of the citation normalizer, rethrown at the field's path with its message.\<close>

definition rethrow :: "string \<Rightarrow> fault + 'a \<Rightarrow> fault + 'a" where
  "rethrow path r = (case r of Inl (p, m) \<Rightarrow> fail path (p @ '': '' @ m) | Inr x \<Rightarrow> Inr x)"

fun citation_at_target :: "ConversationCitationTarget \<Rightarrow> CitationAttachmentTarget \<Rightarrow> bool" where
  "citation_at_target (AssistantMessageTarget m) t = (t = AssistantMessageCitationTarget m)"
| "citation_at_target (ToolResultTarget _ c) t = (t = ToolResultCitationTarget c)"

definition parse_citation_records :: "host \<Rightarrow> (string \<times> json) list \<Rightarrow> string \<Rightarrow> fault + ConversationEventPayload" where
  "parse_citation_records H kvs path =
     bind_result (payload_keys kvs [''citation_records_version'', ''target'', ''sources'', ''citations'']
                    [] path) (\<lambda>_.
     bind_result (guard (obj_get kvs ''citation_records_version'' = Some (jint 1))
                    (path @ ''.citation_records_version'', ''must equal 1'')) (\<lambda>_.
     bind_result (parse_citation_target (obj_get kvs ''target'') (path @ ''.target'')) (\<lambda>tgt.
       case (obj_get kvs ''sources'', obj_get kvs ''citations'') of
         (Some svs, Some cvs) \<Rightarrow>
           bind_result (rethrow path (normalizeCitationRecords H
                          (JObj [(''sources'', svs), (''citations'', cvs)]))) (\<lambda>r.
             if citations r = []
             then fail (path @ ''.citations'') ''must contain at least one citation link''
             else if \<not> jsonValuesEqual (JArr (map source_json (sources r))) svs \<or>
                     \<not> jsonValuesEqual (JArr (map citation_json (citations r))) cvs
             then fail path ''citation records must already be normalized and identity-deduplicated''
             else if \<not> list_all (\<lambda>c. citation_at_target tgt (citation_target c)) (citations r)
             then fail (path @ ''.citations'') ''must contain only links to the payload target''
             else Inr (CitationRecordsLinked tgt (sources r) (citations r)))
       | _ \<Rightarrow> fail path ''contains invalid citation records'')))"

definition parse_turn_started :: "(string \<times> json) list \<Rightarrow> string \<Rightarrow> fault + ConversationEventPayload" where
  "parse_turn_started kvs path =
     bind_result (payload_keys kvs [''turn_id'', ''input_message_ids''] [''continuation_of_turn_id''] path) (\<lambda>_.
     bind_result (event_identifier (obj_get kvs ''turn_id'') (path @ ''.turn_id'')) (\<lambda>tid.
     bind_result (identifierArray (obj_get kvs ''input_message_ids'') (path @ ''.input_message_ids'') False) (\<lambda>ids.
     bind_result (optional_field event_identifier kvs ''continuation_of_turn_id'' path) (\<lambda>c.
       Inr (TurnStarted tid ids c)))))"

definition parse_status_changed :: "(string \<times> json) list \<Rightarrow> string \<Rightarrow> fault + ConversationEventPayload" where
  "parse_status_changed kvs path =
     bind_result (payload_keys kvs [''turn_id'', ''status''] [] path) (\<lambda>_.
     bind_result (event_identifier (obj_get kvs ''turn_id'') (path @ ''.turn_id'')) (\<lambda>tid.
     bind_result (enumValue (obj_get kvs ''status'') TURN_STATUSES (path @ ''.status'')) (\<lambda>s.
       Inr (TurnStatusChanged tid s))))"

definition parse_attempt_started :: "(string \<times> json) list \<Rightarrow> string \<Rightarrow> fault + ConversationEventPayload" where
  "parse_attempt_started kvs path =
     bind_result (payload_keys kvs [''turn_id'', ''attempt'', ''operation''] [] path) (\<lambda>_.
     bind_result (event_identifier (obj_get kvs ''turn_id'') (path @ ''.turn_id'')) (\<lambda>tid.
     bind_result (positiveSafeInteger (obj_get kvs ''attempt'') (path @ ''.attempt'')) (\<lambda>n.
     bind_result (enumValue (obj_get kvs ''operation'') attempt_operations (path @ ''.operation'')) (\<lambda>op.
       Inr (TurnAttemptStarted tid n op)))))"

definition parse_retry_scheduled :: "(string \<times> json) list \<Rightarrow> string \<Rightarrow> fault + ConversationEventPayload" where
  "parse_retry_scheduled kvs path =
     bind_result (payload_keys kvs [''turn_id'', ''attempt'', ''reason_category'', ''delay_ms''] [] path) (\<lambda>_.
     bind_result (event_identifier (obj_get kvs ''turn_id'') (path @ ''.turn_id'')) (\<lambda>tid.
     bind_result (positiveSafeInteger (obj_get kvs ''attempt'') (path @ ''.attempt'')) (\<lambda>n.
     bind_result (enumValue (obj_get kvs ''reason_category'') RETRY_REASON_CATEGORIES
                    (path @ ''.reason_category'')) (\<lambda>category.
     bind_result (nonnegativeSafeInteger (obj_get kvs ''delay_ms'') (path @ ''.delay_ms'')) (\<lambda>delay.
       Inr (TurnRetryScheduled tid n category delay))))))"

definition parse_retry_exhausted :: "(string \<times> json) list \<Rightarrow> string \<Rightarrow> fault + ConversationEventPayload" where
  "parse_retry_exhausted kvs path =
     bind_result (payload_keys kvs [''turn_id'', ''attempt'', ''reason_category'', ''exhaustion_reason'']
                    [] path) (\<lambda>_.
     bind_result (event_identifier (obj_get kvs ''turn_id'') (path @ ''.turn_id'')) (\<lambda>tid.
     bind_result (positiveSafeInteger (obj_get kvs ''attempt'') (path @ ''.attempt'')) (\<lambda>n.
     bind_result (enumValue (obj_get kvs ''reason_category'') RETRY_REASON_CATEGORIES
                    (path @ ''.reason_category'')) (\<lambda>category.
     bind_result (enumValue (obj_get kvs ''exhaustion_reason'') RETRY_EXHAUSTION_REASONS
                    (path @ ''.exhaustion_reason'')) (\<lambda>reason.
       Inr (TurnRetryExhausted tid n category reason))))))"

text \<open>The three payloads of a turn and a cancellation reason; \<open>build\<close> is the constructor.\<close>

definition parse_cancellation ::
    "(string \<Rightarrow> ConversationTurnCancellationReason \<Rightarrow> ConversationEventPayload) \<Rightarrow>
     (string \<times> json) list \<Rightarrow> string \<Rightarrow> fault + ConversationEventPayload" where
  "parse_cancellation build kvs path =
     bind_result (payload_keys kvs [''turn_id'', ''reason''] [] path) (\<lambda>_.
     bind_result (event_identifier (obj_get kvs ''turn_id'') (path @ ''.turn_id'')) (\<lambda>tid.
     bind_result (enumValue (obj_get kvs ''reason'') TURN_CANCELLATION_REASONS (path @ ''.reason'')) (\<lambda>r.
       Inr (build tid r))))"

definition parse_turn_completed :: "(string \<times> json) list \<Rightarrow> string \<Rightarrow> fault + ConversationEventPayload" where
  "parse_turn_completed kvs path =
     bind_result (payload_keys kvs [''turn_id'', ''outcome'', ''output_message_ids''] [] path) (\<lambda>_.
     bind_result (event_identifier (obj_get kvs ''turn_id'') (path @ ''.turn_id'')) (\<lambda>tid.
     bind_result (enumValue (obj_get kvs ''outcome'') TURN_COMPLETION_OUTCOMES (path @ ''.outcome'')) (\<lambda>oc.
     bind_result (identifierArray (obj_get kvs ''output_message_ids'')
                    (path @ ''.output_message_ids'') True) (\<lambda>ids.
       Inr (TurnCompleted tid oc ids)))))"

definition parse_turn_failed :: "(string \<times> json) list \<Rightarrow> string \<Rightarrow> fault + ConversationEventPayload" where
  "parse_turn_failed kvs path =
     bind_result (payload_keys kvs [''turn_id'', ''error''] [] path) (\<lambda>_.
     bind_result (event_identifier (obj_get kvs ''turn_id'') (path @ ''.turn_id'')) (\<lambda>tid.
     bind_result (validateTurnError (obj_get kvs ''error'') (path @ ''.error'')) (\<lambda>e.
       Inr (TurnFailed tid e))))"

definition parse_call_requested :: "(string \<times> json) list \<Rightarrow> string \<Rightarrow> fault + ConversationEventPayload" where
  "parse_call_requested kvs path =
     bind_result (payload_keys kvs [''turn_id'', ''tool_call_id'', ''name'', ''arguments''] [] path) (\<lambda>_.
     bind_result (event_identifier (obj_get kvs ''turn_id'') (path @ ''.turn_id'')) (\<lambda>tid.
     bind_result (event_identifier (obj_get kvs ''tool_call_id'') (path @ ''.tool_call_id'')) (\<lambda>tcid.
     bind_result (event_identifier (obj_get kvs ''name'') (path @ ''.name'')) (\<lambda>name.
     bind_result (event_record (obj_get kvs ''arguments'') (path @ ''.arguments'')) (\<lambda>args.
     bind_result (validateJson (JObj args) (path @ ''.arguments'') JSON_LIMITS) (\<lambda>_.
       Inr (ToolCallRequested tid tcid name (JObj args))))))))"

definition parse_call_marked ::
    "(string \<Rightarrow> string \<Rightarrow> ConversationEventPayload) \<Rightarrow> (string \<times> json) list \<Rightarrow> string \<Rightarrow>
     fault + ConversationEventPayload" where
  "parse_call_marked build kvs path =
     bind_result (payload_keys kvs [''turn_id'', ''tool_call_id''] [] path) (\<lambda>_.
     bind_result (event_identifier (obj_get kvs ''turn_id'') (path @ ''.turn_id'')) (\<lambda>tid.
     bind_result (event_identifier (obj_get kvs ''tool_call_id'') (path @ ''.tool_call_id'')) (\<lambda>tcid.
       Inr (build tid tcid))))"

definition parse_proposal_created :: "host \<Rightarrow> (string \<times> json) list \<Rightarrow> string \<Rightarrow> fault + ConversationEventPayload" where
  "parse_proposal_created H kvs path =
     bind_result (payload_keys kvs [''proposal_id'', ''turn_id'', ''tool_call_id'', ''tool_name'', ''status'',
        ''proposal_version'', ''expires_at'', ''reviewed_arguments''] [''group_id''] path) (\<lambda>_.
     bind_result (event_identifier (obj_get kvs ''proposal_id'') (path @ ''.proposal_id'')) (\<lambda>pid.
     bind_result (optional_field event_identifier kvs ''group_id'' path) (\<lambda>gid.
     bind_result (event_identifier (obj_get kvs ''turn_id'') (path @ ''.turn_id'')) (\<lambda>tid.
     bind_result (event_identifier (obj_get kvs ''tool_call_id'') (path @ ''.tool_call_id'')) (\<lambda>tcid.
     bind_result (event_identifier (obj_get kvs ''tool_name'') (path @ ''.tool_name'')) (\<lambda>name.
     bind_result (guard (obj_get kvs ''status'' = Some (JStr ''pending''))
                    (path @ ''.status'', ''must equal \"pending\"'')) (\<lambda>_.
     bind_result (guard (obj_get kvs ''proposal_version'' = Some (jint 1))
                    (path @ ''.proposal_version'', ''must equal the initial version 1'')) (\<lambda>_.
     bind_result (validateTimestamp (obj_get kvs ''expires_at'') (path @ ''.expires_at'')) (\<lambda>expires.
     bind_result (validateApprovalReviewedArguments H (obj_get kvs ''reviewed_arguments'')
                    (path @ ''.reviewed_arguments'')) (\<lambda>args.
       Inr (ApprovalProposalCreated \<lparr>created_proposal_id = pid, created_group_id = gid,
         created_turn_id = tid, created_tool_call_id = tcid, created_tool_name = name,
         created_expires_at = expires, created_reviewed_arguments = args\<rparr>)))))))))))"

definition parse_proposal_changed :: "(string \<times> json) list \<Rightarrow> string \<Rightarrow> fault + ConversationEventPayload" where
  "parse_proposal_changed kvs path =
     bind_result (requiredKeys kvs [''proposal_id'', ''proposal_version'', ''status''] path) (\<lambda>_.
     bind_result (event_identifier (obj_get kvs ''proposal_id'') (path @ ''.proposal_id'')) (\<lambda>pid.
     bind_result (positiveSafeInteger (obj_get kvs ''proposal_version'') (path @ ''.proposal_version'')) (\<lambda>version.
     bind_result (enumValue (obj_get kvs ''status'') transition_statuses (path @ ''.status'')) (\<lambda>status.
       if status \<in> {Confirmed, Rejected, Expired} then
         bind_result (allowedKeys kvs [''type'', ''proposal_id'', ''proposal_version'', ''status'',
                        ''decision_reason''] path) (\<lambda>_.
         bind_result (optional_field validateApprovalReason kvs ''decision_reason'' path) (\<lambda>reason.
           Inr (ApprovalProposalStatusChanged pid version
             (if status = Confirmed then ChangeConfirmed reason
              else if status = Rejected then ChangeRejected reason else ChangeExpired reason))))
       else if status = Failed then
         bind_result (requiredKeys kvs [''failure_reason''] path) (\<lambda>_.
         bind_result (allowedKeys kvs [''type'', ''proposal_id'', ''proposal_version'', ''status'',
                        ''failure_reason''] path) (\<lambda>_.
         bind_result (validateApprovalReason (obj_get kvs ''failure_reason'')
                        (path @ ''.failure_reason'')) (\<lambda>reason.
           Inr (ApprovalProposalStatusChanged pid version (ChangeFailed reason)))))
       else
         bind_result (allowedKeys kvs [''type'', ''proposal_id'', ''proposal_version'', ''status''] path) (\<lambda>_.
           Inr (ApprovalProposalStatusChanged pid version
             (if status = Executing then ChangeExecuting else ChangeExecuted)))))))"

text \<open>The optional citation records of a tool result.\<close>

definition parse_result_citations ::
    "host \<Rightarrow> string \<Rightarrow> json option \<Rightarrow> string \<Rightarrow> fault + CitationRecordSet" where
  "parse_result_citations H tcid v path =
     (case v of
        None \<Rightarrow> fail path ''contains invalid citation records''
      | Some rv \<Rightarrow>
          bind_result (rethrow path (normalizeCitationRecords H rv)) (\<lambda>r.
            if citations r = []
            then fail (path @ ''.citations'') ''must contain at least one citation link''
            else if \<not> jsonValuesEqual (records_json r) rv
            then fail path ''must already be normalized and identity-deduplicated''
            else if \<not> list_all (\<lambda>c. citation_target c = ToolResultCitationTarget tcid) (citations r)
            then fail (path @ ''.citations'') ''must contain only links to this tool result''
            else Inr r))"

definition parse_result_recorded :: "host \<Rightarrow> (string \<times> json) list \<Rightarrow> string \<Rightarrow> fault + ConversationEventPayload" where
  "parse_result_recorded H kvs path =
     bind_result (payload_keys kvs [''turn_id'', ''tool_call_id'', ''content'', ''is_error'']
                    [''citation_records''] path) (\<lambda>_.
     bind_result (event_identifier (obj_get kvs ''turn_id'') (path @ ''.turn_id'')) (\<lambda>tid.
     bind_result (event_identifier (obj_get kvs ''tool_call_id'') (path @ ''.tool_call_id'')) (\<lambda>tcid.
     bind_result (nonempty_array validateToolResultPart (obj_get kvs ''content'') (path @ ''.content'')) (\<lambda>parts.
     bind_result (booleanValue (obj_get kvs ''is_error'') (path @ ''.is_error'')) (\<lambda>err.
     bind_result (optional_field (parse_result_citations H tcid) kvs ''citation_records'' path) (\<lambda>records.
       Inr (ToolCallResultRecorded tid tcid parts err records)))))))"

definition parse_budget_exhausted :: "(string \<times> json) list \<Rightarrow> string \<Rightarrow> fault + ConversationEventPayload" where
  "parse_budget_exhausted kvs path =
     bind_result (payload_keys kvs [''turn_id'', ''budget'', ''limit''] [] path) (\<lambda>_.
     bind_result (event_identifier (obj_get kvs ''turn_id'') (path @ ''.turn_id'')) (\<lambda>tid.
     bind_result (enumValue (obj_get kvs ''budget'') tool_loop_budgets (path @ ''.budget'')) (\<lambda>budget.
     bind_result (positiveSafeInteger (obj_get kvs ''limit'') (path @ ''.limit'')) (\<lambda>lmt.
       Inr (ToolLoopBudgetExhausted tid budget lmt)))))"

definition parse_receipt_linked :: "(string \<times> json) list \<Rightarrow> string \<Rightarrow> fault + ConversationEventPayload" where
  "parse_receipt_linked kvs path =
     bind_result (payload_keys kvs [''turn_id'', ''usage_receipt_id''] [] path) (\<lambda>_.
     bind_result (event_identifier (obj_get kvs ''turn_id'') (path @ ''.turn_id'')) (\<lambda>tid.
     bind_result (event_identifier (obj_get kvs ''usage_receipt_id'') (path @ ''.usage_receipt_id'')) (\<lambda>rid.
       Inr (UsageReceiptLinked tid rid))))"

definition parse_metadata_updated :: "host \<Rightarrow> (string \<times> json) list \<Rightarrow> string \<Rightarrow> fault + ConversationEventPayload" where
  "parse_metadata_updated H kvs path =
     bind_result (payload_keys kvs [''metadata''] [] path) (\<lambda>_.
     bind_result (validateMetadata H (obj_get kvs ''metadata'') (path @ ''.metadata'')) (\<lambda>m.
       Inr (ConversationMetadataUpdated m)))"

definition parse_title_updated :: "(string \<times> json) list \<Rightarrow> string \<Rightarrow> fault + ConversationEventPayload" where
  "parse_title_updated kvs path =
     bind_result (payload_keys kvs [''title''] [] path) (\<lambda>_.
       if obj_get kvs ''title'' = Some JNull then Inr (ConversationTitleUpdated None)
       else bind_result (stringValue (obj_get kvs ''title'') (path @ ''.title'') True titleLength)
              (\<lambda>t. Inr (ConversationTitleUpdated (Some t))))"

text \<open>\<open>CONVERSATION_EVENT_TYPES\<close>, each with its case of the switch.\<close>

definition payload_parsers ::
    "host \<Rightarrow> (string \<times> ((string \<times> json) list \<Rightarrow> string \<Rightarrow> fault + ConversationEventPayload)) list" where
  "payload_parsers H =
     [(''message.created'', parse_message_created),
      (''message.text_appended'', parse_text_appended),
      (''message.attachment_referenced'', parse_attachment_referenced),
      (''citation.records_linked'', parse_citation_records H),
      (''turn.started'', parse_turn_started),
      (''turn.status_changed'', parse_status_changed),
      (''turn.attempt_started'', parse_attempt_started),
      (''turn.retry_scheduled'', parse_retry_scheduled),
      (''turn.retry_exhausted'', parse_retry_exhausted),
      (''turn.cancellation_requested'', parse_cancellation TurnCancellationRequested),
      (''turn.cancellation_unsupported'', parse_cancellation TurnCancellationUnsupported),
      (''turn.completed'', parse_turn_completed),
      (''turn.cancelled'', parse_cancellation TurnCancelled),
      (''turn.failed'', parse_turn_failed),
      (''tool_call.requested'', parse_call_requested),
      (''tool_call.discovered'', parse_call_marked ToolCallDiscovered),
      (''tool_call.started'', parse_call_marked ToolCallStarted),
      (''tool_call.approval_required'', parse_call_marked ToolCallApprovalRequired),
      (''approval.proposal_created'', parse_proposal_created H),
      (''approval.proposal_status_changed'', parse_proposal_changed),
      (''tool_call.result_recorded'', parse_result_recorded H),
      (''tool_loop.budget_exhausted'', parse_budget_exhausted),
      (''usage.receipt_linked'', parse_receipt_linked),
      (''conversation.metadata_updated'', parse_metadata_updated H),
      (''conversation.title_updated'', parse_title_updated)]"

definition validatePayload :: "host \<Rightarrow> json option \<Rightarrow> string \<Rightarrow> fault + ConversationEventPayload" where
  "validatePayload H v path =
     bind_result (event_record v path) (\<lambda>kvs.
     bind_result (requiredKeys kvs [''type''] path) (\<lambda>_.
       case obj_get kvs ''type'' of
         Some (JStr t) \<Rightarrow>
           (case map_of (payload_parsers H) t of
              Some parse \<Rightarrow> parse kvs path
            | None \<Rightarrow> fail (path @ ''.type'') ''is not a supported durable event discriminator'')
       | _ \<Rightarrow> fail (path @ ''.type'') ''is not a supported durable event discriminator''))"

section \<open>Events\<close>

fun check_actor :: "ConversationEvent \<Rightarrow> ConversationEventPayload \<Rightarrow> fault + unit" where
  "check_actor ev (ApprovalProposalCreated p) =
     bind_result (guard (actor_type (actor ev) = SystemActor) (''$event.actor.type'',
          ''approval proposals must be created by an explicit host system actor'')) (\<lambda>_.
       guard (\<not> time_le (Date_parse (created_expires_at p)) (Date_parse (occurred_at ev)))
         (''$event.payload.expires_at'', ''must be later than occurred_at''))"
| "check_actor ev (ApprovalProposalStatusChanged pid version change) =
     bind_result (guard (actor_type (actor ev) \<in> {UserActor, SystemActor}) (''$event.actor.type'',
          ''approval lifecycle changes require an explicit user or host system actor'')) (\<lambda>_.
       guard (\<not> (change_status change \<in> {Expired, Executing, Executed, Failed} \<and>
                 actor_type (actor ev) \<noteq> SystemActor))
         (''$event.actor.type'',
          enum_string transition_statuses (change_status change) @
            '' lifecycle changes require a host system actor''))"
| "check_actor ev _ = Inr ()"

definition parseConversationEvent :: "host \<Rightarrow> json \<Rightarrow> fault + ConversationEvent" where
  "parseConversationEvent H v =
     bind_result (event_record (Some v) ''$event'') (\<lambda>kvs.
     bind_result (requiredKeys kvs [''version'', ''event_id'', ''conversation_id'', ''revision'',
        ''occurred_at'', ''actor'', ''source'', ''payload''] ''$event'') (\<lambda>_.
     bind_result (allowedKeys kvs [''version'', ''event_id'', ''conversation_id'', ''revision'',
        ''occurred_at'', ''actor'', ''source'', ''mutation_id'', ''metadata'', ''payload''] ''$event'') (\<lambda>_.
     bind_result (guard (obj_get kvs ''version'' = Some (jint 1)) (''$event.version'', ''must equal 1'')) (\<lambda>_.
     bind_result (event_identifier (obj_get kvs ''event_id'') ''$event.event_id'') (\<lambda>eid.
     bind_result (event_identifier (obj_get kvs ''conversation_id'') ''$event.conversation_id'') (\<lambda>cid.
     bind_result (validateRevision (obj_get kvs ''revision'') ''$event.revision'') (\<lambda>rev.
     bind_result (validateTimestamp (obj_get kvs ''occurred_at'') ''$event.occurred_at'') (\<lambda>time.
     bind_result (validateActor (obj_get kvs ''actor'') ''$event.actor'') (\<lambda>a.
     bind_result (validateSource (obj_get kvs ''source'') ''$event.source'') (\<lambda>s.
     bind_result (optional_field event_identifier kvs ''mutation_id'' ''$event'') (\<lambda>mid.
     bind_result (guard (\<not> (mid \<noteq> None \<and> s = ImportSource))
                    (''$event.mutation_id'', ''is not supported for imported events'')) (\<lambda>_.
     bind_result (optional_field (validateMetadata H) kvs ''metadata'' ''$event'') (\<lambda>m.
     bind_result (validatePayload H (obj_get kvs ''payload'') ''$event.payload'') (\<lambda>p.
       (let ev = \<lparr>event_id = eid, event_conversation_id = cid, event_revision = rev,
            occurred_at = time, actor = a, event_source = s, mutation_id = mid,
            event_metadata = m, payload = p\<rparr>
        in bind_result (check_actor ev p) (\<lambda>_. Inr ev))))))))))))))))"

definition isConversationEvent :: "host \<Rightarrow> json \<Rightarrow> bool" where
  "isConversationEvent H v \<longleftrightarrow> \<not> isl (parseConversationEvent H v)"

end
