(* ===== verification/Protocol.thy ===== *)
theory Protocol
  imports EventValidation
begin

text \<open>
  The wire protocol (src/protocol.ts): chat requests, tool definitions and tool results.
  The validators check an untrusted JSON value in the source's order and return what is
  read of it; a failure is the path and the message of the error thrown. The helpers
  \<open>record\<close>, \<open>stringValue\<close>, \<open>enumValue\<close>, \<open>allowedKeys\<close>, \<open>requiredKeys\<close> and
  \<open>validateTextPart\<close> are copies of those of events.ts and citations.ts and are used from
  there. The stream events are in ProtocolStream.
\<close>

section \<open>Limits and vocabularies\<close>

definition AI_RUNTIME_PROTOCOL_VERSION :: string where
  "AI_RUNTIME_PROTOCOL_VERSION = ''handrail.ai-runtime.v1''"

definition wireIdentifierLength :: nat where "wireIdentifierLength = 256"
definition wireTextLength :: nat where "wireTextLength = 1000000"
definition errorMessageLength :: nat where "errorMessageLength = 1024"
definition attachmentAltTextLength :: nat where "attachmentAltTextLength = 1024"
definition imageAttachmentMaxBytes :: int where "imageAttachmentMaxBytes = 10485760"
definition imageAttachmentsPerMessage :: nat where "imageAttachmentsPerMessage = 4"
definition imageAttachmentsPerRequest :: nat where "imageAttachmentsPerRequest = 8"
definition documentAttachmentMaxBytes :: int where "documentAttachmentMaxBytes = 26214400"
definition documentAttachmentsPerMessage :: nat where "documentAttachmentsPerMessage = 2"
definition documentAttachmentsPerRequest :: nat where "documentAttachmentsPerRequest = 4"
definition wireMetadataBytes :: nat where "wireMetadataBytes = 16384"

definition WIRE_CREDENTIAL_FIELD_NAMES :: "string list" where
  "WIRE_CREDENTIAL_FIELD_NAMES =
     [''accesstoken'', ''apikey'', ''apitoken'', ''authorization'', ''bearertoken'', ''clientsecret'',
      ''cookie'', ''credential'', ''credentials'', ''idtoken'', ''managedtoken'', ''password'',
      ''passwd'', ''privatekey'', ''proxyauthorization'', ''refreshtoken'', ''secret'',
      ''secretkey'', ''secrets'', ''setcookie'', ''signingkey'']"

definition WIRE_METADATA_FORBIDDEN_FIELD_NAMES :: "string list" where
  "WIRE_METADATA_FORBIDDEN_FIELD_NAMES = WIRE_CREDENTIAL_FIELD_NAMES @
     [''anthropic'', ''attribution'', ''automation'', ''automationid'', ''chunk'', ''choices'',
      ''completiontokens'', ''contentblock'', ''contentblockdelta'', ''finishreason'',
      ''functioncall'', ''functioncallingconfig'', ''gemini'', ''headers'', ''knownuser'',
      ''knownuserid'', ''model'', ''modelid'', ''modeltransport'', ''nativechunk'',
      ''nativefinishreason'', ''openai'', ''organization'', ''organizationid'', ''orgid'',
      ''project'', ''projectid'', ''provider'', ''providerchunk'', ''providererror'',
      ''providername'', ''providerpayload'', ''providerrequest'', ''providerresponse'',
      ''promptfeedback'', ''prompttokens'', ''raw'', ''rawerror'', ''rawrequest'', ''rawresponse'',
      ''requestheaders'', ''requestid'', ''serviceenvironment'', ''serviceenvironmentid'',
      ''session'', ''sessionid'', ''stopreason'', ''stopsequence'', ''systemfingerprint'',
      ''tooluse'', ''tooluses'', ''traceid'', ''usagemetadata'', ''xai'']"

record WireJsonLimits =
  wireMaxDepth :: nat
  wireMaxNodes :: nat
  wireMaxArrayLength :: nat
  wireMaxObjectKeys :: nat
  wireMaxKeyLength :: nat
  wireMaxStringLength :: nat
  wireForbiddenFields :: "string list"
  wireForbiddenStringValues :: "string list"

definition PUBLIC_JSON_LIMITS :: WireJsonLimits where
  "PUBLIC_JSON_LIMITS = \<lparr>wireMaxDepth = 20, wireMaxNodes = 10000, wireMaxArrayLength = 2000,
     wireMaxObjectKeys = 2000, wireMaxKeyLength = 256, wireMaxStringLength = 1000000,
     wireForbiddenFields = WIRE_CREDENTIAL_FIELD_NAMES, wireForbiddenStringValues = []\<rparr>"

definition WIRE_METADATA_LIMITS :: WireJsonLimits where
  "WIRE_METADATA_LIMITS = \<lparr>wireMaxDepth = 5, wireMaxNodes = 256, wireMaxArrayLength = 64,
     wireMaxObjectKeys = 64, wireMaxKeyLength = 128, wireMaxStringLength = 4096,
     wireForbiddenFields = WIRE_METADATA_FORBIDDEN_FIELD_NAMES,
     wireForbiddenStringValues = METADATA_FORBIDDEN_STRING_VALUES\<rparr>"

section \<open>JSON under limits\<close>

fun wire_visit :: "WireJsonLimits \<Rightarrow> string \<Rightarrow> string \<Rightarrow> nat \<Rightarrow> nat \<Rightarrow> json \<Rightarrow> fault + nat" where
  "wire_visit L path currentPath depth visited current =
     (let nodes = visited + 1 in
      if nodes > wireMaxNodes L
      then fail path (''must contain at most '' @ nat_digits (wireMaxNodes L) @ '' JSON values'')
      else if depth > wireMaxDepth L
      then fail currentPath (''exceeds maximum depth '' @ nat_digits (wireMaxDepth L))
      else case current of
        JNull \<Rightarrow> Inr nodes
      | JBool b \<Rightarrow> Inr nodes
      | JNum n \<Rightarrow> if isFinite n then Inr nodes
                  else fail currentPath ''must be a finite JSON number''
      | JStr s \<Rightarrow>
          if length s > wireMaxStringLength L
          then fail currentPath (''must be at most '' @ nat_digits (wireMaxStringLength L) @ '' characters'')
          else if citation_has_credential s then fail currentPath ''must not contain credential material''
          else if normalizeFieldName s \<in> set (wireForbiddenStringValues L)
          then fail currentPath ''must not identify provider-native data''
          else Inr nodes
      | JArr xs \<Rightarrow>
          if length xs > wireMaxArrayLength L
          then fail currentPath (''must contain at most '' @ nat_digits (wireMaxArrayLength L) @ '' items'')
          else fold_result (\<lambda>n (i, x). wire_visit L path (item_path currentPath i) (depth + 1) n x)
                 nodes (indexed xs)
      | JObj kvs \<Rightarrow>
          if length kvs > wireMaxObjectKeys L
          then fail currentPath (''must contain at most '' @ nat_digits (wireMaxObjectKeys L) @ '' fields'')
          else fold_result (\<lambda>n (k, x).
                 if k = [] \<or> length k > wireMaxKeyLength L
                 then fail (currentPath @ ''.'' @ k)
                        (''field names must be 1-'' @ nat_digits (wireMaxKeyLength L) @ '' characters'')
                 else if normalizeFieldName k \<in> set (wireForbiddenFields L)
                 then fail (currentPath @ ''.'' @ k) ''is forbidden at this public protocol boundary''
                 else wire_visit L path (currentPath @ ''.'' @ k) (depth + 1) n x)
                 nodes kvs)"

declare wire_visit.simps [simp del]

definition wire_validateJson :: "json \<Rightarrow> string \<Rightarrow> WireJsonLimits \<Rightarrow> fault + unit" where
  "wire_validateJson v path L = bind_result (wire_visit L path path 0 0 v) (\<lambda>_. Inr ())"

definition validateCredentialsAbsent :: "json \<Rightarrow> string \<Rightarrow> fault + unit" where
  "validateCredentialsAbsent v path = wire_validateJson v path PUBLIC_JSON_LIMITS"

definition wire_validateMetadata :: "host \<Rightarrow> json option \<Rightarrow> string \<Rightarrow> fault + json" where
  "wire_validateMetadata H v path =
     bind_result (event_record v path) (\<lambda>kvs.
     bind_result (wire_validateJson (JObj kvs) path WIRE_METADATA_LIMITS) (\<lambda>_.
       if utf8ByteLength (stringify H (JObj kvs)) > wireMetadataBytes
       then fail path (''must serialize to at most '' @ nat_digits wireMetadataBytes @ '' bytes'')
       else Inr (JObj kvs)))"

section \<open>JSON Schemas\<close>

definition JSON_SCHEMA_TYPES :: "(string \<times> string) list" where
  "JSON_SCHEMA_TYPES = map (\<lambda>t. (t, t))
     [''array'', ''boolean'', ''integer'', ''null'', ''number'', ''object'', ''string'']"

text \<open>A loop over an array whose items must be parsed and pairwise different.\<close>

fun unique_items :: "(json \<Rightarrow> string \<Rightarrow> fault + string) \<Rightarrow> string \<Rightarrow> nat \<Rightarrow> string list \<Rightarrow> json list \<Rightarrow> fault + unit" where
  "unique_items parse path i seen [] = Inr ()"
| "unique_items parse path i seen (x # xs) =
     bind_result (parse x (item_path path i)) (\<lambda>s.
       if s \<in> set seen then fail (item_path path i) ''must be unique''
       else unique_items parse path (Suc i) (s # seen) xs)"

definition schema_type_ok :: "(string \<times> json) list \<Rightarrow> string \<Rightarrow> fault + unit" where
  "schema_type_ok schema path =
     (case obj_get schema ''type'' of
        None \<Rightarrow> Inr ()
      | Some (JArr types) \<Rightarrow>
          if types = [] then fail (path @ ''.type'') ''must not be empty''
          else unique_items (\<lambda>x p. enumValue (Some x) JSON_SCHEMA_TYPES p) (path @ ''.type'') 0 [] types
      | Some t \<Rightarrow> bind_result (enumValue (Some t) JSON_SCHEMA_TYPES (path @ ''.type'')) (\<lambda>_. Inr ()))"

definition schema_required_ok :: "(string \<times> json) list \<Rightarrow> string \<Rightarrow> fault + unit" where
  "schema_required_ok schema path =
     (case obj_get schema ''required'' of
        None \<Rightarrow> Inr ()
      | Some (JArr names) \<Rightarrow>
          unique_items (\<lambda>x p. stringValue (Some x) p False wireIdentifierLength) (path @ ''.required'') 0 [] names
      | Some _ \<Rightarrow> fail (path @ ''.required'') ''must be an array'')"

definition schema_enum_ok :: "(string \<times> json) list \<Rightarrow> string \<Rightarrow> fault + unit" where
  "schema_enum_ok schema path =
     (case obj_get schema ''enum'' of
        None \<Rightarrow> Inr ()
      | Some (JArr (x # xs)) \<Rightarrow> Inr ()
      | Some _ \<Rightarrow> fail (path @ ''.enum'') ''must be a non-empty array'')"

definition schema_numbers_ok :: "(string \<times> json) list \<Rightarrow> string \<Rightarrow> fault + unit" where
  "schema_numbers_ok schema path =
     each (\<lambda>keyword. guard (case obj_get schema keyword of None \<Rightarrow> True
             | Some (JNum n) \<Rightarrow> isFinite n | Some _ \<Rightarrow> False)
           (path @ ''.'' @ keyword, ''must be a finite number''))
       [''multipleOf'', ''maximum'', ''exclusiveMaximum'', ''minimum'', ''exclusiveMinimum'',
        ''maxLength'', ''minLength'', ''maxItems'', ''minItems'', ''maxContains'', ''minContains'',
        ''maxProperties'', ''minProperties'']"

text \<open>The subschemas of an object, each checked by \<open>check\<close>.\<close>

definition schema_maps_ok ::
    "(json \<Rightarrow> string \<Rightarrow> fault + unit) \<Rightarrow> (string \<times> json) list \<Rightarrow> string \<Rightarrow> fault + unit" where
  "schema_maps_ok check schema path =
     each (\<lambda>keyword.
         case obj_get schema keyword of
           None \<Rightarrow> Inr ()
         | Some (JObj schemas) \<Rightarrow>
             each (\<lambda>(name, child). check child (path @ ''.'' @ keyword @ ''.'' @ name)) schemas
         | Some _ \<Rightarrow> fail (path @ ''.'' @ keyword) ''must be a JSON object'')
       [''properties'', ''patternProperties'', ''$defs'', ''definitions'', ''dependentSchemas'']"

definition schema_values_ok ::
    "(json \<Rightarrow> string \<Rightarrow> fault + unit) \<Rightarrow> (string \<times> json) list \<Rightarrow> string \<Rightarrow> fault + unit" where
  "schema_values_ok check schema path =
     each (\<lambda>keyword.
         case obj_get schema keyword of
           None \<Rightarrow> Inr ()
         | Some child \<Rightarrow> check child (path @ ''.'' @ keyword))
       [''additionalProperties'', ''unevaluatedProperties'', ''items'', ''contains'', ''not'',
        ''if'', ''then'', ''else'', ''propertyNames'']"

definition schema_lists_ok ::
    "(json \<Rightarrow> string \<Rightarrow> fault + unit) \<Rightarrow> (string \<times> json) list \<Rightarrow> string \<Rightarrow> fault + unit" where
  "schema_lists_ok check schema path =
     each (\<lambda>keyword.
         case obj_get schema keyword of
           None \<Rightarrow> Inr ()
         | Some (JArr (x # xs)) \<Rightarrow>
             each (\<lambda>(i, child). check child (item_path (path @ ''.'' @ keyword) i)) (indexed (x # xs))
         | Some _ \<Rightarrow> fail (path @ ''.'' @ keyword) ''must be a non-empty array of JSON Schemas'')
       [''allOf'', ''anyOf'', ''oneOf'', ''prefixItems'']"

lemma schema_ok_cong [fundef_cong]:
  assumes "schema = schema'" "path = path'"
    and "\<And>x p. size x < size (JObj schema') \<Longrightarrow> check x p = check' x p"
  shows "schema_maps_ok check schema path = schema_maps_ok check' schema' path'"
    and "schema_values_ok check schema path = schema_values_ok check' schema' path'"
    and "schema_lists_ok check schema path = schema_lists_ok check' schema' path'"
proof -
  have sub: "size v < size (JObj schema')" if "obj_get schema' k = Some v" for k v
    using obj_get_size [OF that] by simp
  have fields: "size child < size (JObj schema')" if "obj_get schema' k = Some (JObj kvs)" "(n, child) \<in> set kvs" for k kvs n child
    using sub [OF that(1)] size_field [OF that(2)] by simp
  have items: "size child < size (JObj schema')" if "obj_get schema' k = Some (JArr xs)" "(i, child) \<in> set (indexed xs)" for k xs i child
    using sub [OF that(1)] size_indexed [OF that(2)] by simp
  show "schema_maps_ok check schema path = schema_maps_ok check' schema' path'"
    unfolding schema_maps_ok_def assms(1,2)
    by (intro each_cong refl) (auto split: option.split json.split intro!: each_cong assms(3) dest: fields)
  show "schema_values_ok check schema path = schema_values_ok check' schema' path'"
    unfolding schema_values_ok_def assms(1,2)
    by (intro each_cong refl) (auto split: option.split intro!: assms(3) dest: sub)
  show "schema_lists_ok check schema path = schema_lists_ok check' schema' path'"
    unfolding schema_lists_ok_def assms(1,2)
    by (intro each_cong refl) (auto split: option.split json.split list.split intro!: each_cong assms(3) dest: items)
qed

function validateJsonSchemaNode :: "json \<Rightarrow> string \<Rightarrow> bool \<Rightarrow> fault + unit" where
  "validateJsonSchemaNode value path is_root =
     (case value of
        JObj schema \<Rightarrow>
          bind_result (guard (is_root \<longrightarrow> obj_get schema ''type'' = Some (JStr ''object''))
            (path @ ''.type'', ''must equal \"object\"'')) (\<lambda>_.
          bind_result (schema_type_ok schema path) (\<lambda>_.
          bind_result (schema_maps_ok (\<lambda>child p. validateJsonSchemaNode child p False) schema path) (\<lambda>_.
          bind_result (schema_required_ok schema path) (\<lambda>_.
          bind_result (schema_values_ok (\<lambda>child p. validateJsonSchemaNode child p False) schema path) (\<lambda>_.
          bind_result (schema_lists_ok (\<lambda>child p. validateJsonSchemaNode child p False) schema path) (\<lambda>_.
          bind_result (schema_enum_ok schema path) (\<lambda>_.
          schema_numbers_ok schema path)))))))
      | JBool b \<Rightarrow> if \<not> is_root then Inr () else fail path ''must be a JSON object''
      | _ \<Rightarrow> fail path ''must be a JSON object'')"
  by pat_completeness auto

termination by (relation "measure (\<lambda>(value, path, is_root). size value)") auto

declare validateJsonSchemaNode.simps [simp del]

section \<open>Attachments and messages\<close>

fun isInteger :: "jsnumber \<Rightarrow> bool" where
  "isInteger (Fin q) = (q = of_int \<lfloor>q\<rfloor>)"
| "isInteger _ = False"

definition rejectCredentialMaterial :: "string \<Rightarrow> string \<Rightarrow> fault + unit" where
  "rejectCredentialMaterial s path = guard (\<not> citation_has_credential s) (path, ''must not contain credential material'')"

definition validateAttachmentIdentifier :: "json option \<Rightarrow> string \<Rightarrow> fault + string" where
  "validateAttachmentIdentifier v path =
     bind_result (stringValue v path False 256) (\<lambda>s.
     bind_result (rejectCredentialMaterial s path) (\<lambda>_.
       if is_attachment_id s then Inr s
       else fail path ''must match ^att_[A-Za-z0-9][A-Za-z0-9._-]{0,251}$''))"

text \<open>\<open>/^(?:data|blob|https?):/i\<close> and \<open>CONTENT_REFERENCE_PATTERN\<close>.\<close>

definition has_url_scheme :: "string \<Rightarrow> bool" where
  "has_url_scheme s \<longleftrightarrow> list_ex (\<lambda>p. strip_ci p s \<noteq> None) [''data:'', ''blob:'', ''http:'', ''https:'']"

definition is_content_reference :: "string \<Rightarrow> bool" where
  "is_content_reference s \<longleftrightarrow>
     take 4 s = ''ref_'' \<and> length s \<le> 256 \<and>
     first_and_rest is_alnum (\<lambda>c. is_alnum c \<or> c \<in> set ''._-'') (drop 4 s)"

definition validateContentReference :: "json option \<Rightarrow> string \<Rightarrow> fault + string" where
  "validateContentReference v path =
     bind_result (stringValue v path False 256) (\<lambda>s.
     bind_result (rejectCredentialMaterial s path) (\<lambda>_.
       if has_url_scheme s \<or> \<not> is_content_reference s
       then fail path ''must be an opaque identifier matching ^ref_[A-Za-z0-9][A-Za-z0-9._-]{0,251}$''
       else Inr s))"

definition validateSafeFilename :: "json option \<Rightarrow> string \<Rightarrow> fault + string" where
  "validateSafeFilename v path =
     bind_result (stringValue v path False 255) (\<lambda>s.
     bind_result (rejectCredentialMaterial s path) (\<lambda>_.
       if s = ''.'' \<or> s = ''..'' \<or> list_ex unsafe_filename_char s
       then fail path ''must be a safe filename without path separators or control characters''
       else Inr s))"

definition validate_byte_size :: "int \<Rightarrow> int \<Rightarrow> json option \<Rightarrow> string \<Rightarrow> fault + unit" where
  "validate_byte_size minBytes maxBytes v path =
     guard (case v of Some (JNum n) \<Rightarrow> isInteger n \<and> minBytes \<le> int_of_number n \<and> int_of_number n \<le> maxBytes | _ \<Rightarrow> False)
       (path, ''must be an integer from '' @ int_string minBytes @ '' through '' @ int_string maxBytes)"

definition wire_validateAttachmentReference ::
    "json option \<Rightarrow> string \<Rightarrow> string list \<Rightarrow> int \<Rightarrow> int \<Rightarrow> fault + unit" where
  "wire_validateAttachmentReference v path mediaTypes minBytes maxBytes =
     bind_result (event_record v path) (\<lambda>a.
     bind_result (requiredKeys a [''attachment_id'', ''content_ref'', ''media_type'', ''byte_size''] path) (\<lambda>_.
     bind_result (allowedKeys a [''attachment_id'', ''content_ref'', ''media_type'', ''byte_size'', ''filename''] path) (\<lambda>_.
     bind_result (validateAttachmentIdentifier (obj_get a ''attachment_id'') (path @ ''.attachment_id'')) (\<lambda>_.
     bind_result (validateContentReference (obj_get a ''content_ref'') (path @ ''.content_ref'')) (\<lambda>_.
     bind_result (enumValue (obj_get a ''media_type'') (map (\<lambda>t. (t, t)) mediaTypes) (path @ ''.media_type'')) (\<lambda>_.
     bind_result (validate_byte_size minBytes maxBytes (obj_get a ''byte_size'') (path @ ''.byte_size'')) (\<lambda>_.
     bind_result (optional_field validateSafeFilename a ''filename'' path) (\<lambda>_. Inr ()))))))))"

definition validateImagePart :: "json option \<Rightarrow> string \<Rightarrow> fault + unit" where
  "validateImagePart v path =
     bind_result (event_record v path) (\<lambda>p.
     bind_result (requiredKeys p [''type'', ''attachment''] path) (\<lambda>_.
     bind_result (allowedKeys p [''type'', ''attachment'', ''alt_text''] path) (\<lambda>_.
     bind_result (guard (obj_get p ''type'' = Some (JStr ''image'')) (path @ ''.type'', ''must equal \"image\"'')) (\<lambda>_.
     bind_result (wire_validateAttachmentReference (obj_get p ''attachment'') (path @ ''.attachment'')
       AI_RUNTIME_IMAGE_MIME_TYPES 1 imageAttachmentMaxBytes) (\<lambda>_.
     bind_result (optional_field (\<lambda>v q. bind_result (stringValue v q False attachmentAltTextLength)
       (\<lambda>s. rejectCredentialMaterial s q)) p ''alt_text'' path) (\<lambda>_. Inr ()))))))"

definition validateDocumentPart :: "json option \<Rightarrow> string \<Rightarrow> fault + unit" where
  "validateDocumentPart v path =
     bind_result (event_record v path) (\<lambda>p.
     bind_result (requiredKeys p [''type'', ''attachment''] path) (\<lambda>_.
     bind_result (allowedKeys p [''type'', ''attachment''] path) (\<lambda>_.
     bind_result (guard (obj_get p ''type'' = Some (JStr ''document'')) (path @ ''.type'', ''must equal \"document\"'')) (\<lambda>_.
     wire_validateAttachmentReference (obj_get p ''attachment'') (path @ ''.attachment'')
       AI_RUNTIME_DOCUMENT_MIME_TYPES 1 documentAttachmentMaxBytes))))"

datatype ContentPartKind = TextPart | ImagePart | DocumentPart

definition validateMessageContentPart :: "json option \<Rightarrow> string \<Rightarrow> fault + ContentPartKind" where
  "validateMessageContentPart v path =
     bind_result (event_record v path) (\<lambda>p.
       if obj_get p ''type'' = Some (JStr ''text'')
       then bind_result (validateTextPart v path) (\<lambda>_. Inr TextPart)
       else if obj_get p ''type'' = Some (JStr ''image'')
       then bind_result (validateImagePart v path) (\<lambda>_. Inr ImagePart)
       else if obj_get p ''type'' = Some (JStr ''document'')
       then bind_result (validateDocumentPart v path) (\<lambda>_. Inr DocumentPart)
       else fail (path @ ''.type'') ''must equal \"text\", \"image\", or \"document\"'')"

record MessageAttachmentCounts =
  imageCount :: nat
  documentCount :: nat

definition count_part ::
    "bool \<Rightarrow> string \<Rightarrow> MessageAttachmentCounts \<Rightarrow> nat \<times> json \<Rightarrow> fault + MessageAttachmentCounts" where
  "count_part from_user path counts ix =
     (let partPath = item_path (path @ ''.content'') (fst ix) in
      bind_result (validateMessageContentPart (Some (snd ix)) partPath) (\<lambda>kind.
        case kind of
          TextPart \<Rightarrow> Inr counts
        | ImagePart \<Rightarrow> Inr (counts\<lparr>imageCount := imageCount counts + 1\<rparr>)
        | DocumentPart \<Rightarrow>
            if \<not> from_user then fail (partPath @ ''.type'') ''document parts are user-only''
            else Inr (counts\<lparr>documentCount := documentCount counts + 1\<rparr>)))"

definition validateMessage :: "json option \<Rightarrow> string \<Rightarrow> fault + MessageAttachmentCounts" where
  "validateMessage v path =
     bind_result (event_record v path) (\<lambda>message.
     bind_result (requiredKeys message [''role'', ''content''] path) (\<lambda>_.
     bind_result (allowedKeys message [''role'', ''content''] path) (\<lambda>_.
     bind_result (enumValue (obj_get message ''role'') [(''user'', True), (''assistant'', False)] (path @ ''.role'')) (\<lambda>from_user.
       case obj_get message ''content'' of
         Some (JArr (part # parts)) \<Rightarrow>
           bind_result (fold_result (count_part from_user path) \<lparr>imageCount = 0, documentCount = 0\<rparr>
             (indexed (part # parts))) (\<lambda>counts.
           if imageCount counts > imageAttachmentsPerMessage
           then fail (path @ ''.content'') (''must contain at most '' @ nat_digits imageAttachmentsPerMessage @ '' image parts'')
           else if documentCount counts > documentAttachmentsPerMessage
           then fail (path @ ''.content'')
             (''must contain at most '' @ nat_digits documentAttachmentsPerMessage @ '' document parts'')
           else Inr counts)
       | _ \<Rightarrow> fail (path @ ''.content'') ''must be a non-empty array''))))"

section \<open>Tools\<close>

record ToolDefinition =
  tool_name :: string
  tool_description :: string
  input_schema :: json

definition validateToolDefinition :: "json option \<Rightarrow> string \<Rightarrow> fault + ToolDefinition" where
  "validateToolDefinition v path =
     bind_result (event_record v path) (\<lambda>tool.
     bind_result (requiredKeys tool [''name'', ''description'', ''input_schema''] path) (\<lambda>_.
     bind_result (allowedKeys tool [''name'', ''description'', ''input_schema''] path) (\<lambda>_.
     bind_result (stringValue (obj_get tool ''name'') (path @ ''.name'') False wireIdentifierLength) (\<lambda>name.
     bind_result (stringValue (obj_get tool ''description'') (path @ ''.description'') False wireTextLength) (\<lambda>description.
     bind_result (event_record (obj_get tool ''input_schema'') (path @ ''.input_schema'')) (\<lambda>schema.
     bind_result (validateCredentialsAbsent (JObj schema) (path @ ''.input_schema'')) (\<lambda>_.
     bind_result (validateJsonSchemaNode (JObj schema) (path @ ''.input_schema'') True) (\<lambda>_.
       Inr \<lparr>tool_name = name, tool_description = description, input_schema = JObj schema\<rparr>))))))))"

definition parseToolDefinition :: "json \<Rightarrow> fault + ToolDefinition" where
  "parseToolDefinition v = validateToolDefinition (Some v) ''$tool''"

definition tool_json :: "ToolDefinition \<Rightarrow> json" where
  "tool_json t = JObj [(''name'', JStr (tool_name t)), (''description'', JStr (tool_description t)),
     (''input_schema'', input_schema t)]"

record ApplicationToolResult =
  result_tool_call_id :: string
  result_name :: string
  result_content :: "json list"
  result_is_error :: bool
  result_citations :: "CitationRecordSet option"

definition wire_validateToolResultPart :: "json option \<Rightarrow> string \<Rightarrow> fault + unit" where
  "wire_validateToolResultPart v path =
     bind_result (event_record v path) (\<lambda>part.
       if obj_get part ''type'' = Some (JStr ''text'')
       then bind_result (validateTextPart v path) (\<lambda>_. Inr ())
       else if obj_get part ''type'' = Some (JStr ''json'')
       then bind_result (requiredKeys part [''type'', ''value''] path) (\<lambda>_.
            bind_result (allowedKeys part [''type'', ''value''] path) (\<lambda>_.
            validateCredentialsAbsent (the (obj_get part ''value'')) (path @ ''.value'')))
       else fail (path @ ''.type'') ''must equal \"text\" or \"json\"'')"

text \<open>The citation records of a result, and the message of an error of their normalization.\<close>

definition normalized_records :: "host \<Rightarrow> json \<Rightarrow> string \<Rightarrow> fault + CitationRecordSet" where
  "normalized_records H v path =
     (case normalizeCitationRecords H v of
        Inl (p, message) \<Rightarrow> fail path (p @ '': '' @ message)
      | Inr records \<Rightarrow> Inr records)"

definition validate_result_citations :: "host \<Rightarrow> string \<Rightarrow> json option \<Rightarrow> string \<Rightarrow> fault + CitationRecordSet" where
  "validate_result_citations H call_id v path =
     bind_result (normalized_records H (the v) path) (\<lambda>records.
       if Citations.citations records = []
       then fail (path @ ''.citations'') ''must contain at least one citation link''
       else if \<not> jsonValuesEqual (records_json records) (the v)
       then fail path ''must already be normalized and identity-deduplicated''
       else if list_ex (\<lambda>c. citation_target c \<noteq> ToolResultCitationTarget call_id) (Citations.citations records)
       then fail (path @ ''.citations'') ''must contain only links to this tool result''
       else Inr records)"

definition validateToolResult :: "host \<Rightarrow> json option \<Rightarrow> string \<Rightarrow> fault + ApplicationToolResult" where
  "validateToolResult H v path =
     bind_result (event_record v path) (\<lambda>res.
     bind_result (requiredKeys res [''tool_call_id'', ''name'', ''content'', ''is_error''] path) (\<lambda>_.
     bind_result (allowedKeys res [''tool_call_id'', ''name'', ''content'', ''is_error'', ''citation_records''] path) (\<lambda>_.
     bind_result (stringValue (obj_get res ''tool_call_id'') (path @ ''.tool_call_id'') False wireIdentifierLength) (\<lambda>call_id.
     bind_result (stringValue (obj_get res ''name'') (path @ ''.name'') False wireIdentifierLength) (\<lambda>name.
       case obj_get res ''content'' of
         Some (JArr (part # parts)) \<Rightarrow>
           bind_result (each (\<lambda>(i, x). wire_validateToolResultPart (Some x) (item_path (path @ ''.content'') i))
             (indexed (part # parts))) (\<lambda>_.
           bind_result (booleanValue (obj_get res ''is_error'') (path @ ''.is_error'')) (\<lambda>is_error.
           bind_result (optional_field (validate_result_citations H call_id) res ''citation_records'' path) (\<lambda>records.
             Inr \<lparr>result_tool_call_id = call_id, result_name = name, result_content = part # parts,
                  result_is_error = is_error, result_citations = records\<rparr>)))
       | _ \<Rightarrow> fail (path @ ''.content'') ''must be a non-empty array'')))))"

section \<open>Requests\<close>

record GenerationSettings =
  max_output_tokens :: jsnumber
  temperature :: jsnumber

definition validateGeneration :: "json option \<Rightarrow> string \<Rightarrow> fault + GenerationSettings" where
  "validateGeneration v path =
     bind_result (event_record v path) (\<lambda>g.
     bind_result (requiredKeys g [''max_output_tokens'', ''temperature''] path) (\<lambda>_.
     bind_result (allowedKeys g [''max_output_tokens'', ''temperature''] path) (\<lambda>_.
       case obj_get g ''max_output_tokens'' of
         Some (JNum n) \<Rightarrow>
           if isInteger n \<and> 0 < int_of_number n
           then (case obj_get g ''temperature'' of
                   Some (JNum (Fin t)) \<Rightarrow>
                     if 0 \<le> t \<and> t \<le> 2 then Inr \<lparr>max_output_tokens = n, temperature = Fin t\<rparr>
                     else fail (path @ ''.temperature'') ''must be a finite number from 0 through 2''
                 | _ \<Rightarrow> fail (path @ ''.temperature'') ''must be a finite number from 0 through 2'')
           else fail (path @ ''.max_output_tokens'') ''must be a positive integer''
       | _ \<Rightarrow> fail (path @ ''.max_output_tokens'') ''must be a positive integer'')))"

definition validateCorrelationHint :: "json option \<Rightarrow> string \<Rightarrow> fault + string" where
  "validateCorrelationHint v path =
     bind_result (event_record v path) (\<lambda>hint.
     bind_result (requiredKeys hint [''external_id'', ''source'', ''trust''] path) (\<lambda>_.
     bind_result (allowedKeys hint [''external_id'', ''source'', ''trust''] path) (\<lambda>_.
     bind_result (stringValue (obj_get hint ''external_id'') (path @ ''.external_id'') False wireIdentifierLength) (\<lambda>external.
     bind_result (guard (obj_get hint ''source'' = Some (JStr ''client'')) (path @ ''.source'', ''must equal \"client\"'')) (\<lambda>_.
     bind_result (guard (obj_get hint ''trust'' = Some (JStr ''untrusted_correlation_hint''))
       (path @ ''.trust'', ''must equal \"untrusted_correlation_hint\"'')) (\<lambda>_. Inr external))))))"

record CorrelationHints =
  hint_known_user :: "string option"
  hint_session :: "string option"
  hint_automation :: "string option"

definition validateCorrelationHints :: "json option \<Rightarrow> string \<Rightarrow> fault + CorrelationHints" where
  "validateCorrelationHints v path =
     bind_result (event_record v path) (\<lambda>hints.
     bind_result (allowedKeys hints [''known_user'', ''session'', ''automation''] path) (\<lambda>_.
     bind_result (optional_field validateCorrelationHint hints ''known_user'' path) (\<lambda>user.
     bind_result (optional_field validateCorrelationHint hints ''session'' path) (\<lambda>session.
     bind_result (optional_field validateCorrelationHint hints ''automation'' path) (\<lambda>automation.
       Inr \<lparr>hint_known_user = user, hint_session = session, hint_automation = automation\<rparr>)))))"

record ChatRequest =
  continuation_of :: "string option"
  chat_messages :: "json list"
  chat_tools :: "ToolDefinition list"
  chat_tool_results :: "ApplicationToolResult list"
  chat_generation :: GenerationSettings
  correlation_hints :: CorrelationHints
  chat_metadata :: "json option"

definition validate_continuation :: "json option \<Rightarrow> fault + string option" where
  "validate_continuation v =
     (if v = Some JNull then Inr None
      else bind_result (stringValue v ''$request.continuation_of'' False wireIdentifierLength) (\<lambda>s. Inr (Some s)))"

definition count_message ::
    "MessageAttachmentCounts \<Rightarrow> nat \<times> json \<Rightarrow> fault + MessageAttachmentCounts" where
  "count_message sofar ix =
     bind_result (validateMessage (Some (snd ix)) (item_path ''$request.messages'' (fst ix))) (\<lambda>counts.
       Inr \<lparr>imageCount = imageCount sofar + imageCount counts,
            documentCount = documentCount sofar + documentCount counts\<rparr>)"

definition validate_messages :: "json option \<Rightarrow> fault + json list" where
  "validate_messages v =
     (case v of
        Some (JArr (message # messages)) \<Rightarrow>
          bind_result (fold_result count_message \<lparr>imageCount = 0, documentCount = 0\<rparr>
            (indexed (message # messages))) (\<lambda>counts.
          if imageCount counts > imageAttachmentsPerRequest
          then fail ''$request.messages'' (''must contain at most '' @ nat_digits imageAttachmentsPerRequest @
            '' image parts across the request'')
          else if documentCount counts > documentAttachmentsPerRequest
          then fail ''$request.messages'' (''must contain at most '' @ nat_digits documentAttachmentsPerRequest @
            '' document parts across the request'')
          else Inr (message # messages))
      | _ \<Rightarrow> fail ''$request.messages'' ''must be a non-empty array'')"

fun validate_tools :: "nat \<Rightarrow> string list \<Rightarrow> json list \<Rightarrow> fault + ToolDefinition list" where
  "validate_tools i toolNames [] = Inr []"
| "validate_tools i toolNames (x # xs) =
     bind_result (validateToolDefinition (Some x) (item_path ''$request.tools'' i)) (\<lambda>tool.
       if tool_name tool \<in> set toolNames
       then fail (item_path ''$request.tools'' i @ ''.name'') ''must be unique''
       else bind_result (validate_tools (Suc i) (tool_name tool # toolNames) xs) (\<lambda>tools. Inr (tool # tools)))"

fun validate_tool_results ::
    "host \<Rightarrow> string list \<Rightarrow> nat \<Rightarrow> string list \<Rightarrow> json list \<Rightarrow> fault + ApplicationToolResult list" where
  "validate_tool_results H toolNames i callIds [] = Inr []"
| "validate_tool_results H toolNames i callIds (x # xs) =
     bind_result (validateToolResult H (Some x) (item_path ''$request.tool_results'' i)) (\<lambda>res.
       if result_name res \<notin> set toolNames
       then fail (item_path ''$request.tool_results'' i @ ''.name'') ''must match a declared tool''
       else if result_tool_call_id res \<in> set callIds
       then fail (item_path ''$request.tool_results'' i @ ''.tool_call_id'') ''must be unique''
       else bind_result (validate_tool_results H toolNames (Suc i) (result_tool_call_id res # callIds) xs)
              (\<lambda>results. Inr (res # results)))"

definition array_field :: "json option \<Rightarrow> string \<Rightarrow> fault + json list" where
  "array_field v path = (case v of Some (JArr xs) \<Rightarrow> Inr xs | _ \<Rightarrow> fail path ''must be an array'')"

definition request_keys :: "string list" where
  "request_keys = [''protocol_version'', ''continuation_of'', ''messages'', ''tools'', ''tool_results'',
     ''generation'', ''correlation_hints'']"

definition parseChatRequest :: "host \<Rightarrow> json \<Rightarrow> fault + ChatRequest" where
  "parseChatRequest H v =
     bind_result (event_record (Some v) ''$request'') (\<lambda>req.
     bind_result (requiredKeys req request_keys ''$request'') (\<lambda>_.
     bind_result (allowedKeys req (request_keys @ [''metadata'']) ''$request'') (\<lambda>_.
     bind_result (guard (obj_get req ''protocol_version'' = Some (JStr AI_RUNTIME_PROTOCOL_VERSION))
       (''$request.protocol_version'', ''must equal \"handrail.ai-runtime.v1\"'')) (\<lambda>_.
     bind_result (validate_continuation (obj_get req ''continuation_of'')) (\<lambda>continuation.
     bind_result (validate_messages (obj_get req ''messages'')) (\<lambda>messages.
     bind_result (array_field (obj_get req ''tools'') ''$request.tools'') (\<lambda>tools.
     bind_result (validate_tools 0 [] tools) (\<lambda>tools.
     bind_result (array_field (obj_get req ''tool_results'') ''$request.tool_results'') (\<lambda>results.
     bind_result (validate_tool_results H (map tool_name tools) 0 [] results) (\<lambda>results.
     bind_result (guard (\<not> (results = [] \<and> continuation \<noteq> None))
       (''$request.continuation_of'', ''must be null when tool_results is empty'')) (\<lambda>_.
     bind_result (guard (\<not> (results \<noteq> [] \<and> continuation = None))
       (''$request.continuation_of'', ''must identify the preceding request when tool_results is non-empty'')) (\<lambda>_.
     bind_result (validateGeneration (obj_get req ''generation'') ''$request.generation'') (\<lambda>generation.
     bind_result (validateCorrelationHints (obj_get req ''correlation_hints'') ''$request.correlation_hints'') (\<lambda>hints.
     bind_result (optional_field (wire_validateMetadata H) req ''metadata'' ''$request'') (\<lambda>metadata.
       Inr \<lparr>continuation_of = continuation, chat_messages = messages, chat_tools = tools,
            chat_tool_results = results, chat_generation = generation, correlation_hints = hints,
            chat_metadata = metadata\<rparr>)))))))))))))))"

definition isChatRequest :: "host \<Rightarrow> json \<Rightarrow> bool" where
  "isChatRequest H v = (case parseChatRequest H v of Inr _ \<Rightarrow> True | Inl _ \<Rightarrow> False)"

end
