(* ===== verification/ToolRegistry.thy ===== *)
theory ToolRegistry
  imports Protocol
begin

text \<open>
  The registry of tools (src/tools/registry.ts) and the plan of deferred tool discovery
  (src/tools/deferred.ts). Executors and discovery predicates are values of the host; freezing
  leaves values unchanged.
\<close>

section \<open>Registrations\<close>

datatype registry_error = DefinitionFault fault | RegistryTypeError string

text \<open>
  A copy of a JSON value by assignment: assigning the field \<open>__proto__\<close> of an object literal
  sets its prototype, not a field.
\<close>

fun cloneJson :: "json \<Rightarrow> json" where
  "cloneJson (JArr xs) = JArr (map cloneJson xs)"
| "cloneJson (JObj kvs) =
     JObj (map (\<lambda>(k, v). (k, cloneJson v)) (filter (\<lambda>(k, v). k \<noteq> ''__proto__'') kvs))"
| "cloneJson v = v"

definition immutableDefinition :: "ToolDefinition \<Rightarrow> ToolDefinition" where
  "immutableDefinition d = d\<lparr>input_schema := cloneJson (input_schema d)\<rparr>"

record ('x, 'c) ToolRegistration =
  registration_definition :: json
  registration_executor :: 'x
  registration_tags :: "string list option"
  registration_capabilities :: "string list option"
  registration_discover :: "('c \<Rightarrow> bool) option"

record ('x, 'c) RegisteredTool =
  tool_definition :: ToolDefinition
  tool_executor :: 'x
  tool_tags :: "string list option"
  tool_capabilities :: "string list option"
  tool_discover :: "('c \<Rightarrow> bool) option"

fun normalized_items :: "string \<Rightarrow> nat \<Rightarrow> string list \<Rightarrow> string list \<Rightarrow> registry_error + unit" where
  "normalized_items field i seen [] = Inr ()"
| "normalized_items field i seen (s # ss) =
     (if s = [] then Inl (RegistryTypeError (item_path field i @ '' must be a non-empty string''))
      else if s \<in> set seen then Inl (RegistryTypeError (item_path field i @ '' must be unique''))
      else normalized_items field (Suc i) (s # seen) ss)"

definition normalizedStrings :: "string list option \<Rightarrow> string \<Rightarrow> registry_error + string list option" where
  "normalizedStrings values field =
     (case values of
        None \<Rightarrow> Inr None
      | Some ss \<Rightarrow> bind_result (normalized_items field 0 [] ss) (\<lambda>_. Inr (Some ss)))"

definition parsed_definition :: "json \<Rightarrow> registry_error + ToolDefinition" where
  "parsed_definition v = (case parseToolDefinition v of Inl f \<Rightarrow> Inl (DefinitionFault f) | Inr d \<Rightarrow> Inr d)"

definition immutableRegistration :: "('x, 'c) ToolRegistration \<Rightarrow> registry_error + ('x, 'c) RegisteredTool" where
  "immutableRegistration r =
     bind_result (parsed_definition (registration_definition r)) (\<lambda>d.
     bind_result (normalizedStrings (registration_tags r) ''tags'') (\<lambda>tags.
     bind_result (normalizedStrings (registration_capabilities r) ''capabilities'') (\<lambda>capabilities.
       Inr \<lparr>tool_definition = immutableDefinition d, tool_executor = registration_executor r, tool_tags = tags,
            tool_capabilities = capabilities, tool_discover = registration_discover r\<rparr>)))"

section \<open>The registry\<close>

type_synonym ('x, 'c) ToolRegistry = "(string, ('x, 'c) RegisteredTool) jsmap"

abbreviation registered_name :: "('x, 'c) RegisteredTool \<Rightarrow> string" where
  "registered_name t \<equiv> tool_name (tool_definition t)"

definition already_registered :: "string \<Rightarrow> registry_error" where
  "already_registered name = RegistryTypeError (''Tool \"'' @ name @ ''\" is already registered'')"

definition register :: "('x, 'c) ToolRegistration \<Rightarrow> ('x, 'c) ToolRegistry \<Rightarrow> registry_error + ('x, 'c) ToolRegistry" where
  "register r R =
     bind_result (immutableRegistration r) (\<lambda>t.
       if map_get R (registered_name t) \<noteq> None then Inl (already_registered (registered_name t))
       else Inr (map_set (registered_name t) t R))"

definition unregister :: "string \<Rightarrow> ('x, 'c) ToolRegistry \<Rightarrow> bool \<times> ('x, 'c) ToolRegistry" where
  "unregister name R = (map_get R name \<noteq> None, filter (\<lambda>kv. fst kv \<noteq> name) R)"

definition get_tool :: "string \<Rightarrow> ('x, 'c) ToolRegistry \<Rightarrow> ('x, 'c) RegisteredTool option" where
  "get_tool name R = map_get R name"

definition compareNames :: "('x, 'c) RegisteredTool \<Rightarrow> ('x, 'c) RegisteredTool \<Rightarrow> int" where
  "compareNames left right =
     (if registered_name left < registered_name right then - 1
      else if registered_name right < registered_name left then 1 else 0)"

definition list_tools :: "('x, 'c) ToolRegistry \<Rightarrow> ToolDefinition list" where
  "list_tools R = map tool_definition (sort_by compareNames (map snd R))"

record 'c ToolDiscoveryQuery =
  query_context :: 'c
  query_capabilities :: "string list option"
  query_tags :: "string list option"

definition includesAll :: "string list \<Rightarrow> string list \<Rightarrow> bool" where
  "includesAll available required \<longleftrightarrow> list_all (\<lambda>v. v \<in> set available) required"

definition list_or_empty :: "string list option \<Rightarrow> string list" where
  "list_or_empty v = (case v of None \<Rightarrow> [] | Some xs \<Rightarrow> xs)"

definition is_discovered :: "'c ToolDiscoveryQuery \<Rightarrow> ('x, 'c) RegisteredTool \<Rightarrow> bool" where
  "is_discovered q t \<longleftrightarrow>
     (case tool_capabilities t of None \<Rightarrow> True | Some cs \<Rightarrow> includesAll (list_or_empty (query_capabilities q)) cs) \<and>
     (case query_tags q of None \<Rightarrow> True | Some tags \<Rightarrow> includesAll (list_or_empty (tool_tags t)) tags) \<and>
     (case tool_discover t of None \<Rightarrow> True | Some d \<Rightarrow> d (query_context q))"

definition discover :: "'c ToolDiscoveryQuery \<Rightarrow> ('x, 'c) ToolRegistry \<Rightarrow> ToolDefinition list" where
  "discover q R = map tool_definition (sort_by compareNames (filter (is_discovered q) (map snd R)))"

text \<open>The registrations an adapter supplied, added all together or not at all.\<close>

fun new_names :: "('x, 'c) ToolRegistry \<Rightarrow> string list \<Rightarrow> ('x, 'c) RegisteredTool list \<Rightarrow> registry_error + unit" where
  "new_names R seen [] = Inr ()"
| "new_names R seen (t # ts) =
     (if registered_name t \<in> set seen \<or> map_get R (registered_name t) \<noteq> None
      then Inl (already_registered (registered_name t))
      else new_names R (registered_name t # seen) ts)"

definition registerAdapter ::
    "('x, 'c) ToolRegistration list \<Rightarrow> ('x, 'c) ToolRegistry \<Rightarrow> registry_error + ('x, 'c) ToolRegistry" where
  "registerAdapter source R =
     bind_result (map_result immutableRegistration source) (\<lambda>snapshots.
     bind_result (new_names R [] snapshots) (\<lambda>_.
       Inr (fold (\<lambda>t. map_set (registered_name t) t) snapshots R)))"

section \<open>Deferred discovery\<close>

record ToolNamespaceDefinition =
  namespace_name :: string
  namespace_description :: string
  namespace_toolNames :: "string list"
  namespace_deferred :: "bool option"

record ResolvedToolNamespace =
  resolved_name :: string
  resolved_description :: string
  resolved_deferred :: bool
  resolved_tools :: "ToolDefinition list"

record DeferredToolDiscoveryPlan =
  eagerTools :: "ToolDefinition list"
  plan_namespaces :: "ResolvedToolNamespace list"
  toolCount :: nat

record DeferredPlanOptions =
  plan_tools :: "json list"
  plan_definitions :: "ToolNamespaceDefinition list"
  includeUnassigned :: "bool option"
  maximumEagerTools :: "jsnumber option"
  maximumTotalTools :: "jsnumber option"

definition boundedInteger :: "jsnumber option \<Rightarrow> int \<Rightarrow> string \<Rightarrow> registry_error + int" where
  "boundedInteger v fallback name =
     (let resolved = (case v of None \<Rightarrow> Fin (of_int fallback) | Some n \<Rightarrow> n) in
      if \<not> isSafeInteger resolved \<or> int_of_number resolved < 1 \<or> int_of_number resolved > 1024
      then Inl (RegistryTypeError (name @ '' must be an integer between 1 and 1024''))
      else Inr (int_of_number resolved))"

text \<open>\<open>/^[a-z][a-z0-9_]{0,63}$/\<close>\<close>

definition is_namespace_name :: "string \<Rightarrow> bool" where
  "is_namespace_name s \<longleftrightarrow>
     (case s of [] \<Rightarrow> False
      | c # cs \<Rightarrow> is_lower_char c \<and> length cs \<le> 63 \<and>
          list_all (\<lambda>d. is_lower_char d \<or> is_digit_char d \<or> d = CHR ''_'') cs)"

fun catalog_definitions ::
    "(string, ToolDefinition) jsmap \<Rightarrow> json list \<Rightarrow> registry_error + (string, ToolDefinition) jsmap" where
  "catalog_definitions m [] = Inr m"
| "catalog_definitions m (v # vs) =
     bind_result (parsed_definition v) (\<lambda>d.
       if map_get m (tool_name d) \<noteq> None
       then Inl (RegistryTypeError (''Duplicate tool \"'' @ tool_name d @ ''\"''))
       else catalog_definitions (map_set (tool_name d) d m) vs)"

text \<open>The tools of a namespace, and the assigned names so far.\<close>

fun namespace_tools ::
    "(string, ToolDefinition) jsmap \<Rightarrow> string list \<Rightarrow> string list \<Rightarrow> string list \<Rightarrow>
     registry_error + ToolDefinition list \<times> string list" where
  "namespace_tools m seen assigned [] = Inr ([], assigned)"
| "namespace_tools m seen assigned (n # ns) =
     (if n \<in> set seen then Inl (RegistryTypeError ''Duplicate tool within namespace'')
      else case map_get m n of
        None \<Rightarrow> Inl (RegistryTypeError (''Namespace references undiscovered tool \"'' @ n @ ''\"''))
      | Some d \<Rightarrow>
          if n \<in> set assigned then Inl (RegistryTypeError (''Tool \"'' @ n @ ''\" belongs to multiple namespaces''))
          else bind_result (namespace_tools m (n # seen) (n # assigned) ns) (\<lambda>(ds, assigned'). Inr (d # ds, assigned')))"

definition namespace_field :: "nat \<Rightarrow> string \<Rightarrow> string" where
  "namespace_field i rest = item_path ''namespaces'' i @ rest"

fun resolve_namespaces ::
    "(string, ToolDefinition) jsmap \<Rightarrow> nat \<Rightarrow> string list \<Rightarrow> string list \<Rightarrow> ToolNamespaceDefinition list \<Rightarrow>
     registry_error + ResolvedToolNamespace list \<times> string list" where
  "resolve_namespaces m i names assigned [] = Inr ([], assigned)"
| "resolve_namespaces m i names assigned (ns # nss) =
     (if \<not> is_namespace_name (namespace_name ns)
      then Inl (RegistryTypeError (namespace_field i ''.name has an invalid format''))
      else if namespace_name ns \<in> set names then Inl (RegistryTypeError ''Duplicate tool namespace'')
      else if trim (namespace_description ns) = [] \<or> length (namespace_description ns) > 1024
      then Inl (RegistryTypeError (namespace_field i ''.description is invalid''))
      else if namespace_toolNames ns = []
      then Inl (RegistryTypeError (namespace_field i '' must contain at least one tool''))
      else bind_result (namespace_tools m [] assigned (namespace_toolNames ns)) (\<lambda>(tools, assigned').
           bind_result (resolve_namespaces m (Suc i) (namespace_name ns # names) assigned' nss) (\<lambda>(rs, assigned'').
             Inr (\<lparr>resolved_name = namespace_name ns, resolved_description = trim (namespace_description ns),
                   resolved_deferred = (case namespace_deferred ns of None \<Rightarrow> True | Some b \<Rightarrow> b),
                   resolved_tools = tools\<rparr> # rs, assigned''))))"

text \<open>What is projected at once: namespaces that are not deferred, and tools of no namespace.\<close>

definition eager_projection ::
    "DeferredPlanOptions \<Rightarrow> (string, ToolDefinition) jsmap \<Rightarrow> ResolvedToolNamespace list \<Rightarrow> string list \<Rightarrow> ToolDefinition list" where
  "eager_projection opts m namespaces assigned =
     concat (map resolved_tools (filter (\<lambda>n. \<not> resolved_deferred n) namespaces)) @
     (if includeUnassigned opts = Some False then []
      else filter (\<lambda>d. tool_name d \<notin> set assigned) (map snd m))"

definition createDeferredToolDiscoveryPlan :: "DeferredPlanOptions \<Rightarrow> registry_error + DeferredToolDiscoveryPlan" where
  "createDeferredToolDiscoveryPlan opts =
     bind_result (boundedInteger (maximumEagerTools opts) 16 ''maximumEagerTools'') (\<lambda>maximumEager.
     bind_result (boundedInteger (maximumTotalTools opts) 256 ''maximumTotalTools'') (\<lambda>maximumTotal.
     bind_result (guard (\<not> int (length (plan_tools opts)) > maximumTotal)
       (RegistryTypeError ''Discovered tool catalog exceeds maximumTotalTools'')) (\<lambda>_.
     bind_result (catalog_definitions [] (plan_tools opts)) (\<lambda>m.
     bind_result (resolve_namespaces m 0 [] [] (plan_definitions opts)) (\<lambda>(namespaces, assigned).
     let eager = eager_projection opts m namespaces assigned in
     if int (length eager) > maximumEager
     then Inl (RegistryTypeError ''Eager tool projection exceeds maximumEagerTools'')
     else Inr \<lparr>eagerTools = eager, plan_namespaces = namespaces, toolCount = length m\<rparr>)))))"

definition findDeferredToolNamespace :: "DeferredToolDiscoveryPlan \<Rightarrow> string \<Rightarrow> ResolvedToolNamespace option" where
  "findDeferredToolNamespace plan name = find (\<lambda>n. resolved_name n = name) (plan_namespaces plan)"

definition findDeferredTool :: "DeferredToolDiscoveryPlan \<Rightarrow> string \<Rightarrow> ToolDefinition option" where
  "findDeferredTool plan name =
     (case find (\<lambda>t. tool_name t = name) (eagerTools plan) of
        Some t \<Rightarrow> Some t
      | None \<Rightarrow> find (\<lambda>t. tool_name t = name) (concat (map resolved_tools (plan_namespaces plan))))"

end
