(* ===== verification/ToolOutput.thy ===== *)
theory ToolOutput
  imports Protocol
begin

text \<open>
  What the executor of tools takes in and gives out (src/tools/executor.ts): the copy of the
  arguments and of an output under structural bounds, the filter for credentials, the content
  parts and the provenance of an output. Values are JSON data: symbols, getters, prototypes other
  than \<open>Object.prototype\<close> and cycles do not occur in the model, so a copy is the value itself.
\<close>

section \<open>Limits and errors\<close>

text \<open>The error classes of the module, and whatever else a host function throws.\<close>

datatype tool_fault =
    ExecutionCancelled
  | InvalidArguments
  | InvalidOutput
  | InvalidPolicyDecision
  | IdentityConflict
  | HostThrew

record BoundedToolExecutorLimits =
  timeoutMs :: int
  maxConcurrency :: int
  maxResultBytes :: int
  maxResultNodes :: int
  maxResultDepth :: int

definition DEFAULT_BOUNDED_TOOL_EXECUTOR_LIMITS :: BoundedToolExecutorLimits where
  "DEFAULT_BOUNDED_TOOL_EXECUTOR_LIMITS =
     \<lparr>timeoutMs = 30000, maxConcurrency = 4, maxResultBytes = 65536, maxResultNodes = 2000, maxResultDepth = 12\<rparr>"

text \<open>Overrides of the limits; an absent field keeps the default.\<close>

record ExecutorLimitOverrides =
  override_timeoutMs :: "jsnumber option"
  override_maxConcurrency :: "jsnumber option"
  override_maxResultBytes :: "jsnumber option"
  override_maxResultNodes :: "jsnumber option"
  override_maxResultDepth :: "jsnumber option"

definition positive_limit_or :: "int \<Rightarrow> jsnumber option \<Rightarrow> string \<Rightarrow> string + int" where
  "positive_limit_or fallback v name =
     (case v of
        None \<Rightarrow> Inr fallback
      | Some n \<Rightarrow> if \<not> isSafeInteger n \<or> int_of_number n \<le> 0 then Inl (name @ '' must be a positive safe integer'')
                  else Inr (int_of_number n))"

definition resolvedExecutorLimits :: "ExecutorLimitOverrides \<Rightarrow> string + BoundedToolExecutorLimits" where
  "resolvedExecutorLimits overrides =
     (let D = DEFAULT_BOUNDED_TOOL_EXECUTOR_LIMITS in
      bind_result (positive_limit_or (timeoutMs D) (override_timeoutMs overrides) ''limits.timeoutMs'') (\<lambda>t.
      bind_result (positive_limit_or (maxConcurrency D) (override_maxConcurrency overrides) ''limits.maxConcurrency'') (\<lambda>c.
      bind_result (positive_limit_or (maxResultBytes D) (override_maxResultBytes overrides) ''limits.maxResultBytes'') (\<lambda>b.
      bind_result (positive_limit_or (maxResultNodes D) (override_maxResultNodes overrides) ''limits.maxResultNodes'') (\<lambda>n.
      bind_result (positive_limit_or (maxResultDepth D) (override_maxResultDepth overrides) ''limits.maxResultDepth'') (\<lambda>d.
        Inr \<lparr>timeoutMs = t, maxConcurrency = c, maxResultBytes = b, maxResultNodes = n, maxResultDepth = d\<rparr>))))))"

definition FORBIDDEN_OUTPUT_FIELDS :: "string list" where
  "FORBIDDEN_OUTPUT_FIELDS =
     [''accesstoken'', ''apikey'', ''apitoken'', ''authorization'', ''bearertoken'', ''client''] @
     [''clientsecret'', ''cookie'', ''credential'', ''credentials'', ''idtoken'', ''managedtoken''] @
     [''nativeclient'', ''password'', ''passwd'', ''privatekey'', ''providerclient'', ''proxyauthorization''] @
     [''refreshtoken'', ''sdkclient'', ''secret'', ''secretkey'', ''secrets'', ''setcookie'', ''signingkey'']"

section \<open>Identity of a request\<close>

definition safeIdentifier :: "json option \<Rightarrow> string \<Rightarrow> string" where
  "safeIdentifier v fallback = (case v of Some (JStr s) \<Rightarrow> if s \<noteq> [] then take 256 s else fallback | _ \<Rightarrow> fallback)"

fun canonicalToolJson :: "host \<Rightarrow> json \<Rightarrow> string" where
  "canonicalToolJson H (JArr xs) = ''['' @ join_with '','' (map (canonicalToolJson H) xs) @ '']''"
| "canonicalToolJson H (JObj kvs) = ''{'' @ join_with '',''
     (map (\<lambda>(k, x). quote k @ '':'' @ canonicalToolJson H x) (sort_key fst kvs)) @ ''}''"
| "canonicalToolJson H v = stringify H v"

definition toolRequestFingerprint :: "host \<Rightarrow> string \<Rightarrow> string \<Rightarrow> json \<Rightarrow> string" where
  "toolRequestFingerprint H toolCallId name args =
     canonicalToolJson H (JObj [(''toolCallId'', JStr toolCallId), (''name'', JStr name), (''arguments'', args)])"

section \<open>Bounded copies\<close>

text \<open>The number of values visited, of an output under the limits.\<close>

fun visit_output :: "BoundedToolExecutorLimits \<Rightarrow> nat \<Rightarrow> nat \<Rightarrow> json \<Rightarrow> tool_fault + nat" where
  "visit_output L depth visited current =
     (let nodes = visited + 1 in
      if int nodes > maxResultNodes L \<or> int depth > maxResultDepth L then Inl InvalidOutput
      else case current of
        JNull \<Rightarrow> Inr nodes
      | JBool b \<Rightarrow> Inr nodes
      | JNum n \<Rightarrow> if \<not> isFinite n then Inl InvalidOutput else Inr nodes
      | JStr s \<Rightarrow> if citation_has_credential s then Inl InvalidOutput else Inr nodes
      | JArr xs \<Rightarrow>
          if int (length xs) > maxResultNodes L then Inl InvalidOutput
          else fold_result (\<lambda>n x. visit_output L (depth + 1) n x) nodes xs
      | JObj kvs \<Rightarrow>
          fold_result (\<lambda>n (k, x).
            if normalizeFieldName k \<in> set FORBIDDEN_OUTPUT_FIELDS then Inl InvalidOutput
            else visit_output L (depth + 1) n x) nodes kvs)"

declare visit_output.simps [simp del]

definition cloneOutput :: "host \<Rightarrow> BoundedToolExecutorLimits \<Rightarrow> json \<Rightarrow> tool_fault + json" where
  "cloneOutput H L v =
     bind_result (visit_output L 0 0 v) (\<lambda>_.
       if int (utf8ByteLength (stringify H v)) > maxResultBytes L then Inl InvalidOutput else Inr v)"

fun visit_arguments :: "nat \<Rightarrow> nat \<Rightarrow> json \<Rightarrow> tool_fault + nat" where
  "visit_arguments depth visited current =
     (let nodes = visited + 1 in
      if nodes > 10000 \<or> depth > 20 then Inl InvalidArguments
      else case current of
        JNull \<Rightarrow> Inr nodes
      | JBool b \<Rightarrow> Inr nodes
      | JStr s \<Rightarrow> Inr nodes
      | JNum n \<Rightarrow> if \<not> isFinite n then Inl InvalidArguments else Inr nodes
      | JArr xs \<Rightarrow>
          if length xs > 10000 then Inl InvalidArguments
          else fold_result (\<lambda>n x. visit_arguments (depth + 1) n x) nodes xs
      | JObj kvs \<Rightarrow> fold_result (\<lambda>n (k, x). visit_arguments (depth + 1) n x) nodes kvs)"

declare visit_arguments.simps [simp del]

definition cloneArguments :: "json \<Rightarrow> tool_fault + json" where
  "cloneArguments v =
     bind_result (visit_arguments 0 0 v) (\<lambda>_. case v of JObj kvs \<Rightarrow> Inr v | _ \<Rightarrow> Inl InvalidArguments)"

section \<open>Content\<close>

definition text_part :: "string \<Rightarrow> json" where
  "text_part s = JObj [(''type'', JStr ''text''), (''text'', JStr s)]"

definition json_part :: "json \<Rightarrow> json" where
  "json_part v = JObj [(''type'', JStr ''json''), (''value'', v)]"

fun resemblesContentPart :: "json \<Rightarrow> bool" where
  "resemblesContentPart (JObj kvs) \<longleftrightarrow> obj_get kvs ''type'' \<in> {Some (JStr ''text''), Some (JStr ''json'')}"
| "resemblesContentPart _ \<longleftrightarrow> False"

definition content_candidate :: "json \<Rightarrow> json list" where
  "content_candidate output =
     (case output of
        JStr s \<Rightarrow> [text_part s]
      | JArr xs \<Rightarrow> if xs \<noteq> [] \<and> list_all resemblesContentPart xs then xs else [json_part output]
      | _ \<Rightarrow> if resemblesContentPart output then [output] else [json_part output])"

fun content_part :: "json \<Rightarrow> tool_fault + json" where
  "content_part (JObj kvs) =
     (if obj_get kvs ''type'' = Some (JStr ''text'')
      then (case obj_get kvs ''text'' of
              Some (JStr s) \<Rightarrow> if length kvs \<noteq> 2 then Inl InvalidOutput else Inr (text_part s)
            | _ \<Rightarrow> Inl InvalidOutput)
      else if obj_get kvs ''type'' = Some (JStr ''json'')
      then (case obj_get kvs ''value'' of
              Some v \<Rightarrow> if length kvs \<noteq> 2 then Inl InvalidOutput else Inr (json_part v)
            | None \<Rightarrow> Inl InvalidOutput)
      else Inl InvalidOutput)"
| "content_part _ = Inl InvalidOutput"

definition normalizeContentOutput :: "host \<Rightarrow> BoundedToolExecutorLimits \<Rightarrow> json \<Rightarrow> tool_fault + json list" where
  "normalizeContentOutput H L output =
     bind_result (cloneOutput H L (JArr (content_candidate output))) (\<lambda>cloned.
       case cloned of
         JArr (x # xs) \<Rightarrow> map_result content_part (x # xs)
       | _ \<Rightarrow> Inl InvalidOutput)"

section \<open>Outputs with provenance\<close>

text \<open>The fields of the envelope of an output with citations, if the value is one.\<close>

definition outputProjection :: "json \<Rightarrow> tool_fault + (json \<times> json) option" where
  "outputProjection v =
     (case v of
        JObj kvs \<Rightarrow>
          if obj_get kvs ''type'' \<noteq> Some (JStr ''handrail.application_tool_output'') then Inr None
          else (case (obj_get kvs ''content'', obj_get kvs ''citation_records'') of
                  (Some c, Some r) \<Rightarrow> if length kvs \<noteq> 3 then Inl InvalidOutput else Inr (Some (c, r))
                | _ \<Rightarrow> Inl InvalidOutput)
      | _ \<Rightarrow> Inr None)"

text \<open>\<open>projection?.content ?? output\<close>: a content of null counts as absent.\<close>

definition projected_content :: "(json \<times> json) option \<Rightarrow> json \<Rightarrow> json" where
  "projected_content projection output =
     (case projection of None \<Rightarrow> output | Some (c, r) \<Rightarrow> if c = JNull then output else c)"

definition output_records :: "host \<Rightarrow> string \<Rightarrow> json \<Rightarrow> tool_fault + CitationRecordSet" where
  "output_records H toolCallId v =
     (case normalizeCitationRecords H v of
        Inl e \<Rightarrow> Inl InvalidOutput
      | Inr records \<Rightarrow>
          if Citations.citations records = [] then Inl InvalidOutput
          else if list_ex (\<lambda>c. citation_target c \<noteq> ToolResultCitationTarget toolCallId) (Citations.citations records)
          then Inl InvalidOutput
          else Inr records)"

definition normalizeOutput ::
    "host \<Rightarrow> BoundedToolExecutorLimits \<Rightarrow> json \<Rightarrow> string \<Rightarrow> tool_fault + json list \<times> CitationRecordSet option" where
  "normalizeOutput H L output toolCallId =
     bind_result (outputProjection output) (\<lambda>projection.
     bind_result (normalizeContentOutput H L (projected_content projection output)) (\<lambda>parts.
       case projection of
         None \<Rightarrow> Inr (parts, None)
       | Some (c, r) \<Rightarrow> bind_result (output_records H toolCallId r) (\<lambda>records. Inr (parts, Some records))))"

section \<open>Results\<close>

definition tool_result :: "string \<Rightarrow> string \<Rightarrow> json list \<Rightarrow> bool \<Rightarrow> CitationRecordSet option \<Rightarrow> ApplicationToolResult" where
  "tool_result toolCallId name parts isError records =
     \<lparr>result_tool_call_id = toolCallId, result_name = name, result_content = parts, result_is_error = isError,
      result_citations = records\<rparr>"

definition errorResult :: "string \<Rightarrow> string \<Rightarrow> string \<Rightarrow> ApplicationToolResult" where
  "errorResult toolCallId name message = tool_result toolCallId name [text_part message] True None"

definition resultForExecution ::
    "string \<Rightarrow> string \<Rightarrow> json list \<Rightarrow> CitationRecordSet option \<Rightarrow> ApplicationToolResult" where
  "resultForExecution toolCallId name parts records = tool_result toolCallId name parts False records"

end
