(* ===== verification/ToolLimiter.thy ===== *)
theory ToolLimiter
  imports Prelude
begin

text \<open>
  The limit on concurrent tool executions (\<open>ConcurrencyLimiter\<close> of src/tools/executor.ts) and the
  ledger of executions (\<open>InMemoryToolExecutionLedger\<close>). Every call of \<open>acquire\<close> is a ticket; a
  promise it returned is granted, rejected or waiting. Callers and abort signals act in any order:
  each synchronous piece of code is one step.
\<close>

section \<open>The limiter\<close>

type_synonym ticket = nat
type_synonym signal = nat

record Waiter =
  waiter_ticket :: ticket
  waiter_signal :: signal

text \<open>
  \<open>granted\<close> and \<open>rejected\<close> record how promises were settled, in order; \<open>released\<close> the tickets whose
  release function has run; \<open>issued\<close> counts the calls.
\<close>

record ConcurrencyLimiter =
  active :: nat
  waiters :: "Waiter list"
  granted :: "ticket list"
  rejected :: "ticket list"
  released :: "ticket list"
  aborted_signals :: "signal list"
  issued :: nat

definition empty_limiter :: ConcurrencyLimiter where
  "empty_limiter = \<lparr>active = 0, waiters = [], granted = [], rejected = [], released = [], aborted_signals = [], issued = 0\<rparr>"

definition reject_ticket :: "ticket \<Rightarrow> ConcurrencyLimiter \<Rightarrow> ConcurrencyLimiter" where
  "reject_ticket t l = l\<lparr>rejected := rejected l @ [t]\<rparr>"

definition grant_ticket :: "ticket \<Rightarrow> ConcurrencyLimiter \<Rightarrow> ConcurrencyLimiter" where
  "grant_ticket t l = l\<lparr>active := active l + 1, granted := granted l @ [t]\<rparr>"

definition acquire :: "nat \<Rightarrow> signal \<Rightarrow> ConcurrencyLimiter \<Rightarrow> ConcurrencyLimiter" where
  "acquire maximum s l =
     (let t = issued l; l = l\<lparr>issued := issued l + 1\<rparr> in
      if s \<in> set (aborted_signals l) then reject_ticket t l
      else if active l < maximum then grant_ticket t l
      else l\<lparr>waiters := waiters l @ [\<lparr>waiter_ticket = t, waiter_signal = s\<rparr>]\<rparr>)"

text \<open>The loop of \<open>#startNext\<close>, over the queue.\<close>

fun start_next :: "nat \<Rightarrow> Waiter list \<Rightarrow> ConcurrencyLimiter \<Rightarrow> ConcurrencyLimiter" where
  "start_next maximum queue l =
     (if \<not> active l < maximum then l\<lparr>waiters := queue\<rparr>
      else case queue of
        [] \<Rightarrow> l\<lparr>waiters := []\<rparr>
      | w # ws \<Rightarrow>
          if waiter_signal w \<in> set (aborted_signals l)
          then start_next maximum ws (reject_ticket (waiter_ticket w) l)
          else start_next maximum ws (grant_ticket (waiter_ticket w) l))"

declare start_next.simps [simp del]

text \<open>The release function of a granted ticket; it works once.\<close>

definition release :: "nat \<Rightarrow> ticket \<Rightarrow> ConcurrencyLimiter \<Rightarrow> ConcurrencyLimiter" where
  "release maximum t l =
     (if t \<in> set (released l) then l
      else let l = l\<lparr>released := released l @ [t], active := active l - 1\<rparr> in
        start_next maximum (waiters l) l)"

text \<open>A signal aborts: the listeners of its waiters remove and reject them, in order.\<close>

definition abort :: "signal \<Rightarrow> ConcurrencyLimiter \<Rightarrow> ConcurrencyLimiter" where
  "abort s l = l\<lparr>aborted_signals := s # aborted_signals l,
     waiters := filter (\<lambda>w. waiter_signal w \<noteq> s) (waiters l),
     rejected := rejected l @ map waiter_ticket (filter (\<lambda>w. waiter_signal w = s) (waiters l))\<rparr>"

text \<open>Only a granted ticket has a release function.\<close>

inductive limiter_step :: "nat \<Rightarrow> ConcurrencyLimiter \<Rightarrow> ConcurrencyLimiter \<Rightarrow> bool" for maximum where
  acquires: "limiter_step maximum l (acquire maximum s l)"
| releases: "t \<in> set (granted l) \<Longrightarrow> limiter_step maximum l (release maximum t l)"
| aborts: "limiter_step maximum l (abort s l)"

inductive_cases limiter_stepE: "limiter_step maximum l l'"

section \<open>Its invariant\<close>

text \<open>
  Slots in use are the granted tickets not yet released; nobody waits while a slot is free; every
  ticket is in one place; tickets are granted in the order of the calls.
\<close>

definition limiter_core :: "nat \<Rightarrow> ConcurrencyLimiter \<Rightarrow> bool" where
  "limiter_core maximum l \<longleftrightarrow>
     active l \<le> maximum \<and> active l + length (released l) = length (granted l) \<and>
     distinct (released l) \<and> set (released l) \<subseteq> set (granted l) \<and>
     (\<forall>w\<in>set (waiters l). waiter_signal w \<notin> set (aborted_signals l)) \<and>
     sorted_wrt (<) (granted l @ map waiter_ticket (waiters l)) \<and>
     distinct (rejected l) \<and> set (rejected l) \<inter> set (granted l @ map waiter_ticket (waiters l)) = {} \<and>
     set (rejected l) \<union> set (granted l @ map waiter_ticket (waiters l)) = {..<issued l}"

definition limiter_inv :: "nat \<Rightarrow> ConcurrencyLimiter \<Rightarrow> bool" where
  "limiter_inv maximum l \<longleftrightarrow> limiter_core maximum l \<and> (waiters l \<noteq> [] \<longrightarrow> active l = maximum)"

lemma distinct_increasing: "sorted_wrt (<) (xs :: nat list) \<Longrightarrow> distinct xs"
  by (induction xs) auto

lemma limiter_inv_empty: "limiter_inv maximum empty_limiter"
  by (simp add: limiter_inv_def limiter_core_def empty_limiter_def)

lemma acquire_inv:
  assumes "limiter_inv maximum l" shows "limiter_inv maximum (acquire maximum s l)"
proof -
  have fresh: "\<forall>t\<in>set (granted l @ map waiter_ticket (waiters l)) \<union> set (rejected l). t < issued l"
    using assms unfolding limiter_inv_def limiter_core_def by blast
  consider "s \<in> set (aborted_signals l)" | "s \<notin> set (aborted_signals l)" "active l < maximum"
    | "s \<notin> set (aborted_signals l)" "\<not> active l < maximum" by blast
  then show ?thesis
  proof cases
    case 1
    then show ?thesis using assms fresh
      by (auto simp: limiter_inv_def limiter_core_def acquire_def reject_ticket_def Let_def lessThan_Suc)
  next
    case 2
    then have "waiters l = []" using assms by (auto simp: limiter_inv_def)
    with 2 show ?thesis using assms fresh
      by (auto simp: limiter_inv_def limiter_core_def acquire_def grant_ticket_def Let_def lessThan_Suc sorted_wrt_append)
  next
    case 3
    then show ?thesis using assms fresh
      by (auto simp: limiter_inv_def limiter_core_def acquire_def Let_def lessThan_Suc sorted_wrt_append)
  qed
qed

lemma grant_first:
  assumes "limiter_core maximum (l\<lparr>waiters := w # ws\<rparr>)" "active l < maximum"
  shows "limiter_core maximum ((grant_ticket (waiter_ticket w) l)\<lparr>waiters := ws\<rparr>)"
  using assms unfolding limiter_core_def by (auto simp: grant_ticket_def)

lemma start_next_inv: "limiter_core maximum (l\<lparr>waiters := queue\<rparr>) \<Longrightarrow> limiter_inv maximum (start_next maximum queue l)"
proof (induction maximum queue l rule: start_next.induct)
  case (1 maximum queue l)
  show ?case
  proof (cases "active l < maximum")
    case False
    then show ?thesis using 1(3) by (simp add: start_next.simps [of maximum queue l] limiter_inv_def limiter_core_def)
  next
    case True
    show ?thesis
    proof (cases queue)
      case Nil
      then show ?thesis using 1(3) True by (simp add: start_next.simps [of maximum "[]" l] limiter_inv_def)
    next
      case (Cons w ws)
      have "waiter_signal w \<notin> set (aborted_signals l)" using 1(3) by (simp add: Cons limiter_core_def)
      then show ?thesis
        using 1(2) [OF _ Cons] True grant_first [where l = l and w = w and ws = ws and maximum = maximum] 1(3)
        by (simp add: start_next.simps [of maximum "w # ws" l] Cons)
    qed
  qed
qed

lemma release_inv:
  assumes "limiter_inv maximum l" "t \<in> set (granted l)" shows "limiter_inv maximum (release maximum t l)"
proof (cases "t \<in> set (released l)")
  case True
  then show ?thesis using assms by (simp add: release_def)
next
  case False
  have inv: "limiter_core maximum l" using assms(1) by (simp add: limiter_inv_def)
  then have "set (released l) \<subset> set (granted l)" "distinct (released l)" "distinct (granted l)"
    using assms(2) False unfolding limiter_core_def by (auto simp: sorted_wrt_append dest: distinct_increasing)
  then have "length (released l) < length (granted l)"
    by (metis List.finite_set distinct_card psubset_card_mono)
  then obtain n where "active l = Suc n" using inv by (cases "active l") (auto simp: limiter_core_def)
  then have "limiter_core maximum (l\<lparr>released := released l @ [t], active := active l - 1\<rparr>)"
    using inv False assms(2) by (auto simp: limiter_core_def)
  then have "limiter_core maximum ((l\<lparr>released := released l @ [t], active := active l - 1\<rparr>)\<lparr>waiters := waiters l\<rparr>)"
    by simp
  from start_next_inv [OF this] show ?thesis using False by (simp add: release_def Let_def)
qed

lemma abort_inv:
  assumes "limiter_inv maximum l" shows "limiter_inv maximum (abort s l)"
proof -
  let ?gone = "map waiter_ticket (filter (\<lambda>w. waiter_signal w = s) (waiters l))"
    and ?stay = "map waiter_ticket (filter (\<lambda>w. waiter_signal w \<noteq> s) (waiters l))"
  have inv: "limiter_core maximum l" "waiters l \<noteq> [] \<Longrightarrow> active l = maximum" using assms by (auto simp: limiter_inv_def)
  have sorted: "sorted_wrt (<) (granted l)" "sorted_wrt (<) (map waiter_ticket (waiters l))"
    "\<forall>x\<in>set (granted l). \<forall>y\<in>set (map waiter_ticket (waiters l)). x < y"
    using inv(1) unfolding limiter_core_def sorted_wrt_append by blast+
  have queue: "distinct (map waiter_ticket (waiters l))" using sorted(2) by (rule distinct_increasing)
  have split: "set ?gone \<union> set ?stay = set (map waiter_ticket (waiters l))" by auto
  have apart: "set ?gone \<inter> set ?stay = {}" using queue by (auto simp: distinct_map inj_on_def)
  have gone: "distinct ?gone" using queue by (rule distinct_map_filter)
  have stay: "sorted_wrt (<) ?stay"
    using sorted(2) by (simp add: sorted_wrt_map sorted_wrt_filter)
  have grants: "set (granted l) \<inter> set (map waiter_ticket (waiters l)) = {}" using sorted(3) by blast
  have rej: "distinct (rejected l)" "set (rejected l) \<inter> set (granted l @ map waiter_ticket (waiters l)) = {}"
    "set (rejected l) \<union> set (granted l @ map waiter_ticket (waiters l)) = {..<issued l}"
    using inv(1) unfolding limiter_core_def by blast+
  have "sorted_wrt (<) (granted l @ ?stay)"
    using sorted stay split unfolding sorted_wrt_append by blast
  moreover have "distinct (rejected l @ ?gone)" using rej(1,2) gone split by auto
  moreover have "set (rejected l @ ?gone) \<inter> set (granted l @ ?stay) = {}"
    using rej(2) grants split apart unfolding set_append by blast
  moreover have "set (rejected l @ ?gone) \<union> set (granted l @ ?stay) = {..<issued l}"
    unfolding rej(3) [symmetric] set_append split [symmetric] by blast
  moreover have "\<forall>w\<in>set (waiters (abort s l)). waiter_signal w \<notin> set (aborted_signals (abort s l))"
    using inv(1) by (auto simp: limiter_core_def abort_def)
  ultimately have "limiter_core maximum (abort s l)"
    using inv(1) unfolding limiter_core_def by (simp add: abort_def)
  then show ?thesis using inv(2) by (cases "waiters l") (auto simp: limiter_inv_def abort_def)
qed

lemma limiter_reachable_inv: "(limiter_step maximum)\<^sup>*\<^sup>* empty_limiter l \<Longrightarrow> limiter_inv maximum l"
  by (induction rule: rtranclp_induct)
     (auto simp: limiter_inv_empty elim!: limiter_stepE intro: acquire_inv release_inv abort_inv)

end
