(* ===== verification/ToolExecutor.thy ===== *)
theory ToolExecutor
  imports ToolRegistry ToolOutput ToolLimiter
begin

text \<open>
  The executor of tools (src/tools/executor.ts): \<open>BoundedToolExecutor\<close> with the in-memory ledger of
  executions. Each synchronous piece of the asynchronous code is one step on the executor's state;
  what the host answers (policy, approval coordinator, tool functions, timers) is an argument of
  the step, so the steps of many requests interleave in any order. Diagnostics and activity
  reports are not modelled.
\<close>

section \<open>The ledger\<close>

text \<open>A ledger entry: the fingerprint of the request and the run whose promise is retained.\<close>

type_synonym Ledger = "(string, string \<times> nat) jsmap"

definition ledger_get :: "Ledger \<Rightarrow> string \<Rightarrow> string \<Rightarrow> tool_fault + nat option" where
  "ledger_get m key fingerprint =
     (case map_get m key of
        None \<Rightarrow> Inr None
      | Some (f, r) \<Rightarrow> if f \<noteq> fingerprint then Inl IdentityConflict else Inr (Some r))"

text \<open>\<open>getOrCreate\<close>: the retained run, or the new one, which is then retained.\<close>

definition ledger_getOrCreate :: "Ledger \<Rightarrow> string \<Rightarrow> nat \<Rightarrow> string \<Rightarrow> (tool_fault + nat) \<times> Ledger" where
  "ledger_getOrCreate m key fresh fingerprint =
     (case ledger_get m key fingerprint of
        Inl e \<Rightarrow> (Inl e, m)
      | Inr (Some r) \<Rightarrow> (Inr r, m)
      | Inr None \<Rightarrow> (Inr fresh, map_set key (fingerprint, fresh) m))"

section \<open>Requests, operations and runs\<close>

record 'a BoundedToolExecutionRequest =
  request_tool_call_id :: string
  request_name :: string
  request_arguments :: json
  request_executionKey :: "string option"
  request_discoveredTools :: "ToolDefinition list"
  request_approval :: "'a option"
  request_has_start_hook :: bool
  request_signal_aborted :: bool

datatype BoundedToolExecutionOutcome =
    ExecutionCompleted ApplicationToolResult
  | ExecutionNeedsApproval string string

datatype ApplicationToolPolicyDecision = PolicyAllows | PolicyDenies | PolicyRequiresApproval | PolicyInvalid | PolicyThrows

text \<open>What the approval coordinator answers; a claim carries its evidence.\<close>

datatype 'k ApprovalExecutionClaimResult =
    Claimed 'k | Reuse | ApprovalRequired | ClaimCancelled | ClaimUnavailable | ClaimRefused | ClaimThrows

datatype ApprovalExecutionFailureReason =
    execution_cancelled | execution_timed_out | execution_recording_failed | invalid_tool_output | tool_execution_failed

datatype SettlementAnswer = SettlementRecorded | SettlementNotRecorded | SettlementThrows

text \<open>The phase an error was thrown in.\<close>

datatype OperationPhase = InArguments | InPolicy | InApproval | InExecution

datatype OperationStatus =
    AwaitingPolicy
  | AwaitingClaim
  | AwaitingRun OperationPhase nat
  | OperationDone BoundedToolExecutionOutcome

record 'a Operation =
  op_request :: "'a BoundedToolExecutionRequest"
  op_key :: string
  op_fingerprint :: string
  op_status :: OperationStatus
  op_aborted :: bool
  op_timedOut :: bool
  op_permitted :: bool \<comment> \<open>the policy allowed it, or an approval was claimed for it\<close>

datatype RunPhase =
    Scheduled
  | Starting
  | Acquiring
  | Racing
  | Settling ApplicationToolResult "ApprovalExecutionFailureReason option"
  | Settled ApplicationToolResult
  | RunRejected

text \<open>
  A run is the promise created in the ledger; \<open>run_ticket\<close> is its place in the limiter. Its
  invocation of the tool's function may outlive the race with the abort signal: it is \<open>run_open\<close>
  until it settles, with \<open>run_answer\<close> then.
\<close>

record 'k Run =
  run_key :: string
  run_owner :: nat
  run_claim :: "'k option"
  run_phase :: RunPhase
  run_ticket :: "ticket option"
  run_open :: bool
  run_answer :: "(tool_fault + json list \<times> CitationRecordSet option) option"

record ('a, 'k) ExecutorState =
  ledger :: Ledger
  operations :: "(string, string \<times> nat) jsmap"
  ops :: "'a Operation list"
  runs :: "'k Run list"
  limiter :: ConcurrencyLimiter
  calls :: "nat list" \<comment> \<open>the runs whose tool function was called, in order\<close>

definition empty_executor :: "('a, 'k) ExecutorState" where
  "empty_executor = \<lparr>ledger = [], operations = [], ops = [], runs = [], limiter = empty_limiter, calls = []\<rparr>"

text \<open>
  The executor's configuration: the registry, the compiled JSON Schemas (the third-party
  validator, None where compiling throws), and whether there is an approval coordinator.
\<close>

record ('x, 'c) ExecutorConfig =
  config_host :: host
  config_limits :: BoundedToolExecutorLimits
  config_registry :: "('x, 'c) ToolRegistry"
  schema_accepts :: "json \<Rightarrow> json \<Rightarrow> bool option"
  has_coordinator :: bool

definition validateArguments :: "('x, 'c) ExecutorConfig \<Rightarrow> ToolDefinition \<Rightarrow> json \<Rightarrow> tool_fault + unit" where
  "validateArguments E d args =
     (if schema_accepts E (input_schema d) args = Some True then Inr () else Inl InvalidArguments)"

abbreviation max_slots :: "('x, 'c) ExecutorConfig \<Rightarrow> nat" where
  "max_slots E \<equiv> nat (maxConcurrency (config_limits E))"

section \<open>Finishing an operation\<close>

abbreviation request_error :: "'a BoundedToolExecutionRequest \<Rightarrow> string \<Rightarrow> BoundedToolExecutionOutcome" where
  "request_error req message \<equiv>
     ExecutionCompleted (errorResult (request_tool_call_id req) (request_name req) message)"

definition set_op :: "nat \<Rightarrow> ('a Operation \<Rightarrow> 'a Operation) \<Rightarrow> ('a, 'k) ExecutorState \<Rightarrow> ('a, 'k) ExecutorState" where
  "set_op i f s = s\<lparr>ops := (ops s)[i := f (ops s ! i)]\<rparr>"

definition set_run :: "nat \<Rightarrow> ('k Run \<Rightarrow> 'k Run) \<Rightarrow> ('a, 'k) ExecutorState \<Rightarrow> ('a, 'k) ExecutorState" where
  "set_run r f s = s\<lparr>runs := (runs s)[r := f (runs s ! r)]\<rparr>"

text \<open>The operation settles, and is forgotten by \<open>#operations\<close> if it is still the one there.\<close>

definition finish_op :: "nat \<Rightarrow> BoundedToolExecutionOutcome \<Rightarrow> ('a, 'k) ExecutorState \<Rightarrow> ('a, 'k) ExecutorState" where
  "finish_op i outcome s =
     (set_op i (\<lambda>p. p\<lparr>op_status := OperationDone outcome\<rparr>) s)\<lparr>operations :=
        filter (\<lambda>(k, f, j). \<not> (k = op_key (ops s ! i) \<and> j = i)) (operations s)\<rparr>"

text \<open>The message of the \<open>catch\<close> block.\<close>

definition catch_message :: "bool \<Rightarrow> bool \<Rightarrow> tool_fault \<Rightarrow> OperationPhase \<Rightarrow> string" where
  "catch_message is_aborted timedOut e phase =
     (if is_aborted then (if timedOut then ''Tool execution timed out.'' else ''Tool execution was cancelled.'')
      else if e = IdentityConflict then ''Tool call identity conflicts with its original request.''
      else if phase = InArguments then ''Tool arguments did not match the declared schema.''
      else if e = InvalidPolicyDecision then ''Tool authorization returned an invalid decision.''
      else if phase = InApproval then ''Tool approval could not be verified.''
      else if phase = InPolicy then ''Tool authorization could not be completed.''
      else ''Tool execution could not be recorded.'')"

definition fail_op :: "nat \<Rightarrow> tool_fault \<Rightarrow> OperationPhase \<Rightarrow> ('a, 'k) ExecutorState \<Rightarrow> ('a, 'k) ExecutorState" where
  "fail_op i e phase s =
     (let p = ops s ! i in
      finish_op i (request_error (op_request p) (catch_message (op_aborted p) (op_timedOut p) e phase)) s)"

definition complete_op :: "nat \<Rightarrow> string \<Rightarrow> ('a, 'k) ExecutorState \<Rightarrow> ('a, 'k) ExecutorState" where
  "complete_op i message s = finish_op i (request_error (op_request (ops s ! i)) message) s"

section \<open>A request\<close>

text \<open>What \<open>executeDetailed\<close> returns: an outcome at once, the promise of a run or of an operation.\<close>

datatype ExecutionReply =
    RepliesOutcome BoundedToolExecutionOutcome
  | RepliesRun nat
  | RepliesOperation nat

text \<open>\<open>#executeDetailedOnce\<close> up to the call of the policy.\<close>

definition begin_operation ::
    "('x, 'c) ExecutorConfig \<Rightarrow> nat \<Rightarrow> ('a, 'k) ExecutorState \<Rightarrow> ('a, 'k) ExecutorState" where
  "begin_operation E i s =
     (let req = op_request (ops s ! i) in
      if op_aborted (ops s ! i) then fail_op i ExecutionCancelled InArguments s
      else case get_tool (request_name req) (config_registry E) of
        None \<Rightarrow> complete_op i ''Tool is unavailable for this call.'' s
      | Some registration \<Rightarrow>
          if tool_definition registration \<notin> set (request_discoveredTools req)
          then complete_op i ''Tool is unavailable for this call.'' s
          else case bind_result (cloneArguments (request_arguments req)) (validateArguments E (tool_definition registration)) of
            Inl e \<Rightarrow> fail_op i e InArguments s
          | Inr _ \<Rightarrow> s)"

definition add_operation ::
    "'a BoundedToolExecutionRequest \<Rightarrow> string \<Rightarrow> string \<Rightarrow> ('a, 'k) ExecutorState \<Rightarrow> ('a, 'k) ExecutorState" where
  "add_operation req key fingerprint s =
     s\<lparr>ops := ops s @ [\<lparr>op_request = req, op_key = key, op_fingerprint = fingerprint, op_status = AwaitingPolicy,
          op_aborted = request_signal_aborted req, op_timedOut = False, op_permitted = False\<rparr>],
       limiter := (if request_signal_aborted req then abort (length (ops s)) (limiter s) else limiter s)\<rparr>"

text \<open>An operation that is not settled at once is kept in \<open>#operations\<close>, but for approved requests.\<close>

definition start_operation ::
    "('x, 'c) ExecutorConfig \<Rightarrow> 'a BoundedToolExecutionRequest \<Rightarrow> string \<Rightarrow> string \<Rightarrow> ('a, 'k) ExecutorState \<Rightarrow>
     ExecutionReply \<times> ('a, 'k) ExecutorState" where
  "start_operation E req key fingerprint s =
     (let i = length (ops s);
          started = begin_operation E i (add_operation req key fingerprint s)
      in (RepliesOperation i,
          if op_status (ops started ! i) \<noteq> AwaitingPolicy \<or> request_approval req \<noteq> None then started
          else started\<lparr>operations := map_set key (fingerprint, i) (operations started)\<rparr>))"

definition executeDetailed ::
    "('x, 'c) ExecutorConfig \<Rightarrow> 'a BoundedToolExecutionRequest \<Rightarrow> ('a, 'k) ExecutorState \<Rightarrow>
     ExecutionReply \<times> ('a, 'k) ExecutorState" where
  "executeDetailed E req s =
     (let toolCallId = safeIdentifier (Some (JStr (request_tool_call_id req))) ''unknown_tool_call'';
          name = safeIdentifier (Some (JStr (request_name req))) ''unknown_tool'';
          key = (case request_executionKey req of None \<Rightarrow> toolCallId | Some k \<Rightarrow> k) in
      if toolCallId \<noteq> request_tool_call_id req \<or> name \<noteq> request_name req \<or>
         key \<noteq> safeIdentifier (Some (JStr key)) ''invalid_execution_key''
      then (RepliesOutcome (ExecutionCompleted (errorResult toolCallId name ''Tool call identifiers are invalid.'')), s)
      else case cloneArguments (request_arguments req) of
        Inl e \<Rightarrow> (RepliesOutcome (request_error req ''Tool arguments did not match the declared schema.''), s)
      | Inr args \<Rightarrow>
          let fingerprint = toolRequestFingerprint (config_host E) toolCallId name args in
          if request_approval req \<noteq> None then start_operation E req key fingerprint s
          else case ledger_get (ledger s) key fingerprint of
            Inl e \<Rightarrow> (RepliesOutcome (request_error req ''Tool call identity conflicts with its original request.''), s)
          | Inr (Some r) \<Rightarrow> (RepliesRun r, s)
          | Inr None \<Rightarrow>
              (case map_get (operations s) key of
                 Some (f, j) \<Rightarrow>
                   if f \<noteq> fingerprint
                   then (RepliesOutcome (request_error req ''Tool call identity conflicts with its original request.''), s)
                   else (RepliesOperation j, s)
               | None \<Rightarrow> start_operation E req key fingerprint s))"

text \<open>\<open>execute\<close>: the result, an approval pause as an error.\<close>

fun executeResult :: "BoundedToolExecutionOutcome \<Rightarrow> ApplicationToolResult" where
  "executeResult (ExecutionCompleted res) = res"
| "executeResult (ExecutionNeedsApproval toolCallId name) =
     errorResult toolCallId name ''Tool execution requires external approval.''"

section \<open>Authorization\<close>

text \<open>\<open>#executeAuthorized\<close>: the run of the ledger's promise, created if the key is new.\<close>

definition executeAuthorized :: "nat \<Rightarrow> 'k option \<Rightarrow> ('a, 'k) ExecutorState \<Rightarrow> ('a, 'k) ExecutorState" where
  "executeAuthorized i claim s =
     (let p = ops s ! i; fresh = length (runs s); s = set_op i (\<lambda>p. p\<lparr>op_permitted := True\<rparr>) s in
      case ledger_getOrCreate (ledger s) (op_key p) fresh (op_fingerprint p) of
        (Inl e, m) \<Rightarrow> fail_op i e InExecution s
      | (Inr r, m) \<Rightarrow>
          (let s = set_op i (\<lambda>p. p\<lparr>op_status := AwaitingRun InExecution r\<rparr>) (s\<lparr>ledger := m\<rparr>) in
           if r = fresh
           then s\<lparr>runs := runs s @ [\<lparr>run_key = op_key p, run_owner = i, run_claim = claim, run_phase = Scheduled,
                                       run_ticket = None, run_open = False, run_answer = None\<rparr>]\<rparr>
           else s))"

definition policy_answers ::
    "('x, 'c) ExecutorConfig \<Rightarrow> nat \<Rightarrow> ApplicationToolPolicyDecision \<Rightarrow> ('a, 'k) ExecutorState \<Rightarrow> ('a, 'k) ExecutorState" where
  "policy_answers E i decision s =
     (let req = op_request (ops s ! i) in
      case decision of
        PolicyDenies \<Rightarrow> complete_op i ''Tool execution was denied by application policy.'' s
      | PolicyRequiresApproval \<Rightarrow>
          if request_approval req = None \<or> \<not> has_coordinator E
          then finish_op i (ExecutionNeedsApproval (request_tool_call_id req) (request_name req)) s
          else set_op i (\<lambda>p. p\<lparr>op_status := AwaitingClaim\<rparr>) s
      | PolicyAllows \<Rightarrow> executeAuthorized i None s
      | PolicyInvalid \<Rightarrow> fail_op i InvalidPolicyDecision InPolicy s
      | PolicyThrows \<Rightarrow> fail_op i HostThrew InPolicy s)"

definition claim_answers ::
    "nat \<Rightarrow> 'k ApprovalExecutionClaimResult \<Rightarrow> ('a, 'k) ExecutorState \<Rightarrow> ('a, 'k) ExecutorState" where
  "claim_answers i claim s =
     (let p = ops s ! i; req = op_request p in
      case claim of
        ApprovalRequired \<Rightarrow> finish_op i (ExecutionNeedsApproval (request_tool_call_id req) (request_name req)) s
      | Reuse \<Rightarrow>
          (case ledger_get (ledger s) (op_key p) (op_fingerprint p) of
             Inl e \<Rightarrow> fail_op i e InApproval s
           | Inr (Some r) \<Rightarrow> set_op i (\<lambda>p. p\<lparr>op_status := AwaitingRun InApproval r\<rparr>) s
           | Inr None \<Rightarrow> complete_op i ''Tool execution result is temporarily unavailable.'' s)
      | ClaimCancelled \<Rightarrow> complete_op i ''Tool execution was cancelled.'' s
      | ClaimUnavailable \<Rightarrow> complete_op i ''Tool approval could not be checked right now.'' s
      | ClaimRefused \<Rightarrow> complete_op i ''Tool approval could not be verified.'' s
      | ClaimThrows \<Rightarrow> fail_op i HostThrew InApproval s
      | Claimed k \<Rightarrow> executeAuthorized i (Some k) s)"

text \<open>The race of the policy or of the run with the abort signal, lost.\<close>

definition operation_cancelled :: "nat \<Rightarrow> ('a, 'k) ExecutorState \<Rightarrow> ('a, 'k) ExecutorState" where
  "operation_cancelled i s = fail_op i ExecutionCancelled InExecution s"

text \<open>The awaited run is settled; a rejected one is an error of the phase it is awaited in.\<close>

definition run_awaited :: "nat \<Rightarrow> OperationPhase \<Rightarrow> nat \<Rightarrow> ('a, 'k) ExecutorState \<Rightarrow> ('a, 'k) ExecutorState" where
  "run_awaited i phase r s =
     (case run_phase (runs s ! r) of
        Settled res \<Rightarrow> finish_op i (ExecutionCompleted res) s
      | RunRejected \<Rightarrow> fail_op i HostThrew phase s
      | _ \<Rightarrow> s)"

text \<open>The caller aborts, or the timer of the operation fires.\<close>

definition operation_aborts :: "nat \<Rightarrow> bool \<Rightarrow> ('a, 'k) ExecutorState \<Rightarrow> ('a, 'k) ExecutorState" where
  "operation_aborts i by_timer s =
     (set_op i (\<lambda>p. p\<lparr>op_aborted := True, op_timedOut := op_timedOut p \<or> by_timer\<rparr>) s)\<lparr>limiter := abort i (limiter s)\<rparr>"

section \<open>A run\<close>

abbreviation owner_of :: "nat \<Rightarrow> ('a, 'k) ExecutorState \<Rightarrow> 'a Operation" where
  "owner_of r s \<equiv> ops s ! run_owner (runs s ! r)"

text \<open>The result is known: settled at once, or after the claim is settled.\<close>

definition conclude_run ::
    "nat \<Rightarrow> ApplicationToolResult \<Rightarrow> ApprovalExecutionFailureReason option \<Rightarrow> ('a, 'k) ExecutorState \<Rightarrow> ('a, 'k) ExecutorState" where
  "conclude_run r res reason s =
     set_run r (\<lambda>x. x\<lparr>run_phase := (if run_claim x = None then Settled res else Settling res reason)\<rparr>) s"

text \<open>The \<open>catch\<close> block of the run.\<close>

definition run_fails :: "nat \<Rightarrow> tool_fault \<Rightarrow> bool \<Rightarrow> ('a, 'k) ExecutorState \<Rightarrow> ('a, 'k) ExecutorState" where
  "run_fails r e start_recorded s =
     (let req = op_request (owner_of r s); timedOut = op_timedOut (owner_of r s);
          er = errorResult (request_tool_call_id req) (request_name req) in
      if e = ExecutionCancelled then
        conclude_run r (er (if timedOut then ''Tool execution timed out.'' else ''Tool execution was cancelled.''))
          (Some (if timedOut then execution_timed_out else execution_cancelled)) s
      else if e = InvalidOutput then
        conclude_run r (er ''Tool returned an invalid or unsafe result.'') (Some invalid_tool_output) s
      else conclude_run r (er ''Tool execution failed.'')
        (Some (if start_recorded then tool_execution_failed else execution_recording_failed)) s)"

definition acquire_slot :: "('x, 'c) ExecutorConfig \<Rightarrow> nat \<Rightarrow> ('a, 'k) ExecutorState \<Rightarrow> ('a, 'k) ExecutorState" where
  "acquire_slot E r s =
     (set_run r (\<lambda>x. x\<lparr>run_phase := Acquiring, run_ticket := Some (issued (limiter s))\<rparr>) s)\<lparr>limiter :=
        acquire (max_slots E) (run_owner (runs s ! r)) (limiter s)\<rparr>"

definition run_begins :: "('x, 'c) ExecutorConfig \<Rightarrow> nat \<Rightarrow> ('a, 'k) ExecutorState \<Rightarrow> ('a, 'k) ExecutorState" where
  "run_begins E r s =
     (if request_has_start_hook (op_request (owner_of r s)) then set_run r (\<lambda>x. x\<lparr>run_phase := Starting\<rparr>) s
      else acquire_slot E r s)"

definition start_answers :: "('x, 'c) ExecutorConfig \<Rightarrow> nat \<Rightarrow> bool \<Rightarrow> ('a, 'k) ExecutorState \<Rightarrow> ('a, 'k) ExecutorState" where
  "start_answers E r ok s = (if ok then acquire_slot E r s else run_fails r HostThrew False s)"

definition slot_granted :: "nat \<Rightarrow> ('a, 'k) ExecutorState \<Rightarrow> ('a, 'k) ExecutorState" where
  "slot_granted r s = (set_run r (\<lambda>x. x\<lparr>run_phase := Racing, run_open := True\<rparr>) s)\<lparr>calls := calls s @ [r]\<rparr>"

definition slot_rejected :: "nat \<Rightarrow> ('a, 'k) ExecutorState \<Rightarrow> ('a, 'k) ExecutorState" where
  "slot_rejected r s = run_fails r ExecutionCancelled True s"

text \<open>The tool's function returns (or throws) and its output is normalized; the slot is released.\<close>

definition normalized_answer ::
    "('x, 'c) ExecutorConfig \<Rightarrow> string \<Rightarrow> json option \<Rightarrow> tool_fault + json list \<times> CitationRecordSet option" where
  "normalized_answer E toolCallId output =
     (case output of None \<Rightarrow> Inl HostThrew
      | Some v \<Rightarrow> normalizeOutput (config_host E) (config_limits E) v toolCallId)"

definition invocation_ends ::
    "('x, 'c) ExecutorConfig \<Rightarrow> nat \<Rightarrow> ticket \<Rightarrow> json option \<Rightarrow> ('a, 'k) ExecutorState \<Rightarrow> ('a, 'k) ExecutorState" where
  "invocation_ends E r t output s =
     (set_run r (\<lambda>x. x\<lparr>run_open := False, run_answer :=
         Some (normalized_answer E (request_tool_call_id (op_request (owner_of r s))) output)\<rparr>) s)\<lparr>limiter :=
        release (max_slots E) t (limiter s)\<rparr>"

definition race_returns :: "nat \<Rightarrow> ('a, 'k) ExecutorState \<Rightarrow> ('a, 'k) ExecutorState" where
  "race_returns r s =
     (let req = op_request (owner_of r s) in
      case run_answer (runs s ! r) of
        Some (Inr (parts, records)) \<Rightarrow>
          conclude_run r (resultForExecution (request_tool_call_id req) (request_name req) parts records) None s
      | Some (Inl e) \<Rightarrow> run_fails r e True s
      | None \<Rightarrow> s)"

definition race_lost :: "nat \<Rightarrow> ('a, 'k) ExecutorState \<Rightarrow> ('a, 'k) ExecutorState" where
  "race_lost r s = run_fails r ExecutionCancelled True s"

definition settlement_answers :: "nat \<Rightarrow> SettlementAnswer \<Rightarrow> ('a, 'k) ExecutorState \<Rightarrow> ('a, 'k) ExecutorState" where
  "settlement_answers r answer s =
     (let req = op_request (owner_of r s) in
      set_run r (\<lambda>x. x\<lparr>run_phase :=
        (case (run_phase x, answer) of
           (Settling res reason, SettlementRecorded) \<Rightarrow> Settled res
         | (Settling res reason, SettlementNotRecorded) \<Rightarrow>
             Settled (errorResult (request_tool_call_id req) (request_name req) ''Tool execution result could not be recorded.'')
         | (Settling res reason, SettlementThrows) \<Rightarrow> RunRejected
         | (phase, _) \<Rightarrow> phase)\<rparr>) s)"

section \<open>Steps\<close>

text \<open>
  Where both sides of a race are ready, either may win. An operation leaves \<open>#operations\<close> in the
  step in which it settles.
\<close>

inductive executor_step ::
    "('x, 'c) ExecutorConfig \<Rightarrow> ('a, 'k) ExecutorState \<Rightarrow> ('a, 'k) ExecutorState \<Rightarrow> bool" for E where
  submits: "executor_step E s (snd (executeDetailed E req s))"
| policy: "i < length (ops s) \<Longrightarrow> op_status (ops s ! i) = AwaitingPolicy \<Longrightarrow> executor_step E s (policy_answers E i decision s)"
| claim: "i < length (ops s) \<Longrightarrow> op_status (ops s ! i) = AwaitingClaim \<Longrightarrow> executor_step E s (claim_answers i answer s)"
| cancels: "i < length (ops s) \<Longrightarrow> op_aborted (ops s ! i) \<Longrightarrow>
    op_status (ops s ! i) = AwaitingPolicy \<or> (\<exists>ph r. op_status (ops s ! i) = AwaitingRun ph r) \<Longrightarrow>
    executor_step E s (operation_cancelled i s)"
| awaits: "i < length (ops s) \<Longrightarrow> op_status (ops s ! i) = AwaitingRun ph r \<Longrightarrow> executor_step E s (run_awaited i ph r s)"
| aborting: "i < length (ops s) \<Longrightarrow> \<forall>out. op_status (ops s ! i) \<noteq> OperationDone out \<Longrightarrow>
    executor_step E s (operation_aborts i by_timer s)"
| begins: "r < length (runs s) \<Longrightarrow> run_phase (runs s ! r) = Scheduled \<Longrightarrow> executor_step E s (run_begins E r s)"
| recorded: "r < length (runs s) \<Longrightarrow> run_phase (runs s ! r) = Starting \<Longrightarrow> executor_step E s (start_answers E r ok s)"
| calls_tool: "r < length (runs s) \<Longrightarrow> run_phase (runs s ! r) = Acquiring \<Longrightarrow> run_ticket (runs s ! r) = Some t \<Longrightarrow>
    t \<in> set (granted (limiter s)) \<Longrightarrow> executor_step E s (slot_granted r s)"
| refused: "r < length (runs s) \<Longrightarrow> run_phase (runs s ! r) = Acquiring \<Longrightarrow> run_ticket (runs s ! r) = Some t \<Longrightarrow>
    t \<in> set (rejected (limiter s)) \<Longrightarrow> executor_step E s (slot_rejected r s)"
| returns: "r < length (runs s) \<Longrightarrow> run_open (runs s ! r) \<Longrightarrow> run_ticket (runs s ! r) = Some t \<Longrightarrow>
    executor_step E s (invocation_ends E r t output s)"
| race_won: "r < length (runs s) \<Longrightarrow> run_phase (runs s ! r) = Racing \<Longrightarrow> run_answer (runs s ! r) \<noteq> None \<Longrightarrow>
    executor_step E s (race_returns r s)"
| race_aborted: "r < length (runs s) \<Longrightarrow> run_phase (runs s ! r) = Racing \<Longrightarrow> op_aborted (owner_of r s) \<Longrightarrow>
    executor_step E s (race_lost r s)"
| settles: "r < length (runs s) \<Longrightarrow> run_phase (runs s ! r) = Settling res reason \<Longrightarrow>
    executor_step E s (settlement_answers r answer s)"

end
