(* ===== verification/ToolExecutorFacts.thy ===== *)
theory ToolExecutorFacts
  imports ToolExecutor
begin

text \<open>
  The executor of tools over every interleaving of its requests (src/tools/executor.ts): a tool's
  function is called at most once per execution key, only for a vetted and authorized request, and
  never more calls run at once than the limit allows.
\<close>

section \<open>What the steps leave alone\<close>

named_theorems executor_frames

lemma limiter_frames [executor_frames]:
  "released (acquire m g l) = released l" "issued (acquire m g l) = issued l + 1"
  "released (abort g l) = released l" "granted (abort g l) = granted l" "issued (abort g l) = issued l"
  by (simp_all add: acquire_def abort_def reject_ticket_def grant_ticket_def Let_def)

lemma acquire_grants: "set (granted l) \<subseteq> set (granted (acquire m g l))"
  by (auto simp: acquire_def reject_ticket_def grant_ticket_def Let_def)

lemma start_next_frames:
  "released (start_next m q l) = released l \<and> issued (start_next m q l) = issued l \<and>
   set (granted l) \<subseteq> set (granted (start_next m q l))"
proof (induction m q l rule: start_next.induct)
  case (1 m q l)
  then show ?case
  proof (cases q)
    case Nil
    then show ?thesis by (simp add: start_next.simps [of m "[]" l])
  next
    case (Cons w ws)
    with 1 show ?thesis by (auto simp: start_next.simps [of m "w # ws" l] reject_ticket_def grant_ticket_def)
  qed
qed

lemma release_frames:
  "issued (release m t l) = issued l" "set (granted l) \<subseteq> set (granted (release m t l))"
  "set (released (release m t l)) = insert t (set (released l))"
  using start_next_frames [of m "waiters l" "l\<lparr>released := released l @ [t], active := active l - 1\<rparr>"]
  by (auto simp: release_def Let_def)

lemma finish_frames [executor_frames]:
  "ledger (finish_op i out s) = ledger s" "runs (finish_op i out s) = runs s"
  "limiter (finish_op i out s) = limiter s" "calls (finish_op i out s) = calls s"
  by (simp_all add: finish_op_def set_op_def)

lemma fail_frames [executor_frames]:
  "ledger (fail_op i e ph s) = ledger s" "runs (fail_op i e ph s) = runs s"
  "limiter (fail_op i e ph s) = limiter s" "calls (fail_op i e ph s) = calls s"
  by (simp_all add: fail_op_def Let_def executor_frames)

lemma complete_frames [executor_frames]:
  "ledger (complete_op i msg s) = ledger s" "runs (complete_op i msg s) = runs s"
  "limiter (complete_op i msg s) = limiter s" "calls (complete_op i msg s) = calls s"
  by (simp_all add: complete_op_def executor_frames)

lemma set_op_frames [executor_frames]:
  "ledger (set_op i f s) = ledger s" "runs (set_op i f s) = runs s" "limiter (set_op i f s) = limiter s"
  "calls (set_op i f s) = calls s" "length (ops (set_op i f s)) = length (ops s)"
  by (simp_all add: set_op_def)

lemma begin_frames [executor_frames]:
  "ledger (begin_operation E i s) = ledger s" "runs (begin_operation E i s) = runs s"
  "limiter (begin_operation E i s) = limiter s" "calls (begin_operation E i s) = calls s"
  by (simp_all add: begin_operation_def Let_def executor_frames split: option.split sum.split)

lemma start_frames [executor_frames]:
  "ledger (snd (start_operation E req k f s)) = ledger s" "runs (snd (start_operation E req k f s)) = runs s"
  "calls (snd (start_operation E req k f s)) = calls s"
  "limiter (snd (start_operation E req k f s)) =
     (if request_signal_aborted req then abort (length (ops s)) (limiter s) else limiter s)"
  by (simp_all add: start_operation_def add_operation_def Let_def executor_frames)

text \<open>Steps of runs keep the operations, the ledger and the identity of every run.\<close>

lemma set_run_frames [executor_frames]:
  "ledger (set_run r f s) = ledger s" "ops (set_run r f s) = ops s" "limiter (set_run r f s) = limiter s"
  "calls (set_run r f s) = calls s" "length (runs (set_run r f s)) = length (runs s)"
  by (simp_all add: set_run_def)

definition run_identity :: "'k Run \<Rightarrow> string \<times> nat" where
  "run_identity x = (run_key x, run_owner x)"

lemma set_run_identity:
  "(\<And>x. run_identity (f x) = run_identity x) \<Longrightarrow> map run_identity (runs (set_run r f s)) = map run_identity (runs s)"
  by (cases "r < length (runs s)") (simp_all add: set_run_def map_update list_update_same_conv list_update_beyond)

definition same_identities :: "('a, 'k) ExecutorState \<Rightarrow> ('a, 'k) ExecutorState \<Rightarrow> bool" where
  "same_identities s s' \<longleftrightarrow> ledger s' = ledger s \<and> ops s' = ops s \<and> map run_identity (runs s') = map run_identity (runs s)"

lemma set_run_same: "(\<And>x. run_identity (f x) = run_identity x) \<Longrightarrow> same_identities s (set_run r f s)"
  by (simp add: same_identities_def executor_frames set_run_identity)

lemma conclude_same: "same_identities s (conclude_run r res reason s)"
  unfolding conclude_run_def by (rule set_run_same) (simp add: run_identity_def)

lemma run_fails_same: "same_identities s (run_fails r e b s)"
  by (simp add: run_fails_def Let_def conclude_same)

lemma acquire_same: "same_identities s (acquire_slot E r s)"
proof -
  have "same_identities s (set_run r (\<lambda>x. x\<lparr>run_phase := Acquiring, run_ticket := Some (issued (limiter s))\<rparr>) s)"
    by (rule set_run_same) (simp add: run_identity_def)
  then show ?thesis by (simp add: acquire_slot_def same_identities_def)
qed

lemma run_steps_same:
  "same_identities s (run_begins E r s)" "same_identities s (start_answers E r ok s)"
  "same_identities s (slot_granted r s)" "same_identities s (slot_rejected r s)"
  "same_identities s (invocation_ends E r t out s)" "same_identities s (race_returns r s)"
  "same_identities s (race_lost r s)" "same_identities s (settlement_answers r answer s)"
proof -
  have a: "same_identities s (set_run r f s)" if "\<And>x. run_identity (f x) = run_identity x" for f :: "'b Run \<Rightarrow> 'b Run"
    by (rule set_run_same) (rule that)
  have "same_identities s (set_run r (\<lambda>x. x\<lparr>run_phase := Starting\<rparr>) s)" by (rule a) (simp add: run_identity_def)
  then show "same_identities s (run_begins E r s)" by (simp add: run_begins_def acquire_same)
  show "same_identities s (start_answers E r ok s)" by (simp add: start_answers_def acquire_same run_fails_same)
  have "same_identities s (set_run r (\<lambda>x. x\<lparr>run_phase := Racing, run_open := True\<rparr>) s)" by (rule a) (simp add: run_identity_def)
  then show "same_identities s (slot_granted r s)" by (simp add: slot_granted_def same_identities_def)
  show "same_identities s (slot_rejected r s)" "same_identities s (race_lost r s)"
    by (simp_all add: slot_rejected_def race_lost_def run_fails_same)
  let ?f = "\<lambda>x. x\<lparr>run_open := False, run_answer := Some (normalized_answer E (request_tool_call_id (op_request (owner_of r s))) out)\<rparr>"
  have "same_identities s (set_run r ?f s)" by (rule a) (simp add: run_identity_def)
  then show "same_identities s (invocation_ends E r t out s)" by (simp add: invocation_ends_def same_identities_def)
  show "same_identities s (race_returns r s)"
    by (simp add: race_returns_def Let_def conclude_same run_fails_same split: option.split sum.split) (simp add: same_identities_def)
  show "same_identities s (settlement_answers r answer s)"
    unfolding settlement_answers_def Let_def by (rule a) (simp add: run_identity_def)
qed

text \<open>Operations are only added; one keeps its request and its permission.\<close>

definition op_grows :: "'a Operation \<Rightarrow> 'a Operation \<Rightarrow> bool" where
  "op_grows p q \<longleftrightarrow> op_request q = op_request p \<and> op_key q = op_key p \<and> op_fingerprint q = op_fingerprint p \<and>
     (op_permitted p \<longrightarrow> op_permitted q)"

definition ops_grow :: "'a Operation list \<Rightarrow> 'a Operation list \<Rightarrow> bool" where
  "ops_grow ps qs \<longleftrightarrow> length ps \<le> length qs \<and> (\<forall>i<length ps. op_grows (ps ! i) (qs ! i))"

lemma op_grows_refl [simp]: "op_grows p p"
  by (simp add: op_grows_def)

lemma ops_grow_refl [simp]: "ops_grow ps ps"
  by (simp add: ops_grow_def)

lemma op_grows_trans: "op_grows p q \<Longrightarrow> op_grows q u \<Longrightarrow> op_grows p u"
  by (simp add: op_grows_def)

lemma ops_grow_trans:
  assumes "ops_grow ps qs" "ops_grow qs us" shows "ops_grow ps us"
proof -
  have "op_grows (ps ! i) (us ! i)" if "i < length ps" for i
    using assms that unfolding ops_grow_def by (blast intro: op_grows_trans less_le_trans)
  then show ?thesis using assms by (simp add: ops_grow_def)
qed

lemma ops_grow_append: "ops_grow ps (ps @ qs)"
  by (simp add: ops_grow_def nth_append)

lemma set_op_grows:
  assumes "\<And>p. op_grows p (f p)" shows "ops_grow (ops s) (ops (set_op i f s))"
  using assms [of "ops s ! i"]
  by (cases "i < length (ops s)") (auto simp: ops_grow_def set_op_def nth_list_update list_update_beyond)

lemma finish_grows: "ops_grow (ops s) (ops (finish_op i out s))"
proof -
  have "ops_grow (ops s) (ops (set_op i (\<lambda>p. p\<lparr>op_status := OperationDone out\<rparr>) s))"
    by (rule set_op_grows) (simp add: op_grows_def)
  then show ?thesis by (simp add: finish_op_def)
qed

lemma op_steps_grow:
  "ops_grow (ops s) (ops (fail_op i e ph s))" "ops_grow (ops s) (ops (complete_op i msg s))"
  "ops_grow (ops s) (ops (operation_cancelled i s))" "ops_grow (ops s) (ops (run_awaited i ph r s))"
  "ops_grow (ops s) (ops (begin_operation E i s))"
  by (simp_all add: fail_op_def complete_op_def operation_cancelled_def run_awaited_def begin_operation_def Let_def finish_grows
      split: RunPhase.split option.split sum.split)

lemma aborts_grow: "ops_grow (ops s) (ops (operation_aborts i b s))"
proof -
  have "ops_grow (ops s) (ops (set_op i (\<lambda>p. p\<lparr>op_aborted := True, op_timedOut := op_timedOut p \<or> b\<rparr>) s))"
    by (rule set_op_grows) (simp add: op_grows_def)
  then show ?thesis by (simp add: operation_aborts_def)
qed

lemma start_grows: "ops_grow (ops s) (ops (snd (start_operation E req k f s)))"
proof -
  have "ops_grow (ops s) (ops (add_operation req k f s))" by (simp add: add_operation_def ops_grow_append)
  from ops_grow_trans [OF this op_steps_grow(5)]
  have "ops_grow (ops s) (ops (begin_operation E (length (ops s)) (add_operation req k f s)))" .
  then show ?thesis by (simp add: start_operation_def Let_def)
qed

section \<open>One run for each execution key\<close>

definition bound_run :: "Ledger \<Rightarrow> 'a Operation list \<Rightarrow> nat \<Rightarrow> string \<times> nat \<Rightarrow> bool" where
  "bound_run m os r x \<longleftrightarrow> snd x < length os \<and> op_permitted (os ! snd x) \<and> op_key (os ! snd x) = fst x \<and>
     map_get m (fst x) = Some (op_fingerprint (os ! snd x), r)"

definition ids_inv :: "Ledger \<Rightarrow> (string \<times> nat) list \<Rightarrow> 'a Operation list \<Rightarrow> bool" where
  "ids_inv m ids os \<longleftrightarrow>
     (\<forall>k f r. map_get m k = Some (f, r) \<longrightarrow> r < length ids \<and> fst (ids ! r) = k) \<and>
     (\<forall>r<length ids. bound_run m os r (ids ! r))"

abbreviation executor_ids :: "('a, 'k) ExecutorState \<Rightarrow> bool" where
  "executor_ids s \<equiv> ids_inv (ledger s) (map run_identity (runs s)) (ops s)"

lemma ids_distinct: "ids_inv m ids os \<Longrightarrow> distinct (map fst ids)"
  unfolding ids_inv_def bound_run_def distinct_conv_nth by (metis length_map nth_map option.inject prod.inject)

lemma ids_grow:
  assumes "ids_inv m ids os" "ops_grow os os'" shows "ids_inv m ids os'"
proof -
  have "bound_run m os' r x" if "bound_run m os r x" for r x
    using that assms(2) by (auto simp: bound_run_def ops_grow_def op_grows_def)
  with assms(1) show ?thesis unfolding ids_inv_def by blast
qed

lemma same_ids: "executor_ids s \<Longrightarrow> same_identities s s' \<Longrightarrow> executor_ids s'"
  by (simp add: same_identities_def)

lemma grown_ids: "executor_ids s \<Longrightarrow> ledger s' = ledger s \<Longrightarrow> runs s' = runs s \<Longrightarrow> ops_grow (ops s) (ops s') \<Longrightarrow> executor_ids s'"
  using ids_grow by metis

text \<open>A new key of the ledger comes with a new run of a permitted operation.\<close>

lemma ids_new:
  assumes "ids_inv m ids os" "map_get m k = None" "i < length os" "op_permitted (os ! i)" "op_key (os ! i) = k" "op_fingerprint (os ! i) = f"
  shows "ids_inv (map_set k (f, length ids) m) (ids @ [(k, i)]) os"
proof -
  have "bound_run (map_set k (f, length ids) m) os r ((ids @ [(k, i)]) ! r)" if "r < length (ids @ [(k, i)])" for r
  proof (cases "r = length ids")
    case True
    then show ?thesis using assms by (simp add: bound_run_def)
  next
    case False
    with that have r: "r < length ids" by simp
    then have old: "bound_run m os r (ids ! r)" using assms(1) by (simp add: ids_inv_def)
    then have "fst (ids ! r) \<noteq> k" using assms(2) by (auto simp: bound_run_def)
    with old r show ?thesis by (simp add: bound_run_def nth_append)
  qed
  moreover have "r < length (ids @ [(k, i)]) \<and> fst ((ids @ [(k, i)]) ! r) = k'"
    if "map_get (map_set k (f, length ids) m) k' = Some (g, r)" for k' g r
  proof (cases "k' = k")
    case True
    then show ?thesis using that by auto
  next
    case False
    then have "r < length ids \<and> fst (ids ! r) = k'" using that assms(1) unfolding ids_inv_def by simp
    then show ?thesis by (simp add: nth_append)
  qed
  ultimately show ?thesis unfolding ids_inv_def by blast
qed

lemma executeAuthorized_ids:
  assumes "executor_ids s" "i < length (ops s)" shows "executor_ids (executeAuthorized i claim s)"
proof -
  let ?p = "ops s ! i" and ?n = "length (runs s)"
  define s1 where "s1 = set_op i (\<lambda>p. p\<lparr>op_permitted := True\<rparr>) s"
  have "ops_grow (ops s) (ops s1)" unfolding s1_def by (rule set_op_grows) (simp add: op_grows_def)
  then have inv: "executor_ids s1" by (rule grown_ids [OF assms(1), rotated 2]) (simp_all add: s1_def executor_frames)
  have p: "i < length (ops s1)" "op_permitted (ops s1 ! i)" "op_key (ops s1 ! i) = op_key ?p" "op_fingerprint (ops s1 ! i) = op_fingerprint ?p"
    "length (runs s1) = ?n"
    using assms(2) by (simp_all add: s1_def set_op_def)
  define awaiting where "awaiting r t = set_op i (\<lambda>p. p\<lparr>op_status := AwaitingRun InExecution r\<rparr>) t"
    for r and t :: "('a, 'b) ExecutorState"
  have grow: "ops_grow (ops t) (ops (awaiting r t))" for r t
    unfolding awaiting_def by (rule set_op_grows) (simp add: op_grows_def)
  consider (conflict) e where "ledger_get (ledger s1) (op_key ?p) (op_fingerprint ?p) = Inl e"
    | (known) r where "ledger_get (ledger s1) (op_key ?p) (op_fingerprint ?p) = Inr (Some r)"
    | (fresh) "ledger_get (ledger s1) (op_key ?p) (op_fingerprint ?p) = Inr None"
    by (cases "ledger_get (ledger s1) (op_key ?p) (op_fingerprint ?p)") auto
  then show ?thesis
  proof cases
    case conflict
    then have "executeAuthorized i claim s = fail_op i e InExecution s1"
      by (simp add: executeAuthorized_def Let_def s1_def ledger_getOrCreate_def)
    then show ?thesis using grown_ids [OF inv _ _ op_steps_grow(1)] by (simp add: executor_frames)
  next
    case known
    then have "map_get (ledger s1) (op_key ?p) = Some (op_fingerprint ?p, r)"
      by (auto simp: ledger_get_def split: option.splits if_splits)
    then have "r < ?n" using inv p(5) unfolding ids_inv_def by simp
    then have "executeAuthorized i claim s = awaiting r s1"
      using known by (simp add: executeAuthorized_def Let_def s1_def ledger_getOrCreate_def awaiting_def)
    then show ?thesis using grown_ids [OF inv _ _ grow] by (simp add: executor_frames awaiting_def)
  next
    case fresh
    then have none: "map_get (ledger s1) (op_key ?p) = None" by (auto simp: ledger_get_def split: option.splits if_splits)
    define s2 where "s2 = awaiting ?n s1"
    have "executeAuthorized i claim s = s2\<lparr>ledger := map_set (op_key ?p) (op_fingerprint ?p, ?n) (ledger s1),
        runs := runs s1 @ [\<lparr>run_key = op_key ?p, run_owner = i, run_claim = claim, run_phase = Scheduled,
                                       run_ticket = None, run_open = False, run_answer = None\<rparr>]\<rparr>"
      using fresh by (simp add: executeAuthorized_def Let_def s1_def ledger_getOrCreate_def awaiting_def s2_def set_op_def)
    moreover have "ids_inv (map_set (op_key ?p) (op_fingerprint ?p, ?n) (ledger s1)) (map run_identity (runs s1) @ [(op_key ?p, i)]) (ops s1)"
      using ids_new [OF inv none p(1,2,3,4)] p(5) by simp
    ultimately show ?thesis using ids_grow [OF _ grow] by (simp add: s2_def run_identity_def)
  qed
qed

lemma executeDetailed_frames:
  "ledger (snd (executeDetailed E req s)) = ledger s" "runs (snd (executeDetailed E req s)) = runs s"
  "calls (snd (executeDetailed E req s)) = calls s" "ops_grow (ops s) (ops (snd (executeDetailed E req s)))"
  "limiter (snd (executeDetailed E req s)) \<in> {limiter s, abort (length (ops s)) (limiter s)}"
  by (simp_all add: executeDetailed_def Let_def start_frames start_grows
      split: sum.split option.split prod.split)

lemma executor_ids_step: "executor_step E s s' \<Longrightarrow> executor_ids s \<Longrightarrow> executor_ids s'"
proof (induction rule: executor_step.induct)
  case (submits s req)
  show ?case by (rule grown_ids [OF submits executeDetailed_frames(1,2,4)])
next
  case (policy i s decision)
  have awaiting: "ops_grow (ops s) (ops (set_op i (\<lambda>p. p\<lparr>op_status := AwaitingClaim\<rparr>) s))"
    by (rule set_op_grows) (simp add: op_grows_def)
  show ?case
    using policy executeAuthorized_ids [OF policy(3,1)] grown_ids [OF policy(3) _ _ finish_grows]
      grown_ids [OF policy(3) _ _ op_steps_grow(1)] grown_ids [OF policy(3) _ _ op_steps_grow(2)] grown_ids [OF policy(3) _ _ awaiting]
    by (cases decision) (simp_all add: policy_answers_def Let_def executor_frames)
next
  case (claim i s answer)
  have awaiting: "ops_grow (ops s) (ops (set_op i (\<lambda>p. p\<lparr>op_status := AwaitingRun InApproval r\<rparr>) s))" for r
    by (rule set_op_grows) (simp add: op_grows_def)
  show ?case
    using claim executeAuthorized_ids [OF claim(3,1)] grown_ids [OF claim(3) _ _ finish_grows]
      grown_ids [OF claim(3) _ _ op_steps_grow(1)] grown_ids [OF claim(3) _ _ op_steps_grow(2)] grown_ids [OF claim(3) _ _ awaiting]
    by (cases answer) (simp_all add: claim_answers_def Let_def executor_frames split: sum.split option.split)
next
  case (cancels i s)
  show ?case by (rule grown_ids [OF cancels(4) _ _ op_steps_grow(3)]) (simp_all add: operation_cancelled_def executor_frames)
next
  case (awaits i s ph r)
  show ?case
    by (rule grown_ids [OF awaits(3) _ _ op_steps_grow(4)]) (simp_all add: run_awaited_def executor_frames split: RunPhase.split)
next
  case (aborting i s b)
  show ?case by (rule grown_ids [OF aborting(3) _ _ aborts_grow]) (simp_all add: operation_aborts_def executor_frames)
qed (blast intro: same_ids run_steps_same)+

section \<open>Slots\<close>

text \<open>
  Before the tool's function is called a run has no open invocation; while one is open, the run
  holds a slot of its own.
\<close>

definition run_slot_ok :: "ConcurrencyLimiter \<Rightarrow> nat list \<Rightarrow> nat \<Rightarrow> 'k Run \<Rightarrow> bool" where
  "run_slot_ok l cs r x \<longleftrightarrow>
     (case run_phase x of
        Scheduled \<Rightarrow> run_ticket x = None \<and> \<not> run_open x \<and> r \<notin> set cs
      | Starting \<Rightarrow> run_ticket x = None \<and> \<not> run_open x \<and> r \<notin> set cs
      | Acquiring \<Rightarrow> (\<exists>t. run_ticket x = Some t \<and> t \<notin> set (released l)) \<and> \<not> run_open x \<and> r \<notin> set cs
      | _ \<Rightarrow> True) \<and>
     (run_open x \<longrightarrow> (\<exists>t. run_ticket x = Some t \<and> t \<in> set (granted l) \<and> t \<notin> set (released l))) \<and>
     (\<forall>t. run_ticket x = Some t \<longrightarrow> t < issued l)"

definition tickets_apart :: "'k Run list \<Rightarrow> bool" where
  "tickets_apart xs \<longleftrightarrow> (\<forall>r<length xs. \<forall>q<length xs. \<forall>t. run_ticket (xs ! r) = Some t \<longrightarrow> run_ticket (xs ! q) = Some t \<longrightarrow> r = q)"

lemma tickets_apartD:
  "tickets_apart xs \<Longrightarrow> r < length xs \<Longrightarrow> q < length xs \<Longrightarrow> run_ticket (xs ! r) = Some t \<Longrightarrow> run_ticket (xs ! q) = Some t \<Longrightarrow> r = q"
  unfolding tickets_apart_def by blast

lemma tickets_update:
  assumes "tickets_apart xs" "r < length xs"
    "run_ticket x = run_ticket (xs ! r) \<or> (\<forall>q<length xs. run_ticket (xs ! q) \<noteq> run_ticket x)"
  shows "tickets_apart (xs[r := x])"
  unfolding tickets_apart_def length_list_update
proof (intro allI impI)
  fix p q t assume pq: "p < length xs" "q < length xs" and t: "run_ticket (xs[r := x] ! p) = Some t" "run_ticket (xs[r := x] ! q) = Some t"
  have at_r: "run_ticket (xs[r := x] ! r) = run_ticket x" using assms(2) by simp
  show "p = q"
  proof (cases "run_ticket x = run_ticket (xs ! r)")
    case True
    then have "run_ticket (xs[r := x] ! u) = run_ticket (xs ! u)" for u
      using assms(2) by (cases "u = r") simp_all
    with t tickets_apartD [OF assms(1) pq] show ?thesis by simp
  next
    case False
    then have new: "run_ticket (xs ! u) \<noteq> run_ticket x" if "u < length xs" for u using assms(3) that by blast
    show ?thesis
    proof (cases "p = r \<or> q = r")
      case True
      then have "p = r \<and> q = r" using t at_r new [OF pq(1)] new [OF pq(2)] by (metis nth_list_update_neq)
      then show ?thesis by simp
    next
      case False
      with t tickets_apartD [OF assms(1) pq] show ?thesis by simp
    qed
  qed
qed

definition slots_inv :: "nat \<Rightarrow> ('a, 'k) ExecutorState \<Rightarrow> bool" where
  "slots_inv m s \<longleftrightarrow> limiter_inv m (limiter s) \<and>
     (\<forall>r<length (runs s). run_slot_ok (limiter s) (calls s) r (runs s ! r)) \<and>
     tickets_apart (runs s) \<and>
     distinct (calls s) \<and> set (calls s) \<subseteq> {..<length (runs s)}"

lemma slots_set_run:
  assumes "slots_inv m s" "r < length (runs s)" "run_slot_ok (limiter s) (calls s) r (f (runs s ! r))"
    "run_ticket (f (runs s ! r)) = run_ticket (runs s ! r)"
  shows "slots_inv m (set_run r f s)"
proof -
  have "tickets_apart (runs (set_run r f s))"
    using tickets_update [of "runs s" r "f (runs s ! r)"] assms by (simp add: set_run_def slots_inv_def)
  moreover have "run_slot_ok (limiter s) (calls s) q (runs (set_run r f s) ! q)" if "q < length (runs s)" for q
    using assms(1,2,3) that by (auto simp: set_run_def nth_list_update slots_inv_def)
  ultimately show ?thesis using assms(1) unfolding slots_inv_def executor_frames by blast
qed

text \<open>The limiter moves on: tickets are issued and granted, and none of an open run released.\<close>

lemma run_slot_mono:
  assumes "run_slot_ok l cs r x" "issued l \<le> issued l'" "set (granted l) \<subseteq> set (granted l')"
    "\<And>t. run_ticket x = Some t \<Longrightarrow> t \<in> set (released l') \<Longrightarrow> t \<in> set (released l)"
  shows "run_slot_ok l' cs r x"
proof -
  have "t < issued l'" if "run_ticket x = Some t" for t
    using assms(1,2) that by (fastforce simp: run_slot_ok_def)
  moreover have "run_open x \<Longrightarrow> \<exists>t. run_ticket x = Some t \<and> t \<in> set (granted l') \<and> t \<notin> set (released l')"
    using assms(1,3,4) unfolding run_slot_ok_def by blast
  moreover have "run_phase x = Acquiring \<Longrightarrow> \<exists>t. run_ticket x = Some t \<and> t \<notin> set (released l')"
    using assms(1,4) unfolding run_slot_ok_def by auto
  ultimately show ?thesis using assms(1) unfolding run_slot_ok_def by (cases "run_phase x") auto
qed

lemma slots_op:
  assumes "slots_inv m s" "runs s' = runs s" "calls s' = calls s" "limiter s' \<in> {limiter s, abort g (limiter s)}"
  shows "slots_inv m s'"
proof -
  have "limiter_inv m (limiter s')" using assms(1,4) abort_inv by (auto simp: slots_inv_def)
  moreover have "run_slot_ok (limiter s') (calls s) r x" if "run_slot_ok (limiter s) (calls s) r x" for r x
    by (rule run_slot_mono [OF that]) (use assms(4) in \<open>auto simp: executor_frames\<close>)
  ultimately show ?thesis using assms(1) unfolding slots_inv_def assms(2,3) by blast
qed

lemma slots_new_run:
  assumes "slots_inv m s" "runs s' = runs s @ [x]" "calls s' = calls s" "limiter s' = limiter s"
    "run_phase x = Scheduled" "run_ticket x = None" "\<not> run_open x"
  shows "slots_inv m s'"
proof -
  have inside: "set (calls s) \<subseteq> {..<length (runs s)}" using assms(1) by (simp add: slots_inv_def)
  then have "length (runs s) \<notin> set (calls s)" by auto
  then have "run_slot_ok (limiter s) (calls s) (length (runs s)) x" using assms(5-7) by (simp add: run_slot_ok_def)
  then have "run_slot_ok (limiter s) (calls s) r ((runs s @ [x]) ! r)" if "r < length (runs s @ [x])" for r
    using assms(1) that by (cases "r = length (runs s)") (auto simp: slots_inv_def nth_append)
  moreover have "tickets_apart (runs s @ [x])"
    using assms(1,6) by (auto simp: tickets_apart_def slots_inv_def nth_append less_Suc_eq)
  moreover have "set (calls s) \<subseteq> {..<length (runs s @ [x])}" using inside by auto
  ultimately show ?thesis
    using assms(1) unfolding slots_inv_def assms(2-4) by blast
qed

lemma executeAuthorized_slots:
  assumes "slots_inv m s" shows "slots_inv m (executeAuthorized i claim s)"
proof -
  have limiter: "limiter (executeAuthorized i claim s) = limiter s" and calls: "calls (executeAuthorized i claim s) = calls s"
    by (simp_all add: executeAuthorized_def Let_def executor_frames split: prod.split sum.split)
  have "runs (executeAuthorized i claim s) = runs s \<or>
      runs (executeAuthorized i claim s) = runs s @ [\<lparr>run_key = op_key (ops s ! i), run_owner = i, run_claim = claim,
        run_phase = Scheduled, run_ticket = None, run_open = False, run_answer = None\<rparr>]"
    by (simp add: executeAuthorized_def Let_def executor_frames split: prod.split sum.split)
  then show ?thesis
    using slots_op [OF assms _ calls, of i] slots_new_run [OF assms _ calls limiter] limiter by fastforce
qed

text \<open>The steps of a run.\<close>

lemma conclude_slots:
  assumes "slots_inv m s" "r < length (runs s)" shows "slots_inv m (conclude_run r res reason s)"
  unfolding conclude_run_def
  by (rule slots_set_run [OF assms]) (use assms in \<open>auto simp: slots_inv_def run_slot_ok_def\<close>)

lemma run_fails_slots:
  assumes "slots_inv m s" "r < length (runs s)" shows "slots_inv m (run_fails r e b s)"
  by (simp add: run_fails_def Let_def conclude_slots [OF assms])

lemma released_issued:
  assumes "limiter_inv m l" "t \<in> set (released l)" shows "t < issued l"
proof -
  have all: "set (rejected l) \<union> set (granted l @ map waiter_ticket (waiters l)) = {..<issued l}"
    and "set (released l) \<subseteq> set (granted l)"
    using assms(1) by (simp_all add: limiter_inv_def limiter_core_def)
  then have "t \<in> set (rejected l) \<union> set (granted l @ map waiter_ticket (waiters l))" using assms(2) by auto
  then show ?thesis unfolding all by simp
qed

lemma acquire_slots:
  assumes inv: "slots_inv (max_slots E) s" and r: "r < length (runs s)" and phase: "run_phase (runs s ! r) \<in> {Scheduled, Starting}"
  shows "slots_inv (max_slots E) (acquire_slot E r s)"
proof -
  let ?l = "limiter s" and ?l' = "acquire (max_slots E) (run_owner (runs s ! r)) (limiter s)"
    and ?x = "(runs s ! r)\<lparr>run_phase := Acquiring, run_ticket := Some (issued (limiter s))\<rparr>"
  have lim: "limiter_inv (max_slots E) ?l" using inv by (simp add: slots_inv_def)
  have old: "run_slot_ok ?l (calls s) q (runs s ! q)" if "q < length (runs s)" for q
    using inv that by (simp add: slots_inv_def)
  have used: "issued ?l \<notin> set (released ?l)" using released_issued [OF lim] by blast
  have runs: "runs (acquire_slot E r s) = (runs s)[r := ?x]" by (simp add: acquire_slot_def set_run_def)
  have rest: "calls (acquire_slot E r s) = calls s" "limiter (acquire_slot E r s) = ?l'"
    by (simp_all add: acquire_slot_def executor_frames)
  have below: "run_ticket (runs s ! q) \<noteq> Some (issued ?l)" if "q < length (runs s)" for q
    using old [OF that] by (auto simp: run_slot_ok_def)
  have "run_slot_ok ?l' (calls s) r ?x"
    using old [OF r] phase used by (auto simp: run_slot_ok_def executor_frames)
  moreover have "run_slot_ok ?l' (calls s) q (runs s ! q)" if "q < length (runs s)" for q
    by (rule run_slot_mono [OF old [OF that]]) (simp_all add: executor_frames acquire_grants)
  ultimately have "run_slot_ok ?l' (calls s) q ((runs s)[r := ?x] ! q)" if "q < length (runs s)" for q
    using that r by (auto simp: nth_list_update)
  moreover have "tickets_apart ((runs s)[r := ?x])"
    by (rule tickets_update) (use inv r below in \<open>simp_all add: slots_inv_def\<close>)
  ultimately show ?thesis
    using inv acquire_inv [OF lim] unfolding slots_inv_def runs rest length_list_update by blast
qed

lemma granted_slots:
  assumes inv: "slots_inv m s" and r: "r < length (runs s)" and phase: "run_phase (runs s ! r) = Acquiring"
    and t: "run_ticket (runs s ! r) = Some t" "t \<in> set (granted (limiter s))"
  shows "slots_inv m (slot_granted r s)"
proof -
  let ?x = "(runs s ! r)\<lparr>run_phase := Racing, run_open := True\<rparr>"
  have old: "run_slot_ok (limiter s) (calls s) q (runs s ! q)" if "q < length (runs s)" for q
    using inv that by (simp add: slots_inv_def)
  have fresh: "r \<notin> set (calls s)" using old [OF r] phase by (simp add: run_slot_ok_def)
  have runs: "runs (slot_granted r s) = (runs s)[r := ?x]" and rest: "calls (slot_granted r s) = calls s @ [r]" "limiter (slot_granted r s) = limiter s"
    by (simp_all add: slot_granted_def set_run_def)
  have "run_slot_ok (limiter s) (calls s @ [r]) q ((runs s)[r := ?x] ! q)" if "q < length (runs s)" for q
  proof (cases "q = r")
    case True
    then show ?thesis using old [OF r] t r phase by (auto simp: run_slot_ok_def)
  next
    case False
    then show ?thesis using old [OF that] by (cases "run_phase (runs s ! q)") (auto simp: run_slot_ok_def)
  qed
  moreover have "tickets_apart ((runs s)[r := ?x])"
    by (rule tickets_update) (use inv r in \<open>simp_all add: slots_inv_def\<close>)
  moreover have "distinct (calls s @ [r])" "set (calls s @ [r]) \<subseteq> {..<length (runs s)}"
    using inv fresh r by (auto simp: slots_inv_def)
  ultimately show ?thesis
    using inv unfolding slots_inv_def runs rest length_list_update by blast
qed

lemma returned_slots:
  assumes inv: "slots_inv (max_slots E) s" and r: "r < length (runs s)" and t: "run_open (runs s ! r)" "run_ticket (runs s ! r) = Some t"
  shows "slots_inv (max_slots E) (invocation_ends E r t output s)"
proof -
  let ?l = "limiter s" and ?l' = "release (max_slots E) t (limiter s)"
  let ?f = "\<lambda>x. x\<lparr>run_open := False, run_answer := Some (normalized_answer E (request_tool_call_id (op_request (owner_of r s))) output)\<rparr>"
  let ?x = "?f (runs s ! r)"
  have old: "run_slot_ok ?l (calls s) q (runs s ! q)" if "q < length (runs s)" for q
    using inv that by (simp add: slots_inv_def)
  have held: "t \<in> set (granted ?l)" using old [OF r] t by (auto simp: run_slot_ok_def)
  have lim: "limiter_inv (max_slots E) ?l'" using release_inv [OF _ held] inv by (simp add: slots_inv_def)
  have runs: "runs (invocation_ends E r t output s) = (runs s)[r := ?x]"
    and rest: "calls (invocation_ends E r t output s) = calls s" "limiter (invocation_ends E r t output s) = ?l'"
    by (simp_all add: invocation_ends_def set_run_def)
  have started: "run_phase (runs s ! r) \<notin> {Scheduled, Starting, Acquiring}"
    using old [OF r] t(1) by (auto simp: run_slot_ok_def)
  have "run_slot_ok ?l' (calls s) q ((runs s)[r := ?x] ! q)" if q: "q < length (runs s)" for q
  proof (cases "q = r")
    case True
    then show ?thesis using old [OF r] started r
      by (cases "run_phase (runs s ! r)") (auto simp: run_slot_ok_def release_frames)
  next
    case False
    have "run_slot_ok ?l' (calls s) q (runs s ! q)"
    proof (rule run_slot_mono [OF old [OF q]])
      fix u assume u: "run_ticket (runs s ! q) = Some u" "u \<in> set (released ?l')"
      have "tickets_apart (runs s)" using inv by (simp add: slots_inv_def)
      then have "u \<noteq> t" using tickets_apartD [of "runs s" q r t] False q r t(2) u(1) by blast
      with u(2) show "u \<in> set (released ?l)" by (simp add: release_frames)
    qed (simp_all add: release_frames)
    with False show ?thesis by simp
  qed
  moreover have "tickets_apart ((runs s)[r := ?x])"
    by (rule tickets_update) (use inv r in \<open>simp_all add: slots_inv_def\<close>)
  ultimately show ?thesis
    using inv lim unfolding slots_inv_def runs rest length_list_update by blast
qed

lemma settlement_slots:
  assumes "slots_inv m s" "r < length (runs s)" "run_phase (runs s ! r) = Settling res reason"
  shows "slots_inv m (settlement_answers r answer s)"
  unfolding settlement_answers_def Let_def
  by (rule slots_set_run [OF assms(1,2)])
     (use assms in \<open>cases answer; auto simp: slots_inv_def run_slot_ok_def\<close>)+

lemma op_slots:
  assumes "slots_inv m s"
  shows "slots_inv m (finish_op i out s)" "slots_inv m (fail_op i e ph s)" "slots_inv m (complete_op i msg s)" "slots_inv m (set_op i f s)"
  by (rule slots_op [OF assms, where g = i]; simp add: executor_frames)+

lemma slots_step: "executor_step E s s' \<Longrightarrow> slots_inv (max_slots E) s \<Longrightarrow> slots_inv (max_slots E) s'"
proof (induction rule: executor_step.induct)
  case (submits s req)
  show ?case by (rule slots_op [OF submits executeDetailed_frames(2,3,5)])
next
  case (policy i s decision)
  show ?case
    by (cases decision) (simp_all add: policy_answers_def Let_def op_slots [OF policy(3)] executeAuthorized_slots [OF policy(3)])
next
  case (claim i s answer)
  show ?case
    by (cases answer) (simp_all add: claim_answers_def Let_def op_slots [OF claim(3)] executeAuthorized_slots [OF claim(3)]
       split: sum.split option.split)
next
  case (cancels i s)
  show ?case by (rule slots_op [OF cancels(4), where g = i]) (simp_all add: operation_cancelled_def executor_frames)
next
  case (awaits i s ph r)
  show ?case by (rule slots_op [OF awaits(3), where g = i]) (simp_all add: run_awaited_def executor_frames split: RunPhase.split)
next
  case (aborting i s b)
  show ?case by (rule slots_op [OF aborting(3), where g = i]) (simp_all add: operation_aborts_def executor_frames)
next
  case (begins r s)
  have "slots_inv (max_slots E) (set_run r (\<lambda>x. x\<lparr>run_phase := Starting\<rparr>) s)"
    by (rule slots_set_run [OF begins(3,1)]) (use begins in \<open>auto simp: slots_inv_def run_slot_ok_def\<close>)
  then show ?case using acquire_slots [OF begins(3,1)] begins(2) by (simp add: run_begins_def)
next
  case (recorded r s ok)
  then show ?case using acquire_slots [OF recorded(3,1)] run_fails_slots [OF recorded(3,1)] by (simp add: start_answers_def)
next
  case (calls_tool r s t)
  then show ?case by (intro granted_slots)
next
  case (refused r s t)
  then show ?case by (simp add: slot_rejected_def run_fails_slots)
next
  case (returns r s t out)
  then show ?case by (intro returned_slots)
next
  case (race_won r s)
  then show ?case
    by (auto simp: race_returns_def Let_def conclude_slots run_fails_slots split: option.split sum.split)
next
  case (race_aborted r s)
  then show ?case by (simp add: race_lost_def run_fails_slots)
next
  case (settles r s res reason answer)
  then show ?case by (intro settlement_slots)
qed

end
