(* ===== verification/ToolRegistryFacts.thy ===== *)
theory ToolRegistryFacts
  imports ToolRegistry
begin

text \<open>
  The catalog of a deferred discovery plan: what it lets a provider see is what the caller was
  allowed to see, every tool in one place. The registry lists by name, whatever the order of
  registration.
\<close>

section \<open>The registry\<close>

definition registry_inv :: "('x, 'c) ToolRegistry \<Rightarrow> bool" where
  "registry_inv R \<longleftrightarrow> distinct (map fst R) \<and> (\<forall>(k, t)\<in>set R. k = registered_name t)"

lemma registry_names: "registry_inv R \<Longrightarrow> map registered_name (map snd R) = map fst R"
  by (auto simp: registry_inv_def)

lemma registry_inv_empty: "registry_inv []"
  by (simp add: registry_inv_def)

lemma registry_inv_set: "registry_inv R \<Longrightarrow> registry_inv (map_set (registered_name t) t R)"
  unfolding registry_inv_def by (blast dest: map_set_entries intro: map_set_distinct)

lemma register_keeps_registry: "register r R = Inr R' \<Longrightarrow> registry_inv R \<Longrightarrow> registry_inv R'"
  by (auto simp: register_def registry_inv_set split: if_splits)

lemma unregister_keeps_registry: "registry_inv R \<Longrightarrow> registry_inv (snd (unregister n R))"
  by (auto simp: unregister_def registry_inv_def distinct_map_filter)

lemma registerAdapter_keeps_registry: "registerAdapter ts R = Inr R' \<Longrightarrow> registry_inv R \<Longrightarrow> registry_inv R'"
proof -
  have "registry_inv R \<Longrightarrow> registry_inv (fold (\<lambda>t. map_set (registered_name t) t) us R)" for us
    by (induction us arbitrary: R) (simp_all add: registry_inv_set)
  then show "registerAdapter ts R = Inr R' \<Longrightarrow> registry_inv R \<Longrightarrow> registry_inv R'"
    by (auto simp: registerAdapter_def)
qed

text \<open>Sorting by name: the source's comparison is the order of the names.\<close>

lemma insert_by_names: "insert_by compareNames t ts = insort_key registered_name t ts"
  by (induction ts) (auto simp: compareNames_def)

lemma sort_by_names: "sort_by compareNames ts = sort_key registered_name ts"
  unfolding sort_by_def sort_key_def by (induction ts) (simp_all add: insert_by_names)

lemma sorted_listing_unique:
  assumes "distinct (map f xs)" "distinct (map f ys)" "set xs = set ys"
  shows "sort_key f xs = sort_key f ys"
proof (rule map_sorted_distinct_set_unique [of f])
  show "inj_on f (set (sort_key f xs) \<union> set (sort_key f ys))"
    using assms(1,3) by (simp add: distinct_map)
  show "sorted (map f (sort_key f xs))" "sorted (map f (sort_key f ys))" by simp_all
  show "distinct (map f (sort_key f xs))" "distinct (map f (sort_key f ys))" using assms by (simp_all add: distinct_map)
  show "set (sort_key f xs) = set (sort_key f ys)" using assms(3) by simp
qed

text \<open>
  What a query discovers is what the registry lists, filtered, in the order of the names;
  it does not depend on the order of registration.
\<close>

lemma discover_alt:
  "discover q R = map tool_definition (filter (is_discovered q) (sort_key registered_name (map snd R)))"
  by (simp add: discover_def sort_by_names filter_sort)

lemma discover_order:
  assumes "registry_inv R" "registry_inv R'" "set R = set R'"
  shows "discover q R = discover q R'" "list_tools R = list_tools R'"
proof -
  have "distinct (map registered_name (map snd R))" "distinct (map registered_name (map snd R'))"
    unfolding registry_names [OF assms(1)] registry_names [OF assms(2)] using assms(1,2) by (simp_all add: registry_inv_def)
  then have "sort_key registered_name (map snd R) = sort_key registered_name (map snd R')"
    by (rule sorted_listing_unique) (simp add: assms(3))
  then show "discover q R = discover q R'" "list_tools R = list_tools R'"
    by (simp_all add: discover_alt list_tools_def sort_by_names)
qed

section \<open>The catalog\<close>

definition keyed_by_name :: "(string, ToolDefinition) jsmap \<Rightarrow> bool" where
  "keyed_by_name m \<longleftrightarrow> distinct (map fst m) \<and> (\<forall>(k, d)\<in>set m. k = tool_name d)"

lemma keyed_get: "keyed_by_name m \<Longrightarrow> map_get m n = Some d \<Longrightarrow> tool_name d = n \<and> d \<in> snd ` set m"
  unfolding keyed_by_name_def by (force dest: map_of_SomeD)

lemma catalog_definitions_ok:
  "catalog_definitions m vs = Inr m' \<Longrightarrow> keyed_by_name m \<Longrightarrow>
   \<exists>ds. map_result parsed_definition vs = Inr ds \<and> map snd m' = map snd m @ ds \<and> keyed_by_name m'"
proof (induction m vs arbitrary: m' rule: catalog_definitions.induct)
  case (2 m v vs)
  then obtain d where d: "parsed_definition v = Inr d" "map_get m (tool_name d) = None"
    "catalog_definitions (map_set (tool_name d) d m) vs = Inr m'" by (auto split: if_splits)
  have "keyed_by_name (map_set (tool_name d) d m)"
    using 2(3) d(2) by (auto simp: map_set_new keyed_by_name_def map_of_eq_None_iff)
  with 2(1) [OF d(1)] d show ?case by (auto simp: map_set_new)
qed auto

section \<open>Namespaces\<close>

lemma namespace_tools_ok:
  "namespace_tools m seen assigned ns = Inr (ds, assigned') \<Longrightarrow> keyed_by_name m \<Longrightarrow>
   map tool_name ds = ns \<and> set ds \<subseteq> snd ` set m \<and> assigned' = rev ns @ assigned \<and> distinct ns \<and>
   set ns \<inter> set assigned = {} \<and> set ns \<inter> set seen = {}"
proof (induction m seen assigned ns arbitrary: ds assigned' rule: namespace_tools.induct)
  case (2 m seen assigned n ns)
  then obtain d ds' where d: "n \<notin> set seen" "map_get m n = Some d" "n \<notin> set assigned"
    "namespace_tools m (n # seen) (n # assigned) ns = Inr (ds', assigned')" "ds = d # ds'"
    by (auto split: if_splits option.splits)
  from 2(1) [OF d(1-3) d(4)] keyed_get [OF _ d(2)] d 2(3) show ?case by auto
qed auto

definition all_resolved :: "ResolvedToolNamespace list \<Rightarrow> ToolDefinition list" where
  "all_resolved rs = concat (map resolved_tools rs)"

lemma resolve_namespaces_ok:
  "resolve_namespaces m i names assigned nss = Inr (rs, assigned') \<Longrightarrow> keyed_by_name m \<Longrightarrow>
   set (all_resolved rs) \<subseteq> snd ` set m \<and> distinct (map tool_name (all_resolved rs)) \<and>
   set assigned' = tool_name ` set (all_resolved rs) \<union> set assigned \<and>
   tool_name ` set (all_resolved rs) \<inter> set assigned = {} \<and>
   map resolved_name rs = map namespace_name nss \<and> distinct (map resolved_name rs) \<and>
   set (map resolved_name rs) \<inter> set names = {}"
proof (induction m i names assigned nss arbitrary: rs assigned' rule: resolve_namespaces.induct)
  case (2 m i names assigned ns nss)
  have checks: "is_namespace_name (namespace_name ns)" "namespace_name ns \<notin> set names"
      "\<not> (trim (namespace_description ns) = [] \<or> length (namespace_description ns) > 1024)" "namespace_toolNames ns \<noteq> []"
    using 2(2) by (auto simp del: bind_result_Inr_iff split: if_splits)
  have "bind_result (namespace_tools m [] assigned (namespace_toolNames ns)) (\<lambda>(tools, mid).
      bind_result (resolve_namespaces m (Suc i) (namespace_name ns # names) mid nss) (\<lambda>(rest, last_assigned).
        Inr (\<lparr>resolved_name = namespace_name ns, resolved_description = trim (namespace_description ns),
           resolved_deferred = (case namespace_deferred ns of None \<Rightarrow> True | Some b \<Rightarrow> b), resolved_tools = tools\<rparr> # rest,
           last_assigned))) = Inr (rs, assigned')"
    using 2(2) checks by (simp only: resolve_namespaces.simps if_False simp_thms if_True not_True_eq_False)
  then obtain tools mid rest where step: "namespace_name ns \<notin> set names"
    "namespace_tools m [] assigned (namespace_toolNames ns) = Inr (tools, mid)"
    "resolve_namespaces m (Suc i) (namespace_name ns # names) mid nss = Inr (rest, assigned')"
    "rs = \<lparr>resolved_name = namespace_name ns, resolved_description = trim (namespace_description ns),
       resolved_deferred = (case namespace_deferred ns of None \<Rightarrow> True | Some b \<Rightarrow> b), resolved_tools = tools\<rparr> # rest"
    using checks(2) by (auto simp: bind_result_Inr_iff)
  note tools = namespace_tools_ok [OF step(2) 2(3)]
  have rest: "set (all_resolved rest) \<subseteq> snd ` set m \<and> distinct (map tool_name (all_resolved rest)) \<and>
     set assigned' = tool_name ` set (all_resolved rest) \<union> set mid \<and>
     tool_name ` set (all_resolved rest) \<inter> set mid = {} \<and>
     map resolved_name rest = map namespace_name nss \<and> distinct (map resolved_name rest) \<and>
     set (map resolved_name rest) \<inter> set (namespace_name ns # names) = {}"
    using 2(1) [OF _ _ checks(3,4) step(2) refl step(3) 2(3)] checks(1,2) by blast
  have all: "all_resolved rs = tools @ all_resolved rest" using step(4) by (simp add: all_resolved_def)
  have names: "tool_name ` set tools = set (namespace_toolNames ns)" using tools by (metis set_map)
  have apart: "tool_name ` set tools \<inter> set assigned = {}" "distinct (map tool_name tools)" "set tools \<subseteq> snd ` set m"
    and mid: "set mid = tool_name ` set tools \<union> set assigned"
    using tools names by simp_all
  from rest have r1: "set (all_resolved rest) \<subseteq> snd ` set m" and r2: "distinct (map tool_name (all_resolved rest))"
    and r3: "set assigned' = tool_name ` set (all_resolved rest) \<union> set mid"
    and r4: "tool_name ` set (all_resolved rest) \<inter> set mid = {}"
    and r5: "map resolved_name rest = map namespace_name nss" "distinct (map resolved_name rest)"
    and r6: "set (map resolved_name rest) \<inter> set (namespace_name ns # names) = {}" by blast+
  have r4': "tool_name ` set tools \<inter> tool_name ` set (all_resolved rest) = {}" "tool_name ` set (all_resolved rest) \<inter> set assigned = {}"
    using r4 unfolding mid by (simp_all add: Int_Un_distrib Int_commute)
  have "distinct (map tool_name (tools @ all_resolved rest))"
    using apart(2) r2 r4'(1) by simp
  moreover have "set (tools @ all_resolved rest) \<subseteq> snd ` set m"
    "set assigned' = tool_name ` set (tools @ all_resolved rest) \<union> set assigned"
    "tool_name ` set (tools @ all_resolved rest) \<inter> set assigned = {}"
    using apart(1,3) r1 r3 r4'(2) unfolding set_append image_Un mid by (simp_all add: Un_ac Int_Un_distrib2)
  moreover have "map resolved_name rs = map namespace_name (ns # nss)" "distinct (map resolved_name rs)"
    "set (map resolved_name rs) \<inter> set names = {}"
    using r5 r6 step(1) by (simp_all add: step(4))
  ultimately show ?case unfolding all by simp
qed (auto simp: all_resolved_def)


text \<open>The tools the plan exposes: at once, or after a namespace is selected.\<close>

definition plan_exposes :: "DeferredToolDiscoveryPlan \<Rightarrow> ToolDefinition list" where
  "plan_exposes plan = eagerTools plan @ all_resolved (plan_namespaces plan)"

lemma all_resolved_filter: "set (all_resolved (filter P rs)) \<subseteq> set (all_resolved rs)"
  by (auto simp: all_resolved_def)

lemma all_resolved_filter_distinct:
  "distinct (map tool_name (all_resolved rs)) \<Longrightarrow> distinct (map tool_name (all_resolved (filter P rs)))"
  by (induction rs) (auto simp: all_resolved_def)

lemma eager_projection_alt:
  "eager_projection opts m rs assigned =
     all_resolved (filter (\<lambda>n. \<not> resolved_deferred n) rs) @
     (if includeUnassigned opts = Some False then [] else filter (\<lambda>d. tool_name d \<notin> set assigned) (map snd m))"
  by (simp add: eager_projection_def all_resolved_def)

lemma eager_projection_subset:
  assumes "set (all_resolved rs) \<subseteq> set (map snd m)"
  shows "set (eager_projection opts m rs assigned) \<subseteq> set (map snd m)"
proof -
  have "set (all_resolved (filter P rs)) \<subseteq> set (map snd m)" for P
    using subset_trans [OF all_resolved_filter assms] .
  moreover have "set (filter Q (map snd m)) \<subseteq> set (map snd m)" for Q by (rule filter_is_subset)
  ultimately show ?thesis unfolding eager_projection_alt set_append by (simp only: Un_least empty_subsetI list.set split: if_split) simp
qed

lemma eager_projection_distinct:
  assumes "distinct (map tool_name (map snd m))" "distinct (map tool_name (all_resolved rs))"
    "set assigned = tool_name ` set (all_resolved rs)"
  shows "distinct (map tool_name (eager_projection opts m rs assigned))"
proof -
  let ?rest = "filter (\<lambda>d. tool_name d \<notin> set assigned) (map snd m)"
  have one: "distinct (map tool_name ?rest)" by (rule distinct_map_filter [OF assms(1)])
  have three: "distinct (map tool_name (all_resolved (filter P rs)))" for P
    by (rule all_resolved_filter_distinct [OF assms(2)])
  have within: "tool_name ` set (all_resolved (filter P rs)) \<subseteq> set assigned" for P
    unfolding assms(3) by (rule image_mono [OF all_resolved_filter])
  have "tool_name ` set ?rest \<inter> set assigned = {}" by auto
  then have "set (map tool_name (all_resolved (filter P rs))) \<inter> set (map tool_name ?rest) = {}" for P
    using within [of P] unfolding set_map by blast
  with one three have both: "distinct (map tool_name (all_resolved (filter P rs) @ ?rest))" for P
    unfolding map_append distinct_append by blast
  show ?thesis
  proof (cases "includeUnassigned opts = Some False")
    case True
    show ?thesis unfolding eager_projection_alt if_P [OF True] append_Nil2 by (rule three)
  next
    case False
    show ?thesis unfolding eager_projection_alt if_not_P [OF False] by (rule both)
  qed
qed

lemma eager_projection_complete:
  assumes "includeUnassigned opts \<noteq> Some False" "distinct (map tool_name (map snd m))"
    "set (all_resolved rs) \<subseteq> set (map snd m)" "set assigned = tool_name ` set (all_resolved rs)"
  shows "set (map snd m) \<subseteq> set (eager_projection opts m rs assigned) \<union> set (all_resolved rs)"
proof
  fix d assume d: "d \<in> set (map snd m)"
  show "d \<in> set (eager_projection opts m rs assigned) \<union> set (all_resolved rs)"
  proof (cases "tool_name d \<in> set assigned")
    case True
    then obtain d' where "d' \<in> set (all_resolved rs)" "tool_name d' = tool_name d" unfolding assms(4) by (metis imageE)
    with d assms(2,3) show ?thesis unfolding distinct_map [of tool_name] by (metis UnI2 inj_onD subsetD)
  next
    case False
    have "d \<in> set (filter (\<lambda>d. tool_name d \<notin> set assigned) (map snd m))"
      unfolding set_filter using d False by blast
    then show ?thesis unfolding eager_projection_alt if_not_P [OF assms(1)] set_append by blast
  qed
qed

lemma boundedInteger_bound: "boundedInteger v f n = Inr b \<Longrightarrow> 1 \<le> b \<and> b \<le> 1024"
  by (simp add: boundedInteger_def Let_def not_less split: if_splits)

lemma created_plan:
  assumes "createDeferredToolDiscoveryPlan opts = Inr plan"
  obtains most total m rs assigned where
    "boundedInteger (maximumEagerTools opts) 16 ''maximumEagerTools'' = Inr most"
    "boundedInteger (maximumTotalTools opts) 256 ''maximumTotalTools'' = Inr total"
    "int (length (plan_tools opts)) \<le> total" "int (length (eager_projection opts m rs assigned)) \<le> most"
    "catalog_definitions [] (plan_tools opts) = Inr m"
    "resolve_namespaces m 0 [] [] (plan_definitions opts) = Inr (rs, assigned)"
    "plan = \<lparr>eagerTools = eager_projection opts m rs assigned, plan_namespaces = rs, toolCount = length m\<rparr>"
  using assms unfolding createDeferredToolDiscoveryPlan_def Let_def
  by (simp add: split_beta split: if_splits) (metis not_less prod.collapse)

lemma catalog_of_plan:
  assumes "catalog_definitions [] vs = Inr m"
  shows "map_result parsed_definition vs = Inr (map snd m) \<and> keyed_by_name m \<and> distinct (map tool_name (map snd m))"
proof -
  have "keyed_by_name ([] :: (string, ToolDefinition) jsmap)" by (simp add: keyed_by_name_def)
  from catalog_definitions_ok [OF assms this] have m: "map_result parsed_definition vs = Inr (map snd m)" "keyed_by_name m"
    by auto
  have names: "map tool_name (map snd m) = map fst m" using m(2) unfolding keyed_by_name_def by auto
  have "distinct (map tool_name (map snd m))"
    unfolding names using m(2) unfolding keyed_by_name_def by (rule conjunct1)
  with m show ?thesis by (intro conjI)
qed

lemma plan_facts:
  assumes "createDeferredToolDiscoveryPlan opts = Inr plan"
  shows "\<exists>ds. map_result parsed_definition (plan_tools opts) = Inr ds \<and> distinct (map tool_name ds) \<and>
    set (plan_exposes plan) \<subseteq> set ds \<and>
    (includeUnassigned opts \<noteq> Some False \<longrightarrow> set ds \<subseteq> set (plan_exposes plan)) \<and>
    distinct (map tool_name (eagerTools plan)) \<and>
    distinct (map tool_name (all_resolved (plan_namespaces plan))) \<and>
    map resolved_name (plan_namespaces plan) = map namespace_name (plan_definitions opts) \<and>
    distinct (map resolved_name (plan_namespaces plan)) \<and>
    toolCount plan = length (plan_tools opts) \<and> length (eagerTools plan) \<le> 1024 \<and> toolCount plan \<le> 1024"
proof -
  obtain most total m rs assigned where bounds:
      "boundedInteger (maximumEagerTools opts) 16 ''maximumEagerTools'' = Inr most"
      "boundedInteger (maximumTotalTools opts) 256 ''maximumTotalTools'' = Inr total"
      "int (length (plan_tools opts)) \<le> total" "int (length (eager_projection opts m rs assigned)) \<le> most"
    and m: "catalog_definitions [] (plan_tools opts) = Inr m"
    and resolved: "resolve_namespaces m 0 [] [] (plan_definitions opts) = Inr (rs, assigned)"
    and plan: "plan = \<lparr>eagerTools = eager_projection opts m rs assigned, plan_namespaces = rs, toolCount = length m\<rparr>"
    by (rule created_plan [OF assms])
  note catalog = catalog_of_plan [OF m]
  have "keyed_by_name m" using catalog by blast
  note r = resolve_namespaces_ok [OF resolved this]
  have inside: "set (all_resolved rs) \<subseteq> set (map snd m)" and assigned: "set assigned = tool_name ` set (all_resolved rs)"
    and once: "distinct (map tool_name (all_resolved rs))"
    and names: "map resolved_name rs = map namespace_name (plan_definitions opts)" "distinct (map resolved_name rs)"
    using r unfolding set_map list.set Un_empty_right by blast+
  have count: "length m = length (plan_tools opts)"
    using map_result_length [of parsed_definition "plan_tools opts" "map snd m"] catalog by simp
  have small: "length (eager_projection opts m rs assigned) \<le> 1024" "length m \<le> 1024"
    using bounds(3,4) boundedInteger_bound [OF bounds(1)] boundedInteger_bound [OF bounds(2)] count by linarith+
  have d: "distinct (map tool_name (map snd m))" using catalog by blast
  have sub: "set (plan_exposes plan) \<subseteq> set (map snd m)"
    unfolding plan plan_exposes_def set_append DeferredToolDiscoveryPlan.simps
    using eager_projection_subset [OF inside] inside by (rule Un_least)
  have whole: "includeUnassigned opts \<noteq> Some False \<longrightarrow> set (map snd m) \<subseteq> set (plan_exposes plan)"
    unfolding plan plan_exposes_def set_append DeferredToolDiscoveryPlan.simps
    using eager_projection_complete [OF _ d inside assigned] by (rule impI)
  show ?thesis
    by (intro exI [of _ "map snd m"] conjI sub whole d catalog [THEN conjunct1])
       (use eager_projection_distinct [OF d once assigned] once names count small in \<open>simp_all add: plan\<close>)
qed

section \<open>A plan\<close>

definition demo_tool :: "string \<Rightarrow> json" where
  "demo_tool n = JObj [(''name'', JStr n), (''description'', JStr ''d''), (''input_schema'', JObj [(''type'', JStr ''object'')])]"

definition demo_plan_options :: DeferredPlanOptions where
  "demo_plan_options = \<lparr>plan_tools = [demo_tool ''read'', demo_tool ''send'', demo_tool ''sum''],
     plan_definitions = [\<lparr>namespace_name = ''mail'', namespace_description = '' Mail '', namespace_toolNames = [''send'', ''read''],
        namespace_deferred = None\<rparr>],
     includeUnassigned = None, maximumEagerTools = None, maximumTotalTools = None\<rparr>"

abbreviation demo_read_tool :: "string \<Rightarrow> ToolDefinition" where
  "demo_read_tool n \<equiv> \<lparr>tool_name = n, tool_description = ''d'', input_schema = JObj [(''type'', JStr ''object'')]\<rparr>"

lemma demo_schema_read: "validateJsonSchemaNode (JObj [(''type'', JStr ''object'')]) p True = Inr ()"
  by (simp add: validateJsonSchemaNode.simps [of "JObj kvs" for kvs] schema_type_ok_def schema_maps_ok_def schema_required_ok_def
    schema_values_ok_def schema_lists_ok_def schema_enum_ok_def schema_numbers_ok_def enumValue_def JSON_SCHEMA_TYPES_def guard_def)

lemma demo_schema_clean: "validateCredentialsAbsent (JObj [(''type'', JStr ''object'')]) p = Inr ()"
proof -
  have "normalizeFieldName ''type'' \<notin> set WIRE_CREDENTIAL_FIELD_NAMES" "\<not> citation_has_credential ''object''" by code_simp+
  then show ?thesis
    by (simp add: validateCredentialsAbsent_def wire_validateJson_def wire_visit.simps PUBLIC_JSON_LIMITS_def Let_def)
qed

lemma demo_tool_read:
  "n \<noteq> [] \<Longrightarrow> length n \<le> 256 \<Longrightarrow> parsed_definition (demo_tool n) = Inr (demo_read_tool n)"
  by (simp add: parsed_definition_def parseToolDefinition_def validateToolDefinition_def demo_tool_def demo_schema_read demo_schema_clean
     requiredKeys_def allowedKeys_def stringValue_def wireIdentifierLength_def wireTextLength_def event_record_def guard_def)

lemma demo_plan:
  "createDeferredToolDiscoveryPlan demo_plan_options =
     Inr \<lparr>eagerTools = [demo_read_tool ''sum''],
       plan_namespaces = [\<lparr>resolved_name = ''mail'', resolved_description = ''Mail'', resolved_deferred = True,
         resolved_tools = [demo_read_tool ''send'', demo_read_tool ''read'']\<rparr>], toolCount = 3\<rparr>"
proof -
  have "is_namespace_name ''mail''" "trim '' Mail '' = ''Mail''" by code_simp+
  then show ?thesis
    by (simp add: createDeferredToolDiscoveryPlan_def demo_plan_options_def boundedInteger_def safe_int_def
      max_safe_integer_def demo_tool_read eager_projection_def)
qed



end
