(* ===== verification/State.thy ===== *)
theory State
  imports Events
begin

text \<open>
  The immutable projection of a conversation's event log (src/conversation/state.ts).
  Arrays are lists in first-seen order; a field that may be null or absent is an option.
\<close>

record ConversationEventAttribution =
  attributed_actor :: ConversationEventActor
  attributed_source :: ConversationEventSource

record ConversationMessageRecord =
  message_id :: string
  message_turn_id :: "string option"
  role :: "ConversationMessageRole option"
  content :: "ConversationMessageContentPart list"
  message_attachments :: "ConversationAttachmentReference list"
  created_at :: "string option"
  message_attribution :: "ConversationEventAttribution option"

record ConversationAttachmentRecord =
  attached_message_id :: string
  attached_attachment_id :: string
  reference :: ConversationAttachmentReference
  referenced_at :: string
  attached_attribution :: ConversationEventAttribution

text \<open>\<open>ConversationTurnStateStatus\<close>: the durable statuses and the three terminal ones.\<close>

datatype ConversationTurnStateStatus =
    Active ConversationTurnStatus
  | TurnIsCompleted
  | TurnIsCancelled
  | TurnIsFailed

datatype ConversationTurnCancellationStatus =
  CancellationRequested | CancellationUnsupported | CancellationDone

datatype RetryRecordKind =
    AttemptStarted ConversationTurnAttemptOperation
  | RetryScheduled ConversationRetryReasonCategory int
  | RetryExhausted ConversationRetryReasonCategory ConversationRetryExhaustionReason

record ConversationTurnRetryRecord =
  retry_kind :: RetryRecordKind
  attempt :: int
  retry_occurred_at :: string
  retry_attribution :: ConversationEventAttribution

record ConversationTurnRecord =
  turn_id :: string
  continuation_of_turn_id :: "string option"
  turn_status :: ConversationTurnStateStatus
  input_message_ids :: "string list"
  output_message_ids :: "string list"
  outcome :: "ConversationTurnCompletionOutcome option"
  cancellation_reason :: "ConversationTurnCancellationReason option"
  cancellation_status :: "ConversationTurnCancellationStatus option"
  cancellation_requested_reason :: "ConversationTurnCancellationReason option"
  remote_may_still_be_running :: bool
  turn_error :: "ConversationTurnError option"
  retry_history :: "ConversationTurnRetryRecord list"
  started_at :: "string option"
  terminal_at :: "string option"
  turn_attribution :: "ConversationEventAttribution option"

record ConversationToolResultRecord =
  result_content :: "ConversationToolResultContentPart list"
  is_error :: bool
  citation_records :: "CitationRecordSet option"
  recorded_at :: string
  result_attribution :: ConversationEventAttribution

record ConversationToolCallRecord =
  tool_call_id :: string
  call_turn_id :: string
  tool_call_name :: "string option"
  arguments :: "json option"
  requested_at :: "string option"
  discovered_at :: "string option"
  call_started_at :: "string option"
  approval_required_at :: "string option"
  call_attribution :: "ConversationEventAttribution option"
  call_result :: "ConversationToolResultRecord option"

record ConversationApprovalProposalRecord =
  proposal_id :: string
  group_id :: "string option"
  proposal_turn_id :: string
  proposal_tool_call_id :: string
  tool_name :: string
  reviewed_arguments :: ConversationApprovalReviewedArguments
  proposal_status :: ConversationApprovalProposalStatus
  proposal_version :: int
  expires_at :: string
  proposal_created_at :: string
  updated_at :: string
  created_attribution :: ConversationEventAttribution
  latest_attribution :: ConversationEventAttribution
  decision_at :: "string option"
  decision_attribution :: "ConversationEventAttribution option"
  decision_reason :: "string option"
  failure_reason :: "string option"

record ConversationToolLoopBudgetExhaustion =
  exhausted_turn_id :: string
  exhausted_budget :: ToolLoopBudget
  exhausted_limit :: int
  exhausted_at :: string
  exhausted_attribution :: ConversationEventAttribution

record ConversationUsageReceiptLink =
  usage_receipt_id :: string
  receipt_turn_id :: string
  linked_at :: string
  link_attribution :: ConversationEventAttribution

text \<open>The replay errors: the offending event, the expectation, what was received.\<close>

datatype ConversationReplayError =
    RevisionGapError string string int int
  | StaleRevisionError string string int int
  | IdentityMismatchError string string string

record ConversationState =
  conversation_id :: "string option"
  revision :: "int option"
  last_event_id :: "string option"
  processed_event_ids :: "string list"
  processed_mutation_ids :: "string list"
  messages :: "ConversationMessageRecord list"
  attachments :: "ConversationAttachmentRecord list"
  citation_sources :: "CitationSource list"
  state_citations :: "Citation list"
  turns :: "ConversationTurnRecord list"
  active_turn_id :: "string option"
  tool_calls :: "ConversationToolCallRecord list"
  approval_proposals :: "ConversationApprovalProposalRecord list"
  tool_loop_budget_exhaustions :: "ConversationToolLoopBudgetExhaustion list"
  usage_receipt_links :: "ConversationUsageReceiptLink list"
  state_metadata :: json
  title :: "string option"
  replay_error :: "ConversationReplayError option"

definition createInitialConversationState :: "string option \<Rightarrow> ConversationState" where
  "createInitialConversationState conversationId =
     \<lparr>conversation_id = conversationId, revision = None, last_event_id = None,
      processed_event_ids = [], processed_mutation_ids = [], messages = [], attachments = [],
      citation_sources = [], state_citations = [], turns = [], active_turn_id = None,
      tool_calls = [], approval_proposals = [], tool_loop_budget_exhaustions = [],
      usage_receipt_links = [], state_metadata = JObj [], title = None, replay_error = None\<rparr>"

end
