(* ===== verification/Reducer.thy ===== *)
theory Reducer
  imports State
begin

text \<open>
  The reducer (src/conversation/reducer.ts): one durable event folded into the
  projection. Every case of the source's switch is a definition here, over the state
  whose envelope has been accepted, the event's time and its attribution. Normalizing
  citation records may throw, so the cases that do it return a fault or a state.
  Freezing and cloning immutable values leave the model's values unchanged.
\<close>

section \<open>Helpers\<close>

definition cloneAttribution ::
    "ConversationEventActor \<Rightarrow> ConversationEventSource \<Rightarrow> ConversationEventAttribution" where
  "cloneAttribution a s =
     \<lparr>attributed_actor = \<lparr>actor_type = actor_type a, actor_id = actor_id a\<rparr>,
      attributed_source = s\<rparr>"

definition acceptEnvelope :: "ConversationState \<Rightarrow> ConversationEvent \<Rightarrow> ConversationState" where
  "acceptEnvelope st ev = st\<lparr>
     conversation_id := (case conversation_id st of
         Some c \<Rightarrow> Some c | None \<Rightarrow> Some (event_conversation_id ev)),
     revision := Some (event_revision ev),
     last_event_id := Some (event_id ev),
     processed_event_ids := processed_event_ids st @ [event_id ev],
     processed_mutation_ids := (case mutation_id ev of
         None \<Rightarrow> processed_mutation_ids st | Some m \<Rightarrow> processed_mutation_ids st @ [m]),
     replay_error := None\<rparr>"

definition withReplayError :: "ConversationState \<Rightarrow> ConversationReplayError \<Rightarrow> ConversationState" where
  "withReplayError st err =
     (if replay_error st = Some err then st else st\<lparr>replay_error := Some err\<rparr>)"

definition updateMessages ::
    "ConversationState \<Rightarrow> nat \<Rightarrow> ConversationMessageRecord \<Rightarrow> ConversationState" where
  "updateMessages st i m = st\<lparr>messages := (messages st)[i := m]\<rparr>"

definition updateToolCall ::
    "ConversationState \<Rightarrow> nat \<Rightarrow> ConversationToolCallRecord \<Rightarrow> ConversationState" where
  "updateToolCall st i c = st\<lparr>tool_calls := (tool_calls st)[i := c]\<rparr>"

definition updateApprovalProposal ::
    "ConversationState \<Rightarrow> nat \<Rightarrow> ConversationApprovalProposalRecord \<Rightarrow> ConversationState" where
  "updateApprovalProposal st i p =
     st\<lparr>approval_proposals := (approval_proposals st)[i := p]\<rparr>"

definition find_message :: "ConversationState \<Rightarrow> string \<Rightarrow> nat option" where
  "find_message st mid = find_index (\<lambda>m. message_id m = mid) (messages st)"

definition find_tool_call :: "ConversationState \<Rightarrow> string \<Rightarrow> nat option" where
  "find_tool_call st tcid = find_index (\<lambda>c. tool_call_id c = tcid) (tool_calls st)"

definition find_proposal :: "ConversationState \<Rightarrow> string \<Rightarrow> nat option" where
  "find_proposal st pid = find_index (\<lambda>p. proposal_id p = pid) (approval_proposals st)"

definition findTurn :: "ConversationState \<Rightarrow> string \<Rightarrow> nat option" where
  "findTurn st tid = find_index (\<lambda>t. turn_id t = tid) (turns st)"

definition isTerminal :: "ConversationTurnRecord \<Rightarrow> bool" where
  "isTerminal t \<longleftrightarrow> turn_status t \<in> {TurnIsCompleted, TurnIsCancelled, TurnIsFailed}"

definition isTerminalTurn :: "ConversationState \<Rightarrow> string \<Rightarrow> bool" where
  "isTerminalTurn st tid =
     (case findTurn st tid of None \<Rightarrow> False | Some i \<Rightarrow> isTerminal (turns st ! i))"

section \<open>Messages\<close>

fun targets_message :: "string \<Rightarrow> CitationAttachmentTarget \<Rightarrow> bool" where
  "targets_message mid (AssistantMessageCitationTarget m) = (m = mid)"
| "targets_message mid (ToolResultCitationTarget t) = False"

definition removeCitationsForAssistantMessage ::
    "ConversationState \<Rightarrow> string \<Rightarrow> ConversationState" where
  "removeCitationsForAssistantMessage st mid =
     (let kept = filter (\<lambda>c. \<not> targets_message mid (citation_target c)) (state_citations st)
      in if length kept = length (state_citations st) then st else st\<lparr>state_citations := kept\<rparr>)"

definition appendMessageText ::
    "ConversationMessageContentPart list \<Rightarrow> string \<Rightarrow> ConversationMessageContentPart list" where
  "appendMessageText c text =
     (if c = [] then [MessageText text]
      else (case last c of MessageText t \<Rightarrow> c[length c - 1 := MessageText (t @ text)]))"

definition messageCreated ::
    "ConversationState \<Rightarrow> string \<Rightarrow> ConversationEventAttribution \<Rightarrow> string \<Rightarrow>
     ConversationMessageRole \<Rightarrow> ConversationMessageContentPart list \<Rightarrow> ConversationState" where
  "messageCreated st time attribution mid r c =
     (case find_message st mid of
        Some i \<Rightarrow>
          (let current = messages st ! i in
           if role current \<noteq> None then st
           else (let updated = updateMessages st i (current\<lparr>role := Some r, content := c,
                     created_at := Some time, message_attribution := Some attribution\<rparr>)
                 in if r = AssistantRole then updated
                    else removeCitationsForAssistantMessage updated mid))
      | None \<Rightarrow> st\<lparr>messages := messages st @
          [\<lparr>message_id = mid, message_turn_id = None, role = Some r, content = c,
            message_attachments = [], created_at = Some time,
            message_attribution = Some attribution\<rparr>]\<rparr>)"

definition messageTextAppended ::
    "ConversationState \<Rightarrow> string \<Rightarrow> ConversationEventAttribution \<Rightarrow> string \<Rightarrow> string \<Rightarrow> string
     \<Rightarrow> ConversationState" where
  "messageTextAppended st time attribution tid mid text =
     (case find_message st mid of
        Some i \<Rightarrow>
          (let current = messages st ! i in
           if (role current \<noteq> None \<and> role current \<noteq> Some AssistantRole) \<or>
              (role current = Some AssistantRole \<and> message_turn_id current \<noteq> Some tid)
           then st
           else updateMessages st i (current\<lparr>message_turn_id := Some tid,
                  role := Some AssistantRole,
                  content := appendMessageText (content current) text,
                  created_at := (case created_at current of Some t \<Rightarrow> Some t | None \<Rightarrow> Some time),
                  message_attribution := (case message_attribution current of
                      Some a \<Rightarrow> Some a | None \<Rightarrow> Some attribution)\<rparr>))
      | None \<Rightarrow> st\<lparr>messages := messages st @
          [\<lparr>message_id = mid, message_turn_id = Some tid, role = Some AssistantRole,
            content = [MessageText text], message_attachments = [], created_at = Some time,
            message_attribution = Some attribution\<rparr>]\<rparr>)"

definition placeholder_message ::
    "string \<Rightarrow> ConversationAttachmentReference list \<Rightarrow> ConversationMessageRecord" where
  "placeholder_message mid refs =
     \<lparr>message_id = mid, message_turn_id = None, role = None, content = [],
      message_attachments = refs, created_at = None, message_attribution = None\<rparr>"

definition messageAttachmentReferenced ::
    "ConversationState \<Rightarrow> string \<Rightarrow> ConversationEventAttribution \<Rightarrow> string \<Rightarrow>
     ConversationAttachmentReference \<Rightarrow> ConversationState" where
  "messageAttachmentReferenced st time attribution mid ref =
     (let alreadyLinked = list_ex (\<lambda>a. attached_message_id a = mid \<and>
              attached_attachment_id a = attachment_id ref) (attachments st);
          atts = (if alreadyLinked then attachments st else attachments st @
              [\<lparr>attached_message_id = mid, attached_attachment_id = attachment_id ref,
                reference = ref, referenced_at = time, attached_attribution = attribution\<rparr>])
      in case find_message st mid of
           Some i \<Rightarrow>
             (let message = messages st ! i in
              if list_ex (\<lambda>a. attachment_id a = attachment_id ref) (message_attachments message)
              then st\<lparr>attachments := atts\<rparr>
              else (updateMessages st i (message\<lparr>message_attachments :=
                      message_attachments message @ [ref]\<rparr>))\<lparr>attachments := atts\<rparr>)
         | None \<Rightarrow> st\<lparr>attachments := atts,
                      messages := messages st @ [placeholder_message mid [ref]]\<rparr>)"

section \<open>Citations\<close>

text \<open>
  The two loops of \<open>mergeCitationRecords\<close>: a record with a known identity must be the
  record already kept, a new one is pushed.
\<close>

fun merge_by_identity :: "('a \<Rightarrow> string) \<Rightarrow> 'a list \<Rightarrow> 'a list \<Rightarrow> 'a list option" where
  "merge_by_identity identity kept [] = Some kept"
| "merge_by_identity identity kept (r # rs) =
     (case List.find (\<lambda>c. identity c = identity r) kept of
        Some existing \<Rightarrow>
          if existing \<noteq> r then None else merge_by_identity identity kept rs
      | None \<Rightarrow> merge_by_identity identity (kept @ [r]) rs)"

definition mergeCitationRecords ::
    "ConversationState \<Rightarrow> CitationRecordSet \<Rightarrow> ConversationState option" where
  "mergeCitationRecords st records =
     (case merge_by_identity source_id (citation_sources st) (sources records) of
        None \<Rightarrow> None
      | Some ss \<Rightarrow>
          (case merge_by_identity citation_id (state_citations st) (citations records) of
             None \<Rightarrow> None
           | Some cs \<Rightarrow> Some (st\<lparr>citation_sources := ss, state_citations := cs\<rparr>)))"

definition placeholder_tool_call :: "string \<Rightarrow> string \<Rightarrow> ConversationToolCallRecord" where
  "placeholder_tool_call tcid tid =
     \<lparr>tool_call_id = tcid, call_turn_id = tid, tool_call_name = None, arguments = None,
      requested_at = None, discovered_at = None, call_started_at = None,
      approval_required_at = None, call_attribution = None, call_result = None\<rparr>"

fun citationTargetLinked ::
    "ConversationState \<Rightarrow> ConversationState \<Rightarrow> ConversationCitationTarget \<Rightarrow> ConversationState" where
  "citationTargetLinked accepted merged (AssistantMessageTarget mid) =
     (case find_message accepted mid of
        Some i \<Rightarrow>
          if role (messages accepted ! i) \<noteq> None \<and> role (messages accepted ! i) \<noteq> Some AssistantRole
          then accepted else merged
      | None \<Rightarrow> merged\<lparr>messages := messages merged @ [placeholder_message mid []]\<rparr>)"
| "citationTargetLinked accepted merged (ToolResultTarget tid tcid) =
     (case find_tool_call accepted tcid of
        Some i \<Rightarrow> if call_turn_id (tool_calls accepted ! i) \<noteq> tid then accepted else merged
      | None \<Rightarrow> merged\<lparr>tool_calls := tool_calls merged @ [placeholder_tool_call tcid tid]\<rparr>)"

definition citationRecordsLinked ::
    "host \<Rightarrow> ConversationState \<Rightarrow> ConversationCitationTarget \<Rightarrow> CitationSource list \<Rightarrow>
     Citation list \<Rightarrow> fault + ConversationState" where
  "citationRecordsLinked H st target ss cs =
     bind_result (normalizeCitationRecords H (records_json \<lparr>sources = ss, citations = cs\<rparr>))
       (\<lambda>records. case mergeCitationRecords st records of
            None \<Rightarrow> Inr st
          | Some merged \<Rightarrow> Inr (citationTargetLinked st merged target))"

section \<open>Turns\<close>

definition emptyTurn ::
    "string \<Rightarrow> ConversationTurnStateStatus \<Rightarrow> ConversationEventAttribution \<Rightarrow> ConversationTurnRecord" where
  "emptyTurn tid status attribution =
     \<lparr>turn_id = tid, continuation_of_turn_id = None, turn_status = status,
      input_message_ids = [], output_message_ids = [], outcome = None,
      cancellation_reason = None, cancellation_status = None,
      cancellation_requested_reason = None, remote_may_still_be_running = True,
      turn_error = None, retry_history = [], started_at = None, terminal_at = None,
      turn_attribution = Some attribution\<rparr>"

definition appendTurn ::
    "ConversationState \<Rightarrow> ConversationTurnRecord \<Rightarrow> string option \<Rightarrow> ConversationState" where
  "appendTurn st t act = st\<lparr>turns := turns st @ [t], active_turn_id := act\<rparr>"

definition updateTurn ::
    "ConversationState \<Rightarrow> nat \<Rightarrow> ConversationTurnRecord \<Rightarrow> string option \<Rightarrow> ConversationState" where
  "updateTurn st i t act = st\<lparr>turns := (turns st)[i := t], active_turn_id := act\<rparr>"

definition turnStarted ::
    "ConversationState \<Rightarrow> string \<Rightarrow> ConversationEventAttribution \<Rightarrow> string \<Rightarrow> string list \<Rightarrow>
     string option \<Rightarrow> ConversationState" where
  "turnStarted st time attribution tid inputs continuation =
     (case findTurn st tid of
        Some i \<Rightarrow>
          (let turn = turns st ! i in
           if isTerminal turn \<or> started_at turn \<noteq> None then st
           else updateTurn st i (turn\<lparr>input_message_ids := inputs,
                  continuation_of_turn_id := continuation, started_at := Some time,
                  turn_attribution := Some attribution\<rparr>) (Some tid))
      | None \<Rightarrow> appendTurn st
          \<lparr>turn_id = tid, continuation_of_turn_id = continuation,
           turn_status = Active Queued, input_message_ids = inputs,
           output_message_ids = [], outcome = None, cancellation_reason = None,
           cancellation_status = None, cancellation_requested_reason = None,
           remote_may_still_be_running = True, turn_error = None, retry_history = [],
           started_at = Some time, terminal_at = None,
           turn_attribution = Some attribution\<rparr> (Some tid))"

definition turnStatusChanged ::
    "ConversationState \<Rightarrow> ConversationEventAttribution \<Rightarrow> string \<Rightarrow> ConversationTurnStatus \<Rightarrow>
     ConversationState" where
  "turnStatusChanged st attribution tid status =
     (case findTurn st tid of
        Some i \<Rightarrow>
          (let turn = turns st ! i in
           if isTerminal turn then st
           else updateTurn st i (turn\<lparr>turn_status := Active status\<rparr>) (Some tid))
      | None \<Rightarrow> appendTurn st (emptyTurn tid (Active status) attribution) (Some tid))"

definition appendTurnRetryRecord ::
    "ConversationState \<Rightarrow> string \<Rightarrow> ConversationTurnRetryRecord \<Rightarrow> ConversationState" where
  "appendTurnRetryRecord st tid rec =
     (case findTurn st tid of
        Some i \<Rightarrow>
          (let turn = turns st ! i in
           updateTurn st i (turn\<lparr>retry_history := retry_history turn @ [rec]\<rparr>)
             (active_turn_id st))
      | None \<Rightarrow> appendTurn st
          ((emptyTurn tid (Active Queued) (retry_attribution rec))\<lparr>retry_history := [rec]\<rparr>)
          (Some tid))"

definition updateTurnCancellation ::
    "ConversationState \<Rightarrow> string \<Rightarrow> ConversationTurnCancellationStatus \<Rightarrow>
     ConversationTurnCancellationReason \<Rightarrow> ConversationEventAttribution \<Rightarrow> ConversationState" where
  "updateTurnCancellation st tid status reason attribution =
     (case findTurn st tid of
        Some i \<Rightarrow>
          (let turn = turns st ! i in
           if isTerminal turn then st
           else updateTurn st i (turn\<lparr>cancellation_status := Some status,
                  cancellation_requested_reason := Some reason,
                  remote_may_still_be_running := True\<rparr>) (active_turn_id st))
      | None \<Rightarrow> appendTurn st
          ((emptyTurn tid (Active Queued) attribution)\<lparr>cancellation_status := Some status,
             cancellation_requested_reason := Some reason\<rparr>) (Some tid))"

text \<open>
  The terminal fields a terminal event sets. The cancellation status and requested reason
  are set by \<open>turn.cancelled\<close> only (None: the fields are absent from the literal).
\<close>

record TurnTerminal =
  terminal_status :: ConversationTurnStateStatus
  terminal_output :: "string list"
  terminal_outcome :: "ConversationTurnCompletionOutcome option"
  terminal_reason :: "ConversationTurnCancellationReason option"
  terminal_cancellation ::
    "(ConversationTurnCancellationStatus \<times> ConversationTurnCancellationReason) option"
  terminal_remote :: bool
  terminal_error :: "ConversationTurnError option"

definition terminateTurn ::
    "ConversationState \<Rightarrow> string \<Rightarrow> string \<Rightarrow> ConversationEventAttribution \<Rightarrow> TurnTerminal \<Rightarrow>
     ConversationState" where
  "terminateTurn st tid time attribution terminal =
     (case findTurn st tid of
        Some i \<Rightarrow>
          (let current = turns st ! i in
           if isTerminal current then st
           else updateTurn st i (current\<lparr>
               turn_status := terminal_status terminal,
               output_message_ids := terminal_output terminal,
               outcome := terminal_outcome terminal,
               cancellation_reason := terminal_reason terminal,
               cancellation_status := (case terminal_cancellation terminal of
                   None \<Rightarrow> cancellation_status current | Some (s, r) \<Rightarrow> Some s),
               cancellation_requested_reason := (case terminal_cancellation terminal of
                   None \<Rightarrow> cancellation_requested_reason current | Some (s, r) \<Rightarrow> Some r),
               remote_may_still_be_running := terminal_remote terminal,
               turn_error := terminal_error terminal,
               terminal_at := Some time\<rparr>)
             (if active_turn_id st = Some tid then None else active_turn_id st))
      | None \<Rightarrow> appendTurn st
          \<lparr>turn_id = tid, continuation_of_turn_id = None,
           turn_status = terminal_status terminal, input_message_ids = [],
           output_message_ids = terminal_output terminal, outcome = terminal_outcome terminal,
           cancellation_reason = terminal_reason terminal,
           cancellation_status = map_option fst (terminal_cancellation terminal),
           cancellation_requested_reason = map_option snd (terminal_cancellation terminal),
           remote_may_still_be_running = terminal_remote terminal,
           turn_error = terminal_error terminal, retry_history = [], started_at = None,
           terminal_at = Some time, turn_attribution = Some attribution\<rparr> (active_turn_id st))"

definition completed_terminal :: "ConversationTurnCompletionOutcome \<Rightarrow> string list \<Rightarrow> TurnTerminal" where
  "completed_terminal oc outputs =
     \<lparr>terminal_status = TurnIsCompleted, terminal_output = outputs, terminal_outcome = Some oc,
      terminal_reason = None, terminal_cancellation = None, terminal_remote = False,
      terminal_error = None\<rparr>"

definition cancelled_terminal :: "ConversationTurnCancellationReason \<Rightarrow> TurnTerminal" where
  "cancelled_terminal reason =
     \<lparr>terminal_status = TurnIsCancelled, terminal_output = [], terminal_outcome = None,
      terminal_reason = Some reason, terminal_cancellation = Some (CancellationDone, reason),
      terminal_remote = False, terminal_error = None\<rparr>"

definition failed_terminal :: "ConversationTurnError \<Rightarrow> TurnTerminal" where
  "failed_terminal err =
     \<lparr>terminal_status = TurnIsFailed, terminal_output = [], terminal_outcome = None,
      terminal_reason = None, terminal_cancellation = None, terminal_remote = False,
      terminal_error = Some err\<rparr>"

section \<open>Tool calls\<close>

definition toolCallRequested ::
    "ConversationState \<Rightarrow> string \<Rightarrow> ConversationEventAttribution \<Rightarrow> string \<Rightarrow> string \<Rightarrow> string \<Rightarrow>
     json \<Rightarrow> ConversationState" where
  "toolCallRequested st time attribution tid tcid name args =
     (if isTerminalTurn st tid then st
      else case find_tool_call st tcid of
        Some i \<Rightarrow>
          (let current = tool_calls st ! i in
           if tool_call_name current \<noteq> None \<or> call_turn_id current \<noteq> tid then st
           else updateToolCall st i (current\<lparr>tool_call_name := Some name,
                  arguments := Some args, requested_at := Some time,
                  call_attribution := Some attribution\<rparr>))
      | None \<Rightarrow> st\<lparr>tool_calls := tool_calls st @
          [\<lparr>tool_call_id = tcid, call_turn_id = tid, tool_call_name = Some name,
            arguments = Some args, requested_at = Some time, discovered_at = None,
            call_started_at = None, approval_required_at = None,
            call_attribution = Some attribution, call_result = None\<rparr>]\<rparr>)"

text \<open>The three progress marks share one case of the switch; \<open>field\<close> is the one they set.\<close>

datatype ToolCallMark = DiscoveredMark | StartedMark | ApprovalRequiredMark

fun mark_value :: "ToolCallMark \<Rightarrow> ConversationToolCallRecord \<Rightarrow> string option" where
  "mark_value DiscoveredMark c = discovered_at c"
| "mark_value StartedMark c = call_started_at c"
| "mark_value ApprovalRequiredMark c = approval_required_at c"

fun set_mark :: "ToolCallMark \<Rightarrow> string \<Rightarrow> ConversationToolCallRecord \<Rightarrow> ConversationToolCallRecord" where
  "set_mark DiscoveredMark time c = c\<lparr>discovered_at := Some time\<rparr>"
| "set_mark StartedMark time c = c\<lparr>call_started_at := Some time\<rparr>"
| "set_mark ApprovalRequiredMark time c = c\<lparr>approval_required_at := Some time\<rparr>"

definition toolCallMarked ::
    "ConversationState \<Rightarrow> string \<Rightarrow> ToolCallMark \<Rightarrow> string \<Rightarrow> string \<Rightarrow> ConversationState" where
  "toolCallMarked st time field tid tcid =
     (case find_tool_call st tcid of
        Some i \<Rightarrow>
          (let current = tool_calls st ! i in
           if call_turn_id current \<noteq> tid \<or> mark_value field current \<noteq> None then st
           else updateToolCall st i (set_mark field time current))
      | None \<Rightarrow> st\<lparr>tool_calls := tool_calls st @
                    [set_mark field time (placeholder_tool_call tcid tid)]\<rparr>)"

definition toolCallResultRecorded ::
    "host \<Rightarrow> ConversationState \<Rightarrow> string \<Rightarrow> ConversationEventAttribution \<Rightarrow> string \<Rightarrow> string \<Rightarrow>
     ConversationToolResultContentPart list \<Rightarrow> bool \<Rightarrow> CitationRecordSet option \<Rightarrow>
     fault + ConversationState" where
  "toolCallResultRecorded H st time attribution tid tcid parts err records =
     bind_result (case records of
         None \<Rightarrow> Inr None
       | Some r \<Rightarrow> bind_result (normalizeCitationRecords H (records_json r)) (\<lambda>n. Inr (Some n)))
       (\<lambda>normalized.
         let result = \<lparr>result_content = parts, is_error = err, citation_records = normalized,
                       recorded_at = time, result_attribution = attribution\<rparr>
         in case find_tool_call st tcid of
              Some i \<Rightarrow>
                (let current = tool_calls st ! i in
                 if call_result current \<noteq> None \<or> call_turn_id current \<noteq> tid then Inr st
                 else Inr (updateToolCall st i (current\<lparr>call_result := Some result\<rparr>)))
            | None \<Rightarrow> Inr (st\<lparr>tool_calls := tool_calls st @
                [(placeholder_tool_call tcid tid)\<lparr>call_result := Some result\<rparr>]\<rparr>))"

section \<open>Approval proposals\<close>

definition approvalProposalCreated ::
    "ConversationState \<Rightarrow> string \<Rightarrow> ConversationEventAttribution \<Rightarrow>
     ApprovalProposalCreatedPayload \<Rightarrow> ConversationState" where
  "approvalProposalCreated st time attribution p =
     (if isTerminalTurn st (created_turn_id p) \<or>
         find_proposal st (created_proposal_id p) \<noteq> None then st
      else case find_tool_call st (created_tool_call_id p) of
        None \<Rightarrow> st
      | Some i \<Rightarrow>
          (let toolCall = tool_calls st ! i in
           if call_turn_id toolCall \<noteq> created_turn_id p \<or>
              tool_call_name toolCall \<noteq> Some (created_tool_name p) then st
           else
             (let proposal =
                \<lparr>proposal_id = created_proposal_id p, group_id = created_group_id p,
                 proposal_turn_id = created_turn_id p,
                 proposal_tool_call_id = created_tool_call_id p,
                 tool_name = created_tool_name p,
                 reviewed_arguments = created_reviewed_arguments p,
                 proposal_status = Pending, proposal_version = 1,
                 expires_at = created_expires_at p, proposal_created_at = time,
                 updated_at = time, created_attribution = attribution,
                 latest_attribution = attribution, decision_at = None,
                 decision_attribution = None, decision_reason = None,
                 failure_reason = None\<rparr>;
                calls = (if approval_required_at toolCall = None
                  then (tool_calls st)[i := toolCall\<lparr>approval_required_at := Some time\<rparr>]
                  else tool_calls st)
              in st\<lparr>tool_calls := calls,
                    approval_proposals := approval_proposals st @ [proposal]\<rparr>)))"

text \<open>The record a permitted status change writes.\<close>

definition proposal_step ::
    "string \<Rightarrow> ConversationEventAttribution \<Rightarrow> int \<Rightarrow> ApprovalProposalStatusChange \<Rightarrow>
     ConversationApprovalProposalRecord \<Rightarrow> ConversationApprovalProposalRecord" where
  "proposal_step time a version change current =
     (let status = change_status change in current\<lparr>
        proposal_status := status, proposal_version := version, updated_at := time,
        latest_attribution := a,
        decision_at := (if is_decision status then Some time else decision_at current),
        decision_attribution := (if is_decision status then Some a
                                 else decision_attribution current),
        decision_reason := (if is_decision status then change_decision_reason change
                            else decision_reason current),
        failure_reason := (if status = Failed then change_failure_reason change
                           else if status = Executing then None
                           else failure_reason current)\<rparr>)"

definition approvalProposalStatusChanged ::
    "ConversationState \<Rightarrow> string \<Rightarrow> ConversationEventAttribution \<Rightarrow> string \<Rightarrow> int \<Rightarrow>
     ApprovalProposalStatusChange \<Rightarrow> ConversationState" where
  "approvalProposalStatusChanged st time attribution pid version change =
     (case find_proposal st pid of
        None \<Rightarrow> st
      | Some i \<Rightarrow>
          (let current = approval_proposals st ! i; status = change_status change in
           if version \<noteq> proposal_version current + 1 \<or>
              \<not> isLegalConversationApprovalProposalTransition (proposal_status current) status
           then st
           else (let occurredAt = Date_parse time; expiresAt = Date_parse (expires_at current) in
             if (status = Expired \<and> time_less occurredAt expiresAt) \<or>
                (status \<in> {Confirmed, Executing} \<and> time_le expiresAt occurredAt)
             then st
             else updateApprovalProposal st i
                    (proposal_step time attribution version change current))))"

section \<open>The event\<close>

fun reducePayload ::
    "host \<Rightarrow> ConversationState \<Rightarrow> string \<Rightarrow> ConversationEventAttribution \<Rightarrow>
     ConversationEventPayload \<Rightarrow> fault + ConversationState" where
  "reducePayload H st time a (MessageCreated mid r c) = Inr (messageCreated st time a mid r c)"
| "reducePayload H st time a (MessageTextAppended tid mid text) =
     Inr (messageTextAppended st time a tid mid text)"
| "reducePayload H st time a (MessageAttachmentReferenced mid ref) =
     Inr (messageAttachmentReferenced st time a mid ref)"
| "reducePayload H st time a (CitationRecordsLinked target ss cs) =
     citationRecordsLinked H st target ss cs"
| "reducePayload H st time a (TurnStarted tid inputs continuation) =
     Inr (turnStarted st time a tid inputs continuation)"
| "reducePayload H st time a (TurnStatusChanged tid status) =
     Inr (turnStatusChanged st a tid status)"
| "reducePayload H st time a (TurnAttemptStarted tid n op) =
     Inr (appendTurnRetryRecord st tid \<lparr>retry_kind = AttemptStarted op, attempt = n,
            retry_occurred_at = time, retry_attribution = a\<rparr>)"
| "reducePayload H st time a (TurnRetryScheduled tid n category delay) =
     Inr (appendTurnRetryRecord st tid \<lparr>retry_kind = RetryScheduled category delay,
            attempt = n, retry_occurred_at = time, retry_attribution = a\<rparr>)"
| "reducePayload H st time a (TurnRetryExhausted tid n category reason) =
     Inr (appendTurnRetryRecord st tid \<lparr>retry_kind = RetryExhausted category reason,
            attempt = n, retry_occurred_at = time, retry_attribution = a\<rparr>)"
| "reducePayload H st time a (TurnCancellationRequested tid reason) =
     Inr (updateTurnCancellation st tid CancellationRequested reason a)"
| "reducePayload H st time a (TurnCancellationUnsupported tid reason) =
     Inr (updateTurnCancellation st tid CancellationUnsupported reason a)"
| "reducePayload H st time a (TurnCompleted tid oc outputs) =
     Inr (terminateTurn st tid time a (completed_terminal oc outputs))"
| "reducePayload H st time a (TurnCancelled tid reason) =
     Inr (terminateTurn st tid time a (cancelled_terminal reason))"
| "reducePayload H st time a (TurnFailed tid err) =
     Inr (terminateTurn st tid time a (failed_terminal err))"
| "reducePayload H st time a (ToolCallRequested tid tcid name args) =
     Inr (toolCallRequested st time a tid tcid name args)"
| "reducePayload H st time a (ToolCallDiscovered tid tcid) =
     Inr (toolCallMarked st time DiscoveredMark tid tcid)"
| "reducePayload H st time a (ToolCallStarted tid tcid) =
     Inr (toolCallMarked st time StartedMark tid tcid)"
| "reducePayload H st time a (ToolCallApprovalRequired tid tcid) =
     Inr (toolCallMarked st time ApprovalRequiredMark tid tcid)"
| "reducePayload H st time a (ApprovalProposalCreated p) = Inr (approvalProposalCreated st time a p)"
| "reducePayload H st time a (ApprovalProposalStatusChanged pid version change) =
     Inr (approvalProposalStatusChanged st time a pid version change)"
| "reducePayload H st time a (ToolCallResultRecorded tid tcid parts err records) =
     toolCallResultRecorded H st time a tid tcid parts err records"
| "reducePayload H st time a (ToolLoopBudgetExhausted tid budget lmt) =
     Inr (if list_ex (\<lambda>e. exhausted_turn_id e = tid \<and> exhausted_budget e = budget)
               (tool_loop_budget_exhaustions st) then st
          else st\<lparr>tool_loop_budget_exhaustions := tool_loop_budget_exhaustions st @
            [\<lparr>exhausted_turn_id = tid, exhausted_budget = budget, exhausted_limit = lmt,
              exhausted_at = time, exhausted_attribution = a\<rparr>]\<rparr>)"
| "reducePayload H st time a (UsageReceiptLinked tid rid) =
     Inr (if list_ex (\<lambda>l. usage_receipt_id l = rid) (usage_receipt_links st) then st
          else st\<lparr>usage_receipt_links := usage_receipt_links st @
            [\<lparr>usage_receipt_id = rid, receipt_turn_id = tid, linked_at = time,
              link_attribution = a\<rparr>]\<rparr>)"
| "reducePayload H st time a (ConversationMetadataUpdated m) = Inr (st\<lparr>state_metadata := m\<rparr>)"
| "reducePayload H st time a (ConversationTitleUpdated t) = Inr (st\<lparr>title := t\<rparr>)"

definition already_processed :: "ConversationState \<Rightarrow> ConversationEvent \<Rightarrow> bool" where
  "already_processed st ev \<longleftrightarrow>
     event_id ev \<in> set (processed_event_ids st) \<or>
     (case mutation_id ev of None \<Rightarrow> False | Some m \<Rightarrow> m \<in> set (processed_mutation_ids st))"

definition expected_revision :: "ConversationState \<Rightarrow> int" where
  "expected_revision st = (case revision st of None \<Rightarrow> 0 | Some r \<Rightarrow> r) + 1"

definition reduceConversationEvent ::
    "host \<Rightarrow> ConversationState \<Rightarrow> ConversationEvent \<Rightarrow> fault + ConversationState" where
  "reduceConversationEvent H st ev =
     (if already_processed st ev then Inr st
      else if conversation_id st \<noteq> None \<and> conversation_id st \<noteq> Some (event_conversation_id ev)
      then Inr (withReplayError st (IdentityMismatchError (event_conversation_id ev)
                  (event_id ev) (the (conversation_id st))))
      else if event_revision ev \<noteq> expected_revision st
      then Inr (withReplayError st
             (if event_revision ev > expected_revision st
              then RevisionGapError (event_conversation_id ev) (event_id ev)
                     (expected_revision st) (event_revision ev)
              else StaleRevisionError (event_conversation_id ev) (event_id ev)
                     (expected_revision st) (event_revision ev)))
      else reducePayload H (acceptEnvelope st ev) (occurred_at ev)
             (cloneAttribution (actor ev) (event_source ev)) (payload ev))"

text \<open>The fold of \<open>applyEvents\<close> (src/conversation/store.ts): a throw stops it.\<close>

fun reduceEvents ::
    "host \<Rightarrow> ConversationState \<Rightarrow> ConversationEvent list \<Rightarrow> fault + ConversationState" where
  "reduceEvents H st [] = Inr st"
| "reduceEvents H st (ev # evs) =
     bind_result (reduceConversationEvent H st ev) (\<lambda>st'. reduceEvents H st' evs)"

lemma reduceEvents_append:
  "reduceEvents H st (xs @ ys) = bind_result (reduceEvents H st xs) (\<lambda>st'. reduceEvents H st' ys)"
proof (induction xs arbitrary: st)
  case (Cons x xs)
  then show ?case by (cases "reduceConversationEvent H st x") simp_all
qed simp

end
