(* ===== verification/ReducerTurns.thy ===== *)
theory ReducerTurns
  imports Reducer
begin

text \<open>
  Turns under the reducer: the well-formedness of one turn record (its status agrees
  with its terminal fields), the invariant of the turns and the active turn, and its
  preservation by every operation on turns.
\<close>

section \<open>The shape of an operation on turns\<close>

text \<open>An operation on turns writes the turns and the active turn only.\<close>

definition turns_only :: "ConversationState \<Rightarrow> ConversationState \<Rightarrow> bool" where
  "turns_only st st' \<longleftrightarrow> (\<exists>ts act. st' = st\<lparr>turns := ts, active_turn_id := act\<rparr>)"

lemma turns_only_refl [simp]: "turns_only st st"
  unfolding turns_only_def by (rule exI [of _ "turns st"], rule exI [of _ "active_turn_id st"]) simp

lemma turns_only_append [simp]: "turns_only st (appendTurn st t act)"
  by (auto simp: turns_only_def appendTurn_def)

lemma turns_only_update [simp]: "turns_only st (updateTurn st i t act)"
  by (auto simp: turns_only_def updateTurn_def)

lemma turn_operations_turns_only [simp]:
  "turns_only st (turnStarted st time a tid inputs continuation)"
  "turns_only st (turnStatusChanged st a tid status)"
  "turns_only st (appendTurnRetryRecord st tid rec)"
  "turns_only st (updateTurnCancellation st tid cs reason a)"
  "turns_only st (terminateTurn st tid time a terminal)"
  by (auto simp: turnStarted_def turnStatusChanged_def appendTurnRetryRecord_def
      updateTurnCancellation_def terminateTurn_def Let_def split: option.splits)

section \<open>Well-formed turns\<close>

definition turn_wf :: "ConversationTurnRecord \<Rightarrow> bool" where
  "turn_wf t \<longleftrightarrow>
     (terminal_at t \<noteq> None \<longleftrightarrow> isTerminal t) \<and>
     (remote_may_still_be_running t \<longleftrightarrow> \<not> isTerminal t) \<and>
     (outcome t \<noteq> None \<longleftrightarrow> turn_status t = TurnIsCompleted) \<and>
     (cancellation_reason t \<noteq> None \<longleftrightarrow> turn_status t = TurnIsCancelled) \<and>
     (turn_error t \<noteq> None \<longleftrightarrow> turn_status t = TurnIsFailed) \<and>
     (output_message_ids t \<noteq> [] \<longrightarrow> turn_status t = TurnIsCompleted) \<and>
     (cancellation_status t = Some CancellationDone \<longleftrightarrow> turn_status t = TurnIsCancelled) \<and>
     (cancellation_status t = None \<longleftrightarrow> cancellation_requested_reason t = None) \<and>
     (turn_status t = TurnIsCancelled \<longrightarrow> cancellation_requested_reason t = cancellation_reason t)"

text \<open>A terminal literal that agrees with itself: the three the reducer writes.\<close>

definition terminal_wf :: "TurnTerminal \<Rightarrow> bool" where
  "terminal_wf x \<longleftrightarrow>
     terminal_status x \<in> {TurnIsCompleted, TurnIsCancelled, TurnIsFailed} \<and>
     \<not> terminal_remote x \<and>
     (terminal_outcome x \<noteq> None \<longleftrightarrow> terminal_status x = TurnIsCompleted) \<and>
     (terminal_reason x \<noteq> None \<longleftrightarrow> terminal_status x = TurnIsCancelled) \<and>
     (terminal_error x \<noteq> None \<longleftrightarrow> terminal_status x = TurnIsFailed) \<and>
     (terminal_output x \<noteq> [] \<longrightarrow> terminal_status x = TurnIsCompleted) \<and>
     (case terminal_reason x of None \<Rightarrow> terminal_cancellation x = None
      | Some r \<Rightarrow> terminal_cancellation x = Some (CancellationDone, r))"

lemma terminals_wf [simp]:
  "terminal_wf (completed_terminal oc outputs)"
  "terminal_wf (cancelled_terminal reason)"
  "terminal_wf (failed_terminal err)"
  by (simp_all add: terminal_wf_def completed_terminal_def cancelled_terminal_def failed_terminal_def)

lemma emptyTurn_wf [simp]: "turn_wf (emptyTurn tid (Active s) a)"
  by (simp add: turn_wf_def emptyTurn_def isTerminal_def)

lemma emptyTurn_id [simp]: "turn_id (emptyTurn tid s a) = tid"
  by (simp add: emptyTurn_def)

lemma emptyTurn_status [simp]: "isTerminal (emptyTurn tid (Active s) a) = False"
  by (simp add: emptyTurn_def isTerminal_def)

section \<open>The invariant\<close>

definition active_ok :: "ConversationTurnRecord list \<Rightarrow> string option \<Rightarrow> bool" where
  "active_ok ts act \<longleftrightarrow>
     (case act of None \<Rightarrow> True | Some a \<Rightarrow> \<exists>t\<in>set ts. turn_id t = a \<and> \<not> isTerminal t)"

definition turns_inv :: "ConversationState \<Rightarrow> bool" where
  "turns_inv st \<longleftrightarrow>
     distinct (map turn_id (turns st)) \<and> (\<forall>t\<in>set (turns st). turn_wf t) \<and>
     active_ok (turns st) (active_turn_id st)"

lemma active_ok_None [simp]: "active_ok ts None"
  by (simp add: active_ok_def)

lemma appendTurn_inv:
  assumes "turns_inv st" and "findTurn st (turn_id t) = None" and "turn_wf t"
    and "act = active_turn_id st \<or> (act = Some (turn_id t) \<and> \<not> isTerminal t)"
  shows "turns_inv (appendTurn st t act)"
  using assms
  by (auto simp: turns_inv_def appendTurn_def findTurn_def active_ok_def find_index_None_iff
      split: option.splits)

lemma updateTurn_inv:
  assumes inv: "turns_inv st" and i: "findTurn st tid = Some i" and t: "turn_id t = tid" "turn_wf t"
    and act: "act = None \<or> (act = active_turn_id st \<and> (act = Some tid \<longrightarrow> \<not> isTerminal t)) \<or>
              (act = Some tid \<and> \<not> isTerminal t)"
  shows "turns_inv (updateTurn st i t act)"
proof -
  let ?ts = "(turns st)[i := t]"
  have d: "distinct (map turn_id (turns st))" and wf: "\<forall>x\<in>set (turns st). turn_wf x"
    and ok: "active_ok (turns st) (active_turn_id st)"
    using inv by (auto simp: turns_inv_def)
  have find: "find_index (\<lambda>x. turn_id x = tid) (turns st) = Some i"
    using i by (simp add: findTurn_def)
  have set_ts: "set ?ts = insert t {x \<in> set (turns st). turn_id x \<noteq> tid}"
    using d find by (rule set_update_keyed)
  have "distinct (map turn_id ?ts)"
    using map_key_update [OF find t(1)] d by simp
  moreover have "\<forall>x\<in>set ?ts. turn_wf x"
    using set_ts wf t(2) by auto
  moreover have "active_ok ?ts act"
    using act ok t(1) unfolding active_ok_def set_ts by (auto split: option.splits)
  ultimately show ?thesis by (simp add: turns_inv_def updateTurn_def)
qed

lemma found_turn:
  assumes "turns_inv st" and "findTurn st tid = Some i"
  shows "turn_id (turns st ! i) = tid" and "turn_wf (turns st ! i)" and "turns st ! i \<in> set (turns st)"
  using assms by (auto simp: turns_inv_def findTurn_def dest: find_index_SomeD)

section \<open>Every operation keeps it\<close>

lemma turnStarted_inv [inv_intros]:
  assumes "turns_inv st"
  shows "turns_inv (turnStarted st time a tid inputs continuation)"
proof (cases "findTurn st tid")
  case None
  with assms show ?thesis
    by (auto simp: turnStarted_def turn_wf_def isTerminal_def intro!: appendTurn_inv)
next
  case (Some i)
  note t = found_turn [OF assms Some]
  show ?thesis
  proof (cases "isTerminal (turns st ! i) \<or> started_at (turns st ! i) \<noteq> None")
    case True
    with Some assms show ?thesis by (auto simp: turnStarted_def)
  next
    case False
    with t have "turn_wf ((turns st ! i)\<lparr>input_message_ids := inputs,
        continuation_of_turn_id := continuation, started_at := Some time,
        turn_attribution := Some a\<rparr>)"
      by (simp add: turn_wf_def isTerminal_def)
    with False Some t assms show ?thesis
      by (auto simp: turnStarted_def isTerminal_def intro!: updateTurn_inv)
  qed
qed

lemma turnStatusChanged_inv [inv_intros]:
  assumes "turns_inv st"
  shows "turns_inv (turnStatusChanged st a tid status)"
proof (cases "findTurn st tid")
  case None
  with assms show ?thesis by (auto simp: turnStatusChanged_def intro!: appendTurn_inv)
next
  case (Some i)
  note t = found_turn [OF assms Some]
  show ?thesis
  proof (cases "isTerminal (turns st ! i)")
    case True
    with Some assms show ?thesis by (auto simp: turnStatusChanged_def)
  next
    case False
    with t have "turn_wf ((turns st ! i)\<lparr>turn_status := Active status\<rparr>)"
      by (auto simp: turn_wf_def isTerminal_def)
    with False Some t assms show ?thesis
      by (auto simp: turnStatusChanged_def isTerminal_def intro!: updateTurn_inv)
  qed
qed

lemma appendTurnRetryRecord_inv [inv_intros]:
  assumes "turns_inv st"
  shows "turns_inv (appendTurnRetryRecord st tid rec)"
proof (cases "findTurn st tid")
  case None
  with assms show ?thesis
    by (auto simp: appendTurnRetryRecord_def turn_wf_def isTerminal_def emptyTurn_def
        intro!: appendTurn_inv)
next
  case (Some i)
  note t = found_turn [OF assms Some]
  have "turn_wf ((turns st ! i)\<lparr>retry_history := retry_history (turns st ! i) @ [rec]\<rparr>)"
    using t by (simp add: turn_wf_def isTerminal_def)
  moreover have "active_turn_id st = Some tid \<longrightarrow> \<not> isTerminal (turns st ! i)"
  proof
    assume "active_turn_id st = Some tid"
    with assms obtain t' where "t' \<in> set (turns st)" "turn_id t' = tid" "\<not> isTerminal t'"
      by (auto simp: turns_inv_def active_ok_def)
    with t assms keyed_unique [of turn_id "turns st"] show "\<not> isTerminal (turns st ! i)"
      by (metis turns_inv_def)
  qed
  ultimately show ?thesis using Some t assms
    by (auto simp: appendTurnRetryRecord_def isTerminal_def Let_def intro!: updateTurn_inv)
qed

lemma updateTurnCancellation_inv [inv_intros]:
  assumes "turns_inv st" and "cs \<noteq> CancellationDone"
  shows "turns_inv (updateTurnCancellation st tid cs reason a)"
proof (cases "findTurn st tid")
  case None
  with assms show ?thesis
    by (auto simp: updateTurnCancellation_def turn_wf_def isTerminal_def emptyTurn_def
        intro!: appendTurn_inv)
next
  case (Some i)
  note t = found_turn [OF assms(1) Some]
  show ?thesis
  proof (cases "isTerminal (turns st ! i)")
    case True
    with Some assms show ?thesis by (auto simp: updateTurnCancellation_def)
  next
    case False
    with t assms(2) have "turn_wf ((turns st ! i)\<lparr>cancellation_status := Some cs,
        cancellation_requested_reason := Some reason, remote_may_still_be_running := True\<rparr>)"
      by (auto simp: turn_wf_def isTerminal_def)
    with False Some t assms show ?thesis
      by (auto simp: updateTurnCancellation_def isTerminal_def intro!: updateTurn_inv)
  qed
qed

lemma terminal_update_wf:
  assumes "turn_wf t" and "\<not> isTerminal t" and "terminal_wf x"
  shows "turn_wf (t\<lparr>turn_status := terminal_status x, output_message_ids := terminal_output x,
      outcome := terminal_outcome x, cancellation_reason := terminal_reason x,
      cancellation_status := (case terminal_cancellation x of
          None \<Rightarrow> cancellation_status t | Some (s, r) \<Rightarrow> Some s),
      cancellation_requested_reason := (case terminal_cancellation x of
          None \<Rightarrow> cancellation_requested_reason t | Some (s, r) \<Rightarrow> Some r),
      remote_may_still_be_running := terminal_remote x, turn_error := terminal_error x,
      terminal_at := Some time\<rparr>)"
proof (cases "terminal_reason x")
  case None
  with assms show ?thesis by (auto simp: turn_wf_def terminal_wf_def isTerminal_def)
next
  case (Some r)
  with assms show ?thesis by (auto simp: turn_wf_def terminal_wf_def isTerminal_def)
qed

lemma terminal_append_wf:
  assumes "terminal_wf x"
  shows "turn_wf \<lparr>turn_id = tid, continuation_of_turn_id = None,
      turn_status = terminal_status x, input_message_ids = [],
      output_message_ids = terminal_output x, outcome = terminal_outcome x,
      cancellation_reason = terminal_reason x,
      cancellation_status = map_option fst (terminal_cancellation x),
      cancellation_requested_reason = map_option snd (terminal_cancellation x),
      remote_may_still_be_running = terminal_remote x, turn_error = terminal_error x,
      retry_history = [], started_at = None, terminal_at = Some time,
      turn_attribution = Some a\<rparr>"
proof (cases "terminal_reason x")
  case None
  with assms show ?thesis by (auto simp: turn_wf_def terminal_wf_def isTerminal_def)
next
  case (Some r)
  with assms show ?thesis by (auto simp: turn_wf_def terminal_wf_def isTerminal_def)
qed

lemma terminateTurn_inv [inv_intros]:
  assumes "turns_inv st" and "terminal_wf x"
  shows "turns_inv (terminateTurn st tid time a x)"
proof (cases "findTurn st tid")
  case None
  then show ?thesis using assms terminal_append_wf [OF assms(2)]
    by (auto simp: terminateTurn_def intro!: appendTurn_inv)
next
  case (Some i)
  note t = found_turn [OF assms(1) Some]
  show ?thesis
  proof (cases "isTerminal (turns st ! i)")
    case True
    with Some assms show ?thesis by (auto simp: terminateTurn_def)
  next
    case False
    show ?thesis using False Some t(1) terminal_update_wf [OF t(2) False assms(2)] assms(1)
      by (auto simp: terminateTurn_def Let_def intro!: updateTurn_inv)
  qed
qed

section \<open>Turns grow\<close>

text \<open>
  A later record of a turn: a terminal turn changes in its retry history only; the start,
  once written, stays, and the retry history is only appended to.
\<close>

definition turn_extends :: "ConversationTurnRecord \<Rightarrow> ConversationTurnRecord \<Rightarrow> bool" where
  "turn_extends t t' \<longleftrightarrow>
     turn_id t' = turn_id t \<and> keeps (started_at t) (started_at t') \<and>
     (\<exists>new. retry_history t' = retry_history t @ new) \<and>
     (isTerminal t \<longrightarrow> t' = t\<lparr>retry_history := retry_history t'\<rparr>)"

abbreviation turns_extend :: "ConversationTurnRecord list \<Rightarrow> ConversationTurnRecord list \<Rightarrow> bool" where
  "turns_extend \<equiv> extends_by turn_extends"

lemma turn_extends_refl [simp]: "turn_extends t t"
  by (simp add: turn_extends_def)

lemma turn_extends_terminal: "turn_extends t t' \<Longrightarrow> isTerminal t \<Longrightarrow> isTerminal t'"
  unfolding turn_extends_def isTerminal_def
  by (metis ConversationTurnRecord.surjective ConversationTurnRecord.update_convs(12)
      ConversationTurnRecord.select_convs(3))

lemma turn_extends_trans:
  assumes "turn_extends a b" and "turn_extends b c"
  shows "turn_extends a c"
proof -
  from assms have "turn_id c = turn_id a" and "keeps (started_at a) (started_at c)"
    and "\<exists>new. retry_history c = retry_history a @ new"
    by (auto simp: turn_extends_def intro: keeps_trans)
  moreover have "c = a\<lparr>retry_history := retry_history c\<rparr>" if "isTerminal a"
  proof -
    from that assms have b: "b = a\<lparr>retry_history := retry_history b\<rparr>"
      and c: "c = b\<lparr>retry_history := retry_history c\<rparr>"
      using turn_extends_terminal by (auto simp: turn_extends_def)
    show ?thesis by (subst c, subst b) simp
  qed
  ultimately show ?thesis by (simp add: turn_extends_def)
qed

lemma turns_extend_append [simp]: "turns_extend (turns st) (turns (appendTurn st t act))"
  by (simp add: appendTurn_def)

lemma turns_extend_update:
  assumes "findTurn st tid = Some i" and "turn_extends (turns st ! i) t"
  shows "turns_extend (turns st) (turns (updateTurn st i t act))"
  using assms by (auto simp: updateTurn_def findTurn_def dest!: find_index_SomeD intro!: extends_by_update)

lemma turn_operations_extend [simp]:
  "turns_extend (turns st) (turns (turnStarted st time a tid inputs continuation))"
  "turns_extend (turns st) (turns (turnStatusChanged st a tid status))"
  "turns_extend (turns st) (turns (appendTurnRetryRecord st tid rec))"
  "turns_extend (turns st) (turns (updateTurnCancellation st tid cs reason a))"
  "turns_extend (turns st) (turns (terminateTurn st tid time a terminal))"
  by (auto simp: turnStarted_def turnStatusChanged_def appendTurnRetryRecord_def
      updateTurnCancellation_def terminateTurn_def Let_def turn_extends_def
      intro!: turns_extend_update split: option.split)

end
