(* ===== verification/ReducerTools.thy ===== *)
theory ReducerTools
  imports ReducerTurns
begin

text \<open>
  Tool calls and approval proposals under the reducer: calls are never lost and keep
  their identity, turn and name; a proposal's version and status move along the legal
  edges only; every proposal stands on the tool call it reviews.
\<close>

section \<open>Tool calls\<close>

text \<open>The four fields of the request are written together.\<close>

definition call_wf :: "ConversationToolCallRecord \<Rightarrow> bool" where
  "call_wf c \<longleftrightarrow>
     (tool_call_name c = None \<longleftrightarrow> arguments c = None) \<and>
     (tool_call_name c = None \<longleftrightarrow> requested_at c = None) \<and>
     (tool_call_name c = None \<longleftrightarrow> call_attribution c = None)"

definition calls_inv :: "ConversationState \<Rightarrow> bool" where
  "calls_inv st \<longleftrightarrow> distinct (map tool_call_id (tool_calls st)) \<and> (\<forall>c\<in>set (tool_calls st). call_wf c)"

text \<open>A later record of a call keeps everything once written.\<close>

definition call_extends :: "ConversationToolCallRecord \<Rightarrow> ConversationToolCallRecord \<Rightarrow> bool" where
  "call_extends c c' \<longleftrightarrow>
     tool_call_id c' = tool_call_id c \<and> call_turn_id c' = call_turn_id c \<and>
     keeps (tool_call_name c) (tool_call_name c') \<and> keeps (arguments c) (arguments c') \<and>
     keeps (requested_at c) (requested_at c') \<and> keeps (discovered_at c) (discovered_at c') \<and>
     keeps (call_started_at c) (call_started_at c') \<and>
     keeps (approval_required_at c) (approval_required_at c') \<and>
     keeps (call_result c) (call_result c')"

lemma call_extends_refl [simp]: "call_extends c c"
  by (simp add: call_extends_def)

lemma call_extends_trans: "call_extends a b \<Longrightarrow> call_extends b c \<Longrightarrow> call_extends a c"
  unfolding call_extends_def by (auto intro: keeps_trans)

abbreviation calls_extend ::
    "ConversationToolCallRecord list \<Rightarrow> ConversationToolCallRecord list \<Rightarrow> bool" where
  "calls_extend \<equiv> extends_by call_extends"

text \<open>An operation on tool calls writes the tool calls only, keeping what they held.\<close>

definition calls_only :: "ConversationState \<Rightarrow> ConversationState \<Rightarrow> bool" where
  "calls_only st st' \<longleftrightarrow>
     (\<exists>cs. st' = st\<lparr>tool_calls := cs\<rparr> \<and> calls_extend (tool_calls st) cs)"

lemma calls_only_refl [simp]: "calls_only st st"
  unfolding calls_only_def by (rule exI [of _ "tool_calls st"]) simp

lemma found_call:
  assumes "find_tool_call st tcid = Some i"
  shows "i < length (tool_calls st)" and "tool_call_id (tool_calls st ! i) = tcid"
    and "tool_calls st ! i \<in> set (tool_calls st)"
  using assms by (auto simp: find_tool_call_def dest: find_index_SomeD)

lemma updateToolCall_calls_only:
  assumes "find_tool_call st tcid = Some i" and "call_extends (tool_calls st ! i) c"
  shows "calls_only st (updateToolCall st i c)"
  using extends_by_update [OF call_extends_refl found_call(1) [OF assms(1)] assms(2)]
  by (auto simp: calls_only_def updateToolCall_def)

lemma updateToolCall_inv:
  assumes "calls_inv st" and "find_tool_call st tcid = Some i"
    and "tool_call_id c = tcid" and "call_wf c"
  shows "calls_inv (updateToolCall st i c)"
proof -
  have find: "find_index (\<lambda>x. tool_call_id x = tcid) (tool_calls st) = Some i"
    using assms(2) by (simp add: find_tool_call_def)
  have d: "distinct (map tool_call_id (tool_calls st))" and wf: "\<forall>x\<in>set (tool_calls st). call_wf x"
    using assms(1) by (auto simp: calls_inv_def)
  have "distinct (map tool_call_id ((tool_calls st)[i := c]))"
    using map_key_update [OF find assms(3)] d by simp
  moreover have "\<forall>x\<in>set ((tool_calls st)[i := c]). call_wf x"
    using set_update_keyed [OF d find] wf assms(4) by auto
  ultimately show ?thesis by (simp add: calls_inv_def updateToolCall_def)
qed

lemma append_call_inv:
  assumes "calls_inv st" and "find_tool_call st (tool_call_id c) = None" and "call_wf c"
  shows "calls_inv (st\<lparr>tool_calls := tool_calls st @ [c]\<rparr>)"
  using assms by (auto simp: calls_inv_def find_tool_call_def find_index_None_iff)

lemma append_call_only [simp]: "calls_only st (st\<lparr>tool_calls := tool_calls st @ [c]\<rparr>)"
  by (auto simp: calls_only_def)

lemma placeholder_call_wf [simp]: "call_wf (placeholder_tool_call tcid tid)"
  by (simp add: call_wf_def placeholder_tool_call_def)

lemma placeholder_call_id [simp]: "tool_call_id (placeholder_tool_call tcid tid) = tcid"
  by (simp add: placeholder_tool_call_def)

lemma set_mark_facts [simp]:
  "call_wf (set_mark field time c) = call_wf c"
  "tool_call_id (set_mark field time c) = tool_call_id c"
  "mark_value field c = None \<Longrightarrow> call_extends c (set_mark field time c)"
  by (cases field; simp add: call_wf_def call_extends_def)+

lemma toolCallRequested_only [simp]:
  assumes "calls_inv st"
  shows "calls_only st (toolCallRequested st time a tid tcid name args)"
proof (cases "find_tool_call st tcid")
  case None
  then show ?thesis by (simp add: toolCallRequested_def)
next
  case (Some i)
  then have "call_wf (tool_calls st ! i)"
    using assms found_call(3) [OF Some] by (auto simp: calls_inv_def)
  with Some show ?thesis
    by (auto simp: toolCallRequested_def Let_def call_extends_def call_wf_def
        intro!: updateToolCall_calls_only)
qed

lemma toolCallRequested_inv [inv_intros]:
  assumes "calls_inv st"
  shows "calls_inv (toolCallRequested st time a tid tcid name args)"
proof (cases "find_tool_call st tcid")
  case None
  with assms show ?thesis
    by (auto simp: toolCallRequested_def call_wf_def intro!: append_call_inv)
next
  case (Some i)
  with assms found_call(2) [OF Some] show ?thesis
    by (auto simp: toolCallRequested_def Let_def call_wf_def intro!: updateToolCall_inv)
qed

lemma toolCallMarked_only [simp]: "calls_only st (toolCallMarked st time field tid tcid)"
  by (auto simp: toolCallMarked_def Let_def intro!: updateToolCall_calls_only split: option.split)

lemma toolCallMarked_inv [inv_intros]:
  assumes "calls_inv st"
  shows "calls_inv (toolCallMarked st time field tid tcid)"
proof (cases "find_tool_call st tcid")
  case None
  with assms show ?thesis by (auto simp: toolCallMarked_def intro!: append_call_inv)
next
  case (Some i)
  have "call_wf (tool_calls st ! i)"
    using assms found_call(3) [OF Some] by (auto simp: calls_inv_def)
  with Some assms found_call(2) [OF Some] show ?thesis
    by (auto simp: toolCallMarked_def Let_def intro!: updateToolCall_inv)
qed

lemma toolCallResultRecorded_only:
  assumes "toolCallResultRecorded H st time a tid tcid parts err records = Inr st'"
  shows "calls_only st st'"
  using assms
  by (auto simp: toolCallResultRecorded_def Let_def call_extends_def keeps_def
      intro!: updateToolCall_calls_only split: option.splits if_splits)

lemma toolCallResultRecorded_inv [inv_intros]:
  assumes "calls_inv st" and "toolCallResultRecorded H st time a tid tcid parts err records = Inr st'"
  shows "calls_inv st'"
proof (cases "find_tool_call st tcid")
  case None
  with assms show ?thesis
    by (auto simp: toolCallResultRecorded_def Let_def call_wf_def placeholder_tool_call_def
        intro!: append_call_inv)
next
  case (Some i)
  have "call_wf (tool_calls st ! i)"
    using assms(1) found_call(3) [OF Some] by (auto simp: calls_inv_def)
  with Some assms found_call(2) [OF Some] show ?thesis
    by (auto simp: toolCallResultRecorded_def Let_def call_wf_def
        intro!: updateToolCall_inv split: if_splits)
qed

section \<open>Approval proposals\<close>

text \<open>
  The version counts the transitions of the proposal, so with the status it tells the
  proposal's whole course: one decision, then alternating execution and outcome.
\<close>

definition proposal_wf :: "ConversationApprovalProposalRecord \<Rightarrow> bool" where
  "proposal_wf p \<longleftrightarrow>
     (case proposal_status p of
        Pending \<Rightarrow> proposal_version p = 1
      | Confirmed \<Rightarrow> proposal_version p = 2
      | Rejected \<Rightarrow> proposal_version p = 2
      | Expired \<Rightarrow> proposal_version p = 2
      | Executing \<Rightarrow> proposal_version p \<ge> 3 \<and> odd (proposal_version p)
      | Executed \<Rightarrow> proposal_version p \<ge> 4 \<and> even (proposal_version p)
      | Failed \<Rightarrow> proposal_version p \<ge> 4 \<and> even (proposal_version p)) \<and>
     (decision_at p = None \<longleftrightarrow> proposal_status p = Pending) \<and>
     (decision_attribution p = None \<longleftrightarrow> proposal_status p = Pending) \<and>
     (proposal_status p = Pending \<longrightarrow> decision_reason p = None) \<and>
     (failure_reason p = None \<longleftrightarrow> proposal_status p \<noteq> Failed)"

text \<open>The tool call a proposal reviews is recorded, with the same turn and name.\<close>

definition reviews :: "ConversationApprovalProposalRecord \<Rightarrow> ConversationToolCallRecord \<Rightarrow> bool" where
  "reviews p c \<longleftrightarrow>
     tool_call_id c = proposal_tool_call_id p \<and> call_turn_id c = proposal_turn_id p \<and>
     tool_call_name c = Some (tool_name p) \<and> approval_required_at c \<noteq> None"

definition proposals_inv :: "ConversationState \<Rightarrow> bool" where
  "proposals_inv st \<longleftrightarrow>
     distinct (map proposal_id (approval_proposals st)) \<and>
     (\<forall>p\<in>set (approval_proposals st). proposal_wf p \<and> (\<exists>c\<in>set (tool_calls st). reviews p c))"

lemma reviews_extends: "reviews p c \<Longrightarrow> call_extends c c' \<Longrightarrow> reviews p c'"
  by (auto simp: reviews_def call_extends_def keeps_def)

lemma proposals_inv_calls_extend:
  assumes "proposals_inv st" and "calls_extend (tool_calls st) (tool_calls st')"
    and "approval_proposals st' = approval_proposals st"
  shows "proposals_inv st'"
  using assms unfolding proposals_inv_def extends_by_def by (metis reviews_extends)

text \<open>One legal step of a proposal keeps it well-formed.\<close>

lemma proposal_step_wf:
  assumes "proposal_wf p" and "version = proposal_version p + 1"
    and "isLegalConversationApprovalProposalTransition (proposal_status p) (change_status change)"
  shows "proposal_wf (proposal_step time a version change p)"
  using assms
  by (cases "proposal_status p"; cases change)
    (auto simp: proposal_step_def proposal_wf_def is_decision_def legal_transition_iff Let_def)

lemma proposal_step_frame [simp]:
  "proposal_id (proposal_step time a v ch p) = proposal_id p"
  "proposal_turn_id (proposal_step time a v ch p) = proposal_turn_id p"
  "proposal_tool_call_id (proposal_step time a v ch p) = proposal_tool_call_id p"
  "tool_name (proposal_step time a v ch p) = tool_name p"
  "reviewed_arguments (proposal_step time a v ch p) = reviewed_arguments p"
  "expires_at (proposal_step time a v ch p) = expires_at p"
  "proposal_created_at (proposal_step time a v ch p) = proposal_created_at p"
  "created_attribution (proposal_step time a v ch p) = created_attribution p"
  "proposal_version (proposal_step time a v ch p) = v"
  "proposal_status (proposal_step time a v ch p) = change_status ch"
  by (simp_all add: proposal_step_def Let_def)

text \<open>The guards of a status change, in the order the code tests them.\<close>

definition step_allowed ::
    "string \<Rightarrow> int \<Rightarrow> ApprovalProposalStatusChange \<Rightarrow> ConversationApprovalProposalRecord \<Rightarrow> bool" where
  "step_allowed time version change p \<longleftrightarrow>
     version = proposal_version p + 1 \<and>
     isLegalConversationApprovalProposalTransition (proposal_status p) (change_status change) \<and>
     \<not> (change_status change = Expired \<and> time_less (Date_parse time) (Date_parse (expires_at p))) \<and>
     \<not> (change_status change \<in> {Confirmed, Executing} \<and>
        time_le (Date_parse (expires_at p)) (Date_parse time))"

lemma approvalProposalStatusChanged_eq:
  "approvalProposalStatusChanged st time a pid version change =
     (case find_proposal st pid of
        None \<Rightarrow> st
      | Some i \<Rightarrow>
          if step_allowed time version change (approval_proposals st ! i)
          then updateApprovalProposal st i
                 (proposal_step time a version change (approval_proposals st ! i))
          else st)"
  by (auto simp: approvalProposalStatusChanged_def step_allowed_def Let_def split: option.split)

text \<open>A status change either leaves the state alone or takes one legal step.\<close>

lemma approvalProposalStatusChanged_cases:
  obtains (ignored) "approvalProposalStatusChanged st time a pid version change = st"
  | (stepped) i where "find_proposal st pid = Some i"
      and "step_allowed time version change (approval_proposals st ! i)"
      and "approvalProposalStatusChanged st time a pid version change =
             updateApprovalProposal st i
               (proposal_step time a version change (approval_proposals st ! i))"
proof (cases "find_proposal st pid")
  case None
  then show ?thesis by (intro ignored) (simp add: approvalProposalStatusChanged_eq)
next
  case (Some i)
  then show ?thesis
    by (cases "step_allowed time version change (approval_proposals st ! i)")
      (auto simp: approvalProposalStatusChanged_eq intro: ignored stepped)
qed

lemma approvalProposalStatusChanged_inv [inv_intros]:
  assumes "proposals_inv st"
  shows "proposals_inv (approvalProposalStatusChanged st time a pid version change)"
proof (cases rule: approvalProposalStatusChanged_cases
    [of st time a pid version change])
  case ignored
  with assms show ?thesis by simp
next
  case (stepped i)
  let ?p = "approval_proposals st ! i"
  let ?q = "proposal_step time a version change ?p"
  have find: "find_index (\<lambda>x. proposal_id x = pid) (approval_proposals st) = Some i"
    using stepped(1) by (simp add: find_proposal_def)
  have p: "proposal_id ?p = pid" "?p \<in> set (approval_proposals st)"
    using find by (auto dest: find_index_SomeD)
  have d: "distinct (map proposal_id (approval_proposals st))"
    using assms by (simp add: proposals_inv_def)
  have q: "proposal_id ?q = pid" using p by simp
  have "proposal_wf ?q"
    using assms p stepped(2) by (intro proposal_step_wf) (auto simp: proposals_inv_def step_allowed_def)
  moreover have "\<exists>c\<in>set (tool_calls st). reviews ?q c"
    using assms p(2) by (fastforce simp: proposals_inv_def reviews_def)
  ultimately show ?thesis
    using assms d map_key_update [OF find q] set_update_keyed [OF d find]
    by (auto simp: stepped(3) proposals_inv_def updateApprovalProposal_def)
qed

lemma approvalProposalCreated_cases:
  obtains (ignored) "approvalProposalCreated st time a p = st"
  | (created) i q cs where "find_tool_call st (created_tool_call_id p) = Some i"
      and "\<not> isTerminalTurn st (created_turn_id p)"
      and "find_proposal st (created_proposal_id p) = None"
      and "calls_extend (tool_calls st) cs" and "map tool_call_id cs = map tool_call_id (tool_calls st)"
      and "\<forall>c\<in>set cs. \<exists>c0\<in>set (tool_calls st). call_wf c0 \<longrightarrow> call_wf c"
      and "approvalProposalCreated st time a p =
             st\<lparr>tool_calls := cs, approval_proposals := approval_proposals st @ [q]\<rparr>"
      and "proposal_id q = created_proposal_id p" and "proposal_wf q" and "proposal_status q = Pending"
      and "\<exists>c\<in>set cs. reviews q c"
proof (cases "isTerminalTurn st (created_turn_id p) \<or> find_proposal st (created_proposal_id p) \<noteq> None")
  case True
  then show ?thesis by (intro ignored) (auto simp: approvalProposalCreated_def)
next
  case open_turn: False
  show ?thesis
  proof (cases "find_tool_call st (created_tool_call_id p)")
    case None
    then show ?thesis by (intro ignored) (simp add: approvalProposalCreated_def)
  next
    case (Some i)
    let ?c = "tool_calls st ! i"
    let ?c' = "?c\<lparr>approval_required_at := Some time\<rparr>"
    let ?cs = "if approval_required_at ?c = None then (tool_calls st)[i := ?c'] else tool_calls st"
    note c = found_call [OF Some]
    show ?thesis
    proof (cases "call_turn_id ?c \<noteq> created_turn_id p \<or> tool_call_name ?c \<noteq> Some (created_tool_name p)")
      case True
      with Some show ?thesis by (intro ignored) (auto simp: approvalProposalCreated_def Let_def)
    next
      case matching: False
      have "calls_extend (tool_calls st) ?cs"
        using c by (auto simp: call_extends_def keeps_def intro!: extends_by_update)
      moreover have "map tool_call_id ?cs = map tool_call_id (tool_calls st)"
        using c by (auto simp: map_update list_update_same_conv)
      moreover have "\<forall>x\<in>set ?cs. \<exists>c0\<in>set (tool_calls st). call_wf c0 \<longrightarrow> call_wf x"
        using c by (auto dest!: set_update_subset_insert [THEN subsetD] simp: call_wf_def)
      moreover have "(if approval_required_at ?c = None then ?c' else ?c) \<in> set ?cs"
        using c by (auto simp: set_update_memI)
      ultimately show ?thesis using Some open_turn matching c
        by (intro created [of i ?cs]) (auto simp: approvalProposalCreated_def Let_def proposal_wf_def
            reviews_def intro!: bexI [of _ "if approval_required_at ?c = None then ?c' else ?c"])
    qed
  qed
qed

lemma approvalProposalCreated_inv [inv_intros]:
  assumes "proposals_inv st"
  shows "proposals_inv (approvalProposalCreated st time a p)"
proof (cases rule: approvalProposalCreated_cases [of st time a p])
  case ignored
  with assms show ?thesis by simp
next
  case (created i q cs)
  have "proposals_inv (st\<lparr>tool_calls := cs\<rparr>)"
    using created(4) by (intro proposals_inv_calls_extend [OF assms]) simp_all
  moreover have "proposal_id q \<notin> proposal_id ` set (approval_proposals st)"
    using created(3,8) by (auto simp: find_proposal_def find_index_None_iff)
  ultimately show ?thesis using created(9,11) by (auto simp: created(7) proposals_inv_def)
qed

lemma approvalProposalCreated_calls_inv [inv_intros]:
  assumes "calls_inv st"
  shows "calls_inv (approvalProposalCreated st time a p)"
proof (cases rule: approvalProposalCreated_cases [of st time a p])
  case ignored
  with assms show ?thesis by simp
next
  case (created i q cs)
  have "call_wf c" if "c \<in> set cs" for c
    using created(6) that assms by (fastforce simp: calls_inv_def)
  with created(5) assms show ?thesis by (simp add: created(7) calls_inv_def)
qed

section \<open>Proposals grow\<close>

text \<open>
  One step of a proposal's life: a legal edge, the version one up, and what was reviewed
  and when it was proposed unchanged. A later record is some steps away.
\<close>

definition proposal_edge ::
    "ConversationApprovalProposalRecord \<Rightarrow> ConversationApprovalProposalRecord \<Rightarrow> bool" where
  "proposal_edge p q \<longleftrightarrow>
     proposal_version q = proposal_version p + 1 \<and>
     isLegalConversationApprovalProposalTransition (proposal_status p) (proposal_status q) \<and>
     proposal_id q = proposal_id p \<and> proposal_turn_id q = proposal_turn_id p \<and>
     proposal_tool_call_id q = proposal_tool_call_id p \<and> tool_name q = tool_name p \<and>
     reviewed_arguments q = reviewed_arguments p \<and> expires_at q = expires_at p \<and>
     proposal_created_at q = proposal_created_at p \<and> created_attribution q = created_attribution p"

abbreviation proposals_extend ::
    "ConversationApprovalProposalRecord list \<Rightarrow> ConversationApprovalProposalRecord list \<Rightarrow> bool" where
  "proposals_extend \<equiv> extends_by proposal_edge\<^sup>*\<^sup>*"

lemma proposal_edges_final:
  assumes "proposal_edge\<^sup>*\<^sup>* p q" and "proposal_status p \<in> {Rejected, Expired, Executed}"
  shows "q = p"
  using assms(1)
proof (cases rule: converse_rtranclpE)
  case base
  then show ?thesis by simp
next
  case (step y)
  with assms(2) show ?thesis by (auto simp: proposal_edge_def legal_transition_iff)
qed

lemma approvalProposalStatusChanged_extend [simp]:
  "proposals_extend (approval_proposals st)
     (approval_proposals (approvalProposalStatusChanged st time a pid version change))"
proof (cases rule: approvalProposalStatusChanged_cases [of st time a pid version change])
  case ignored
  then show ?thesis by simp
next
  case (stepped i)
  let ?p = "approval_proposals st ! i"
  have "proposal_edge ?p (proposal_step time a version change ?p)"
    using stepped(2) by (simp add: proposal_edge_def step_allowed_def)
  with stepped(1) show ?thesis
    by (auto simp: stepped(3) updateApprovalProposal_def find_proposal_def
        dest!: find_index_SomeD intro!: extends_by_update)
qed

lemma approvalProposalCreated_extend [simp]:
  "proposals_extend (approval_proposals st) (approval_proposals (approvalProposalCreated st time a p))"
  by (cases rule: approvalProposalCreated_cases [of st time a p]) simp_all

definition proposals_only :: "ConversationState \<Rightarrow> ConversationState \<Rightarrow> bool" where
  "proposals_only st st' \<longleftrightarrow>
     (\<exists>cs ps. st' = st\<lparr>tool_calls := cs, approval_proposals := ps\<rparr> \<and>
        calls_extend (tool_calls st) cs \<and> proposals_extend (approval_proposals st) ps)"

lemma proposals_onlyI:
  assumes "st' = st\<lparr>tool_calls := tool_calls st', approval_proposals := approval_proposals st'\<rparr>"
    and "calls_extend (tool_calls st) (tool_calls st')"
    and "proposals_extend (approval_proposals st) (approval_proposals st')"
  shows "proposals_only st st'"
  using assms unfolding proposals_only_def by blast

lemma approvalProposalStatusChanged_only [simp]:
  "proposals_only st (approvalProposalStatusChanged st time a pid version change)"
proof (rule proposals_onlyI)
  show "approvalProposalStatusChanged st time a pid version change =
      st\<lparr>tool_calls := tool_calls (approvalProposalStatusChanged st time a pid version change),
         approval_proposals := approval_proposals (approvalProposalStatusChanged st time a pid version change)\<rparr>"
    and "calls_extend (tool_calls st)
      (tool_calls (approvalProposalStatusChanged st time a pid version change))"
    by (simp_all add: approvalProposalStatusChanged_eq updateApprovalProposal_def split: option.split)
qed simp

lemma approvalProposalCreated_only [simp]: "proposals_only st (approvalProposalCreated st time a p)"
proof (cases rule: approvalProposalCreated_cases [of st time a p])
  case ignored
  then show ?thesis by (intro proposals_onlyI) simp_all
next
  case (created i q cs)
  then show ?thesis by (intro proposals_onlyI) (simp_all add: created(7))
qed

end
