(* ===== verification/ReducerMessages.thy ===== *)
theory ReducerMessages
  imports ReducerTools
begin

text \<open>
  Messages, attachments and citations under the reducer: messages are never lost and keep
  their identity and role; the two views of the attachments (in the messages and in the
  flat list) agree; every citation has its source, and its target is a known tool call
  or a message that is not known to be another role's.
\<close>

section \<open>Messages\<close>

definition message_extends :: "ConversationMessageRecord \<Rightarrow> ConversationMessageRecord \<Rightarrow> bool" where
  "message_extends m m' \<longleftrightarrow>
     message_id m' = message_id m \<and> keeps (role m) (role m') \<and>
     keeps (created_at m) (created_at m') \<and>
     set (message_attachments m) \<subseteq> set (message_attachments m')"

abbreviation messages_extend ::
    "ConversationMessageRecord list \<Rightarrow> ConversationMessageRecord list \<Rightarrow> bool" where
  "messages_extend \<equiv> extends_by message_extends"

lemma message_extends_refl [simp]: "message_extends m m"
  by (simp add: message_extends_def)

lemma message_extends_trans: "message_extends a b \<Longrightarrow> message_extends b c \<Longrightarrow> message_extends a c"
  unfolding message_extends_def by (auto intro: keeps_trans)

lemma found_message:
  assumes "find_message st mid = Some i"
  shows "i < length (messages st)" and "message_id (messages st ! i) = mid"
    and "messages st ! i \<in> set (messages st)"
  using assms by (auto simp: find_message_def dest: find_index_SomeD)

section \<open>Attachments\<close>

definition atts_ok ::
    "ConversationMessageRecord list \<Rightarrow> ConversationAttachmentRecord list \<Rightarrow> bool" where
  "atts_ok ms as \<longleftrightarrow>
     distinct (map message_id ms) \<and>
     distinct (map (\<lambda>a. (attached_message_id a, attached_attachment_id a)) as) \<and>
     (\<forall>a\<in>set as. attached_attachment_id a = attachment_id (reference a) \<and>
        (\<exists>m\<in>set ms. message_id m = attached_message_id a \<and>
           reference a \<in> set (message_attachments m))) \<and>
     (\<forall>m\<in>set ms. distinct (map attachment_id (message_attachments m)) \<and>
        (\<forall>r\<in>set (message_attachments m). \<exists>a\<in>set as.
           attached_message_id a = message_id m \<and> reference a = r))"

definition atts_inv :: "ConversationState \<Rightarrow> bool" where
  "atts_inv st \<longleftrightarrow> atts_ok (messages st) (attachments st)"

lemma atts_okI:
  assumes "distinct (map message_id ms)"
    and "distinct (map (\<lambda>a. (attached_message_id a, attached_attachment_id a)) as)"
    and "\<And>a. a \<in> set as \<Longrightarrow> attached_attachment_id a = attachment_id (reference a)"
    and "\<And>a. a \<in> set as \<Longrightarrow> \<exists>m\<in>set ms. message_id m = attached_message_id a \<and>
           reference a \<in> set (message_attachments m)"
    and "\<And>m. m \<in> set ms \<Longrightarrow> distinct (map attachment_id (message_attachments m))"
    and "\<And>m r. m \<in> set ms \<Longrightarrow> r \<in> set (message_attachments m) \<Longrightarrow>
           \<exists>a\<in>set as. attached_message_id a = message_id m \<and> reference a = r"
  shows "atts_ok ms as"
  using assms by (auto simp: atts_ok_def)

lemma atts_okD:
  assumes "atts_ok ms as"
  shows "distinct (map message_id ms)"
    and "distinct (map (\<lambda>a. (attached_message_id a, attached_attachment_id a)) as)"
    and "a \<in> set as \<Longrightarrow> attached_attachment_id a = attachment_id (reference a)"
    and "a \<in> set as \<Longrightarrow> \<exists>m\<in>set ms. message_id m = attached_message_id a \<and>
           reference a \<in> set (message_attachments m)"
    and "m \<in> set ms \<Longrightarrow> distinct (map attachment_id (message_attachments m))"
    and "m \<in> set ms \<Longrightarrow> r \<in> set (message_attachments m) \<Longrightarrow>
           \<exists>a\<in>set as. attached_message_id a = message_id m \<and> reference a = r"
  using assms by (auto simp: atts_ok_def)

text \<open>Rewriting one message without its attachments, or adding one without any.\<close>

lemma atts_inv_update_message:
  assumes inv: "atts_inv st" and i: "find_message st mid = Some i"
    and m: "message_id m = mid" "message_attachments m = message_attachments (messages st ! i)"
  shows "atts_inv (updateMessages st i m)"
proof -
  have find: "find_index (\<lambda>x. message_id x = mid) (messages st) = Some i"
    using i by (simp add: find_message_def)
  have d: "distinct (map message_id (messages st))" using inv by (simp add: atts_inv_def atts_ok_def)
  have old: "messages st ! i \<in> set (messages st)" "message_id (messages st ! i) = mid"
    using found_message [OF i] by auto
  have only: "x = messages st ! i" if "x \<in> set (messages st)" "message_id x = mid" for x
    using keyed_unique [OF d that(1) old(1)] that(2) old(2) by simp
  have ex: "\<exists>x\<in>insert m {y \<in> set (messages st). message_id y \<noteq> mid}.
      message_id x = k \<and> r \<in> set (message_attachments x)"
    if "\<exists>x\<in>set (messages st). message_id x = k \<and> r \<in> set (message_attachments x)" for k r
    using that only m by (cases "k = mid") auto
  show ?thesis
    using inv ex old m map_key_update [OF find m(1)] set_update_keyed [OF d find, of m]
    by (auto simp: atts_inv_def atts_ok_def updateMessages_def)
qed

lemma atts_inv_append_message:
  assumes "atts_inv st" and "find_message st (message_id m) = None" and "message_attachments m = []"
  shows "atts_inv (st\<lparr>messages := messages st @ [m]\<rparr>)"
  using assms by (auto simp: atts_inv_def atts_ok_def find_message_def find_index_None_iff)

lemma atts_inv_cong:
  "messages st' = messages st \<Longrightarrow> attachments st' = attachments st \<Longrightarrow> atts_inv st' = atts_inv st"
  by (simp add: atts_inv_def)

lemma removeCitations_frame [simp]:
  "messages (removeCitationsForAssistantMessage st mid) = messages st"
  "attachments (removeCitationsForAssistantMessage st mid) = attachments st"
  "citation_sources (removeCitationsForAssistantMessage st mid) = citation_sources st"
  "tool_calls (removeCitationsForAssistantMessage st mid) = tool_calls st"
  by (simp_all add: removeCitationsForAssistantMessage_def Let_def)

text \<open>The shortcut on equal lengths changes nothing: an unshortened filter is the list itself.\<close>

lemma removeCitations_citations [simp]:
  "state_citations (removeCitationsForAssistantMessage st mid) =
     filter (\<lambda>c. \<not> targets_message mid (citation_target c)) (state_citations st)"
proof (cases "length (filter (\<lambda>c. \<not> targets_message mid (citation_target c)) (state_citations st))
    = length (state_citations st)")
  case True
  then have "filter (\<lambda>c. \<not> targets_message mid (citation_target c)) (state_citations st)
      = state_citations st"
    by (simp add: filter_id_conv length_filter_conv_card)
      (metis (mono_tags, lifting) True filter_id_conv length_filter_less less_irrefl)
  with True show ?thesis by (simp add: removeCitationsForAssistantMessage_def)
next
  case False
  then show ?thesis by (simp add: removeCitationsForAssistantMessage_def Let_def)
qed

lemma messageCreated_atts [inv_intros]:
  assumes "atts_inv st"
  shows "atts_inv (messageCreated st time a mid r c)"
proof (cases "find_message st mid")
  case None
  with assms show ?thesis by (auto simp: messageCreated_def intro!: atts_inv_append_message)
next
  case (Some i)
  let ?m = "(messages st ! i)\<lparr>role := Some r, content := c, created_at := Some time,
      message_attribution := Some a\<rparr>"
  have "atts_inv (updateMessages st i ?m)"
    using found_message(2) [OF Some] by (intro atts_inv_update_message [OF assms Some]) simp_all
  with Some assms show ?thesis
    by (auto simp: messageCreated_def Let_def
        atts_inv_cong [of "removeCitationsForAssistantMessage s m" s for s m])
qed

lemma messageTextAppended_atts [inv_intros]:
  assumes "atts_inv st"
  shows "atts_inv (messageTextAppended st time a tid mid text)"
proof (cases "find_message st mid")
  case None
  with assms show ?thesis by (auto simp: messageTextAppended_def intro!: atts_inv_append_message)
next
  case (Some i)
  with assms found_message(2) [OF Some] show ?thesis
    by (auto simp: messageTextAppended_def Let_def intro!: atts_inv_update_message)
qed

text \<open>Under the invariant, the flat list and the message agree on what is linked.\<close>

lemma linked_agree:
  assumes "atts_inv st" and "find_message st mid = Some i"
  shows "list_ex (\<lambda>a. attached_message_id a = mid \<and> attached_attachment_id a = k) (attachments st)
    \<longleftrightarrow> list_ex (\<lambda>r. attachment_id r = k) (message_attachments (messages st ! i))"
    (is "?flat \<longleftrightarrow> ?nested")
proof
  note m = found_message [OF assms(2)] and ok = assms(1) [unfolded atts_inv_def]
  assume ?flat
  then obtain a where a: "a \<in> set (attachments st)" "attached_message_id a = mid"
      "attached_attachment_id a = k" by (auto simp: list_ex_iff)
  from atts_okD(4) [OF ok a(1)] obtain x where x: "x \<in> set (messages st)" "message_id x = mid"
      "reference a \<in> set (message_attachments x)" using a(2) by auto
  then have "x = messages st ! i"
    using keyed_unique [OF atts_okD(1) [OF ok] x(1) m(3)] m(2) by simp
  then show ?nested using x(3) atts_okD(3) [OF ok a(1)] a(3) by (auto simp: list_ex_iff)
next
  note m = found_message [OF assms(2)] and ok = assms(1) [unfolded atts_inv_def]
  assume ?nested
  then obtain r where r: "r \<in> set (message_attachments (messages st ! i))" "attachment_id r = k"
    by (auto simp: list_ex_iff)
  from atts_okD(6) [OF ok m(3) r(1)] show ?flat
    using atts_okD(3) [OF ok] r(2) m(2) by (auto simp: list_ex_iff)
qed

lemma not_linked_absent:
  assumes "atts_inv st" and "find_message st mid = None"
  shows "\<not> list_ex (\<lambda>a. attached_message_id a = mid \<and> attached_attachment_id a = k) (attachments st)"
proof
  assume "list_ex (\<lambda>a. attached_message_id a = mid \<and> attached_attachment_id a = k) (attachments st)"
  then obtain a where "a \<in> set (attachments st)" "attached_message_id a = mid"
    by (auto simp: list_ex_iff)
  with atts_okD(4) [OF assms(1) [unfolded atts_inv_def], of a] assms(2) show False
    by (auto simp: find_message_def find_index_None_iff)
qed

text \<open>Linking a fresh reference to a message, in both views at once.\<close>

lemma atts_ok_link:
  assumes ok: "atts_ok ms as" and find: "find_index (\<lambda>x. message_id x = mid) ms = Some i"
    and m': "message_id m' = mid" "message_attachments m' = message_attachments (ms ! i) @ [ref]"
    and a: "attached_message_id a = mid" "attached_attachment_id a = attachment_id ref" "reference a = ref"
    and fresh: "\<not> list_ex (\<lambda>r. attachment_id r = attachment_id ref) (message_attachments (ms ! i))"
      "\<not> list_ex (\<lambda>x. attached_message_id x = mid \<and> attached_attachment_id x = attachment_id ref) as"
  shows "atts_ok (ms[i := m']) (as @ [a])"
proof (rule atts_okI)
  note d = atts_okD(1) [OF ok]
  have old: "ms ! i \<in> set ms" "message_id (ms ! i) = mid"
    using find by (auto dest: find_index_SomeD)
  have set_ms: "set (ms[i := m']) = insert m' {x \<in> set ms. message_id x \<noteq> mid}"
    by (rule set_update_keyed [OF d find])
  have only: "x = ms ! i" if "x \<in> set ms" "message_id x = mid" for x
    using keyed_unique [OF d that(1) old(1)] that(2) old(2) by simp
  show "distinct (map message_id (ms[i := m']))"
    using d map_key_update [OF find m'(1)] by simp
  show "distinct (map (\<lambda>a. (attached_message_id a, attached_attachment_id a)) (as @ [a]))"
    using atts_okD(2) [OF ok] fresh(2) a by (auto simp: list_ex_iff)
  show "attached_attachment_id x = attachment_id (reference x)" if "x \<in> set (as @ [a])" for x
    using that a atts_okD(3) [OF ok] by auto
  show "\<exists>m\<in>set (ms[i := m']). message_id m = attached_message_id x \<and>
      reference x \<in> set (message_attachments m)" if x: "x \<in> set (as @ [a])" for x
  proof (cases "x = a")
    case True
    with a m' show ?thesis unfolding set_ms by auto
  next
    case False
    with x obtain m where m: "m \<in> set ms" "message_id m = attached_message_id x"
        "reference x \<in> set (message_attachments m)" using atts_okD(4) [OF ok, of x] by auto
    show ?thesis
    proof (cases "message_id m = mid")
      case True
      with m only m' show ?thesis unfolding set_ms by auto
    next
      case False
      with m show ?thesis unfolding set_ms by blast
    qed
  qed
  show "distinct (map attachment_id (message_attachments x))" if "x \<in> set (ms[i := m'])" for x
    using that atts_okD(5) [OF ok] old(1) m'(2) fresh(1) unfolding set_ms
    by (auto simp: list_ex_iff) (metis)
  show "\<exists>y\<in>set (as @ [a]). attached_message_id y = message_id x \<and> reference y = r"
    if x: "x \<in> set (ms[i := m'])" and r: "r \<in> set (message_attachments x)" for x r
  proof (cases "x \<in> set ms")
    case True
    with atts_okD(6) [OF ok True r] show ?thesis by auto
  next
    case False
    with x have "x = m'" unfolding set_ms by auto
    with r m'(2) consider "r = ref" | "r \<in> set (message_attachments (ms ! i))" by auto
    then show ?thesis
    proof cases
      case 1
      with a m'(1) \<open>x = m'\<close> show ?thesis by auto
    next
      case 2
      with atts_okD(6) [OF ok old(1) 2] old(2) m'(1) \<open>x = m'\<close> show ?thesis by auto
    qed
  qed
qed

lemma atts_ok_placeholder:
  assumes "atts_ok ms as" and "mid \<notin> message_id ` set ms"
    and "attached_message_id a = mid" "attached_attachment_id a = attachment_id ref" "reference a = ref"
    and "\<not> list_ex (\<lambda>x. attached_message_id x = mid \<and> attached_attachment_id x = attachment_id ref) as"
  shows "atts_ok (ms @ [placeholder_message mid [ref]]) (as @ [a])"
  using assms by (auto simp: atts_ok_def placeholder_message_def list_ex_iff)

lemma messageAttachmentReferenced_atts [inv_intros]:
  assumes inv: "atts_inv st"
  shows "atts_inv (messageAttachmentReferenced st time a mid ref)"
proof (cases "find_message st mid")
  case None
  then have "mid \<notin> message_id ` set (messages st)"
    by (auto simp: find_message_def find_index_None_iff)
  with inv not_linked_absent [OF inv None, of "attachment_id ref"] None show ?thesis
    by (auto simp: messageAttachmentReferenced_def Let_def atts_inv_def intro!: atts_ok_placeholder)
next
  case (Some i)
  then have find: "find_index (\<lambda>x. message_id x = mid) (messages st) = Some i"
    by (simp add: find_message_def)
  note agree = linked_agree [OF inv Some, of "attachment_id ref"]
  show ?thesis
  proof (cases "list_ex (\<lambda>r. attachment_id r = attachment_id ref) (message_attachments (messages st ! i))")
    case True
    with agree Some inv show ?thesis by (simp add: messageAttachmentReferenced_def Let_def)
  next
    case False
    with agree Some inv found_message(2) [OF Some] show ?thesis
      by (auto simp: messageAttachmentReferenced_def updateMessages_def Let_def atts_inv_def
          intro!: atts_ok_link [OF _ find])
  qed
qed

section \<open>Placeholders and the shape of an operation\<close>

text \<open>
  A placeholder (a message only referenced so far) has no role, time, attribution, content
  or turn; a message that streams from a turn is the assistant's.
\<close>

definition message_wf :: "ConversationMessageRecord \<Rightarrow> bool" where
  "message_wf m \<longleftrightarrow>
     (role m = None \<longleftrightarrow> created_at m = None) \<and>
     (role m = None \<longleftrightarrow> message_attribution m = None) \<and>
     (role m = None \<longrightarrow> content m = [] \<and> message_turn_id m = None) \<and>
     (message_turn_id m \<noteq> None \<longrightarrow> role m = Some AssistantRole)"

definition messages_wf :: "ConversationState \<Rightarrow> bool" where
  "messages_wf st \<longleftrightarrow> (\<forall>m\<in>set (messages st). message_wf m)"

lemma placeholder_message_wf [simp]: "message_wf (placeholder_message mid refs)"
  by (simp add: message_wf_def placeholder_message_def)

lemma messages_wf_update:
  "messages_wf st \<Longrightarrow> message_wf m \<Longrightarrow> messages_wf (updateMessages st i m)"
  by (auto simp: messages_wf_def updateMessages_def dest!: set_update_subset_insert [THEN subsetD])

lemma found_message_wf:
  "messages_wf st \<Longrightarrow> find_message st mid = Some i \<Longrightarrow> message_wf (messages st ! i)"
  using found_message(3) by (auto simp: messages_wf_def)

definition messages_only :: "ConversationState \<Rightarrow> ConversationState \<Rightarrow> bool" where
  "messages_only st st' \<longleftrightarrow>
     (\<exists>ms as cs. st' = st\<lparr>messages := ms, attachments := as, state_citations := cs\<rparr> \<and>
        messages_extend (messages st) ms \<and> (\<exists>new. as = attachments st @ new))"

lemma messages_only_refl [simp]: "messages_only st st"
  unfolding messages_only_def
  by (rule exI [of _ "messages st"], rule exI [of _ "attachments st"],
      rule exI [of _ "state_citations st"]) simp

lemma messages_onlyI:
  assumes "st' = st\<lparr>messages := messages st', attachments := attachments st',
      state_citations := state_citations st'\<rparr>"
    and "messages_extend (messages st) (messages st')" and "\<exists>new. attachments st' = attachments st @ new"
  shows "messages_only st st'"
  using assms unfolding messages_only_def by blast

lemma message_update_extends:
  assumes "find_message st mid = Some i" and "message_extends (messages st ! i) m"
  shows "messages_extend (messages st) ((messages st)[i := m])"
  using extends_by_update [OF message_extends_refl found_message(1) [OF assms(1)] assms(2)] .

lemma messageCreated_only:
  assumes "messages_wf st"
  shows "messages_only st (messageCreated st time a mid r c)"
proof (rule messages_onlyI)
  show "messages_extend (messages st) (messages (messageCreated st time a mid r c))"
  proof (cases "find_message st mid")
    case (Some i)
    with found_message_wf [OF assms Some] show ?thesis
      by (auto simp: messageCreated_def Let_def updateMessages_def message_extends_def message_wf_def
          intro!: message_update_extends)
  qed (simp add: messageCreated_def)
qed (auto simp: messageCreated_def Let_def updateMessages_def removeCitationsForAssistantMessage_def
    split: option.split)

lemma messageTextAppended_only:
  "messages_only st (messageTextAppended st time a tid mid text)"
proof (rule messages_onlyI)
  show "messages_extend (messages st) (messages (messageTextAppended st time a tid mid text))"
  proof (cases "find_message st mid")
    case (Some i)
    then show ?thesis
      by (auto simp: messageTextAppended_def Let_def updateMessages_def message_extends_def keeps_def
          intro!: message_update_extends split: option.split)
  qed (simp add: messageTextAppended_def)
qed (auto simp: messageTextAppended_def Let_def updateMessages_def split: option.split)

lemma messageAttachmentReferenced_only:
  "messages_only st (messageAttachmentReferenced st time a mid ref)"
proof (rule messages_onlyI)
  show "messages_extend (messages st) (messages (messageAttachmentReferenced st time a mid ref))"
  proof (cases "find_message st mid")
    case (Some i)
    then show ?thesis
      by (auto simp: messageAttachmentReferenced_def Let_def updateMessages_def message_extends_def
          intro!: message_update_extends)
  qed (simp add: messageAttachmentReferenced_def Let_def)
qed (auto simp: messageAttachmentReferenced_def Let_def updateMessages_def split: option.split)

lemma messageCreated_messages_wf [inv_intros]:
  assumes "messages_wf st"
  shows "messages_wf (messageCreated st time a mid r c)"
proof (cases "find_message st mid")
  case None
  with assms show ?thesis by (auto simp: messageCreated_def messages_wf_def message_wf_def)
next
  case (Some i)
  note wf = found_message_wf [OF assms Some]
  have removed: "messages_wf (removeCitationsForAssistantMessage s m) = messages_wf s" for s m
    by (simp add: messages_wf_def)
  have "message_wf ((messages st ! i)\<lparr>role := Some r, content := c, created_at := Some time,
      message_attribution := Some a\<rparr>)" if "role (messages st ! i) = None"
    using wf that by (simp add: message_wf_def)
  from messages_wf_update [OF assms this, of i] Some assms show ?thesis
    by (auto simp: messageCreated_def Let_def removed)
qed

lemma messageTextAppended_messages_wf [inv_intros]:
  assumes "messages_wf st"
  shows "messages_wf (messageTextAppended st time a tid mid text)"
proof (cases "find_message st mid")
  case None
  with assms show ?thesis by (auto simp: messageTextAppended_def messages_wf_def message_wf_def)
next
  case (Some i)
  let ?m = "messages st ! i"
  have "message_wf (?m\<lparr>message_turn_id := Some tid, role := Some AssistantRole,
      content := appendMessageText (content ?m) text,
      created_at := (case created_at ?m of Some t \<Rightarrow> Some t | None \<Rightarrow> Some time),
      message_attribution := (case message_attribution ?m of Some x \<Rightarrow> Some x | None \<Rightarrow> Some a)\<rparr>)"
    by (simp add: message_wf_def split: option.split)
  from messages_wf_update [OF assms this] Some assms show ?thesis
    by (simp add: messageTextAppended_def Let_def)
qed

lemma messageAttachmentReferenced_messages_wf [inv_intros]:
  assumes "messages_wf st"
  shows "messages_wf (messageAttachmentReferenced st time a mid ref)"
proof (cases "find_message st mid")
  case None
  with assms show ?thesis by (auto simp: messageAttachmentReferenced_def Let_def messages_wf_def)
next
  case (Some i)
  have attachments: "messages_wf (s\<lparr>attachments := as\<rparr>) = messages_wf s" for s as
    by (simp add: messages_wf_def)
  have "message_wf ((messages st ! i)\<lparr>message_attachments := message_attachments (messages st ! i) @ [ref]\<rparr>)"
    using found_message_wf [OF assms Some] by (auto simp: message_wf_def)
  from messages_wf_update [OF assms this] Some assms show ?thesis
    by (simp add: messageAttachmentReferenced_def Let_def attachments)
qed

end
