(* ===== verification/ReducerCitations.thy ===== *)
theory ReducerCitations
  imports ReducerMessages EventValidation
begin

text \<open>
  The citation graph under the reducer: identities are unique, every citation has its
  source in the projection, and its target is a known tool call or a message that is
  not known to be another role's. The events carry validated citation records, which
  is what \<open>parseConversationEvent\<close> accepts.
\<close>

section \<open>Merging records by identity\<close>

lemma merge_by_identity_result:
  assumes "merge_by_identity identity kept rs = Some out" and "distinct (map identity kept)"
  shows "distinct (map identity out)" and "set out = set kept \<union> set rs"
    and "\<exists>new. out = kept @ new"
proof -
  have "distinct (map identity out) \<and> set out = set kept \<union> set rs \<and> (\<exists>new. out = kept @ new)"
    using assms
  proof (induction identity kept rs rule: merge_by_identity.induct)
    case (2 identity kept r rs)
    show ?case
    proof (cases "List.find (\<lambda>c. identity c = identity r) kept")
      case None
      with 2 have "distinct (map identity (kept @ [r]))" by (auto simp: find_None_iff)
      with 2 None show ?thesis by auto
    next
      case (Some e)
      then have "e \<in> set kept" by (auto simp: find_Some_iff)
      with 2 Some show ?thesis by (auto split: if_splits)
    qed
  qed simp
  then show "distinct (map identity out)" and "set out = set kept \<union> set rs"
    and "\<exists>new. out = kept @ new" by blast+
qed

text \<open>A conflict is a new record that disagrees with a kept one of the same identity.\<close>

lemma merge_by_identity_None:
  assumes "merge_by_identity identity kept rs = None" and "distinct (map identity rs)"
  shows "\<exists>r\<in>set rs. \<exists>e\<in>set kept. identity e = identity r \<and> e \<noteq> r"
  using assms
proof (induction identity kept rs rule: merge_by_identity.induct)
  case (2 identity kept r rs)
  show ?case
  proof (cases "List.find (\<lambda>c. identity c = identity r) kept")
    case None
    with 2 obtain q e where "q \<in> set rs" "e \<in> insert r (set kept)" "identity e = identity q" "e \<noteq> q"
      by fastforce
    with 2(4) show ?thesis by force
  next
    case (Some e)
    then have "e \<in> set kept" "identity e = identity r" by (auto simp: find_Some_iff)
    with 2 Some show ?thesis by (cases "e = r") auto
  qed
qed simp

section \<open>Validated citation payloads\<close>

definition normalized_records :: "host \<Rightarrow> CitationRecordSet \<Rightarrow> bool" where
  "normalized_records H r \<longleftrightarrow> normalizeCitationRecords H (records_json r) = Inr r"

fun validated_citations :: "host \<Rightarrow> ConversationEventPayload \<Rightarrow> bool" where
  "validated_citations H (CitationRecordsLinked target ss cs) =
     (normalized_records H \<lparr>sources = ss, citations = cs\<rparr> \<and> cs \<noteq> [] \<and>
      (\<forall>c\<in>set cs. citation_at_target target (citation_target c)))"
| "validated_citations H (ToolCallResultRecorded tid tcid parts err (Some r)) =
     (normalized_records H r \<and> citations r \<noteq> [] \<and>
      (\<forall>c\<in>set (citations r). citation_target c = ToolResultCitationTarget tcid))"
| "validated_citations H _ = True"

lemma normalized_wf: "normalized_records H r \<Longrightarrow> wf_record_set r"
  by (auto simp: normalized_records_def dest: normalizeCitationRecords_wf)

section \<open>The invariant\<close>

definition citable :: "ConversationMessageRecord \<Rightarrow> bool" where
  "citable m \<longleftrightarrow> role m = None \<or> role m = Some AssistantRole"

fun target_present ::
    "ConversationMessageRecord list \<Rightarrow> ConversationToolCallRecord list \<Rightarrow> CitationAttachmentTarget \<Rightarrow> bool"
where
  "target_present ms cs (AssistantMessageCitationTarget mid) = (\<exists>m\<in>set ms. message_id m = mid \<and> citable m)"
| "target_present ms cs (ToolResultCitationTarget tcid) = (\<exists>c\<in>set cs. tool_call_id c = tcid)"

definition citations_inv :: "ConversationState \<Rightarrow> bool" where
  "citations_inv st \<longleftrightarrow>
     distinct (map source_id (citation_sources st)) \<and>
     distinct (map citation_id (state_citations st)) \<and>
     (\<forall>c\<in>set (state_citations st). cited_source_id c \<in> source_id ` set (citation_sources st)) \<and>
     (\<forall>c\<in>set (state_citations st). target_present (messages st) (tool_calls st) (citation_target c))"

text \<open>Messages that stay citable, calls that stay present.\<close>

definition stays_citable ::
    "ConversationMessageRecord list \<Rightarrow> ConversationMessageRecord list \<Rightarrow> bool" where
  "stays_citable ms ms' \<longleftrightarrow>
     (\<forall>m\<in>set ms. citable m \<longrightarrow> (\<exists>m'\<in>set ms'. message_id m' = message_id m \<and> citable m'))"

lemma stays_citable_refl [simp]: "stays_citable ms ms"
  by (auto simp: stays_citable_def)

lemma stays_citable_append [simp]: "stays_citable ms (ms @ [m])"
  by (auto simp: stays_citable_def)

lemma stays_citable_update:
  assumes "i < length ms" and "message_id m = message_id (ms ! i)" and "citable (ms ! i) \<Longrightarrow> citable m"
  shows "stays_citable ms (ms[i := m])"
  unfolding stays_citable_def
proof (intro ballI impI)
  fix x assume "x \<in> set ms" "citable x"
  then obtain j where j: "j < length ms" "x = ms ! j" by (auto simp: in_set_conv_nth)
  then have "ms[i := m] ! j \<in> set (ms[i := m])" by (intro nth_mem) simp
  moreover have "message_id (ms[i := m] ! j) = message_id x \<and> citable (ms[i := m] ! j)"
    using j assms \<open>citable x\<close> by (auto simp: nth_list_update)
  ultimately show "\<exists>m'\<in>set (ms[i := m]). message_id m' = message_id x \<and> citable m'" by blast
qed

lemma target_present_mono:
  assumes "stays_citable ms ms'" and "calls_extend cs cs'" and "target_present ms cs t"
  shows "target_present ms' cs' t"
proof (cases t)
  case (AssistantMessageCitationTarget x)
  with assms show ?thesis by (auto simp: stays_citable_def)
next
  case (ToolResultCitationTarget x)
  with assms(2,3) show ?thesis by (fastforce simp: extends_by_def call_extends_def)
qed

lemma citations_inv_mono:
  assumes "citations_inv st" and "stays_citable (messages st) (messages st')"
    and "calls_extend (tool_calls st) (tool_calls st')"
    and "citation_sources st' = citation_sources st"
    and "set (state_citations st') \<subseteq> set (state_citations st)"
    and "distinct (map citation_id (state_citations st'))"
  shows "citations_inv st'"
  using assms unfolding citations_inv_def by (auto intro: target_present_mono)

section \<open>The operations on messages\<close>

lemma messageTextAppended_citable [simp]:
  "stays_citable (messages st) (messages (messageTextAppended st time a tid mid text))"
  by (auto simp: messageTextAppended_def Let_def updateMessages_def citable_def
      dest: found_message(1) intro!: stays_citable_update split: option.split)

lemma messageAttachmentReferenced_citable [simp]:
  "stays_citable (messages st) (messages (messageAttachmentReferenced st time a mid ref))"
  by (auto simp: messageAttachmentReferenced_def Let_def updateMessages_def citable_def
      dest: found_message(1) intro!: stays_citable_update split: option.split)

lemma message_operations_frame [simp]:
  "tool_calls (messageTextAppended st time a tid mid text) = tool_calls st"
  "citation_sources (messageTextAppended st time a tid mid text) = citation_sources st"
  "state_citations (messageTextAppended st time a tid mid text) = state_citations st"
  "tool_calls (messageAttachmentReferenced st time a mid ref) = tool_calls st"
  "citation_sources (messageAttachmentReferenced st time a mid ref) = citation_sources st"
  "state_citations (messageAttachmentReferenced st time a mid ref) = state_citations st"
  "tool_calls (messageCreated st time a mid r c) = tool_calls st"
  "citation_sources (messageCreated st time a mid r c) = citation_sources st"
  by (auto simp: messageTextAppended_def messageAttachmentReferenced_def messageCreated_def
      Let_def updateMessages_def split: option.split)

text \<open>
  Giving a cited placeholder another role than the assistant's removes its citations; the
  messages with the other identities are untouched.
\<close>

lemma messageCreated_citations [inv_intros]:
  assumes "citations_inv st" and d: "distinct (map message_id (messages st))"
  shows "citations_inv (messageCreated st time a mid r c)"
proof (cases "find_message st mid")
  case None
  with assms show ?thesis
    by (intro citations_inv_mono [OF assms(1)]) (auto simp: messageCreated_def citations_inv_def)
next
  case (Some i)
  note m = found_message [OF Some]
  let ?m' = "(messages st ! i)\<lparr>role := Some r, content := c, created_at := Some time,
      message_attribution := Some a\<rparr>"
  show ?thesis
  proof (cases "role (messages st ! i) = None \<and> r \<noteq> AssistantRole")
    case False
    then have "stays_citable (messages st) (messages (messageCreated st time a mid r c))"
      and "state_citations (messageCreated st time a mid r c) = state_citations st"
      using Some m(1) by (auto simp: messageCreated_def Let_def updateMessages_def citable_def
          intro!: stays_citable_update)
    with assms(1) show ?thesis
      by (intro citations_inv_mono [OF assms(1)]) (auto simp: citations_inv_def)
  next
    case True
    with Some have eq: "messageCreated st time a mid r c =
        removeCitationsForAssistantMessage (updateMessages st i ?m') mid"
      by (simp add: messageCreated_def Let_def)
    have find: "find_index (\<lambda>x. message_id x = mid) (messages st) = Some i"
      using Some by (simp add: find_message_def)
    have set_ms: "set ((messages st)[i := ?m']) = insert ?m' {x \<in> set (messages st). message_id x \<noteq> mid}"
      by (rule set_update_keyed [OF d find])
    have "target_present ((messages st)[i := ?m']) (tool_calls st) t"
      if "target_present (messages st) (tool_calls st) t" "\<not> targets_message mid t" for t
      using that by (cases t) (auto simp: set_ms)
    with assms(1) show ?thesis
      by (auto simp: eq citations_inv_def updateMessages_def distinct_map intro: inj_on_subset)
  qed
qed

section \<open>Linking citation records\<close>

lemma mergeCitationRecords_result:
  assumes "citations_inv st" and "wf_record_set r" and "mergeCitationRecords st r = Some st'"
  shows "distinct (map source_id (citation_sources st'))"
    and "distinct (map citation_id (state_citations st'))"
    and "set (citation_sources st') = set (citation_sources st) \<union> set (sources r)"
    and "set (state_citations st') = set (state_citations st) \<union> set (citations r)"
    and "\<exists>ss cs. st' = st\<lparr>citation_sources := ss, state_citations := cs\<rparr>"
  using assms
  by (auto simp: mergeCitationRecords_def citations_inv_def
      dest: merge_by_identity_result split: option.splits)

text \<open>Either the records conflict or the target is another role's or another turn's, and
  nothing is linked; or they are all linked, behind what was there.\<close>

lemma citationRecordsLinked_cases:
  assumes "normalized_records H \<lparr>sources = ss, citations = cs\<rparr>"
  obtains (ignored) "citationRecordsLinked H st target ss cs = Inr st"
  | (linked) merged where "mergeCitationRecords st \<lparr>sources = ss, citations = cs\<rparr> = Some merged"
      and "citationRecordsLinked H st target ss cs = Inr (citationTargetLinked st merged target)"
      and "citationTargetLinked st merged target \<noteq> st \<or> merged = st"
  using assms
  by (cases "mergeCitationRecords st \<lparr>sources = ss, citations = cs\<rparr>")
    (auto simp: citationRecordsLinked_def normalized_records_def)

lemma citationRecordsLinked_total:
  "normalized_records H \<lparr>sources = ss, citations = cs\<rparr> \<Longrightarrow>
   \<exists>st'. citationRecordsLinked H st target ss cs = Inr st'"
  by (cases rule: citationRecordsLinked_cases [of H ss cs st target]) auto

lemma linked_target_present:
  assumes "mergeCitationRecords st r = Some merged" and "citation_at_target target t"
    and "citationTargetLinked st merged target \<noteq> st"
  shows "target_present (messages (citationTargetLinked st merged target))
           (tool_calls (citationTargetLinked st merged target)) t"
proof -
  have same: "messages merged = messages st" "tool_calls merged = tool_calls st"
    using assms(1) by (auto simp: mergeCitationRecords_def split: option.splits)
  show ?thesis
  proof (cases target)
    case (AssistantMessageTarget mid)
    show ?thesis
    proof (cases "find_message st mid")
      case None
      with AssistantMessageTarget assms(2) show ?thesis
        by (auto simp: placeholder_message_def citable_def)
    next
      case (Some i)
      with AssistantMessageTarget assms(2,3) found_message [OF Some] show ?thesis
        by (auto simp: same citable_def split: if_splits)
    qed
  next
    case (ToolResultTarget tid tcid)
    show ?thesis
    proof (cases "find_tool_call st tcid")
      case None
      with ToolResultTarget assms(2) show ?thesis by auto
    next
      case (Some i)
      with ToolResultTarget assms(2,3) found_call [OF Some] show ?thesis
        by (auto simp: same split: if_splits)
    qed
  qed
qed

lemma citationTargetLinked_frame:
  assumes "mergeCitationRecords st r = Some merged"
  shows "stays_citable (messages st) (messages (citationTargetLinked st merged target))"
    and "calls_extend (tool_calls st) (tool_calls (citationTargetLinked st merged target))"
    and "citationTargetLinked st merged target = st \<or>
         (citation_sources (citationTargetLinked st merged target) = citation_sources merged \<and>
          state_citations (citationTargetLinked st merged target) = state_citations merged)"
proof -
  have same: "messages merged = messages st" "tool_calls merged = tool_calls st"
    using assms by (auto simp: mergeCitationRecords_def split: option.splits)
  show "stays_citable (messages st) (messages (citationTargetLinked st merged target))"
    and "calls_extend (tool_calls st) (tool_calls (citationTargetLinked st merged target))"
    and "citationTargetLinked st merged target = st \<or>
         (citation_sources (citationTargetLinked st merged target) = citation_sources merged \<and>
          state_citations (citationTargetLinked st merged target) = state_citations merged)"
    by (cases target; auto simp: same split: option.split)+
qed

lemma citationRecordsLinked_citations [inv_intros]:
  assumes inv: "citations_inv st" and ok: "validated_citations H (CitationRecordsLinked target ss cs)"
    and st': "citationRecordsLinked H st target ss cs = Inr st'"
  shows "citations_inv st'"
proof -
  from ok have norm: "normalized_records H \<lparr>sources = ss, citations = cs\<rparr>" by simp
  note wf = normalized_wf [OF norm]
  show ?thesis
  proof (cases rule: citationRecordsLinked_cases [OF norm, of st target])
    case 1
    with st' inv show ?thesis by simp
  next
    case (2 merged)
    note merged = mergeCitationRecords_result [OF inv wf 2(1)]
    let ?new = "citationTargetLinked st merged target"
    have st': "st' = ?new" using 2(2) st' by simp
    show ?thesis
    proof (cases "?new = st")
      case True
      with st' inv show ?thesis by simp
    next
      case False
      with citationTargetLinked_frame(3) [OF 2(1), of target]
      have fields: "citation_sources ?new = citation_sources merged"
        "state_citations ?new = state_citations merged" by auto
      have "target_present (messages ?new) (tool_calls ?new) (citation_target c)"
        if "c \<in> set (state_citations st) \<union> set cs" for c
        using that
      proof
        assume "c \<in> set (state_citations st)"
        with inv show ?thesis
          by (auto simp: citations_inv_def intro: target_present_mono
              [OF citationTargetLinked_frame(1,2) [OF 2(1)]])
      next
        assume "c \<in> set cs"
        with ok False show ?thesis by (intro linked_target_present [OF 2(1)]) auto
      qed
      moreover have "cited_source_id c \<in> source_id ` (set (citation_sources st) \<union> set ss)"
        if "c \<in> set (state_citations st) \<union> set cs" for c
        using that inv wf by (auto simp: citations_inv_def wf_record_set_def)
      ultimately show ?thesis
        using merged unfolding st' citations_inv_def fields by simp
    qed
  qed
qed

section \<open>What linking leaves alone\<close>

definition citations_only :: "ConversationState \<Rightarrow> ConversationState \<Rightarrow> bool" where
  "citations_only st st' \<longleftrightarrow>
     (\<exists>ms ts ss cs. st' = st\<lparr>messages := ms, tool_calls := ts, citation_sources := ss,
          state_citations := cs\<rparr> \<and>
        (ms = messages st \<or> (\<exists>mid. ms = messages st @ [placeholder_message mid []] \<and>
           find_message st mid = None)) \<and>
        (ts = tool_calls st \<or> (\<exists>tid tcid. ts = tool_calls st @ [placeholder_tool_call tcid tid] \<and>
           find_tool_call st tcid = None)) \<and>
        set (citation_sources st) \<subseteq> set ss \<and> set (state_citations st) \<subseteq> set cs)"

lemma citations_onlyI:
  assumes "st' = st\<lparr>messages := ms, tool_calls := ts, citation_sources := ss, state_citations := cs\<rparr>"
    and "ms = messages st \<or> (\<exists>mid. ms = messages st @ [placeholder_message mid []] \<and>
           find_message st mid = None)"
    and "ts = tool_calls st \<or> (\<exists>tid tcid. ts = tool_calls st @ [placeholder_tool_call tcid tid] \<and>
           find_tool_call st tcid = None)"
    and "set (citation_sources st) \<subseteq> set ss" and "set (state_citations st) \<subseteq> set cs"
  shows "citations_only st st'"
  using assms unfolding citations_only_def by blast

lemma citations_only_refl [simp]: "citations_only st st"
  by (rule citations_onlyI [where ms = "messages st" and ts = "tool_calls st" and ss = "citation_sources st" and cs = "state_citations st"])
    simp_all

lemma citationRecordsLinked_only:
  assumes inv: "citations_inv st" and st': "citationRecordsLinked H st target ss cs = Inr st'"
  shows "citations_only st st'"
proof -
  from st' obtain r where st': "(case mergeCitationRecords st r of None \<Rightarrow> Inr st
      | Some merged \<Rightarrow> Inr (citationTargetLinked st merged target)) = (Inr st' :: fault + ConversationState)"
    by (auto simp: citationRecordsLinked_def)
  show ?thesis
  proof (cases "mergeCitationRecords st r")
    case None
    with st' show ?thesis by simp
  next
    case (Some merged)
    then obtain ss' cs' where merged: "merged = st\<lparr>citation_sources := ss', state_citations := cs'\<rparr>"
      and "merge_by_identity source_id (citation_sources st) (sources r) = Some ss'"
      and "merge_by_identity citation_id (state_citations st) (citations r) = Some cs'"
      by (auto simp: mergeCitationRecords_def split: option.splits)
    with inv have sub: "set (citation_sources st) \<subseteq> set ss'" "set (state_citations st) \<subseteq> set cs'"
      by (auto simp: citations_inv_def dest: merge_by_identity_result(2))
    have "citations_only st (citationTargetLinked st merged target)"
    proof (cases target)
      case (AssistantMessageTarget mid)
      have "citations_only st merged"
        by (rule citations_onlyI [where ms = "messages st" and ts = "tool_calls st" and ss = ss' and cs = cs']) (simp_all add: merged sub)
      moreover have "citations_only st (merged\<lparr>messages := messages merged @ [placeholder_message mid []]\<rparr>)"
        if "find_message st mid = None"
        by (rule citations_onlyI [where ms = "messages st @ [placeholder_message mid []]" and ts = "tool_calls st" and ss = ss' and cs = cs'])
          (use that in \<open>simp_all add: merged sub\<close>, blast)
      ultimately show ?thesis using AssistantMessageTarget by (auto split: option.split)
    next
      case (ToolResultTarget tid tcid)
      have "citations_only st merged"
        by (rule citations_onlyI [where ms = "messages st" and ts = "tool_calls st" and ss = ss' and cs = cs']) (simp_all add: merged sub)
      moreover have "citations_only st (merged\<lparr>tool_calls := tool_calls merged @ [placeholder_tool_call tcid tid]\<rparr>)"
        if "find_tool_call st tcid = None"
        by (rule citations_onlyI [where ms = "messages st" and ts = "tool_calls st @ [placeholder_tool_call tcid tid]" and ss = ss' and cs = cs'])
          (use that in \<open>simp_all add: merged sub\<close>, blast)
      ultimately show ?thesis using ToolResultTarget by (auto split: option.split)
    qed
    with Some st' show ?thesis by simp
  qed
qed

lemma citations_only_messages:
  assumes "citations_only st st'"
  shows "messages_extend (messages st) (messages st')" and "calls_extend (tool_calls st) (tool_calls st')"
    and "messages_wf st \<Longrightarrow> messages_wf st'" and "calls_inv st \<Longrightarrow> calls_inv st'"
    and "atts_inv st \<Longrightarrow> atts_inv st'"
proof -
  from assms obtain ms ts ss cs where st': "st' = st\<lparr>messages := ms, tool_calls := ts,
      citation_sources := ss, state_citations := cs\<rparr>"
    and ms: "ms = messages st \<or> (\<exists>mid. ms = messages st @ [placeholder_message mid []] \<and>
           find_message st mid = None)"
    and ts: "ts = tool_calls st \<or> (\<exists>tid tcid. ts = tool_calls st @ [placeholder_tool_call tcid tid] \<and>
           find_tool_call st tcid = None)"
    unfolding citations_only_def by blast
  show "messages_extend (messages st) (messages st')" using ms by (auto simp: st')
  show "calls_extend (tool_calls st) (tool_calls st')" using ts by (auto simp: st')
  show "messages_wf st'" if "messages_wf st" using that ms by (auto simp: st' messages_wf_def)
  show "calls_inv st'" if "calls_inv st"
  proof -
    have "calls_inv (st\<lparr>tool_calls := ts\<rparr>)" using ts that by (auto intro!: append_call_inv)
    then show ?thesis by (simp add: st' calls_inv_def)
  qed
  show "atts_inv st'" if "atts_inv st"
  proof -
    have "atts_inv (st\<lparr>messages := ms\<rparr>)"
      using ms that by (auto intro!: atts_inv_append_message simp: placeholder_message_def)
    then show ?thesis by (simp add: st' atts_inv_def)
  qed
qed

end
