(* ===== verification/EventFacts.thy ===== *)
theory EventFacts
  imports ReducerCitations
begin

text \<open>
  What a parsed event is: the JSON it carries is within the limits, at every depth, and
  free of forbidden fields and credentials; its identifiers and timestamps are valid; its
  citation records are in normal form, so the reducer cannot throw on it.
\<close>

section \<open>JSON within limits\<close>

text \<open>The declarative form of \<open>visit\<close>: the counts and the test of every node.\<close>

fun json_nodes :: "json \<Rightarrow> nat" where
  "json_nodes (JArr xs) = Suc (sum_list (map json_nodes xs))"
| "json_nodes (JObj kvs) = Suc (sum_list (map (\<lambda>kv. json_nodes (snd kv)) kvs))"
| "json_nodes _ = 1"

fun within_depth :: "nat \<Rightarrow> json \<Rightarrow> bool" where
  "within_depth n (JArr xs) = list_all (\<lambda>x. 0 < n \<and> within_depth (n - 1) x) xs"
| "within_depth n (JObj kvs) = list_all (\<lambda>kv. 0 < n \<and> within_depth (n - 1) (snd kv)) kvs"
| "within_depth n _ = True"

definition string_allowed :: "JsonLimits \<Rightarrow> string \<Rightarrow> bool" where
  "string_allowed L s \<longleftrightarrow>
     length s \<le> maxStringLength L \<and> \<not> has_credential s \<and>
     normalizeFieldName s \<notin> set (forbiddenStringValues L) \<and>
     \<not> (forbidBinaryStrings L \<and> has_binary_content s)"

definition key_allowed :: "JsonLimits \<Rightarrow> string \<Rightarrow> bool" where
  "key_allowed L k \<longleftrightarrow>
     k \<noteq> [] \<and> length k \<le> maxKeyLength L \<and> normalizeFieldName k \<notin> set (forbiddenFields L)"

fun json_conforms :: "JsonLimits \<Rightarrow> json \<Rightarrow> bool" where
  "json_conforms L (JNum n) = isFinite n"
| "json_conforms L (JStr s) = string_allowed L s"
| "json_conforms L (JArr xs) = (length xs \<le> maxArrayLength L \<and> list_all (json_conforms L) xs)"
| "json_conforms L (JObj kvs) =
     (length kvs \<le> maxObjectKeys L \<and>
      list_all (\<lambda>kv. key_allowed L (fst kv) \<and> json_conforms L (snd kv)) kvs)"
| "json_conforms L _ = True"

lemma json_nodes_pos: "1 \<le> json_nodes v"
  by (cases v) auto

text \<open>A loop that adds up nodes under a budget.\<close>

lemma fold_result_count:
  assumes "\<And>n x m. x \<in> set xs \<Longrightarrow> f n x = Inr m \<longleftrightarrow> m = n + w x \<and> m \<le> B \<and> ok x"
    and "\<And>x. x \<in> set xs \<Longrightarrow> 0 < (w x :: nat)"
  shows "fold_result f n xs = Inr m \<longleftrightarrow>
    m = n + sum_list (map w xs) \<and> (xs = [] \<or> m \<le> B) \<and> list_all ok xs"
  using assms
proof (induction xs arbitrary: n)
  case (Cons x xs)
  have "fold_result f n (x # xs) = Inr m \<longleftrightarrow>
      n + w x \<le> B \<and> ok x \<and> fold_result f (n + w x) xs = Inr m"
  proof (cases "f n x")
    case (Inl e)
    with Cons.prems(1) [of x n "n + w x"] show ?thesis by auto
  next
    case (Inr b)
    with Cons.prems(1) [of x n b] show ?thesis by auto
  qed
  also have "\<dots> \<longleftrightarrow> n + w x \<le> B \<and> ok x \<and> m = n + w x + sum_list (map w xs) \<and>
      (xs = [] \<or> m \<le> B) \<and> list_all ok xs"
    using Cons by simp
  finally show ?case by auto
qed auto

lemma visit_iff:
  "visit L base path d n v = Inr m \<longleftrightarrow>
    d \<le> maxDepth L \<and> m = n + json_nodes v \<and> m \<le> maxNodes L \<and>
    within_depth (maxDepth L - d) v \<and> json_conforms L v"
proof (induction L base path d n v arbitrary: m rule: visit.induct)
  case (1 L base path d n v)
  show ?case
  proof (cases "n + 1 > maxNodes L \<or> d > maxDepth L")
    case True
    with json_nodes_pos [of v] show ?thesis by (auto simp: visit.simps [of L base path d n v])
  next
    case ok: False
    then have budget: "\<not> maxNodes L < n + 1" "\<not> maxDepth L < d" by auto
    show ?thesis
    proof (cases v)
      case (JArr xs)
      show ?thesis
      proof (cases "maxArrayLength L < length xs")
        case True
        with ok JArr show ?thesis by (simp add: visit.simps [of L base path d n "JArr xs"])
      next
        case short: False
        let ?f = "\<lambda>k (i, x). visit L base (item_path path i) (d + 1) k x"
        let ?ok = "\<lambda>x. d < maxDepth L \<and> within_depth (maxDepth L - (d + 1)) x \<and> json_conforms L x"
        have child: "?f k p = Inr r \<longleftrightarrow> r = k + json_nodes (snd p) \<and> r \<le> maxNodes L \<and> ?ok (snd p)"
          if "p \<in> set (indexed xs)" for k p r
          using 1(1) [OF refl budget JArr short that, of "fst p" "snd p" k r] by (cases p) auto
        have "fold_result ?f (n + 1) (indexed xs) = Inr m \<longleftrightarrow>
            m = n + 1 + sum_list (map (\<lambda>p. json_nodes (snd p)) (indexed xs)) \<and>
            (indexed xs = [] \<or> m \<le> maxNodes L) \<and> list_all (\<lambda>p. ?ok (snd p)) (indexed xs)"
          by (rule fold_result_count [OF child]) (auto intro: json_nodes_pos [THEN less_le_trans [OF zero_less_one]])
        then have "fold_result ?f (n + 1) (indexed xs) = Inr m \<longleftrightarrow>
            m = n + 1 + sum_list (map json_nodes xs) \<and> (xs = [] \<or> m \<le> maxNodes L) \<and> list_all ?ok xs"
          by (simp only: indexed_map indexed_list_all [of ?ok] indexed_Nil)
        then show ?thesis using ok JArr short
          by (auto simp: visit.simps [of L base path d n "JArr xs"] list_all_iff)
      qed
    next
      case (JObj kvs)
      show ?thesis
      proof (cases "maxObjectKeys L < length kvs")
        case True
        with ok JObj show ?thesis by (simp add: visit.simps [of L base path d n "JObj kvs"])
      next
        case short: False
        let ?f = "\<lambda>k (key, x).
            if key = [] \<or> length key > maxKeyLength L
            then fail (path @ ''.'' @ key)
                   (''field names must be 1-'' @ nat_digits (maxKeyLength L) @ '' characters'')
            else if normalizeFieldName key \<in> set (forbiddenFields L)
            then fail (path @ ''.'' @ key) ''is forbidden in durable public data''
            else visit L base (path @ ''.'' @ key) (d + 1) k x"
        let ?ok = "\<lambda>p. d < maxDepth L \<and> within_depth (maxDepth L - (d + 1)) (snd p) \<and>
            key_allowed L (fst p) \<and> json_conforms L (snd p)"
        have child: "?f k p = Inr r \<longleftrightarrow> r = k + json_nodes (snd p) \<and> r \<le> maxNodes L \<and> ?ok p"
          if "p \<in> set kvs" for k p r
          using 1(2) [OF refl budget JObj short that, of "fst p" "snd p" k r]
          by (cases p) (auto simp: key_allowed_def)
        have "fold_result ?f (n + 1) kvs = Inr m \<longleftrightarrow>
            m = n + 1 + sum_list (map (\<lambda>p. json_nodes (snd p)) kvs) \<and>
            (kvs = [] \<or> m \<le> maxNodes L) \<and> list_all ?ok kvs"
          by (rule fold_result_count [OF child]) (auto intro: json_nodes_pos [THEN less_le_trans [OF zero_less_one]])
        then show ?thesis using ok JObj short
          by (auto simp: visit.simps [of L base path d n "JObj kvs"] list_all_iff)
      qed
    qed (use ok in \<open>auto simp: visit.simps [of L base path d n] string_allowed_def Let_def\<close>)
  qed
qed

text \<open>What is accepted, without the walk.\<close>

lemma validateJson_iff:
  "validateJson v path L = Inr u \<longleftrightarrow>
     json_nodes v \<le> maxNodes L \<and> within_depth (maxDepth L) v \<and> json_conforms L v"
  by (auto simp: validateJson_def visit_iff)

section \<open>Normalization is stable under reordered fields\<close>

lemma jsonValuesEqual_leaf [simp]:
  "jsonValuesEqual (JStr s) v \<longleftrightarrow> v = JStr s"
  "jsonValuesEqual (JNum n) v \<longleftrightarrow> v = JNum n"
  by (cases v; auto)+

lemma jsonValuesEqual_obj:
  assumes "jsonValuesEqual (JObj l) v"
  obtains r where "v = JObj r" and "fst ` set l = fst ` set r"
    and "\<forall>k x. map_of l k = Some x \<longrightarrow> (\<exists>w. map_of r k = Some w \<and> jsonValuesEqual x w)"
proof (cases v)
  case (JObj r)
  have eq: "jsonValuesEqual (JObj l) (JObj r)" using assms JObj by simp
  then have keys: "sort (map fst l) = sort (map fst r)"
    and vals: "\<And>k x. (k, x) \<in> set l \<Longrightarrow> \<exists>w. map_of r k = Some w \<and> jsonValuesEqual x w"
    by (auto simp: list_all_iff split: option.splits)
  have "fst ` set l = fst ` set r" using arg_cong [OF keys, of set] by simp
  with JObj vals show ?thesis by (intro that [of r]) (auto dest: map_of_SomeD)
qed (use assms in auto)

lemma jsonValuesEqual_fields:
  assumes "jsonValuesEqual (JObj l) v" and "\<forall>kx\<in>set l. (\<exists>s. snd kx = JStr s) \<or> (\<exists>n. snd kx = JNum n)"
  obtains r where "v = JObj r" and "map_of r = map_of l" and "fst ` set l = fst ` set r"
proof -
  obtain r where r: "v = JObj r" "fst ` set l = fst ` set r"
    "\<forall>k x. map_of l k = Some x \<longrightarrow> (\<exists>w. map_of r k = Some w \<and> jsonValuesEqual x w)"
    by (rule jsonValuesEqual_obj [OF assms(1)])
  have "map_of r k = map_of l k" for k
  proof (cases "map_of l k")
    case None
    with r(2) show ?thesis by (metis map_of_eq_None_iff)
  next
    case (Some x)
    then have "(\<exists>s. x = JStr s) \<or> (\<exists>n. x = JNum n)"
      using assms(2) by (metis map_of_SomeD snd_conv)
    with r(3) [rule_format, OF Some] Some show ?thesis by auto
  qed
  with r show ?thesis by (intro that [of r]) auto
qed

lemma allowedKeys_iff: "allowedKeys kvs keys path = Inr u \<longleftrightarrow> fst ` set kvs \<subseteq> set keys"
  by (auto simp: allowedKeys_def)

lemma requiredKeys_iff: "requiredKeys kvs keys path = Inr u \<longleftrightarrow> (\<forall>k\<in>set keys. has_own kvs k)"
  by (simp add: requiredKeys_def)

lemma normalizeCitationSource_stable:
  assumes "jsonValuesEqual (source_json s) v" and "normalizeCitationSource H v = Inr t"
  shows "normalizeCitationSource H (source_json s) = Inr t"
proof -
  obtain l where l: "source_json s = JObj l"
    and leaf: "\<forall>kx\<in>set l. (\<exists>s. snd kx = JStr s) \<or> (\<exists>n. snd kx = JNum n)"
    by (auto simp: source_json_def split: option.splits)
  from jsonValuesEqual_fields [OF assms(1) [unfolded l] leaf] obtain r where
    r: "v = JObj r" "map_of r = map_of l" "fst ` set l = fst ` set r" by blast
  have "allowedKeys r [''source_id'', ''type'', ''label'', ''locator''] ''$source'' = Inr ()"
    using assms(2) by (auto simp: r(1) normalizeCitationSource_def citation_record_def)
  moreover from this have "allowedKeys l [''source_id'', ''type'', ''label'', ''locator''] ''$source'' = Inr ()"
    by (simp add: allowedKeys_iff r(3))
  ultimately show ?thesis using assms(2)
    by (simp add: l r(1,2) normalizeCitationSource_def citation_record_def requiredKeys_def
        del: bind_result_Inr_iff cong: if_cong)
qed

lemma normalizeTarget_stable:
  assumes "jsonValuesEqual (target_json t) v" and "normalizeTarget (Some v) = Inr u"
  shows "normalizeTarget (Some (target_json t)) = Inr u"
proof -
  obtain l where l: "target_json t = JObj l"
    and leaf: "\<forall>kx\<in>set l. (\<exists>s. snd kx = JStr s) \<or> (\<exists>n. snd kx = JNum n)"
    by (cases t) auto
  from jsonValuesEqual_fields [OF assms(1) [unfolded l] leaf] obtain r where
    "v = JObj r" "map_of r = map_of l" "fst ` set l = fst ` set r" by blast
  with assms(2) show ?thesis
    unfolding l normalizeTarget_def bind_result_Inr_iff citation_record_def
    by (auto simp: allowedKeys_iff requiredKeys_iff split: if_splits)
qed

lemma normalizeCitation_stable:
  assumes "jsonValuesEqual (citation_json c) v" and "normalizeCitation v = Inr d"
  shows "normalizeCitation (citation_json c) = Inr d"
proof -
  let ?l = "[(''citation_id'', JStr (citation_id c)), (''source_id'', JStr (cited_source_id c)),
      (''order'', jint (citation_order c)), (''target'', target_json (citation_target c))]"
  obtain r where v: "v = JObj r" and keys: "fst ` set ?l = fst ` set r"
    and get: "\<forall>k x. map_of ?l k = Some x \<longrightarrow> (\<exists>w. map_of r k = Some w \<and> jsonValuesEqual x w)"
    by (rule jsonValuesEqual_obj [OF assms(1) [unfolded citation_json_def]])
  have fields: "map_of r ''citation_id'' = Some (JStr (citation_id c))"
      "map_of r ''source_id'' = Some (JStr (cited_source_id c))"
      "map_of r ''order'' = Some (jint (citation_order c))"
    and tgt: "\<exists>w. map_of r ''target'' = Some w \<and> jsonValuesEqual (target_json (citation_target c)) w"
    using get [THEN spec, of "''citation_id''"] get [THEN spec, of "''source_id''"]
      get [THEN spec, of "''order''"] get [THEN spec, of "''target''"] by (simp_all add: jint_def)
  from tgt obtain w where w: "map_of r ''target'' = Some w"
    "jsonValuesEqual (target_json (citation_target c)) w" by blast
  from assms(2) have "normalizeTarget (Some w) = Inr (citation_target d)"
    unfolding v normalizeCitation_def by (auto simp: citation_record_def w)
  from normalizeTarget_stable [OF w(2) this] assms(2) show ?thesis
    unfolding v normalizeCitation_def citation_json_def
    by (clarsimp simp: citation_record_def w fields allowedKeys_iff requiredKeys_iff)
qed

section \<open>Normal forms are fixed points\<close>

lemma dedup_same_length:
  assumes "deduplicateByIdentity identity kind rs = Inr ys" and "length ys = length rs"
  shows "ys = rs"
proof -
  have d: "distinct (map identity ys)" and same: "set ys = set rs"
    using dedup_identities [OF assms(1)] .
  then have "distinct ys" by (simp add: distinct_map)
  then have "distinct rs" using assms(2) same by (metis card_distinct distinct_card)
  moreover have "inj_on identity (set rs)" using d same by (simp add: distinct_map)
  ultimately have "distinct (map identity rs)" by (simp add: distinct_map)
  from dedup_distinct_id [OF this, of kind] assms(1) show ?thesis by simp
qed

lemma map_result_stable:
  assumes "list_all2 R (map g xs) vs" and "map_result f vs = Inr ys"
    and "\<And>x v y. R (g x) v \<Longrightarrow> f v = Inr y \<Longrightarrow> f (g x) = Inr y"
  shows "map_result f (map g xs) = Inr ys"
  using assms(1,2)
proof (induction xs arbitrary: vs ys)
  case (Cons x xs)
  then obtain v vs' where vs: "vs = v # vs'" "R (g x) v" "list_all2 R (map g xs) vs'"
    by (auto simp: list_all2_Cons1)
  with Cons.prems(2) obtain y ys' where "f v = Inr y" "map_result f vs' = Inr ys'" "ys = y # ys'" by auto
  with Cons.IH [OF vs(3)] assms(3) [OF vs(2)] show ?case by simp
qed simp

lemma renormalize:
  assumes "deduplicateCitationRecords H (Some sv) (Some cv) = Inr r"
    and "jsonValuesEqual (JArr (map source_json (sources r))) sv"
    and "jsonValuesEqual (JArr (map citation_json (citations r))) cv"
  shows "normalized_records H r"
proof -
  from assms(2,3) obtain svs cvs where sv: "sv = JArr svs" and cv: "cv = JArr cvs"
    and eqs: "list_all2 jsonValuesEqual (map source_json (sources r)) svs"
      "list_all2 jsonValuesEqual (map citation_json (citations r)) cvs"
    by (cases sv; cases cv; auto)
  from assms(1) obtain ss0 cs0 where
    arrays: "length svs \<le> sourcesPerRecordSet" "length cvs \<le> citationsPerRecordSet"
    and maps: "map_result (normalizeCitationSource H) svs = Inr ss0"
      "map_result normalizeCitation cvs = Inr cs0"
    and dedup: "deduplicateByIdentity source_id ''sources'' ss0 = Inr (sources r)"
      "deduplicateByIdentity citation_id ''citations'' cs0 = Inr (citations r)"
    and refs: "\<forall>c\<in>set (citations r). cited_source_id c \<in> set (map source_id (sources r))"
    and bytes: "\<not> utf8ByteLength (stringify H (records_json r)) > totalSerializedUtf8Bytes"
    unfolding deduplicateCitationRecords_def bind_result_Inr_iff each_Inr_iff guard_Inr_iff Let_def sv cv
    by (auto simp: citation_array_def split: if_splits simp del: list.set_map)
  have lengths: "length (sources r) = length svs" "length (citations r) = length cvs"
    using eqs by (auto dest: list_all2_lengthD)
  then have same: "sources r = ss0" "citations r = cs0"
    using dedup maps [THEN map_result_length] by (auto intro: dedup_same_length)
  have "map_result (normalizeCitationSource H) (map source_json (sources r)) = Inr (sources r)"
    using map_result_stable [OF eqs(1) maps(1) normalizeCitationSource_stable] same(1) by simp
  moreover have "map_result normalizeCitation (map citation_json (citations r)) = Inr (citations r)"
    using map_result_stable [OF eqs(2) maps(2) normalizeCitation_stable] same(2) by simp
  moreover have "deduplicateByIdentity source_id ''sources'' (sources r) = Inr (sources r)"
    "deduplicateByIdentity citation_id ''citations'' (citations r) = Inr (citations r)"
    using dedup same by simp_all
  ultimately show ?thesis
    using arrays refs bytes
    by (simp add: normalized_records_def normalizeCitationRecords_def deduplicateCitationRecords_def
        records_json_def citation_record_def allowedKeys_def requiredKeys_def citation_array_def
        lengths guard_def Let_def)
qed

section \<open>Parsed payloads and events\<close>

lemma rethrow_Inr [simp]: "rethrow path r = Inr x \<longleftrightarrow> r = Inr x"
  by (auto simp: rethrow_def split: sum.splits)

lemma parse_citation_records_validated:
  assumes "parse_citation_records H kvs path = Inr p"
  shows "validated_citations H p"
proof -
  from assms obtain tgt sv cv r where
    norm: "normalizeCitationRecords H (JObj [(''sources'', sv), (''citations'', cv)]) = Inr r"
    and eqs: "jsonValuesEqual (JArr (map source_json (sources r))) sv"
      "jsonValuesEqual (JArr (map citation_json (citations r))) cv"
    and ok: "citations r \<noteq> []" "list_all (\<lambda>c. citation_at_target tgt (citation_target c)) (citations r)"
    and p: "p = CitationRecordsLinked tgt (sources r) (citations r)"
    unfolding parse_citation_records_def bind_result_Inr_iff
    by (cases "obj_get kvs ''sources''"; cases "obj_get kvs ''citations''"; auto split: if_splits)
  from norm have "deduplicateCitationRecords H (Some sv) (Some cv) = Inr r"
    by (simp add: normalizeCitationRecords_def citation_record_def)
  from renormalize [OF this eqs]
  have "normalized_records H \<lparr>sources = sources r, citations = citations r\<rparr>" by (cases r) simp
  with ok show ?thesis by (simp add: p list_all_iff)
qed

lemma parse_result_citations_validated:
  assumes "parse_result_citations H tcid v path = Inr r"
  shows "normalized_records H r" and "citations r \<noteq> []"
    and "\<forall>c\<in>set (citations r). citation_target c = ToolResultCitationTarget tcid"
proof -
  from assms obtain rv where norm: "normalizeCitationRecords H rv = Inr r"
    and eq: "jsonValuesEqual (records_json r) rv"
    and ok: "citations r \<noteq> []" "list_all (\<lambda>c. citation_target c = ToolResultCitationTarget tcid) (citations r)"
    by (auto simp: parse_result_citations_def split: option.splits if_splits)
  obtain kvs where kvs: "rv = JObj kvs"
    and get: "\<forall>k x. map_of [(''sources'', JArr (map source_json (sources r))),
          (''citations'', JArr (map citation_json (citations r)))] k = Some x \<longrightarrow>
        (\<exists>w. map_of kvs k = Some w \<and> jsonValuesEqual x w)"
    by (rule jsonValuesEqual_obj [OF eq [unfolded records_json_def]])
  from get [THEN spec, of "''sources''"] get [THEN spec, of "''citations''"] obtain sv cv where
    "map_of kvs ''sources'' = Some sv" "jsonValuesEqual (JArr (map source_json (sources r))) sv"
    "map_of kvs ''citations'' = Some cv" "jsonValuesEqual (JArr (map citation_json (citations r))) cv"
    by auto
  with norm show "normalized_records H r"
    by (auto simp: kvs normalizeCitationRecords_def citation_record_def intro: renormalize)
  show "citations r \<noteq> []" "\<forall>c\<in>set (citations r). citation_target c = ToolResultCitationTarget tcid"
    using ok by (auto simp: list_all_iff)
qed

lemma parse_result_recorded_validated:
  assumes "parse_result_recorded H kvs path = Inr p"
  shows "validated_citations H p"
proof -
  from assms obtain tid tcid parts err records where
    records: "optional_field (parse_result_citations H tcid) kvs ''citation_records'' path = Inr records"
    and p: "p = ToolCallResultRecorded tid tcid parts err records"
    by (auto simp: parse_result_recorded_def)
  show ?thesis
  proof (cases records)
    case (Some r)
    with records have "\<exists>v q. parse_result_citations H tcid v q = Inr r"
      by (auto simp: optional_field_def split: if_splits)
    with Some show ?thesis using parse_result_citations_validated by (fastforce simp: p)
  qed (simp add: p)
qed

text \<open>The other cases of the switch build payloads without citation records.\<close>

lemma other_parsers_validated:
  "parse_message_created kvs path = Inr p \<Longrightarrow> validated_citations H p"
  "parse_text_appended kvs path = Inr p \<Longrightarrow> validated_citations H p"
  "parse_attachment_referenced kvs path = Inr p \<Longrightarrow> validated_citations H p"
  "parse_turn_started kvs path = Inr p \<Longrightarrow> validated_citations H p"
  "parse_status_changed kvs path = Inr p \<Longrightarrow> validated_citations H p"
  "parse_attempt_started kvs path = Inr p \<Longrightarrow> validated_citations H p"
  "parse_retry_scheduled kvs path = Inr p \<Longrightarrow> validated_citations H p"
  "parse_retry_exhausted kvs path = Inr p \<Longrightarrow> validated_citations H p"
  "parse_cancellation TurnCancellationRequested kvs path = Inr p \<Longrightarrow> validated_citations H p"
  "parse_cancellation TurnCancellationUnsupported kvs path = Inr p \<Longrightarrow> validated_citations H p"
  "parse_cancellation TurnCancelled kvs path = Inr p \<Longrightarrow> validated_citations H p"
  "parse_turn_completed kvs path = Inr p \<Longrightarrow> validated_citations H p"
  "parse_turn_failed kvs path = Inr p \<Longrightarrow> validated_citations H p"
  "parse_call_requested kvs path = Inr p \<Longrightarrow> validated_citations H p"
  "parse_call_marked ToolCallDiscovered kvs path = Inr p \<Longrightarrow> validated_citations H p"
  "parse_call_marked ToolCallStarted kvs path = Inr p \<Longrightarrow> validated_citations H p"
  "parse_call_marked ToolCallApprovalRequired kvs path = Inr p \<Longrightarrow> validated_citations H p"
  "parse_proposal_created G kvs path = Inr p \<Longrightarrow> validated_citations H p"
  "parse_proposal_changed kvs path = Inr p \<Longrightarrow> validated_citations H p"
  "parse_budget_exhausted kvs path = Inr p \<Longrightarrow> validated_citations H p"
  "parse_receipt_linked kvs path = Inr p \<Longrightarrow> validated_citations H p"
  "parse_metadata_updated G kvs path = Inr p \<Longrightarrow> validated_citations H p"
  "parse_title_updated kvs path = Inr p \<Longrightarrow> validated_citations H p"
  by (auto simp: parse_message_created_def parse_text_appended_def parse_attachment_referenced_def
      parse_turn_started_def parse_status_changed_def parse_attempt_started_def
      parse_retry_scheduled_def parse_retry_exhausted_def parse_cancellation_def
      parse_turn_completed_def parse_turn_failed_def parse_call_requested_def parse_call_marked_def
      parse_proposal_created_def parse_proposal_changed_def parse_budget_exhausted_def
      parse_receipt_linked_def parse_metadata_updated_def parse_title_updated_def split: if_splits)

lemma payload_parsers_validated:
  "\<forall>tp\<in>set (payload_parsers H). \<forall>kvs path p. snd tp kvs path = Inr p \<longrightarrow> validated_citations H p"
  unfolding payload_parsers_def
  by (simp only: list.set ball_simps snd_conv)
    (intro conjI allI impI TrueI;
     erule other_parsers_validated parse_citation_records_validated parse_result_recorded_validated)

lemma validatePayload_validated:
  assumes "validatePayload H v path = Inr p"
  shows "validated_citations H p"
proof -
  from assms obtain kvs where kvs: "(case obj_get kvs ''type'' of
         Some (JStr t) \<Rightarrow>
           (case map_of (payload_parsers H) t of
              Some parse \<Rightarrow> parse kvs path
            | None \<Rightarrow> fail (path @ ''.type'') ''is not a supported durable event discriminator'')
       | _ \<Rightarrow> fail (path @ ''.type'') ''is not a supported durable event discriminator'') = Inr p"
    unfolding validatePayload_def bind_result_Inr_iff by blast
  from kvs obtain t where t: "obj_get kvs ''type'' = Some (JStr t)"
    by (simp split: option.split_asm json.split_asm)
  from kvs obtain parse where parse: "map_of (payload_parsers H) t = Some parse"
    unfolding t by (cases "map_of (payload_parsers H) t") auto
  with kvs t have "parse kvs path = Inr p" by simp
  with payload_parsers_validated [of H] map_of_SomeD [OF parse] show ?thesis
    by fastforce
qed

text \<open>What the envelope of a parsed event satisfies.\<close>

definition valid_identifier :: "string \<Rightarrow> bool" where
  "valid_identifier s \<longleftrightarrow> s \<noteq> [] \<and> length s \<le> eventIdentifierLength"

definition valid_event :: "host \<Rightarrow> ConversationEvent \<Rightarrow> bool" where
  "valid_event H ev \<longleftrightarrow>
     valid_identifier (event_id ev) \<and> valid_identifier (event_conversation_id ev) \<and>
     1 \<le> event_revision ev \<and> safe_int (event_revision ev) \<and> isTimestamp (occurred_at ev) \<and>
     (case mutation_id ev of None \<Rightarrow> True
      | Some m \<Rightarrow> valid_identifier m \<and> event_source ev \<noteq> ImportSource) \<and>
     (case event_metadata ev of None \<Rightarrow> True | Some m \<Rightarrow> json_conforms METADATA_LIMITS m) \<and>
     check_actor ev (payload ev) = Inr () \<and> validated_citations H (payload ev)"

lemma event_identifier_valid: "event_identifier v path = Inr s \<Longrightarrow> valid_identifier s"
  by (auto simp: event_identifier_def stringValue_def valid_identifier_def
      split: option.splits json.splits if_splits)

lemma optional_field_Inr:
  "optional_field validate kvs key path = Inr x \<longleftrightarrow>
     (case x of None \<Rightarrow> \<not> has_own kvs key
      | Some y \<Rightarrow> has_own kvs key \<and> validate (obj_get kvs key) (path @ ''.'' @ key) = Inr y)"
  by (auto simp: optional_field_def split: option.splits)

lemma safe_integer_from_Inr:
  "safe_integer_from least msg v path = Inr n \<Longrightarrow> least \<le> n \<and> safe_int n"
  using isSafeInteger_int
  by (auto simp: safe_integer_from_def split: option.splits json.splits if_splits)

lemma validateMetadata_conforms: "validateMetadata H v path = Inr m \<Longrightarrow> json_conforms METADATA_LIMITS m"
  by (auto simp: validateMetadata_def validateJson_iff split: if_splits)

lemma parseConversationEvent_valid:
  assumes "parseConversationEvent H v = Inr ev"
  shows "valid_event H ev"
proof -
  from assms obtain kvs mid m where
    "event_identifier (obj_get kvs ''event_id'') ''$event.event_id'' = Inr (event_id ev)"
    "event_identifier (obj_get kvs ''conversation_id'') ''$event.conversation_id'' = Inr (event_conversation_id ev)"
    "validateRevision (obj_get kvs ''revision'') ''$event.revision'' = Inr (event_revision ev)"
    "validateTimestamp (obj_get kvs ''occurred_at'') ''$event.occurred_at'' = Inr (occurred_at ev)"
    and opt: "optional_field event_identifier kvs ''mutation_id'' ''$event'' = Inr (mutation_id ev)"
      "\<not> (mutation_id ev \<noteq> None \<and> event_source ev = ImportSource)"
      "optional_field (validateMetadata H) kvs ''metadata'' ''$event'' = Inr (event_metadata ev)"
    and "validatePayload H (obj_get kvs ''payload'') ''$event.payload'' = Inr (payload ev)"
    and "check_actor ev (payload ev) = Inr ()"
    unfolding parseConversationEvent_def bind_result_Inr_iff Let_def guard_Inr_iff by auto
  then show ?thesis
    unfolding valid_event_def validateRevision_def
    by (auto simp: optional_field_Inr validateTimestamp_def
        dest!: event_identifier_valid safe_integer_from_Inr validateMetadata_conforms validatePayload_validated
        split: option.splits if_splits)
qed

end
