(* ===== verification/ProtocolFacts.thy ===== *)
theory ProtocolFacts
  imports Protocol EventFacts "HOL-Library.Multiset"
begin

text \<open>
  Facts of the request validators (src/protocol.ts): what the JSON walker accepts, and that no
  validator depends on the order in which the fields of an object are written.
\<close>

section \<open>What the walker accepts\<close>

definition wire_string_allowed :: "WireJsonLimits \<Rightarrow> string \<Rightarrow> bool" where
  "wire_string_allowed L s \<longleftrightarrow>
     length s \<le> wireMaxStringLength L \<and> \<not> citation_has_credential s \<and>
     normalizeFieldName s \<notin> set (wireForbiddenStringValues L)"

definition wire_key_allowed :: "WireJsonLimits \<Rightarrow> string \<Rightarrow> bool" where
  "wire_key_allowed L k \<longleftrightarrow>
     k \<noteq> [] \<and> length k \<le> wireMaxKeyLength L \<and> normalizeFieldName k \<notin> set (wireForbiddenFields L)"

fun wire_conforms :: "WireJsonLimits \<Rightarrow> json \<Rightarrow> bool" where
  "wire_conforms L (JNum n) = isFinite n"
| "wire_conforms L (JStr s) = wire_string_allowed L s"
| "wire_conforms L (JArr xs) = (length xs \<le> wireMaxArrayLength L \<and> list_all (wire_conforms L) xs)"
| "wire_conforms L (JObj kvs) =
     (length kvs \<le> wireMaxObjectKeys L \<and>
      list_all (\<lambda>kv. wire_key_allowed L (fst kv) \<and> wire_conforms L (snd kv)) kvs)"
| "wire_conforms L _ = True"

lemma one_node: "0 < json_nodes v"
  using json_nodes_pos [of v] by linarith

lemma wire_visit_iff:
  "wire_visit L base path d n v = Inr m \<longleftrightarrow>
    d \<le> wireMaxDepth L \<and> m = n + json_nodes v \<and> m \<le> wireMaxNodes L \<and>
    within_depth (wireMaxDepth L - d) v \<and> wire_conforms L v"
proof (induction L base path d n v arbitrary: m rule: wire_visit.induct)
  case (1 L base path d n v)
  show ?case
  proof (cases "n + 1 > wireMaxNodes L \<or> d > wireMaxDepth L")
    case True
    with json_nodes_pos [of v] show ?thesis by (auto simp: wire_visit.simps [of L base path d n v])
  next
    case ok: False
    then have budget: "\<not> wireMaxNodes L < n + 1" "\<not> wireMaxDepth L < d" by auto
    show ?thesis
    proof (cases v)
      case (JArr xs)
      show ?thesis
      proof (cases "wireMaxArrayLength L < length xs")
        case True
        with ok JArr show ?thesis by (simp add: wire_visit.simps [of L base path d n "JArr xs"])
      next
        case short: False
        let ?ok = "\<lambda>x. d < wireMaxDepth L \<and> within_depth (wireMaxDepth L - (d + 1)) x \<and> wire_conforms L x"
        have "fold_result (\<lambda>k (i, x). wire_visit L base (item_path path i) (d + 1) k x) (n + 1) (indexed xs) = Inr m \<longleftrightarrow>
            m = n + 1 + sum_list (map (\<lambda>p. json_nodes (snd p)) (indexed xs)) \<and>
            (indexed xs = [] \<or> m \<le> wireMaxNodes L) \<and> list_all (\<lambda>p. ?ok (snd p)) (indexed xs)"
        proof (rule fold_result_count)
          fix k r and p :: "nat \<times> json"
          assume "p \<in> set (indexed xs)"
          then show "(case p of (i, x) \<Rightarrow> wire_visit L base (item_path path i) (d + 1) k x) = Inr r \<longleftrightarrow>
              r = k + json_nodes (snd p) \<and> r \<le> wireMaxNodes L \<and> ?ok (snd p)"
            using 1(1) [OF refl budget JArr short, of p "fst p" "snd p" k r] by (auto simp: split_beta)
        qed (rule one_node)
        then have "fold_result (\<lambda>k (i, x). wire_visit L base (item_path path i) (d + 1) k x) (n + 1) (indexed xs) = Inr m \<longleftrightarrow>
            m = n + 1 + sum_list (map json_nodes xs) \<and> (xs = [] \<or> m \<le> wireMaxNodes L) \<and> list_all ?ok xs"
          by (simp only: indexed_map indexed_list_all [of ?ok] indexed_Nil)
        then show ?thesis using ok JArr short
          by (auto simp: wire_visit.simps [of L base path d n "JArr xs"] list_all_iff)
      qed
    next
      case (JObj kvs)
      show ?thesis
      proof (cases "wireMaxObjectKeys L < length kvs")
        case True
        with ok JObj show ?thesis by (simp add: wire_visit.simps [of L base path d n "JObj kvs"])
      next
        case short: False
        let ?f = "\<lambda>k (key, x).
            if key = [] \<or> length key > wireMaxKeyLength L
            then fail (path @ ''.'' @ key) (''field names must be 1-'' @ nat_digits (wireMaxKeyLength L) @ '' characters'')
            else if normalizeFieldName key \<in> set (wireForbiddenFields L)
            then fail (path @ ''.'' @ key) ''is forbidden at this public protocol boundary''
            else wire_visit L base (path @ ''.'' @ key) (d + 1) k x"
        let ?ok = "\<lambda>p. d < wireMaxDepth L \<and> within_depth (wireMaxDepth L - (d + 1)) (snd p) \<and>
            wire_key_allowed L (fst p) \<and> wire_conforms L (snd p)"
        have "fold_result ?f (n + 1) kvs = Inr m \<longleftrightarrow>
            m = n + 1 + sum_list (map (\<lambda>p. json_nodes (snd p)) kvs) \<and>
            (kvs = [] \<or> m \<le> wireMaxNodes L) \<and> list_all ?ok kvs"
        proof (rule fold_result_count)
          fix k r and p :: "string \<times> json"
          assume "p \<in> set kvs"
          then show "?f k p = Inr r \<longleftrightarrow> r = k + json_nodes (snd p) \<and> r \<le> wireMaxNodes L \<and> ?ok p"
            using 1(2) [OF refl budget JObj short, of p "fst p" "snd p" k r]
            by (auto simp: split_beta wire_key_allowed_def)
        qed (rule one_node)
        then show ?thesis using ok JObj short
          by (auto simp: wire_visit.simps [of L base path d n "JObj kvs"] list_all_iff)
      qed
    qed (use ok in \<open>auto simp: wire_visit.simps [of L base path d n] wire_string_allowed_def Let_def\<close>)
  qed
qed

lemma wire_validateJson_iff:
  "wire_validateJson v path L = Inr u \<longleftrightarrow>
     json_nodes v \<le> wireMaxNodes L \<and> within_depth (wireMaxDepth L) v \<and> wire_conforms L v"
  by (auto simp: wire_validateJson_def wire_visit_iff)

section \<open>Reordered fields\<close>

text \<open>The value with the fields of every object in the order of their names.\<close>

fun sort_fields :: "json \<Rightarrow> json" where
  "sort_fields (JArr xs) = JArr (map sort_fields xs)"
| "sort_fields (JObj kvs) = JObj (sort_key fst (map (\<lambda>(k, x). (k, sort_fields x)) kvs))"
| "sort_fields v = v"

abbreviation sorted_members :: "(string \<times> json) list \<Rightarrow> (string \<times> json) list" where
  "sorted_members kvs \<equiv> sort_key fst (map (\<lambda>(k, x). (k, sort_fields x)) kvs)"

lemma insort_key_map: "insort_key fst (k, g x) (map (\<lambda>(k, x). (k, g x)) kvs) = map (\<lambda>(k, x). (k, g x)) (insort_key fst (k, x) kvs)"
  by (induction kvs) auto

lemma sort_key_map: "sort_key fst (map (\<lambda>(k, x). (k, g x)) kvs) = map (\<lambda>(k, x). (k, g x)) (sort_key fst kvs)"
proof (induction kvs)
  case (Cons kv kvs)
  obtain k x where "kv = (k, x)" by (cases kv)
  then show ?case by (simp add: Cons.IH insort_key_map)
qed simp

lemma sorted_members_get:
  assumes "distinct (map fst kvs)"
  shows "map_of (sorted_members kvs) k = map_option sort_fields (map_of kvs k)"
proof -
  have "distinct (map fst (sort_key fst kvs))" using assms by (simp add: distinct_map)
  then have "map_of (sort_key fst kvs) k = Some v \<longleftrightarrow> map_of kvs k = Some v" for v
    using assms by (simp add: map_of_eq_Some_iff)
  then have "map_of (sort_key fst kvs) k = map_of kvs k" by (metis not_Some_eq)
  then show ?thesis unfolding sort_key_map by (simp add: map_of_map)
qed

lemma sorted_members_simps [simp]:
  "length (sorted_members kvs) = length kvs" "fst ` set (sorted_members kvs) = fst ` set kvs"
  "set (sorted_members kvs) = (\<lambda>(k, x). (k, sort_fields x)) ` set kvs"
  by (auto simp: image_image split_beta)

lemma sort_fields_leaf [simp]:
  "sort_fields v = JStr s \<longleftrightarrow> v = JStr s" "sort_fields v = JNum n \<longleftrightarrow> v = JNum n"
  "sort_fields v = JBool b \<longleftrightarrow> v = JBool b" "sort_fields v = JNull \<longleftrightarrow> v = JNull"
  by (cases v; auto)+

lemma sum_list_sort_key: "sum_list (map f (sort_key g xs)) = (sum_list (map f xs) :: nat)"
  by (metis mset_map mset_sort sum_mset_sum_list)

lemma json_nodes_sorted [simp]: "json_nodes (sort_fields v) = json_nodes v"
proof (induction v rule: sort_fields.induct)
  case (1 xs)
  then show ?case by (simp add: comp_def cong: map_cong)
next
  case (2 kvs)
  have "sum_list (map (\<lambda>kv. json_nodes (snd kv)) (sorted_members kvs)) =
      sum_list (map (\<lambda>kv. json_nodes (snd kv)) (map (\<lambda>(k, x). (k, sort_fields x)) kvs))"
    by (rule sum_list_sort_key)
  also have "\<dots> = sum_list (map (\<lambda>kv. json_nodes (snd kv)) kvs)"
    using 2 by (force intro!: arg_cong [where f = sum_list] simp: split_beta)
  finally show ?case by simp
qed simp_all

lemma within_depth_sorted [simp]: "within_depth n (sort_fields v) = within_depth n v"
proof (induction v arbitrary: n rule: sort_fields.induct)
  case (1 xs)
  then show ?case by (auto simp: list_all_iff)
next
  case (2 kvs)
  then show ?case by (force simp: list_all_iff)
qed simp_all

lemma wire_conforms_sorted [simp]: "wire_conforms L (sort_fields v) = wire_conforms L v"
proof (induction v rule: sort_fields.induct)
  case (1 xs)
  then show ?case by (auto simp: list_all_iff)
next
  case (2 kvs)
  then show ?case by (force simp: list_all_iff)
qed simp_all

lemma wire_validateJson_sorted:
  "wire_validateJson (sort_fields v) path L = Inr u \<longleftrightarrow> wire_validateJson v path' L = Inr u"
  by (simp add: wire_validateJson_iff)

section \<open>Schemas with reordered fields\<close>

lemma enumValue_sorted: "enumValue (Some (sort_fields v)) table p = Inr x \<longleftrightarrow> enumValue (Some v) table q = Inr x"
  by (cases v) (auto simp: enumValue_def split: option.splits)

lemma stringValue_sorted: "stringValue (Some (sort_fields v)) p e n = Inr x \<longleftrightarrow> stringValue (Some v) q e n = Inr x"
  by (cases v) (auto simp: stringValue_def)

lemma unique_items_sorted:
  assumes "\<And>x s p q. parse (sort_fields x) p = Inr s \<longleftrightarrow> parse x q = Inr s"
  shows "unique_items parse p i seen (map sort_fields xs) = Inr () \<longleftrightarrow> unique_items parse q j seen xs = Inr ()"
proof (induction xs arbitrary: i j seen)
  case (Cons x xs)
  show ?case
  proof (cases "\<exists>s. parse x (item_path q j) = Inr s")
    case True
    then obtain s where "parse x (item_path q j) = Inr s" "parse (sort_fields x) (item_path p i) = Inr s"
      using assms by blast
    then show ?thesis using Cons.IH by simp
  next
    case False
    then have "\<not> (\<exists>s. parse (sort_fields x) (item_path p i) = Inr s)" using assms by blast
    then show ?thesis using False by simp
  qed
qed simp

lemma schema_type_sorted:
  assumes "distinct (map fst schema)"
  shows "schema_type_ok (sorted_members schema) p = Inr () \<longleftrightarrow> schema_type_ok schema q = Inr ()"
proof (cases "obj_get schema ''type''")
  case None
  then show ?thesis by (simp add: schema_type_ok_def sorted_members_get [OF assms])
next
  case (Some v)
  show ?thesis
  proof (cases v)
    case (JArr types)
    show ?thesis using Some JArr
      by (cases "types = []") (simp_all add: schema_type_ok_def sorted_members_get [OF assms]
        unique_items_sorted [of "\<lambda>x p. enumValue (Some x) JSON_SCHEMA_TYPES p", OF enumValue_sorted, of _ _ _ _ "q @ ''.type''" 0])
  qed (use Some in \<open>auto simp: schema_type_ok_def sorted_members_get [OF assms] enumValue_def split: option.splits\<close>)
qed

lemma schema_required_sorted:
  assumes "distinct (map fst schema)"
  shows "schema_required_ok (sorted_members schema) p = Inr () \<longleftrightarrow> schema_required_ok schema q = Inr ()"
  by (cases "obj_get schema ''required''"; cases "the (obj_get schema ''required'')")
    (auto simp: schema_required_ok_def sorted_members_get [OF assms]
      unique_items_sorted [of "\<lambda>x p. stringValue (Some x) p False wireIdentifierLength", OF stringValue_sorted, of _ _ _ _ "q @ ''.required''" 0])

lemma schema_enum_sorted:
  assumes "distinct (map fst schema)"
  shows "schema_enum_ok (sorted_members schema) p = Inr () \<longleftrightarrow> schema_enum_ok schema q = Inr ()"
  by (cases "obj_get schema ''enum''"; cases "the (obj_get schema ''enum'')")
    (auto simp: schema_enum_ok_def sorted_members_get [OF assms] split: list.splits)

lemma schema_numbers_sorted:
  assumes "distinct (map fst schema)"
  shows "schema_numbers_ok (sorted_members schema) p = Inr () \<longleftrightarrow> schema_numbers_ok schema q = Inr ()"
proof -
  have "(case map_option sort_fields w of None \<Rightarrow> True | Some (JNum n) \<Rightarrow> isFinite n | Some _ \<Rightarrow> False) \<longleftrightarrow>
    (case w of None \<Rightarrow> True | Some (JNum n) \<Rightarrow> isFinite n | Some _ \<Rightarrow> False)" for w
    by (cases w; cases "the w") simp_all
  then show ?thesis unfolding schema_numbers_ok_def each_Inr_iff guard_Inr_iff sorted_members_get [OF assms] by simp
qed

lemma schema_maps_sorted:
  assumes "distinct (map fst schema)"
    and child: "\<And>k cs n c p q. obj_get schema k = Some (JObj cs) \<Longrightarrow> (n, c) \<in> set cs \<Longrightarrow>
      check (sort_fields c) p = Inr () \<longleftrightarrow> check c q = Inr ()"
  shows "schema_maps_ok check (sorted_members schema) p = Inr () \<longleftrightarrow> schema_maps_ok check schema q = Inr ()"
  unfolding schema_maps_ok_def each_Inr_iff sorted_members_get [OF assms(1)]
proof (intro ball_cong refl)
  fix keyword
  show "(case map_option sort_fields (obj_get schema keyword) of None \<Rightarrow> Inr ()
      | Some (JObj schemas) \<Rightarrow> each (\<lambda>(name, child). check child (p @ ''.'' @ keyword @ ''.'' @ name)) schemas
      | Some _ \<Rightarrow> fail (p @ ''.'' @ keyword) ''must be a JSON object'') = Inr () \<longleftrightarrow>
    (case obj_get schema keyword of None \<Rightarrow> Inr ()
      | Some (JObj schemas) \<Rightarrow> each (\<lambda>(name, child). check child (q @ ''.'' @ keyword @ ''.'' @ name)) schemas
      | Some _ \<Rightarrow> fail (q @ ''.'' @ keyword) ''must be a JSON object'') = Inr ()"
    (is "?L \<longleftrightarrow> ?R")
  proof (cases "obj_get schema keyword")
    case (Some v)
    show ?thesis
    proof (cases v)
      case (JObj cs)
      have "?L \<longleftrightarrow> (\<forall>(n, c)\<in>set cs. check (sort_fields c) (p @ ''.'' @ keyword @ ''.'' @ n) = Inr ())"
        using Some JObj by (simp add: split_beta)
      also have "\<dots> \<longleftrightarrow> (\<forall>(n, c)\<in>set cs. check c (q @ ''.'' @ keyword @ ''.'' @ n) = Inr ())"
        using child [OF Some [unfolded JObj]] by (intro ball_cong refl) auto
      also have "\<dots> \<longleftrightarrow> ?R" using Some JObj by (simp add: split_beta)
      finally show ?thesis .
    qed (use Some in simp_all)
  qed simp
qed

lemma schema_values_sorted:
  assumes "distinct (map fst schema)"
    and child: "\<And>k c p q. obj_get schema k = Some c \<Longrightarrow> check (sort_fields c) p = Inr () \<longleftrightarrow> check c q = Inr ()"
  shows "schema_values_ok check (sorted_members schema) p = Inr () \<longleftrightarrow> schema_values_ok check schema q = Inr ()"
  unfolding schema_values_ok_def each_Inr_iff sorted_members_get [OF assms(1)]
  by (intro ball_cong refl) (auto split: option.split simp: child)

lemma schema_lists_sorted:
  assumes "distinct (map fst schema)"
    and child: "\<And>k xs c p q. obj_get schema k = Some (JArr xs) \<Longrightarrow> c \<in> set xs \<Longrightarrow>
      check (sort_fields c) p = Inr () \<longleftrightarrow> check c q = Inr ()"
  shows "schema_lists_ok check (sorted_members schema) p = Inr () \<longleftrightarrow> schema_lists_ok check schema q = Inr ()"
  unfolding schema_lists_ok_def each_Inr_iff sorted_members_get [OF assms(1)]
proof (intro ball_cong refl)
  have nth: "(\<forall>z\<in>set (indexed xs). check (snd z) (f (fst z)) = Inr ()) \<longleftrightarrow>
      (\<forall>i<length xs. check (xs ! i) (f i) = Inr ())" for xs f
    by (simp add: indexed_def set_zip) (metis add_0 nth_upt)
  fix keyword
  show "(case map_option sort_fields (obj_get schema keyword) of None \<Rightarrow> Inr ()
      | Some (JArr (x # xs)) \<Rightarrow> each (\<lambda>(i, child). check child (item_path (p @ ''.'' @ keyword) i)) (indexed (x # xs))
      | Some _ \<Rightarrow> fail (p @ ''.'' @ keyword) ''must be a non-empty array of JSON Schemas'') = Inr () \<longleftrightarrow>
    (case obj_get schema keyword of None \<Rightarrow> Inr ()
      | Some (JArr (x # xs)) \<Rightarrow> each (\<lambda>(i, child). check child (item_path (q @ ''.'' @ keyword) i)) (indexed (x # xs))
      | Some _ \<Rightarrow> fail (q @ ''.'' @ keyword) ''must be a non-empty array of JSON Schemas'') = Inr ()"
    (is "?L \<longleftrightarrow> ?R")
  proof (cases "\<exists>x xs. obj_get schema keyword = Some (JArr (x # xs))")
    case True
    then obtain x xs where found: "obj_get schema keyword = Some (JArr (x # xs))" by blast
    let ?xs = "x # xs"
    have "?L \<longleftrightarrow> (\<forall>i<length ?xs. check (map sort_fields ?xs ! i) (item_path (p @ ''.'' @ keyword) i) = Inr ())"
      using found by (simp add: split_beta nth del: nth_Cons_Suc nth_Cons_0)
    also have "\<dots> \<longleftrightarrow> (\<forall>i<length ?xs. check (?xs ! i) (item_path (q @ ''.'' @ keyword) i) = Inr ())"
      using child [OF found] by (intro all_cong) (metis nth_map nth_mem)
    also have "\<dots> \<longleftrightarrow> ?R"
      using found by (simp add: split_beta nth del: nth_Cons_Suc nth_Cons_0)
    finally show ?thesis .
  next
    case False
    then show ?thesis
      by (cases "obj_get schema keyword"; cases "the (obj_get schema keyword)") (auto split: list.splits)
  qed
qed

lemma wf_field: "wf_json (JObj kvs) \<Longrightarrow> obj_get kvs k = Some v \<Longrightarrow> wf_json v"
  by (auto simp: list_all_iff dest: map_of_SomeD)

lemma schema_sorted:
  "wf_json v \<Longrightarrow> validateJsonSchemaNode (sort_fields v) p r = Inr () \<longleftrightarrow> validateJsonSchemaNode v q r = Inr ()"
proof (induction v arbitrary: p q r rule: measure_induct_rule [of size])
  case (less v)
  show ?case
  proof (cases v)
    case (JObj schema)
    let ?check = "\<lambda>child p. validateJsonSchemaNode child p False"
    have d: "distinct (map fst schema)" using less.prems JObj by simp
    have field: "?check (sort_fields c) p = Inr () \<longleftrightarrow> ?check c q = Inr ()" if "obj_get schema k = Some c" for k c p q
      using less.IH [of c] wf_field [of schema k c] less.prems obj_get_size [OF that] that JObj by simp
    have member: "?check (sort_fields c) p = Inr () \<longleftrightarrow> ?check c q = Inr ()"
      if "obj_get schema k = Some (JObj cs)" "(n, c) \<in> set cs" for k cs n c p q
    proof -
      have "wf_json c" using wf_field [OF less.prems [unfolded JObj] that(1)] that(2) by (auto simp: list_all_iff)
      then show ?thesis using less.IH [of c] obj_get_size [OF that(1)] size_field [OF that(2)] JObj by simp
    qed
    have item: "?check (sort_fields c) p = Inr () \<longleftrightarrow> ?check c q = Inr ()"
      if "obj_get schema k = Some (JArr xs)" "c \<in> set xs" for k xs c p q
    proof -
      have "wf_json c" using wf_field [OF less.prems [unfolded JObj] that(1)] that(2) by (auto simp: list_all_iff)
      moreover have "size c < size v"
        using obj_get_size [OF that(1)] size_list_estimation' [OF that(2), of "size c" size] JObj by simp
      ultimately show ?thesis using less.IH [of c] by simp
    qed
    have root: "(r \<longrightarrow> obj_get (sorted_members schema) ''type'' = Some (JStr ''object'')) \<longleftrightarrow>
        (r \<longrightarrow> obj_get schema ''type'' = Some (JStr ''object''))"
      by (cases "obj_get schema ''type''") (simp_all add: sorted_members_get [OF d])
    show ?thesis
      unfolding JObj sort_fields.simps
      unfolding validateJsonSchemaNode.simps [of "JObj _"] json.case bind_result_Inr_iff guard_Inr_iff root
      by (simp add: schema_type_sorted [where q = q, OF d] schema_maps_sorted [where check = ?check and q = q, OF d member]
        schema_required_sorted [where q = q, OF d] schema_values_sorted [where check = ?check and q = q, OF d field]
        schema_lists_sorted [where check = ?check and q = q, OF d item] schema_enum_sorted [where q = q, OF d]
        schema_numbers_sorted [where q = q, OF d])
  qed (simp_all add: validateJsonSchemaNode.simps)
qed

lemma keys_sorted:
  assumes "distinct (map fst kvs)"
  shows "requiredKeys (sorted_members kvs) ks p = Inr () \<longleftrightarrow> requiredKeys kvs ks q = Inr ()"
    "allowedKeys (sorted_members kvs) ks p = Inr () \<longleftrightarrow> allowedKeys kvs ks q = Inr ()"
  by (auto simp: requiredKeys_def allowedKeys_def sorted_members_get [OF assms] split_beta simp del: sorted_members_simps(1))

lemma tool_sorted:
  assumes "wf_json v"
  shows "(\<exists>t. parseToolDefinition (sort_fields v) = Inr t) \<longleftrightarrow> (\<exists>t. parseToolDefinition v = Inr t)"
proof (cases v)
  case (JObj tool)
  then have d: "distinct (map fst tool)" using assms by simp
  have string: "(\<exists>x. stringValue (map_option sort_fields (obj_get tool k)) p e n = Inr x) \<longleftrightarrow>
      (\<exists>x. stringValue (obj_get tool k) p e n = Inr x)" for k p e n
    by (cases "obj_get tool k") (simp_all add: stringValue_sorted [where q = p])
  have schema: "(\<exists>s. event_record (map_option sort_fields (obj_get tool k)) p = Inr s \<and>
        validateCredentialsAbsent (JObj s) p = Inr () \<and> validateJsonSchemaNode (JObj s) p True = Inr ()) \<longleftrightarrow>
      (\<exists>s. event_record (obj_get tool k) p = Inr s \<and>
        validateCredentialsAbsent (JObj s) p = Inr () \<and> validateJsonSchemaNode (JObj s) p True = Inr ())" for k p
  proof (cases "\<exists>s. obj_get tool k = Some (JObj s)")
    case True
    then obtain s where s: "obj_get tool k = Some (JObj s)" by blast
    have "wf_json (JObj s)" using wf_field assms JObj s by blast
    then show ?thesis
      using s schema_sorted [of "JObj s" p True p] wire_validateJson_sorted [of "JObj s" p _ _ p]
      by (simp add: event_record_def validateCredentialsAbsent_def)
  next
    case False
    then show ?thesis by (cases "obj_get tool k"; cases "the (obj_get tool k)") (simp_all add: event_record_def)
  qed
  show ?thesis
    unfolding parseToolDefinition_def validateToolDefinition_def JObj
    using string [of "''name''"] string [of "''description''"] schema [of "''input_schema''" "''$tool.input_schema''"]
    by (simp add: event_record_def keys_sorted [OF d, where q = "''$tool''"] sorted_members_get [OF d]) blast
qed (simp_all add: parseToolDefinition_def validateToolDefinition_def event_record_def)

end
