(* ===== verification/ToolOutputFacts.thy ===== *)
theory ToolOutputFacts
  imports ProtocolFacts ToolOutput
begin

text \<open>
  What the executor of tools lets through (src/tools/executor.ts): the values its walker accepts,
  the form of a normalized output, and when the event log and the wire protocol take it.
\<close>

section \<open>What the walker accepts\<close>

fun clean_output :: "json \<Rightarrow> bool" where
  "clean_output (JNum n) = isFinite n"
| "clean_output (JStr s) = (\<not> citation_has_credential s)"
| "clean_output (JArr xs) = list_all clean_output xs"
| "clean_output (JObj kvs) =
     list_all (\<lambda>kv. normalizeFieldName (fst kv) \<notin> set FORBIDDEN_OUTPUT_FIELDS \<and> clean_output (snd kv)) kvs"
| "clean_output _ = True"

lemma nodes_length: "length xs \<le> sum_list (map json_nodes xs)"
proof (induction xs)
  case (Cons x xs)
  with json_nodes_pos [of x] show ?case by simp
qed simp

lemma visit_output_iff:
  "visit_output L d n v = Inr m \<longleftrightarrow>
    int d \<le> maxResultDepth L \<and> m = n + json_nodes v \<and> m \<le> nat (maxResultNodes L) \<and>
    within_depth (nat (maxResultDepth L) - d) v \<and> clean_output v"
proof (induction L d n v arbitrary: m rule: visit_output.induct)
  case (1 L d n v)
  show ?case
  proof (cases "int (n + 1) > maxResultNodes L \<or> int d > maxResultDepth L")
    case True
    with one_node [of v] show ?thesis by (auto simp: visit_output.simps [of L d n v])
  next
    case ok: False
    then have budget: "n + 1 \<le> nat (maxResultNodes L)" "int d \<le> maxResultDepth L" by auto
    have deeper: "int (d + 1) \<le> maxResultDepth L \<longleftrightarrow> 0 < nat (maxResultDepth L) - d" by linarith
    show ?thesis
    proof (cases v)
      case (JArr xs)
      let ?ok = "\<lambda>x. 0 < nat (maxResultDepth L) - d \<and> within_depth (nat (maxResultDepth L) - (d + 1)) x \<and> clean_output x"
      show ?thesis
      proof (cases "int (length xs) > maxResultNodes L")
        case True
        then have "\<not> n + json_nodes v \<le> nat (maxResultNodes L)" using nodes_length [of xs] by (simp add: JArr)
        moreover have "visit_output L d n v = Inl InvalidOutput"
          using True ok by (simp add: visit_output.simps [of L d n "JArr xs"] JArr)
        ultimately show ?thesis by auto
      next
        case short: False
        have "fold_result (\<lambda>k x. visit_output L (d + 1) k x) (n + 1) xs = Inr m \<longleftrightarrow>
            m = n + 1 + sum_list (map json_nodes xs) \<and> (xs = [] \<or> m \<le> nat (maxResultNodes L)) \<and> list_all ?ok xs"
          by (rule fold_result_count) (use 1(1) [OF refl ok JArr short] deeper one_node in auto)
        moreover have "visit_output L d n (JArr xs) = fold_result (\<lambda>k x. visit_output L (d + 1) k x) (n + 1) xs"
          using ok short by (simp add: visit_output.simps [of L d n "JArr xs"])
        ultimately show ?thesis using budget by (auto simp: JArr list_all_iff)
      qed
    next
      case (JObj kvs)
      let ?f = "\<lambda>k (key, x). if normalizeFieldName key \<in> set FORBIDDEN_OUTPUT_FIELDS then Inl InvalidOutput
          else visit_output L (d + 1) k x"
      let ?ok = "\<lambda>p. 0 < nat (maxResultDepth L) - d \<and> within_depth (nat (maxResultDepth L) - (d + 1)) (snd p) \<and>
          normalizeFieldName (fst p) \<notin> set FORBIDDEN_OUTPUT_FIELDS \<and> clean_output (snd p)"
      have "fold_result ?f (n + 1) kvs = Inr m \<longleftrightarrow>
          m = n + 1 + sum_list (map (\<lambda>p. json_nodes (snd p)) kvs) \<and> (kvs = [] \<or> m \<le> nat (maxResultNodes L)) \<and> list_all ?ok kvs"
      proof (rule fold_result_count)
        fix k r and p :: "string \<times> json"
        assume "p \<in> set kvs"
        then show "?f k p = Inr r \<longleftrightarrow> r = k + json_nodes (snd p) \<and> r \<le> nat (maxResultNodes L) \<and> ?ok p"
          using 1(2) [OF refl ok JObj, of p "fst p" "snd p" k r] deeper by (auto simp: split_beta)
      qed (rule one_node)
      moreover have "visit_output L d n (JObj kvs) = fold_result ?f (n + 1) kvs"
        using ok by (simp add: visit_output.simps [of L d n "JObj kvs"])
      ultimately show ?thesis using budget by (auto simp: JObj list_all_iff)
    qed (use ok in \<open>auto simp: visit_output.simps [of L d n] Let_def\<close>)
  qed
qed

lemma cloneOutput_iff:
  "cloneOutput H L v = Inr w \<longleftrightarrow>
     w = v \<and> 0 \<le> maxResultDepth L \<and> json_nodes v \<le> nat (maxResultNodes L) \<and> within_depth (nat (maxResultDepth L)) v \<and>
     clean_output v \<and> int (utf8ByteLength (stringify H v)) \<le> maxResultBytes L"
  by (auto simp: cloneOutput_def visit_output_iff)

text \<open>What \<open>content_part\<close> accepts and what it makes of it.\<close>

lemma two_fields: "length kvs = 2 \<Longrightarrow> obj_get kvs a = Some x \<Longrightarrow> obj_get kvs b = Some y \<Longrightarrow> a \<noteq> b \<Longrightarrow>
    kvs = [(a, x), (b, y)] \<or> kvs = [(b, y), (a, x)]"
  by (cases kvs; cases "tl kvs") (auto split: if_splits)

lemma content_part_ok:
  assumes "content_part v = Inr part"
  obtains (a_text) s where "part = text_part s" "v = text_part s \<or> v = JObj [(''text'', JStr s), (''type'', JStr ''text'')]"
  | (a_json) w where "part = json_part w" "v = json_part w \<or> v = JObj [(''value'', w), (''type'', JStr ''json'')]"
proof -
  obtain kvs where v: "v = JObj kvs" using assms by (cases v) auto
  consider (t) s where "obj_get kvs ''type'' = Some (JStr ''text'')" "obj_get kvs ''text'' = Some (JStr s)" "length kvs = 2" "part = text_part s"
    | (j) w where "obj_get kvs ''type'' = Some (JStr ''json'')" "obj_get kvs ''value'' = Some w" "length kvs = 2" "part = json_part w"
    using assms unfolding v by (auto split: if_splits option.splits json.splits)
  then show ?thesis
  proof cases
    case t
    with two_fields [OF t(3,1,2)] show ?thesis by (intro a_text) (auto simp: v text_part_def)
  next
    case j
    with two_fields [OF j(3,1,2)] show ?thesis by (intro a_json) (auto simp: v json_part_def)
  qed
qed

text \<open>A part as wide, as deep, as clean and as long as what it was made of.\<close>

lemma utf8ByteLength_Nil [simp]: "utf8ByteLength [] = 0"
  by (simp add: utf8ByteLength_def)

lemma utf8ByteLength_Cons [simp]: "utf8ByteLength (c # s) = (if code c \<le> 0x7f then 1 else 2) + utf8ByteLength s"
proof -
  have "\<not> 55296 \<le> (of_char c :: nat)" "(of_char c :: nat) \<le> 2047" using nat_of_char_less_256 [of c] by linarith+
  then show ?thesis by (simp add: utf8ByteLength_def code_def)
qed

lemma utf8ByteLength_append [simp]: "utf8ByteLength (s @ t) = utf8ByteLength s + utf8ByteLength t"
  by (induction s) auto

lemma stringify_length_cong:
  "list_all2 (\<lambda>x y. utf8ByteLength (stringify H x) = utf8ByteLength (stringify H y)) xs ys \<Longrightarrow>
   utf8ByteLength (join_with s (map (stringify H) xs)) = utf8ByteLength (join_with s (map (stringify H) ys))"
proof (induction xs ys rule: list_all2_induct)
  case (Cons x xs y ys)
  then show ?case by (cases xs; cases ys) auto
qed simp

definition same_shape :: "host \<Rightarrow> json \<Rightarrow> json \<Rightarrow> bool" where
  "same_shape H v w \<longleftrightarrow> json_nodes v = json_nodes w \<and> (\<forall>n. within_depth n v = within_depth n w) \<and>
     clean_output v = clean_output w \<and> utf8ByteLength (stringify H v) = utf8ByteLength (stringify H w)"

lemma content_part_shape: "content_part v = Inr part \<Longrightarrow> same_shape H v part"
  by (erule content_part_ok) (auto simp: same_shape_def text_part_def json_part_def)

lemma content_parts_shape:
  assumes "map_result content_part xs = Inr parts"
  shows "same_shape H (JArr xs) (JArr parts)"
proof -
  have shapes: "list_all2 (same_shape H) xs parts"
    using map_result_all [OF assms] by (rule list_all2_mono) (rule content_part_shape)
  then have "list_all2 (\<lambda>x y. utf8ByteLength (stringify H x) = utf8ByteLength (stringify H y)) xs parts"
    by (rule list_all2_mono) (simp add: same_shape_def)
  note bytes = stringify_length_cong [OF this]
  from shapes have nodes: "map json_nodes xs = map json_nodes parts"
    by (induction rule: list_all2_induct) (auto simp: same_shape_def)
  from shapes have depth: "within_depth n (JArr xs) = within_depth n (JArr parts)" for n
    by (induction rule: list_all2_induct) (auto simp: same_shape_def)
  from shapes have clean: "clean_output (JArr xs) = clean_output (JArr parts)"
    by (induction rule: list_all2_induct) (auto simp: same_shape_def)
  show ?thesis unfolding same_shape_def using nodes depth clean bytes by simp
qed

section \<open>A normalized output\<close>

definition is_content_part :: "json \<Rightarrow> bool" where
  "is_content_part p \<longleftrightarrow> (\<exists>s. p = text_part s) \<or> (\<exists>v. p = json_part v)"

lemma content_parts_form:
  "map_result content_part xs = Inr parts \<Longrightarrow> \<forall>p\<in>set parts. is_content_part p"
proof (induction xs arbitrary: parts)
  case (Cons x xs)
  then obtain p ps where p: "content_part x = Inr p" "map_result content_part xs = Inr ps" "parts = p # ps" by auto
  have "is_content_part p" unfolding is_content_part_def using p(1) by (rule content_part_ok) blast+
  with Cons.IH [OF p(2)] p(3) show ?case by simp
qed simp

text \<open>Within the limits of the executor: a list of parts of a result.\<close>

definition parts_within :: "host \<Rightarrow> BoundedToolExecutorLimits \<Rightarrow> json list \<Rightarrow> bool" where
  "parts_within H L parts \<longleftrightarrow> parts \<noteq> [] \<and> (\<forall>p\<in>set parts. is_content_part p \<and> clean_output p) \<and>
     int (json_nodes (JArr parts)) \<le> maxResultNodes L \<and> within_depth (nat (maxResultDepth L)) (JArr parts) \<and>
     int (utf8ByteLength (stringify H (JArr parts))) \<le> maxResultBytes L"

lemma normalizeContentOutput_within:
  assumes "normalizeContentOutput H L v = Inr parts"
  shows "parts_within H L parts"
proof -
  obtain w where w: "cloneOutput H L (JArr (content_candidate v)) = Inr w"
    and rest: "(case w of JArr (x # xs) \<Rightarrow> map_result content_part (x # xs) | _ \<Rightarrow> Inl InvalidOutput) = Inr parts"
    using assms unfolding normalizeContentOutput_def bind_result_Inr_iff by blast
  have "w = JArr (content_candidate v)" using w by (simp add: cloneOutput_iff)
  with rest w obtain x xs where cloned: "cloneOutput H L (JArr (content_candidate v)) = Inr (JArr (x # xs))"
    and parts: "map_result content_part (x # xs) = Inr parts"
    by (cases "content_candidate v") auto
  have shape: "same_shape H (JArr (x # xs)) (JArr parts)" by (rule content_parts_shape [OF parts])
  have "clean_output (JArr parts)" using cloned shape by (simp add: cloneOutput_iff same_shape_def)
  moreover have "parts \<noteq> []" using map_result_length [OF parts] by auto
  moreover have "json_nodes (JArr parts) \<le> nat (maxResultNodes L)" "within_depth (nat (maxResultDepth L)) (JArr parts)"
    "int (utf8ByteLength (stringify H (JArr parts))) \<le> maxResultBytes L"
    using cloned shape unfolding cloneOutput_iff same_shape_def by metis+
  ultimately show ?thesis
    using content_parts_form [OF parts] unfolding parts_within_def by (auto simp: list_all_iff)
qed

lemma output_records_ok:
  "output_records H i v = Inr r \<longleftrightarrow> normalizeCitationRecords H v = Inr r \<and> Citations.citations r \<noteq> [] \<and>
     (\<forall>c\<in>set (Citations.citations r). citation_target c = ToolResultCitationTarget i)"
  by (auto simp: output_records_def list_ex_iff split: sum.splits)

lemma normalizeOutput_ok:
  assumes "normalizeOutput H L v i = Inr (parts, records)"
  shows "parts_within H L parts"
    and "records = Some r \<Longrightarrow> wf_record_set r \<and> Citations.citations r \<noteq> [] \<and>
      (\<forall>c\<in>set (Citations.citations r). citation_target c = ToolResultCitationTarget i)"
proof -
  obtain projection where
      parts: "normalizeContentOutput H L (projected_content projection v) = Inr parts"
    and rest: "case projection of None \<Rightarrow> records = None | Some (c, w) \<Rightarrow> \<exists>q. output_records H i w = Inr q \<and> records = Some q"
    using assms unfolding normalizeOutput_def by (auto split: option.splits)
  show "parts_within H L parts" by (rule normalizeContentOutput_within [OF parts])
  show "wf_record_set r \<and> Citations.citations r \<noteq> [] \<and>
      (\<forall>c\<in>set (Citations.citations r). citation_target c = ToolResultCitationTarget i)" if "records = Some r"
    using rest that by (auto simp: output_records_ok normalizeCitationRecords_wf split: option.splits)
qed

section \<open>Outputs in the event log and on the wire\<close>

text \<open>Field names of 1 to 256 characters, at every depth.\<close>

fun names_fit :: "json \<Rightarrow> bool" where
  "names_fit (JArr xs) = list_all names_fit xs"
| "names_fit (JObj kvs) = list_all (\<lambda>kv. fst kv \<noteq> [] \<and> length (fst kv) \<le> 256 \<and> names_fit (snd kv)) kvs"
| "names_fit _ = True"

fun strings_within :: "nat \<Rightarrow> json \<Rightarrow> bool" where
  "strings_within n (JStr s) = (length s \<le> n)"
| "strings_within n (JArr xs) = list_all (strings_within n) xs"
| "strings_within n (JObj kvs) = list_all (\<lambda>kv. strings_within n (snd kv)) kvs"
| "strings_within n _ = True"

lemma join_with_part: "x \<in> set xs \<Longrightarrow> length x \<le> length (join_with s xs)"
  by (induction s xs rule: join_with.induct) auto

lemma escape_char_pos: "1 \<le> length (escape_char c)"
  by (simp add: escape_char_def Let_def)

lemma quote_length: "length s \<le> length (quote s)"
proof (induction s)
  case (Cons c s)
  then show ?case using escape_char_pos [of c] by (simp add: quote_def)
qed simp

lemma stringify_strings: "length (stringify H v) \<le> n \<Longrightarrow> strings_within n v"
proof (induction v arbitrary: n)
  case (JStr s)
  then show ?case using quote_length [of s] by simp
next
  case (JArr xs)
  have "strings_within n x" if x: "x \<in> set xs" for x
    using JArr.IH [OF x, of n] JArr.prems join_with_part [of "stringify H x" "map (stringify H) xs" "'',''"] x by simp
  then show ?case by (simp add: list_all_iff)
next
  case (JObj kvs)
  have "strings_within n x" if kv: "(k, x) \<in> set kvs" for k x
  proof -
    have "length (quote k @ '':'' @ stringify H x) \<le> length (join_with '','' (map (\<lambda>kv. quote (fst kv) @ '':'' @ stringify H (snd kv)) kvs))"
      by (rule join_with_part) (use kv in \<open>force simp: image_iff\<close>)
    then have "length (stringify H x) \<le> n" using JObj.prems by simp
    then show ?thesis using JObj.IH [OF kv, of x n] by (simp add: snds.simps)
  qed
  then show ?case by (auto simp: list_all_iff)
qed simp_all

lemma length_bytes: "length s \<le> utf8ByteLength s"
  by (induction s) auto

lemma credential_patterns: "has_credential s \<Longrightarrow> citation_has_credential s"
proof -
  have start: "starts_word prev \<Longrightarrow> after_non_alnum prev" for prev
    by (auto simp: starts_word_def after_non_alnum_def is_word_char_def split: option.splits)
  have "any_position (secret_key_at starts_word) prev t \<Longrightarrow> any_position (secret_key_at after_non_alnum) prev t" for prev t
    by (induction t arbitrary: prev) (auto simp: secret_key_at_def dest: start)
  then show "has_credential s \<Longrightarrow> citation_has_credential s"
    by (auto simp: has_credential_def citation_has_credential_def matches_anywhere_def)
qed

lemma output_fields_cover:
  "set CREDENTIAL_FIELD_NAMES \<subseteq> set FORBIDDEN_OUTPUT_FIELDS" "set WIRE_CREDENTIAL_FIELD_NAMES \<subseteq> set FORBIDDEN_OUTPUT_FIELDS"
  by (simp_all add: CREDENTIAL_FIELD_NAMES_def WIRE_CREDENTIAL_FIELD_NAMES_def FORBIDDEN_OUTPUT_FIELDS_def)

lemma conforming_names: "json_conforms JSON_LIMITS v \<Longrightarrow> names_fit v" "wire_conforms PUBLIC_JSON_LIMITS v \<Longrightarrow> names_fit v"
  by (induction v rule: names_fit.induct)
     (auto simp: list_all_iff key_allowed_def JSON_LIMITS_def wire_key_allowed_def PUBLIC_JSON_LIMITS_def)

lemma clean_conforms:
  "clean_output v \<Longrightarrow> names_fit v \<Longrightarrow> json_nodes v \<le> 2000 \<Longrightarrow> strings_within 1000000 v \<Longrightarrow>
     json_conforms JSON_LIMITS v \<and> wire_conforms PUBLIC_JSON_LIMITS v"
proof (induction v)
  case (JStr s)
  then show ?case using credential_patterns [of s]
    by (auto simp: string_allowed_def wire_string_allowed_def JSON_LIMITS_def PUBLIC_JSON_LIMITS_def)
next
  case (JArr xs)
  have "json_nodes x \<le> 2000" if "x \<in> set xs" for x
    using member_le_sum_list [of "json_nodes x" "map json_nodes xs"] that JArr.prems(3) by simp
  moreover have "length xs \<le> 2000" using nodes_length [of xs] JArr.prems(3) by simp
  ultimately show ?case using JArr by (simp add: list_all_iff JSON_LIMITS_def PUBLIC_JSON_LIMITS_def)
next
  case (JObj kvs)
  have nodes: "json_nodes x \<le> 2000" if "(k, x) \<in> set kvs" for k x
    using member_le_sum_list [of "json_nodes x" "map (\<lambda>kv. json_nodes (snd kv)) kvs"] that JObj.prems(3) by force
  have "length kvs \<le> 2000" using nodes_length [of "map snd kvs"] JObj.prems(3) by (simp add: comp_def)
  moreover have "key_allowed JSON_LIMITS k \<and> wire_key_allowed PUBLIC_JSON_LIMITS k \<and>
      json_conforms JSON_LIMITS x \<and> wire_conforms PUBLIC_JSON_LIMITS x" if kv: "(k, x) \<in> set kvs" for k x
  proof -
    have "normalizeFieldName k \<notin> set FORBIDDEN_OUTPUT_FIELDS" "clean_output x" "k \<noteq> []" "length k \<le> 256" "names_fit x"
      "strings_within 1000000 x"
      using JObj.prems kv by (auto simp: list_all_iff)
    then show ?thesis using JObj.IH [OF kv, of x] nodes [OF kv] output_fields_cover
      by (auto simp: key_allowed_def wire_key_allowed_def JSON_LIMITS_def PUBLIC_JSON_LIMITS_def snds.simps)
  qed
  ultimately show ?case by (auto simp: list_all_iff JSON_LIMITS_def PUBLIC_JSON_LIMITS_def)
qed simp_all

text \<open>The parts of an output under the default limits.\<close>

lemma part_nodes: "p \<in> set parts \<Longrightarrow> json_nodes p \<le> json_nodes (JArr parts)"
  using member_le_sum_list [of "json_nodes p" "map json_nodes parts"] by simp

lemma json_part_simps [simp]:
  "json_nodes (json_part v) = 2 + json_nodes v"
  "clean_output (json_part v) \<longleftrightarrow> clean_output v"
  "strings_within n (json_part v) \<longleftrightarrow> 4 \<le> n \<and> strings_within n v"
  "names_fit (json_part v) \<longleftrightarrow> names_fit v" "names_fit (text_part s)"
  "within_depth n (json_part v) \<longleftrightarrow> 0 < n \<and> within_depth (n - 1) v"
  "strings_within n (text_part s) \<longleftrightarrow> 4 \<le> n \<and> length s \<le> n"
proof -
  have "normalizeFieldName ''type'' \<notin> set FORBIDDEN_OUTPUT_FIELDS" "normalizeFieldName ''value'' \<notin> set FORBIDDEN_OUTPUT_FIELDS"
    "\<not> citation_has_credential ''json''"
    by code_simp+
  then show "clean_output (json_part v) \<longleftrightarrow> clean_output v" by (simp add: json_part_def)
qed (auto simp: json_part_def text_part_def)

lemma within_depth_mono: "within_depth m v \<Longrightarrow> m \<le> n \<Longrightarrow> within_depth n v"
proof (induction v arbitrary: m n)
  case (JArr xs)
  have "within_depth (n - 1) x" if "x \<in> set xs" for x
    using JArr.IH [OF that, of "m - 1" "n - 1"] JArr.prems that by (auto simp: list_all_iff)
  then show ?case using JArr.prems by (auto simp: list_all_iff)
next
  case (JObj kvs)
  have "within_depth (n - 1) x" if "(k, x) \<in> set kvs" for k x
    using JObj.IH [OF that, of x "m - 1" "n - 1"] JObj.prems that by (auto simp: list_all_iff snds.simps)
  then show ?case using JObj.prems by (auto simp: list_all_iff)
qed simp_all

lemma part_bounds:
  assumes "parts_within H DEFAULT_BOUNDED_TOOL_EXECUTOR_LIMITS parts" "p \<in> set parts"
  shows "json_nodes p \<le> 2000" "within_depth 11 p" "strings_within 65536 p" "clean_output p" "is_content_part p"
proof -
  note w = assms(1) [unfolded parts_within_def DEFAULT_BOUNDED_TOOL_EXECUTOR_LIMITS_def BoundedToolExecutorLimits.simps]
  show "json_nodes p \<le> 2000" using w part_nodes [OF assms(2)] by linarith
  show "within_depth 11 p" using w assms(2) by (auto simp: list_all_iff)
  have "strings_within 65536 (JArr parts)"
    by (rule stringify_strings [of H]) (use w length_bytes [of "stringify H (JArr parts)"] in linarith)
  then show "strings_within 65536 p" using assms(2) by (simp add: list_all_iff)
  show "clean_output p" "is_content_part p" using w assms(2) by blast+
qed

lemma event_text_part: "length s \<le> textLength \<Longrightarrow> validateTextPart (Some (text_part s)) path = Inr s"
  by (simp add: validateTextPart_def text_part_def event_record_def requiredKeys_def allowedKeys_def guard_def stringValue_def)

lemma strings_within_mono: "strings_within m v \<Longrightarrow> m \<le> n \<Longrightarrow> strings_within n v"
  by (induction m v rule: strings_within.induct) (auto simp: list_all_iff)

lemma json_part_accepted:
  assumes "json_nodes v \<le> 2000" "within_depth 11 v" "strings_within 65536 v" "clean_output v"
  shows "(\<exists>u. validateJson v path JSON_LIMITS = Inr u) \<longleftrightarrow> names_fit v"
    and "validateCredentialsAbsent v path = Inr () \<longleftrightarrow> names_fit v"
proof -
  have depth: "within_depth 20 v" using within_depth_mono [OF assms(2)] by simp
  have nodes: "json_nodes v \<le> 10000" using assms(1) by simp
  have conform: "names_fit v \<Longrightarrow> json_conforms JSON_LIMITS v \<and> wire_conforms PUBLIC_JSON_LIMITS v"
    using clean_conforms [OF assms(4) _ assms(1)] strings_within_mono [OF assms(3)] by simp
  have limits: "maxDepth JSON_LIMITS = 20" "maxNodes JSON_LIMITS = 10000" "wireMaxDepth PUBLIC_JSON_LIMITS = 20"
    "wireMaxNodes PUBLIC_JSON_LIMITS = 10000"
    by (simp_all add: JSON_LIMITS_def PUBLIC_JSON_LIMITS_def)
  show "(\<exists>u. validateJson v path JSON_LIMITS = Inr u) \<longleftrightarrow> names_fit v"
    using conform conforming_names(1) [of v] depth nodes by (auto simp: validateJson_def visit_iff limits)
  show "validateCredentialsAbsent v path = Inr () \<longleftrightarrow> names_fit v"
    using conform conforming_names(2) [of v] depth nodes
    by (auto simp: validateCredentialsAbsent_def wire_validateJson_iff limits)
qed

lemma part_accepted_iff:
  assumes "parts_within H DEFAULT_BOUNDED_TOOL_EXECUTOR_LIMITS parts" "p \<in> set parts"
  shows "(\<exists>c. validateToolResultPart (Some p) path = Inr c) \<longleftrightarrow> names_fit p"
    and "wire_validateToolResultPart (Some p) path = Inr () \<longleftrightarrow> names_fit p"
proof -
  note b = part_bounds [OF assms]
  consider (t) s where "p = text_part s" | (j) v where "p = json_part v" using b(5) unfolding is_content_part_def by blast
  note cases = this
  have e: "event_record (Some (JObj kvs)) q = Inr kvs" for kvs q by (simp add: event_record_def)
  show "(\<exists>c. validateToolResultPart (Some p) path = Inr c) \<longleftrightarrow> names_fit p" using cases
  proof cases
    case t
    have "length s \<le> textLength" using b(3) by (simp add: t textLength_def)
    from event_text_part [OF this] show ?thesis
      by (simp add: t validateToolResultPart_def text_part_def e)
  next
    case j
    have "json_nodes v \<le> 2000" "within_depth 10 v" "strings_within 65536 v" "clean_output v" using b by (simp_all add: j)
    from json_part_accepted(1) [OF this(1) within_depth_mono [OF this(2)] this(3,4)] show ?thesis
      by (auto simp: j validateToolResultPart_def json_part_def e requiredKeys_def allowedKeys_def guard_def)
  qed
  show "wire_validateToolResultPart (Some p) path = Inr () \<longleftrightarrow> names_fit p" using cases
  proof cases
    case t
    have "length s \<le> textLength" using b(3) by (simp add: t textLength_def)
    from event_text_part [OF this] show ?thesis
      by (simp add: t wire_validateToolResultPart_def text_part_def e)
  next
    case j
    have "json_nodes v \<le> 2000" "within_depth 10 v" "strings_within 65536 v" "clean_output v" using b by (simp_all add: j)
    from json_part_accepted(2) [OF this(1) within_depth_mono [OF this(2)] this(3,4)] show ?thesis
      by (auto simp: j wire_validateToolResultPart_def json_part_def e requiredKeys_def allowedKeys_def guard_def)
  qed
qed

section \<open>The outputs of tools\<close>

text \<open>A text, and an object with a field without a name.\<close>

lemma demo_text_output:
  "normalizeOutput H DEFAULT_BOUNDED_TOOL_EXECUTOR_LIMITS (JStr ''ok'') i = Inr ([text_part ''ok''], None)"
proof -
  have "normalizeFieldName ''type'' \<notin> set FORBIDDEN_OUTPUT_FIELDS" "normalizeFieldName ''text'' \<notin> set FORBIDDEN_OUTPUT_FIELDS"
    "\<not> citation_has_credential ''text''" "\<not> citation_has_credential ''ok''"
    by code_simp+
  then have "cloneOutput H DEFAULT_BOUNDED_TOOL_EXECUTOR_LIMITS (JArr [text_part ''ok'']) = Inr (JArr [text_part ''ok''])"
    by (simp add: cloneOutput_iff text_part_def DEFAULT_BOUNDED_TOOL_EXECUTOR_LIMITS_def quote_def escape_char_def code_def)
  then show ?thesis
    by (simp add: normalizeOutput_def outputProjection_def projected_content_def normalizeContentOutput_def content_candidate_def)
       (simp add: text_part_def)
qed

lemma demo_unnamed_output:
  "normalizeOutput H DEFAULT_BOUNDED_TOOL_EXECUTOR_LIMITS (JObj [([], JNull)]) i = Inr ([json_part (JObj [([], JNull)])], None)"
proof -
  have "normalizeFieldName [] \<notin> set FORBIDDEN_OUTPUT_FIELDS" by code_simp
  then have "cloneOutput H DEFAULT_BOUNDED_TOOL_EXECUTOR_LIMITS (JArr [json_part (JObj [([], JNull)])]) =
      Inr (JArr [json_part (JObj [([], JNull)])])"
    unfolding cloneOutput_iff
    by (simp add: DEFAULT_BOUNDED_TOOL_EXECUTOR_LIMITS_def) (simp add: json_part_def quote_def escape_char_def code_def)
  then show ?thesis
    by (simp add: normalizeOutput_def outputProjection_def projected_content_def normalizeContentOutput_def content_candidate_def)
       (simp add: json_part_def)
qed

text \<open>
  C22. What the executor returns of a tool's output is a non-empty list of text and JSON parts
  within its limits of values, depth and bytes, without a credential or a forbidden field name at
  any depth; its citation records are well formed, not empty, and cite this tool call only.
\<close>

theorem tool_outputs_are_sanitized:
  assumes "normalizeOutput H L output toolCallId = Inr (parts, records)"
  shows "parts_within H L parts \<and>
    (\<forall>r. records = Some r \<longrightarrow> wf_record_set r \<and> Citations.citations r \<noteq> [] \<and>
       (\<forall>c\<in>set (Citations.citations r). citation_target c = ToolResultCitationTarget toolCallId))"
  using normalizeOutput_ok [OF assms] by blast

theorem tool_outputs_are_sanitized_witness:
  "parts_within \<lparr>parse_url = (\<lambda>_. None), fraction_string = (\<lambda>_. ''0'')\<rparr> DEFAULT_BOUNDED_TOOL_EXECUTOR_LIMITS [text_part ''ok'']"
  using tool_outputs_are_sanitized [OF demo_text_output] by blast

text \<open>
  C25. Under the default limits of the executor, the parts of a tool's output are accepted by the
  event log and by the continuation request exactly when every field name in them has 1 to 256
  characters: an output with an empty or a longer name passes the executor and is refused when the
  tool loop records it.
\<close>

theorem tool_outputs_fit_the_log_iff_names_fit:
  assumes "normalizeOutput H DEFAULT_BOUNDED_TOOL_EXECUTOR_LIMITS output toolCallId = Inr (parts, records)"
    and "p \<in> set parts"
  shows "((\<exists>c. validateToolResultPart (Some p) path = Inr c) \<longleftrightarrow> names_fit p) \<and>
    (wire_validateToolResultPart (Some p) path = Inr () \<longleftrightarrow> names_fit p)"
  using part_accepted_iff [OF normalizeOutput_ok(1) [OF assms(1)] assms(2)] by blast

theorem tool_outputs_fit_the_log_iff_names_fit_witness:
  "\<not> (\<exists>c. validateToolResultPart (Some (json_part (JObj [([], JNull)]))) ''$'' = Inr c) \<and>
   wire_validateToolResultPart (Some (text_part ''ok'')) ''$'' = Inr ()"
proof -
  have "(json_part (JObj [([], JNull)])) \<in> set [json_part (JObj [([], JNull)])]" "text_part ''ok'' \<in> set [text_part ''ok'']" by simp_all
  from tool_outputs_fit_the_log_iff_names_fit [OF demo_unnamed_output this(1)]
    tool_outputs_fit_the_log_iff_names_fit [OF demo_text_output this(2)]
  show ?thesis by simp
qed

end
