(* ===== verification/ToolExecutorProperties.thy ===== *)
theory ToolExecutorProperties
  imports ToolExecutorFacts ToolRegistryFacts ToolOutputFacts
begin

text \<open>
  The promises of the executor of tools (src/tools/executor.ts): whose function is called, how
  often and how many at once, and what a request gets that is sent again.
\<close>

section \<open>Vetted requests\<close>

text \<open>
  The tool is registered, it is among the tools the caller discovered, and the arguments are
  within the bounds and match the tool's schema.
\<close>

definition vetted :: "('x, 'c) ExecutorConfig \<Rightarrow> 'a BoundedToolExecutionRequest \<Rightarrow> bool" where
  "vetted E req \<longleftrightarrow> (\<exists>t args. get_tool (request_name req) (config_registry E) = Some t \<and>
     tool_definition t \<in> set (request_discoveredTools req) \<and> cloneArguments (request_arguments req) = Inr args \<and>
     schema_accepts E (input_schema (tool_definition t)) args = Some True)"

text \<open>The identifiers are safe, and the key and the fingerprint are those of the request.\<close>

definition identified :: "('x, 'c) ExecutorConfig \<Rightarrow> 'a BoundedToolExecutionRequest \<Rightarrow> string \<Rightarrow> string \<Rightarrow> bool" where
  "identified E req key fingerprint \<longleftrightarrow>
     safeIdentifier (Some (JStr (request_tool_call_id req))) ''unknown_tool_call'' = request_tool_call_id req \<and>
     safeIdentifier (Some (JStr (request_name req))) ''unknown_tool'' = request_name req \<and>
     key = (case request_executionKey req of None \<Rightarrow> request_tool_call_id req | Some k \<Rightarrow> k) \<and>
     safeIdentifier (Some (JStr key)) ''invalid_execution_key'' = key \<and>
     (\<exists>args. cloneArguments (request_arguments req) = Inr args \<and>
        fingerprint = toolRequestFingerprint (config_host E) (request_tool_call_id req) (request_name req) args)"

definition op_ok :: "('x, 'c) ExecutorConfig \<Rightarrow> 'a Operation \<Rightarrow> bool" where
  "op_ok E p \<longleftrightarrow> identified E (op_request p) (op_key p) (op_fingerprint p) \<and>
     (op_permitted p \<or> (\<forall>out. op_status p \<noteq> OperationDone out) \<longrightarrow> vetted E (op_request p))"

definition ops_ok :: "('x, 'c) ExecutorConfig \<Rightarrow> ('a, 'k) ExecutorState \<Rightarrow> bool" where
  "ops_ok E s \<longleftrightarrow> (\<forall>p\<in>set (ops s). op_ok E p)"

lemma ops_ok_runs [simp]: "ops_ok E (s\<lparr>runs := rs\<rparr>) = ops_ok E s"
  by (simp add: ops_ok_def)

lemma set_op_ok:
  assumes "ops_ok E s" "i < length (ops s) \<Longrightarrow> op_ok E (f (ops s ! i))" shows "ops_ok E (set_op i f s)"
proof (cases "i < length (ops s)")
  case True
  then show ?thesis using assms set_update_subset_insert [of "ops s" i "f (ops s ! i)"] by (auto simp: set_op_def ops_ok_def)
next
  case False
  then show ?thesis using assms(1) by (simp add: set_op_def list_update_beyond ops_ok_def)
qed

lemma finish_ok:
  assumes "ops_ok E s" shows "ops_ok E (finish_op i out s)"
proof -
  have "ops_ok E (set_op i (\<lambda>p. p\<lparr>op_status := OperationDone out\<rparr>) s)"
    by (rule set_op_ok [OF assms]) (use assms in \<open>simp add: ops_ok_def op_ok_def\<close>)
  then show ?thesis by (simp add: finish_op_def ops_ok_def)
qed

lemma settled_ok: "ops_ok E s \<Longrightarrow> ops_ok E (fail_op i e ph s)" "ops_ok E s \<Longrightarrow> ops_ok E (complete_op i msg s)"
  by (simp_all add: fail_op_def complete_op_def Let_def finish_ok)

lemma active_vetted:
  "ops_ok E s \<Longrightarrow> i < length (ops s) \<Longrightarrow> \<forall>out. op_status (ops s ! i) \<noteq> OperationDone out \<Longrightarrow> vetted E (op_request (ops s ! i))"
  unfolding ops_ok_def by (metis nth_mem op_ok_def)

lemma op_identified:
  "ops_ok E s \<Longrightarrow> i < length (ops s) \<Longrightarrow> identified E (op_request (ops s ! i)) (op_key (ops s ! i)) (op_fingerprint (ops s ! i))"
  unfolding ops_ok_def by (metis nth_mem op_ok_def)

lemma executeAuthorized_ok:
  assumes "ops_ok E s" "i < length (ops s)" "\<forall>out. op_status (ops s ! i) \<noteq> OperationDone out"
  shows "ops_ok E (executeAuthorized i claim s)"
proof -
  have v: "vetted E (op_request (ops s ! i))" by (rule active_vetted [OF assms])
  note named = op_identified [OF assms(1,2)]
  define s1 where "s1 = set_op i (\<lambda>p. p\<lparr>op_permitted := True\<rparr>) s"
  have one: "ops_ok E s1" unfolding s1_def by (rule set_op_ok [OF assms(1)]) (simp add: op_ok_def v named)
  have req: "op_request (ops s1 ! i) = op_request (ops s ! i)" using assms(2) by (simp add: s1_def set_op_def)
  have two: "ops_ok E (set_op i (\<lambda>p. p\<lparr>op_status := st\<rparr>) (s1\<lparr>ledger := m\<rparr>))" for st m
    by (rule set_op_ok) (use one op_identified [OF one, of i] req v in \<open>simp_all add: op_ok_def ops_ok_def\<close>)
  show ?thesis
    using settled_ok(1) [OF one] two
    by (simp add: executeAuthorized_def Let_def s1_def split: prod.split sum.split)
qed

lemma begin_unvetted:
  assumes "\<not> vetted E (op_request (ops s ! i))" shows "\<exists>out. begin_operation E i s = finish_op i out s"
proof (cases "op_aborted (ops s ! i)")
  case True
  then show ?thesis by (simp add: begin_operation_def Let_def fail_op_def) blast
next
  case active: False
  let ?req = "op_request (ops s ! i)"
  show ?thesis
  proof (cases "get_tool (request_name ?req) (config_registry E)")
    case None
    with active show ?thesis by (simp add: begin_operation_def Let_def complete_op_def) blast
  next
    case (Some t)
    show ?thesis
    proof (cases "tool_definition t \<in> set (request_discoveredTools ?req)")
      case False
      with active Some show ?thesis by (simp add: begin_operation_def Let_def complete_op_def) blast
    next
      case True
      have "\<exists>e. bind_result (cloneArguments (request_arguments ?req)) (validateArguments E (tool_definition t)) = Inl e"
        using assms Some True
        by (cases "cloneArguments (request_arguments ?req)") (auto simp: vetted_def validateArguments_def)
      with active Some True show ?thesis by (auto simp: begin_operation_def Let_def fail_op_def)
    qed
  qed
qed

lemma begin_vetted_ok: "ops_ok E s \<Longrightarrow> ops_ok E (begin_operation E i s)"
  by (simp add: begin_operation_def Let_def settled_ok split: option.split sum.split)

lemma start_ok: assumes "ops_ok E s" "identified E req k f" shows "ops_ok E (snd (start_operation E req k f s))"
proof -
  define s1 where "s1 = add_operation req k f s"
  let ?i = "length (ops s)"
  obtain p where p: "ops s1 = ops s @ [p]" "op_request p = req" "op_key p = k" "op_fingerprint p = f" "\<not> op_permitted p"
    by (simp add: s1_def add_operation_def)
  have "ops_ok E (begin_operation E ?i s1)"
  proof (cases "vetted E req")
    case True
    then have "ops_ok E s1" using p assms by (simp add: op_ok_def ops_ok_def)
    then show ?thesis by (rule begin_vetted_ok)
  next
    case False
    have "op_request (ops s1 ! ?i) = req" using p by simp
    with False begin_unvetted [of E s1 ?i] obtain out where "begin_operation E ?i s1 = finish_op ?i out s1" by auto
    then show ?thesis using p assms by (simp add: finish_op_def set_op_def op_ok_def ops_ok_def)
  qed
  then show ?thesis by (simp add: start_operation_def Let_def s1_def ops_ok_def)
qed

lemma same_ok: "ops_ok E s \<Longrightarrow> same_identities s s' \<Longrightarrow> ops_ok E s'"
  by (simp add: same_identities_def ops_ok_def)

text \<open>A request changes nothing, or starts an operation under its key and fingerprint.\<close>

lemma executeDetailed_cases:
  obtains "snd (executeDetailed E req s) = s"
  | k f where "identified E req k f" "executeDetailed E req s = start_operation E req k f s"
proof -
  let ?id = "safeIdentifier (Some (JStr (request_tool_call_id req))) ''unknown_tool_call''"
    and ?name = "safeIdentifier (Some (JStr (request_name req))) ''unknown_tool''"
  let ?key = "case request_executionKey req of None \<Rightarrow> ?id | Some k \<Rightarrow> k"
  show ?thesis
  proof (cases "?id \<noteq> request_tool_call_id req \<or> ?name \<noteq> request_name req \<or> ?key \<noteq> safeIdentifier (Some (JStr ?key)) ''invalid_execution_key''")
    case True
    then show ?thesis using that(1) by (simp add: executeDetailed_def Let_def)
  next
    case ids: False
    show ?thesis
    proof (cases "cloneArguments (request_arguments req)")
      case (Inl e)
      then show ?thesis using that(1) ids by (simp add: executeDetailed_def Let_def)
    next
      case (Inr args)
      define f where "f = toolRequestFingerprint (config_host E) ?id ?name args"
      define key where "key = ?key"
      have named: "identified E req key f"
        using ids Inr by (cases "request_executionKey req") (auto simp: identified_def f_def key_def)
      have reply: "executeDetailed E req s =
          (if request_approval req \<noteq> None then start_operation E req key f s
           else case ledger_get (ledger s) key f of
             Inl e \<Rightarrow> (RepliesOutcome (request_error req ''Tool call identity conflicts with its original request.''), s)
           | Inr (Some r) \<Rightarrow> (RepliesRun r, s)
           | Inr None \<Rightarrow>
               (case map_get (operations s) key of
                  Some (g, j) \<Rightarrow>
                    if g \<noteq> f
                    then (RepliesOutcome (request_error req ''Tool call identity conflicts with its original request.''), s)
                    else (RepliesOperation j, s)
                | None \<Rightarrow> start_operation E req key f s))"
        using ids Inr unfolding executeDetailed_def Let_def f_def key_def by (simp only: if_False not_False_eq_True sum.case)
      have "executeDetailed E req s = start_operation E req key f s \<or> snd (executeDetailed E req s) = s"
        unfolding reply by (simp split: sum.split option.split)
      then show ?thesis using that named by blast
    qed
  qed
qed

lemma ops_ok_step: "executor_step E s s' \<Longrightarrow> ops_ok E s \<Longrightarrow> ops_ok E s'"
proof (induction rule: executor_step.induct)
  case (submits s req)
  have "ops_ok E (snd (executeDetailed E req s))"
  proof (rule executeDetailed_cases [of E req s])
    assume "snd (executeDetailed E req s) = s"
    then show ?thesis using submits by simp
  next
    fix k f assume "identified E req k f" "executeDetailed E req s = start_operation E req k f s"
    then show ?thesis using start_ok [OF submits] by simp
  qed
  then show ?case .
next
  case (policy i s decision)
  have "ops_ok E (set_op i (\<lambda>p. p\<lparr>op_status := AwaitingClaim\<rparr>) s)"
    by (rule set_op_ok [OF policy(3)]) (use active_vetted [OF policy(3,1)] op_identified [OF policy(3,1)] policy(2) in \<open>simp add: op_ok_def\<close>)
  then show ?case
    using executeAuthorized_ok [OF policy(3,1)] policy
    by (cases decision) (simp_all add: policy_answers_def Let_def settled_ok finish_ok)
next
  case (claim i s answer)
  have "ops_ok E (set_op i (\<lambda>p. p\<lparr>op_status := AwaitingRun InApproval r\<rparr>) s)" for r
    by (rule set_op_ok [OF claim(3)]) (use active_vetted [OF claim(3,1)] op_identified [OF claim(3,1)] claim(2) in \<open>simp add: op_ok_def\<close>)
  then show ?case
    using executeAuthorized_ok [OF claim(3,1)] claim
    by (cases answer) (simp_all add: claim_answers_def Let_def settled_ok finish_ok split: sum.split option.split)
next
  case (cancels i s)
  then show ?case by (simp add: operation_cancelled_def settled_ok)
next
  case (awaits i s ph r)
  then show ?case by (simp add: run_awaited_def settled_ok finish_ok split: RunPhase.split)
next
  case (aborting i s b)
  have "ops_ok E (set_op i (\<lambda>p. p\<lparr>op_aborted := True, op_timedOut := op_timedOut p \<or> b\<rparr>) s)"
    by (rule set_op_ok [OF aborting(3)]) (use active_vetted [OF aborting(3,1,2)] op_identified [OF aborting(3,1)] in \<open>simp add: op_ok_def\<close>)
  then show ?case by (simp add: operation_aborts_def ops_ok_def)
qed (blast intro: same_ok run_steps_same)+

section \<open>Reachable states\<close>

definition executor_inv :: "('x, 'c) ExecutorConfig \<Rightarrow> ('a, 'k) ExecutorState \<Rightarrow> bool" where
  "executor_inv E s \<longleftrightarrow> executor_ids s \<and> slots_inv (max_slots E) s \<and> ops_ok E s"

lemma executor_inv_empty: "executor_inv E empty_executor"
  by (simp add: executor_inv_def empty_executor_def ids_inv_def slots_inv_def limiter_inv_empty tickets_apart_def ops_ok_def)

lemma executor_reachable: "(executor_step E)\<^sup>*\<^sup>* s s' \<Longrightarrow> executor_inv E s \<Longrightarrow> executor_inv E s'"
proof (induction rule: rtranclp_induct)
  case (step t u)
  then show ?case
    using executor_ids_step [OF step(2)] slots_step [OF step(2)] ops_ok_step [OF step(2)] unfolding executor_inv_def by blast
qed

text \<open>The tickets of open runs are granted and not released: as many as slots in use, at most.\<close>

lemma open_runs_bounded:
  assumes "slots_inv m s"
  shows "card {r. r < length (runs s) \<and> run_open (runs s ! r)} \<le> m"
proof -
  let ?open = "{r. r < length (runs s) \<and> run_open (runs s ! r)}" and ?held = "set (granted (limiter s)) - set (released (limiter s))"
  let ?ticket = "\<lambda>r. the (run_ticket (runs s ! r))"
  have ok: "\<exists>t. run_ticket (runs s ! r) = Some t \<and> t \<in> ?held" if "r \<in> ?open" for r
    using assms that unfolding slots_inv_def run_slot_ok_def by blast
  have "inj_on ?ticket ?open"
  proof (rule inj_onI)
    fix r q assume rq: "r \<in> ?open" "q \<in> ?open" "?ticket r = ?ticket q"
    obtain t u where "run_ticket (runs s ! r) = Some t" "run_ticket (runs s ! q) = Some u" using ok rq(1,2) by blast
    with rq show "r = q" using tickets_apartD [of "runs s" r q t] assms by (simp add: slots_inv_def)
  qed
  moreover have "?ticket ` ?open \<subseteq> ?held" using ok by fastforce
  ultimately have "card ?open \<le> card ?held" by (rule card_inj_on_le) simp
  also have "\<dots> = active (limiter s)"
  proof -
    have lim: "limiter_core m (limiter s)" using assms by (simp add: slots_inv_def limiter_inv_def)
    then have "distinct (granted (limiter s))" "distinct (released (limiter s))" "set (released (limiter s)) \<subseteq> set (granted (limiter s))"
      "active (limiter s) + length (released (limiter s)) = length (granted (limiter s))"
      by (auto simp: limiter_core_def sorted_wrt_append dest: distinct_increasing)
    then show ?thesis by (simp add: card_Diff_subset distinct_card flip: distinct_card)
  qed
  also have "\<dots> \<le> m" using assms by (simp add: slots_inv_def limiter_inv_def limiter_core_def)
  finally show ?thesis .
qed

section \<open>Results are kept\<close>

definition changes_run :: "nat \<Rightarrow> ('a, 'k) ExecutorState \<Rightarrow> ('a, 'k) ExecutorState \<Rightarrow> bool" where
  "changes_run r s s' \<longleftrightarrow> (\<exists>x. runs s' = (runs s)[r := x])"

lemma set_run_changes: "changes_run r s (set_run r f s)"
  by (auto simp: changes_run_def set_run_def)

lemma run_steps_change:
  "changes_run r s (conclude_run r res reason s)" "changes_run r s (run_fails r e b s)" "changes_run r s (acquire_slot E r s)"
  "changes_run r s (run_begins E r s)" "changes_run r s (start_answers E r ok s)" "changes_run r s (slot_granted r s)"
  "changes_run r s (slot_rejected r s)" "changes_run r s (race_returns r s)" "changes_run r s (race_lost r s)"
  "changes_run r s (settlement_answers r answer s)"
proof -
  show conclude: "changes_run r s (conclude_run r res reason s)" for res reason by (simp add: conclude_run_def set_run_changes)
  show fails: "changes_run r s (run_fails r e b s)" for e b by (simp add: run_fails_def Let_def conclude)
  show acquires: "changes_run r s (acquire_slot E r s)"
    using set_run_changes [of r s] by (auto simp: acquire_slot_def changes_run_def)
  show "changes_run r s (run_begins E r s)" by (simp add: run_begins_def set_run_changes acquires)
  show "changes_run r s (start_answers E r ok s)" by (simp add: start_answers_def acquires fails)
  show "changes_run r s (slot_granted r s)" using set_run_changes [of r s] by (auto simp: slot_granted_def changes_run_def)
  show "changes_run r s (slot_rejected r s)" "changes_run r s (race_lost r s)" by (simp_all add: slot_rejected_def race_lost_def fails)
  have "changes_run r s s" by (auto simp: changes_run_def intro: exI [of _ "runs s ! r"])
  then show "changes_run r s (race_returns r s)"
    by (simp add: race_returns_def Let_def conclude fails split: option.split sum.split)
  show "changes_run r s (settlement_answers r answer s)" by (simp add: settlement_answers_def Let_def set_run_changes)
qed

lemma other_run_kept:
  "changes_run q s s' \<Longrightarrow> run_phase (runs s ! q) \<noteq> Settled res \<Longrightarrow> r < length (runs s) \<Longrightarrow> run_phase (runs s ! r) = Settled res \<Longrightarrow>
   r < length (runs s') \<and> run_phase (runs s' ! r) = Settled res"
  by (cases "q = r") (auto simp: changes_run_def)

lemma appended_runs_kept:
  "runs s' = runs s @ xs \<Longrightarrow> r < length (runs s) \<Longrightarrow> run_phase (runs s ! r) = Settled res \<Longrightarrow>
   r < length (runs s') \<and> run_phase (runs s' ! r) = Settled res"
  by (simp add: nth_append)

lemma executeAuthorized_appends: "\<exists>xs. runs (executeAuthorized i claim s) = runs s @ xs"
  by (simp add: executeAuthorized_def Let_def executor_frames split: prod.split sum.split)

lemma settled_step:
  "executor_step E s s' \<Longrightarrow> r < length (runs s) \<Longrightarrow> run_phase (runs s ! r) = Settled res \<Longrightarrow>
   r < length (runs s') \<and> run_phase (runs s' ! r) = Settled res"
proof (induction rule: executor_step.induct)
  case (submits s req)
  then show ?case by (simp add: executeDetailed_frames)
next
  case (policy i s decision)
  have "\<exists>xs. runs (policy_answers E i decision s) = runs s @ xs"
    using executeAuthorized_appends by (cases decision) (auto simp: policy_answers_def Let_def executor_frames)
  then show ?case using appended_runs_kept [OF _ policy(3,4)] by blast
next
  case (claim i s answer)
  have "\<exists>xs. runs (claim_answers i answer s) = runs s @ xs"
    using executeAuthorized_appends
    by (cases answer) (auto simp: claim_answers_def Let_def executor_frames split: sum.split option.split)
  then show ?case using appended_runs_kept [OF _ claim(3,4)] by blast
next
  case (cancels i s)
  then show ?case by (simp add: operation_cancelled_def executor_frames)
next
  case (awaits i s ph q)
  then show ?case by (simp add: run_awaited_def executor_frames split: RunPhase.split)
next
  case (aborting i s b)
  then show ?case by (simp add: operation_aborts_def executor_frames)
next
  case (begins q s)
  show ?case by (rule other_run_kept [OF run_steps_change(4) _ begins(3,4)]) (simp add: begins)
next
  case (recorded q s ok)
  show ?case by (rule other_run_kept [OF run_steps_change(5) _ recorded(3,4)]) (simp add: recorded)
next
  case (calls_tool q s t)
  show ?case by (rule other_run_kept [OF run_steps_change(6) _ calls_tool(5,6)]) (simp add: calls_tool)
next
  case (refused q s t)
  show ?case by (rule other_run_kept [OF run_steps_change(7) _ refused(5,6)]) (simp add: refused)
next
  case (returns q s t out)
  then show ?case by (simp add: invocation_ends_def set_run_def nth_list_update)
next
  case (race_won q s)
  show ?case by (rule other_run_kept [OF run_steps_change(8) _ race_won(4,5)]) (simp add: race_won)
next
  case (race_aborted q s)
  show ?case by (rule other_run_kept [OF run_steps_change(9) _ race_aborted(4,5)]) (simp add: race_aborted)
next
  case (settles q s res' reason answer)
  show ?case by (rule other_run_kept [OF run_steps_change(10) _ settles(3,4)]) (simp add: settles)
qed

lemma settled_later:
  "(executor_step E)\<^sup>*\<^sup>* s s' \<Longrightarrow> r < length (runs s) \<Longrightarrow> run_phase (runs s ! r) = Settled res \<Longrightarrow>
   r < length (runs s') \<and> run_phase (runs s' ! r) = Settled res"
  by (induction rule: rtranclp_induct) (use settled_step in \<open>blast\<close>)+

text \<open>A request without approval under the key of a run gets that run, or a conflict.\<close>

lemma ledger_of_run:
  "executor_ids s \<Longrightarrow> r < length (runs s) \<Longrightarrow>
   map_get (ledger s) (run_key (runs s ! r)) = Some (op_fingerprint (owner_of r s), r) \<and> run_owner (runs s ! r) < length (ops s) \<and>
   op_key (owner_of r s) = run_key (runs s ! r) \<and> op_permitted (owner_of r s)"
  unfolding ids_inv_def bound_run_def by (simp add: run_identity_def)

lemma resubmitted:
  assumes "executor_ids s" "r < length (runs s)" "request_approval req = None" "identified E req (run_key (runs s ! r)) f"
  shows "executeDetailed E req s =
    (if f = op_fingerprint (owner_of r s) then (RepliesRun r, s)
     else (RepliesOutcome (request_error req ''Tool call identity conflicts with its original request.''), s))"
proof -
  obtain args where args: "cloneArguments (request_arguments req) = Inr args"
    "f = toolRequestFingerprint (config_host E) (request_tool_call_id req) (request_name req) args"
    using assms(4) by (auto simp: identified_def)
  have key: "run_key (runs s ! r) = (case request_executionKey req of None \<Rightarrow> request_tool_call_id req | Some k \<Rightarrow> k)"
    using assms(4) by (simp add: identified_def)
  have get: "ledger_get (ledger s) (run_key (runs s ! r)) f = (if f = op_fingerprint (owner_of r s) then Inr (Some r) else Inl IdentityConflict)"
    using ledger_of_run [OF assms(1,2)] by (simp add: ledger_get_def)
  show ?thesis
    using assms(3,4) args get unfolding key by (simp add: executeDetailed_def Let_def identified_def)
qed

section \<open>One call\<close>

text \<open>A request is permitted, gets a slot, and its tool returns a text.\<close>

definition demo_tool_host :: host where
  "demo_tool_host = \<lparr>parse_url = (\<lambda>_. None), fraction_string = (\<lambda>_. ''0'')\<rparr>"

definition demo_executor :: "(unit, unit) ExecutorConfig" where
  "demo_executor = \<lparr>config_host = demo_tool_host, config_limits = DEFAULT_BOUNDED_TOOL_EXECUTOR_LIMITS,
     config_registry = [(''read'', \<lparr>tool_definition = demo_read_tool ''read'', tool_executor = (), tool_tags = None,
       tool_capabilities = None, tool_discover = None\<rparr>)],
     schema_accepts = (\<lambda>_ _. Some True), has_coordinator = False\<rparr>"

definition demo_tool_request :: "unit BoundedToolExecutionRequest" where
  "demo_tool_request = \<lparr>request_tool_call_id = ''call'', request_name = ''read'', request_arguments = JObj [], request_executionKey = None,
     request_discoveredTools = [demo_read_tool ''read''], request_approval = None, request_has_start_hook = False,
     request_signal_aborted = False\<rparr>"

definition demo_request_fingerprint :: string where
  "demo_request_fingerprint = toolRequestFingerprint demo_tool_host ''call'' ''read'' (JObj [])"

definition demo_op :: "bool \<Rightarrow> OperationStatus \<Rightarrow> unit Operation" where
  "demo_op permitted status = \<lparr>op_request = demo_tool_request, op_key = ''call'', op_fingerprint = demo_request_fingerprint,
     op_status = status, op_aborted = False, op_timedOut = False, op_permitted = permitted\<rparr>"

definition demo_tool_run :: "RunPhase \<Rightarrow> ticket option \<Rightarrow> bool \<Rightarrow> (tool_fault + json list \<times> CitationRecordSet option) option \<Rightarrow> unit Run" where
  "demo_tool_run phase t is_open answer = \<lparr>run_key = ''call'', run_owner = 0, run_claim = None, run_phase = phase, run_ticket = t,
     run_open = is_open, run_answer = answer\<rparr>"

definition demo_tool_result :: ApplicationToolResult where
  "demo_tool_result = resultForExecution ''call'' ''read'' [text_part ''ok''] None"

definition demo_submitted :: "(unit, unit) ExecutorState" where
  "demo_submitted = \<lparr>ledger = [], operations = [(''call'', demo_request_fingerprint, 0)], ops = [demo_op False AwaitingPolicy],
     runs = [], limiter = empty_limiter, calls = []\<rparr>"

definition demo_running :: "ConcurrencyLimiter \<Rightarrow> nat list \<Rightarrow> unit Run \<Rightarrow> (unit, unit) ExecutorState" where
  "demo_running l cs x = \<lparr>ledger = [(''call'', demo_request_fingerprint, 0)], operations = [(''call'', demo_request_fingerprint, 0)],
     ops = [demo_op True (AwaitingRun InExecution 0)], runs = [x], limiter = l, calls = cs\<rparr>"

definition demo_held :: ConcurrencyLimiter where
  "demo_held = \<lparr>active = 1, waiters = [], granted = [0], rejected = [], released = [], aborted_signals = [], issued = 1\<rparr>"

definition demo_freed :: ConcurrencyLimiter where
  "demo_freed = \<lparr>active = 0, waiters = [], granted = [0], rejected = [], released = [0], aborted_signals = [], issued = 1\<rparr>"

lemma demo_submit: "snd (executeDetailed demo_executor demo_tool_request empty_executor) = demo_submitted"
  by (simp add: executeDetailed_def demo_tool_request_def demo_executor_def empty_executor_def safeIdentifier_def cloneArguments_def
      visit_arguments.simps ledger_get_def start_operation_def add_operation_def begin_operation_def get_tool_def validateArguments_def
      demo_submitted_def demo_op_def demo_request_fingerprint_def Let_def)

lemma demo_permit: "policy_answers demo_executor 0 PolicyAllows demo_submitted = demo_running empty_limiter [] (demo_tool_run Scheduled None False None)"
  by (simp add: policy_answers_def executeAuthorized_def demo_submitted_def demo_running_def demo_tool_run_def demo_op_def set_op_def
      ledger_getOrCreate_def ledger_get_def Let_def)

lemma demo_slot: "run_begins demo_executor 0 (demo_running empty_limiter [] (demo_tool_run Scheduled None False None)) =
    demo_running demo_held [] (demo_tool_run Acquiring (Some 0) False None)"
  by (simp add: run_begins_def acquire_slot_def demo_running_def demo_tool_run_def demo_op_def demo_tool_request_def set_run_def
      acquire_def grant_ticket_def empty_limiter_def demo_held_def demo_executor_def DEFAULT_BOUNDED_TOOL_EXECUTOR_LIMITS_def Let_def)

lemma demo_call: "slot_granted 0 (demo_running demo_held [] (demo_tool_run Acquiring (Some 0) False None)) =
    demo_running demo_held [0] (demo_tool_run Racing (Some 0) True None)"
  by (simp add: slot_granted_def demo_running_def demo_tool_run_def set_run_def)

lemma demo_answer: "invocation_ends demo_executor 0 0 (Some (JStr ''ok'')) (demo_running demo_held [0] (demo_tool_run Racing (Some 0) True None)) =
    demo_running demo_freed [0] (demo_tool_run Racing (Some 0) False (Some (Inr ([text_part ''ok''], None))))"
  by (simp add: invocation_ends_def demo_running_def demo_tool_run_def demo_op_def set_run_def normalized_answer_def demo_executor_def
      demo_text_output release_def demo_held_def demo_freed_def start_next.simps Let_def)

lemma demo_return: "race_returns 0 (demo_running demo_freed [0] (demo_tool_run Racing (Some 0) False (Some (Inr ([text_part ''ok''], None))))) =
    demo_running demo_freed [0] (demo_tool_run (Settled demo_tool_result) (Some 0) False (Some (Inr ([text_part ''ok''], None))))"
  by (simp add: race_returns_def demo_running_def demo_tool_run_def demo_op_def demo_tool_request_def conclude_run_def set_run_def demo_tool_result_def Let_def)

lemma demo_calling: "(executor_step demo_executor)\<^sup>*\<^sup>* empty_executor (demo_running demo_held [0] (demo_tool_run Racing (Some 0) True None))"
proof -
  have "executor_step demo_executor empty_executor demo_submitted"
    using executor_step.submits [of demo_executor "empty_executor :: (unit, unit) ExecutorState" demo_tool_request] by (simp add: demo_submit)
  moreover have "executor_step demo_executor demo_submitted (demo_running empty_limiter [] (demo_tool_run Scheduled None False None))"
    using executor_step.policy [of 0 demo_submitted demo_executor PolicyAllows] by (simp add: demo_permit) (simp add: demo_submitted_def demo_op_def)
  moreover have "executor_step demo_executor (demo_running empty_limiter [] (demo_tool_run Scheduled None False None))
      (demo_running demo_held [] (demo_tool_run Acquiring (Some 0) False None))"
    using executor_step.begins [of 0 "demo_running empty_limiter [] (demo_tool_run Scheduled None False None)" demo_executor]
    by (simp add: demo_slot) (simp add: demo_running_def demo_tool_run_def)
  moreover have "executor_step demo_executor (demo_running demo_held [] (demo_tool_run Acquiring (Some 0) False None))
      (demo_running demo_held [0] (demo_tool_run Racing (Some 0) True None))"
    using executor_step.calls_tool [of 0 "demo_running demo_held [] (demo_tool_run Acquiring (Some 0) False None)" 0 demo_executor]
    by (simp add: demo_call) (simp add: demo_running_def demo_tool_run_def demo_held_def)
  ultimately show ?thesis by (meson converse_rtranclp_into_rtranclp rtranclp.rtrancl_refl)
qed

lemma demo_settled: "(executor_step demo_executor)\<^sup>*\<^sup>* empty_executor
    (demo_running demo_freed [0] (demo_tool_run (Settled demo_tool_result) (Some 0) False (Some (Inr ([text_part ''ok''], None)))))"
proof -
  have "executor_step demo_executor (demo_running demo_held [0] (demo_tool_run Racing (Some 0) True None))
      (demo_running demo_freed [0] (demo_tool_run Racing (Some 0) False (Some (Inr ([text_part ''ok''], None)))))"
    using executor_step.returns [of 0 "demo_running demo_held [0] (demo_tool_run Racing (Some 0) True None)" 0 demo_executor "Some (JStr ''ok'')"]
    by (simp add: demo_answer) (simp add: demo_running_def demo_tool_run_def)
  moreover have "executor_step demo_executor (demo_running demo_freed [0] (demo_tool_run Racing (Some 0) False (Some (Inr ([text_part ''ok''], None)))))
      (demo_running demo_freed [0] (demo_tool_run (Settled demo_tool_result) (Some 0) False (Some (Inr ([text_part ''ok''], None)))))"
    using executor_step.race_won [of 0 "demo_running demo_freed [0] (demo_tool_run Racing (Some 0) False (Some (Inr ([text_part ''ok''], None))))" demo_executor]
    by (simp add: demo_return) (simp add: demo_running_def demo_tool_run_def)
  ultimately show ?thesis using demo_calling by (meson rtranclp.rtrancl_into_rtrancl)
qed

section \<open>The executor's promises\<close>



text \<open>
  C33. The result of a run is final, and a request sent again is answered from it: once an
  execution has settled, its original request without an approval gets that run's promise with the
  same result, whatever happened since, and another request under the same execution key gets an
  identity conflict; neither changes the executor.
\<close>

theorem settled_executions_answer_retries:
  assumes "(executor_step E)\<^sup>*\<^sup>* empty_executor s" and "(executor_step E)\<^sup>*\<^sup>* s s'"
    and "r < length (runs s)" and "run_phase (runs s ! r) = Settled res"
  shows "run_phase (runs s' ! r) = Settled res \<and>
    (\<forall>req. req = op_request (owner_of r s') \<and> request_approval req = None \<longrightarrow> executeDetailed E req s' = (RepliesRun r, s')) \<and>
    (\<forall>req f. request_approval req = None \<and> identified E req (run_key (runs s' ! r)) f \<and> f \<noteq> op_fingerprint (owner_of r s') \<longrightarrow>
       executeDetailed E req s' =
         (RepliesOutcome (request_error req ''Tool call identity conflicts with its original request.''), s'))"
proof -
  note later = settled_later [OF assms(2-4)]
  have "(executor_step E)\<^sup>*\<^sup>* empty_executor s'" using assms(1,2) by simp
  then have inv: "executor_inv E s'" by (rule executor_reachable [OF _ executor_inv_empty])
  then have ids: "executor_ids s'" and ok: "ops_ok E s'" by (simp_all add: executor_inv_def)
  have r: "r < length (runs s')" using later by simp
  note owner = ledger_of_run [OF ids r]
  have "identified E (op_request (owner_of r s')) (run_key (runs s' ! r)) (op_fingerprint (owner_of r s'))"
    using op_identified [OF ok, of "run_owner (runs s' ! r)"] owner by simp
  then show ?thesis using later resubmitted [OF ids r] by metis
qed

theorem settled_executions_answer_retries_witness:
  "fst (executeDetailed demo_executor demo_tool_request
     (demo_running demo_freed [0] (demo_tool_run (Settled demo_tool_result) (Some 0) False (Some (Inr ([text_part ''ok''], None)))))) = RepliesRun 0"
proof -
  let ?s = "demo_running demo_freed [0] (demo_tool_run (Settled demo_tool_result) (Some 0) False (Some (Inr ([text_part ''ok''], None))))"
  have "0 < length (runs ?s)" "run_phase (runs ?s ! 0) = Settled demo_tool_result" "op_request (owner_of 0 ?s) = demo_tool_request"
    "request_approval demo_tool_request = None"
    by (simp_all add: demo_running_def demo_tool_run_def demo_op_def demo_tool_request_def)
  with settled_executions_answer_retries [OF demo_settled rtranclp.rtrancl_refl this(1,2)] show ?thesis by simp
qed

end
