(* ===== verification/ToolLoop.thy ===== *)
theory ToolLoop
  imports ToolExecutor State Timestamps
begin

text \<open>
  The tool loop (src/tools/loop.ts): \<open>runToolLoop\<close> as a machine whose state holds the local
  variables and the await point the function is suspended at. The runtime, the executor, the
  clock, the abort signal and the resolver of approvals answer at the await points: their answers
  are arguments of the steps. A snapshot of the runtime is a conversation state. The runtime has both
  hooks of the loop; workers that are left behind when another one's promise rejects are not followed.
\<close>

section \<open>Limits and results\<close>

record ToolLoopLimits =
  maxIterations :: int
  maxTotalToolCalls :: int
  maxElapsedMs :: int
  parallelism :: int

definition DEFAULT_TOOL_LOOP_LIMITS :: ToolLoopLimits where
  "DEFAULT_TOOL_LOOP_LIMITS = \<lparr>maxIterations = 8, maxTotalToolCalls = 32, maxElapsedMs = 120000, parallelism = 1\<rparr>"

record ToolLoopLimitOverrides =
  override_maxIterations :: "jsnumber option"
  override_maxTotalToolCalls :: "jsnumber option"
  override_maxElapsedMs :: "jsnumber option"
  override_parallelism :: "jsnumber option"

definition loop_limits :: "ToolLoopLimitOverrides \<Rightarrow> string + ToolLoopLimits" where
  "loop_limits overrides =
     (let D = DEFAULT_TOOL_LOOP_LIMITS in
      bind_result (positive_limit_or (maxIterations D) (override_maxIterations overrides) ''limits.maxIterations'') (\<lambda>i.
      bind_result (positive_limit_or (maxTotalToolCalls D) (override_maxTotalToolCalls overrides) ''limits.maxTotalToolCalls'') (\<lambda>t.
      bind_result (positive_limit_or (maxElapsedMs D) (override_maxElapsedMs overrides) ''limits.maxElapsedMs'') (\<lambda>e.
      bind_result (positive_limit_or (parallelism D) (override_parallelism overrides) ''limits.parallelism'') (\<lambda>p.
        Inr \<lparr>maxIterations = i, maxTotalToolCalls = t, maxElapsedMs = e, parallelism = p\<rparr>)))))"

record RuntimeError =
  error_code :: string
  error_message :: string
  error_retryable :: bool

datatype RuntimeTurnStatus = RuntimeCompleted | RuntimeCancelled | RuntimeFailed | RuntimeDisconnected | RuntimeInterrupted

text \<open>A turn as the runtime observed it; a usage receipt is its identity and its JSON.\<close>

record RuntimeTurnResult =
  turnId :: string
  turnStatus :: RuntimeTurnStatus
  turnRequestId :: "string option"
  turnOutcome :: "ConversationTurnCompletionOutcome option"
  turnUsageReceipts :: "(string \<times> json) list"
  turnError :: "RuntimeError option"

datatype ToolLoopStatus =
    LoopCompleted ConversationTurnCompletionOutcome
  | LoopCancelled
  | LoopFailed "RuntimeError option"
  | LoopNeedsApproval "string list"
  | LoopBudgetExhausted ToolLoopBudget int

record ToolLoopProgress =
  progress_iterations :: int
  progress_totalToolCalls :: int
  progress_startedAtMs :: int
  progress_usageReceipts :: "(string \<times> json) list"

section \<open>Durable calls\<close>

fun durable_part :: "ConversationToolResultContentPart \<Rightarrow> json" where
  "durable_part (ToolResultText s) = text_part s"
| "durable_part (ToolResultJson v) = json_part (cloneJson v)"

definition resultFromDurableCall :: "ConversationToolCallRecord \<Rightarrow> ApplicationToolResult option" where
  "resultFromDurableCall call =
     (case (tool_call_name call, call_result call) of
        (Some name, Some res) \<Rightarrow>
          Some (tool_result (tool_call_id call) name (map durable_part (ConversationToolResultRecord.result_content res))
            (ConversationToolResultRecord.is_error res) (ConversationToolResultRecord.citation_records res))
      | _ \<Rightarrow> None)"

text \<open>The JSON of \<open>providerToolResult\<close>: without the citation records.\<close>

definition providerToolResult :: "ApplicationToolResult \<Rightarrow> json" where
  "providerToolResult res =
     JObj [(''tool_call_id'', JStr (result_tool_call_id res)), (''name'', JStr (result_name res)),
       (''content'', JArr (ApplicationToolResult.result_content res)), (''is_error'', JBool (result_is_error res))]"

definition same_text :: "host \<Rightarrow> json \<Rightarrow> json \<Rightarrow> bool" where
  "same_text H v w \<longleftrightarrow> stringify H v = stringify H w"

definition citationRecordsAreLinked :: "host \<Rightarrow> CitationRecordSet \<Rightarrow> ConversationState \<Rightarrow> bool" where
  "citationRecordsAreLinked H records snapshot \<longleftrightarrow>
     list_all (\<lambda>s. list_ex (\<lambda>c. source_id c = source_id s \<and> same_text H (source_json c) (source_json s)) (citation_sources snapshot))
       (sources records) \<and>
     list_all (\<lambda>s. list_ex (\<lambda>c. citation_id c = citation_id s \<and> same_text H (citation_json c) (citation_json s)) (state_citations snapshot))
       (citations records)"

text \<open>The content of a result as the content of an event.\<close>

definition event_part :: "json \<Rightarrow> ConversationToolResultContentPart" where
  "event_part p =
     (case p of
        JObj kvs \<Rightarrow>
          (case (obj_get kvs ''type'' = Some (JStr ''text''), obj_get kvs ''text'', obj_get kvs ''value'') of
             (True, Some (JStr s), _) \<Rightarrow> ToolResultText s
           | (_, _, Some v) \<Rightarrow> ToolResultJson v
           | _ \<Rightarrow> ToolResultJson p)
      | _ \<Rightarrow> ToolResultJson p)"

section \<open>State\<close>

text \<open>A worker takes the next call, waits for the resolver, waits for the executor, or has ended.\<close>

datatype WorkerState = WorkerReady | WorkerResolving nat | WorkerExecuting nat | WorkerDone

record WorkerPool =
  pool_calls :: "ConversationToolCallRecord list"
  pool_pending :: "ConversationToolCallRecord list"
  pool_next :: nat
  pool_workers :: "WorkerState list"
  pool_results :: "(string, ApplicationToolResult) jsmap"
  pool_approvals :: "string list"
  pool_aborted :: bool
  pool_expired :: bool

text \<open>The await points, with the local variables that live across them.\<close>

datatype LoopPhase =
    Observing
  | RecordingExhaustion ToolLoopBudget int
  | RecordingDiscovered "ConversationToolCallRecord list"
  | Working WorkerPool
  | RecordingResults WorkerPool "string list"
  | RecordingCitations WorkerPool "string list"
  | RecordingApprovals WorkerPool
  | ContinuingTurn
  | LoopReturned ToolLoopStatus
  | LoopThrew

text \<open>What the loop does to the outside, in order.\<close>

datatype LoopEffect =
    RecordsEvents "ConversationEventPayload list"
  | ExecutesCall string string \<comment> \<open>turn and call\<close>
  | ContinuesTurn string "(string \<times> json) list" \<comment> \<open>preceding turn, request\<close>

record LoopState =
  loop_turn :: RuntimeTurnResult
  loop_request :: "(string \<times> json) list"
  iterations :: int
  totalToolCalls :: int
  startedAtMs :: int
  receipts :: "(string, json) jsmap"
  caller_aborted :: bool
  loop_phase :: LoopPhase
  loop_effects :: "LoopEffect list"

record LoopConfig =
  loop_host :: host
  limits :: ToolLoopLimits
  parallel_tool_calls :: bool
  has_resolver :: bool

definition loop_progress :: "LoopState \<Rightarrow> ToolLoopProgress" where
  "loop_progress s = \<lparr>progress_iterations = iterations s, progress_totalToolCalls = totalToolCalls s,
     progress_startedAtMs = startedAtMs s, progress_usageReceipts = receipts s\<rparr>"

definition return_loop :: "ToolLoopStatus \<Rightarrow> LoopState \<Rightarrow> LoopState" where
  "return_loop status s = s\<lparr>loop_phase := LoopReturned status\<rparr>"

definition fail_loop :: "string \<Rightarrow> string \<Rightarrow> bool \<Rightarrow> LoopState \<Rightarrow> LoopState" where
  "fail_loop name message retryable s =
     return_loop (LoopFailed (Some \<lparr>error_code = name, error_message = message, error_retryable = retryable\<rparr>)) s"

definition record_events :: "ConversationEventPayload list \<Rightarrow> LoopPhase \<Rightarrow> LoopState \<Rightarrow> LoopState" where
  "record_events evs phase s = s\<lparr>loop_effects := loop_effects s @ [RecordsEvents evs], loop_phase := phase\<rparr>"

section \<open>The start\<close>

text \<open>The calls already discovered for the same logical input, and their earliest time.\<close>

definition durable_discovered :: "ConversationState \<Rightarrow> string \<Rightarrow> ConversationToolCallRecord list" where
  "durable_discovered snapshot tid =
     (case List.find (\<lambda>t. turn_id t = tid) (turns snapshot) of
        None \<Rightarrow> []
      | Some t0 \<Rightarrow>
          (let same = map turn_id (filter (\<lambda>t. input_message_ids t = input_message_ids t0) (turns snapshot)) in
           filter (\<lambda>c. call_turn_id c \<in> set same \<and> discovered_at c \<noteq> None) (tool_calls snapshot)))"

definition first_discovered_at :: "ConversationToolCallRecord list \<Rightarrow> int option" where
  "first_discovered_at cs =
     (case List.map_filter (\<lambda>c. Date_parse (the (discovered_at c))) cs of [] \<Rightarrow> None | t # ts \<Rightarrow> Some (fold min ts t))"

definition start_loop ::
    "LoopConfig \<Rightarrow> ToolLoopProgress option \<Rightarrow> RuntimeTurnResult \<Rightarrow> ConversationState \<Rightarrow> int \<Rightarrow> json \<Rightarrow> bool \<Rightarrow> fault + LoopState" where
  "start_loop C progress turn snapshot now request is_aborted =
     (let discovered = durable_discovered snapshot (turnId turn) in
      bind_result (parseChatRequest (loop_host C) request) (\<lambda>_.
      bind_result (event_record (Some request) ''$request'') (\<lambda>fields.
        Inr \<lparr>loop_turn = turn, loop_request = fields,
          iterations = (case progress of Some p \<Rightarrow> progress_iterations p
             | None \<Rightarrow> int (card (set (map call_turn_id discovered)))),
          totalToolCalls = (case progress of Some p \<Rightarrow> progress_totalToolCalls p | None \<Rightarrow> int (length discovered)),
          startedAtMs = (case progress of Some p \<Rightarrow> progress_startedAtMs p
             | None \<Rightarrow> (case first_discovered_at discovered of Some t \<Rightarrow> t | None \<Rightarrow> now)),
          receipts = (case progress of None \<Rightarrow> [] | Some p \<Rightarrow> fold (\<lambda>(k, v). map_set k v) (progress_usageReceipts p) []),
          caller_aborted = is_aborted, loop_phase = Observing, loop_effects = []\<rparr>)))"

section \<open>The top of the loop\<close>

definition loop_elapsed :: "int \<Rightarrow> LoopState \<Rightarrow> int" where
  "loop_elapsed now s = max 0 (now - startedAtMs s)"

definition exhaust :: "ToolLoopBudget \<Rightarrow> int \<Rightarrow> ConversationState \<Rightarrow> LoopState \<Rightarrow> LoopState" where
  "exhaust budget lmt snapshot s =
     (if list_ex (\<lambda>x. exhausted_turn_id x = turnId (loop_turn s) \<and> exhausted_budget x = budget) (tool_loop_budget_exhaustions snapshot)
      then return_loop (LoopBudgetExhausted budget lmt) s
      else record_events [ToolLoopBudgetExhausted (turnId (loop_turn s)) budget lmt] (RecordingExhaustion budget lmt) s)"

text \<open>\<open>worker\<close> and the timer are started: the calls without a result are pending.\<close>

definition start_workers :: "LoopConfig \<Rightarrow> ConversationToolCallRecord list \<Rightarrow> LoopState \<Rightarrow> LoopState" where
  "start_workers C asked s =
     (let results = fold (\<lambda>c m. case resultFromDurableCall c of None \<Rightarrow> m | Some r \<Rightarrow> map_set (tool_call_id c) r m) asked [];
          pending = filter (\<lambda>c. map_get results (tool_call_id c) = None) asked;
          count = (if parallel_tool_calls C \<and> parallelism (limits C) > 1
                   then min (nat (parallelism (limits C))) (max 1 (length pending)) else 1)
      in s\<lparr>loop_phase := Working \<lparr>pool_calls = asked, pool_pending = pending, pool_next = 0,
             pool_workers = replicate count WorkerReady, pool_results = results, pool_approvals = [],
             pool_aborted = False, pool_expired = False\<rparr>\<rparr>)"

definition newly_counted :: "ConversationToolCallRecord list \<Rightarrow> int" where
  "newly_counted asked = int (length (filter (\<lambda>c. discovered_at c = None) asked))"

text \<open>After the discovered calls are recorded: the budgets are charged, or exhausted.\<close>

definition charge_budgets ::
    "LoopConfig \<Rightarrow> ConversationToolCallRecord list \<Rightarrow> ConversationState \<Rightarrow> LoopState \<Rightarrow> LoopState" where
  "charge_budgets C asked snapshot s =
     (let new = newly_counted asked in
      if new > 0 \<and> iterations s \<ge> maxIterations (limits C)
      then exhaust IterationsBudget (maxIterations (limits C)) snapshot s
      else if totalToolCalls s + new > maxTotalToolCalls (limits C)
      then exhaust TotalToolCallsBudget (maxTotalToolCalls (limits C)) snapshot s
      else start_workers C asked (s\<lparr>totalToolCalls := totalToolCalls s + new,
             iterations := (if new > 0 then iterations s + 1 else iterations s)\<rparr>))"

text \<open>A completed turn that asked for tools.\<close>

definition inspect_calls :: "LoopConfig \<Rightarrow> ConversationState \<Rightarrow> LoopState \<Rightarrow> LoopState" where
  "inspect_calls C snapshot s =
     (let tid = turnId (loop_turn s); asked = filter (\<lambda>c. call_turn_id c = tid) (tool_calls snapshot) in
      if asked = [] then fail_loop ''missing_tool_calls'' ''A tool-call completion contained no durable tool calls'' False s
      else case List.find (\<lambda>x. exhausted_turn_id x = tid) (tool_loop_budget_exhaustions snapshot) of
        Some x \<Rightarrow> return_loop (LoopBudgetExhausted (exhausted_budget x) (exhausted_limit x)) s
      | None \<Rightarrow>
          (case filter (\<lambda>c. discovered_at c = None) asked of
             [] \<Rightarrow> charge_budgets C asked snapshot s
           | undiscovered \<Rightarrow>
               record_events (map (\<lambda>c. ToolCallDiscovered tid (tool_call_id c)) undiscovered) (RecordingDiscovered asked) s))"

text \<open>The usage of the turn is collected: the rest of the iteration up to the next await.\<close>

definition usage_collected ::
    "LoopConfig \<Rightarrow> (string \<times> json) list \<Rightarrow> int \<Rightarrow> ConversationState \<Rightarrow> LoopState \<Rightarrow> LoopState" where
  "usage_collected C observed now snapshot s0 =
     (let s = s0\<lparr>receipts := fold (\<lambda>(k, v). map_set k v) (turnUsageReceipts (loop_turn s0) @ observed) (receipts s0)\<rparr>;
          turn = loop_turn s in
      if caller_aborted s then return_loop LoopCancelled s
      else if loop_elapsed now s \<ge> maxElapsedMs (limits C) then exhaust WallClockBudget (maxElapsedMs (limits C)) snapshot s
      else if turnStatus turn = RuntimeCancelled then return_loop LoopCancelled s
      else if turnStatus turn \<noteq> RuntimeCompleted then return_loop (LoopFailed (turnError turn)) s
      else if turnOutcome turn \<in> {Some StopOutcome, Some LengthOutcome}
      then return_loop (LoopCompleted (the (turnOutcome turn))) s
      else if turnOutcome turn \<noteq> Some ToolCallsOutcome \<or> turnRequestId turn = None
      then fail_loop ''invalid_tool_loop_terminal'' ''A tool-call completion lacked durable protocol identity'' False s
      else inspect_calls C snapshot s)"

section \<open>Workers\<close>

definition set_pool :: "WorkerPool \<Rightarrow> LoopState \<Rightarrow> LoopState" where
  "set_pool P s = s\<lparr>loop_phase := Working P\<rparr>"

definition set_worker :: "nat \<Rightarrow> WorkerState \<Rightarrow> WorkerPool \<Rightarrow> WorkerPool" where
  "set_worker w st P = P\<lparr>pool_workers := (pool_workers P)[w := st]\<rparr>"

definition execute_call :: "nat \<Rightarrow> nat \<Rightarrow> WorkerPool \<Rightarrow> LoopState \<Rightarrow> LoopState" where
  "execute_call w i P s =
     (set_pool (set_worker w (WorkerExecuting i) P) s)\<lparr>loop_effects :=
        loop_effects s @ [ExecutesCall (turnId (loop_turn s)) (tool_call_id (pool_pending P ! i))]\<rparr>"

text \<open>A ready worker ends, or takes the next call and asks the resolver or the executor.\<close>

definition worker_takes :: "LoopConfig \<Rightarrow> nat \<Rightarrow> ConversationState \<Rightarrow> WorkerPool \<Rightarrow> LoopState \<Rightarrow> LoopState" where
  "worker_takes C w snapshot P s =
     (if pool_aborted P then set_pool (set_worker w WorkerDone P) s
      else
        let i = pool_next P; P = P\<lparr>pool_next := i + 1\<rparr> in
        if i \<ge> length (pool_pending P) \<or> tool_call_name (pool_pending P ! i) = None \<or> arguments (pool_pending P ! i) = None
        then set_pool (set_worker w WorkerDone P) s
        else if conversation_id snapshot \<noteq> None \<and> has_resolver C
        then set_pool (set_worker w (WorkerResolving i) P) s
        else execute_call w i P s)"

text \<open>The resolver has answered (or thrown, which counts as no approval).\<close>

definition worker_resolved :: "nat \<Rightarrow> nat \<Rightarrow> WorkerPool \<Rightarrow> LoopState \<Rightarrow> LoopState" where
  "worker_resolved w i P s =
     (if pool_aborted P then set_pool (set_worker w WorkerDone P) s else execute_call w i P s)"

text \<open>The executor is about to start the call: the start is recorded if it was not before.\<close>

definition start_hook :: "nat \<Rightarrow> WorkerPool \<Rightarrow> LoopState \<Rightarrow> LoopState" where
  "start_hook i P s =
     (let call = pool_pending P ! i in
      if call_started_at call \<noteq> None then s
      else s\<lparr>loop_effects := loop_effects s @ [RecordsEvents [ToolCallStarted (turnId (loop_turn s)) (tool_call_id call)]]\<rparr>)"

definition worker_executed :: "nat \<Rightarrow> nat \<Rightarrow> BoundedToolExecutionOutcome \<Rightarrow> WorkerPool \<Rightarrow> LoopState \<Rightarrow> LoopState" where
  "worker_executed w i answer P s =
     (if pool_aborted P then set_pool (set_worker w WorkerDone P) s
      else let id = tool_call_id (pool_pending P ! i); P = set_worker w WorkerReady P in
        case answer of
          ExecutionNeedsApproval _ _ \<Rightarrow> set_pool (P\<lparr>pool_approvals := List.insert id (pool_approvals P)\<rparr>) s
        | ExecutionCompleted res \<Rightarrow> set_pool (P\<lparr>pool_results := map_set id res (pool_results P)\<rparr>) s)"

text \<open>The signal of the caller aborts; while the workers run it aborts their controller, as the timer does.\<close>

definition caller_aborts :: "LoopState \<Rightarrow> LoopState" where
  "caller_aborts s =
     (let s = s\<lparr>caller_aborted := True\<rparr> in
      case loop_phase s of Working P \<Rightarrow> set_pool (P\<lparr>pool_aborted := True\<rparr>) s | _ \<Rightarrow> s)"

definition timer_fires :: "WorkerPool \<Rightarrow> LoopState \<Rightarrow> LoopState" where
  "timer_fires P s = set_pool (P\<lparr>pool_aborted := True, pool_expired := True\<rparr>) s"

section \<open>Results and continuation\<close>

definition result_events :: "string \<Rightarrow> WorkerPool \<Rightarrow> ConversationEventPayload list" where
  "result_events tid P =
     map (\<lambda>res. ToolCallResultRecorded tid (result_tool_call_id res) (map event_part (ApplicationToolResult.result_content res))
            (result_is_error res) (result_citations res))
       (List.map_filter (\<lambda>c. map_get (pool_results P) (tool_call_id c)) (filter (\<lambda>c. call_result c = None) (pool_calls P)))"

text \<open>The approvals not yet recorded as required.\<close>

definition new_approvals :: "ConversationState \<Rightarrow> WorkerPool \<Rightarrow> string list" where
  "new_approvals latest P =
     filter (\<lambda>id. case List.find (\<lambda>c. tool_call_id c = id) (tool_calls latest) of
        None \<Rightarrow> False | Some c \<Rightarrow> approval_required_at c = None) (pool_approvals P)"

definition workers_done :: "LoopConfig \<Rightarrow> int \<Rightarrow> ConversationState \<Rightarrow> WorkerPool \<Rightarrow> LoopState \<Rightarrow> LoopState" where
  "workers_done C now snapshot P s =
     (if caller_aborted s then return_loop LoopCancelled s
      else if pool_expired P \<or> loop_elapsed now s \<ge> maxElapsedMs (limits C)
      then exhaust WallClockBudget (maxElapsedMs (limits C)) snapshot s
      else record_events (result_events (turnId (loop_turn s)) P) (RecordingResults P (new_approvals snapshot P)) s)"

definition citation_events :: "host \<Rightarrow> string \<Rightarrow> ConversationState \<Rightarrow> WorkerPool \<Rightarrow> ConversationEventPayload list" where
  "citation_events H tid after P =
     List.map_filter (\<lambda>call.
         case List.find (\<lambda>c. call_turn_id c = tid \<and> tool_call_id c = tool_call_id call) (tool_calls after) of
           None \<Rightarrow> None
         | Some c \<Rightarrow>
             (case Option.bind (call_result c) ConversationToolResultRecord.citation_records of
                None \<Rightarrow> None
              | Some records \<Rightarrow>
                  if citationRecordsAreLinked H records after then None
                  else Some (CitationRecordsLinked (ToolResultTarget tid (tool_call_id c)) (sources records) (citations records))))
       (pool_calls P)"

definition results_recorded :: "LoopConfig \<Rightarrow> ConversationState \<Rightarrow> WorkerPool \<Rightarrow> string list \<Rightarrow> LoopState \<Rightarrow> LoopState" where
  "results_recorded C after P required s =
     record_events (citation_events (loop_host C) (turnId (loop_turn s)) after P) (RecordingCitations P required) s"

definition citations_recorded :: "WorkerPool \<Rightarrow> string list \<Rightarrow> LoopState \<Rightarrow> LoopState" where
  "citations_recorded P required s =
     record_events (map (\<lambda>id. ToolCallApprovalRequired (turnId (loop_turn s)) id) required) (RecordingApprovals P) s"

definition continuation_fields :: "WorkerPool \<Rightarrow> LoopState \<Rightarrow> (string \<times> json) list" where
  "continuation_fields P s =
     map_set ''tool_results'' (JArr (map (\<lambda>c. providerToolResult (the (map_get (pool_results P) (tool_call_id c)))) (pool_calls P)))
       (map_set ''continuation_of'' (JStr (the (turnRequestId (loop_turn s)))) (loop_request s))"

definition approvals_recorded :: "LoopConfig \<Rightarrow> WorkerPool \<Rightarrow> LoopState \<Rightarrow> LoopState" where
  "approvals_recorded C P s =
     (if pool_approvals P \<noteq> [] then return_loop (LoopNeedsApproval (pool_approvals P)) s
      else if length (pool_results P) \<noteq> length (pool_calls P)
      then fail_loop ''incomplete_tool_results'' ''Tool execution ended without a complete result set'' True s
      else case parseChatRequest (loop_host C) (JObj (continuation_fields P s)) of
        Inl e \<Rightarrow> s\<lparr>loop_phase := LoopThrew\<rparr>
      | Inr _ \<Rightarrow>
          if caller_aborted s then return_loop LoopCancelled s
          else s\<lparr>loop_request := continuation_fields P s, loop_phase := ContinuingTurn,
                 loop_effects := loop_effects s @ [ContinuesTurn (turnId (loop_turn s)) (continuation_fields P s)]\<rparr>)"

definition turn_continued :: "RuntimeTurnResult \<Rightarrow> LoopState \<Rightarrow> LoopState" where
  "turn_continued turn s = s\<lparr>loop_turn := turn, loop_phase := Observing\<rparr>"

section \<open>Steps\<close>

definition awaiting :: "LoopPhase \<Rightarrow> bool" where
  "awaiting phase \<longleftrightarrow> (case phase of LoopReturned _ \<Rightarrow> False | LoopThrew \<Rightarrow> False | _ \<Rightarrow> True)"

text \<open>
  Every promise awaited may reject, which the loop does not catch but for the resolver's; the
  executor calls the start hook while it executes, and answers under the identity of the call.
  Snapshots are those of a reducer: a tool call is there once.
\<close>

fun answers_call :: "ConversationToolCallRecord \<Rightarrow> BoundedToolExecutionOutcome \<Rightarrow> bool" where
  "answers_call c (ExecutionCompleted res) \<longleftrightarrow> result_tool_call_id res = tool_call_id c"
| "answers_call c (ExecutionNeedsApproval i name) \<longleftrightarrow> i = tool_call_id c"

definition proper_snapshot :: "ConversationState \<Rightarrow> bool" where
  "proper_snapshot snapshot \<longleftrightarrow> distinct (map tool_call_id (tool_calls snapshot))"

inductive loop_step :: "LoopConfig \<Rightarrow> LoopState \<Rightarrow> LoopState \<Rightarrow> bool" for C where
  collects: "loop_phase s = Observing \<Longrightarrow> proper_snapshot snapshot \<Longrightarrow> loop_step C s (usage_collected C observed now snapshot s)"
| exhausted: "loop_phase s = RecordingExhaustion budget lmt \<Longrightarrow> loop_step C s (return_loop (LoopBudgetExhausted budget lmt) s)"
| discovers: "loop_phase s = RecordingDiscovered asked \<Longrightarrow> loop_step C s (charge_budgets C asked snapshot s)"
| takes: "loop_phase s = Working P \<Longrightarrow> w < length (pool_workers P) \<Longrightarrow> pool_workers P ! w = WorkerReady \<Longrightarrow>
    loop_step C s (worker_takes C w snapshot P s)"
| resolves: "loop_phase s = Working P \<Longrightarrow> w < length (pool_workers P) \<Longrightarrow> pool_workers P ! w = WorkerResolving i \<Longrightarrow>
    loop_step C s (worker_resolved w i P s)"
| starts: "loop_phase s = Working P \<Longrightarrow> w < length (pool_workers P) \<Longrightarrow> pool_workers P ! w = WorkerExecuting i \<Longrightarrow>
    loop_step C s (start_hook i P s)"
| executes: "loop_phase s = Working P \<Longrightarrow> w < length (pool_workers P) \<Longrightarrow> pool_workers P ! w = WorkerExecuting i \<Longrightarrow>
    answers_call (pool_pending P ! i) answer \<Longrightarrow> loop_step C s (worker_executed w i answer P s)"
| aborting: "awaiting (loop_phase s) \<Longrightarrow> \<not> caller_aborted s \<Longrightarrow> loop_step C s (caller_aborts s)"
| timing: "loop_phase s = Working P \<Longrightarrow> loop_step C s (timer_fires P s)"
| works: "loop_phase s = Working P \<Longrightarrow> \<forall>st\<in>set (pool_workers P). st = WorkerDone \<Longrightarrow>
    loop_step C s (workers_done C now snapshot P s)"
| results: "loop_phase s = RecordingResults P required \<Longrightarrow> loop_step C s (results_recorded C after P required s)"
| citations: "loop_phase s = RecordingCitations P required \<Longrightarrow> loop_step C s (citations_recorded P required s)"
| approvals: "loop_phase s = RecordingApprovals P \<Longrightarrow> loop_step C s (approvals_recorded C P s)"
| continues: "loop_phase s = ContinuingTurn \<Longrightarrow> loop_step C s (turn_continued turn s)"
| throws: "awaiting (loop_phase s) \<Longrightarrow> loop_step C s (s\<lparr>loop_phase := LoopThrew\<rparr>)"

end
