(* ===== verification/ToolLoopFacts.thy ===== *)
theory ToolLoopFacts
  imports ToolLoop
begin

text \<open>
  The tool loop over every order of answers (src/tools/loop.ts): its budgets hold, a turn is
  continued only with the results of all its calls, and an abort that comes while the discovered
  calls are being recorded does not reach the tools.
\<close>

section \<open>Invariants\<close>

definition within_budgets :: "LoopConfig \<Rightarrow> int \<Rightarrow> int \<Rightarrow> LoopState \<Rightarrow> bool" where
  "within_budgets C i0 t0 s \<longleftrightarrow>
     iterations s \<le> max i0 (maxIterations (limits C)) \<and> totalToolCalls s \<le> max t0 (maxTotalToolCalls (limits C))"

definition turn_calls :: "string \<Rightarrow> ConversationToolCallRecord list \<Rightarrow> bool" where
  "turn_calls tid asked \<longleftrightarrow> asked \<noteq> [] \<and> distinct (map tool_call_id asked) \<and> (\<forall>c\<in>set asked. call_turn_id c = tid)"

text \<open>A result is durable, or of a call that was executed.\<close>

definition result_known :: "string \<Rightarrow> LoopEffect list \<Rightarrow> ConversationToolCallRecord list \<Rightarrow> string \<times> ApplicationToolResult \<Rightarrow> bool" where
  "result_known tid effects asked kr \<longleftrightarrow> (\<exists>c\<in>set asked. fst kr = tool_call_id c \<and> result_tool_call_id (snd kr) = fst kr \<and>
     (resultFromDurableCall c = Some (snd kr) \<or> ExecutesCall tid (fst kr) \<in> set effects))"

fun worker_ok :: "string \<Rightarrow> LoopEffect list \<Rightarrow> ConversationToolCallRecord list \<Rightarrow> WorkerState \<Rightarrow> bool" where
  "worker_ok tid effects pending (WorkerResolving i) \<longleftrightarrow> i < length pending"
| "worker_ok tid effects pending (WorkerExecuting i) \<longleftrightarrow>
     i < length pending \<and> ExecutesCall tid (tool_call_id (pending ! i)) \<in> set effects"
| "worker_ok tid effects pending _ \<longleftrightarrow> True"

definition pool_inv :: "string \<Rightarrow> LoopEffect list \<Rightarrow> WorkerPool \<Rightarrow> bool" where
  "pool_inv tid effects P \<longleftrightarrow> turn_calls tid (pool_calls P) \<and> set (pool_pending P) \<subseteq> set (pool_calls P) \<and>
     distinct (map fst (pool_results P)) \<and> (\<forall>kr\<in>set (pool_results P). result_known tid effects (pool_calls P) kr) \<and>
     (\<forall>st\<in>set (pool_workers P). worker_ok tid effects (pool_pending P) st)"

definition phase_inv :: "string \<Rightarrow> LoopEffect list \<Rightarrow> LoopPhase \<Rightarrow> bool" where
  "phase_inv tid effects phase \<longleftrightarrow>
     (case phase of
        RecordingDiscovered asked \<Rightarrow> turn_calls tid asked
      | Working P \<Rightarrow> pool_inv tid effects P
      | RecordingResults P _ \<Rightarrow> pool_inv tid effects P
      | RecordingCitations P _ \<Rightarrow> pool_inv tid effects P
      | RecordingApprovals P \<Rightarrow> pool_inv tid effects P
      | _ \<Rightarrow> True)"

text \<open>
  The request of a continuation: accepted by the protocol, with one result for each of the
  turn's calls, all of them durable or executed by the loop.
\<close>

definition continuation_ok :: "LoopConfig \<Rightarrow> LoopEffect list \<Rightarrow> string \<Rightarrow> (string \<times> json) list \<Rightarrow> bool" where
  "continuation_ok C effects tid body \<longleftrightarrow>
     (\<exists>req. parseChatRequest (loop_host C) (JObj body) = Inr req) \<and>
     (\<exists>asked results. turn_calls tid asked \<and> length results = length asked \<and>
        obj_get body ''tool_results'' = Some (JArr (map providerToolResult results)) \<and>
        (\<forall>(c, r)\<in>set (zip asked results). result_tool_call_id r = tool_call_id c \<and>
           (resultFromDurableCall c = Some r \<or> ExecutesCall tid (tool_call_id c) \<in> set effects)))"

text \<open>Every continuation was sent after the results it carries were there.\<close>

definition continuations_ok :: "LoopConfig \<Rightarrow> LoopEffect list \<Rightarrow> bool" where
  "continuations_ok C effects \<longleftrightarrow>
     (\<forall>before tid body after. effects = before @ ContinuesTurn tid body # after \<longrightarrow> continuation_ok C before tid body)"

definition loop_inv :: "LoopConfig \<Rightarrow> int \<Rightarrow> int \<Rightarrow> LoopState \<Rightarrow> bool" where
  "loop_inv C i0 t0 s \<longleftrightarrow> within_budgets C i0 t0 s \<and> phase_inv (turnId (loop_turn s)) (loop_effects s) (loop_phase s) \<and>
     continuations_ok C (loop_effects s)"

section \<open>More effects\<close>

lemma result_known_mono: "result_known tid es asked kr \<Longrightarrow> set es \<subseteq> set es' \<Longrightarrow> result_known tid es' asked kr"
  unfolding result_known_def by blast

lemma worker_ok_mono: "worker_ok tid es pending st \<Longrightarrow> set es \<subseteq> set es' \<Longrightarrow> worker_ok tid es' pending st"
  by (cases st) auto

lemma pool_inv_mono: "pool_inv tid es P \<Longrightarrow> set es \<subseteq> set es' \<Longrightarrow> pool_inv tid es' P"
  unfolding pool_inv_def by (blast intro: result_known_mono worker_ok_mono)

lemma continuations_append:
  assumes "continuations_ok C es" "\<forall>e\<in>set es'. \<forall>tid body. e \<noteq> ContinuesTurn tid body"
  shows "continuations_ok C (es @ es')"
  unfolding continuations_ok_def
proof (intro allI impI)
  fix before tid body after
  assume eq: "es @ es' = before @ ContinuesTurn tid body # after"
  have "\<exists>us. es = before @ ContinuesTurn tid body # us"
    using eq assms(2) by (auto simp: append_eq_append_conv2 append_eq_Cons_conv Cons_eq_append_conv)
  then show "continuation_ok C before tid body" using assms(1) unfolding continuations_ok_def by blast
qed

lemma continuations_snoc:
  assumes "continuations_ok C es" "continuation_ok C es tid body" shows "continuations_ok C (es @ [ContinuesTurn tid body])"
  unfolding continuations_ok_def
proof (intro allI impI)
  fix before tid' body' after
  assume eq: "es @ [ContinuesTurn tid body] = before @ ContinuesTurn tid' body' # after"
  show "continuation_ok C before tid' body'"
  proof (cases after rule: rev_cases)
    case Nil
    then show ?thesis using eq assms(2) by simp
  next
    case (snoc us u)
    then have "es = before @ ContinuesTurn tid' body' # us" using eq by simp
    then show ?thesis using assms(1) unfolding continuations_ok_def by blast
  qed
qed

text \<open>A step that keeps the counters and adds effects that continue no turn.\<close>

lemma loop_inv_quiet:
  assumes "loop_inv C i0 t0 s" "iterations s' = iterations s" "totalToolCalls s' = totalToolCalls s"
    "loop_effects s' = loop_effects s @ es" "\<forall>e\<in>set es. \<forall>tid body. e \<noteq> ContinuesTurn tid body"
    "phase_inv (turnId (loop_turn s')) (loop_effects s') (loop_phase s')"
  shows "loop_inv C i0 t0 s'"
proof -
  have "continuations_ok C (loop_effects s')" unfolding assms(4) by (rule continuations_append) (use assms(1,5) in \<open>simp_all add: loop_inv_def\<close>)
  then show ?thesis using assms(1-3,6) by (simp add: loop_inv_def within_budgets_def)
qed

lemma return_inv: "loop_inv C i0 t0 s \<Longrightarrow> loop_inv C i0 t0 (return_loop status s)"
  by (rule loop_inv_quiet [where es = "[]"]) (simp_all add: return_loop_def phase_inv_def)

lemma fail_inv: "loop_inv C i0 t0 s \<Longrightarrow> loop_inv C i0 t0 (fail_loop k m r s)"
  by (simp add: fail_loop_def return_inv)

lemma record_inv:
  assumes "loop_inv C i0 t0 s" "phase_inv (turnId (loop_turn s)) (loop_effects s @ [RecordsEvents evs]) phase"
  shows "loop_inv C i0 t0 (record_events evs phase s)"
  by (rule loop_inv_quiet [OF assms(1), where es = "[RecordsEvents evs]"]) (use assms(2) in \<open>simp_all add: record_events_def\<close>)

lemma exhaust_inv: "loop_inv C i0 t0 s \<Longrightarrow> loop_inv C i0 t0 (exhaust b l snapshot s)"
  by (simp add: exhaust_def return_inv record_inv phase_inv_def)

section \<open>The workers\<close>

lemma durable_fold:
  assumes "distinct (map fst m)" "\<forall>kr\<in>set m. result_known tid es asked kr" "set cs \<subseteq> set asked"
  shows "distinct (map fst (fold (\<lambda>c m. case resultFromDurableCall c of None \<Rightarrow> m | Some r \<Rightarrow> map_set (tool_call_id c) r m) cs m)) \<and>
    (\<forall>kr\<in>set (fold (\<lambda>c m. case resultFromDurableCall c of None \<Rightarrow> m | Some r \<Rightarrow> map_set (tool_call_id c) r m) cs m).
       result_known tid es asked kr)"
  using assms
proof (induction cs arbitrary: m)
  case (Cons c cs)
  show ?case
  proof (cases "resultFromDurableCall c")
    case None
    with Cons show ?thesis by simp
  next
    case (Some r)
    have "result_tool_call_id r = tool_call_id c"
      using Some by (auto simp: resultFromDurableCall_def tool_result_def split: option.splits)
    then have "result_known tid es asked (tool_call_id c, r)" using Cons.prems(3) Some by (auto simp: result_known_def)
    then have "\<forall>kr\<in>set (map_set (tool_call_id c) r m). result_known tid es asked kr"
      using Cons.prems(2) by (auto dest!: map_set_entries)
    with Cons.IH [of "map_set (tool_call_id c) r m"] Cons.prems Some show ?thesis by (simp add: map_set_distinct)
  qed
qed simp

lemma start_workers_inv:
  assumes "loop_inv C i0 t0 s" "turn_calls (turnId (loop_turn s)) asked"
  shows "loop_inv C i0 t0 (start_workers C asked s)"
proof (rule loop_inv_quiet [OF assms(1), where es = "[]"])
  let ?results = "fold (\<lambda>c m. case resultFromDurableCall c of None \<Rightarrow> m | Some r \<Rightarrow> map_set (tool_call_id c) r m) asked []"
  have "distinct (map fst ?results) \<and> (\<forall>kr\<in>set ?results. result_known (turnId (loop_turn s)) (loop_effects s) asked kr)"
    by (rule durable_fold) simp_all
  then show "phase_inv (turnId (loop_turn (start_workers C asked s))) (loop_effects (start_workers C asked s)) (loop_phase (start_workers C asked s))"
    using assms(2) by (auto simp: start_workers_def Let_def phase_inv_def pool_inv_def)
qed (simp_all add: start_workers_def Let_def)

lemma charge_inv:
  assumes "loop_inv C i0 t0 s" "turn_calls (turnId (loop_turn s)) asked"
  shows "loop_inv C i0 t0 (charge_budgets C asked snapshot s)"
proof -
  let ?new = "newly_counted asked"
  let ?s = "s\<lparr>totalToolCalls := totalToolCalls s + ?new, iterations := (if ?new > 0 then iterations s + 1 else iterations s)\<rparr>"
  consider "?new > 0 \<and> iterations s \<ge> maxIterations (limits C)" | "\<not> (?new > 0 \<and> iterations s \<ge> maxIterations (limits C))"
      "totalToolCalls s + ?new > maxTotalToolCalls (limits C)"
    | "\<not> (?new > 0 \<and> iterations s \<ge> maxIterations (limits C))" "\<not> totalToolCalls s + ?new > maxTotalToolCalls (limits C)" by blast
  then show ?thesis
  proof cases
    case 1
    then show ?thesis by (simp add: charge_budgets_def Let_def exhaust_inv [OF assms(1)])
  next
    case 2
    then show ?thesis by (simp add: charge_budgets_def Let_def exhaust_inv [OF assms(1)])
  next
    case 3
    have "within_budgets C i0 t0 ?s" using 3 assms(1) by (auto simp: within_budgets_def loop_inv_def)
    then have "loop_inv C i0 t0 (?s\<lparr>loop_phase := Observing\<rparr>)" using assms(1) by (simp add: loop_inv_def within_budgets_def phase_inv_def)
    then have "loop_inv C i0 t0 (start_workers C asked (?s\<lparr>loop_phase := Observing\<rparr>))" by (rule start_workers_inv) (simp add: assms(2))
    moreover have "start_workers C asked (?s\<lparr>loop_phase := Observing\<rparr>) = start_workers C asked ?s" by (simp add: start_workers_def Let_def)
    moreover have "charge_budgets C asked snapshot s = start_workers C asked ?s"
      using 3 by (simp only: charge_budgets_def Let_def if_False)
    ultimately show ?thesis by simp
  qed
qed

lemma inspect_inv:
  assumes "loop_inv C i0 t0 s" "proper_snapshot snapshot" shows "loop_inv C i0 t0 (inspect_calls C snapshot s)"
proof -
  let ?asked = "filter (\<lambda>c. call_turn_id c = turnId (loop_turn s)) (tool_calls snapshot)"
  have asked: "?asked \<noteq> [] \<Longrightarrow> turn_calls (turnId (loop_turn s)) ?asked"
    using assms(2) by (simp add: turn_calls_def proper_snapshot_def distinct_map_filter)
  then show ?thesis
    using charge_inv [OF assms(1)] record_inv [OF assms(1)]
    by (simp add: inspect_calls_def Let_def fail_inv [OF assms(1)] return_inv [OF assms(1)] phase_inv_def
        split: option.split list.split)
qed

lemma collected_inv:
  assumes "loop_inv C i0 t0 s" "loop_phase s = Observing" "proper_snapshot snapshot"
  shows "loop_inv C i0 t0 (usage_collected C observed now snapshot s)"
proof -
  let ?s = "s\<lparr>receipts := fold (\<lambda>(k, v). map_set k v) (turnUsageReceipts (loop_turn s) @ observed) (receipts s)\<rparr>"
  have "loop_inv C i0 t0 ?s"
    by (rule loop_inv_quiet [OF assms(1), where es = "[]"]) (simp_all add: assms(2) phase_inv_def)
  then show ?thesis
    unfolding usage_collected_def Let_def
    by (simp only: return_inv exhaust_inv fail_inv inspect_inv [OF _ assms(3)] split: if_split) simp
qed

text \<open>A worker's step.\<close>

lemma set_pool_inv:
  assumes "loop_inv C i0 t0 s" "pool_inv (turnId (loop_turn s)) (loop_effects s @ es) P" "\<forall>e\<in>set es. \<forall>tid body. e \<noteq> ContinuesTurn tid body"
  shows "loop_inv C i0 t0 ((set_pool P s)\<lparr>loop_effects := loop_effects s @ es\<rparr>)"
  by (rule loop_inv_quiet [OF assms(1), where es = es]) (use assms(2,3) in \<open>simp_all add: set_pool_def phase_inv_def\<close>)

lemma set_worker_inv:
  assumes "pool_inv tid es P" "worker_ok tid es (pool_pending P) st" shows "pool_inv tid es (set_worker w st P)"
proof -
  have "set ((pool_workers P)[w := st]) \<subseteq> insert st (set (pool_workers P))" by (rule set_update_subset_insert)
  then have "\<forall>x\<in>set ((pool_workers P)[w := st]). worker_ok tid es (pool_pending P) x" using assms by (auto simp: pool_inv_def)
  then show ?thesis using assms(1) by (simp add: pool_inv_def set_worker_def)
qed

lemma pool_of: "loop_inv C i0 t0 s \<Longrightarrow> loop_phase s = Working P \<Longrightarrow> pool_inv (turnId (loop_turn s)) (loop_effects s) P"
  by (simp add: loop_inv_def phase_inv_def)

lemma pool_step_inv:
  assumes "loop_inv C i0 t0 s" "pool_inv (turnId (loop_turn s)) (loop_effects s) P" shows "loop_inv C i0 t0 (set_pool P s)"
  by (rule loop_inv_quiet [OF assms(1), where es = "[]"]) (use assms(2) in \<open>simp_all add: set_pool_def phase_inv_def\<close>)

lemma execute_inv:
  assumes "loop_inv C i0 t0 s" "pool_inv (turnId (loop_turn s)) (loop_effects s) P" "i < length (pool_pending P)"
  shows "loop_inv C i0 t0 (execute_call w i P s)"
proof -
  let ?es = "[ExecutesCall (turnId (loop_turn s)) (tool_call_id (pool_pending P ! i))]"
  have more: "pool_inv (turnId (loop_turn s)) (loop_effects s @ ?es) P" by (rule pool_inv_mono [OF assms(2)]) auto
  have "pool_inv (turnId (loop_turn s)) (loop_effects s @ ?es) (set_worker w (WorkerExecuting i) P)"
    by (rule set_worker_inv [OF more]) (simp add: assms(3))
  from set_pool_inv [OF assms(1) this] show ?thesis by (simp add: execute_call_def)
qed

lemma takes_inv:
  assumes "loop_inv C i0 t0 s" "loop_phase s = Working P" shows "loop_inv C i0 t0 (worker_takes C w snapshot P s)"
proof -
  note P = pool_of [OF assms]
  let ?P = "P\<lparr>pool_next := pool_next P + 1\<rparr>"
  have P': "pool_inv (turnId (loop_turn s)) (loop_effects s) ?P" using P by (simp add: pool_inv_def)
  have ended: "pool_inv (turnId (loop_turn s)) (loop_effects s) (set_worker w WorkerDone Q)"
    if "pool_inv (turnId (loop_turn s)) (loop_effects s) Q" for Q
    by (rule set_worker_inv [OF that]) simp
  have resolving: "pool_inv (turnId (loop_turn s)) (loop_effects s) (set_worker w (WorkerResolving (pool_next P)) ?P)"
    if "pool_next P < length (pool_pending P)"
    by (rule set_worker_inv [OF P']) (simp add: that)
  show ?thesis
    using pool_step_inv [OF assms(1) ended [OF P]] pool_step_inv [OF assms(1) ended [OF P']] pool_step_inv [OF assms(1) resolving]
      execute_inv [OF assms(1) P', of "pool_next P"]
    by (auto simp: worker_takes_def Let_def)
qed

lemma resolved_inv:
  assumes "loop_inv C i0 t0 s" "loop_phase s = Working P" "w < length (pool_workers P)" "pool_workers P ! w = WorkerResolving i"
  shows "loop_inv C i0 t0 (worker_resolved w i P s)"
proof -
  note P = pool_of [OF assms(1,2)]
  have "WorkerResolving i \<in> set (pool_workers P)" using assms(3,4) by (metis nth_mem)
  then have "i < length (pool_pending P)" using P by (auto simp: pool_inv_def)
  moreover have "pool_inv (turnId (loop_turn s)) (loop_effects s) (set_worker w WorkerDone P)" by (rule set_worker_inv [OF P]) simp
  ultimately show ?thesis
    using pool_step_inv [OF assms(1)] execute_inv [OF assms(1) P] by (simp add: worker_resolved_def)
qed

lemma hook_inv:
  assumes "loop_inv C i0 t0 s" "loop_phase s = Working P" shows "loop_inv C i0 t0 (start_hook i P s)"
proof (cases "call_started_at (pool_pending P ! i) = None")
  case True
  have "pool_inv (turnId (loop_turn s)) (loop_effects s @ [RecordsEvents evs]) P" for evs
    by (rule pool_inv_mono [OF pool_of [OF assms]]) auto
  then have "loop_inv C i0 t0 (s\<lparr>loop_effects := loop_effects s @ [RecordsEvents evs]\<rparr>)" for evs
    by (intro loop_inv_quiet [OF assms(1), where es = "[RecordsEvents evs]"]) (simp_all add: assms(2) phase_inv_def)
  then show ?thesis using True by (simp add: start_hook_def Let_def)
next
  case False
  then show ?thesis using assms(1) by (simp add: start_hook_def Let_def)
qed

lemma executed_inv:
  assumes "loop_inv C i0 t0 s" "loop_phase s = Working P" "w < length (pool_workers P)" "pool_workers P ! w = WorkerExecuting i"
    "answers_call (pool_pending P ! i) answer"
  shows "loop_inv C i0 t0 (worker_executed w i answer P s)"
proof -
  note P = pool_of [OF assms(1,2)]
  let ?tid = "turnId (loop_turn s)" and ?es = "loop_effects s" and ?c = "pool_pending P ! i"
  have "WorkerExecuting i \<in> set (pool_workers P)" using assms(3,4) by (metis nth_mem)
  then have "worker_ok ?tid ?es (pool_pending P) (WorkerExecuting i)" using P unfolding pool_inv_def by blast
  then have i: "i < length (pool_pending P)" "ExecutesCall ?tid (tool_call_id ?c) \<in> set ?es" by simp_all
  then have c: "?c \<in> set (pool_calls P)" using P nth_mem [OF i(1)] by (auto simp: pool_inv_def)
  have done_: "pool_inv ?tid ?es (set_worker w WorkerDone P)" and ready: "pool_inv ?tid ?es (set_worker w WorkerReady P)"
    by (rule set_worker_inv [OF P]; simp)+
  show ?thesis
  proof (cases answer)
    case (ExecutionCompleted res)
    have "result_known ?tid ?es (pool_calls P) (tool_call_id ?c, res)"
      using c i(2) assms(5) ExecutionCompleted by (auto simp: result_known_def)
    then have "\<forall>kr\<in>set (map_set (tool_call_id ?c) res (pool_results P)). result_known ?tid ?es (pool_calls P) kr"
      using P by (auto simp: pool_inv_def dest!: map_set_entries)
    then have "pool_inv ?tid ?es ((set_worker w WorkerReady P)\<lparr>pool_results := map_set (tool_call_id ?c) res (pool_results P)\<rparr>)"
      using ready by (simp add: pool_inv_def set_worker_def map_set_distinct)
    then show ?thesis
      using pool_step_inv [OF assms(1)] done_ ExecutionCompleted by (simp add: worker_executed_def Let_def set_worker_def)
  next
    case (ExecutionNeedsApproval a b)
    have "pool_inv ?tid ?es ((set_worker w WorkerReady P)\<lparr>pool_approvals := List.insert (tool_call_id ?c) (pool_approvals P)\<rparr>)"
      using ready by (simp add: pool_inv_def)
    then show ?thesis
      using pool_step_inv [OF assms(1)] done_ ExecutionNeedsApproval by (simp add: worker_executed_def Let_def set_worker_def)
  qed
qed

section \<open>Results and continuation\<close>

lemma complete_results:
  assumes "pool_inv tid es P" "length (pool_results P) = length (pool_calls P)" "c \<in> set (pool_calls P)"
  obtains r where "map_get (pool_results P) (tool_call_id c) = Some r" "result_tool_call_id r = tool_call_id c"
    "resultFromDurableCall c = Some r \<or> ExecutesCall tid (tool_call_id c) \<in> set es"
proof -
  let ?keys = "fst ` set (pool_results P)" and ?ids = "tool_call_id ` set (pool_calls P)"
  have ids: "distinct (map tool_call_id (pool_calls P))" and keys: "distinct (map fst (pool_results P))"
    and known: "\<forall>kr\<in>set (pool_results P). result_known tid es (pool_calls P) kr"
    using assms(1) by (simp_all add: pool_inv_def turn_calls_def)
  have sub: "?keys \<subseteq> ?ids" using known by (auto simp: result_known_def)
  have "card ?keys = card ?ids"
    using distinct_card [OF ids] distinct_card [OF keys] assms(2) by simp
  with sub have "?keys = ?ids" by (simp add: card_subset_eq)
  then have "tool_call_id c \<in> ?keys" using assms(3) by simp
  then obtain r where r: "map_get (pool_results P) (tool_call_id c) = Some r"
    by (metis map_of_eq_None_iff option.exhaust)
  then have "result_known tid es (pool_calls P) (tool_call_id c, r)" using known map_of_SomeD [OF r] by blast
  then obtain c' where c': "c' \<in> set (pool_calls P)" "tool_call_id c = tool_call_id c'" "result_tool_call_id r = tool_call_id c"
      "resultFromDurableCall c' = Some r \<or> ExecutesCall tid (tool_call_id c) \<in> set es"
    by (auto simp: result_known_def)
  moreover have "c' = c" using ids c'(1,2) assms(3) by (auto simp: distinct_map dest: inj_onD)
  ultimately show thesis using that r by blast
qed

lemma continuation_complete:
  assumes "pool_inv tid es P" "length (pool_results P) = length (pool_calls P)"
    "parseChatRequest (loop_host C) (JObj (continuation_fields P s)) = Inr req"
  shows "continuation_ok C es tid (continuation_fields P s)"
proof -
  let ?r = "\<lambda>c. the (map_get (pool_results P) (tool_call_id c))" and ?asked = "pool_calls P"
  have ok: "result_tool_call_id (?r c) = tool_call_id c \<and>
      (resultFromDurableCall c = Some (?r c) \<or> ExecutesCall tid (tool_call_id c) \<in> set es)" if "c \<in> set ?asked" for c
    using complete_results [OF assms(1,2) that] by (metis option.sel)
  have field: "obj_get (continuation_fields P s) ''tool_results'' = Some (JArr (map providerToolResult (map ?r ?asked)))"
    by (simp add: continuation_fields_def comp_def)
  have each: "\<forall>(c, r)\<in>set (zip ?asked (map ?r ?asked)). result_tool_call_id r = tool_call_id c \<and>
      (resultFromDurableCall c = Some r \<or> ExecutesCall tid (tool_call_id c) \<in> set es)"
    using ok by (simp add: zip_map2 zip_same_conv_map)
  have "turn_calls tid ?asked" using assms(1) by (simp add: pool_inv_def)
  then have "\<exists>asked results. turn_calls tid asked \<and> length results = length asked \<and>
        obj_get (continuation_fields P s) ''tool_results'' = Some (JArr (map providerToolResult results)) \<and>
        (\<forall>(c, r)\<in>set (zip asked results). result_tool_call_id r = tool_call_id c \<and>
           (resultFromDurableCall c = Some r \<or> ExecutesCall tid (tool_call_id c) \<in> set es))"
    using field each by (intro exI [of _ ?asked] exI [of _ "map ?r ?asked"]) simp
  with assms(3) show ?thesis unfolding continuation_ok_def by blast
qed

lemma phase_step_inv:
  assumes "loop_inv C i0 t0 s" "phase_inv (turnId (loop_turn s)) (loop_effects s) phase"
  shows "loop_inv C i0 t0 (s\<lparr>loop_phase := phase\<rparr>)"
  by (rule loop_inv_quiet [OF assms(1), where es = "[]"]) (simp_all add: assms(2))

lemma approvals_inv:
  assumes "loop_inv C i0 t0 s" "loop_phase s = RecordingApprovals P" shows "loop_inv C i0 t0 (approvals_recorded C P s)"
proof -
  have P: "pool_inv (turnId (loop_turn s)) (loop_effects s) P" using assms by (simp add: loop_inv_def phase_inv_def)
  let ?body = "continuation_fields P s" and ?tid = "turnId (loop_turn s)"
  let ?s = "s\<lparr>loop_request := ?body, loop_phase := ContinuingTurn, loop_effects := loop_effects s @ [ContinuesTurn ?tid ?body]\<rparr>"
  have continued: "loop_inv C i0 t0 ?s"
    if complete: "length (pool_results P) = length (pool_calls P)" "parseChatRequest (loop_host C) (JObj ?body) = Inr req" for req
  proof -
    have "continuations_ok C (loop_effects s)" using assms(1) by (simp add: loop_inv_def)
    from continuations_snoc [OF this continuation_complete [OF P complete]]
    have "continuations_ok C (loop_effects ?s)" by simp
    then show ?thesis using assms(1) by (simp add: loop_inv_def within_budgets_def phase_inv_def)
  qed
  show ?thesis
    using continued phase_step_inv [OF assms(1), of LoopThrew]
    by (simp add: approvals_recorded_def return_inv [OF assms(1)] fail_inv [OF assms(1)] phase_inv_def split: sum.split)
qed

lemma caller_aborts_inv: assumes "loop_inv C i0 t0 s" shows "loop_inv C i0 t0 (caller_aborts s)"
proof -
  have "phase_inv (turnId (loop_turn (caller_aborts s))) (loop_effects (caller_aborts s)) (loop_phase (caller_aborts s))"
    using assms by (simp add: loop_inv_def phase_inv_def pool_inv_def caller_aborts_def Let_def set_pool_def split: LoopPhase.splits)
  then show ?thesis
    by (intro loop_inv_quiet [OF assms, where es = "[]"])
      (simp_all add: caller_aborts_def Let_def set_pool_def split: LoopPhase.splits)
qed

lemma timer_inv:
  assumes "loop_inv C i0 t0 s" "loop_phase s = Working P" shows "loop_inv C i0 t0 (timer_fires P s)"
  unfolding timer_fires_def by (rule pool_step_inv [OF assms(1)]) (use pool_of [OF assms] in \<open>simp add: pool_inv_def\<close>)

lemma recorded_pool: "pool_inv tid es P \<Longrightarrow> pool_inv tid (es @ es') P"
  by (rule pool_inv_mono) auto

lemma pool_record_inv:
  assumes "loop_inv C i0 t0 s" "pool_inv (turnId (loop_turn s)) (loop_effects s) P"
  shows "loop_inv C i0 t0 (record_events evs (RecordingResults P required) s)"
    "loop_inv C i0 t0 (record_events evs (RecordingCitations P required) s)"
    "loop_inv C i0 t0 (record_events evs (RecordingApprovals P) s)"
  by (rule record_inv [OF assms(1)]; simp add: phase_inv_def recorded_pool [OF assms(2)])+

lemma workers_done_inv:
  assumes "loop_inv C i0 t0 s" "loop_phase s = Working P" shows "loop_inv C i0 t0 (workers_done C now snapshot P s)"
  by (simp add: workers_done_def return_inv [OF assms(1)] exhaust_inv [OF assms(1)] pool_record_inv [OF assms(1) pool_of [OF assms]])

lemma continued_inv: assumes "loop_inv C i0 t0 s" shows "loop_inv C i0 t0 (turn_continued turn s)"
  by (rule loop_inv_quiet [OF assms, where es = "[]"]) (simp_all add: turn_continued_def phase_inv_def)

lemma loop_inv_step:
  assumes "loop_step C s s'" "loop_inv C i0 t0 s" shows "loop_inv C i0 t0 s'"
  using assms
proof (cases rule: loop_step.cases)
  case collects then show ?thesis using collected_inv assms(2) by simp
next
  case exhausted then show ?thesis using return_inv assms(2) by simp
next
  case (discovers asked snapshot)
  then have "turn_calls (turnId (loop_turn s)) asked" using assms(2) by (simp add: loop_inv_def phase_inv_def)
  then show ?thesis using charge_inv [OF assms(2)] discovers by simp
next
  case takes then show ?thesis using takes_inv assms(2) by simp
next
  case resolves then show ?thesis using resolved_inv assms(2) by simp
next
  case starts then show ?thesis using hook_inv assms(2) by simp
next
  case executes then show ?thesis using executed_inv assms(2) by simp
next
  case aborting then show ?thesis using caller_aborts_inv assms(2) by simp
next
  case timing then show ?thesis using timer_inv assms(2) by simp
next
  case works then show ?thesis using workers_done_inv assms(2) by simp
next
  case (results P required after)
  then have "pool_inv (turnId (loop_turn s)) (loop_effects s) P" using assms(2) by (simp add: loop_inv_def phase_inv_def)
  then show ?thesis using pool_record_inv [OF assms(2)] results by (simp add: results_recorded_def)
next
  case (citations P required)
  then have "pool_inv (turnId (loop_turn s)) (loop_effects s) P" using assms(2) by (simp add: loop_inv_def phase_inv_def)
  then show ?thesis using pool_record_inv [OF assms(2)] citations by (simp add: citations_recorded_def)
next
  case approvals then show ?thesis using approvals_inv assms(2) by simp
next
  case continues then show ?thesis using continued_inv assms(2) by simp
next
  case throws then show ?thesis using phase_step_inv [OF assms(2), of LoopThrew] by (simp add: phase_inv_def)
qed

lemma loop_inv_reachable:
  assumes "(loop_step C)\<^sup>*\<^sup>* s s'" "loop_inv C i0 t0 s" shows "loop_inv C i0 t0 s'"
  using assms by (induction rule: rtranclp_induct) (auto intro: loop_inv_step)

lemma start_inv:
  assumes "start_loop C progress turn snapshot now request aborted = Inr s"
  shows "loop_inv C (iterations s) (totalToolCalls s) s"
proof -
  have "loop_effects s = [] \<and> loop_phase s = Observing"
    using assms by (auto simp: start_loop_def Let_def)
  then show ?thesis by (simp add: loop_inv_def within_budgets_def phase_inv_def continuations_ok_def)
qed

section \<open>The pool after the budgets are charged\<close>

lemma durable_fold_absent:
  assumes "\<forall>c\<in>set cs. tool_call_id c = k \<longrightarrow> resultFromDurableCall c = None"
  shows "map_get (fold (\<lambda>c m. case resultFromDurableCall c of None \<Rightarrow> m | Some r \<Rightarrow> map_set (tool_call_id c) r m) cs m) k = map_get m k"
  using assms by (induction cs arbitrary: m) (auto split: option.split)

lemma charged_pool:
  assumes "distinct (map tool_call_id (c # cs))" "call_result c = None" "iterations s < maxIterations (limits C)"
    "totalToolCalls s + newly_counted (c # cs) \<le> maxTotalToolCalls (limits C)"
  obtains P where "loop_phase (charge_budgets C (c # cs) snapshot s) = Working P"
    "caller_aborted (charge_budgets C (c # cs) snapshot s) = caller_aborted s"
    "loop_turn (charge_budgets C (c # cs) snapshot s) = loop_turn s" "\<not> pool_aborted P" "pool_next P = 0"
    "\<exists>rest. pool_pending P = c # rest" "\<exists>ready. pool_workers P = WorkerReady # ready"
proof -
  let ?results = "fold (\<lambda>c m. case resultFromDurableCall c of None \<Rightarrow> m | Some r \<Rightarrow> map_set (tool_call_id c) r m) (c # cs) []"
  have "\<forall>c'\<in>set (c # cs). tool_call_id c' = tool_call_id c \<longrightarrow> resultFromDurableCall c' = None"
    using assms(1,2) by (auto simp: resultFromDurableCall_def image_iff split: option.split)
  from durable_fold_absent [OF this, of "[]"] have absent: "map_get ?results (tool_call_id c) = None" by simp
  let ?count = "if parallel_tool_calls C \<and> parallelism (limits C) > 1
    then min (nat (parallelism (limits C))) (max 1 (length (filter (\<lambda>c. map_get ?results (tool_call_id c) = None) (c # cs)))) else 1"
  obtain n where n: "?count = Suc n" by (cases ?count) (auto split: if_splits)
  define P where "P = \<lparr>pool_calls = c # cs, pool_pending = filter (\<lambda>c. map_get ?results (tool_call_id c) = None) (c # cs), pool_next = 0,
    pool_workers = replicate ?count WorkerReady, pool_results = ?results, pool_approvals = [], pool_aborted = False, pool_expired = False\<rparr>"
  let ?s = "s\<lparr>totalToolCalls := totalToolCalls s + newly_counted (c # cs),
    iterations := (if newly_counted (c # cs) > 0 then iterations s + 1 else iterations s)\<rparr>"
  have "charge_budgets C (c # cs) snapshot s = start_workers C (c # cs) ?s"
    using assms(3,4) unfolding charge_budgets_def Let_def by simp
  moreover have "start_workers C (c # cs) ?s = ?s\<lparr>loop_phase := Working P\<rparr>"
    unfolding start_workers_def Let_def P_def by (rule refl)
  ultimately have charged: "charge_budgets C (c # cs) snapshot s = ?s\<lparr>loop_phase := Working P\<rparr>" by simp
  show thesis
  proof (rule that [of P])
    show "\<exists>rest. pool_pending P = c # rest" using absent by (simp add: P_def)
    show "\<exists>ready. pool_workers P = WorkerReady # ready" unfolding P_def WorkerPool.simps n by simp
  qed (simp_all add: charged, simp_all add: P_def)
qed

end
