(* ===== verification/ReducerInvariants.thy ===== *)
theory ReducerInvariants
  imports ReducerCitations
begin

text \<open>
  The reducer as a whole: which part of the projection each payload writes, the log
  invariant kept by the envelope, the invariant of the whole state, what a later state
  keeps of an earlier one, and totality on validated events.
\<close>

section \<open>Which part a payload writes\<close>

datatype ReducerComponent =
  MessagesPart | CitationsPart | TurnsPart | ToolCallsPart | ProposalsPart | LinksPart | SettingsPart

fun component :: "ConversationEventPayload \<Rightarrow> ReducerComponent" where
  "component (MessageCreated _ _ _) = MessagesPart"
| "component (MessageTextAppended _ _ _) = MessagesPart"
| "component (MessageAttachmentReferenced _ _) = MessagesPart"
| "component (CitationRecordsLinked _ _ _) = CitationsPart"
| "component (ToolCallRequested _ _ _ _) = ToolCallsPart"
| "component (ToolCallDiscovered _ _) = ToolCallsPart"
| "component (ToolCallStarted _ _) = ToolCallsPart"
| "component (ToolCallApprovalRequired _ _) = ToolCallsPart"
| "component (ToolCallResultRecorded _ _ _ _ _) = ToolCallsPart"
| "component (ApprovalProposalCreated _) = ProposalsPart"
| "component (ApprovalProposalStatusChanged _ _ _) = ProposalsPart"
| "component (ToolLoopBudgetExhausted _ _ _) = LinksPart"
| "component (UsageReceiptLinked _ _) = LinksPart"
| "component (ConversationMetadataUpdated _) = SettingsPart"
| "component (ConversationTitleUpdated _) = SettingsPart"
| "component _ = TurnsPart"

definition links_only :: "ConversationState \<Rightarrow> ConversationState \<Rightarrow> bool" where
  "links_only st st' \<longleftrightarrow>
     (\<exists>es ls. st' = st\<lparr>tool_loop_budget_exhaustions := tool_loop_budget_exhaustions st @ es,
        usage_receipt_links := usage_receipt_links st @ ls\<rparr>)"

definition settings_only :: "ConversationState \<Rightarrow> ConversationState \<Rightarrow> bool" where
  "settings_only st st' \<longleftrightarrow> (\<exists>m t. st' = st\<lparr>state_metadata := m, title := t\<rparr>)"

definition component_frame :: "ReducerComponent \<Rightarrow> ConversationState \<Rightarrow> ConversationState \<Rightarrow> bool" where
  "component_frame part st st' \<longleftrightarrow>
     (case part of
        MessagesPart \<Rightarrow> messages_only st st'
      | CitationsPart \<Rightarrow> citations_only st st'
      | TurnsPart \<Rightarrow> turns_only st st'
      | ToolCallsPart \<Rightarrow> calls_only st st'
      | ProposalsPart \<Rightarrow> proposals_only st st'
      | LinksPart \<Rightarrow> links_only st st'
      | SettingsPart \<Rightarrow> settings_only st st')"

lemma links_onlyI:
  "st' = st\<lparr>tool_loop_budget_exhaustions := tool_loop_budget_exhaustions st @ es,
        usage_receipt_links := usage_receipt_links st @ ls\<rparr> \<Longrightarrow> links_only st st'"
  by (auto simp: links_only_def)

lemma links_only_refl [simp]: "links_only st st"
  by (rule links_onlyI [where es = "[]" and ls = "[]"]) simp

lemma links_only_exhaustion [simp]:
  "links_only st (st\<lparr>tool_loop_budget_exhaustions := tool_loop_budget_exhaustions st @ [e]\<rparr>)"
  by (rule links_onlyI [where es = "[e]" and ls = "[]"]) simp

lemma links_only_receipt [simp]:
  "links_only st (st\<lparr>usage_receipt_links := usage_receipt_links st @ [l]\<rparr>)"
  by (rule links_onlyI [where es = "[]" and ls = "[l]"]) simp

lemma settings_only_metadata [simp]: "settings_only st (st\<lparr>state_metadata := m\<rparr>)"
  unfolding settings_only_def by (rule exI [of _ m], rule exI [of _ "title st"]) simp

lemma settings_only_title [simp]: "settings_only st (st\<lparr>title := t\<rparr>)"
  unfolding settings_only_def by (rule exI [of _ "state_metadata st"], rule exI [of _ t]) simp

lemma reducePayload_frame:
  assumes "reducePayload H st time a p = Inr st'"
    and "messages_wf st" and "calls_inv st" and "citations_inv st"
  shows "component_frame (component p) st st'"
  using assms
  by (cases p)
    (auto simp: component_frame_def
      intro: messageCreated_only messageTextAppended_only messageAttachmentReferenced_only
        citationRecordsLinked_only toolCallResultRecorded_only)

text \<open>Reading the frame: what each part leaves alone.\<close>

lemma component_frame_turns:
  assumes "component_frame part st st'" and "part \<noteq> TurnsPart"
  shows "turns st' = turns st" and "active_turn_id st' = active_turn_id st"
  using assms by (auto simp: component_frame_def messages_only_def citations_only_def calls_only_def
      proposals_only_def links_only_def settings_only_def split: ReducerComponent.splits)

lemma component_frame_messages:
  assumes "component_frame part st st'" and "part \<notin> {MessagesPart, CitationsPart}"
  shows "messages st' = messages st" and "attachments st' = attachments st"
    and "citation_sources st' = citation_sources st" and "state_citations st' = state_citations st"
  using assms by (auto simp: component_frame_def turns_only_def calls_only_def
      proposals_only_def links_only_def settings_only_def split: ReducerComponent.splits)

lemma component_frame_calls:
  assumes "component_frame part st st'" and "part \<in> {MessagesPart, TurnsPart, LinksPart, SettingsPart}"
  shows "tool_calls st' = tool_calls st"
  using assms by (auto simp: component_frame_def turns_only_def messages_only_def
      links_only_def settings_only_def split: ReducerComponent.splits)

lemma component_frame_calls_extend:
  assumes "component_frame part st st'"
  shows "calls_extend (tool_calls st) (tool_calls st')"
  using assms
  by (cases part) (auto simp: component_frame_def turns_only_def messages_only_def calls_only_def
      proposals_only_def links_only_def settings_only_def dest: citations_only_messages(2))

lemma component_frame_proposals:
  assumes "component_frame part st st'" and "part \<noteq> ProposalsPart"
  shows "approval_proposals st' = approval_proposals st"
  using assms by (auto simp: component_frame_def turns_only_def messages_only_def calls_only_def
      citations_only_def links_only_def settings_only_def split: ReducerComponent.splits)

lemma component_frame_links:
  assumes "component_frame part st st'" and "part \<noteq> LinksPart"
  shows "tool_loop_budget_exhaustions st' = tool_loop_budget_exhaustions st"
    and "usage_receipt_links st' = usage_receipt_links st"
  using assms by (auto simp: component_frame_def turns_only_def messages_only_def calls_only_def
      citations_only_def proposals_only_def settings_only_def split: ReducerComponent.splits)

lemma component_frame_settings:
  assumes "component_frame part st st'" and "part \<noteq> SettingsPart"
  shows "state_metadata st' = state_metadata st" and "title st' = title st"
  using assms by (auto simp: component_frame_def turns_only_def messages_only_def calls_only_def
      citations_only_def proposals_only_def links_only_def split: ReducerComponent.splits)

text \<open>No payload touches the envelope.\<close>

definition same_envelope :: "ConversationState \<Rightarrow> ConversationState \<Rightarrow> bool" where
  "same_envelope st st' \<longleftrightarrow>
     conversation_id st' = conversation_id st \<and> revision st' = revision st \<and>
     last_event_id st' = last_event_id st \<and> processed_event_ids st' = processed_event_ids st \<and>
     processed_mutation_ids st' = processed_mutation_ids st \<and> replay_error st' = replay_error st"

lemma component_frame_envelope:
  assumes "component_frame part st st'"
  shows "same_envelope st st'"
  using assms by (auto simp: same_envelope_def component_frame_def turns_only_def messages_only_def
      calls_only_def citations_only_def proposals_only_def links_only_def settings_only_def
      split: ReducerComponent.splits)

section \<open>The invariant of the state\<close>

text \<open>
  The revision counts the processed events, the last event is the last one processed, no
  event and no mutation is processed twice.
\<close>

definition log_inv :: "ConversationState \<Rightarrow> bool" where
  "log_inv st \<longleftrightarrow>
     distinct (processed_event_ids st) \<and> distinct (processed_mutation_ids st) \<and>
     length (processed_mutation_ids st) \<le> length (processed_event_ids st) \<and>
     (case revision st of
        None \<Rightarrow> processed_event_ids st = [] \<and> last_event_id st = None
      | Some r \<Rightarrow> r = int (length (processed_event_ids st)) \<and> processed_event_ids st \<noteq> [] \<and>
          last_event_id st = Some (last (processed_event_ids st)) \<and> conversation_id st \<noteq> None)"

definition links_inv :: "ConversationState \<Rightarrow> bool" where
  "links_inv st \<longleftrightarrow>
     distinct (map (\<lambda>e. (exhausted_turn_id e, exhausted_budget e)) (tool_loop_budget_exhaustions st)) \<and>
     distinct (map usage_receipt_id (usage_receipt_links st))"

definition state_inv :: "ConversationState \<Rightarrow> bool" where
  "state_inv st \<longleftrightarrow>
     log_inv st \<and> messages_wf st \<and> atts_inv st \<and> citations_inv st \<and> turns_inv st \<and>
     calls_inv st \<and> proposals_inv st \<and> links_inv st"

lemma initial_state_inv [simp]: "state_inv (createInitialConversationState c)"
  by (simp add: state_inv_def createInitialConversationState_def log_inv_def messages_wf_def
      atts_inv_def atts_ok_def citations_inv_def turns_inv_def calls_inv_def proposals_inv_def
      links_inv_def)

lemma expected_revision_log: "log_inv st \<Longrightarrow> expected_revision st = int (length (processed_event_ids st)) + 1"
  by (auto simp: log_inv_def expected_revision_def split: option.splits)

lemma acceptEnvelope_log_inv:
  assumes "log_inv st" and "\<not> already_processed st ev" and "event_revision ev = expected_revision st"
  shows "log_inv (acceptEnvelope st ev)"
proof -
  have "event_revision ev = int (length (processed_event_ids st)) + 1"
    using assms expected_revision_log by simp
  with assms show ?thesis
    by (auto simp: log_inv_def acceptEnvelope_def already_processed_def split: option.splits)
qed

lemma log_inv_same_envelope: "same_envelope st st' \<Longrightarrow> log_inv st \<Longrightarrow> log_inv st'"
  by (auto simp: same_envelope_def log_inv_def split: option.splits)

text \<open>Accepting an envelope, or recording a replay error, touches nothing but the envelope.\<close>

lemma accept_frames [simp]:
  "messages_wf (acceptEnvelope st ev) = messages_wf st"
  "atts_inv (acceptEnvelope st ev) = atts_inv st"
  "citations_inv (acceptEnvelope st ev) = citations_inv st"
  "turns_inv (acceptEnvelope st ev) = turns_inv st"
  "calls_inv (acceptEnvelope st ev) = calls_inv st"
  "proposals_inv (acceptEnvelope st ev) = proposals_inv st"
  "links_inv (acceptEnvelope st ev) = links_inv st"
  by (simp_all add: acceptEnvelope_def messages_wf_def atts_inv_def citations_inv_def turns_inv_def
      calls_inv_def proposals_inv_def links_inv_def)

lemma replay_error_frames [simp]:
  "messages_wf (st\<lparr>replay_error := e\<rparr>) = messages_wf st"
  "atts_inv (st\<lparr>replay_error := e\<rparr>) = atts_inv st"
  "citations_inv (st\<lparr>replay_error := e\<rparr>) = citations_inv st"
  "turns_inv (st\<lparr>replay_error := e\<rparr>) = turns_inv st"
  "calls_inv (st\<lparr>replay_error := e\<rparr>) = calls_inv st"
  "proposals_inv (st\<lparr>replay_error := e\<rparr>) = proposals_inv st"
  "links_inv (st\<lparr>replay_error := e\<rparr>) = links_inv st"
  "log_inv (st\<lparr>replay_error := e\<rparr>) = log_inv st"
  by (simp_all add: messages_wf_def atts_inv_def citations_inv_def turns_inv_def calls_inv_def
      proposals_inv_def links_inv_def log_inv_def cong: option.case_cong)

lemma replay_error_state_inv [simp]: "state_inv (withReplayError st err) = state_inv st"
  by (simp add: state_inv_def withReplayError_def)

section \<open>Every payload keeps it\<close>

lemma turns_inv_cong:
  "turns st' = turns st \<Longrightarrow> active_turn_id st' = active_turn_id st \<Longrightarrow> turns_inv st \<Longrightarrow> turns_inv st'"
  by (simp add: turns_inv_def)

lemma reducePayload_turns_inv:
  assumes "reducePayload H st time a p = Inr st'" and "component_frame (component p) st st'"
    and "turns_inv st"
  shows "turns_inv st'"
proof (cases "component p = TurnsPart")
  case True
  with assms(1,3) show ?thesis by (cases p) (auto intro: inv_intros)
next
  case False
  with assms(3) component_frame_turns [OF assms(2)] show ?thesis by (blast intro: turns_inv_cong)
qed

lemma calls_inv_cong: "tool_calls st' = tool_calls st \<Longrightarrow> calls_inv st \<Longrightarrow> calls_inv st'"
  by (simp add: calls_inv_def)

lemma approvalProposalStatusChanged_calls [simp]:
  "tool_calls (approvalProposalStatusChanged st time a pid version change) = tool_calls st"
  by (simp add: approvalProposalStatusChanged_eq updateApprovalProposal_def split: option.split)

lemma reducePayload_calls_inv:
  assumes "reducePayload H st time a p = Inr st'" and frame: "component_frame (component p) st st'"
    and "calls_inv st"
  shows "calls_inv st'"
proof (cases "component p \<in> {MessagesPart, TurnsPart, LinksPart, SettingsPart}")
  case True
  with assms(3) component_frame_calls [OF frame] show ?thesis by (blast intro: calls_inv_cong)
next
  case False
  show ?thesis
  proof (cases "component p = CitationsPart")
    case True
    with frame assms(3) show ?thesis
      by (auto simp: component_frame_def intro: citations_only_messages(4))
  next
    case not_citations: False
    have changed: "calls_inv (approvalProposalStatusChanged st time a pid v ch)" for pid v ch
      using assms(3) by (intro calls_inv_cong [OF _ assms(3)]) simp
    from False not_citations assms(1,3) show ?thesis
      by (cases p) (auto intro: inv_intros changed)
  qed
qed

lemma reducePayload_proposals_inv:
  assumes "reducePayload H st time a p = Inr st'" and frame: "component_frame (component p) st st'"
    and "proposals_inv st"
  shows "proposals_inv st'"
proof (cases "component p = ProposalsPart")
  case True
  with assms(1,3) show ?thesis by (cases p) (auto intro: inv_intros)
next
  case False
  show ?thesis
    using component_frame_calls_extend [OF frame] component_frame_proposals [OF frame False]
    by (rule proposals_inv_calls_extend [OF assms(3)])
qed

lemma reducePayload_messages:
  assumes "reducePayload H st time a p = Inr st'" and frame: "component_frame (component p) st st'"
    and "messages_wf st" and "atts_inv st"
  shows "messages_wf st'" and "atts_inv st'"
proof -
  consider "component p \<notin> {MessagesPart, CitationsPart}" | "component p = CitationsPart"
    | "component p = MessagesPart" by auto
  then have "messages_wf st' \<and> atts_inv st'"
  proof cases
    case 1
    with assms(3,4) component_frame_messages [OF frame] show ?thesis
      by (simp add: messages_wf_def atts_inv_def)
  next
    case 2
    with frame assms(3,4) show ?thesis
      by (auto simp: component_frame_def intro: citations_only_messages)
  next
    case 3
    with assms(1,3,4) show ?thesis by (cases p) (auto intro: inv_intros)
  qed
  then show "messages_wf st'" and "atts_inv st'" by auto
qed

lemma reducePayload_citations_inv:
  assumes st': "reducePayload H st time a p = Inr st'" and frame: "component_frame (component p) st st'"
    and ok: "validated_citations H p" and inv: "citations_inv st" and "atts_inv st"
  shows "citations_inv st'"
proof (cases "component p \<in> {MessagesPart, CitationsPart}")
  case False
  with component_frame_messages [OF frame] component_frame_calls_extend [OF frame] inv show ?thesis
    by (intro citations_inv_mono [OF inv]) (auto simp: citations_inv_def)
next
  case True
  have d: "distinct (map message_id (messages st))"
    using assms(5) by (simp add: atts_inv_def atts_ok_def)
  have kept: "distinct (map citation_id (state_citations st))"
    using inv by (simp add: citations_inv_def)
  show ?thesis
  proof (cases p)
    case (MessageTextAppended tid mid chunk)
    with st' kept show ?thesis by (intro citations_inv_mono [OF inv]) auto
  next
    case (MessageAttachmentReferenced mid ref)
    with st' kept show ?thesis by (intro citations_inv_mono [OF inv]) auto
  next
    case (MessageCreated mid r c)
    with st' messageCreated_citations [OF inv d] show ?thesis by auto
  next
    case (CitationRecordsLinked target ss cs)
    with st' ok inv show ?thesis by (auto intro: citationRecordsLinked_citations simp del: validated_citations.simps)
  qed (use True in \<open>auto\<close>)
qed

lemma reducePayload_links_inv:
  assumes "reducePayload H st time a p = Inr st'" and frame: "component_frame (component p) st st'"
    and "links_inv st"
  shows "links_inv st'"
proof (cases "component p = LinksPart")
  case True
  with assms(1,3) show ?thesis
    by (cases p) (auto simp: links_inv_def list_ex_iff)
next
  case False
  with assms(3) component_frame_links [OF frame] show ?thesis by (simp add: links_inv_def)
qed

lemma reducePayload_inv:
  assumes "reducePayload H st time a p = Inr st'" and "validated_citations H p" and "state_inv st"
  shows "state_inv st'"
proof -
  have inv: "log_inv st" "messages_wf st" "atts_inv st" "citations_inv st" "turns_inv st"
    "calls_inv st" "proposals_inv st" "links_inv st"
    using assms(3) by (simp_all add: state_inv_def)
  note frame = reducePayload_frame [OF assms(1) inv(2,6,4)]
  show ?thesis
    unfolding state_inv_def
    using log_inv_same_envelope [OF component_frame_envelope [OF frame] inv(1)]
      reducePayload_messages [OF assms(1) frame inv(2,3)]
      reducePayload_citations_inv [OF assms(1) frame assms(2) inv(4,3)]
      reducePayload_turns_inv [OF assms(1) frame inv(5)]
      reducePayload_calls_inv [OF assms(1) frame inv(6)]
      reducePayload_proposals_inv [OF assms(1) frame inv(7)]
      reducePayload_links_inv [OF assms(1) frame inv(8)]
    by blast
qed

end
