(* ===== verification/ReducerLog.thy ===== *)
theory ReducerLog
  imports ReducerInvariants
begin

text \<open>
  The fold of a log: the outcomes of one event, the invariant of every reachable state,
  what a later state keeps of an earlier one, and what the fold of a well-formed log is.
\<close>

section \<open>The outcomes of one event\<close>

definition rejection :: "ConversationState \<Rightarrow> ConversationEvent \<Rightarrow> ConversationReplayError option" where
  "rejection st ev =
     (if conversation_id st \<noteq> None \<and> conversation_id st \<noteq> Some (event_conversation_id ev)
      then Some (IdentityMismatchError (event_conversation_id ev) (event_id ev) (the (conversation_id st)))
      else if event_revision ev > expected_revision st
      then Some (RevisionGapError (event_conversation_id ev) (event_id ev) (expected_revision st)
                  (event_revision ev))
      else if event_revision ev < expected_revision st
      then Some (StaleRevisionError (event_conversation_id ev) (event_id ev) (expected_revision st)
                  (event_revision ev))
      else None)"

definition applied ::
    "host \<Rightarrow> ConversationState \<Rightarrow> ConversationEvent \<Rightarrow> fault + ConversationState" where
  "applied H st ev = reducePayload H (acceptEnvelope st ev) (occurred_at ev)
     (cloneAttribution (actor ev) (event_source ev)) (payload ev)"

lemma reduceConversationEvent_eq:
  "reduceConversationEvent H st ev =
     (if already_processed st ev then Inr st
      else case rejection st ev of Some err \<Rightarrow> Inr (withReplayError st err) | None \<Rightarrow> applied H st ev)"
  by (auto simp: reduceConversationEvent_def rejection_def applied_def split: option.split)

lemma reduceConversationEvent_cases:
  assumes "reduceConversationEvent H st ev = Inr st'"
  obtains (duplicate) "already_processed st ev" and "st' = st"
  | (rejected) err where "\<not> already_processed st ev" and "rejection st ev = Some err"
      and "st' = withReplayError st err"
  | (accepted) "\<not> already_processed st ev" and "rejection st ev = None" and "applied H st ev = Inr st'"
  using assms by (auto simp: reduceConversationEvent_eq split: if_splits option.splits)

lemma rejection_None:
  "rejection st ev = None \<longleftrightarrow>
     (conversation_id st = None \<or> conversation_id st = Some (event_conversation_id ev)) \<and>
     event_revision ev = expected_revision st"
  by (auto simp: rejection_def)

lemma accepted_state_inv:
  assumes "state_inv st" and "\<not> already_processed st ev" and "rejection st ev = None"
  shows "state_inv (acceptEnvelope st ev)"
  using assms acceptEnvelope_log_inv [of st ev] by (simp add: state_inv_def rejection_None)

section \<open>The invariant of every reachable state\<close>

abbreviation validated_event :: "host \<Rightarrow> ConversationEvent \<Rightarrow> bool" where
  "validated_event H ev \<equiv> validated_citations H (payload ev)"

lemma reduceConversationEvent_inv:
  assumes "state_inv st" and "validated_event H ev" and "reduceConversationEvent H st ev = Inr st'"
  shows "state_inv st'"
  using assms(3)
proof (cases rule: reduceConversationEvent_cases)
  case accepted
  then show ?thesis
    using reducePayload_inv accepted_state_inv [OF assms(1)] assms(2) unfolding applied_def by blast
qed (use assms(1) in auto)

lemma reduceEvents_inv:
  assumes "state_inv st" and "\<forall>ev\<in>set evs. validated_event H ev" and "reduceEvents H st evs = Inr st'"
  shows "state_inv st'"
  using assms
proof (induction evs arbitrary: st)
  case (Cons ev evs)
  then obtain s where "reduceConversationEvent H st ev = Inr s" "reduceEvents H s evs = Inr st'" by auto
  with Cons show ?case using reduceConversationEvent_inv by simp blast
qed simp

section \<open>Totality\<close>

text \<open>The only throw of the reducer is an invalid citation record set.\<close>

lemma toolCallResultRecorded_total:
  assumes "\<And>r. records = Some r \<Longrightarrow> normalized_records H r"
  shows "\<exists>st'. toolCallResultRecorded H st time a tid tcid parts err records = Inr st'"
  using assms
  by (cases records; cases "find_tool_call st tcid")
    (auto simp: toolCallResultRecorded_def normalized_records_def Let_def)

lemma reducePayload_total:
  assumes "validated_citations H p"
  shows "\<exists>st'. reducePayload H st time a p = Inr st'"
proof (cases p)
  case (CitationRecordsLinked target ss cs)
  with assms citationRecordsLinked_total show ?thesis by simp
next
  case (ToolCallResultRecorded tid tcid parts err records)
  with assms show ?thesis
    by (auto intro!: toolCallResultRecorded_total)
qed simp_all

lemma reduceConversationEvent_total:
  "validated_event H ev \<Longrightarrow> \<exists>st'. reduceConversationEvent H st ev = Inr st'"
  using reducePayload_total by (simp add: reduceConversationEvent_eq applied_def split: option.split)

lemma reduceEvents_total:
  assumes "state_inv st" and "\<forall>ev\<in>set evs. validated_event H ev"
  shows "\<exists>st'. reduceEvents H st evs = Inr st'"
  using assms
proof (induction evs arbitrary: st)
  case (Cons ev evs)
  then obtain s where s: "reduceConversationEvent H st ev = Inr s" using reduceConversationEvent_total by force
  then have "state_inv s" using Cons.prems by (auto intro: reduceConversationEvent_inv)
  with Cons s show ?case by auto
qed simp

section \<open>What a later state keeps\<close>

definition state_extends :: "ConversationState \<Rightarrow> ConversationState \<Rightarrow> bool" where
  "state_extends st st' \<longleftrightarrow>
     keeps (conversation_id st) (conversation_id st') \<and>
     (\<exists>new. processed_event_ids st' = processed_event_ids st @ new) \<and>
     (\<exists>new. processed_mutation_ids st' = processed_mutation_ids st @ new) \<and>
     messages_extend (messages st) (messages st') \<and>
     (\<exists>new. attachments st' = attachments st @ new) \<and>
     set (citation_sources st) \<subseteq> set (citation_sources st') \<and>
     turns_extend (turns st) (turns st') \<and>
     calls_extend (tool_calls st) (tool_calls st') \<and>
     proposals_extend (approval_proposals st) (approval_proposals st') \<and>
     (\<exists>new. tool_loop_budget_exhaustions st' = tool_loop_budget_exhaustions st @ new) \<and>
     (\<exists>new. usage_receipt_links st' = usage_receipt_links st @ new)"

lemma state_extends_refl [simp]: "state_extends st st"
  by (simp add: state_extends_def)

lemma state_extends_trans:
  assumes "state_extends a b" and "state_extends b c"
  shows "state_extends a c"
proof -
  have "messages_extend (messages a) (messages c)"
    using message_extends_trans by (rule extends_by_trans [where ys = "messages b"])
      (use assms in \<open>simp_all add: state_extends_def\<close>)
  moreover have "turns_extend (turns a) (turns c)"
    using turn_extends_trans by (rule extends_by_trans [where ys = "turns b"])
      (use assms in \<open>simp_all add: state_extends_def\<close>)
  moreover have "calls_extend (tool_calls a) (tool_calls c)"
    using call_extends_trans by (rule extends_by_trans [where ys = "tool_calls b"])
      (use assms in \<open>simp_all add: state_extends_def\<close>)
  moreover have "proposals_extend (approval_proposals a) (approval_proposals c)"
    using rtranclp_trans by (rule extends_by_trans [where ys = "approval_proposals b"])
      (use assms in \<open>simp_all add: state_extends_def\<close>)
  ultimately show ?thesis using assms
    unfolding state_extends_def by (auto intro: keeps_trans)
qed

lemma accept_extends [simp]:
  "rejection st ev = None \<Longrightarrow> state_extends st (acceptEnvelope st ev)"
  by (auto simp: state_extends_def acceptEnvelope_def keeps_def rejection_None split: option.splits)

lemma replay_error_extends [simp]: "state_extends st (withReplayError st err)"
  by (simp add: state_extends_def withReplayError_def)

lemma component_frame_extends:
  assumes "component_frame part st st'" and "part \<notin> {TurnsPart}"
  shows "state_extends st st'"
  using assms component_frame_calls_extend [OF assms(1)]
  by (cases part)
    (auto simp: state_extends_def component_frame_def messages_only_def calls_only_def
      proposals_only_def links_only_def settings_only_def citations_only_def)

lemma reducePayload_turns_extend:
  assumes "reducePayload H st time a p = Inr st'" and "component p = TurnsPart"
  shows "turns_extend (turns st) (turns st')"
  using assms by (cases p) auto

lemma reducePayload_extends:
  assumes "state_inv st" and "reducePayload H st time a p = Inr st'"
  shows "state_extends st st'"
proof -
  have frame: "component_frame (component p) st st'"
    using reducePayload_frame [OF assms(2)] assms(1) by (simp add: state_inv_def)
  show ?thesis
  proof (cases "component p = TurnsPart")
    case True
    with frame reducePayload_turns_extend [OF assms(2) True] show ?thesis
      by (auto simp: component_frame_def turns_only_def state_extends_def)
  next
    case False
    with frame show ?thesis by (intro component_frame_extends) auto
  qed
qed

lemma reduceConversationEvent_extends:
  assumes "state_inv st" and "reduceConversationEvent H st ev = Inr st'"
  shows "state_extends st st'"
  using assms(2)
proof (cases rule: reduceConversationEvent_cases)
  case accepted
  then have "state_extends (acceptEnvelope st ev) st'"
    using accepted_state_inv [OF assms(1)] by (auto simp: applied_def intro: reducePayload_extends)
  with accepted(2) show ?thesis using accept_extends state_extends_trans by blast
qed auto

lemma reduceEvents_extends:
  assumes "state_inv st" and "\<forall>ev\<in>set evs. validated_event H ev" and "reduceEvents H st evs = Inr st'"
  shows "state_extends st st'"
  using assms
proof (induction evs arbitrary: st)
  case (Cons ev evs)
  then obtain s where s: "reduceConversationEvent H st ev = Inr s" "reduceEvents H s evs = Inr st'" by auto
  then have "state_inv s" using Cons.prems(1,2) by (auto intro: reduceConversationEvent_inv)
  with Cons s show ?case
    by (auto intro: state_extends_trans reduceConversationEvent_extends)
qed simp

section \<open>The fold of a well-formed log\<close>

text \<open>\<open>log_from c r evs\<close>: one conversation's events at the revisions from \<open>r\<close> on.\<close>

fun log_from :: "string \<Rightarrow> int \<Rightarrow> ConversationEvent list \<Rightarrow> bool" where
  "log_from c r [] = True"
| "log_from c r (ev # evs) =
     (event_conversation_id ev = c \<and> event_revision ev = r \<and> log_from c (r + 1) evs)"

definition mutation_ids :: "ConversationEvent list \<Rightarrow> string list" where
  "mutation_ids evs = concat (map (\<lambda>ev. case mutation_id ev of None \<Rightarrow> [] | Some m \<Rightarrow> [m]) evs)"

lemma mutation_ids_simps [simp]:
  "mutation_ids [] = []"
  "mutation_ids (ev # evs) = (case mutation_id ev of None \<Rightarrow> [] | Some m \<Rightarrow> [m]) @ mutation_ids evs"
  "mutation_ids (xs @ ys) = mutation_ids xs @ mutation_ids ys"
  by (simp_all add: mutation_ids_def)

lemma log_from_append:
  "log_from c r (xs @ ys) \<longleftrightarrow> log_from c r xs \<and> log_from c (r + int (length xs)) ys"
  by (induction xs arbitrary: r) (auto simp: algebra_simps)

text \<open>What accepting one event makes of the envelope.\<close>

lemma accepted_envelope:
  assumes "state_inv st" and "\<not> already_processed st ev" and "rejection st ev = None"
    and "applied H st ev = Inr st'"
  shows "processed_event_ids st' = processed_event_ids st @ [event_id ev]"
    and "processed_mutation_ids st' = processed_mutation_ids st @ mutation_ids [ev]"
    and "conversation_id st' = Some (event_conversation_id ev)"
    and "revision st' = Some (event_revision ev)" and "last_event_id st' = Some (event_id ev)"
    and "replay_error st' = None"
proof -
  have "state_inv (acceptEnvelope st ev)" using assms(1-3) by (rule accepted_state_inv)
  then have "component_frame (component (payload ev)) (acceptEnvelope st ev) st'"
    using reducePayload_frame assms(4) by (auto simp: applied_def state_inv_def)
  then have env: "same_envelope (acceptEnvelope st ev) st'"
    by (rule component_frame_envelope)
  have "conversation_id (acceptEnvelope st ev) = Some (event_conversation_id ev)"
    using assms(3) by (auto simp: rejection_None acceptEnvelope_def)
  with env show "processed_event_ids st' = processed_event_ids st @ [event_id ev]"
    and "processed_mutation_ids st' = processed_mutation_ids st @ mutation_ids [ev]"
    and "conversation_id st' = Some (event_conversation_id ev)"
    and "revision st' = Some (event_revision ev)" and "last_event_id st' = Some (event_id ev)"
    and "replay_error st' = None"
    by (auto simp: same_envelope_def acceptEnvelope_def split: option.split)
qed

text \<open>
  A log that continues the state's is accepted event by event, whatever the payloads say:
  every event is processed, in order, exactly once.
\<close>

lemma reduceEvents_continues:
  assumes "state_inv st" and "\<forall>ev\<in>set evs. validated_event H ev"
    and "log_from c (expected_revision st) evs" and "conversation_id st \<in> {None, Some c}"
    and "distinct (processed_event_ids st @ map event_id evs)"
    and "distinct (processed_mutation_ids st @ mutation_ids evs)"
    and "replay_error st = None"
  shows "\<exists>st'. reduceEvents H st evs = Inr st' \<and> state_inv st' \<and>
      processed_event_ids st' = processed_event_ids st @ map event_id evs \<and>
      processed_mutation_ids st' = processed_mutation_ids st @ mutation_ids evs \<and>
      expected_revision st' = expected_revision st + int (length evs) \<and>
      conversation_id st' = (if evs = [] then conversation_id st else Some c) \<and> replay_error st' = None"
  using assms
proof (induction evs arbitrary: st)
  case (Cons ev evs)
  have fresh: "\<not> already_processed st ev"
    using Cons.prems(5,6) by (auto simp: already_processed_def split: option.splits)
  have ok: "rejection st ev = None" using Cons.prems(3,4) by (auto simp: rejection_None)
  obtain s where s: "applied H st ev = Inr s"
    using Cons.prems(2) reducePayload_total by (fastforce simp: applied_def)
  then have step: "reduceConversationEvent H st ev = Inr s"
    using fresh ok by (simp add: reduceConversationEvent_eq)
  note env = accepted_envelope [OF Cons.prems(1) fresh ok s]
  have inv: "state_inv s" using Cons.prems(1,2) step by (auto intro: reduceConversationEvent_inv)
  have "expected_revision s = expected_revision st + 1"
    using env(4) ok by (simp add: expected_revision_def rejection_None)
  with Cons.IH [OF inv] Cons.prems env step show ?case by (auto simp: algebra_simps)
qed simp

end
