(* ===== verification/EventEncoding.thy ===== *)
theory EventEncoding
  imports EventFacts
begin

text \<open>
  The JSON form of a typed event (what \<open>JSON.stringify\<close> writes and storage returns), and
  that the strict parser reads back the event that was written.
\<close>

section \<open>Encoding\<close>

definition opt_field :: "string \<Rightarrow> ('a \<Rightarrow> json) \<Rightarrow> 'a option \<Rightarrow> (string \<times> json) list" where
  "opt_field key f x = (case x of None \<Rightarrow> [] | Some y \<Rightarrow> [(key, f y)])"

definition actor_json :: "ConversationEventActor \<Rightarrow> json" where
  "actor_json a = JObj ((''type'', JStr (enum_string actor_types (actor_type a))) #
     opt_field ''id'' JStr (actor_id a))"

fun source_event_json :: "ConversationEventSource \<Rightarrow> json" where
  "source_event_json (ClientSource c d) =
     JObj ([(''type'', JStr ''client''), (''client_id'', JStr c)] @ opt_field ''device_id'' JStr d)"
| "source_event_json RuntimeSource = JObj [(''type'', JStr ''runtime'')]"
| "source_event_json SyncSource = JObj [(''type'', JStr ''sync'')]"
| "source_event_json ImportSource = JObj [(''type'', JStr ''import'')]"

definition text_json :: "string \<Rightarrow> json" where
  "text_json s = JObj [(''type'', JStr ''text''), (''text'', JStr s)]"

fun message_part_json :: "ConversationMessageContentPart \<Rightarrow> json" where
  "message_part_json (MessageText s) = text_json s"

fun result_part_json :: "ConversationToolResultContentPart \<Rightarrow> json" where
  "result_part_json (ToolResultText s) = text_json s"
| "result_part_json (ToolResultJson v) = JObj [(''type'', JStr ''json''), (''value'', v)]"

definition attachment_json :: "ConversationAttachmentReference \<Rightarrow> json" where
  "attachment_json a = JObj ([(''attachment_id'', JStr (attachment_id a))] @
     opt_field ''kind'' (\<lambda>k. JStr (enum_string attachment_kinds k)) (attachment_kind a) @
     [(''media_type'', JStr (media_type a))] @
     opt_field ''filename'' JStr (filename a) @ opt_field ''size_bytes'' jint (size_bytes a))"

fun reviewed_json :: "ConversationApprovalReviewedArguments \<Rightarrow> json" where
  "reviewed_json (RedactedJson v) = JObj [(''type'', JStr ''redacted_json''), (''value'', v)]"
| "reviewed_json (OpaqueReference r) =
     JObj [(''type'', JStr ''opaque_reference''), (''argument_ref'', JStr r)]"

definition turn_error_json :: "ConversationTurnError \<Rightarrow> json" where
  "turn_error_json e = JObj [(''code'', JStr (error_code e)), (''message'', JStr (error_message e)),
     (''retryable'', JBool (error_retryable e))]"

fun citation_target_json :: "ConversationCitationTarget \<Rightarrow> json" where
  "citation_target_json (AssistantMessageTarget m) =
     JObj [(''type'', JStr ''assistant_message''), (''message_id'', JStr m)]"
| "citation_target_json (ToolResultTarget t c) =
     JObj [(''type'', JStr ''tool_result''), (''turn_id'', JStr t), (''tool_call_id'', JStr c)]"

fun change_fields :: "ApprovalProposalStatusChange \<Rightarrow> (string \<times> json) list" where
  "change_fields (ChangeConfirmed r) = (''status'', JStr ''confirmed'') # opt_field ''decision_reason'' JStr r"
| "change_fields (ChangeRejected r) = (''status'', JStr ''rejected'') # opt_field ''decision_reason'' JStr r"
| "change_fields (ChangeExpired r) = (''status'', JStr ''expired'') # opt_field ''decision_reason'' JStr r"
| "change_fields ChangeExecuting = [(''status'', JStr ''executing'')]"
| "change_fields ChangeExecuted = [(''status'', JStr ''executed'')]"
| "change_fields (ChangeFailed r) = [(''status'', JStr ''failed''), (''failure_reason'', JStr r)]"

abbreviation turn_fields :: "string \<Rightarrow> string \<Rightarrow> (string \<times> json) list" where
  "turn_fields t tid \<equiv> [(''type'', JStr t), (''turn_id'', JStr tid)]"

abbreviation ids_json :: "string list \<Rightarrow> json" where
  "ids_json ids \<equiv> JArr (map JStr ids)"

fun payload_json :: "ConversationEventPayload \<Rightarrow> json" where
  "payload_json (MessageCreated mid r c) = JObj [(''type'', JStr ''message.created''),
     (''message_id'', JStr mid), (''role'', JStr (enum_string message_roles r)),
     (''content'', JArr (map message_part_json c))]"
| "payload_json (MessageTextAppended tid mid chunk) = JObj (turn_fields ''message.text_appended'' tid @
     [(''message_id'', JStr mid), (''text'', JStr chunk)])"
| "payload_json (MessageAttachmentReferenced mid a) = JObj
     [(''type'', JStr ''message.attachment_referenced''), (''message_id'', JStr mid),
      (''attachment'', attachment_json a)]"
| "payload_json (CitationRecordsLinked target ss cs) = JObj
     [(''type'', JStr ''citation.records_linked''), (''citation_records_version'', jint 1),
      (''target'', citation_target_json target), (''sources'', JArr (map source_json ss)),
      (''citations'', JArr (map citation_json cs))]"
| "payload_json (TurnStarted tid ids c) = JObj (turn_fields ''turn.started'' tid @
     [(''input_message_ids'', ids_json ids)] @ opt_field ''continuation_of_turn_id'' JStr c)"
| "payload_json (TurnStatusChanged tid s) = JObj (turn_fields ''turn.status_changed'' tid @
     [(''status'', JStr (enum_string TURN_STATUSES s))])"
| "payload_json (TurnAttemptStarted tid n op) = JObj (turn_fields ''turn.attempt_started'' tid @
     [(''attempt'', jint n), (''operation'', JStr (enum_string attempt_operations op))])"
| "payload_json (TurnRetryScheduled tid n category delay) = JObj (turn_fields ''turn.retry_scheduled'' tid @
     [(''attempt'', jint n), (''reason_category'', JStr (enum_string RETRY_REASON_CATEGORIES category)),
      (''delay_ms'', jint delay)])"
| "payload_json (TurnRetryExhausted tid n category reason) = JObj (turn_fields ''turn.retry_exhausted'' tid @
     [(''attempt'', jint n), (''reason_category'', JStr (enum_string RETRY_REASON_CATEGORIES category)),
      (''exhaustion_reason'', JStr (enum_string RETRY_EXHAUSTION_REASONS reason))])"
| "payload_json (TurnCancellationRequested tid r) = JObj (turn_fields ''turn.cancellation_requested'' tid @
     [(''reason'', JStr (enum_string TURN_CANCELLATION_REASONS r))])"
| "payload_json (TurnCancellationUnsupported tid r) = JObj (turn_fields ''turn.cancellation_unsupported'' tid @
     [(''reason'', JStr (enum_string TURN_CANCELLATION_REASONS r))])"
| "payload_json (TurnCompleted tid oc ids) = JObj (turn_fields ''turn.completed'' tid @
     [(''outcome'', JStr (enum_string TURN_COMPLETION_OUTCOMES oc)), (''output_message_ids'', ids_json ids)])"
| "payload_json (TurnCancelled tid r) = JObj (turn_fields ''turn.cancelled'' tid @
     [(''reason'', JStr (enum_string TURN_CANCELLATION_REASONS r))])"
| "payload_json (TurnFailed tid e) = JObj (turn_fields ''turn.failed'' tid @ [(''error'', turn_error_json e)])"
| "payload_json (ToolCallRequested tid tcid name args) = JObj (turn_fields ''tool_call.requested'' tid @
     [(''tool_call_id'', JStr tcid), (''name'', JStr name), (''arguments'', args)])"
| "payload_json (ToolCallDiscovered tid tcid) = JObj (turn_fields ''tool_call.discovered'' tid @
     [(''tool_call_id'', JStr tcid)])"
| "payload_json (ToolCallStarted tid tcid) = JObj (turn_fields ''tool_call.started'' tid @
     [(''tool_call_id'', JStr tcid)])"
| "payload_json (ToolCallApprovalRequired tid tcid) = JObj (turn_fields ''tool_call.approval_required'' tid @
     [(''tool_call_id'', JStr tcid)])"
| "payload_json (ApprovalProposalCreated p) = JObj ([(''type'', JStr ''approval.proposal_created''),
     (''proposal_id'', JStr (created_proposal_id p))] @ opt_field ''group_id'' JStr (created_group_id p) @
     [(''turn_id'', JStr (created_turn_id p)), (''tool_call_id'', JStr (created_tool_call_id p)),
      (''tool_name'', JStr (created_tool_name p)), (''status'', JStr ''pending''),
      (''proposal_version'', jint 1), (''expires_at'', JStr (created_expires_at p)),
      (''reviewed_arguments'', reviewed_json (created_reviewed_arguments p))])"
| "payload_json (ApprovalProposalStatusChanged pid version change) = JObj
     ([(''type'', JStr ''approval.proposal_status_changed''), (''proposal_id'', JStr pid),
       (''proposal_version'', jint version)] @ change_fields change)"
| "payload_json (ToolCallResultRecorded tid tcid parts err records) = JObj
     (turn_fields ''tool_call.result_recorded'' tid @
      [(''tool_call_id'', JStr tcid), (''content'', JArr (map result_part_json parts)),
       (''is_error'', JBool err)] @ opt_field ''citation_records'' records_json records)"
| "payload_json (ToolLoopBudgetExhausted tid budget lmt) = JObj (turn_fields ''tool_loop.budget_exhausted'' tid @
     [(''budget'', JStr (enum_string tool_loop_budgets budget)), (''limit'', jint lmt)])"
| "payload_json (UsageReceiptLinked tid rid) = JObj (turn_fields ''usage.receipt_linked'' tid @
     [(''usage_receipt_id'', JStr rid)])"
| "payload_json (ConversationMetadataUpdated m) = JObj
     [(''type'', JStr ''conversation.metadata_updated''), (''metadata'', m)]"
| "payload_json (ConversationTitleUpdated t) = JObj [(''type'', JStr ''conversation.title_updated''),
     (''title'', case t of None \<Rightarrow> JNull | Some s \<Rightarrow> JStr s)]"

definition event_json :: "ConversationEvent \<Rightarrow> json" where
  "event_json ev = JObj ([(''version'', jint 1), (''event_id'', JStr (event_id ev)),
     (''conversation_id'', JStr (event_conversation_id ev)), (''revision'', jint (event_revision ev)),
     (''occurred_at'', JStr (occurred_at ev)), (''actor'', actor_json (actor ev)),
     (''source'', source_event_json (event_source ev))] @
     opt_field ''mutation_id'' JStr (mutation_id ev) @
     opt_field ''metadata'' (\<lambda>m. m) (event_metadata ev) @
     [(''payload'', payload_json (payload ev))])"

section \<open>Reading back the fields\<close>

named_theorems decode_simps \<open>what the validators return on encoded values\<close>

lemma opt_field_get [simp]:
  "map_of (opt_field key f x) key' = (if key' = key then map_option f x else None)"
  by (simp add: opt_field_def split: option.split)

lemma map_add_opt_field [simp]:
  "k \<noteq> key \<Longrightarrow> (m ++ map_of (opt_field key f x)) k = m k"
  "(m ++ map_of (opt_field key f x)) key = (case x of None \<Rightarrow> m key | Some y \<Rightarrow> Some (f y))"
  by (auto simp: map_add_def split: option.split)

lemma opt_field_keys [simp]: "fst ` set (opt_field key f x) = (if x = None then {} else {key})"
  by (cases x) (simp_all add: opt_field_def)

lemma event_identifier_JStr: "event_identifier (Some (JStr s)) path = Inr t \<Longrightarrow> t = s"
  by (auto simp: event_identifier_def stringValue_def split: if_splits)

lemma stringValue_JStr: "stringValue (Some (JStr s)) path e n = Inr t \<Longrightarrow> t = s"
  by (auto simp: stringValue_def split: if_splits)

lemma safe_integer_jint: "safe_integer_from k msg (Some (jint n)) path = Inr m \<Longrightarrow> m = n"
  by (auto simp: safe_integer_from_def jint_def split: if_splits)

lemma actor_types_inverse [decode_simps]:
  "enumValue (Some (JStr (enum_string actor_types a))) actor_types path = Inr a"
  by (cases a) (simp_all add: enumValue_def enum_string_def actor_types_def)

lemma message_roles_inverse [decode_simps]:
  "enumValue (Some (JStr (enum_string message_roles r))) message_roles path = Inr r"
  by (cases r) (simp_all add: enumValue_def enum_string_def message_roles_def)

lemma attachment_kinds_inverse [decode_simps]:
  "enumValue (Some (JStr (enum_string attachment_kinds k))) attachment_kinds path = Inr k"
  by (cases k) (simp_all add: enumValue_def enum_string_def attachment_kinds_def)

lemma TURN_STATUSES_inverse [decode_simps]:
  "enumValue (Some (JStr (enum_string TURN_STATUSES s))) TURN_STATUSES path = Inr s"
  by (cases s) (simp_all add: enumValue_def enum_string_def TURN_STATUSES_def)

lemma TURN_COMPLETION_OUTCOMES_inverse [decode_simps]:
  "enumValue (Some (JStr (enum_string TURN_COMPLETION_OUTCOMES oc))) TURN_COMPLETION_OUTCOMES path = Inr oc"
  by (cases oc) (simp_all add: enumValue_def enum_string_def TURN_COMPLETION_OUTCOMES_def)

lemma TURN_CANCELLATION_REASONS_inverse [decode_simps]:
  "enumValue (Some (JStr (enum_string TURN_CANCELLATION_REASONS r))) TURN_CANCELLATION_REASONS path = Inr r"
  by (cases r) (simp_all add: enumValue_def enum_string_def TURN_CANCELLATION_REASONS_def)

lemma RETRY_REASON_CATEGORIES_inverse [decode_simps]:
  "enumValue (Some (JStr (enum_string RETRY_REASON_CATEGORIES c))) RETRY_REASON_CATEGORIES path = Inr c"
  by (cases c) (simp_all add: enumValue_def enum_string_def RETRY_REASON_CATEGORIES_def)

lemma RETRY_EXHAUSTION_REASONS_inverse [decode_simps]:
  "enumValue (Some (JStr (enum_string RETRY_EXHAUSTION_REASONS r))) RETRY_EXHAUSTION_REASONS path = Inr r"
  by (cases r) (simp_all add: enumValue_def enum_string_def RETRY_EXHAUSTION_REASONS_def)

lemma attempt_operations_inverse [decode_simps]:
  "enumValue (Some (JStr (enum_string attempt_operations op))) attempt_operations path = Inr op"
  by (cases op) (simp_all add: enumValue_def enum_string_def attempt_operations_def)

lemma tool_loop_budgets_inverse [decode_simps]:
  "enumValue (Some (JStr (enum_string tool_loop_budgets b))) tool_loop_budgets path = Inr b"
  by (cases b) (simp_all add: enumValue_def enum_string_def tool_loop_budgets_def)

text \<open>Arrays: when every item reads back, so does the array.\<close>

lemma map_result_indexed_inverse:
  assumes "map_result (\<lambda>(i, x). validate (Some x) (item_path path i)) ps = Inr ys"
    and items: "map snd ps = map g xs"
    and inverse: "\<And>x q y. x \<in> set xs \<Longrightarrow> validate (Some (g x)) q = Inr y \<Longrightarrow> y = h x"
  shows "ys = map h xs"
proof (rule nth_equalityI)
  note all = map_result_all [OF assms(1)]
  have len: "length ps = length xs" using arg_cong [OF items, of length] by simp
  have len': "length ps = length ys" by (rule list_all2_lengthD [OF all])
  show "length ys = length (map h xs)" using len len' by simp
  fix i assume "i < length ys"
  then have i: "i < length ps" "i < length xs" using len len' by simp_all
  have item: "snd (ps ! i) = g (xs ! i)" using arg_cong [OF items, of "\<lambda>l. l ! i"] i by simp
  have "validate (Some (snd (ps ! i))) (item_path path (fst (ps ! i))) = Inr (ys ! i)"
    using list_all2_nthD [OF all i(1)] by (simp add: case_prod_beta)
  then have "ys ! i = h (xs ! i)" unfolding item by (rule inverse [OF nth_mem [OF i(2)]])
  then show "ys ! i = map h xs ! i" using i by simp
qed

lemma nonempty_array_inverse:
  assumes "nonempty_array validate (Some (JArr (map g xs))) path = Inr ys"
    and "\<And>x q y. x \<in> set xs \<Longrightarrow> validate (Some (g x)) q = Inr y \<Longrightarrow> y = h x"
  shows "ys = map h xs"
proof (rule map_result_indexed_inverse [where g = g and ps = "indexed (map g xs)"])
  show "map_result (\<lambda>(i, x). validate (Some x) (item_path path i)) (indexed (map g xs)) = Inr ys"
    using assms(1) by (simp add: nonempty_array_def split: if_splits)
qed (simp, rule assms(2))

lemma identifierArray_inverse:
  assumes "identifierArray (Some (ids_json ids)) path e = Inr ids'"
  shows "ids' = ids"
proof -
  from assms have "map_result (\<lambda>(i, x). event_identifier (Some x) (item_path path i))
      (indexed (map JStr ids)) = Inr ids'"
    by (auto simp: identifierArray_def split: if_splits)
  from map_result_indexed_inverse [OF this, of JStr ids "\<lambda>s. s"] show ?thesis
    using event_identifier_JStr by simp
qed

section \<open>Reading back the parts\<close>

lemma validateActor_inverse: "validateActor (Some (actor_json a)) path = Inr b \<Longrightarrow> b = a"
  by (cases a) (auto simp: validateActor_def actor_json_def event_record_def decode_simps
      optional_field_Inr split: option.splits dest!: event_identifier_JStr)

lemma validateSource_inverse: "validateSource (Some (source_event_json s)) path = Inr t \<Longrightarrow> t = s"
  by (cases s) (auto simp: validateSource_def event_record_def enumValue_def source_types_def
      optional_field_Inr split: option.splits dest!: event_identifier_JStr)

lemma validateTextPart_inverse: "validateTextPart (Some (text_json s)) path = Inr t \<Longrightarrow> t = s"
  by (auto simp: validateTextPart_def text_json_def event_record_def dest!: stringValue_JStr)

lemma validateToolResultPart_inverse:
  "validateToolResultPart (Some (result_part_json x)) path = Inr y \<Longrightarrow> y = x"
proof (cases x)
  case (ToolResultText s)
  then show "validateToolResultPart (Some (result_part_json x)) path = Inr y \<Longrightarrow> y = x"
    using validateTextPart_inverse [of s path]
    by (auto simp: validateToolResultPart_def event_record_def) (auto simp: text_json_def)
qed (auto simp: validateToolResultPart_def event_record_def)

lemma validateTurnError_inverse: "validateTurnError (Some (turn_error_json e)) path = Inr f \<Longrightarrow> f = e"
  by (cases e) (auto simp: validateTurnError_def turn_error_json_def event_record_def booleanValue_def
      dest!: event_identifier_JStr stringValue_JStr)

lemma validateTimestamp_inverse: "validateTimestamp (Some (JStr s)) path = Inr t \<Longrightarrow> t = s"
  by (auto simp: validateTimestamp_def dest!: stringValue_JStr split: if_splits)

lemma validateReviewed_inverse:
  "validateApprovalReviewedArguments H (Some (reviewed_json a)) path = Inr b \<Longrightarrow> b = a"
  by (cases a) (auto simp: validateApprovalReviewedArguments_def event_record_def
      dest!: stringValue_JStr split: if_splits option.splits json.splits)

lemma validateApprovalReason_inverse: "validateApprovalReason (Some (JStr s)) path = Inr t \<Longrightarrow> t = s"
  by (auto simp: validateApprovalReason_def dest!: stringValue_JStr split: if_splits)

lemma validateMetadata_inverse: "validateMetadata H (Some m) path = Inr m' \<Longrightarrow> m' = m"
  by (auto simp: validateMetadata_def event_record_def split: option.splits json.splits if_splits)

lemma media_types_inverse: "enumValue (Some (JStr s)) (media_types k) path = Inr t \<Longrightarrow> t = s"
  by (auto simp: enumValue_def media_types_def split: option.splits dest!: map_of_SomeD)

lemma validate_filename_inverse: "validate_filename (Some (JStr s)) path = Inr t \<Longrightarrow> t = s"
  by (auto simp: validate_filename_def dest!: stringValue_JStr split: if_splits)

lemma validate_size_inverse: "validate_size_bytes k (Some (jint n)) path = Inr m \<Longrightarrow> m = n"
  by (auto simp: validate_size_bytes_def jint_def Let_def split: if_splits)

lemma validateAttachment_inverse:
  assumes "validateAttachmentReference (Some (attachment_json a)) path = Inr b"
  shows "b = a"
proof -
  let ?kvs = "[(''attachment_id'', JStr (attachment_id a))] @
     opt_field ''kind'' (\<lambda>k. JStr (enum_string attachment_kinds k)) (attachment_kind a) @
     [(''media_type'', JStr (media_type a))] @
     opt_field ''filename'' JStr (filename a) @ opt_field ''size_bytes'' jint (size_bytes a)"
  from assms obtain kind name size aid mt where
    "stringValue (Some (JStr (attachment_id a))) (path @ ''.attachment_id'') False 256 = Inr aid"
    "optional_field (\<lambda>x p. enumValue x attachment_kinds p) ?kvs ''kind'' path = Inr kind"
    "enumValue (Some (JStr (media_type a))) (media_types kind) (path @ ''.media_type'') = Inr mt"
    "optional_field validate_filename ?kvs ''filename'' path = Inr name"
    "optional_field (validate_size_bytes kind) ?kvs ''size_bytes'' path = Inr size"
    and b: "b = \<lparr>attachment_id = aid, attachment_kind = kind, media_type = mt, filename = name,
            size_bytes = size\<rparr>"
    unfolding validateAttachmentReference_def attachment_json_def bind_result_Inr_iff event_record_def
    by auto
  then have "aid = attachment_id a" "kind = attachment_kind a" "mt = media_type a"
    "name = filename a" "size = size_bytes a"
    by (auto simp: optional_field_Inr decode_simps split: option.splits
        dest!: stringValue_JStr media_types_inverse validate_filename_inverse validate_size_inverse)
  then show ?thesis by (simp add: b)
qed

section \<open>Reading back payloads and events\<close>

lemma parse_citation_target_inverse:
  "parse_citation_target (Some (citation_target_json t)) path = Inr u \<Longrightarrow> u = t"
  by (cases t) (auto simp: parse_citation_target_def event_record_def dest!: event_identifier_JStr)

text \<open>Decoding the canonical form of a record set gives the normal form, which must be equal to it.\<close>

lemma source_type_string_eq: "source_type_string a = source_type_string b \<longleftrightarrow> a = b"
  by (cases a; cases b) simp_all

lemma source_json_equal:
  assumes "jsonValuesEqual (source_json s) (source_json t)"
  shows "s = t"
proof -
  have "locator s = locator t \<and> source_id s = source_id t \<and> source_type s = source_type t \<and> label s = label t"
    using assms
    by (cases "locator s"; cases "locator t") (simp_all add: source_json_def source_type_string_eq)
  then show ?thesis by simp
qed

lemma citation_json_equal:
  assumes "jsonValuesEqual (citation_json c) (citation_json d)"
  shows "c = d"
proof -
  have "jsonValuesEqual (target_json (citation_target c)) (target_json (citation_target d))"
    and fields: "citation_id c = citation_id d" "cited_source_id c = cited_source_id d"
      "citation_order c = citation_order d"
    using assms by (simp_all add: citation_json_def jint_def)
  then have "citation_target c = citation_target d"
    by (cases "citation_target c"; cases "citation_target d") auto
  with fields show ?thesis by simp
qed

lemma list_all2_json_equal:
  assumes "list_all2 jsonValuesEqual (map f xs) (map f ys)"
    and "\<And>x y. jsonValuesEqual (f x) (f y) \<Longrightarrow> x = y"
  shows "xs = ys"
  using assms(1) by (auto simp: list_all2_conv_all_nth assms(2) intro!: nth_equalityI)

lemma parse_result_citations_inverse:
  assumes "parse_result_citations H tcid (Some (records_json r)) path = Inr r'"
  shows "r' = r"
proof -
  have "jsonValuesEqual (records_json r') (records_json r)"
    using assms by (auto simp: parse_result_citations_def split: if_splits)
  then have "sources r' = sources r" "citations r' = citations r"
    by (auto simp: records_json_def intro: list_all2_json_equal source_json_equal citation_json_equal)
  then show ?thesis by simp
qed

lemma payload_parsers_get [decode_simps]:
  "map_of (payload_parsers H) ''message.created'' = Some (parse_message_created)"
  "map_of (payload_parsers H) ''message.text_appended'' = Some (parse_text_appended)"
  "map_of (payload_parsers H) ''message.attachment_referenced'' = Some (parse_attachment_referenced)"
  "map_of (payload_parsers H) ''citation.records_linked'' = Some (parse_citation_records H)"
  "map_of (payload_parsers H) ''turn.started'' = Some (parse_turn_started)"
  "map_of (payload_parsers H) ''turn.status_changed'' = Some (parse_status_changed)"
  "map_of (payload_parsers H) ''turn.attempt_started'' = Some (parse_attempt_started)"
  "map_of (payload_parsers H) ''turn.retry_scheduled'' = Some (parse_retry_scheduled)"
  "map_of (payload_parsers H) ''turn.retry_exhausted'' = Some (parse_retry_exhausted)"
  "map_of (payload_parsers H) ''turn.cancellation_requested'' = Some (parse_cancellation TurnCancellationRequested)"
  "map_of (payload_parsers H) ''turn.cancellation_unsupported'' = Some (parse_cancellation TurnCancellationUnsupported)"
  "map_of (payload_parsers H) ''turn.completed'' = Some (parse_turn_completed)"
  "map_of (payload_parsers H) ''turn.cancelled'' = Some (parse_cancellation TurnCancelled)"
  "map_of (payload_parsers H) ''turn.failed'' = Some (parse_turn_failed)"
  "map_of (payload_parsers H) ''tool_call.requested'' = Some (parse_call_requested)"
  "map_of (payload_parsers H) ''tool_call.discovered'' = Some (parse_call_marked ToolCallDiscovered)"
  "map_of (payload_parsers H) ''tool_call.started'' = Some (parse_call_marked ToolCallStarted)"
  "map_of (payload_parsers H) ''tool_call.approval_required'' = Some (parse_call_marked ToolCallApprovalRequired)"
  "map_of (payload_parsers H) ''approval.proposal_created'' = Some (parse_proposal_created H)"
  "map_of (payload_parsers H) ''approval.proposal_status_changed'' = Some (parse_proposal_changed)"
  "map_of (payload_parsers H) ''tool_call.result_recorded'' = Some (parse_result_recorded H)"
  "map_of (payload_parsers H) ''tool_loop.budget_exhausted'' = Some (parse_budget_exhausted)"
  "map_of (payload_parsers H) ''usage.receipt_linked'' = Some (parse_receipt_linked)"
  "map_of (payload_parsers H) ''conversation.metadata_updated'' = Some (parse_metadata_updated H)"
  "map_of (payload_parsers H) ''conversation.title_updated'' = Some (parse_title_updated)"
  by (simp_all add: payload_parsers_def)

lemma validatePayload_type:
  "map_of kvs ''type'' = Some (JStr t) \<Longrightarrow> map_of (payload_parsers H) t = Some parse \<Longrightarrow>
   validatePayload H (Some (JObj kvs)) path = parse kvs path"
  by (simp add: validatePayload_def event_record_def requiredKeys_def)

lemmas read_back = event_identifier_JStr stringValue_JStr safe_integer_jint identifierArray_inverse
  validateTurnError_inverse validateTimestamp_inverse validateReviewed_inverse
  validateApprovalReason_inverse validateMetadata_inverse validateAttachment_inverse
  parse_citation_target_inverse parse_result_citations_inverse

lemma text_parts_inverse:
  "nonempty_array validateTextPart (Some (JArr (map message_part_json c))) path = Inr ts \<Longrightarrow> map MessageText ts = c"
proof -
  assume a: "nonempty_array validateTextPart (Some (JArr (map message_part_json c))) path = Inr ts"
  have "ts = map (\<lambda>m. case m of MessageText t \<Rightarrow> t) c"
  proof (rule nonempty_array_inverse [OF a])
    fix x q y assume "validateTextPart (Some (message_part_json x)) q = Inr y"
    then show "y = (case x of MessageText t \<Rightarrow> t)"
      by (cases x) (auto dest: validateTextPart_inverse)
  qed
  then show ?thesis by (auto simp: comp_def intro!: map_idI split: ConversationMessageContentPart.split)
qed

lemma result_parts_inverse:
  "nonempty_array validateToolResultPart (Some (JArr (map result_part_json c))) path = Inr ps \<Longrightarrow> ps = c"
  using nonempty_array_inverse [of validateToolResultPart result_part_json c path ps "\<lambda>x. x"]
    validateToolResultPart_inverse by simp

end
