(* ===== verification/StateEncoding.thy ===== *)
theory StateEncoding
  imports EventEncoding
begin

text \<open>
  The JSON form of the projection (src/conversation/state.ts), as \<open>JSON.stringify\<close> writes
  a checkpoint: nullable fields are written as null, absent ones are left out.
\<close>

definition nullable :: "('a \<Rightarrow> json) \<Rightarrow> 'a option \<Rightarrow> json" where
  "nullable f x = (case x of None \<Rightarrow> JNull | Some y \<Rightarrow> f y)"

definition attribution_json :: "ConversationEventAttribution \<Rightarrow> json" where
  "attribution_json a = JObj [(''actor'', actor_json (attributed_actor a)),
     (''source'', source_event_json (attributed_source a))]"

definition message_json :: "ConversationMessageRecord \<Rightarrow> json" where
  "message_json m = JObj ([(''message_id'', JStr (message_id m))] @
     opt_field ''turn_id'' JStr (message_turn_id m) @
     [(''role'', nullable (\<lambda>r. JStr (enum_string message_roles r)) (role m)),
      (''content'', JArr (map message_part_json (content m))),
      (''attachments'', JArr (map attachment_json (message_attachments m))),
      (''created_at'', nullable JStr (created_at m)),
      (''attribution'', nullable attribution_json (message_attribution m))])"

definition attachment_record_json :: "ConversationAttachmentRecord \<Rightarrow> json" where
  "attachment_record_json a = JObj [(''message_id'', JStr (attached_message_id a)),
     (''attachment_id'', JStr (attached_attachment_id a)), (''reference'', attachment_json (reference a)),
     (''referenced_at'', JStr (referenced_at a)), (''attribution'', attribution_json (attached_attribution a))]"

fun turn_status_string :: "ConversationTurnStateStatus \<Rightarrow> string" where
  "turn_status_string (Active s) = enum_string TURN_STATUSES s"
| "turn_status_string TurnIsCompleted = ''completed''"
| "turn_status_string TurnIsCancelled = ''cancelled''"
| "turn_status_string TurnIsFailed = ''failed''"

definition cancellation_statuses :: "(string \<times> ConversationTurnCancellationStatus) list" where
  "cancellation_statuses = [(''requested'', CancellationRequested),
     (''unsupported'', CancellationUnsupported), (''cancelled'', CancellationDone)]"

fun retry_fields :: "RetryRecordKind \<Rightarrow> int \<Rightarrow> (string \<times> json) list" where
  "retry_fields (AttemptStarted op) n = [(''type'', JStr ''turn.attempt_started''), (''attempt'', jint n),
     (''operation'', JStr (enum_string attempt_operations op))]"
| "retry_fields (RetryScheduled c delay) n = [(''type'', JStr ''turn.retry_scheduled''), (''attempt'', jint n),
     (''reason_category'', JStr (enum_string RETRY_REASON_CATEGORIES c)), (''delay_ms'', jint delay)]"
| "retry_fields (RetryExhausted c r) n = [(''type'', JStr ''turn.retry_exhausted''), (''attempt'', jint n),
     (''reason_category'', JStr (enum_string RETRY_REASON_CATEGORIES c)),
     (''exhaustion_reason'', JStr (enum_string RETRY_EXHAUSTION_REASONS r))]"

definition retry_json :: "ConversationTurnRetryRecord \<Rightarrow> json" where
  "retry_json r = JObj (retry_fields (retry_kind r) (attempt r) @
     [(''occurred_at'', JStr (retry_occurred_at r)), (''attribution'', attribution_json (retry_attribution r))])"

definition turn_json :: "ConversationTurnRecord \<Rightarrow> json" where
  "turn_json t = JObj [(''turn_id'', JStr (turn_id t)),
     (''continuation_of_turn_id'', nullable JStr (continuation_of_turn_id t)),
     (''status'', JStr (turn_status_string (turn_status t))),
     (''input_message_ids'', ids_json (input_message_ids t)),
     (''output_message_ids'', ids_json (output_message_ids t)),
     (''outcome'', nullable (\<lambda>x. JStr (enum_string TURN_COMPLETION_OUTCOMES x)) (outcome t)),
     (''cancellation_reason'', nullable (\<lambda>x. JStr (enum_string TURN_CANCELLATION_REASONS x)) (cancellation_reason t)),
     (''cancellation_status'', nullable (\<lambda>x. JStr (enum_string cancellation_statuses x)) (cancellation_status t)),
     (''cancellation_requested_reason'',
        nullable (\<lambda>x. JStr (enum_string TURN_CANCELLATION_REASONS x)) (cancellation_requested_reason t)),
     (''remote_may_still_be_running'', JBool (remote_may_still_be_running t)),
     (''error'', nullable turn_error_json (turn_error t)),
     (''retry_history'', JArr (map retry_json (retry_history t))),
     (''started_at'', nullable JStr (started_at t)), (''terminal_at'', nullable JStr (terminal_at t)),
     (''attribution'', nullable attribution_json (turn_attribution t))]"

definition result_json :: "ConversationToolResultRecord \<Rightarrow> json" where
  "result_json r = JObj ([(''content'', JArr (map result_part_json (result_content r))),
     (''is_error'', JBool (is_error r))] @
     opt_field ''citation_records'' records_json (citation_records r) @
     [(''recorded_at'', JStr (recorded_at r)), (''attribution'', attribution_json (result_attribution r))])"

definition tool_call_json :: "ConversationToolCallRecord \<Rightarrow> json" where
  "tool_call_json c = JObj [(''tool_call_id'', JStr (tool_call_id c)), (''turn_id'', JStr (call_turn_id c)),
     (''name'', nullable JStr (tool_call_name c)), (''arguments'', nullable (\<lambda>v. v) (arguments c)),
     (''requested_at'', nullable JStr (requested_at c)), (''discovered_at'', nullable JStr (discovered_at c)),
     (''started_at'', nullable JStr (call_started_at c)),
     (''approval_required_at'', nullable JStr (approval_required_at c)),
     (''attribution'', nullable attribution_json (call_attribution c)),
     (''result'', nullable result_json (call_result c))]"

fun proposal_status_string :: "ConversationApprovalProposalStatus \<Rightarrow> string" where
  "proposal_status_string Pending = ''pending''"
| "proposal_status_string s = enum_string transition_statuses s"

definition proposal_json :: "ConversationApprovalProposalRecord \<Rightarrow> json" where
  "proposal_json p = JObj [(''proposal_id'', JStr (proposal_id p)), (''group_id'', nullable JStr (group_id p)),
     (''turn_id'', JStr (proposal_turn_id p)), (''tool_call_id'', JStr (proposal_tool_call_id p)),
     (''tool_name'', JStr (tool_name p)), (''reviewed_arguments'', reviewed_json (reviewed_arguments p)),
     (''status'', JStr (proposal_status_string (proposal_status p))),
     (''proposal_version'', jint (proposal_version p)), (''expires_at'', JStr (expires_at p)),
     (''created_at'', JStr (proposal_created_at p)), (''updated_at'', JStr (updated_at p)),
     (''created_attribution'', attribution_json (created_attribution p)),
     (''latest_attribution'', attribution_json (latest_attribution p)),
     (''decision_at'', nullable JStr (decision_at p)),
     (''decision_attribution'', nullable attribution_json (decision_attribution p)),
     (''decision_reason'', nullable JStr (decision_reason p)),
     (''failure_reason'', nullable JStr (failure_reason p))]"

definition exhaustion_json :: "ConversationToolLoopBudgetExhaustion \<Rightarrow> json" where
  "exhaustion_json e = JObj [(''turn_id'', JStr (exhausted_turn_id e)),
     (''budget'', JStr (enum_string tool_loop_budgets (exhausted_budget e))),
     (''limit'', jint (exhausted_limit e)), (''exhausted_at'', JStr (exhausted_at e)),
     (''attribution'', attribution_json (exhausted_attribution e))]"

definition receipt_link_json :: "ConversationUsageReceiptLink \<Rightarrow> json" where
  "receipt_link_json l = JObj [(''usage_receipt_id'', JStr (usage_receipt_id l)),
     (''turn_id'', JStr (receipt_turn_id l)), (''linked_at'', JStr (linked_at l)),
     (''attribution'', attribution_json (link_attribution l))]"

fun replay_error_json :: "ConversationReplayError \<Rightarrow> json" where
  "replay_error_json (RevisionGapError c e expected received) = JObj [(''type'', JStr ''revision_gap''),
     (''conversation_id'', JStr c), (''event_id'', JStr e), (''expected_revision'', jint expected),
     (''received_revision'', jint received)]"
| "replay_error_json (StaleRevisionError c e expected received) = JObj [(''type'', JStr ''stale_revision''),
     (''conversation_id'', JStr c), (''event_id'', JStr e), (''expected_revision'', jint expected),
     (''received_revision'', jint received)]"
| "replay_error_json (IdentityMismatchError c e expected) = JObj [(''type'', JStr ''conversation_mismatch''),
     (''conversation_id'', JStr c), (''event_id'', JStr e), (''expected_conversation_id'', JStr expected)]"

definition state_json :: "ConversationState \<Rightarrow> json" where
  "state_json st = JObj [(''conversation_id'', nullable JStr (conversation_id st)),
     (''revision'', nullable jint (revision st)), (''last_event_id'', nullable JStr (last_event_id st)),
     (''processed_event_ids'', ids_json (processed_event_ids st)),
     (''processed_mutation_ids'', ids_json (processed_mutation_ids st)),
     (''messages'', JArr (map message_json (messages st))),
     (''attachments'', JArr (map attachment_record_json (attachments st))),
     (''citation_sources'', JArr (map source_json (citation_sources st))),
     (''citations'', JArr (map citation_json (state_citations st))),
     (''turns'', JArr (map turn_json (turns st))), (''active_turn_id'', nullable JStr (active_turn_id st)),
     (''tool_calls'', JArr (map tool_call_json (tool_calls st))),
     (''approval_proposals'', JArr (map proposal_json (approval_proposals st))),
     (''tool_loop_budget_exhaustions'', JArr (map exhaustion_json (tool_loop_budget_exhaustions st))),
     (''usage_receipt_links'', JArr (map receipt_link_json (usage_receipt_links st))),
     (''metadata'', state_metadata st), (''title'', nullable JStr (title st)),
     (''replay_error'', nullable replay_error_json (replay_error st))]"

end
