(* ===== verification/EventStore.thy ===== *)
theory EventStore
  imports ReducerLog StateEncoding
begin

text \<open>
  Durable event logs (src/conversation/event-store.ts): the interface of an event store
  and the in-memory reference adapter. The store indexes every event by its id and by its
  client mutation id over all conversations; a batch is appended whole or not at all.
  Cloning on the way in and out leaves the model's values unchanged.
\<close>

section \<open>Types\<close>

record StoredConversationEvent =
  cursor :: string
  event :: ConversationEvent

record AppendConversationEventsInput =
  append_conversationId :: string
  append_expectedRevision :: "int option"
  append_events :: "ConversationEvent list"

datatype AppendStatus = Appended | IdempotentAppend

record AppendConversationEventsResult =
  append_status :: AppendStatus
  append_entries :: "StoredConversationEvent list"
  append_latestRevision :: int

datatype ConversationEventReadPosition = AfterCursor string | AfterRevision int

record ReadConversationEventsInput =
  read_conversationId :: string
  read_after :: "ConversationEventReadPosition option"
  read_limit :: "jsnumber option"

record ReadConversationEventsResult =
  read_entries :: "StoredConversationEvent list"
  nextCursor :: "string option"
  read_latestRevision :: "int option"
  hasMore :: bool

record ConversationEventCheckpoint =
  checkpoint_conversationId :: string
  schemaVersion :: "int option"
  checkpoint_revision :: int
  checkpoint_state :: ConversationState

datatype CheckpointWriteStatus = Written | IdempotentWrite

record WriteConversationEventCheckpointResult =
  write_status :: CheckpointWriteStatus
  written_checkpoint :: ConversationEventCheckpoint

datatype ConversationEventStoreConflictCode =
  RevisionConflict | IdempotencyConflict | InvalidAppend | CursorNotFound | CheckpointConflict

record ConversationEventStoreConflictError =
  conflict_code :: ConversationEventStoreConflictCode
  conflict_conversationId :: string
  conflict_expectedRevision :: "int option"
  conflict_actualRevision :: "int option"
  conflict_identifier :: "string option"

datatype EventStoreError =
    Conflict ConversationEventStoreConflictError
  | InvalidEvent fault
  | LimitRangeError

record InMemoryConversation =
  entries :: "StoredConversationEvent list"
  checkpoint :: "ConversationEventCheckpoint option"

record IndexedEntry =
  indexed_conversationId :: string
  indexed_entry :: StoredConversationEvent

record InMemoryConversationEventStore =
  conversations :: "(string, InMemoryConversation) jsmap"
  eventIds :: "(string, IndexedEntry) jsmap"
  mutationIds :: "(string, IndexedEntry) jsmap"

definition empty_event_store :: InMemoryConversationEventStore where
  "empty_event_store = \<lparr>conversations = [], eventIds = [], mutationIds = []\<rparr>"

section \<open>Helpers\<close>

definition latestRevision :: "InMemoryConversation option \<Rightarrow> int option" where
  "latestRevision conv =
     (case conv of None \<Rightarrow> None
      | Some c \<Rightarrow> if entries c = [] then None else Some (event_revision (event (last (entries c)))))"

text \<open>
  \<open>encodeURIComponent\<close>: the unreserved characters stand for themselves, the others are
  the percent-escapes of their UTF-8 bytes (one byte below 128, two below 256).
\<close>

definition uri_unreserved :: "char \<Rightarrow> bool" where
  "uri_unreserved c \<longleftrightarrow> is_alnum c \<or> c \<in> set ''-_.!~*'' \<or> code c \<in> {39, 40, 41}"

definition hex_upper :: "nat \<Rightarrow> char" where
  "hex_upper n = (if n < 10 then char_of (48 + n) else char_of (55 + n))"

definition percent_byte :: "nat \<Rightarrow> string" where
  "percent_byte n = [CHR ''%'', hex_upper (n div 16), hex_upper (n mod 16)]"

definition encode_unit :: "char \<Rightarrow> string" where
  "encode_unit c = (if uri_unreserved c then [c] else concat (map percent_byte (utf8_encode (code c))))"

definition encodeURIComponent :: "string \<Rightarrow> string" where
  "encodeURIComponent s = concat (map encode_unit s)"

definition memoryCursor :: "string \<Rightarrow> int \<Rightarrow> string" where
  "memoryCursor cid r = ''memory:'' @ encodeURIComponent cid @ '':'' @ int_string r"

definition conflict ::
    "ConversationEventStoreConflictCode \<Rightarrow> AppendConversationEventsInput \<Rightarrow> int option \<Rightarrow> string option \<Rightarrow>
     EventStoreError" where
  "conflict c input actual ident = Conflict \<lparr>conflict_code = c,
     conflict_conversationId = append_conversationId input,
     conflict_expectedRevision = append_expectedRevision input,
     conflict_actualRevision = actual, conflict_identifier = ident\<rparr>"

definition idempotencyConflict :: "ConversationEvent \<Rightarrow> string option \<Rightarrow> EventStoreError" where
  "idempotencyConflict ev ident = Conflict \<lparr>conflict_code = IdempotencyConflict,
     conflict_conversationId = event_conversation_id ev, conflict_expectedRevision = None,
     conflict_actualRevision = None, conflict_identifier = ident\<rparr>"

definition checkpointConflict :: "ConversationEventCheckpoint \<Rightarrow> int option \<Rightarrow> EventStoreError" where
  "checkpointConflict cp actual = Conflict \<lparr>conflict_code = CheckpointConflict,
     conflict_conversationId = checkpoint_conversationId cp,
     conflict_expectedRevision = Some (checkpoint_revision cp),
     conflict_actualRevision = actual, conflict_identifier = None\<rparr>"

text \<open>\<open>jsonEqual\<close> on optional fields: two absent fields are equal.\<close>

definition jsonEqual_field :: "json option \<Rightarrow> json option \<Rightarrow> bool" where
  "jsonEqual_field a b \<longleftrightarrow>
     (case (a, b) of (None, None) \<Rightarrow> True | (Some x, Some y) \<Rightarrow> jsonEqual x y | _ \<Rightarrow> False)"

definition sameClientMutation :: "ConversationEvent \<Rightarrow> ConversationEvent \<Rightarrow> bool" where
  "sameClientMutation stored requested \<longleftrightarrow>
     mutation_id stored \<noteq> None \<and> mutation_id requested \<noteq> None \<and>
     mutation_id stored = mutation_id requested \<and>
     event_conversation_id stored = event_conversation_id requested \<and>
     jsonEqual (actor_json (actor stored)) (actor_json (actor requested)) \<and>
     jsonEqual (source_event_json (event_source stored)) (source_event_json (event_source requested)) \<and>
     jsonEqual_field (event_metadata stored) (event_metadata requested) \<and>
     jsonEqual (payload_json (payload stored)) (payload_json (payload requested))"

definition appendResult ::
    "AppendStatus \<Rightarrow> StoredConversationEvent list \<Rightarrow> int \<Rightarrow> AppendConversationEventsResult" where
  "appendResult status es latest =
     \<lparr>append_status = status, append_entries = es, append_latestRevision = latest\<rparr>"

section \<open>Append\<close>

text \<open>The \<open>forEach\<close> of \<open>validateAppend\<close>, with the two sets of the batch.\<close>

fun validate_batch ::
    "host \<Rightarrow> AppendConversationEventsInput \<Rightarrow> int option \<Rightarrow> int \<Rightarrow> string list \<Rightarrow> string list \<Rightarrow>
     ConversationEvent list \<Rightarrow> EventStoreError + unit" where
  "validate_batch H input current required batchEventIds batchMutationIds [] = Inr ()"
| "validate_batch H input current required batchEventIds batchMutationIds (ev # evs) =
     (case parseConversationEvent H (event_json ev) of
        Inl e \<Rightarrow> Inl (InvalidEvent e)
      | Inr _ \<Rightarrow>
          if event_conversation_id ev \<noteq> append_conversationId input
          then Inl (conflict InvalidAppend input current (Some (event_conversation_id ev)))
          else if event_revision ev \<noteq> required
          then Inl (conflict InvalidAppend input current (Some (event_id ev)))
          else if event_id ev \<in> set batchEventIds
          then Inl (conflict InvalidAppend input current (Some (event_id ev)))
          else (case mutation_id ev of
             None \<Rightarrow> validate_batch H input current (required + 1)
                       (event_id ev # batchEventIds) batchMutationIds evs
           | Some m \<Rightarrow>
               if m \<in> set batchMutationIds
               then Inl (conflict InvalidAppend input current (Some m))
               else validate_batch H input current (required + 1)
                      (event_id ev # batchEventIds) (m # batchMutationIds) evs))"

definition revision_or_zero :: "int option \<Rightarrow> int" where
  "revision_or_zero r = (case r of None \<Rightarrow> 0 | Some n \<Rightarrow> n)"

definition validateAppend ::
    "host \<Rightarrow> AppendConversationEventsInput \<Rightarrow> int option \<Rightarrow> EventStoreError + unit" where
  "validateAppend H input current =
     (if append_events input = [] then Inl (conflict InvalidAppend input current None)
      else validate_batch H input current (revision_or_zero (append_expectedRevision input) + 1) [] []
             (append_events input))"

text \<open>
  The entries compared by reference are equal exactly when they are the same entry: the
  cursor of an entry is its conversation and revision.
\<close>

definition findIdempotentMatch ::
    "InMemoryConversationEventStore \<Rightarrow> ConversationEvent \<Rightarrow> EventStoreError + IndexedEntry option" where
  "findIdempotentMatch S ev =
     (let eventMatch = map_get (eventIds S) (event_id ev);
          mutationMatch = (case mutation_id ev of None \<Rightarrow> None | Some m \<Rightarrow> map_get (mutationIds S) m)
      in if (case (eventMatch, mutationMatch) of
               (Some a, Some b) \<Rightarrow> indexed_entry a \<noteq> indexed_entry b | _ \<Rightarrow> False)
         then Inl (idempotencyConflict ev (Some (event_id ev)))
         else if (case eventMatch of None \<Rightarrow> False
                  | Some a \<Rightarrow> \<not> jsonEqual (event_json (event (indexed_entry a))) (event_json ev))
         then Inl (idempotencyConflict ev (Some (event_id ev)))
         else if (case mutationMatch of None \<Rightarrow> False
                  | Some b \<Rightarrow> \<not> sameClientMutation (event (indexed_entry b)) ev)
         then Inl (idempotencyConflict ev (mutation_id ev))
         else Inr (case eventMatch of Some a \<Rightarrow> Some a | None \<Rightarrow> mutationMatch))"

fun validateCompleteRetry ::
    "AppendConversationEventsInput \<Rightarrow> int option \<Rightarrow> int \<Rightarrow> (IndexedEntry \<times> ConversationEvent) list \<Rightarrow>
     EventStoreError + unit" where
  "validateCompleteRetry input current expected [] = Inr ()"
| "validateCompleteRetry input current expected ((match, ev) # rest) =
     (if indexed_conversationId match \<noteq> append_conversationId input \<or>
         event_revision (event (indexed_entry match)) \<noteq> expected
      then Inl (conflict IdempotencyConflict input current (Some (event_id ev)))
      else validateCompleteRetry input current (expected + 1) rest)"

text \<open>The loop over the stored entries: push, and index by event and mutation id.\<close>

definition index_entry ::
    "string \<Rightarrow> StoredConversationEvent \<Rightarrow> InMemoryConversationEventStore \<Rightarrow> InMemoryConversationEventStore" where
  "index_entry cid e S =
     (let ix = \<lparr>indexed_conversationId = cid, indexed_entry = e\<rparr> in
      S\<lparr>eventIds := map_set (event_id (event e)) ix (eventIds S),
        mutationIds := (case mutation_id (event e) of None \<Rightarrow> mutationIds S
                        | Some m \<Rightarrow> map_set m ix (mutationIds S))\<rparr>)"

definition store_entries ::
    "string \<Rightarrow> StoredConversationEvent list \<Rightarrow> InMemoryConversationEventStore \<Rightarrow> InMemoryConversationEventStore" where
  "store_entries cid es S =
     (let conversation = (case map_get (conversations S) cid of
            Some c \<Rightarrow> c | None \<Rightarrow> \<lparr>entries = [], checkpoint = None\<rparr>);
          S' = fold (index_entry cid) es S
      in S'\<lparr>conversations := map_set cid (conversation\<lparr>entries := entries conversation @ es\<rparr>) (conversations S')\<rparr>)"

definition append_batch ::
    "host \<Rightarrow> AppendConversationEventsInput \<Rightarrow> InMemoryConversationEventStore \<Rightarrow>
     EventStoreError + InMemoryConversationEventStore \<times> AppendConversationEventsResult" where
  "append_batch H input S =
     (let current = map_get (conversations S) (append_conversationId input);
          currentRevision = latestRevision current
      in bind_result (validateAppend H input currentRevision) (\<lambda>_.
         bind_result (map_result (findIdempotentMatch S) (append_events input)) (\<lambda>matches.
           let found = List.map_filter (\<lambda>m. m) matches in
           if found \<noteq> [] then
             (if length found \<noteq> length (append_events input)
              then Inl (conflict IdempotencyConflict input currentRevision None)
              else bind_result (validateCompleteRetry input currentRevision
                     (revision_or_zero (append_expectedRevision input) + 1)
                     (zip found (append_events input))) (\<lambda>_.
                   Inr (S, appendResult IdempotentAppend (map indexed_entry found)
                          (the currentRevision))))
           else if append_expectedRevision input \<noteq> currentRevision
           then Inl (conflict RevisionConflict input currentRevision None)
           else (let storedEntries = map (\<lambda>ev. \<lparr>cursor = memoryCursor (append_conversationId input)
                        (event_revision ev), event = ev\<rparr>) (append_events input)
                 in Inr (store_entries (append_conversationId input) storedEntries S,
                         appendResult Appended storedEntries
                           (event_revision (event (last storedEntries))))))))"

section \<open>Read\<close>

definition positive_limit :: "jsnumber option \<Rightarrow> bool" where
  "positive_limit l \<longleftrightarrow>
     (case l of None \<Rightarrow> True | Some n \<Rightarrow> isSafeInteger n \<and> 0 < int_of_number n)"

definition limit_nat :: "jsnumber option \<Rightarrow> nat option" where
  "limit_nat l = map_option (\<lambda>n. nat (int_of_number n)) l"

definition page_of ::
    "StoredConversationEvent list \<Rightarrow> nat \<Rightarrow> nat option \<Rightarrow> ReadConversationEventsResult" where
  "page_of all start limit =
     (let remaining = drop start all;
          selected = (case limit of None \<Rightarrow> remaining | Some n \<Rightarrow> take n remaining)
      in \<lparr>read_entries = selected,
          nextCursor = (if selected = [] then None else Some (cursor (last selected))),
          read_latestRevision = (if all = [] then None else Some (event_revision (event (last all)))),
          hasMore = (length selected < length remaining)\<rparr>)"

definition read_log ::
    "ReadConversationEventsInput \<Rightarrow> InMemoryConversationEventStore \<Rightarrow>
     EventStoreError + ReadConversationEventsResult" where
  "read_log input S =
     (if \<not> positive_limit (read_limit input) then Inl LimitRangeError
      else (let conversation = map_get (conversations S) (read_conversationId input);
                allEntries = (case conversation of None \<Rightarrow> [] | Some c \<Rightarrow> entries c)
            in case read_after input of
                 Some (AfterCursor k) \<Rightarrow>
                   (case find_index (\<lambda>e. cursor e = k) allEntries of
                      None \<Rightarrow> Inl (Conflict \<lparr>conflict_code = CursorNotFound,
                        conflict_conversationId = read_conversationId input,
                        conflict_expectedRevision = None,
                        conflict_actualRevision = latestRevision conversation,
                        conflict_identifier = Some k\<rparr>)
                    | Some i \<Rightarrow> Inr (page_of allEntries (i + 1) (limit_nat (read_limit input))))
               | Some (AfterRevision r) \<Rightarrow>
                   Inr (page_of allEntries
                     (case find_index (\<lambda>e. event_revision (event e) > r) allEntries of
                        Some i \<Rightarrow> i | None \<Rightarrow> length allEntries) (limit_nat (read_limit input)))
               | None \<Rightarrow> Inr (page_of allEntries 0 (limit_nat (read_limit input)))))"

definition getLatestRevision :: "string \<Rightarrow> InMemoryConversationEventStore \<Rightarrow> int option" where
  "getLatestRevision cid S = latestRevision (map_get (conversations S) cid)"

section \<open>Checkpoints\<close>

definition readCheckpoint ::
    "string \<Rightarrow> InMemoryConversationEventStore \<Rightarrow> ConversationEventCheckpoint option" where
  "readCheckpoint cid S =
     (case map_get (conversations S) cid of None \<Rightarrow> None | Some c \<Rightarrow> checkpoint c)"

definition writeCheckpoint ::
    "ConversationEventCheckpoint \<Rightarrow> InMemoryConversationEventStore \<Rightarrow>
     EventStoreError + InMemoryConversationEventStore \<times> WriteConversationEventCheckpointResult" where
  "writeCheckpoint cp S =
     (let cid = checkpoint_conversationId cp;
          actualRevision = latestRevision (map_get (conversations S) cid);
          write = (\<lambda>conversation. Inr (S\<lparr>conversations :=
              map_set cid (conversation\<lparr>checkpoint := Some cp\<rparr>) (conversations S)\<rparr>,
              \<lparr>write_status = Written, written_checkpoint = cp\<rparr>))
      in case (map_get (conversations S) cid, actualRevision) of
           (Some conversation, Some actual) \<Rightarrow>
             if checkpoint_revision cp > actual \<or> checkpoint_revision cp < 1 \<or>
                \<not> safe_int (checkpoint_revision cp)
             then Inl (checkpointConflict cp actualRevision)
             else (case checkpoint conversation of
                None \<Rightarrow> write conversation
              | Some current \<Rightarrow>
                  if checkpoint_revision cp < checkpoint_revision current
                  then Inl (checkpointConflict cp (Some (checkpoint_revision current)))
                  else if checkpoint_revision cp = checkpoint_revision current then
                    (if \<not> jsonEqual (state_json (checkpoint_state cp)) (state_json (checkpoint_state current))
                     then Inl (checkpointConflict cp (Some (checkpoint_revision current)))
                     else if schemaVersion cp = schemaVersion current
                     then Inr (S, \<lparr>write_status = IdempotentWrite, written_checkpoint = current\<rparr>)
                     else write conversation)
                  else write conversation)
         | _ \<Rightarrow> Inl (checkpointConflict cp actualRevision))"

end
