(* ===== verification/EventRoundTrip.thy ===== *)
theory EventRoundTrip
  imports EventEncoding
begin

text \<open>The strict parser, applied to an encoded event, returns that event or rejects it.\<close>

lemma payload_messages_inverse:
  "validatePayload H (Some (payload_json (MessageCreated mid r c))) path = Inr q \<Longrightarrow> q = MessageCreated mid r c"
  "validatePayload H (Some (payload_json (MessageTextAppended tid mid chunk))) path = Inr q \<Longrightarrow>
   q = MessageTextAppended tid mid chunk"
  "validatePayload H (Some (payload_json (MessageAttachmentReferenced mid a))) path = Inr q \<Longrightarrow>
   q = MessageAttachmentReferenced mid a"
  by (auto simp: validatePayload_type decode_simps parse_message_created_def parse_text_appended_def
      parse_attachment_referenced_def split: if_splits dest!: read_back text_parts_inverse)

lemma payload_turns_inverse:
  "validatePayload H (Some (payload_json (TurnStarted tid ids c))) path = Inr q \<Longrightarrow> q = TurnStarted tid ids c"
  "validatePayload H (Some (payload_json (TurnStatusChanged tid s))) path = Inr q \<Longrightarrow> q = TurnStatusChanged tid s"
  "validatePayload H (Some (payload_json (TurnCompleted tid oc ids))) path = Inr q \<Longrightarrow> q = TurnCompleted tid oc ids"
  "validatePayload H (Some (payload_json (TurnFailed tid e))) path = Inr q \<Longrightarrow> q = TurnFailed tid e"
  "validatePayload H (Some (payload_json (TurnCancelled tid cr))) path = Inr q \<Longrightarrow> q = TurnCancelled tid cr"
  "validatePayload H (Some (payload_json (TurnCancellationRequested tid cr))) path = Inr q \<Longrightarrow>
   q = TurnCancellationRequested tid cr"
  "validatePayload H (Some (payload_json (TurnCancellationUnsupported tid cr))) path = Inr q \<Longrightarrow>
   q = TurnCancellationUnsupported tid cr"
  by (auto simp: validatePayload_type decode_simps parse_turn_started_def parse_status_changed_def
      parse_turn_completed_def parse_turn_failed_def parse_cancellation_def optional_field_Inr
      split: option.splits dest!: read_back)

lemma payload_retries_inverse:
  "validatePayload H (Some (payload_json (TurnAttemptStarted tid n op))) path = Inr q \<Longrightarrow>
   q = TurnAttemptStarted tid n op"
  "validatePayload H (Some (payload_json (TurnRetryScheduled tid n cat delay))) path = Inr q \<Longrightarrow>
   q = TurnRetryScheduled tid n cat delay"
  "validatePayload H (Some (payload_json (TurnRetryExhausted tid n cat why))) path = Inr q \<Longrightarrow>
   q = TurnRetryExhausted tid n cat why"
  by (auto simp: validatePayload_type decode_simps parse_attempt_started_def parse_retry_scheduled_def
      parse_retry_exhausted_def positiveSafeInteger_def nonnegativeSafeInteger_def dest!: read_back)

lemma payload_tools_inverse:
  "validatePayload H (Some (payload_json (ToolCallRequested tid tcid name args))) path = Inr q \<Longrightarrow>
   q = ToolCallRequested tid tcid name args"
  "validatePayload H (Some (payload_json (ToolCallDiscovered tid tcid))) path = Inr q \<Longrightarrow>
   q = ToolCallDiscovered tid tcid"
  "validatePayload H (Some (payload_json (ToolCallStarted tid tcid))) path = Inr q \<Longrightarrow>
   q = ToolCallStarted tid tcid"
  "validatePayload H (Some (payload_json (ToolCallApprovalRequired tid tcid))) path = Inr q \<Longrightarrow>
   q = ToolCallApprovalRequired tid tcid"
  "validatePayload H (Some (payload_json (ToolCallResultRecorded tid tcid parts err records))) path = Inr q \<Longrightarrow>
   q = ToolCallResultRecorded tid tcid parts err records"
  by (auto simp: validatePayload_type decode_simps parse_call_requested_def parse_call_marked_def
      parse_result_recorded_def event_record_def booleanValue_def optional_field_Inr
      split: option.splits json.splits dest!: read_back result_parts_inverse)

lemma payload_rest_inverse:
  "validatePayload H (Some (payload_json (ToolLoopBudgetExhausted tid b n))) path = Inr q \<Longrightarrow>
   q = ToolLoopBudgetExhausted tid b n"
  "validatePayload H (Some (payload_json (UsageReceiptLinked tid rid))) path = Inr q \<Longrightarrow>
   q = UsageReceiptLinked tid rid"
  "validatePayload H (Some (payload_json (ConversationMetadataUpdated m))) path = Inr q \<Longrightarrow>
   q = ConversationMetadataUpdated m"
  "validatePayload H (Some (payload_json (ConversationTitleUpdated t))) path = Inr q \<Longrightarrow>
   q = ConversationTitleUpdated t"
  by (auto simp: validatePayload_type decode_simps parse_budget_exhausted_def parse_receipt_linked_def
      parse_metadata_updated_def parse_title_updated_def positiveSafeInteger_def
      split: option.splits if_splits dest!: read_back)

lemma payload_created_inverse:
  assumes "validatePayload H (Some (payload_json (ApprovalProposalCreated p))) path = Inr q"
  shows "q = ApprovalProposalCreated p"
proof -
  from assms obtain pid gid tid tcid name expires args where
    "event_identifier (Some (JStr (created_proposal_id p))) (path @ ''.proposal_id'') = Inr pid"
    "event_identifier (Some (JStr (created_turn_id p))) (path @ ''.turn_id'') = Inr tid"
    "event_identifier (Some (JStr (created_tool_call_id p))) (path @ ''.tool_call_id'') = Inr tcid"
    "event_identifier (Some (JStr (created_tool_name p))) (path @ ''.tool_name'') = Inr name"
    "validateTimestamp (Some (JStr (created_expires_at p))) (path @ ''.expires_at'') = Inr expires"
    "validateApprovalReviewedArguments H (Some (reviewed_json (created_reviewed_arguments p)))
       (path @ ''.reviewed_arguments'') = Inr args"
    and gid: "case created_group_id p of None \<Rightarrow> gid = None
      | Some x \<Rightarrow> \<exists>y. gid = Some y \<and> event_identifier (Some (JStr x)) (path @ ''.group_id'') = Inr y"
    and q: "q = ApprovalProposalCreated \<lparr>created_proposal_id = pid, created_group_id = gid,
         created_turn_id = tid, created_tool_call_id = tcid, created_tool_name = name,
         created_expires_at = expires, created_reviewed_arguments = args\<rparr>"
    by (cases "created_group_id p")
      (simp_all add: validatePayload_type decode_simps parse_proposal_created_def optional_field_def,
       blast+)
  then have "pid = created_proposal_id p" "tid = created_turn_id p" "tcid = created_tool_call_id p"
    "name = created_tool_name p" "expires = created_expires_at p" "args = created_reviewed_arguments p"
    by (auto dest: read_back)
  moreover have "gid = created_group_id p"
    using gid by (auto split: option.splits dest!: read_back)
  ultimately show ?thesis by (simp add: q)
qed

lemma decision_inverse:
  "optional_field validateApprovalReason ((k1, v1) # (k2, v2) # (k3, v3) # (k4, v4) #
     opt_field ''decision_reason'' JStr r) ''decision_reason'' path = Inr r' \<Longrightarrow>
   ''decision_reason'' \<notin> {k1, k2, k3, k4} \<Longrightarrow> r' = r"
  by (cases r) (auto simp: optional_field_def dest!: read_back)

lemma payload_changed_inverse:
  assumes "validatePayload H (Some (payload_json (ApprovalProposalStatusChanged pid version change))) path = Inr q"
  shows "q = ApprovalProposalStatusChanged pid version change"
proof -
  note simps = validatePayload_type decode_simps parse_proposal_changed_def positiveSafeInteger_def
    enumValue_def transition_statuses_def
  show ?thesis
  proof (cases change)
    case (ChangeConfirmed r)
    with assms show ?thesis by (simp add: simps) (auto dest!: decision_inverse read_back)
  next
    case (ChangeRejected r)
    with assms show ?thesis by (simp add: simps) (auto dest!: decision_inverse read_back)
  next
    case (ChangeExpired r)
    with assms show ?thesis by (simp add: simps) (auto dest!: decision_inverse read_back)
  next
    case ChangeExecuting
    with assms show ?thesis by (simp add: simps) (auto dest!: read_back)
  next
    case ChangeExecuted
    with assms show ?thesis by (simp add: simps) (auto dest!: read_back)
  next
    case (ChangeFailed r)
    with assms show ?thesis by (simp add: simps) (auto dest!: read_back)
  qed
qed

lemma payload_citations_inverse:
  assumes "validatePayload H (Some (payload_json (CitationRecordsLinked target ss cs))) path = Inr q"
  shows "q = CitationRecordsLinked target ss cs"
proof -
  from assms obtain tgt ss' cs' where
    "parse_citation_target (Some (citation_target_json target)) (path @ ''.target'') = Inr tgt"
    and eqs: "list_all2 jsonValuesEqual (map source_json ss') (map source_json ss)"
      "list_all2 jsonValuesEqual (map citation_json cs') (map citation_json cs)"
    and q: "q = CitationRecordsLinked tgt ss' cs'"
    by (auto simp: validatePayload_type decode_simps parse_citation_records_def split: if_splits)
  moreover from this(1) have "tgt = target" by (rule parse_citation_target_inverse)
  moreover have "ss' = ss" "cs' = cs"
    using eqs by (auto intro: list_all2_json_equal source_json_equal citation_json_equal)
  ultimately show ?thesis by simp
qed

lemma validatePayload_inverse:
  assumes "validatePayload H (Some (payload_json p)) path = Inr q"
  shows "q = p"
  using assms
  by (cases p; simp only:)
    (erule payload_messages_inverse payload_turns_inverse payload_retries_inverse payload_tools_inverse
      payload_rest_inverse payload_created_inverse payload_changed_inverse payload_citations_inverse)+

lemma parseConversationEvent_inverse:
  assumes "parseConversationEvent H (event_json ev) = Inr ev'"
  shows "ev' = ev"
proof -
  from assms obtain eid cid rev time a s mid m p where
    "event_identifier (Some (JStr (event_id ev))) ''$event.event_id'' = Inr eid"
    "event_identifier (Some (JStr (event_conversation_id ev))) ''$event.conversation_id'' = Inr cid"
    "validateRevision (Some (jint (event_revision ev))) ''$event.revision'' = Inr rev"
    "validateTimestamp (Some (JStr (occurred_at ev))) ''$event.occurred_at'' = Inr time"
    "validateActor (Some (actor_json (actor ev))) ''$event.actor'' = Inr a"
    "validateSource (Some (source_event_json (event_source ev))) ''$event.source'' = Inr s"
    and mid: "case mutation_id ev of None \<Rightarrow> mid = None
      | Some x \<Rightarrow> \<exists>y. mid = Some y \<and> event_identifier (Some (JStr x)) ''$event.mutation_id'' = Inr y"
    and m: "case event_metadata ev of None \<Rightarrow> m = None
      | Some x \<Rightarrow> \<exists>y. m = Some y \<and> validateMetadata H (Some x) ''$event.metadata'' = Inr y"
    and "validatePayload H (Some (payload_json (payload ev))) ''$event.payload'' = Inr p"
    and ev': "ev' = \<lparr>event_id = eid, event_conversation_id = cid, event_revision = rev,
            occurred_at = time, actor = a, event_source = s, mutation_id = mid,
            event_metadata = m, payload = p\<rparr>"
    unfolding parseConversationEvent_def event_json_def event_record_def bind_result_Inr_iff Let_def
    by (auto simp: optional_field_Inr split: option.splits)
  then have "eid = event_id ev" "cid = event_conversation_id ev" "rev = event_revision ev"
    "time = occurred_at ev" "a = actor ev" "s = event_source ev" "p = payload ev"
    by (auto simp: validateRevision_def dest: read_back validateActor_inverse validateSource_inverse
        validatePayload_inverse)
  moreover have "mid = mutation_id ev" "m = event_metadata ev"
    using mid m by (auto split: option.splits dest!: read_back)
  ultimately show ?thesis by (simp add: ev')
qed

end
