(* ===== verification/EventStoreInterface.thy ===== *)
theory EventStoreInterface
  imports EventStore EventRoundTrip
begin

text \<open>
  The persistence boundary of the conversation engine (the interfaces
  \<open>ConversationEventStore\<close> and \<open>ConversationEventCheckpointStore\<close> of
  src/conversation/event-store.ts) as a record of operations, and its contract as
  locales: what a client (replay, synchronization) may rely on whatever the adapter.
\<close>

section \<open>Logs\<close>

lemma log_from_nth: "log_from c r evs \<Longrightarrow> i < length evs \<Longrightarrow> event_revision (evs ! i) = r + int i"
proof (induction evs arbitrary: r i)
  case (Cons ev evs)
  then show ?case by (cases i) (auto simp: algebra_simps)
qed simp

lemma log_from_conversation: "log_from c r evs \<Longrightarrow> ev \<in> set evs \<Longrightarrow> event_conversation_id ev = c"
  by (induction evs arbitrary: r) auto

lemma log_from_distinct: "log_from c r evs \<Longrightarrow> distinct (map event_revision evs)"
  by (auto simp: distinct_conv_nth log_from_nth)

lemma log_from_last:
  "log_from c 1 evs \<Longrightarrow> evs \<noteq> [] \<Longrightarrow> event_revision (last evs) = int (length evs)"
  by (cases evs rule: rev_cases) (auto simp: log_from_append)

text \<open>An event the boundary validates as itself.\<close>

definition accepted_event :: "host \<Rightarrow> ConversationEvent \<Rightarrow> bool" where
  "accepted_event H ev \<longleftrightarrow> parseConversationEvent H (event_json ev) = Inr ev"

lemma accepted_event_parse: "accepted_event H ev \<longleftrightarrow> (\<exists>x. parseConversationEvent H (event_json ev) = Inr x)"
  using parseConversationEvent_inverse unfolding accepted_event_def by metis

lemma accepted_validated: "accepted_event H ev \<Longrightarrow> validated_event H ev"
  using parseConversationEvent_valid unfolding accepted_event_def valid_event_def by blast

lemma distinct_mutation_ids_take:
  assumes "distinct (mutation_ids evs)"
  shows "distinct (mutation_ids (take n evs))"
proof -
  have "mutation_ids evs = mutation_ids (take n evs) @ mutation_ids (drop n evs)"
    by (simp flip: mutation_ids_simps(3))
  with assms show ?thesis by simp
qed

section \<open>The operations\<close>

record 's ConversationEventCheckpointStore =
  checkpoint_read :: "string \<Rightarrow> 's \<Rightarrow> ConversationEventCheckpoint option"
  checkpoint_write :: "ConversationEventCheckpoint \<Rightarrow> 's \<Rightarrow>
    EventStoreError + 's \<times> WriteConversationEventCheckpointResult"

record 's ConversationEventStore =
  checkpoints :: "'s ConversationEventCheckpointStore option"
  store_append :: "AppendConversationEventsInput \<Rightarrow> 's \<Rightarrow>
    EventStoreError + 's \<times> AppendConversationEventsResult"
  store_read :: "ReadConversationEventsInput \<Rightarrow> 's \<Rightarrow> EventStoreError + ReadConversationEventsResult"
  store_latest :: "string \<Rightarrow> 's \<Rightarrow> int option"

section \<open>The contract\<close>

text \<open>
  A reader sees, for every conversation, one log: validated events at the revisions 1, 2,
  ..., with distinct identities, each behind its own cursor; a page is a slice of it.
\<close>

locale event_reader =
  fixes H :: host
    and store_ok :: "'s \<Rightarrow> bool"
    and stored :: "'s \<Rightarrow> string \<Rightarrow> StoredConversationEvent list"
    and adapter :: "'s ConversationEventStore"
  assumes stored_log: "store_ok s \<Longrightarrow> log_from c 1 (map event (stored s c))"
    and stored_accepted: "store_ok s \<Longrightarrow> e \<in> set (stored s c) \<Longrightarrow> accepted_event H (event e)"
    and stored_event_ids: "store_ok s \<Longrightarrow> distinct (map event_id (map event (stored s c)))"
    and stored_mutation_ids: "store_ok s \<Longrightarrow> distinct (mutation_ids (map event (stored s c)))"
    and stored_cursors: "store_ok s \<Longrightarrow> distinct (map cursor (stored s c))"
    and latest_law: "store_ok s \<Longrightarrow> store_latest adapter c s =
      (if stored s c = [] then None else Some (int (length (stored s c))))"
    and read_start: "store_ok s \<Longrightarrow> positive_limit l \<Longrightarrow>
      store_read adapter \<lparr>read_conversationId = c, read_after = None, read_limit = l\<rparr> s =
        Inr (page_of (stored s c) 0 (limit_nat l))"
    and read_cursor: "store_ok s \<Longrightarrow> positive_limit l \<Longrightarrow> i < length (stored s c) \<Longrightarrow>
      store_read adapter \<lparr>read_conversationId = c,
        read_after = Some (AfterCursor (cursor (stored s c ! i))), read_limit = l\<rparr> s =
        Inr (page_of (stored s c) (Suc i) (limit_nat l))"
    and read_revision: "store_ok s \<Longrightarrow> positive_limit l \<Longrightarrow> 0 \<le> r \<Longrightarrow>
      store_read adapter \<lparr>read_conversationId = c, read_after = Some (AfterRevision r), read_limit = l\<rparr> s =
        Inr (page_of (stored s c) (nat r) (limit_nat l))"
begin

abbreviation log :: "'s \<Rightarrow> string \<Rightarrow> ConversationEvent list" where
  "log s c \<equiv> map event (stored s c)"

lemma log_validated: "store_ok s \<Longrightarrow> \<forall>ev\<in>set (log s c). validated_event H ev"
  using stored_accepted accepted_validated by auto

text \<open>The fold of a stored log never fails and accepts every event.\<close>

lemma fold_log:
  assumes "store_ok s"
  shows "\<exists>st. reduceEvents H (createInitialConversationState (Some c)) (take n (log s c)) = Inr st \<and>
    state_inv st \<and> processed_event_ids st = map event_id (take n (log s c)) \<and>
    processed_mutation_ids st = mutation_ids (take n (log s c)) \<and>
    expected_revision st = 1 + int (length (take n (log s c))) \<and>
    conversation_id st = Some c \<and> replay_error st = None"
proof -
  let ?s0 = "createInitialConversationState (Some c)" and ?evs = "take n (log s c)"
  have "log_from c 1 ?evs"
    using stored_log [OF assms, of c] by (metis append_take_drop_id log_from_append)
  moreover have "distinct (map event_id ?evs)"
    using distinct_take [OF stored_event_ids [OF assms], of n c] by (simp add: take_map)
  moreover have "distinct (mutation_ids ?evs)"
    by (rule distinct_mutation_ids_take [OF stored_mutation_ids [OF assms]])
  moreover have "\<forall>ev\<in>set ?evs. validated_event H ev"
    using log_validated [OF assms] by (meson in_set_takeD)
  moreover have "expected_revision ?s0 = 1" "conversation_id ?s0 = Some c" "replay_error ?s0 = None"
    "processed_event_ids ?s0 = []" "processed_mutation_ids ?s0 = []"
    by (simp_all add: createInitialConversationState_def expected_revision_def)
  ultimately show ?thesis
    using reduceEvents_continues [OF initial_state_inv, of ?evs H c "Some c"] by (simp split: if_splits)
qed

end

locale event_writer = event_reader +
  assumes append_law: "store_ok s \<Longrightarrow> store_append adapter input s = Inr (s', res) \<Longrightarrow>
      store_ok s' \<and>
      (if append_status res = Appended
       then append_expectedRevision input = store_latest adapter (append_conversationId input) s \<and>
         map event (append_entries res) = append_events input \<and>
         stored s' = (stored s)(append_conversationId input :=
           stored s (append_conversationId input) @ append_entries res)
       else stored s' = stored s \<and> set (append_entries res) \<subseteq> set (stored s (append_conversationId input)) \<and>
         list_all2 (\<lambda>e ev. event_revision (event e) = event_revision ev \<and>
             (jsonEqual (event_json (event e)) (event_json ev) \<or> sameClientMutation (event e) ev))
           (append_entries res) (append_events input))"

text \<open>
  A writer that appends one event at a time and retries: an append is refused only because
  the revision has moved on or because the event's identity is taken, and an event already
  logged at another revision is recognized as such.
\<close>

definition identity_taken :: "(string \<Rightarrow> StoredConversationEvent list) \<Rightarrow> ConversationEvent \<Rightarrow> bool" where
  "identity_taken stored ev \<longleftrightarrow>
     (\<exists>c e. e \<in> set (stored c) \<and>
        (event_id (event e) = event_id ev \<or> mutation_id ev \<noteq> None \<and> mutation_id (event e) = mutation_id ev))"

locale retrying_writer = event_writer +
  assumes single_append: "store_ok s \<Longrightarrow> accepted_event H ev \<Longrightarrow> event_conversation_id ev = c \<Longrightarrow>
      event_revision ev = revision_or_zero r + 1 \<Longrightarrow>
      (case store_append adapter \<lparr>append_conversationId = c, append_expectedRevision = r, append_events = [ev]\<rparr> s of
         Inr _ \<Rightarrow> True
       | Inl (Conflict d) \<Rightarrow>
           conflict_code d = RevisionConflict \<and> r \<noteq> store_latest adapter c s \<or>
           conflict_code d = IdempotencyConflict \<and> identity_taken (stored s) ev
       | Inl _ \<Rightarrow> False)"
    and known_event: "store_ok s \<Longrightarrow> accepted_event H ev \<Longrightarrow> event_conversation_id ev = c \<Longrightarrow>
      event_revision ev = revision_or_zero r + 1 \<Longrightarrow> e \<in> set (stored s c) \<Longrightarrow>
      event_id (event e) = event_id ev \<Longrightarrow> event_revision (event e) \<noteq> event_revision ev \<Longrightarrow>
      \<exists>d. store_append adapter \<lparr>append_conversationId = c, append_expectedRevision = r, append_events = [ev]\<rparr> s =
        Inl (Conflict d) \<and> conflict_code d = IdempotencyConflict"

text \<open>
  A checkpoint store keeps one checkpoint per conversation, the last one written; writing
  one leaves the logs alone.
\<close>

locale checkpointed_store = event_writer H store_ok stored adapter
  for H store_ok stored and adapter :: "'s ConversationEventStore" +
  fixes cps :: "'s ConversationEventCheckpointStore"
  assumes checkpoints_law: "checkpoints adapter = Some cps"
    and write_law: "store_ok s \<Longrightarrow> checkpoint_write cps cp s = Inr (s', res) \<Longrightarrow>
      store_ok s' \<and> stored s' = stored s \<and>
      (write_status res = Written \<longrightarrow> written_checkpoint res = cp) \<and>
      (write_status res = IdempotentWrite \<longrightarrow>
        checkpoint_read cps (checkpoint_conversationId cp) s = Some (written_checkpoint res)) \<and>
      (\<forall>c. checkpoint_read cps c s' =
        (if c = checkpoint_conversationId cp then Some (written_checkpoint res) else checkpoint_read cps c s))"
    and append_keeps_checkpoints: "store_ok s \<Longrightarrow> store_append adapter input s = Inr (s', r) \<Longrightarrow>
      checkpoint_read cps c s' = checkpoint_read cps c s"

end
