(* ===== verification/EventStoreInvariants.thy ===== *)
theory EventStoreInvariants
  imports EventStoreInterface
begin

text \<open>
  What the in-memory store promises: every conversation's entries are its log, at the
  revisions 1, 2, ..., each behind its own cursor; both indexes name exactly the stored
  entries; an append extends one log by the whole batch or changes nothing.
\<close>

section \<open>Decimal numerals are injective\<close>

lemma code_char_of: "n < 256 \<Longrightarrow> code (char_of n) = n"
  by (simp add: code_def)

lemma decimal_value_append: "decimal_value (s @ [c]) = decimal_value s * 10 + (code c - 48)"
  by (simp add: decimal_value_def)

lemma decimal_value_nat_digits: "decimal_value (nat_digits n) = n"
proof (induction n rule: nat_digits.induct)
  case (1 n)
  show ?case
  proof (cases "n < 10")
    case True
    then show ?thesis by (simp add: nat_digits.simps [of n] decimal_value_def code_char_of)
  next
    case False
    then show ?thesis using 1 [OF False]
      by (simp add: nat_digits.simps [of n] decimal_value_append code_char_of)
  qed
qed

lemma nat_digits_inject: "nat_digits m = nat_digits n \<longleftrightarrow> m = n"
  by (metis decimal_value_nat_digits)

lemma memoryCursor_inject: "0 \<le> r \<Longrightarrow> 0 \<le> r' \<Longrightarrow> memoryCursor c r = memoryCursor c r' \<longleftrightarrow> r = r'"
  by (auto simp: memoryCursor_def int_string_def nat_digits_inject)

section \<open>The abstraction and the invariant\<close>

definition entries_of :: "InMemoryConversationEventStore \<Rightarrow> string \<Rightarrow> StoredConversationEvent list" where
  "entries_of S c = (case map_get (conversations S) c of None \<Rightarrow> [] | Some conv \<Rightarrow> entries conv)"

abbreviation log_of :: "InMemoryConversationEventStore \<Rightarrow> string \<Rightarrow> ConversationEvent list" where
  "log_of S c \<equiv> map event (entries_of S c)"

definition indexed_by ::
    "('k \<rightharpoonup> IndexedEntry) \<Rightarrow> (ConversationEvent \<Rightarrow> 'k option) \<Rightarrow> (string \<Rightarrow> StoredConversationEvent list) \<Rightarrow> bool" where
  "indexed_by index key stored \<longleftrightarrow>
     (\<forall>c e k. e \<in> set (stored c) \<and> key (event e) = Some k \<longrightarrow>
        index k = Some \<lparr>indexed_conversationId = c, indexed_entry = e\<rparr>) \<and>
     (\<forall>k ix. index k = Some ix \<longrightarrow>
        indexed_entry ix \<in> set (stored (indexed_conversationId ix)) \<and> key (event (indexed_entry ix)) = Some k)"

definition store_inv :: "host \<Rightarrow> InMemoryConversationEventStore \<Rightarrow> bool" where
  "store_inv H S \<longleftrightarrow>
     (\<forall>c. log_from c 1 (log_of S c)) \<and>
     (\<forall>c. \<forall>e\<in>set (entries_of S c). cursor e = memoryCursor c (event_revision (event e)) \<and>
        accepted_event H (event e)) \<and>
     indexed_by (map_get (eventIds S)) (\<lambda>ev. Some (event_id ev)) (entries_of S) \<and>
     indexed_by (map_get (mutationIds S)) mutation_id (entries_of S) \<and>
     (\<forall>c cp. readCheckpoint c S = Some cp \<longrightarrow>
        checkpoint_conversationId cp = c \<and> 1 \<le> checkpoint_revision cp \<and>
        checkpoint_revision cp \<le> int (length (entries_of S c)))"

text \<open>A key names one entry over all conversations.\<close>

lemma stored_once:
  assumes "indexed_by index key stored" "e \<in> set (stored c)" "e' \<in> set (stored c')"
    "key (event e) = Some k" "key (event e') = Some k"
  shows "c' = c \<and> e' = e"
proof -
  have "index k = Some \<lparr>indexed_conversationId = c, indexed_entry = e\<rparr>"
    "index k = Some \<lparr>indexed_conversationId = c', indexed_entry = e'\<rparr>"
    using assms unfolding indexed_by_def by blast+
  then show ?thesis by simp
qed

lemma entries_of_empty [simp]: "entries_of empty_event_store c = []"
  by (simp add: entries_of_def empty_event_store_def)

lemma empty_store_inv: "store_inv H empty_event_store"
  by (simp add: store_inv_def empty_event_store_def entries_of_def indexed_by_def readCheckpoint_def)

lemma store_invD:
  assumes "store_inv H S"
  shows "log_from c 1 (log_of S c)"
    and "e \<in> set (entries_of S c) \<Longrightarrow> cursor e = memoryCursor c (event_revision (event e))"
    and "e \<in> set (entries_of S c) \<Longrightarrow> accepted_event H (event e)"
    and "indexed_by (map_get (eventIds S)) (\<lambda>ev. Some (event_id ev)) (entries_of S)"
    and "indexed_by (map_get (mutationIds S)) mutation_id (entries_of S)"
  using assms unfolding store_inv_def by blast+

lemma latestRevision_entries:
  assumes "store_inv H S"
  shows "latestRevision (map_get (conversations S) c) =
    (if entries_of S c = [] then None else Some (int (length (entries_of S c))))"
proof (cases "map_get (conversations S) c")
  case None
  then show ?thesis by (simp add: latestRevision_def entries_of_def)
next
  case (Some conv)
  then have "entries conv = entries_of S c" by (simp add: entries_of_def)
  with Some log_from_last [OF store_invD(1) [OF assms, of c]] show ?thesis
    by (auto simp: latestRevision_def last_map)
qed

text \<open>Both identifiers are unique within a log (and, by the index, over all logs).\<close>

lemma indexed_by_distinct:
  assumes index: "indexed_by index key stored" and log: "log_from c r (map event (stored c))"
    and i: "i < length (stored c)" "j < length (stored c)"
    and k: "key (event (stored c ! i)) = Some k" "key (event (stored c ! j)) = Some k"
  shows "i = j"
proof -
  have found: "index k = Some \<lparr>indexed_conversationId = c, indexed_entry = e\<rparr>"
    if "e \<in> set (stored c)" "key (event e) = Some k" for e
    using index that by (simp add: indexed_by_def)
  have "stored c ! i = stored c ! j"
    using found [OF nth_mem [OF i(1)] k(1)] found [OF nth_mem [OF i(2)] k(2)] by simp
  then have "event_revision (map event (stored c) ! i) = event_revision (map event (stored c) ! j)"
    using i by simp
  then show ?thesis using log_from_nth [OF log] i by simp
qed

lemma log_event_ids_distinct:
  assumes "store_inv H S"
  shows "distinct (map event_id (log_of S c))"
  using indexed_by_distinct [OF store_invD(4) [OF assms] store_invD(1) [OF assms], of _ c]
  by (auto simp: distinct_conv_nth)

lemma distinct_mutation_ids:
  assumes "\<And>i j m. i < length evs \<Longrightarrow> j < length evs \<Longrightarrow> mutation_id (evs ! i) = Some m \<Longrightarrow>
      mutation_id (evs ! j) = Some m \<Longrightarrow> i = j"
  shows "distinct (mutation_ids evs)"
  using assms
proof (induction evs)
  case (Cons ev evs)
  have "distinct (mutation_ids evs)"
    using Cons.prems [of "Suc _" "Suc _"] by (intro Cons.IH) auto
  moreover have "m \<notin> set (mutation_ids evs)" if m: "mutation_id ev = Some m" for m
  proof
    assume "m \<in> set (mutation_ids evs)"
    then obtain x where "x \<in> set evs" "mutation_id x = Some m"
      by (auto simp: mutation_ids_def split: option.splits)
    then obtain j where "j < length evs" "mutation_id (evs ! j) = Some m" by (auto simp: in_set_conv_nth)
    with Cons.prems [of 0 "Suc j" m] m show False by simp
  qed
  ultimately show ?case by (auto split: option.split)
qed simp

lemma log_mutation_ids_distinct:
  assumes "store_inv H S"
  shows "distinct (mutation_ids (log_of S c))"
  using indexed_by_distinct [OF store_invD(5) [OF assms] store_invD(1) [OF assms], of _ c]
  by (intro distinct_mutation_ids) auto

lemma cursors_distinct:
  assumes "store_inv H S"
  shows "distinct (map cursor (entries_of S c))"
proof -
  note log = store_invD(1) [OF assms, of c]
  have "cursor (entries_of S c ! i) = memoryCursor c (1 + int i)" if "i < length (entries_of S c)" for i
    using store_invD(2) [OF assms nth_mem [OF that]] log_from_nth [OF log, of i] that by simp
  then show ?thesis
    by (auto simp: distinct_conv_nth memoryCursor_inject)
qed

section \<open>A validated batch\<close>

lemma validate_batch_Inr:
  assumes "validate_batch H input current r eids mids evs = Inr u"
  shows "log_from (append_conversationId input) r evs" and "\<forall>ev\<in>set evs. accepted_event H ev"
    and "distinct (map event_id evs)" and "set (map event_id evs) \<inter> set eids = {}"
    and "distinct (mutation_ids evs)" and "set (mutation_ids evs) \<inter> set mids = {}"
proof -
  have "log_from (append_conversationId input) r evs \<and> (\<forall>ev\<in>set evs. accepted_event H ev) \<and>
      distinct (map event_id evs) \<and> set (map event_id evs) \<inter> set eids = {} \<and>
      distinct (mutation_ids evs) \<and> set (mutation_ids evs) \<inter> set mids = {}"
    using assms
  proof (induction H input current r eids mids evs rule: validate_batch.induct)
    case (2 H input current r eids mids ev evs)
    from 2(3) obtain x where parse: "parseConversationEvent H (event_json ev) = Inr x"
      by (auto split: sum.splits)
    then have ok: "accepted_event H ev" by (auto simp: accepted_event_parse)
    from 2(3) parse have checks: "event_conversation_id ev = append_conversationId input"
      "event_revision ev = r" "event_id ev \<notin> set eids"
      by (auto split: if_splits)
    show ?case
    proof (cases "mutation_id ev")
      case None
      with 2(1) [OF parse] 2(3) parse checks ok show ?thesis by auto
    next
      case (Some m)
      with 2(3) parse checks have fresh: "m \<notin> set mids" by (auto split: if_splits)
      with 2(2) [OF parse _ _ _ Some] 2(3) parse checks ok Some show ?thesis by auto
    qed
  qed simp
  then show "log_from (append_conversationId input) r evs" and "\<forall>ev\<in>set evs. accepted_event H ev"
    and "distinct (map event_id evs)" and "set (map event_id evs) \<inter> set eids = {}"
    and "distinct (mutation_ids evs)" and "set (mutation_ids evs) \<inter> set mids = {}" by blast+
qed

section \<open>Indexing the stored entries\<close>

lemma index_entry_simps [simp]:
  "conversations (index_entry c e S) = conversations S"
  "map_get (eventIds (index_entry c e S)) k = (if k = event_id (event e)
     then Some \<lparr>indexed_conversationId = c, indexed_entry = e\<rparr> else map_get (eventIds S) k)"
  "map_get (mutationIds (index_entry c e S)) m = (if Some m = mutation_id (event e)
     then Some \<lparr>indexed_conversationId = c, indexed_entry = e\<rparr> else map_get (mutationIds S) m)"
  by (auto simp: index_entry_def Let_def split: option.split)

lemma fold_index_conversations [simp]: "conversations (fold (index_entry c) es S) = conversations S"
  by (induction es arbitrary: S) simp_all

lemma fold_index_events:
  assumes "distinct (map event_id (map event es))"
  shows "map_get (eventIds (fold (index_entry c) es S)) k =
    (case List.find (\<lambda>e. event_id (event e) = k) es of
       Some e \<Rightarrow> Some \<lparr>indexed_conversationId = c, indexed_entry = e\<rparr> | None \<Rightarrow> map_get (eventIds S) k)"
  using assms
proof (induction es arbitrary: S)
  case (Cons e es)
  then have d: "distinct (map event_id (map event es))" by simp
  show ?case
  proof (cases "event_id (event e) = k")
    case True
    with Cons.prems have "\<forall>x\<in>set es. event_id (event x) \<noteq> k" by (auto simp: image_iff)
    then have "List.find (\<lambda>e. event_id (event e) = k) es = None" by (auto simp: find_None_iff)
    with True Cons.IH [OF d] show ?thesis by simp
  next
    case False
    with Cons.IH [OF d] show ?thesis by (auto split: option.split)
  qed
qed simp

lemma fold_index_mutations:
  assumes "distinct (mutation_ids (map event es))"
  shows "map_get (mutationIds (fold (index_entry c) es S)) m =
    (case List.find (\<lambda>e. mutation_id (event e) = Some m) es of
       Some e \<Rightarrow> Some \<lparr>indexed_conversationId = c, indexed_entry = e\<rparr> | None \<Rightarrow> map_get (mutationIds S) m)"
  using assms
proof (induction es arbitrary: S)
  case (Cons e es)
  have d: "distinct (mutation_ids (map event es))" using Cons.prems by (auto split: option.splits)
  show ?case
  proof (cases "mutation_id (event e) = Some m")
    case True
    with Cons.prems have "m \<notin> set (mutation_ids (map event es))" by auto
    then have "\<forall>x\<in>set es. mutation_id (event x) \<noteq> Some m"
      by (auto simp: mutation_ids_def split: option.splits)
    then have "List.find (\<lambda>e. mutation_id (event e) = Some m) es = None"
      by (auto simp: find_None_iff)
    with True Cons.IH [OF d] show ?thesis by simp
  next
    case False
    with Cons.IH [OF d] show ?thesis by (auto split: option.split)
  qed
qed simp

lemma entries_of_store:
  "entries_of (store_entries c es S) c' = (if c' = c then entries_of S c @ es else entries_of S c')"
  by (auto simp: entries_of_def store_entries_def Let_def split: option.split)

lemma readCheckpoint_store [simp]: "readCheckpoint c' (store_entries c es S) = readCheckpoint c' S"
  by (auto simp: readCheckpoint_def store_entries_def Let_def split: option.split)

text \<open>An index extended by fresh keys for the new entries indexes the longer logs.\<close>

lemma indexed_by_extend:
  assumes old: "indexed_by index key stored"
    and new: "\<And>k. index' k = (case List.find (\<lambda>e. key (event e) = Some k) es of
       Some e \<Rightarrow> Some \<lparr>indexed_conversationId = c, indexed_entry = e\<rparr> | None \<Rightarrow> index k)"
    and fresh: "\<And>e k. e \<in> set es \<Longrightarrow> key (event e) = Some k \<Longrightarrow> index k = None"
    and unique: "\<And>e e' k. e \<in> set es \<Longrightarrow> e' \<in> set es \<Longrightarrow> key (event e) = Some k \<Longrightarrow>
       key (event e') = Some k \<Longrightarrow> e = e'"
  shows "indexed_by index' key (\<lambda>c'. if c' = c then stored c @ es else stored c')"
  unfolding indexed_by_def
proof (intro conjI allI impI)
  fix c' e k
  assume a: "e \<in> set (if c' = c then stored c @ es else stored c') \<and> key (event e) = Some k"
  show "index' k = Some \<lparr>indexed_conversationId = c', indexed_entry = e\<rparr>"
  proof (cases "c' = c \<and> e \<in> set es")
    case True
    then have "List.find (\<lambda>e. key (event e) = Some k) es \<noteq> None"
      using a by (auto simp: find_None_iff)
    then obtain e' where "List.find (\<lambda>e. key (event e) = Some k) es = Some e'" by blast
    moreover from this have "e' \<in> set es" "key (event e') = Some k" by (auto simp: find_Some_iff)
    ultimately show ?thesis using True a unique new by auto
  next
    case False
    then have "e \<in> set (stored c')" using a by (auto split: if_splits)
    then have k: "index k = Some \<lparr>indexed_conversationId = c', indexed_entry = e\<rparr>"
      using old a by (simp add: indexed_by_def)
    then have "List.find (\<lambda>e. key (event e) = Some k) es = None"
      using fresh by (auto simp: find_None_iff)
    with k new show ?thesis by simp
  qed
next
  fix k ix assume ix: "index' k = Some ix"
  have "indexed_entry ix \<in> set (if indexed_conversationId ix = c then stored c @ es
      else stored (indexed_conversationId ix)) \<and> key (event (indexed_entry ix)) = Some k"
  proof (cases "List.find (\<lambda>e. key (event e) = Some k) es")
    case None
    with ix new old show ?thesis by (auto simp: indexed_by_def)
  next
    case (Some e)
    then have "e \<in> set es" "key (event e) = Some k" by (auto simp: find_Some_iff)
    with Some ix new show ?thesis by auto
  qed
  then show "indexed_entry ix \<in> set (if indexed_conversationId ix = c then stored c @ es
      else stored (indexed_conversationId ix))" and "key (event (indexed_entry ix)) = Some k" by auto
qed

section \<open>Idempotent matches\<close>

lemma findIdempotentMatch_None:
  assumes "findIdempotentMatch S ev = Inr None"
  shows "map_get (eventIds S) (event_id ev) = None"
    and "mutation_id ev = Some m \<Longrightarrow> map_get (mutationIds S) m = None"
proof -
  from assms have "(case map_get (eventIds S) (event_id ev) of Some a \<Rightarrow> Some a
      | None \<Rightarrow> (case mutation_id ev of None \<Rightarrow> None | Some m \<Rightarrow> map_get (mutationIds S) m)) = None"
    unfolding findIdempotentMatch_def Let_def by (simp split: if_splits)
  then show "map_get (eventIds S) (event_id ev) = None"
    and "mutation_id ev = Some m \<Longrightarrow> map_get (mutationIds S) m = None"
    by (auto split: option.splits)
qed

lemma findIdempotentMatch_Some:
  assumes "findIdempotentMatch S ev = Inr (Some ix)"
  shows "(map_get (eventIds S) (event_id ev) = Some ix \<and> jsonEqual (event_json (event (indexed_entry ix))) (event_json ev)) \<or>
    (\<exists>m. mutation_id ev = Some m \<and> map_get (mutationIds S) m = Some ix \<and>
         sameClientMutation (event (indexed_entry ix)) ev)"
  using assms unfolding findIdempotentMatch_def Let_def
  by (auto split: if_splits option.splits)

text \<open>A match is a stored entry, under the conversation the index names.\<close>

lemma findIdempotentMatch_stored:
  assumes "store_inv H S" "findIdempotentMatch S ev = Inr (Some ix)"
  shows "indexed_entry ix \<in> set (entries_of S (indexed_conversationId ix))"
  using findIdempotentMatch_Some [OF assms(2)] store_invD(4,5) [OF assms(1)]
  unfolding indexed_by_def by blast

lemma map_result_filter_Nil:
  assumes "map_result f xs = Inr ms" "List.map_filter (\<lambda>m. m) ms = []"
  shows "\<forall>x\<in>set xs. f x = Inr None"
  using assms
proof (induction xs arbitrary: ms)
  case (Cons x xs)
  then obtain m ms' where "f x = Inr m" "map_result f xs = Inr ms'" "ms = m # ms'"
    by auto
  with Cons show ?case by (cases m) (auto simp: List.map_filter_def)
qed simp

section \<open>Append preserves the invariant\<close>

definition stored_batch :: "AppendConversationEventsInput \<Rightarrow> StoredConversationEvent list" where
  "stored_batch input = map (\<lambda>ev. \<lparr>cursor = memoryCursor (append_conversationId input) (event_revision ev),
     event = ev\<rparr>) (append_events input)"

lemma stored_batch_events [simp]: "map event (stored_batch input) = append_events input"
  by (simp add: stored_batch_def comp_def)

lemma stored_batch_set:
  "e \<in> set (stored_batch input) \<Longrightarrow> event e \<in> set (append_events input) \<and>
     cursor e = memoryCursor (append_conversationId input) (event_revision (event e))"
  by (auto simp: stored_batch_def)

lemma append_batch_cases:
  assumes "append_batch H input S = Inr (S', res)"
  obtains (retry) ms where "S' = S" "map_result (findIdempotentMatch S) (append_events input) = Inr ms"
      "append_events input \<noteq> []"
      "length (List.map_filter (\<lambda>m. m) ms) = length (append_events input)"
      "validateCompleteRetry input (getLatestRevision (append_conversationId input) S)
         (revision_or_zero (append_expectedRevision input) + 1)
         (zip (List.map_filter (\<lambda>m. m) ms) (append_events input)) = Inr ()"
      "res = appendResult IdempotentAppend (map indexed_entry (List.map_filter (\<lambda>m. m) ms))
         (the (getLatestRevision (append_conversationId input) S))"
  | (new) "S' = store_entries (append_conversationId input) (stored_batch input) S"
      "append_events input \<noteq> []"
      "\<forall>ev\<in>set (append_events input). findIdempotentMatch S ev = Inr None"
      "append_expectedRevision input = getLatestRevision (append_conversationId input) S"
      "validate_batch H input (getLatestRevision (append_conversationId input) S)
         (revision_or_zero (append_expectedRevision input) + 1) [] [] (append_events input) = Inr ()"
      "res = appendResult Appended (stored_batch input) (event_revision (last (append_events input)))"
proof -
  let ?c = "getLatestRevision (append_conversationId input) S"
  from assms obtain ms where valid: "validateAppend H input ?c = Inr ()"
    and ms: "map_result (findIdempotentMatch S) (append_events input) = Inr ms"
    unfolding append_batch_def Let_def getLatestRevision_def by auto
  from valid have ne: "append_events input \<noteq> []" and batch: "validate_batch H input ?c
      (revision_or_zero (append_expectedRevision input) + 1) [] [] (append_events input) = Inr ()"
    by (auto simp: validateAppend_def split: if_splits)
  have last: "event (last (stored_batch input)) = last (append_events input)"
    using ne by (simp add: stored_batch_def last_map)
  note unfolded = assms [unfolded append_batch_def Let_def getLatestRevision_def [symmetric]
      stored_batch_def [symmetric]]
  show ?thesis
  proof (cases "List.map_filter (\<lambda>m. m) ms = []")
    case True
    note fresh = map_result_filter_Nil [OF ms True]
    show ?thesis
      using unfolded valid ms True batch ne fresh last by (intro new) (auto split: if_splits)
  next
    case False
    show ?thesis
      using unfolded valid ms False ne by (intro retry) (auto split: if_splits)
  qed
qed

lemma store_entries_index:
  assumes "distinct (map event_id (map event es))" "distinct (mutation_ids (map event es))"
  shows "map_get (eventIds (store_entries c es S)) k =
      (case List.find (\<lambda>e. Some (event_id (event e)) = Some k) es of
         Some e \<Rightarrow> Some \<lparr>indexed_conversationId = c, indexed_entry = e\<rparr> | None \<Rightarrow> map_get (eventIds S) k)"
    and "map_get (mutationIds (store_entries c es S)) m =
      (case List.find (\<lambda>e. mutation_id (event e) = Some m) es of
         Some e \<Rightarrow> Some \<lparr>indexed_conversationId = c, indexed_entry = e\<rparr> | None \<Rightarrow> map_get (mutationIds S) m)"
  using fold_index_events [OF assms(1), of c S k] fold_index_mutations [OF assms(2), of c S m]
  by (simp_all add: store_entries_def Let_def)

lemma distinct_ids_unique:
  assumes "distinct (map event_id (map event es))" "e \<in> set es" "e' \<in> set es"
    "event_id (event e) = event_id (event e')"
  shows "e = e'"
  using assms inj_onD [of "\<lambda>e. event_id (event e)" "set es" e e'] by (simp add: distinct_map comp_def)

lemma distinct_mutations_unique:
  assumes "distinct (mutation_ids (map event es))" "e \<in> set es" "e' \<in> set es"
    "mutation_id (event e) = Some m" "mutation_id (event e') = Some m"
  shows "e = e'"
  using assms
proof (induction es)
  case (Cons x es)
  have member: "m \<in> set (mutation_ids (map event es))" if "y \<in> set es" "mutation_id (event y) = Some m" for y
    using that by (auto simp: mutation_ids_def intro!: bexI [of _ y] split: option.splits)
  have "distinct (mutation_ids (map event es))" using Cons.prems by (auto split: option.splits)
  moreover have "\<not> (mutation_id (event x) = Some m \<and> m \<in> set (mutation_ids (map event es)))"
    using Cons.prems(1) by auto
  ultimately show ?case using Cons.IH Cons.prems member by auto
qed simp

text \<open>A new batch: every part of the invariant holds of the extended log.\<close>

lemma store_entries_inv:
  assumes inv: "store_inv H S"
    and fresh: "\<forall>ev\<in>set (append_events input). findIdempotentMatch S ev = Inr None"
    and expected: "append_expectedRevision input = getLatestRevision (append_conversationId input) S"
    and batch: "validate_batch H input current (revision_or_zero (append_expectedRevision input) + 1) [] []
        (append_events input) = Inr ()"
  shows "store_inv H (store_entries (append_conversationId input) (stored_batch input) S)"
proof -
  let ?c = "append_conversationId input" and ?es = "stored_batch input"
  let ?S = "store_entries ?c ?es S"
  note valid = validate_batch_Inr [OF batch]
  have start: "revision_or_zero (append_expectedRevision input) = int (length (entries_of S ?c))"
    using latestRevision_entries [OF inv, of ?c] expected
    by (simp add: getLatestRevision_def revision_or_zero_def)
  have stored: "entries_of ?S = (\<lambda>c'. if c' = ?c then entries_of S ?c @ ?es else entries_of S c')"
    by (rule ext) (simp add: entries_of_store)
  have log: "log_from c' 1 (log_of ?S c')" for c'
    using store_invD(1) [OF inv] valid(1) start by (simp add: stored log_from_append algebra_simps)
  have each: "cursor e = memoryCursor c' (event_revision (event e)) \<and> accepted_event H (event e)"
    if "e \<in> set (entries_of ?S c')" for c' e
    using that store_invD(2,3) [OF inv] stored_batch_set [of e input] valid(2)
    by (auto simp: stored split: if_splits)
  have ids: "distinct (map event_id (map event ?es))" "distinct (mutation_ids (map event ?es))"
    using valid(3,5) by (simp_all only: stored_batch_events)
  have none: "map_get (eventIds S) (event_id (event e)) = None"
      "mutation_id (event e) = Some m \<Longrightarrow> map_get (mutationIds S) m = None" if "e \<in> set ?es" for e m
    using fresh stored_batch_set [OF that] findIdempotentMatch_None by blast+
  have "indexed_by (map_get (eventIds ?S)) (\<lambda>ev. Some (event_id ev)) (entries_of ?S)"
    unfolding stored using store_invD(4) [OF inv] store_entries_index(1) [OF ids]
  proof (rule indexed_by_extend)
    show "\<And>e k. e \<in> set ?es \<Longrightarrow> Some (event_id (event e)) = Some k \<Longrightarrow> map_get (eventIds S) k = None"
      using none(1) by auto
    show "\<And>e e' k. e \<in> set ?es \<Longrightarrow> e' \<in> set ?es \<Longrightarrow> Some (event_id (event e)) = Some k \<Longrightarrow>
        Some (event_id (event e')) = Some k \<Longrightarrow> e = e'"
      using distinct_ids_unique [OF ids(1)] by auto
  qed
  moreover have "indexed_by (map_get (mutationIds ?S)) mutation_id (entries_of ?S)"
    unfolding stored using store_invD(5) [OF inv] store_entries_index(2) [OF ids] none(2)
      distinct_mutations_unique [OF ids(2)]
    by (rule indexed_by_extend)
  moreover have "checkpoint_conversationId cp = c' \<and> 1 \<le> checkpoint_revision cp \<and>
      checkpoint_revision cp \<le> int (length (entries_of ?S c'))" if "readCheckpoint c' ?S = Some cp" for c' cp
    using that inv by (fastforce simp: store_inv_def stored)
  ultimately show ?thesis using log each unfolding store_inv_def by blast
qed

theorem append_batch_inv:
  assumes "store_inv H S" "append_batch H input S = Inr (S', res)"
  shows "store_inv H S'"
  using assms(2)
proof (cases rule: append_batch_cases)
  case new
  then show ?thesis using store_entries_inv [OF assms(1)] by blast
qed (use assms in simp)

section \<open>What an append returns\<close>

lemma map_filter_full:
  "length (List.map_filter (\<lambda>m. m) ms) = length ms \<Longrightarrow> ms = map Some (List.map_filter (\<lambda>m. m) ms)"
proof (induction ms)
  case (Cons m ms)
  have "length (List.map_filter (\<lambda>m. m) ms) \<le> length ms" by (simp add: List.map_filter_def)
  with Cons show ?case by (cases m) (simp_all add: List.map_filter_def)
qed (simp add: List.map_filter_def)

lemma validateCompleteRetry_Inr:
  assumes "validateCompleteRetry input current r (zip ms evs) = Inr ()" "length ms = length evs"
  shows "i < length ms \<Longrightarrow> indexed_conversationId (ms ! i) = append_conversationId input \<and>
     event_revision (event (indexed_entry (ms ! i))) = r + int i"
  using assms
proof (induction ms arbitrary: evs r i)
  case (Cons m ms)
  then obtain ev evs' where evs: "evs = ev # evs'" by (cases evs) auto
  from Cons.prems evs have head: "indexed_conversationId m = append_conversationId input"
    "event_revision (event (indexed_entry m)) = r"
    and tail: "validateCompleteRetry input current (r + 1) (zip ms evs') = Inr ()" "length ms = length evs'"
    by (auto split: if_splits)
  show ?case
  proof (cases i)
    case (Suc j)
    with Cons.prems(1) Cons.IH [OF _ tail, of j] show ?thesis by simp
  qed (use head in simp)
qed simp

lemma entry_at_revision:
  assumes inv: "store_inv H S" and mem: "e \<in> set (entries_of S c)"
  shows "1 \<le> event_revision (event e)" "event_revision (event e) \<le> int (length (entries_of S c))"
    "e = entries_of S c ! nat (event_revision (event e) - 1)"
proof -
  from mem obtain i where i: "i < length (entries_of S c)" "e = entries_of S c ! i"
    by (auto simp: in_set_conv_nth)
  with log_from_nth [OF store_invD(1) [OF inv, of c], of i]
  have "event_revision (event e) = 1 + int i" by simp
  with i show "1 \<le> event_revision (event e)" "event_revision (event e) \<le> int (length (entries_of S c))"
    "e = entries_of S c ! nat (event_revision (event e) - 1)" by simp_all
qed

text \<open>
  A retried batch is answered from the log: the entries already stored right after the
  expected revision, one per event, each equal to it or the same client mutation.
\<close>

lemma append_retry:
  assumes inv: "store_inv H S" and app: "append_batch H input S = Inr (S', res)"
    and status: "append_status res = IdempotentAppend"
  shows "S' = S \<and>
    append_entries res = take (length (append_events input))
      (drop (nat (revision_or_zero (append_expectedRevision input)))
        (entries_of S (append_conversationId input))) \<and>
    append_latestRevision res = int (length (entries_of S (append_conversationId input))) \<and>
    list_all2 (\<lambda>e ev. jsonEqual (event_json (event e)) (event_json ev) \<or> sameClientMutation (event e) ev)
      (append_entries res) (append_events input)"
  using app
proof (cases rule: append_batch_cases)
  case (retry ms)
  let ?c = "append_conversationId input"
  let ?r = "revision_or_zero (append_expectedRevision input)"
  let ?ix = "List.map_filter (\<lambda>m. m) ms" and ?log = "entries_of S ?c"
  have len: "length ?ix = length (append_events input)" by fact
  have ms: "ms = map Some ?ix"
    using map_filter_full [of ms] map_result_length [OF retry(2)] len by simp
  have match: "findIdempotentMatch S (append_events input ! i) = Inr (Some (?ix ! i))"
    if "i < length ?ix" for i
  proof -
    have "findIdempotentMatch S (append_events input ! i) = Inr (ms ! i)"
      using map_result_all [OF retry(2)] that len by (simp add: list_all2_conv_all_nth)
    also have "ms ! i = Some (?ix ! i)" using that by (subst ms) simp
    finally show ?thesis .
  qed
  note shape = validateCompleteRetry_Inr [OF retry(5) len]
  have mem: "indexed_entry (?ix ! i) \<in> set ?log" if "i < length ?ix" for i
    using findIdempotentMatch_stored [OF inv match [OF that]] shape [OF that] by simp
  have entry: "indexed_entry (?ix ! i) = ?log ! (nat ?r + i)" "nat ?r + i < length ?log"
    if "i < length ?ix" for i
  proof -
    have rev: "event_revision (event (indexed_entry (?ix ! j))) = ?r + 1 + int j"
      if "j < length ?ix" for j using shape [OF that] by simp
    have "0 \<le> ?r" using entry_at_revision(1) [OF inv mem [of 0]] rev [of 0] that by force
    with entry_at_revision [OF inv mem [OF that]] rev [OF that]
    show "indexed_entry (?ix ! i) = ?log ! (nat ?r + i)" "nat ?r + i < length ?log"
      by (simp_all add: nat_add_distrib)
  qed
  have "0 < length ?ix" using len retry(3) by simp
  from entry(2) [of "length ?ix - 1"] this have bound: "nat ?r + length ?ix \<le> length ?log" by simp
  have "append_entries res = take (length (append_events input)) (drop (nat ?r) ?log)"
    unfolding retry(6) appendResult_def
    by (rule nth_equalityI) (use bound len entry in auto)
  moreover have "?log \<noteq> []" using bound \<open>0 < length ?ix\<close> by auto
  then have "append_latestRevision res = int (length ?log)"
    using latestRevision_entries [OF inv, of ?c] by (simp add: retry(6) appendResult_def getLatestRevision_def)
  moreover have "list_all2 (\<lambda>e ev. jsonEqual (event_json (event e)) (event_json ev) \<or> sameClientMutation (event e) ev)
      (append_entries res) (append_events input)"
    using len findIdempotentMatch_Some [OF match]
    by (auto simp: retry(6) appendResult_def list_all2_conv_all_nth)
  ultimately show ?thesis using retry(1) by blast
qed (use status in \<open>simp add: appendResult_def\<close>)

lemma append_batch_log:
  assumes "append_batch H input S = Inr (S', res)"
  shows "log_from (append_conversationId input) (revision_or_zero (append_expectedRevision input) + 1)
    (append_events input)"
proof -
  have "validateAppend H input (getLatestRevision (append_conversationId input) S) = Inr ()"
    using assms unfolding append_batch_def Let_def getLatestRevision_def by auto
  then show ?thesis by (auto simp: validateAppend_def split: if_splits intro: validate_batch_Inr(1))
qed

text \<open>A retry answers with the entries of its own revisions.\<close>

lemma append_retry_same:
  assumes inv: "store_inv H S" and app: "append_batch H input S = Inr (S', res)"
    and status: "append_status res = IdempotentAppend"
  shows "list_all2 (\<lambda>e ev. event_revision (event e) = event_revision ev \<and>
      (jsonEqual (event_json (event e)) (event_json ev) \<or> sameClientMutation (event e) ev))
    (append_entries res) (append_events input)"
  using app
proof (cases rule: append_batch_cases)
  case (retry ms)
  let ?ix = "List.map_filter (\<lambda>m. m) ms"
  have "event_revision (event (append_entries res ! i)) = event_revision (append_events input ! i)"
    if "i < length (append_events input)" for i
    using validateCompleteRetry_Inr [OF retry(5,4)] log_from_nth [OF append_batch_log [OF app] that] that retry(4)
    by (simp add: retry(6) appendResult_def)
  with append_retry [OF assms] show ?thesis by (auto simp: list_all2_conv_all_nth)
qed (use status in \<open>simp add: appendResult_def\<close>)

lemma append_new:
  assumes inv: "store_inv H S" and app: "append_batch H input S = Inr (S', res)"
    and status: "append_status res = Appended"
  shows "entries_of S' = (entries_of S)(append_conversationId input :=
      entries_of S (append_conversationId input) @ append_entries res) \<and>
    map event (append_entries res) = append_events input \<and>
    append_expectedRevision input = getLatestRevision (append_conversationId input) S \<and>
    append_latestRevision res = int (length (entries_of S' (append_conversationId input))) \<and>
    (\<forall>c. readCheckpoint c S' = readCheckpoint c S)"
  using app
proof (cases rule: append_batch_cases)
  case new
  let ?c = "append_conversationId input"
  have entries: "entries_of S' = (entries_of S)(?c := entries_of S ?c @ append_entries res)"
    by (rule ext) (simp add: new(1,6) entries_of_store appendResult_def)
  have log: "log_of S' ?c = log_of S ?c @ append_events input"
    using entries by (simp add: new(6) appendResult_def)
  have "length (entries_of S' ?c) = length (entries_of S ?c) + length (append_events input)"
    using arg_cong [OF log, of length] by simp
  then have "event_revision (last (append_events input)) = int (length (entries_of S' ?c))"
    using log_from_last [OF store_invD(1) [OF append_batch_inv [OF inv app], of ?c]] new(2)
    by (simp add: log)
  with entries new(4) show ?thesis by (simp add: new(1,6) appendResult_def)
qed (use status in \<open>simp add: appendResult_def\<close>)

section \<open>Reading\<close>

lemma read_log_entries:
  "read_log \<lparr>read_conversationId = c, read_after = None, read_limit = l\<rparr> S =
     (if positive_limit l then Inr (page_of (entries_of S c) 0 (limit_nat l)) else Inl LimitRangeError)"
  by (simp add: read_log_def entries_of_def)

text \<open>A cursor names one entry, and the read starts right behind it.\<close>

lemma read_log_cursor:
  assumes "store_inv H S" "positive_limit l" "i < length (entries_of S c)"
  shows "read_log \<lparr>read_conversationId = c, read_after = Some (AfterCursor (cursor (entries_of S c ! i))),
      read_limit = l\<rparr> S = Inr (page_of (entries_of S c) (Suc i) (limit_nat l))"
proof -
  have "find_index (\<lambda>e. cursor e = cursor (entries_of S c ! i)) (entries_of S c) = Some i"
    using cursors_distinct [OF assms(1), of c] assms(3)
    by (auto simp: find_index_Some_iff distinct_conv_nth)
  then show ?thesis using assms(2) by (simp add: read_log_def entries_of_def)
qed

lemma read_after_cursor:
  assumes "store_inv H S" "i < length (entries_of S c)" "0 < n" "safe_int (int n)"
  shows "\<exists>page. read_log \<lparr>read_conversationId = c, read_after = Some (AfterCursor (cursor (entries_of S c ! i))),
        read_limit = Some (Fin (of_nat n))\<rparr> S = Inr page \<and>
    read_entries page = take n (drop (i + 1) (entries_of S c)) \<and>
    (hasMore page \<longleftrightarrow> i + 1 + n < length (entries_of S c)) \<and>
    nextCursor page = (if i + 1 < length (entries_of S c)
      then Some (cursor (entries_of S c ! (min (i + n) (length (entries_of S c) - 1)))) else None)"
proof -
  let ?l = "Some (Fin (of_nat n))" and ?es = "entries_of S c"
  have whole: "Fin (of_nat n) = Fin (of_int (int n))" by simp
  have limit: "positive_limit ?l" "limit_nat ?l = Some n"
    using assms(3,4) unfolding whole by (simp_all add: positive_limit_def limit_nat_def)
  have "last (take n (drop (i + 1) ?es)) = ?es ! (min (i + n) (length ?es - 1))" if "i + 1 < length ?es"
    using that assms(3) by (subst last_conv_nth) (auto simp: min_def intro!: arg_cong [of _ _ "nth ?es"])
  then show ?thesis
    using read_log_cursor [OF assms(1) limit(1) assms(2)] limit(2) assms(3)
    by (auto simp: page_of_def Let_def)
qed

lemma read_log_foreign_cursor:
  assumes "k \<notin> set (map cursor (entries_of S c))" "positive_limit l"
  shows "\<exists>e. read_log \<lparr>read_conversationId = c, read_after = Some (AfterCursor k), read_limit = l\<rparr> S =
    Inl (Conflict e) \<and> conflict_code e = CursorNotFound \<and> conflict_identifier e = Some k"
proof -
  have "find_index (\<lambda>e. cursor e = k) (entries_of S c) = None"
    using assms(1) by (auto simp: find_index_None_iff)
  then show ?thesis using assms(2) by (simp add: read_log_def entries_of_def)
qed

lemma read_log_revision:
  assumes "store_inv H S" "positive_limit l" "0 \<le> r"
  shows "read_log \<lparr>read_conversationId = c, read_after = Some (AfterRevision r), read_limit = l\<rparr> S =
    Inr (page_of (entries_of S c) (nat r) (limit_nat l))"
proof -
  let ?es = "entries_of S c" and ?i = "find_index (\<lambda>e. event_revision (event e) > r) (entries_of S c)"
  have rev: "event_revision (event (?es ! i)) = 1 + int i" if "i < length ?es" for i
    using log_from_nth [OF store_invD(1) [OF assms(1), of c], of i] that by simp
  have "(case ?i of Some i \<Rightarrow> i | None \<Rightarrow> length ?es) = nat r \<or>
      (?i = None \<and> length ?es \<le> nat r)"
  proof (cases "nat r < length ?es")
    case True
    then have "?i = Some (nat r)" using rev assms(3) by (auto simp: find_index_Some_iff)
    then show ?thesis by simp
  next
    case False
    then have "?i = None" using rev assms(3)
      by (auto simp: find_index_None_iff in_set_conv_nth)
    with False show ?thesis by simp
  qed
  moreover have "page_of ?es (length ?es) n = page_of ?es (nat r) n" if "length ?es \<le> nat r" for n
    using that by (simp add: page_of_def)
  ultimately have "page_of ?es (case ?i of Some i \<Rightarrow> i | None \<Rightarrow> length ?es) n = page_of ?es (nat r) n" for n
    by auto
  then show ?thesis using assms(2) by (simp add: read_log_def flip: entries_of_def)
qed

section \<open>Checkpoints\<close>

lemma writeCheckpoint_cases:
  assumes "writeCheckpoint cp S = Inr (S', res)"
  obtains (idempotent) current where "S' = S" "readCheckpoint (checkpoint_conversationId cp) S = Some current"
      "res = \<lparr>write_status = IdempotentWrite, written_checkpoint = current\<rparr>"
      "checkpoint_revision current = checkpoint_revision cp" "schemaVersion current = schemaVersion cp"
      "jsonEqual (state_json (checkpoint_state cp)) (state_json (checkpoint_state current))"
  | (written) conv where "map_get (conversations S) (checkpoint_conversationId cp) = Some conv"
      "S' = S\<lparr>conversations := map_set (checkpoint_conversationId cp) (conv\<lparr>checkpoint := Some cp\<rparr>)
         (conversations S)\<rparr>"
      "res = \<lparr>write_status = Written, written_checkpoint = cp\<rparr>"
      "1 \<le> checkpoint_revision cp"
      "\<exists>actual. latestRevision (Some conv) = Some actual \<and> checkpoint_revision cp \<le> actual"
      "\<forall>current. readCheckpoint (checkpoint_conversationId cp) S = Some current \<longrightarrow>
         checkpoint_revision current \<le> checkpoint_revision cp"
  using assms
  by (auto simp: writeCheckpoint_def readCheckpoint_def Let_def split: option.splits if_splits)

lemma writeCheckpoint_entries:
  assumes "writeCheckpoint cp S = Inr (S', res)"
  shows "entries_of S' = entries_of S" and "eventIds S' = eventIds S" and "mutationIds S' = mutationIds S"
    and "readCheckpoint c S' = (if c = checkpoint_conversationId cp then Some (written_checkpoint res)
           else readCheckpoint c S)"
  using assms by (cases rule: writeCheckpoint_cases; auto simp: entries_of_def readCheckpoint_def)+

lemma writeCheckpoint_inv:
  assumes inv: "store_inv H S" and w: "writeCheckpoint cp S = Inr (S', res)"
  shows "store_inv H S'"
  using w
proof (cases rule: writeCheckpoint_cases)
  case (written conv)
  have "entries conv = entries_of S (checkpoint_conversationId cp)"
    using written(1) by (simp add: entries_of_def)
  then have "checkpoint_revision cp \<le> int (length (entries_of S (checkpoint_conversationId cp)))"
    using written(1,5) latestRevision_entries [OF inv, of "checkpoint_conversationId cp"]
    by (auto split: if_splits)
  then show ?thesis using inv written(3,4) unfolding store_inv_def writeCheckpoint_entries [OF w] by auto
qed (use inv in simp)

text \<open>The checkpoint of a conversation never goes back.\<close>

lemma writeCheckpoint_monotone:
  assumes "writeCheckpoint cp S = Inr (S', res)" "readCheckpoint c S = Some old"
  shows "\<exists>new. readCheckpoint c S' = Some new \<and> checkpoint_revision old \<le> checkpoint_revision new"
  using assms(1)
proof (cases rule: writeCheckpoint_cases)
  case written
  then show ?thesis using assms(2) writeCheckpoint_entries(4) [OF assms(1), of c] by auto
qed (use assms(2) in auto)

section \<open>The in-memory store meets the contract\<close>

definition memory_checkpoints :: "InMemoryConversationEventStore ConversationEventCheckpointStore" where
  "memory_checkpoints = \<lparr>checkpoint_read = readCheckpoint, checkpoint_write = writeCheckpoint\<rparr>"

definition memory_store :: "host \<Rightarrow> InMemoryConversationEventStore ConversationEventStore" where
  "memory_store H = \<lparr>checkpoints = Some memory_checkpoints, store_append = append_batch H,
     store_read = read_log, store_latest = getLatestRevision\<rparr>"

interpretation memory: event_reader H "store_inv H" entries_of "memory_store H" for H
  by unfold_locales
    (auto simp: memory_store_def store_invD log_event_ids_distinct log_mutation_ids_distinct cursors_distinct
      getLatestRevision_def latestRevision_entries read_log_entries read_log_cursor read_log_revision
      simp del: map_map)

lemma append_status_cases: "append_status res \<noteq> Appended \<longleftrightarrow> append_status res = IdempotentAppend"
  by (cases "append_status res") auto

interpretation memory: event_writer H "store_inv H" entries_of "memory_store H" for H
proof unfold_locales
  fix s s' input res
  assume "store_inv H s" "store_append (memory_store H) input s = Inr (s', res)"
  then have app: "store_inv H s" "append_batch H input s = Inr (s', res)" by (simp_all add: memory_store_def)
  have "set (append_entries res) \<subseteq> set (entries_of s (append_conversationId input))"
    if "append_status res = IdempotentAppend"
    using append_retry [OF app that] by (auto dest: in_set_takeD in_set_dropD)
  then show "store_inv H s' \<and> (if append_status res = Appended
       then append_expectedRevision input = store_latest (memory_store H) (append_conversationId input) s \<and>
         map event (append_entries res) = append_events input \<and>
         entries_of s' = (entries_of s)(append_conversationId input :=
           entries_of s (append_conversationId input) @ append_entries res)
       else entries_of s' = entries_of s \<and>
         set (append_entries res) \<subseteq> set (entries_of s (append_conversationId input)) \<and>
         list_all2 (\<lambda>e ev. event_revision (event e) = event_revision ev \<and>
             (jsonEqual (event_json (event e)) (event_json ev) \<or> sameClientMutation (event e) ev))
           (append_entries res) (append_events input))"
    using append_batch_inv [OF app] append_new [OF app] append_retry [OF app] append_retry_same [OF app]
    by (auto simp: memory_store_def append_status_cases)
qed

section \<open>Single events\<close>

lemma jsonEqual_event_id:
  assumes "jsonEqual (event_json a) (event_json b)"
  shows "event_id a = event_id b"
  using assms by (simp add: event_json_def)

lemma jsonEqual_event_revision:
  assumes "jsonEqual (event_json a) (event_json b)"
  shows "event_revision a = event_revision b"
  using assms by (simp add: event_json_def jint_def)

lemma validateAppend_single:
  "accepted_event H ev \<Longrightarrow> event_conversation_id ev = c \<Longrightarrow> event_revision ev = revision_or_zero r + 1 \<Longrightarrow>
   validateAppend H \<lparr>append_conversationId = c, append_expectedRevision = r, append_events = [ev]\<rparr> current = Inr ()"
  by (simp add: validateAppend_def accepted_event_def split: option.splits)

lemma indexed_taken:
  assumes inv: "store_inv H S"
    and ix: "map_get (eventIds S) (event_id ev) = Some ix \<or>
      (\<exists>m. mutation_id ev = Some m \<and> map_get (mutationIds S) m = Some ix)"
  shows "identity_taken (entries_of S) ev"
proof -
  have "indexed_by (map_get (eventIds S)) (\<lambda>ev. Some (event_id ev)) (entries_of S)"
    "indexed_by (map_get (mutationIds S)) mutation_id (entries_of S)"
    using inv unfolding store_inv_def by blast+
  with ix show ?thesis unfolding indexed_by_def identity_taken_def by (metis option.distinct(1) option.inject)
qed

lemma findIdempotentMatch_taken:
  assumes "store_inv H S" "findIdempotentMatch S ev \<noteq> Inr None"
  shows "identity_taken (entries_of S) ev"
proof (rule ccontr)
  assume free: "\<not> identity_taken (entries_of S) ev"
  have "map_get (eventIds S) (event_id ev) = None"
    using indexed_taken [OF assms(1)] free by (cases "map_get (eventIds S) (event_id ev)") blast+
  moreover have "(case mutation_id ev of None \<Rightarrow> None | Some m \<Rightarrow> map_get (mutationIds S) m) = None"
    using indexed_taken [OF assms(1), of ev] free
    by (cases "mutation_id ev"; cases "map_get (mutationIds S) (the (mutation_id ev))") auto
  ultimately show False using assms(2) by (simp add: findIdempotentMatch_def)
qed

lemma findIdempotentMatch_conflict:
  "findIdempotentMatch S ev = Inl e \<Longrightarrow> \<exists>d. e = Conflict d \<and> conflict_code d = IdempotencyConflict"
  by (auto simp: findIdempotentMatch_def Let_def idempotencyConflict_def split: if_splits)

lemma append_single:
  assumes "accepted_event H ev" "event_conversation_id ev = c" "event_revision ev = revision_or_zero r + 1"
  shows "append_batch H \<lparr>append_conversationId = c, append_expectedRevision = r, append_events = [ev]\<rparr> S =
    (let input = \<lparr>append_conversationId = c, append_expectedRevision = r, append_events = [ev]\<rparr> in
     case findIdempotentMatch S ev of
       Inl e \<Rightarrow> Inl e
     | Inr (Some ix) \<Rightarrow>
         if indexed_conversationId ix \<noteq> c \<or> event_revision (event (indexed_entry ix)) \<noteq> event_revision ev
         then Inl (conflict IdempotencyConflict input (getLatestRevision c S) (Some (event_id ev)))
         else Inr (S, appendResult IdempotentAppend [indexed_entry ix] (the (getLatestRevision c S)))
     | Inr None \<Rightarrow>
         if r \<noteq> getLatestRevision c S then Inl (conflict RevisionConflict input (getLatestRevision c S) None)
         else Inr (store_entries c [\<lparr>cursor = memoryCursor c (event_revision ev), event = ev\<rparr>] S,
                appendResult Appended [\<lparr>cursor = memoryCursor c (event_revision ev), event = ev\<rparr>]
                  (event_revision ev)))"
  using validateAppend_single [OF assms] assms(3)
  by (auto simp: append_batch_def Let_def getLatestRevision_def List.map_filter_simps split: sum.splits option.splits)

interpretation memory: retrying_writer H "store_inv H" entries_of "memory_store H" for H
proof unfold_locales
  fix s ev c r
  assume inv: "store_inv H s" and ev: "accepted_event H ev" "event_conversation_id ev = c"
    "event_revision ev = revision_or_zero r + 1"
  let ?input = "\<lparr>append_conversationId = c, append_expectedRevision = r, append_events = [ev]\<rparr>"
  show "case store_append (memory_store H) ?input s of Inr _ \<Rightarrow> True
       | Inl (Conflict d) \<Rightarrow>
           conflict_code d = RevisionConflict \<and> r \<noteq> store_latest (memory_store H) c s \<or>
           conflict_code d = IdempotencyConflict \<and> identity_taken (entries_of s) ev
       | Inl _ \<Rightarrow> False"
  proof (cases "findIdempotentMatch s ev")
    case (Inl e)
    with findIdempotentMatch_conflict [OF Inl] findIdempotentMatch_taken [OF inv, of ev] show ?thesis
      by (auto simp: memory_store_def append_single [OF ev])
  next
    case (Inr m)
    with findIdempotentMatch_taken [OF inv, of ev] show ?thesis
      by (auto simp: memory_store_def append_single [OF ev] Let_def conflict_def split: option.split)
  qed
  fix e
  assume e: "e \<in> set (entries_of s c)" "event_id (event e) = event_id ev"
    "event_revision (event e) \<noteq> event_revision ev"
  have "map_get (eventIds s) (event_id ev) = Some \<lparr>indexed_conversationId = c, indexed_entry = e\<rparr>"
    using inv e(1,2) unfolding store_inv_def indexed_by_def by metis
  then have "findIdempotentMatch s ev = Inl (idempotencyConflict ev (Some (event_id ev)))"
    using e(3) jsonEqual_event_revision [of "event e" ev] by (auto simp: findIdempotentMatch_def Let_def)
  then show "\<exists>d. store_append (memory_store H) ?input s = Inl (Conflict d) \<and> conflict_code d = IdempotencyConflict"
    by (simp add: memory_store_def append_single [OF ev] idempotencyConflict_def Let_def)
qed

interpretation memory: checkpointed_store H "store_inv H" entries_of "memory_store H" memory_checkpoints for H
proof unfold_locales
  fix s s' cp res
  assume "store_inv H s" "checkpoint_write memory_checkpoints cp s = Inr (s', res)"
  then have w: "store_inv H s" "writeCheckpoint cp s = Inr (s', res)" by (simp_all add: memory_checkpoints_def)
  then have "(write_status res = Written \<longrightarrow> written_checkpoint res = cp) \<and>
      (write_status res = IdempotentWrite \<longrightarrow> s' = s)"
    by (auto elim!: writeCheckpoint_cases)
  moreover have read: "readCheckpoint c s' = (if c = checkpoint_conversationId cp
      then Some (written_checkpoint res) else readCheckpoint c s)" for c
    using writeCheckpoint_entries [OF w(2)] by simp
  ultimately have "(write_status res = Written \<longrightarrow> written_checkpoint res = cp) \<and>
      (write_status res = IdempotentWrite \<longrightarrow>
        readCheckpoint (checkpoint_conversationId cp) s = Some (written_checkpoint res))"
    by (metis (full_types))
  then show "store_inv H s' \<and> entries_of s' = entries_of s \<and>
      (write_status res = Written \<longrightarrow> written_checkpoint res = cp) \<and>
      (write_status res = IdempotentWrite \<longrightarrow>
        checkpoint_read memory_checkpoints (checkpoint_conversationId cp) s = Some (written_checkpoint res)) \<and>
      (\<forall>c. checkpoint_read memory_checkpoints c s' = (if c = checkpoint_conversationId cp
         then Some (written_checkpoint res) else checkpoint_read memory_checkpoints c s))"
    using writeCheckpoint_inv [OF w] writeCheckpoint_entries [OF w(2)] by (simp add: memory_checkpoints_def)
next
  fix s s' input r c
  assume "store_inv H s" "store_append (memory_store H) input s = Inr (s', r)"
  then have app: "store_inv H s" "append_batch H input s = Inr (s', r)" by (simp_all add: memory_store_def)
  then show "checkpoint_read memory_checkpoints c s' = checkpoint_read memory_checkpoints c s"
    using append_new [OF app] append_retry [OF app]
    by (cases "append_status r") (auto simp: memory_checkpoints_def)
qed (simp add: memory_store_def)

end
