(* ===== verification/StateValidation.thy ===== *)
theory StateValidation
  imports StateEncoding
begin

text \<open>
  Validation of a stored projection (src/conversation/state-validation.ts): what a
  checkpoint must satisfy before replay builds on it. Every predicate is over the JSON
  value, as in the source.
\<close>

section \<open>Shape predicates\<close>

fun plain_fields :: "json \<Rightarrow> (string \<times> json) list option" where
  "plain_fields (JObj kvs) = Some kvs"
| "plain_fields _ = None"

definition isPlainRecord :: "json \<Rightarrow> bool" where
  "isPlainRecord v \<longleftrightarrow> plain_fields v \<noteq> None"

definition hasExactKeys :: "(string \<times> json) list \<Rightarrow> string list \<Rightarrow> bool" where
  "hasExactKeys kvs expected \<longleftrightarrow> length kvs = length expected \<and> list_all (has_own kvs) expected"

definition isIdentifier :: "json option \<Rightarrow> bool" where
  "isIdentifier v \<longleftrightarrow> (case v of Some (JStr s) \<Rightarrow> s \<noteq> [] | _ \<Rightarrow> False)"

definition isString :: "json option \<Rightarrow> bool" where
  "isString v \<longleftrightarrow> (case v of Some (JStr s) \<Rightarrow> True | _ \<Rightarrow> False)"

definition isBoolean :: "json option \<Rightarrow> bool" where
  "isBoolean v \<longleftrightarrow> (case v of Some (JBool b) \<Rightarrow> True | _ \<Rightarrow> False)"

abbreviation is_null :: "json option \<Rightarrow> bool" where
  "is_null v \<equiv> v = Some JNull"

fun isJsonValue :: "json \<Rightarrow> bool" where
  "isJsonValue (JNum n) = isFinite n"
| "isJsonValue (JArr xs) = list_all isJsonValue xs"
| "isJsonValue (JObj kvs) = list_all (\<lambda>kv. isJsonValue (snd kv)) kvs"
| "isJsonValue _ = True"

definition isJsonObject :: "json option \<Rightarrow> bool" where
  "isJsonObject v \<longleftrightarrow> (case v of Some (JObj kvs) \<Rightarrow> isJsonValue (JObj kvs) | _ \<Rightarrow> False)"

text \<open>\<open>isOneOf\<close>, and the source's \<open>values.includes(String(value))\<close> for the JSON
  values whose string form can be a listed literal: a string, and an array of one such value.\<close>

fun string_form :: "json \<Rightarrow> string option" where
  "string_form (JStr s) = Some s"
| "string_form (JArr [x]) = (if x = JNull then Some [] else string_form x)"
| "string_form _ = None"

definition isOneOf :: "json option \<Rightarrow> string list \<Rightarrow> bool" where
  "isOneOf v values \<longleftrightarrow> (case v of Some (JStr s) \<Rightarrow> s \<in> set values | _ \<Rightarrow> False)"

definition string_in :: "json option \<Rightarrow> string list \<Rightarrow> bool" where
  "string_in v values \<longleftrightarrow>
     (case v of Some x \<Rightarrow> (case string_form x of Some s \<Rightarrow> s \<in> set values | None \<Rightarrow> False) | None \<Rightarrow> False)"

definition isPositiveSafeInteger :: "json option \<Rightarrow> bool" where
  "isPositiveSafeInteger v \<longleftrightarrow>
     (case v of Some (JNum n) \<Rightarrow> isSafeInteger n \<and> 0 < int_of_number n | _ \<Rightarrow> False)"

definition isNonnegativeSafeInteger :: "json option \<Rightarrow> bool" where
  "isNonnegativeSafeInteger v \<longleftrightarrow>
     (case v of Some (JNum n) \<Rightarrow> isSafeInteger n \<and> 0 \<le> int_of_number n | _ \<Rightarrow> False)"

definition isConversationTimestamp :: "json option \<Rightarrow> bool" where
  "isConversationTimestamp v \<longleftrightarrow>
     (case v of Some (JStr s) \<Rightarrow> length s \<le> 64 \<and> isTimestamp s | _ \<Rightarrow> False)"

definition identifier_array :: "json option \<Rightarrow> string list option" where
  "identifier_array v =
     (case v of
        Some (JArr xs) \<Rightarrow>
          if list_all (\<lambda>x. isIdentifier (Some x)) xs
          then Some (map (\<lambda>x. case x of JStr s \<Rightarrow> s | _ \<Rightarrow> []) xs) else None
      | _ \<Rightarrow> None)"

definition recordArray :: "json option \<Rightarrow> ((string \<times> json) list \<Rightarrow> bool) \<Rightarrow> bool" where
  "recordArray v P \<longleftrightarrow>
     (case v of
        Some (JArr xs) \<Rightarrow>
          list_all (\<lambda>x. case plain_fields x of Some kvs \<Rightarrow> P kvs | None \<Rightarrow> False) xs
      | _ \<Rightarrow> False)"

text \<open>The items of an array of records, once \<open>recordArray\<close> has accepted it.\<close>

definition records_of :: "json option \<Rightarrow> (string \<times> json) list list" where
  "records_of v =
     (case v of
        Some (JArr xs) \<Rightarrow> map (\<lambda>x. case plain_fields x of Some kvs \<Rightarrow> kvs | None \<Rightarrow> []) xs
      | _ \<Rightarrow> [])"

section \<open>Parts\<close>

definition fields_of :: "json option \<Rightarrow> (string \<times> json) list option" where
  "fields_of v = (case v of Some x \<Rightarrow> plain_fields x | None \<Rightarrow> None)"

definition isAttribution :: "json option \<Rightarrow> bool" where
  "isAttribution v \<longleftrightarrow>
     (case fields_of v of None \<Rightarrow> False
      | Some kvs \<Rightarrow>
          (case (fields_of (obj_get kvs ''actor''), fields_of (obj_get kvs ''source'')) of
             (Some a, Some s) \<Rightarrow>
               string_in (obj_get a ''type'') [''user'', ''assistant'', ''tool'', ''system''] \<and>
               (obj_get a ''id'' = None \<or> isIdentifier (obj_get a ''id'')) \<and>
               string_in (obj_get s ''type'') [''client'', ''runtime'', ''sync'', ''import''] \<and>
               (obj_get s ''type'' \<noteq> Some (JStr ''client'') \<or> isIdentifier (obj_get s ''client_id''))
           | _ \<Rightarrow> False))"

definition isNullableAttribution :: "json option \<Rightarrow> bool" where
  "isNullableAttribution v \<longleftrightarrow> is_null v \<or> isAttribution v"

definition isTextPart :: "json \<Rightarrow> bool" where
  "isTextPart v \<longleftrightarrow>
     (case plain_fields v of None \<Rightarrow> False
      | Some kvs \<Rightarrow> hasExactKeys kvs [''type'', ''text''] \<and> obj_get kvs ''type'' = Some (JStr ''text'') \<and>
          isString (obj_get kvs ''text''))"

definition isJsonPart :: "json \<Rightarrow> bool" where
  "isJsonPart v \<longleftrightarrow>
     (case plain_fields v of None \<Rightarrow> False
      | Some kvs \<Rightarrow> obj_get kvs ''type'' = Some (JStr ''json'') \<and>
          (case obj_get kvs ''value'' of Some x \<Rightarrow> isJsonValue x | None \<Rightarrow> False))"

definition isTurnError :: "json option \<Rightarrow> bool" where
  "isTurnError v \<longleftrightarrow>
     (case fields_of v of None \<Rightarrow> False
      | Some kvs \<Rightarrow> isString (obj_get kvs ''code'') \<and> isString (obj_get kvs ''message'') \<and>
          isBoolean (obj_get kvs ''retryable''))"

definition string_or_null :: "json option \<Rightarrow> bool" where
  "string_or_null v \<longleftrightarrow> is_null v \<or> isString v"

definition array_of :: "(json \<Rightarrow> bool) \<Rightarrow> json option \<Rightarrow> bool" where
  "array_of P v \<longleftrightarrow> (case v of Some (JArr xs) \<Rightarrow> list_all P xs | _ \<Rightarrow> False)"

definition attachment_ids :: "json option \<Rightarrow> json option list" where
  "attachment_ids v =
     (case v of
        Some (JArr xs) \<Rightarrow> map (\<lambda>x. case plain_fields x of Some kvs \<Rightarrow> obj_get kvs ''attachment_id'' | None \<Rightarrow> None) xs
      | _ \<Rightarrow> [])"

definition isMessage :: "(string \<times> json) list \<Rightarrow> bool" where
  "isMessage m \<longleftrightarrow>
     hasExactKeys m (if has_own m ''turn_id''
       then [''message_id'', ''turn_id'', ''role'', ''content'', ''attachments'', ''created_at'', ''attribution'']
       else [''message_id'', ''role'', ''content'', ''attachments'', ''created_at'', ''attribution'']) \<and>
     isIdentifier (obj_get m ''message_id'') \<and>
     (\<not> has_own m ''turn_id'' \<or> is_null (obj_get m ''turn_id'') \<or> isIdentifier (obj_get m ''turn_id'')) \<and>
     (is_null (obj_get m ''role'') \<or> string_in (obj_get m ''role'') [''user'', ''assistant'', ''system'']) \<and>
     array_of isTextPart (obj_get m ''content'') \<and>
     array_of isConversationAttachmentReference (obj_get m ''attachments'') \<and>
     distinct (attachment_ids (obj_get m ''attachments'')) \<and>
     string_or_null (obj_get m ''created_at'') \<and>
     isNullableAttribution (obj_get m ''attribution'')"

definition isAttachmentRecord :: "(string \<times> json) list \<Rightarrow> bool" where
  "isAttachmentRecord a \<longleftrightarrow>
     hasExactKeys a [''message_id'', ''attachment_id'', ''reference'', ''referenced_at'', ''attribution''] \<and>
     isIdentifier (obj_get a ''message_id'') \<and>
     (case obj_get a ''reference'' of None \<Rightarrow> False
      | Some r \<Rightarrow> isConversationAttachmentReference r \<and>
          obj_get a ''attachment_id'' =
            (case plain_fields r of Some kvs \<Rightarrow> obj_get kvs ''attachment_id'' | None \<Rightarrow> None)) \<and>
     isConversationTimestamp (obj_get a ''referenced_at'') \<and>
     isAttribution (obj_get a ''attribution'')"

section \<open>The attachment projection\<close>

definition reference_fields :: "json \<Rightarrow> json option list" where
  "reference_fields v =
     (case plain_fields v of
        Some kvs \<Rightarrow> map (obj_get kvs) [''attachment_id'', ''kind'', ''media_type'', ''filename'', ''size_bytes'']
      | None \<Rightarrow> [])"

definition sameAttachmentReference :: "json \<Rightarrow> json \<Rightarrow> bool" where
  "sameAttachmentReference l r \<longleftrightarrow>
     isConversationAttachmentReference l \<and> isConversationAttachmentReference r \<and>
     reference_fields l = reference_fields r"

definition items_of :: "json option \<Rightarrow> json list" where
  "items_of v = (case v of Some (JArr xs) \<Rightarrow> xs | _ \<Rightarrow> [])"

text \<open>
  The source joins the two identities with a NUL unit into one key; an attachment id has
  no such unit, so the joined keys are distinct when the pairs are.
\<close>

definition hasConsistentAttachmentProjection ::
    "(string \<times> json) list list \<Rightarrow> (string \<times> json) list list \<Rightarrow> bool" where
  "hasConsistentAttachmentProjection ms as \<longleftrightarrow>
     distinct (map (\<lambda>m. obj_get m ''message_id'') ms) \<and>
     distinct (map (\<lambda>a. (obj_get a ''message_id'', obj_get a ''attachment_id'')) as) \<and>
     list_all (\<lambda>m. list_all (\<lambda>r.
         case List.find (\<lambda>a. obj_get a ''message_id'' = obj_get m ''message_id'' \<and>
             Some (obj_get a ''attachment_id'') = map_option (\<lambda>kvs. obj_get kvs ''attachment_id'') (plain_fields r)) as of
           None \<Rightarrow> False
         | Some a \<Rightarrow> (case obj_get a ''reference'' of Some q \<Rightarrow> sameAttachmentReference q r | None \<Rightarrow> False))
       (items_of (obj_get m ''attachments''))) ms \<and>
     list_all (\<lambda>a.
         case List.find (\<lambda>m. obj_get m ''message_id'' = obj_get a ''message_id'') ms of
           None \<Rightarrow> False
         | Some m \<Rightarrow> list_ex (\<lambda>r. case obj_get a ''reference'' of
                Some q \<Rightarrow> sameAttachmentReference q r | None \<Rightarrow> False) (items_of (obj_get m ''attachments''))) as"

section \<open>The citation projection\<close>

definition citation_target_ok ::
    "(string \<times> json) list list \<Rightarrow> (string \<times> json) list list \<Rightarrow> CitationAttachmentTarget \<Rightarrow> bool" where
  "citation_target_ok ms calls t \<longleftrightarrow>
     (case t of
        AssistantMessageCitationTarget mid \<Rightarrow>
          (case List.find (\<lambda>m. obj_get m ''message_id'' = Some (JStr mid)) ms of
             None \<Rightarrow> False
           | Some m \<Rightarrow> is_null (obj_get m ''role'') \<or> obj_get m ''role'' = Some (JStr ''assistant''))
      | ToolResultCitationTarget tcid \<Rightarrow>
          list_ex (\<lambda>c. obj_get c ''tool_call_id'' = Some (JStr tcid)) calls)"

definition hasValidCitationProjection ::
    "host \<Rightarrow> json option \<Rightarrow> json option \<Rightarrow> (string \<times> json) list list \<Rightarrow> (string \<times> json) list list \<Rightarrow> bool" where
  "hasValidCitationProjection H sv cv ms calls \<longleftrightarrow>
     (case (sv, cv) of
        (Some s, Some c) \<Rightarrow>
          (case normalizeCitationRecords H (JObj [(''sources'', s), (''citations'', c)]) of
             Inl e \<Rightarrow> False
           | Inr r \<Rightarrow>
               jsonValuesEqual (JArr (map source_json (sources r))) s \<and>
               jsonValuesEqual (JArr (map citation_json (citations r))) c \<and>
               list_all (\<lambda>x. citation_target_ok ms calls (citation_target x)) (citations r))
      | _ \<Rightarrow> False)"

section \<open>Turns\<close>

definition retry_reason_categories :: "string list" where
  "retry_reason_categories =
     [''rate_limit'', ''timeout'', ''unavailable'', ''internal'', ''disconnected'', ''interrupted'']"

definition isTurnRetryRecord :: "json \<Rightarrow> bool" where
  "isTurnRetryRecord v \<longleftrightarrow>
     (case plain_fields v of None \<Rightarrow> False
      | Some r \<Rightarrow>
          isPositiveSafeInteger (obj_get r ''attempt'') \<and>
          isConversationTimestamp (obj_get r ''occurred_at'') \<and> isAttribution (obj_get r ''attribution'') \<and>
          (if obj_get r ''type'' = Some (JStr ''turn.attempt_started'') then
             hasExactKeys r [''type'', ''attempt'', ''operation'', ''occurred_at'', ''attribution''] \<and>
             isOneOf (obj_get r ''operation'') [''start'', ''resume'']
           else if obj_get r ''type'' = Some (JStr ''turn.retry_scheduled'') then
             hasExactKeys r [''type'', ''attempt'', ''reason_category'', ''delay_ms'', ''occurred_at'', ''attribution''] \<and>
             isOneOf (obj_get r ''reason_category'') retry_reason_categories \<and>
             isNonnegativeSafeInteger (obj_get r ''delay_ms'')
           else if obj_get r ''type'' = Some (JStr ''turn.retry_exhausted'') then
             hasExactKeys r [''type'', ''attempt'', ''reason_category'', ''exhaustion_reason'', ''occurred_at'',
               ''attribution''] \<and>
             isOneOf (obj_get r ''reason_category'') retry_reason_categories \<and>
             isOneOf (obj_get r ''exhaustion_reason'') [''maximum_attempts'', ''maximum_elapsed_time'']
           else False))"

definition cancellation_reasons :: "string list" where
  "cancellation_reasons = [''user'', ''timeout'', ''superseded'', ''runtime_shutdown'']"

definition isTurn :: "(string \<times> json) list \<Rightarrow> bool" where
  "isTurn t \<longleftrightarrow>
     isIdentifier (obj_get t ''turn_id'') \<and>
     (is_null (obj_get t ''continuation_of_turn_id'') \<or> isIdentifier (obj_get t ''continuation_of_turn_id'')) \<and>
     string_in (obj_get t ''status'') [''queued'', ''running'', ''waiting_for_tool_result'', ''completed'',
       ''cancelled'', ''failed''] \<and>
     identifier_array (obj_get t ''input_message_ids'') \<noteq> None \<and>
     identifier_array (obj_get t ''output_message_ids'') \<noteq> None \<and>
     (is_null (obj_get t ''outcome'') \<or> string_in (obj_get t ''outcome'') [''stop'', ''length'', ''tool_calls'']) \<and>
     (is_null (obj_get t ''cancellation_reason'') \<or>
        string_in (obj_get t ''cancellation_reason'') cancellation_reasons) \<and>
     (is_null (obj_get t ''cancellation_status'') \<or>
        isOneOf (obj_get t ''cancellation_status'') [''requested'', ''unsupported'', ''cancelled'']) \<and>
     (is_null (obj_get t ''cancellation_requested_reason'') \<or>
        isOneOf (obj_get t ''cancellation_requested_reason'') cancellation_reasons) \<and>
     isBoolean (obj_get t ''remote_may_still_be_running'') \<and>
     (is_null (obj_get t ''error'') \<or> isTurnError (obj_get t ''error'')) \<and>
     array_of isTurnRetryRecord (obj_get t ''retry_history'') \<and>
     string_or_null (obj_get t ''started_at'') \<and> string_or_null (obj_get t ''terminal_at'') \<and>
     isNullableAttribution (obj_get t ''attribution'')"

section \<open>Tool calls\<close>

definition isToolResult :: "host \<Rightarrow> json option \<Rightarrow> json option \<Rightarrow> bool" where
  "isToolResult H v toolCallId \<longleftrightarrow>
     (case fields_of v of None \<Rightarrow> False
      | Some r \<Rightarrow>
          hasExactKeys r (if has_own r ''citation_records''
            then [''content'', ''is_error'', ''citation_records'', ''recorded_at'', ''attribution'']
            else [''content'', ''is_error'', ''recorded_at'', ''attribution'']) \<and>
          array_of (\<lambda>p. isTextPart p \<or> isJsonPart p) (obj_get r ''content'') \<and>
          isBoolean (obj_get r ''is_error'') \<and> isString (obj_get r ''recorded_at'') \<and>
          isAttribution (obj_get r ''attribution'') \<and>
          (case obj_get r ''citation_records'' of None \<Rightarrow> True
           | Some rv \<Rightarrow>
               (case normalizeCitationRecords H rv of Inl e \<Rightarrow> False
                | Inr n \<Rightarrow> citations n \<noteq> [] \<and> jsonValuesEqual (records_json n) rv \<and>
                    list_all (\<lambda>c. case citation_target c of
                        ToolResultCitationTarget t \<Rightarrow> toolCallId = Some (JStr t)
                      | AssistantMessageCitationTarget _ \<Rightarrow> False) (citations n))))"

definition isToolCall :: "host \<Rightarrow> (string \<times> json) list \<Rightarrow> bool" where
  "isToolCall H c \<longleftrightarrow>
     isIdentifier (obj_get c ''tool_call_id'') \<and> isIdentifier (obj_get c ''turn_id'') \<and>
     string_or_null (obj_get c ''name'') \<and>
     (is_null (obj_get c ''arguments'') \<or> isJsonObject (obj_get c ''arguments'')) \<and>
     string_or_null (obj_get c ''requested_at'') \<and> string_or_null (obj_get c ''discovered_at'') \<and>
     string_or_null (obj_get c ''started_at'') \<and> string_or_null (obj_get c ''approval_required_at'') \<and>
     isNullableAttribution (obj_get c ''attribution'') \<and>
     (is_null (obj_get c ''result'') \<or> isToolResult H (obj_get c ''result'') (obj_get c ''tool_call_id''))"

section \<open>Approval proposals\<close>

definition parsed_time :: "json option \<Rightarrow> int option" where
  "parsed_time v = (case v of Some (JStr s) \<Rightarrow> Date_parse s | _ \<Rightarrow> None)"

definition attribution_actor_type :: "json option \<Rightarrow> json option" where
  "attribution_actor_type v =
     (case fields_of v of None \<Rightarrow> None
      | Some kvs \<Rightarrow> (case fields_of (obj_get kvs ''actor'') of None \<Rightarrow> None | Some a \<Rightarrow> obj_get a ''type''))"

definition reason_or_null :: "json option \<Rightarrow> bool" where
  "reason_or_null v \<longleftrightarrow> is_null v \<or> (case v of Some x \<Rightarrow> isConversationApprovalReason x | None \<Rightarrow> False)"

definition proposal_fields_ok :: "host \<Rightarrow> (string \<times> json) list \<Rightarrow> bool" where
  "proposal_fields_ok H p \<longleftrightarrow>
     hasExactKeys p [''proposal_id'', ''group_id'', ''turn_id'', ''tool_call_id'', ''tool_name'',
       ''reviewed_arguments'', ''status'', ''proposal_version'', ''expires_at'', ''created_at'', ''updated_at'',
       ''created_attribution'', ''latest_attribution'', ''decision_at'', ''decision_attribution'',
       ''decision_reason'', ''failure_reason''] \<and>
     isIdentifier (obj_get p ''proposal_id'') \<and>
     (is_null (obj_get p ''group_id'') \<or> isIdentifier (obj_get p ''group_id'')) \<and>
     isIdentifier (obj_get p ''turn_id'') \<and> isIdentifier (obj_get p ''tool_call_id'') \<and>
     isIdentifier (obj_get p ''tool_name'') \<and>
     (case obj_get p ''reviewed_arguments'' of None \<Rightarrow> False
      | Some a \<Rightarrow> isConversationApprovalReviewedArguments H a) \<and>
     isOneOf (obj_get p ''status'') [''pending'', ''confirmed'', ''rejected'', ''expired'', ''executing'',
       ''executed'', ''failed''] \<and>
     isPositiveSafeInteger (obj_get p ''proposal_version'') \<and>
     isConversationTimestamp (obj_get p ''expires_at'') \<and>
     isConversationTimestamp (obj_get p ''created_at'') \<and>
     isConversationTimestamp (obj_get p ''updated_at'') \<and>
     \<not> time_le (parsed_time (obj_get p ''expires_at'')) (parsed_time (obj_get p ''created_at'')) \<and>
     \<not> time_less (parsed_time (obj_get p ''updated_at'')) (parsed_time (obj_get p ''created_at'')) \<and>
     isAttribution (obj_get p ''created_attribution'') \<and>
     attribution_actor_type (obj_get p ''created_attribution'') = Some (JStr ''system'') \<and>
     isAttribution (obj_get p ''latest_attribution'') \<and>
     (is_null (obj_get p ''decision_at'') \<or> isConversationTimestamp (obj_get p ''decision_at'')) \<and>
     isNullableAttribution (obj_get p ''decision_attribution'') \<and>
     reason_or_null (obj_get p ''decision_reason'') \<and> reason_or_null (obj_get p ''failure_reason'')"

definition version_number :: "json option \<Rightarrow> int" where
  "version_number v = (case v of Some (JNum n) \<Rightarrow> int_of_number n | _ \<Rightarrow> 0)"

definition isApprovalProposal :: "host \<Rightarrow> (string \<times> json) list \<Rightarrow> bool" where
  "isApprovalProposal H p \<longleftrightarrow>
     proposal_fields_ok H p \<and>
     (if obj_get p ''status'' = Some (JStr ''pending'') then
        version_number (obj_get p ''proposal_version'') = 1 \<and> is_null (obj_get p ''decision_at'') \<and>
        is_null (obj_get p ''decision_attribution'') \<and> is_null (obj_get p ''decision_reason'') \<and>
        is_null (obj_get p ''failure_reason'')
      else
        \<not> version_number (obj_get p ''proposal_version'') < 2 \<and> \<not> is_null (obj_get p ''decision_at'') \<and>
        \<not> is_null (obj_get p ''decision_attribution'') \<and>
        string_in (attribution_actor_type (obj_get p ''decision_attribution'')) [''user'', ''system''] \<and>
        (isOneOf (obj_get p ''status'') [''confirmed'', ''rejected'', ''expired'', ''executing'', ''executed'']
           \<longrightarrow> is_null (obj_get p ''failure_reason'')) \<and>
        (obj_get p ''status'' \<noteq> Some (JStr ''failed'') \<or> \<not> is_null (obj_get p ''failure_reason'')))"

definition isConversationApprovalProposalRecord :: "host \<Rightarrow> json \<Rightarrow> bool" where
  "isConversationApprovalProposalRecord H v \<longleftrightarrow>
     (case plain_fields v of None \<Rightarrow> False | Some p \<Rightarrow> isApprovalProposal H p)"

section \<open>The rest of the state\<close>

definition isToolLoopBudgetExhaustion :: "(string \<times> json) list \<Rightarrow> bool" where
  "isToolLoopBudgetExhaustion e \<longleftrightarrow>
     isIdentifier (obj_get e ''turn_id'') \<and>
     string_in (obj_get e ''budget'') [''iterations'', ''total_tool_calls'', ''wall_clock''] \<and>
     isPositiveSafeInteger (obj_get e ''limit'') \<and> isString (obj_get e ''exhausted_at'') \<and>
     isAttribution (obj_get e ''attribution'')"

definition isUsageLink :: "(string \<times> json) list \<Rightarrow> bool" where
  "isUsageLink l \<longleftrightarrow>
     isIdentifier (obj_get l ''usage_receipt_id'') \<and> isIdentifier (obj_get l ''turn_id'') \<and>
     isString (obj_get l ''linked_at'') \<and> isAttribution (obj_get l ''attribution'')"

definition state_keys :: "string list" where
  "state_keys = [''conversation_id'', ''revision'', ''last_event_id'', ''processed_event_ids'',
     ''processed_mutation_ids'', ''messages'', ''attachments'', ''citation_sources'', ''citations'', ''turns'',
     ''active_turn_id'', ''tool_calls'', ''approval_proposals'', ''tool_loop_budget_exhaustions'',
     ''usage_receipt_links'', ''metadata'', ''title'', ''replay_error'']"

definition log_fields_ok :: "(string \<times> json) list \<Rightarrow> string option \<Rightarrow> int option \<Rightarrow> bool" where
  "log_fields_ok v cid latest \<longleftrightarrow>
     (case (identifier_array (obj_get v ''processed_event_ids''),
            identifier_array (obj_get v ''processed_mutation_ids'')) of
        (Some eventIds, Some mutationIds) \<Rightarrow>
          int (length eventIds) = (case latest of None \<Rightarrow> 0 | Some r \<Rightarrow> r) \<and>
          distinct eventIds \<and> distinct mutationIds \<and>
          \<not> (latest \<noteq> None \<and>
             (if eventIds = [] then None else Some (JStr (last eventIds))) \<noteq> obj_get v ''last_event_id'')
      | _ \<Rightarrow> False)"

definition proposal_tool_call_ok :: "(string \<times> json) list list \<Rightarrow> (string \<times> json) list \<Rightarrow> bool" where
  "proposal_tool_call_ok calls p \<longleftrightarrow>
     list_ex (\<lambda>c. obj_get c ''tool_call_id'' = obj_get p ''tool_call_id'' \<and>
        obj_get c ''turn_id'' = obj_get p ''turn_id'' \<and> obj_get c ''name'' = obj_get p ''tool_name'' \<and>
        \<not> is_null (obj_get c ''approval_required_at'')) calls"

definition isConversationState :: "host \<Rightarrow> json \<Rightarrow> string option \<Rightarrow> int option \<Rightarrow> bool" where
  "isConversationState H value cid latest \<longleftrightarrow>
     (case plain_fields value of None \<Rightarrow> False
      | Some v \<Rightarrow>
          hasExactKeys v state_keys \<and>
          obj_get v ''conversation_id'' = Some (nullable JStr cid) \<and>
          obj_get v ''revision'' = Some (nullable jint latest) \<and>
          (if latest = None then is_null (obj_get v ''last_event_id'') else isIdentifier (obj_get v ''last_event_id'')) \<and>
          is_null (obj_get v ''replay_error'') \<and> string_or_null (obj_get v ''title'') \<and>
          isJsonObject (obj_get v ''metadata'') \<and>
          log_fields_ok v cid latest \<and>
          recordArray (obj_get v ''messages'') isMessage \<and>
          recordArray (obj_get v ''attachments'') isAttachmentRecord \<and>
          hasConsistentAttachmentProjection (records_of (obj_get v ''messages''))
            (records_of (obj_get v ''attachments'')) \<and>
          recordArray (obj_get v ''turns'') isTurn \<and>
          recordArray (obj_get v ''tool_calls'') (isToolCall H) \<and>
          hasValidCitationProjection H (obj_get v ''citation_sources'') (obj_get v ''citations'')
            (records_of (obj_get v ''messages'')) (records_of (obj_get v ''tool_calls'')) \<and>
          recordArray (obj_get v ''approval_proposals'') (isApprovalProposal H) \<and>
          distinct (map (\<lambda>p. obj_get p ''proposal_id'') (records_of (obj_get v ''approval_proposals''))) \<and>
          list_all (proposal_tool_call_ok (records_of (obj_get v ''tool_calls'')))
            (records_of (obj_get v ''approval_proposals'')) \<and>
          recordArray (obj_get v ''tool_loop_budget_exhaustions'') isToolLoopBudgetExhaustion \<and>
          recordArray (obj_get v ''usage_receipt_links'') isUsageLink \<and>
          (is_null (obj_get v ''active_turn_id'') \<or> isIdentifier (obj_get v ''active_turn_id'')) \<and>
          (is_null (obj_get v ''active_turn_id'') \<or>
           list_ex (\<lambda>t. obj_get t ''turn_id'' = obj_get v ''active_turn_id'' \<and>
              string_in (obj_get t ''status'') [''queued'', ''running'', ''waiting_for_tool_result''])
             (records_of (obj_get v ''turns''))))"

section \<open>Projections that cannot be stored\<close>

text \<open>
  The validator normalizes the accumulated citations as if they were one record set, so
  the limits of a record set bound the whole conversation: a projection with more
  sources than one record set may have is never accepted as a checkpoint.
\<close>

lemma too_many_sources_invalid:
  assumes "length (citation_sources st) > sourcesPerRecordSet"
  shows "\<not> isConversationState H (state_json st) cid latest"
proof
  assume "isConversationState H (state_json st) cid latest"
  then have "hasValidCitationProjection H (Some (JArr (map source_json (citation_sources st))))
      (Some (JArr (map citation_json (state_citations st)))) (records_of (Some (JArr (map message_json (messages st)))))
      (records_of (Some (JArr (map tool_call_json (tool_calls st)))))"
    unfolding isConversationState_def state_json_def by simp
  then show False
    using assms
    by (auto simp: hasValidCitationProjection_def normalizeCitationRecords_def citation_record_def
        deduplicateCitationRecords_def citation_array_def fail_def allowedKeys_def requiredKeys_def
        split: sum.splits)
qed

lemma too_many_citations_invalid:
  assumes "length (state_citations st) > citationsPerRecordSet"
  shows "\<not> isConversationState H (state_json st) cid latest"
proof
  assume "isConversationState H (state_json st) cid latest"
  then have "hasValidCitationProjection H (Some (JArr (map source_json (citation_sources st))))
      (Some (JArr (map citation_json (state_citations st)))) (records_of (Some (JArr (map message_json (messages st)))))
      (records_of (Some (JArr (map tool_call_json (tool_calls st)))))"
    unfolding isConversationState_def state_json_def by simp
  then obtain r where "normalizeCitationRecords H
      (JObj [(''sources'', JArr (map source_json (citation_sources st))),
             (''citations'', JArr (map citation_json (state_citations st)))]) = Inr r"
    by (auto simp: hasValidCitationProjection_def split: sum.splits)
  with assms show False
    by (auto simp: normalizeCitationRecords_def citation_record_def deduplicateCitationRecords_def
        citation_array_def split: if_splits)
qed

end
