(* ===== verification/Store.thy ===== *)
theory Store
  imports ReducerLog
begin

text \<open>
  The headless conversation store (src/conversation/store.ts): a snapshot behind one
  mutation boundary. \<open>applyEvents\<close> puts a batch behind the earlier ones (the promise
  chain); \<open>run_next\<close> is the microtask that applies the oldest one. Listeners are the
  host's code: what a callback does to the store (unsubscribe, destroy, enqueue) is the
  parameter \<open>react\<close>. The calls made are recorded, in order, in \<open>calls\<close>.
\<close>

datatype StoreError = DestroyedError | ReducerFault fault | ForeignStateError

record 'v SelectorSubscription =
  subscription_id :: nat
  selector :: "ConversationState \<Rightarrow> 'v"
  isEqual :: "'v \<Rightarrow> 'v \<Rightarrow> bool"
  previousSelected :: 'v

datatype 'v Call =
    ListenerCall nat
  | SelectorCall nat 'v 'v \<comment> \<open>subscription, selected, previous\<close>

record 'v ConversationStore =
  snapshot :: ConversationState
  destroyed :: bool
  listeners :: "nat list"
  selectorSubscriptions :: "'v SelectorSubscription list"
  boundary :: "ConversationEvent list list" \<comment> \<open>batches not yet run, oldest first\<close>
  next_id :: nat
  calls :: "'v Call list"

definition createConversationStore ::
    "string option \<Rightarrow> ConversationState \<Rightarrow> StoreError + 'v ConversationStore" where
  "createConversationStore cid initial =
     (if cid \<noteq> None \<and> conversation_id initial \<noteq> None \<and> conversation_id initial \<noteq> cid
      then Inl ForeignStateError
      else Inr \<lparr>snapshot = initial, destroyed = False, listeners = [], selectorSubscriptions = [],
                boundary = [], next_id = 0, calls = []\<rparr>)"

section \<open>Subscriptions\<close>

definition subscribe :: "'v ConversationStore \<Rightarrow> StoreError + nat \<times> 'v ConversationStore" where
  "subscribe s =
     (if destroyed s then Inl DestroyedError
      else Inr (next_id s, s\<lparr>listeners := listeners s @ [next_id s], next_id := next_id s + 1\<rparr>))"

definition unsubscribe :: "nat \<Rightarrow> 'v ConversationStore \<Rightarrow> 'v ConversationStore" where
  "unsubscribe l s = s\<lparr>listeners := filter (\<lambda>x. x \<noteq> l) (listeners s)\<rparr>"

definition select_value :: "(ConversationState \<Rightarrow> 'a) \<Rightarrow> 'v ConversationStore \<Rightarrow> 'a" where
  "select_value sel s = sel (snapshot s)"

definition select_subscribe ::
    "(ConversationState \<Rightarrow> 'v) \<Rightarrow> ('v \<Rightarrow> 'v \<Rightarrow> bool) \<Rightarrow> 'v ConversationStore \<Rightarrow>
     StoreError + nat \<times> 'v ConversationStore" where
  "select_subscribe sel eq s =
     (if destroyed s then Inl DestroyedError
      else Inr (next_id s, s\<lparr>selectorSubscriptions := selectorSubscriptions s @
             [\<lparr>subscription_id = next_id s, selector = sel, isEqual = eq,
               previousSelected = sel (snapshot s)\<rparr>], next_id := next_id s + 1\<rparr>))"

definition select_unsubscribe :: "nat \<Rightarrow> 'v ConversationStore \<Rightarrow> 'v ConversationStore" where
  "select_unsubscribe i s =
     s\<lparr>selectorSubscriptions := filter (\<lambda>x. subscription_id x \<noteq> i) (selectorSubscriptions s)\<rparr>"

section \<open>Notification\<close>

text \<open>The first loop: over a copy of the listeners, skipping those removed meanwhile.\<close>

fun notify_listeners ::
    "('v Call \<Rightarrow> 'v ConversationStore \<Rightarrow> 'v ConversationStore) \<Rightarrow> nat list \<Rightarrow> 'v ConversationStore \<Rightarrow>
     'v ConversationStore" where
  "notify_listeners react [] s = s"
| "notify_listeners react (l # ls) s =
     (if destroyed s then s
      else if l \<notin> set (listeners s) then notify_listeners react ls s
      else notify_listeners react ls
             (react (ListenerCall l) (s\<lparr>calls := calls s @ [ListenerCall l]\<rparr>)))"

text \<open>\<open>subscription.notify(snapshot)\<close>: the listener is called only on a change.\<close>

definition notify_subscription ::
    "('v Call \<Rightarrow> 'v ConversationStore \<Rightarrow> 'v ConversationStore) \<Rightarrow> 'v SelectorSubscription \<Rightarrow>
     'v ConversationStore \<Rightarrow> 'v ConversationStore" where
  "notify_subscription react sub s =
     (let nextSelected = selector sub (snapshot s) in
      if isEqual sub (previousSelected sub) nextSelected then s
      else (let call = SelectorCall (subscription_id sub) nextSelected (previousSelected sub) in
        react call (s\<lparr>selectorSubscriptions := map (\<lambda>x.
              if subscription_id x = subscription_id sub then x\<lparr>previousSelected := nextSelected\<rparr> else x)
              (selectorSubscriptions s), calls := calls s @ [call]\<rparr>)))"

fun notify_selectors ::
    "('v Call \<Rightarrow> 'v ConversationStore \<Rightarrow> 'v ConversationStore) \<Rightarrow> nat list \<Rightarrow> 'v ConversationStore \<Rightarrow>
     'v ConversationStore" where
  "notify_selectors react [] s = s"
| "notify_selectors react (i # is) s =
     (case List.find (\<lambda>x. subscription_id x = i) (selectorSubscriptions s) of
        None \<Rightarrow> notify_selectors react is s
      | Some sub \<Rightarrow>
          (let s' = notify_subscription react sub s in
           if destroyed s' then s' else notify_selectors react is s'))"

definition notify ::
    "('v Call \<Rightarrow> 'v ConversationStore \<Rightarrow> 'v ConversationStore) \<Rightarrow> 'v ConversationStore \<Rightarrow>
     'v ConversationStore" where
  "notify react s =
     (let s' = notify_listeners react (listeners s) s in
      if destroyed s' then s'
      else notify_selectors react (map subscription_id (selectorSubscriptions s')) s')"

section \<open>Mutation\<close>

definition applyEvents ::
    "ConversationEvent list \<Rightarrow> 'v ConversationStore \<Rightarrow> StoreError + 'v ConversationStore" where
  "applyEvents evs s =
     (if destroyed s then Inl DestroyedError else Inr (s\<lparr>boundary := boundary s @ [evs]\<rparr>))"

definition applyEvent :: "ConversationEvent \<Rightarrow> 'v ConversationStore \<Rightarrow> StoreError + 'v ConversationStore" where
  "applyEvent ev = applyEvents [ev]"

text \<open>
  \<open>nextSnapshot !== previousSnapshot\<close> compares references. One reduction returns its
  argument or a new object that differs from it, so the references differ when some
  reduction of the batch changed the state.
\<close>

fun batch_changes :: "host \<Rightarrow> ConversationState \<Rightarrow> ConversationEvent list \<Rightarrow> bool" where
  "batch_changes H st [] = False"
| "batch_changes H st (ev # evs) =
     (case reduceConversationEvent H st ev of
        Inl e \<Rightarrow> False
      | Inr st' \<Rightarrow> st' \<noteq> st \<or> batch_changes H st' evs)"

text \<open>
  One step of the mutation boundary: the outcome of the batch's promise and the store
  behind it. The batch is removed whatever happens, so a failure does not block the next.
\<close>

definition run_batch ::
    "host \<Rightarrow> ('v Call \<Rightarrow> 'v ConversationStore \<Rightarrow> 'v ConversationStore) \<Rightarrow> ConversationEvent list \<Rightarrow>
     'v ConversationStore \<Rightarrow> (StoreError + ConversationState) \<times> 'v ConversationStore" where
  "run_batch H react evs s =
     (if destroyed s then (Inl DestroyedError, s)
      else case reduceEvents H (snapshot s) evs of
        Inl e \<Rightarrow> (Inl (ReducerFault e), s)
      | Inr nextSnapshot \<Rightarrow>
          (let s' = (if batch_changes H (snapshot s) evs then notify react (s\<lparr>snapshot := nextSnapshot\<rparr>) else s)
           in (Inr (snapshot s'), s')))"

definition run_next ::
    "host \<Rightarrow> ('v Call \<Rightarrow> 'v ConversationStore \<Rightarrow> 'v ConversationStore) \<Rightarrow> 'v ConversationStore \<Rightarrow>
     (StoreError + ConversationState) option \<times> 'v ConversationStore" where
  "run_next H react s =
     (case boundary s of
        [] \<Rightarrow> (None, s)
      | evs # rest \<Rightarrow>
          (let (outcome, s') = run_batch H react evs (s\<lparr>boundary := rest\<rparr>) in (Some outcome, s')))"

definition destroy :: "'v ConversationStore \<Rightarrow> 'v ConversationStore" where
  "destroy s = (if destroyed s then s
     else s\<lparr>destroyed := True, listeners := [], selectorSubscriptions := []\<rparr>)"

section \<open>Notification leaves the snapshot alone\<close>

text \<open>
  A callback reaches the store through its operations only, none of which writes the
  snapshot, revives a destroyed store or drops a queued batch.
\<close>

definition keeps_snapshot ::
    "('v Call \<Rightarrow> 'v ConversationStore \<Rightarrow> 'v ConversationStore) \<Rightarrow> bool" where
  "keeps_snapshot react \<longleftrightarrow>
     (\<forall>c s. snapshot (react c s) = snapshot s \<and> (destroyed s \<longrightarrow> destroyed (react c s)) \<and>
        (\<exists>new. boundary (react c s) = boundary s @ new))"

definition store_extends :: "'v ConversationStore \<Rightarrow> 'v ConversationStore \<Rightarrow> bool" where
  "store_extends s s' \<longleftrightarrow>
     snapshot s' = snapshot s \<and> (destroyed s \<longrightarrow> destroyed s') \<and> (\<exists>new. boundary s' = boundary s @ new)"

lemma store_extends_refl [simp]: "store_extends s s"
  by (simp add: store_extends_def)

lemma store_extends_trans: "store_extends a b \<Longrightarrow> store_extends b c \<Longrightarrow> store_extends a c"
  by (auto simp: store_extends_def)

lemma react_extends: "keeps_snapshot react \<Longrightarrow> store_extends s t \<Longrightarrow> store_extends s (react c t)"
  unfolding keeps_snapshot_def store_extends_def by (metis append.assoc)

lemma notify_listeners_extends:
  "keeps_snapshot react \<Longrightarrow> store_extends s (notify_listeners react ls s)"
proof (induction react ls s rule: notify_listeners.induct)
  case (2 react l ls s)
  let ?t = "react (ListenerCall l) (s\<lparr>calls := calls s @ [ListenerCall l]\<rparr>)"
  have "store_extends s ?t"
    by (rule react_extends [OF 2(3)]) (simp add: store_extends_def)
  with 2 show ?case by (auto intro: store_extends_trans)
qed simp

lemma notify_subscription_extends:
  assumes "keeps_snapshot react"
  shows "store_extends s (notify_subscription react sub s)"
proof -
  have "store_extends s (react c (s\<lparr>selectorSubscriptions := subs, calls := cs\<rparr>))" for c subs cs
    by (rule react_extends [OF assms]) (simp add: store_extends_def)
  then show ?thesis by (simp add: notify_subscription_def Let_def)
qed

lemma notify_selectors_extends:
  "keeps_snapshot react \<Longrightarrow> store_extends s (notify_selectors react is s)"
proof (induction react "is" s rule: notify_selectors.induct)
  case (2 react i "is" s)
  show ?case
  proof (cases "List.find (\<lambda>x. subscription_id x = i) (selectorSubscriptions s)")
    case None
    with 2 show ?thesis by simp
  next
    case (Some sub)
    have "store_extends s (notify_subscription react sub s)"
      using 2(3) by (rule notify_subscription_extends)
    with 2(2) [OF Some refl] 2(3) Some show ?thesis
      by (auto simp: Let_def intro: store_extends_trans)
  qed
qed simp

lemma notify_extends: "keeps_snapshot react \<Longrightarrow> store_extends s (notify react s)"
  unfolding notify_def Let_def
  using notify_listeners_extends [of react s "listeners s"] notify_selectors_extends [of react]
  by (auto intro: store_extends_trans)

section \<open>The mutation boundary\<close>

text \<open>
  A batch is atomic: the whole batch is folded into the snapshot, or nothing is.
\<close>

lemma batch_unchanged: "\<not> batch_changes H st evs \<Longrightarrow> reduceEvents H st evs = Inr st' \<Longrightarrow> st' = st"
  by (induction evs arbitrary: st) (auto split: sum.splits)

lemma run_batch_cases:
  assumes "keeps_snapshot react"
  shows "destroyed s \<Longrightarrow> run_batch H react evs s = (Inl DestroyedError, s)"
    and "\<not> destroyed s \<Longrightarrow> reduceEvents H (snapshot s) evs = Inl e \<Longrightarrow>
         run_batch H react evs s = (Inl (ReducerFault e), s)"
    and "\<not> destroyed s \<Longrightarrow> reduceEvents H (snapshot s) evs = Inr st \<Longrightarrow>
         \<exists>s'. run_batch H react evs s = (Inr st, s') \<and> store_extends (s\<lparr>snapshot := st\<rparr>) s'"
proof -
  show "destroyed s \<Longrightarrow> run_batch H react evs s = (Inl DestroyedError, s)"
    and "\<not> destroyed s \<Longrightarrow> reduceEvents H (snapshot s) evs = Inl e \<Longrightarrow>
         run_batch H react evs s = (Inl (ReducerFault e), s)"
    by (simp_all add: run_batch_def)
  assume live: "\<not> destroyed s" and st: "reduceEvents H (snapshot s) evs = Inr st"
  show "\<exists>s'. run_batch H react evs s = (Inr st, s') \<and> store_extends (s\<lparr>snapshot := st\<rparr>) s'"
  proof (cases "batch_changes H (snapshot s) evs")
    case True
    have "store_extends (s\<lparr>snapshot := st\<rparr>) (notify react (s\<lparr>snapshot := st\<rparr>))"
      using assms by (rule notify_extends)
    with True live st show ?thesis
      by (auto simp: run_batch_def Let_def store_extends_def)
  next
    case False
    then have "st = snapshot s" using st by (rule batch_unchanged)
    with False live st show ?thesis by (simp add: run_batch_def)
  qed
qed

text \<open>A store nobody listens to changes nothing but the snapshot.\<close>

lemma notify_silent: "listeners s = [] \<Longrightarrow> selectorSubscriptions s = [] \<Longrightarrow> notify react s = s"
  by (simp add: notify_def)

section \<open>Batches run in the order they were applied\<close>

text \<open>The reference: fold the batches one after the other, skipping those that throw.\<close>

fun fold_batches :: "host \<Rightarrow> ConversationState \<Rightarrow> ConversationEvent list list \<Rightarrow> ConversationState" where
  "fold_batches H st [] = st"
| "fold_batches H st (b # bs) =
     fold_batches H (case reduceEvents H st b of Inl e \<Rightarrow> st | Inr st' \<Rightarrow> st') bs"

fun run_steps ::
    "host \<Rightarrow> ('v Call \<Rightarrow> 'v ConversationStore \<Rightarrow> 'v ConversationStore) \<Rightarrow> nat \<Rightarrow>
     'v ConversationStore \<Rightarrow> 'v ConversationStore" where
  "run_steps H react 0 s = s"
| "run_steps H react (Suc n) s = run_steps H react n (snd (run_next H react s))"

lemma run_next_head:
  assumes react: "keeps_snapshot react" and b: "boundary s = evs # rest"
  obtains new where "boundary (snd (run_next H react s)) = rest @ new"
    and "snapshot (snd (run_next H react s)) = (if destroyed s then snapshot s
          else case reduceEvents H (snapshot s) evs of Inl e \<Rightarrow> snapshot s | Inr st \<Rightarrow> st)"
    and "destroyed s \<longrightarrow> destroyed (snd (run_next H react s))"
proof -
  let ?s = "s\<lparr>boundary := rest\<rparr>"
  have eq: "snd (run_next H react s) = snd (run_batch H react evs ?s)"
    by (simp add: run_next_def b case_prod_beta)
  show ?thesis
  proof (cases "destroyed s")
    case True
    then show ?thesis using run_batch_cases(1) [OF react, of ?s H evs] eq
      by (intro that [of "[]"]) simp_all
  next
    case live: False
    show ?thesis
    proof (cases "reduceEvents H (snapshot s) evs")
      case (Inl e)
      then show ?thesis using run_batch_cases(2) [OF react, of ?s H evs e] eq live
        by (intro that [of "[]"]) simp_all
    next
      case (Inr st)
      with live obtain s' where "run_batch H react evs ?s = (Inr st, s')"
        and ext: "store_extends (?s\<lparr>snapshot := st\<rparr>) s'"
        using run_batch_cases(3) [OF react, of ?s H evs st] by auto
      moreover from ext obtain new where "boundary s' = rest @ new" by (auto simp: store_extends_def)
      ultimately show ?thesis using Inr live eq
        by (intro that [of new]) (auto simp: store_extends_def)
    qed
  qed
qed

lemma run_steps_destroyed:
  assumes "keeps_snapshot react" and "destroyed s" and "n \<le> length (boundary s)"
  shows "snapshot (run_steps H react n s) = snapshot s \<and> destroyed (run_steps H react n s)"
  using assms(2,3)
proof (induction n arbitrary: s)
  case (Suc n)
  then obtain evs rest where b: "boundary s = evs # rest" by (cases "boundary s") auto
  obtain new where "boundary (snd (run_next H react s)) = rest @ new"
    and "snapshot (snd (run_next H react s)) = snapshot s" "destroyed (snd (run_next H react s))"
    using run_next_head [OF assms(1) b, of H] Suc.prems(1) by auto
  with Suc b show ?case by simp
qed simp

lemma run_steps_prefix:
  assumes "keeps_snapshot react" and "n \<le> length (boundary s)"
  shows "\<exists>k\<le>n. snapshot (run_steps H react n s) = fold_batches H (snapshot s) (take k (boundary s)) \<and>
    (destroyed (run_steps H react n s) \<or> k = n)"
  using assms(2)
proof (induction n arbitrary: s)
  case (Suc n)
  then obtain evs rest where b: "boundary s = evs # rest" by (cases "boundary s") auto
  obtain new where next_b: "boundary (snd (run_next H react s)) = rest @ new"
    and snap: "snapshot (snd (run_next H react s)) = (if destroyed s then snapshot s
          else case reduceEvents H (snapshot s) evs of Inl e \<Rightarrow> snapshot s | Inr st \<Rightarrow> st)"
    using run_next_head [OF assms(1) b, of H] by blast
  show ?case
  proof (cases "destroyed s")
    case True
    with run_steps_destroyed [OF assms(1) True Suc.prems, of H] show ?thesis
      by (intro exI [of _ 0]) simp
  next
    case False
    have "n \<le> length (boundary (snd (run_next H react s)))" using Suc.prems b next_b by simp
    from Suc.IH [OF this] obtain k where k: "k \<le> n"
      "snapshot (run_steps H react (Suc n) s) =
         fold_batches H (snapshot (snd (run_next H react s))) (take k (rest @ new))"
      "destroyed (run_steps H react (Suc n) s) \<or> k = n"
      using next_b by auto
    moreover have "take k (rest @ new) = take k rest" using k(1) Suc.prems b by simp
    ultimately show ?thesis using False snap b
      by (intro exI [of _ "Suc k"]) auto
  qed
qed simp

end
