(* ===== verification/Replay.thy ===== *)
theory Replay
  imports EventStoreInvariants StateValidation Store
begin

text \<open>
  Hydration of a conversation from its durable log (src/conversation/replay.ts): the
  newest compatible checkpoint, the tail read page by page, every event validated and
  folded through a fresh headless store, and the checkpoint policy at the end.

  The pages of one replay are read from one state of the event store. The loop over the
  pages has no bound in the source: it is a partial function, \<open>None\<close> meaning that it does
  not return.
\<close>

section \<open>Checkpoint policy\<close>

definition CONVERSATION_CHECKPOINT_SCHEMA_VERSION :: int where
  "CONVERSATION_CHECKPOINT_SCHEMA_VERSION = 3"

record ConversationCheckpointPolicy =
  eventCount :: "jsnumber option"
  serializedBytes :: "jsnumber option"

definition DEFAULT_CONVERSATION_CHECKPOINT_POLICY :: ConversationCheckpointPolicy where
  "DEFAULT_CONVERSATION_CHECKPOINT_POLICY =
     \<lparr>eventCount = Some (Fin 100), serializedBytes = Some (Fin (256 * 1024))\<rparr>"

datatype ReplayCause =
    ParseFault fault
  | ForeignEvent
  | ReplayError ConversationReplayError
  | NonAdvancingPage

datatype ConversationReplayFailureCode = CorruptEvent | RevisionGap

record ConversationReplayFailure =
  failure_code :: ConversationReplayFailureCode
  failure_conversationId :: string
  failure_lastSafeCursor :: "string option"
  failure_lastSafeRevision :: "int option"
  failure_eventCursor :: "string option"
  failure_expectedRevision :: "int option"
  failure_receivedRevision :: "int option"
  failure_cause :: "ReplayCause option"

datatype ReplayException =
    BatchSizeRangeError
  | ThresholdRangeError
  | ReplayFailed ConversationReplayFailure
  | StoreFailed EventStoreError
  | ProjectionFailed StoreError

definition validateThreshold :: "jsnumber option \<Rightarrow> ReplayException + unit" where
  "validateThreshold value = guard (positive_limit value) ThresholdRangeError"

definition at_least :: "nat \<Rightarrow> jsnumber option \<Rightarrow> bool" where
  "at_least n threshold = (case threshold of None \<Rightarrow> False | Some t \<Rightarrow> int n \<ge> int_of_number t)"

definition shouldWriteConversationCheckpoint ::
    "nat \<Rightarrow> nat \<Rightarrow> ConversationCheckpointPolicy \<Rightarrow> ReplayException + bool" where
  "shouldWriteConversationCheckpoint eventsSinceCheckpoint bytes policy =
     bind_result (validateThreshold (eventCount policy)) (\<lambda>_.
     bind_result (validateThreshold (serializedBytes policy)) (\<lambda>_.
       Inr (at_least eventsSinceCheckpoint (eventCount policy) \<or> at_least bytes (serializedBytes policy))))"

section \<open>Checkpoints\<close>

definition isRevision :: "int \<Rightarrow> bool" where
  "isRevision r \<longleftrightarrow> safe_int r \<and> 0 < r"

definition parseCheckpoint ::
    "host \<Rightarrow> ConversationEventCheckpoint option \<Rightarrow> string \<Rightarrow> int option \<Rightarrow>
     (int \<times> ConversationState) option" where
  "parseCheckpoint H raw conversationId durableLatestRevision =
     (case raw of
        None \<Rightarrow> None
      | Some cp \<Rightarrow>
          if schemaVersion cp \<noteq> Some CONVERSATION_CHECKPOINT_SCHEMA_VERSION \<or>
             checkpoint_conversationId cp \<noteq> conversationId \<or>
             \<not> isRevision (checkpoint_revision cp) \<or>
             (case durableLatestRevision of None \<Rightarrow> True | Some latest \<Rightarrow> checkpoint_revision cp > latest) \<or>
             \<not> isConversationState H (state_json (checkpoint_state cp)) (Some conversationId)
                 (Some (checkpoint_revision cp))
          then None
          else Some (checkpoint_revision cp, checkpoint_state cp))"

datatype ConversationCheckpointStatus = Absent | Invalid | Used

definition checkpoint_status ::
    "ConversationEventCheckpoint option \<Rightarrow> (int \<times> ConversationState) option \<Rightarrow> ConversationCheckpointStatus" where
  "checkpoint_status raw valid = (if raw = None then Absent else if valid = None then Invalid else Used)"

section \<open>The tail\<close>

text \<open>The local variables of the loop; the two sets are lists.\<close>

record Replay =
  projection :: "unit ConversationStore"
  lastSafeRevision :: "int option"
  lastSafeCursor :: "string option"
  readCursor :: "string option"
  replayedEventCount :: nat
  duplicateEventCount :: nat
  seenEventIds :: "string list"
  seenMutationIds :: "string list"

definition replayFailure ::
    "ConversationReplayFailureCode \<Rightarrow> string \<Rightarrow> Replay \<Rightarrow> string option \<Rightarrow> int option \<Rightarrow> int option \<Rightarrow>
     ReplayCause option \<Rightarrow> ReplayException" where
  "replayFailure c conversationId p eventCursor expected received cause = ReplayFailed
     \<lparr>failure_code = c, failure_conversationId = conversationId,
      failure_lastSafeCursor = lastSafeCursor p, failure_lastSafeRevision = lastSafeRevision p,
      failure_eventCursor = eventCursor, failure_expectedRevision = expected,
      failure_receivedRevision = received, failure_cause = cause\<rparr>"

text \<open>\<open>await store.applyEvent(event)\<close> on a store nobody else holds: enqueue and run.\<close>

definition apply_now ::
    "host \<Rightarrow> ConversationEvent \<Rightarrow> unit ConversationStore \<Rightarrow>
     StoreError + ConversationState \<times> unit ConversationStore" where
  "apply_now H ev s =
     bind_result (applyEvent ev s) (\<lambda>queued.
       case run_next H (\<lambda>_ t. t) queued of
         (Some (Inr st), s') \<Rightarrow> Inr (st, s')
       | (Some (Inl e), s') \<Rightarrow> Inl e
       | (None, s') \<Rightarrow> Inr (snapshot s', s'))"

definition already_seen :: "Replay \<Rightarrow> ConversationEvent \<Rightarrow> bool" where
  "already_seen p ev \<longleftrightarrow> event_id ev \<in> set (seenEventIds p) \<or>
     (case mutation_id ev of None \<Rightarrow> False | Some m \<Rightarrow> m \<in> set (seenMutationIds p))"

text \<open>The body of the loop over a page's entries.\<close>

definition replay_entry ::
    "host \<Rightarrow> string \<Rightarrow> Replay \<Rightarrow> StoredConversationEvent \<Rightarrow> ReplayException + Replay" where
  "replay_entry H conversationId p entry =
     (case parseConversationEvent H (event_json (event entry)) of
        Inl cause \<Rightarrow> Inl (replayFailure CorruptEvent conversationId p (Some (cursor entry)) None None
          (Some (ParseFault cause)))
      | Inr ev \<Rightarrow>
          if event_conversation_id ev \<noteq> conversationId
          then Inl (replayFailure CorruptEvent conversationId p (Some (cursor entry)) None None (Some ForeignEvent))
          else if already_seen p ev
          then Inr (p\<lparr>duplicateEventCount := duplicateEventCount p + 1, readCursor := Some (cursor entry)\<rparr>)
          else (let expected = revision_or_zero (lastSafeRevision p) + 1 in
            if event_revision ev \<noteq> expected
            then Inl (replayFailure RevisionGap conversationId p (Some (cursor entry)) (Some expected)
              (Some (event_revision ev)) None)
            else (case apply_now H ev (projection p) of
                Inl e \<Rightarrow> Inl (ProjectionFailed e)
              | Inr (st, store) \<Rightarrow>
                  (case replay_error st of
                     Some err \<Rightarrow> Inl (replayFailure CorruptEvent conversationId p (Some (cursor entry)) None None
                       (Some (ReplayError err)))
                   | None \<Rightarrow> Inr (p\<lparr>projection := store,
                       seenEventIds := event_id ev # seenEventIds p,
                       seenMutationIds := (case mutation_id ev of None \<Rightarrow> seenMutationIds p
                                           | Some m \<Rightarrow> m # seenMutationIds p),
                       lastSafeRevision := Some (event_revision ev), lastSafeCursor := Some (cursor entry),
                       readCursor := Some (cursor entry),
                       replayedEventCount := replayedEventCount p + 1\<rparr>)))))"

definition read_position :: "int option \<Rightarrow> Replay \<Rightarrow> ConversationEventReadPosition option" where
  "read_position checkpointRevision p =
     (case readCursor p of
        Some k \<Rightarrow> Some (AfterCursor k)
      | None \<Rightarrow> (case checkpointRevision of Some r \<Rightarrow> Some (AfterRevision r) | None \<Rightarrow> None))"

text \<open>What follows a page: the end of the log, the next page or a failure.\<close>

definition end_of_log :: "string \<Rightarrow> Replay \<Rightarrow> ReadConversationEventsResult \<Rightarrow> ReplayException + Replay" where
  "end_of_log conversationId p page =
     (if read_latestRevision page \<noteq> lastSafeRevision p
      then Inl (replayFailure RevisionGap conversationId p None
        (Some (revision_or_zero (lastSafeRevision p) + 1)) (read_latestRevision page) None)
      else Inr p)"

definition non_advancing :: "Replay \<Rightarrow> ReadConversationEventsResult \<Rightarrow> bool" where
  "non_advancing p page \<longleftrightarrow>
     nextCursor page = None \<or> (nextCursor page = readCursor p \<and> read_entries page = [])"

partial_function (option) replay_pages ::
    "host \<Rightarrow> 's ConversationEventStore \<Rightarrow> string \<Rightarrow> jsnumber option \<Rightarrow> int option \<Rightarrow> 's \<Rightarrow> Replay \<Rightarrow>
     (ReplayException + Replay) option" where
  [code]: "replay_pages H adapter conversationId batchSize checkpointRevision s p =
     (case store_read adapter \<lparr>read_conversationId = conversationId,
        read_after = read_position checkpointRevision p, read_limit = batchSize\<rparr> s of
        Inl e \<Rightarrow> Some (Inl (StoreFailed e))
      | Inr page \<Rightarrow>
          (case fold_result (replay_entry H conversationId) p (read_entries page) of
             Inl e \<Rightarrow> Some (Inl e)
           | Inr p' \<Rightarrow>
               if \<not> hasMore page then Some (end_of_log conversationId p' page)
               else if non_advancing p' page
               then Some (Inl (replayFailure CorruptEvent conversationId p' None None None (Some NonAdvancingPage)))
               else replay_pages H adapter conversationId batchSize checkpointRevision s
                      (p'\<lparr>readCursor := nextCursor page\<rparr>)))"

section \<open>Replay\<close>

record ReplayConversationResult =
  result_store :: "unit ConversationStore"
  result_state :: ConversationState
  result_checkpointStatus :: ConversationCheckpointStatus
  result_replayedEventCount :: nat
  result_duplicateEventCount :: nat
  result_lastCursor :: "string option"
  result_lastRevision :: "int option"
  result_checkpointWrite :: "WriteConversationEventCheckpointResult option"

text \<open>The checkpoint written at the end, when the policy (None: \<open>false\<close>) asks for one.\<close>

definition write_after_replay ::
    "host \<Rightarrow> 's ConversationEventStore \<Rightarrow> string \<Rightarrow> ConversationCheckpointPolicy option \<Rightarrow> int option \<Rightarrow>
     ConversationState \<Rightarrow> nat \<Rightarrow> 's \<Rightarrow>
     ReplayException + 's \<times> WriteConversationEventCheckpointResult option" where
  "write_after_replay H adapter conversationId policy checkpointRevision st replayed s =
     (case (policy, checkpoints adapter, revision st) of
        (Some pol, Some cps, Some r) \<Rightarrow>
          if (case checkpointRevision of None \<Rightarrow> True | Some cr \<Rightarrow> r > cr)
          then bind_result (shouldWriteConversationCheckpoint replayed
                 (utf8ByteLength (stringify H (state_json st))) pol) (\<lambda>write.
               if write
               then (case checkpoint_write cps \<lparr>checkpoint_conversationId = conversationId,
                       schemaVersion = Some CONVERSATION_CHECKPOINT_SCHEMA_VERSION,
                       checkpoint_revision = r, checkpoint_state = st\<rparr> s of
                       Inl e \<Rightarrow> Inl (StoreFailed e)
                     | Inr (s', res) \<Rightarrow> Inr (s', Some res))
               else Inr (s, None))
          else Inr (s, None)
      | _ \<Rightarrow> Inr (s, None))"

definition start_replay :: "unit ConversationStore \<Rightarrow> ConversationState \<Rightarrow> Replay" where
  "start_replay store initial =
     \<lparr>projection = store, lastSafeRevision = revision initial, lastSafeCursor = None, readCursor = None,
      replayedEventCount = 0, duplicateEventCount = 0, seenEventIds = processed_event_ids initial,
      seenMutationIds = processed_mutation_ids initial\<rparr>"

definition replay_result ::
    "ConversationCheckpointStatus \<Rightarrow> Replay \<Rightarrow> WriteConversationEventCheckpointResult option \<Rightarrow>
     ReplayConversationResult" where
  "replay_result status p write =
     \<lparr>result_store = projection p, result_state = snapshot (projection p),
      result_checkpointStatus = status, result_replayedEventCount = replayedEventCount p,
      result_duplicateEventCount = duplicateEventCount p, result_lastCursor = lastSafeCursor p,
      result_lastRevision = lastSafeRevision p, result_checkpointWrite = write\<rparr>"

definition replayConversation ::
    "host \<Rightarrow> 's ConversationEventStore \<Rightarrow> string \<Rightarrow> jsnumber option \<Rightarrow>
     ConversationCheckpointPolicy option \<Rightarrow> 's \<Rightarrow>
     (ReplayException + 's \<times> ReplayConversationResult) option" where
  "replayConversation H adapter conversationId readBatchSize policy s =
     (if \<not> positive_limit readBatchSize then Some (Inl BatchSizeRangeError)
      else let durableLatestRevision = store_latest adapter conversationId s;
               rawCheckpoint = (case checkpoints adapter of None \<Rightarrow> None
                 | Some cps \<Rightarrow> checkpoint_read cps conversationId s);
               valid = parseCheckpoint H rawCheckpoint conversationId durableLatestRevision;
               initialState = (case valid of Some (r, st) \<Rightarrow> st
                 | None \<Rightarrow> createInitialConversationState (Some conversationId))
           in case createConversationStore (Some conversationId) initialState of
                Inl e \<Rightarrow> Some (Inl (ProjectionFailed e))
              | Inr store \<Rightarrow>
                  (case replay_pages H adapter conversationId readBatchSize (map_option fst valid) s
                      (start_replay store initialState) of
                     None \<Rightarrow> None
                   | Some (Inl e) \<Rightarrow> Some (Inl e)
                   | Some (Inr p) \<Rightarrow> Some (bind_result
                       (write_after_replay H adapter conversationId policy (map_option fst valid)
                         (snapshot (projection p)) (replayedEventCount p) s) (\<lambda>(s', write).
                       Inr (s', replay_result (checkpoint_status rawCheckpoint valid) p write)))))"

section \<open>Replay of a stored log\<close>

context event_reader
begin

text \<open>
  The loop's invariant at position \<open>k\<close> of the log: the projection is the fold of the
  first \<open>k\<close> events and the identities seen are theirs.
\<close>

definition at_prefix :: "'s \<Rightarrow> string \<Rightarrow> nat \<Rightarrow> Replay \<Rightarrow> bool" where
  "at_prefix s c k p \<longleftrightarrow> k \<le> length (stored s c) \<and>
     reduceEvents H (createInitialConversationState (Some c)) (take k (log s c)) = Inr (snapshot (projection p)) \<and>
     \<not> destroyed (projection p) \<and> boundary (projection p) = [] \<and> listeners (projection p) = [] \<and>
     selectorSubscriptions (projection p) = [] \<and>
     lastSafeRevision p = (if k = 0 then None else Some (int k)) \<and>
     set (seenEventIds p) = set (map event_id (take k (log s c))) \<and>
     set (seenMutationIds p) = set (mutation_ids (take k (log s c)))"

lemma prefix_snapshot:
  assumes "store_ok s" "at_prefix s c k p"
  shows "state_inv (snapshot (projection p))"
    and "processed_event_ids (snapshot (projection p)) = map event_id (take k (log s c))"
    and "processed_mutation_ids (snapshot (projection p)) = mutation_ids (take k (log s c))"
    and "expected_revision (snapshot (projection p)) = 1 + int k"
    and "conversation_id (snapshot (projection p)) = Some c" "replay_error (snapshot (projection p)) = None"
proof -
  from assms(2) have k: "k \<le> length (stored s c)" and snap: "reduceEvents H
      (createInitialConversationState (Some c)) (take k (log s c)) = Inr (snapshot (projection p))"
    by (simp_all only: at_prefix_def)
  from fold_log [OF assms(1), of c k] k
  show "state_inv (snapshot (projection p))"
    and "processed_event_ids (snapshot (projection p)) = map event_id (take k (log s c))"
    and "processed_mutation_ids (snapshot (projection p)) = mutation_ids (take k (log s c))"
    and "expected_revision (snapshot (projection p)) = 1 + int k"
    and "conversation_id (snapshot (projection p)) = Some c" "replay_error (snapshot (projection p)) = None"
    unfolding snap by simp_all
qed

text \<open>The event at position \<open>k\<close>: valid, of the conversation, not seen, at the next revision.\<close>

lemma next_entry:
  assumes ok: "store_ok s" and p: "at_prefix s c k p" and k: "k < length (stored s c)"
  defines "ev \<equiv> log s c ! k"
  shows "parseConversationEvent H (event_json ev) = Inr ev" "event_conversation_id ev = c"
    and "event_revision ev = int k + 1" "\<not> already_seen p ev" "validated_event H ev"
    and "take (Suc k) (log s c) = take k (log s c) @ [ev]"
proof -
  have mem: "stored s c ! k \<in> set (stored s c)" using k by simp
  have acc: "accepted_event H ev" using stored_accepted [OF ok mem] k by (simp add: ev_def)
  then show "parseConversationEvent H (event_json ev) = Inr ev" by (simp add: accepted_event_def)
  show "validated_event H ev" using accepted_validated [OF acc] .
  show "event_conversation_id ev = c"
    using log_from_conversation [OF stored_log [OF ok, of c], of ev] nth_mem [of k "log s c"] k
    by (simp add: ev_def)
  show "event_revision ev = int k + 1"
    using log_from_nth [OF stored_log [OF ok, of c], of k] k by (simp add: ev_def)
  show split: "take (Suc k) (log s c) = take k (log s c) @ [ev]"
    using k by (simp add: ev_def take_Suc_conv_app_nth)
  have "distinct (map event_id (take (Suc k) (log s c)))"
    using distinct_take [OF stored_event_ids [OF ok, of c], of "Suc k"] by (simp only: take_map)
  moreover have "distinct (mutation_ids (take (Suc k) (log s c)))"
    by (rule distinct_mutation_ids_take [OF stored_mutation_ids [OF ok]])
  ultimately have fresh: "event_id ev \<notin> set (map event_id (take k (log s c)))"
    "set (mutation_ids (take k (log s c))) \<inter> set (mutation_ids [ev]) = {}"
    unfolding split by simp_all
  have "set (seenEventIds p) = set (map event_id (take k (log s c)))"
    "set (seenMutationIds p) = set (mutation_ids (take k (log s c)))"
    using p by (simp_all only: at_prefix_def)
  with fresh show "\<not> already_seen p ev"
    by (cases "mutation_id ev") (simp_all add: already_seen_def)
qed

lemma apply_now_step:
  assumes "\<not> destroyed t" "boundary t = []" "listeners t = []" "selectorSubscriptions t = []"
    and "reduceConversationEvent H (snapshot t) ev = Inr st"
  shows "\<exists>t'. apply_now H ev t = Inr (st, t') \<and> snapshot t' = st \<and> \<not> destroyed t' \<and> boundary t' = [] \<and>
    listeners t' = [] \<and> selectorSubscriptions t' = []"
proof -
  let ?u = "t\<lparr>boundary := []\<rparr>"
  have run: "run_batch H (\<lambda>_ t. t) [ev] ?u = (Inr st, ?u\<lparr>snapshot := st\<rparr>)"
  proof (cases "batch_changes H (snapshot t) [ev]")
    case True
    then show ?thesis using assms by (simp add: run_batch_def Let_def notify_silent)
  next
    case False
    then have "st = snapshot t" using assms(5) by simp
    with False show ?thesis using assms by (simp add: run_batch_def)
  qed
  then show ?thesis using assms by (simp add: apply_now_def applyEvent_def applyEvents_def run_next_def)
qed

lemma replay_entry_step:
  assumes ok: "store_ok s" and p: "at_prefix s c k p" and k: "k < length (stored s c)"
  shows "\<exists>p'. replay_entry H c p (stored s c ! k) = Inr p' \<and> at_prefix s c (Suc k) p' \<and>
    replayedEventCount p' = Suc (replayedEventCount p) \<and> duplicateEventCount p' = duplicateEventCount p \<and>
    readCursor p' = Some (cursor (stored s c ! k)) \<and> lastSafeCursor p' = Some (cursor (stored s c ! k))"
proof -
  define ev where "ev = log s c ! k"
  have ev: "event (stored s c ! k) = ev" using k by (simp add: ev_def)
  note facts = next_entry [OF ok p k, folded ev_def] and snap = prefix_snapshot [OF ok p]
  obtain st where st: "reduceEvents H (createInitialConversationState (Some c)) (take (Suc k) (log s c)) = Inr st"
    and fine: "replay_error st = None"
    using fold_log [OF ok, of c "Suc k"] by blast
  from st p have red: "reduceConversationEvent H (snapshot (projection p)) ev = Inr st"
    unfolding facts(6) reduceEvents_append by (auto simp: at_prefix_def)
  from p have "\<not> destroyed (projection p)" "boundary (projection p) = []" "listeners (projection p) = []"
    "selectorSubscriptions (projection p) = []" by (simp_all add: at_prefix_def)
  from apply_now_step [OF this red] obtain t' where t': "apply_now H ev (projection p) = Inr (st, t')"
    "snapshot t' = st" "\<not> destroyed t'" "boundary t' = []" "listeners t' = []" "selectorSubscriptions t' = []"
    by blast
  have last: "revision_or_zero (lastSafeRevision p) = int k"
    using p by (simp add: at_prefix_def revision_or_zero_def)
  define p' where "p' = p\<lparr>projection := t', seenEventIds := event_id ev # seenEventIds p,
    seenMutationIds := (case mutation_id ev of None \<Rightarrow> seenMutationIds p | Some m \<Rightarrow> m # seenMutationIds p),
    lastSafeRevision := Some (event_revision ev), lastSafeCursor := Some (cursor (stored s c ! k)),
    readCursor := Some (cursor (stored s c ! k)), replayedEventCount := replayedEventCount p + 1\<rparr>"
  have "replay_entry H c p (stored s c ! k) = Inr p'"
    using facts(1-4) t'(1) fine last by (simp add: replay_entry_def ev p'_def)
  moreover have "at_prefix s c (Suc k) p'"
    using p k facts(3) t' st unfolding at_prefix_def facts(6) by (simp add: p'_def split: option.split)
  ultimately show ?thesis by (simp add: p'_def)
qed

lemma replay_slice:
  assumes ok: "store_ok s" and "at_prefix s c k p" and "k + m \<le> length (stored s c)"
  shows "\<exists>p'. fold_result (replay_entry H c) p (take m (drop k (stored s c))) = Inr p' \<and>
    at_prefix s c (k + m) p' \<and> replayedEventCount p' = replayedEventCount p + m \<and>
    duplicateEventCount p' = duplicateEventCount p \<and>
    (if m = 0 then p' = p else readCursor p' = Some (cursor (stored s c ! (k + m - 1))) \<and>
       lastSafeCursor p' = Some (cursor (stored s c ! (k + m - 1))))"
  using assms(2,3)
proof (induction m arbitrary: k p)
  case (Suc m)
  then have k: "k < length (stored s c)" by simp
  obtain q where q: "replay_entry H c p (stored s c ! k) = Inr q" "at_prefix s c (Suc k) q"
    "replayedEventCount q = Suc (replayedEventCount p)" "duplicateEventCount q = duplicateEventCount p"
    "readCursor q = Some (cursor (stored s c ! k))" "lastSafeCursor q = Some (cursor (stored s c ! k))"
    using replay_entry_step [OF ok Suc.prems(1) k] by blast
  have "Suc k + m \<le> length (stored s c)" using Suc.prems by simp
  from Suc.IH [OF q(2) this] obtain p' where p':
    "fold_result (replay_entry H c) q (take m (drop (Suc k) (stored s c))) = Inr p'"
    "at_prefix s c (Suc k + m) p'" "replayedEventCount p' = replayedEventCount q + m"
    "duplicateEventCount p' = duplicateEventCount q"
    "if m = 0 then p' = q else readCursor p' = Some (cursor (stored s c ! (Suc k + m - 1))) \<and>
       lastSafeCursor p' = Some (cursor (stored s c ! (Suc k + m - 1)))" by blast
  have "take (Suc m) (drop k (stored s c)) = stored s c ! k # take m (drop (Suc k) (stored s c))"
    using k by (simp flip: Cons_nth_drop_Suc)
  with p' q show ?case by (intro exI [of _ p']) (auto split: if_splits)
qed simp

text \<open>The position of the next read, as the loop keeps it: behind the first \<open>k\<close> entries.\<close>

definition reads_from :: "'s \<Rightarrow> string \<Rightarrow> int option \<Rightarrow> nat \<Rightarrow> Replay \<Rightarrow> bool" where
  "reads_from s c checkpointRevision k p \<longleftrightarrow>
     (case readCursor p of
        Some x \<Rightarrow> 0 < k \<and> x = cursor (stored s c ! (k - 1))
      | None \<Rightarrow> (case checkpointRevision of Some r \<Rightarrow> r = int k | None \<Rightarrow> k = 0))"

lemma read_from:
  assumes ok: "store_ok s" and l: "positive_limit l" and k: "k \<le> length (stored s c)"
    and p: "reads_from s c cr k p"
  shows "store_read adapter \<lparr>read_conversationId = c, read_after = read_position cr p, read_limit = l\<rparr> s =
    Inr (page_of (stored s c) k (limit_nat l))"
proof (cases "readCursor p")
  case None
  with p show ?thesis
    using read_start [OF ok l, of c] read_revision [OF ok l, of "int k" c]
    by (auto simp: reads_from_def read_position_def split: option.splits)
next
  case (Some x)
  with p k read_cursor [OF ok l, of "k - 1" c] show ?thesis
    by (auto simp: reads_from_def read_position_def)
qed

lemma page_shape:
  assumes "k \<le> length all" "positive_limit l"
  obtains m where "k + m \<le> length all" "read_entries (page_of all k (limit_nat l)) = take m (drop k all)"
    "hasMore (page_of all k (limit_nat l)) \<longleftrightarrow> k + m < length all"
    "k + m < length all \<Longrightarrow> 0 < m"
    "nextCursor (page_of all k (limit_nat l)) = (if m = 0 then None else Some (cursor (all ! (k + m - 1))))"
proof -
  define m where "m = (case limit_nat l of None \<Rightarrow> length all - k | Some n \<Rightarrow> min n (length all - k))"
  have pos: "k + m < length all \<Longrightarrow> 0 < m"
    using assms(2) by (auto simp: m_def positive_limit_def limit_nat_def split: option.splits)
  have sel: "read_entries (page_of all k (limit_nat l)) = take m (drop k all)"
    by (auto simp: m_def page_of_def Let_def min_def split: option.split)
  have "nextCursor (page_of all k (limit_nat l)) = (if take m (drop k all) = [] then None
      else Some (cursor (last (take m (drop k all)))))"
    unfolding sel [symmetric] by (simp add: page_of_def Let_def)
  moreover have km: "k + m \<le> length all" using assms(1) by (auto simp: m_def split: option.split)
  moreover have "m \<noteq> 0 \<Longrightarrow> last (take m (drop k all)) = all ! (k + m - 1)" using km
    by (subst last_conv_nth) (auto simp: min_def intro!: arg_cong [of _ _ "nth all"])
  moreover have "hasMore (page_of all k (limit_nat l)) \<longleftrightarrow> k + m < length all"
    using km by (auto simp: m_def page_of_def Let_def split: option.splits)
  ultimately show ?thesis using that [of m] sel pos km by (auto simp: min_def)
qed

text \<open>The loop returns, at the end of the log, whatever the page size.\<close>

lemma replay_pages_returns:
  assumes ok: "store_ok s" and l: "positive_limit l"
    and "at_prefix s c k p" "reads_from s c cr k p"
  shows "\<exists>p'. replay_pages H adapter c l cr s p = Some (Inr p') \<and>
    at_prefix s c (length (stored s c)) p' \<and>
    replayedEventCount p' = replayedEventCount p + (length (stored s c) - k) \<and>
    duplicateEventCount p' = duplicateEventCount p \<and>
    lastSafeCursor p' = (if k = length (stored s c) then lastSafeCursor p
      else Some (cursor (last (stored s c))))"
  using assms(3,4)
proof (induction "length (stored s c) - k" arbitrary: k p rule: less_induct)
  case less
  let ?all = "stored s c"
  let ?page = "page_of ?all k (limit_nat l)"
  have k: "k \<le> length ?all" using less.prems(1) by (simp add: at_prefix_def)
  obtain m where m: "k + m \<le> length ?all" "read_entries ?page = take m (drop k ?all)"
    "hasMore ?page \<longleftrightarrow> k + m < length ?all" "k + m < length ?all \<Longrightarrow> 0 < m"
    "nextCursor ?page = (if m = 0 then None else Some (cursor (?all ! (k + m - 1))))"
    using page_shape [OF k l] by metis
  obtain q where q: "fold_result (replay_entry H c) p (take m (drop k ?all)) = Inr q"
    "at_prefix s c (k + m) q" "replayedEventCount q = replayedEventCount p + m"
    "duplicateEventCount q = duplicateEventCount p"
    "if m = 0 then q = p else readCursor q = Some (cursor (?all ! (k + m - 1))) \<and>
       lastSafeCursor q = Some (cursor (?all ! (k + m - 1)))"
    using replay_slice [OF ok less.prems(1) m(1)] by metis
  have "fold_result (replay_entry H c) p (read_entries ?page) = Inr q" using q(1) by (simp only: m(2))
  note unfold = replay_pages.simps [of H adapter c l cr s p] read_from [OF ok l k less.prems(2)] this
  show ?case
  proof (cases "k + m < length ?all")
    case True
    then have "0 < m" by (rule m(4))
    then have rc: "readCursor q = nextCursor ?page" "nextCursor ?page \<noteq> None" using q(5) m(5) by auto
    have "read_entries ?page \<noteq> []" using \<open>0 < m\<close> True by (simp add: m(2))
    then have go: "replay_pages H adapter c l cr s p = replay_pages H adapter c l cr s q"
      using rc(2) True m(3) by (auto simp: unfold non_advancing_def simp flip: rc(1))
    have "reads_from s c cr (k + m) q" using q(5) \<open>0 < m\<close> by (simp add: reads_from_def)
    have smaller: "length ?all - (k + m) < length ?all - k" using \<open>0 < m\<close> True by simp
    from less.hyps [OF smaller q(2) \<open>reads_from s c cr (k + m) q\<close>] True obtain p' where p':
      "replay_pages H adapter c l cr s q = Some (Inr p')" "at_prefix s c (length ?all) p'"
      "replayedEventCount p' = replayedEventCount q + (length ?all - (k + m))"
      "duplicateEventCount p' = duplicateEventCount q"
      "lastSafeCursor p' = Some (cursor (last ?all))" by auto
    then show ?thesis using go q(3,4) True by (intro exI [of _ p']) simp
  next
    case False
    with m(1) have whole: "k + m = length ?all" by simp
    have last: "read_latestRevision ?page = lastSafeRevision q"
    proof (cases "?all = []")
      case False
      then have "event_revision (event (last ?all)) = int (length ?all)"
        using log_from_last [OF stored_log [OF ok, of c]] by (simp add: last_map)
      with False q(2) whole show ?thesis by (simp add: page_of_def Let_def at_prefix_def)
    qed (use q(2) whole in \<open>simp add: page_of_def Let_def at_prefix_def\<close>)
    then have "replay_pages H adapter c l cr s p = Some (Inr q)"
      using False m(3) by (simp add: unfold end_of_log_def)
    moreover have "m \<noteq> 0 \<Longrightarrow> ?all ! (k + m - 1) = last ?all"
      using whole by (subst last_conv_nth) auto
    ultimately show ?thesis using q whole by (intro exI [of _ q]) (auto split: if_splits)
  qed
qed

section \<open>The whole replay\<close>

definition stored_checkpoint :: "'s \<Rightarrow> string \<Rightarrow> ConversationEventCheckpoint option" where
  "stored_checkpoint s c = (case checkpoints adapter of None \<Rightarrow> None | Some cps \<Rightarrow> checkpoint_read cps c s)"

abbreviation used_checkpoint :: "'s \<Rightarrow> string \<Rightarrow> (int \<times> ConversationState) option" where
  "used_checkpoint s c \<equiv> parseCheckpoint H (stored_checkpoint s c) c (store_latest adapter c s)"

text \<open>A checkpoint of the current schema is the fold of the log up to its revision.\<close>

definition faithful_checkpoint :: "'s \<Rightarrow> string \<Rightarrow> bool" where
  "faithful_checkpoint s c \<longleftrightarrow>
     (\<forall>cp. stored_checkpoint s c = Some cp \<and> schemaVersion cp = Some CONVERSATION_CHECKPOINT_SCHEMA_VERSION \<longrightarrow>
        reduceEvents H (createInitialConversationState (Some c))
          (take (nat (checkpoint_revision cp)) (log s c)) = Inr (checkpoint_state cp))"

lemma start_at_initial:
  assumes "createConversationStore (Some c) (createInitialConversationState (Some c)) = Inr t"
  shows "at_prefix s c 0 (start_replay t (createInitialConversationState (Some c)))"
  using assms
  by (auto simp: at_prefix_def start_replay_def createConversationStore_def createInitialConversationState_def
      split: if_splits)

lemma used_checkpointD:
  assumes ok: "store_ok s" and "used_checkpoint s c = Some (r, st)"
  shows "0 < r" "nat r \<le> length (stored s c)"
    "\<exists>cp. stored_checkpoint s c = Some cp \<and> schemaVersion cp = Some CONVERSATION_CHECKPOINT_SCHEMA_VERSION \<and>
       checkpoint_revision cp = r \<and> checkpoint_state cp = st"
  using assms(2) latest_law [OF ok, of c]
  by (auto simp: parseCheckpoint_def isRevision_def split: option.splits if_splits)

lemma start_at_checkpoint:
  assumes ok: "store_ok s" and cp: "faithful_checkpoint s c" "used_checkpoint s c = Some (r, st)"
    and t: "createConversationStore (Some c) st = Inr t"
  shows "at_prefix s c (nat r) (start_replay t st)"
proof -
  note r = used_checkpointD [OF ok cp(2)]
  have fold: "reduceEvents H (createInitialConversationState (Some c)) (take (nat r) (log s c)) = Inr st"
    using r(3) cp(1) by (auto simp: faithful_checkpoint_def)
  with fold_log [OF ok, of c "nat r"] r(2) have
    ids: "processed_event_ids st = map event_id (take (nat r) (log s c))"
      "processed_mutation_ids st = mutation_ids (take (nat r) (log s c))" "expected_revision st = 1 + r"
    using r(1) by auto
  have "revision st = Some r" using ids(3) r(1) by (auto simp: expected_revision_def split: option.splits)
  with ids fold r t show ?thesis
    by (auto simp: at_prefix_def start_replay_def createConversationStore_def split: if_splits)
qed

text \<open>
  Hydration is the fold of the whole log: the state does not depend on the page size, nor
  on whether a checkpoint was absent, ignored or used.
\<close>

lemma replay_fold:
  assumes ok: "store_ok s" and l: "positive_limit l" and cp: "faithful_checkpoint s c"
  shows "\<exists>p. reduceEvents H (createInitialConversationState (Some c)) (log s c) = Inr (snapshot (projection p)) \<and>
    duplicateEventCount p = 0 \<and> lastSafeRevision p = store_latest adapter c s \<and>
    replayedEventCount p = length (stored s c) -
      (case used_checkpoint s c of None \<Rightarrow> 0 | Some (r, st) \<Rightarrow> nat r) \<and>
    replayConversation H adapter c l policy s = Some (bind_result
      (write_after_replay H adapter c policy (map_option fst (used_checkpoint s c))
        (snapshot (projection p)) (replayedEventCount p) s)
      (\<lambda>(s', write). Inr (s', replay_result (checkpoint_status (stored_checkpoint s c) (used_checkpoint s c))
        p write)))"
proof -
  let ?k = "case used_checkpoint s c of None \<Rightarrow> 0 | Some (r, st) \<Rightarrow> nat r"
  define initial where "initial = (case used_checkpoint s c of Some (r, st) \<Rightarrow> st
    | None \<Rightarrow> createInitialConversationState (Some c))"
  have "conversation_id initial = Some c"
  proof (cases "used_checkpoint s c")
    case None
    then show ?thesis by (simp add: initial_def createInitialConversationState_def)
  next
    case (Some x)
    obtain r st where x: "x = (r, st)" by fastforce
    have "reduceEvents H (createInitialConversationState (Some c)) (take (nat r) (log s c)) = Inr st"
      using used_checkpointD(3) [OF ok Some [unfolded x]] cp by (auto simp: faithful_checkpoint_def)
    with fold_log [OF ok, of c "nat r"] Some x show ?thesis by (auto simp: initial_def)
  qed
  then obtain t :: "unit ConversationStore" where t: "createConversationStore (Some c) initial = Inr t"
    by (simp add: createConversationStore_def)
  have start: "at_prefix s c ?k (start_replay t initial)"
  proof (cases "used_checkpoint s c")
    case None
    then show ?thesis using start_at_initial [of c t s] t by (simp add: initial_def)
  next
    case (Some x)
    then show ?thesis using start_at_checkpoint [OF ok cp, of "fst x" "snd x" t] t
      by (cases x) (simp add: initial_def)
  qed
  have "reads_from s c (map_option fst (used_checkpoint s c)) ?k (start_replay t initial)"
    using used_checkpointD(1) [OF ok, of c]
    by (auto simp: reads_from_def start_replay_def split: option.split)
  from replay_pages_returns [OF ok l start this] obtain p where p:
    "replay_pages H adapter c l (map_option fst (used_checkpoint s c)) s (start_replay t initial) = Some (Inr p)"
    "at_prefix s c (length (stored s c)) p" "replayedEventCount p = length (stored s c) - ?k"
    "duplicateEventCount p = 0" by (auto simp: start_replay_def)
  have "replayConversation H adapter c l policy s = Some (bind_result
      (write_after_replay H adapter c policy (map_option fst (used_checkpoint s c))
        (snapshot (projection p)) (replayedEventCount p) s)
      (\<lambda>(s', write). Inr (s', replay_result (checkpoint_status (stored_checkpoint s c) (used_checkpoint s c))
        p write)))"
    unfolding replayConversation_def Let_def stored_checkpoint_def [symmetric] initial_def [symmetric]
    using l t p(1) by simp
  moreover have "lastSafeRevision p = store_latest adapter c s"
    "reduceEvents H (createInitialConversationState (Some c)) (log s c) = Inr (snapshot (projection p))"
    using p(2) latest_law [OF ok, of c] by (simp_all add: at_prefix_def)
  ultimately show ?thesis using p(3,4) by blast
qed

end

section \<open>Sessions\<close>

text \<open>What changes a durable store: appends, and replays that write a checkpoint.\<close>

inductive session_step :: "host \<Rightarrow> 's ConversationEventStore \<Rightarrow> 's \<Rightarrow> 's \<Rightarrow> bool" for H adapter where
  step_append: "store_append adapter input s = Inr (s', res) \<Longrightarrow> session_step H adapter s s'"
| step_replay: "replayConversation H adapter c l policy s = Some (Inr (s', res)) \<Longrightarrow> session_step H adapter s s'"

context checkpointed_store
begin

lemma stored_checkpoint_read [simp]: "stored_checkpoint s c = checkpoint_read cps c s"
  by (simp add: stored_checkpoint_def checkpoints_law)

lemma append_faithful:
  assumes ok: "store_ok s" and app: "store_append adapter input s = Inr (s', res)"
    and bound: "\<forall>cp. checkpoint_read cps c s = Some cp \<longrightarrow>
      checkpoint_revision cp \<le> int (length (stored s c))"
    and cp: "faithful_checkpoint s c"
  shows "faithful_checkpoint s' c"
proof -
  have "\<exists>new. log s' c = log s c @ new"
    using append_law [OF ok app] by (auto split: if_splits)
  then obtain new where "log s' c = log s c @ new" by blast
  moreover have "take (nat r) (log s c @ new) = take (nat r) (log s c)" if "r \<le> int (length (stored s c))" for r
    using that by simp
  ultimately show ?thesis
    using cp bound append_keeps_checkpoints [OF ok app, of c] by (auto simp: faithful_checkpoint_def)
qed

lemma write_after_replay_cases:
  assumes "write_after_replay H adapter c policy cr st n s = Inr (s', w)"
  shows "(s' = s \<and> w = None) \<or> (\<exists>r res. revision st = Some r \<and> w = Some res \<and>
    checkpoint_write cps \<lparr>checkpoint_conversationId = c,
      schemaVersion = Some CONVERSATION_CHECKPOINT_SCHEMA_VERSION, checkpoint_revision = r,
      checkpoint_state = st\<rparr> s = Inr (s', res))"
  using assms
  by (auto simp: write_after_replay_def checkpoints_law split: option.splits if_splits sum.splits prod.splits)

lemma replay_step:
  assumes ok: "store_ok s" and cp: "\<forall>c. faithful_checkpoint s c"
    and rep: "replayConversation H adapter c l policy s = Some (Inr (s', res))"
  shows "store_ok s' \<and> stored s' = stored s \<and> (\<forall>c'. faithful_checkpoint s' c')"
proof -
  have l: "positive_limit l" using rep by (auto simp: replayConversation_def split: if_splits)
  obtain p where p: "reduceEvents H (createInitialConversationState (Some c)) (log s c) = Inr (snapshot (projection p))"
    "lastSafeRevision p = store_latest adapter c s"
    "replayConversation H adapter c l policy s = Some (bind_result
      (write_after_replay H adapter c policy (map_option fst (used_checkpoint s c))
        (snapshot (projection p)) (replayedEventCount p) s)
      (\<lambda>(s', write). Inr (s', replay_result (checkpoint_status (stored_checkpoint s c) (used_checkpoint s c))
        p write)))"
    using replay_fold [OF ok l cp [THEN spec, of c], of policy] by blast
  then obtain w where "write_after_replay H adapter c policy (map_option fst (used_checkpoint s c))
      (snapshot (projection p)) (replayedEventCount p) s = Inr (s', w)"
    using trans [OF p(3) [symmetric] rep] by (auto split: prod.splits)
  from write_after_replay_cases [OF this] consider "s' = s"
    | r res where "revision (snapshot (projection p)) = Some r"
      "checkpoint_write cps \<lparr>checkpoint_conversationId = c,
        schemaVersion = Some CONVERSATION_CHECKPOINT_SCHEMA_VERSION, checkpoint_revision = r,
        checkpoint_state = snapshot (projection p)\<rparr> s = Inr (s', res)" by blast
  then show ?thesis
  proof cases
    case 1
    then show ?thesis using ok cp by simp
  next
    case (2 r res)
    note w = write_law [OF ok 2(2)]
    have "expected_revision (snapshot (projection p)) = 1 + int (length (stored s c))"
      using fold_log [OF ok, of c "length (stored s c)"] p(1) by auto
    then have "r = int (length (stored s c))" using 2(1) by (simp add: expected_revision_def)
    then have whole: "take (nat r) (log s c) = log s c" by simp
    show ?thesis
    proof (cases "write_status res")
      case Written
      then have read: "checkpoint_read cps c' s' = (if c' = c then Some \<lparr>checkpoint_conversationId = c,
          schemaVersion = Some CONVERSATION_CHECKPOINT_SCHEMA_VERSION, checkpoint_revision = r,
          checkpoint_state = snapshot (projection p)\<rparr> else checkpoint_read cps c' s)" for c'
        using w by simp
      have "faithful_checkpoint s' c'" for c'
      proof (cases "c' = c")
        case True
        then show ?thesis using p(1) whole w by (simp add: faithful_checkpoint_def read)
      next
        case False
        then show ?thesis using cp [THEN spec, of c'] w by (simp add: faithful_checkpoint_def read)
      qed
      then show ?thesis using w by blast
    next
      case IdempotentWrite
      then have "checkpoint_read cps c' s' = checkpoint_read cps c' s" for c' using w by simp
      then have "faithful_checkpoint s' c'" for c'
        using cp [THEN spec, of c'] w by (simp add: faithful_checkpoint_def)
      then show ?thesis using w by blast
    qed
  qed
qed

end

section \<open>The in-memory store replayed\<close>

text \<open>Every state the in-memory store reaches keeps its invariant and faithful checkpoints.\<close>

lemma memory_session_inv:
  assumes "(session_step H (memory_store H))\<^sup>*\<^sup>* empty_event_store S"
  shows "store_inv H S \<and> (\<forall>c. memory.faithful_checkpoint H S c)"
  using assms
proof (induction rule: rtranclp_induct)
  case base
  have "checkpoint_read memory_checkpoints c empty_event_store = None" for c
    by (simp add: memory_checkpoints_def readCheckpoint_def empty_event_store_def)
  then show ?case by (simp add: empty_store_inv memory.faithful_checkpoint_def)
next
  case (step S S')
  from step(2) show ?case
  proof cases
    case (step_append input res)
    have "checkpoint_revision cp \<le> int (length (entries_of S c))"
      if "checkpoint_read memory_checkpoints c S = Some cp" for c cp
      using that step(3) by (simp add: store_inv_def memory_checkpoints_def)
    then show ?thesis
      using memory.append_faithful [OF _ step_append] memory.append_law [OF _ step_append] step(3) by blast
  next
    case (step_replay c l policy res)
    then show ?thesis using memory.replay_step step(3) by blast
  qed
qed

lemma writeCheckpoint_Inl:
  "writeCheckpoint cp S = Inl e \<Longrightarrow> \<exists>d. e = Conflict d \<and> conflict_code d = CheckpointConflict"
  by (auto simp: writeCheckpoint_def checkpointConflict_def Let_def split: option.splits if_splits)

lemma write_after_replay_Inl:
  assumes "write_after_replay H (memory_store H) c policy cr st n S = Inl e"
  shows "e = ThresholdRangeError \<or> (\<exists>d. e = StoreFailed (Conflict d) \<and> conflict_code d = CheckpointConflict)"
  using assms
  by (auto simp: write_after_replay_def memory_store_def memory_checkpoints_def shouldWriteConversationCheckpoint_def
      validateThreshold_def guard_def bind_result_Inl_iff
      split: option.splits if_splits sum.splits dest!: writeCheckpoint_Inl)

text \<open>
  Replaying a conversation of a reachable store: the fold of its log, or (when the policy
  asks for a checkpoint) one of two failures that have nothing to do with the log.
\<close>

lemma memory_replay_outcomes:
  assumes ok: "store_inv H S" "\<forall>c. memory.faithful_checkpoint H S c" and l: "positive_limit l"
  obtains (hydrated) S' res where "replayConversation H (memory_store H) c l policy S = Some (Inr (S', res))"
      "reduceEvents H (createInitialConversationState (Some c)) (log_of S c) = Inr (result_state res)"
      "result_duplicateEventCount res = 0" "result_lastRevision res = getLatestRevision c S"
      "entries_of S' = entries_of S" "policy = None \<Longrightarrow> S' = S"
  | (threshold) "policy \<noteq> None" "replayConversation H (memory_store H) c l policy S = Some (Inl ThresholdRangeError)"
  | (conflict) d where "policy \<noteq> None" "conflict_code d = CheckpointConflict"
      "replayConversation H (memory_store H) c l policy S = Some (Inl (StoreFailed (Conflict d)))"
proof -
  obtain p where p: "reduceEvents H (createInitialConversationState (Some c)) (log_of S c) = Inr (snapshot (projection p))"
    "duplicateEventCount p = 0" "lastSafeRevision p = getLatestRevision c S"
    and rep: "replayConversation H (memory_store H) c l policy S = Some (bind_result
      (write_after_replay H (memory_store H) c policy (map_option fst (memory.used_checkpoint H S c))
        (snapshot (projection p)) (replayedEventCount p) S)
      (\<lambda>(s', write). Inr (s', replay_result (checkpoint_status (memory.stored_checkpoint H S c)
        (memory.used_checkpoint H S c)) p write)))"
    using memory.replay_fold [OF ok(1) l ok(2) [THEN spec, of c], of policy]
    by (auto simp: memory_store_def)
  define w where "w = write_after_replay H (memory_store H) c policy (map_option fst (memory.used_checkpoint H S c))
        (snapshot (projection p)) (replayedEventCount p) S"
  show ?thesis
  proof (cases w)
    case (Inl e)
    moreover have "policy \<noteq> None" using Inl by (cases policy) (simp_all add: w_def write_after_replay_def)
    ultimately show ?thesis
      using write_after_replay_Inl [OF Inl [unfolded w_def]] rep threshold conflict by (auto simp: w_def)
  next
    case (Inr x)
    obtain S' out where x: "x = (S', out)" by fastforce
    let ?res = "replay_result (checkpoint_status (memory.stored_checkpoint H S c)
      (memory.used_checkpoint H S c)) p out"
    have "replayConversation H (memory_store H) c l policy S = Some (Inr (S', ?res))"
      using rep Inr x by (simp add: w_def)
    moreover from this have "entries_of S' = entries_of S" using memory.replay_step [OF ok] by blast
    moreover have "policy = None \<Longrightarrow> S' = S" using Inr x by (simp add: w_def write_after_replay_def)
    ultimately show ?thesis using p by (intro hydrated [of S' ?res]) (simp_all add: replay_result_def)
  qed
qed

text \<open>
  A checkpoint of an older schema at the latest revision whose state differs from today's
  projection: the replay ignores it, folds the log, and then fails to overwrite it.
\<close>

lemma legacy_checkpoint_conflict:
  assumes inv: "store_inv H S" and l: "positive_limit l"
    and cp: "readCheckpoint c S = Some cp" "schemaVersion cp \<noteq> Some CONVERSATION_CHECKPOINT_SCHEMA_VERSION"
      "getLatestRevision c S = Some (checkpoint_revision cp)"
    and fold: "reduceEvents H (createInitialConversationState (Some c)) (log_of S c) = Inr st"
    and differs: "\<not> jsonEqual (state_json st) (state_json (checkpoint_state cp))"
    and policy: "shouldWriteConversationCheckpoint (length (log_of S c))
      (utf8ByteLength (stringify H (state_json st))) policy = Inr True"
  shows "\<exists>d. replayConversation H (memory_store H) c l (Some policy) S = Some (Inl (StoreFailed (Conflict d))) \<and>
    conflict_code d = CheckpointConflict"
proof -
  have raw: "memory.stored_checkpoint H S c = Some cp"
    using cp(1) by (simp add: memory_checkpoints_def)
  then have unused: "memory.used_checkpoint H S c = None"
    using cp(2) by (simp add: parseCheckpoint_def)
  have faithful: "memory.faithful_checkpoint H S c"
    using cp(2) raw by (simp add: memory.faithful_checkpoint_def)
  obtain p where p: "snapshot (projection p) = st" "replayedEventCount p = length (log_of S c)"
    and rep: "replayConversation H (memory_store H) c l (Some policy) S = Some (bind_result
      (write_after_replay H (memory_store H) c (Some policy) None st (length (log_of S c)) S)
      (\<lambda>(s', write). Inr (s', replay_result (checkpoint_status (memory.stored_checkpoint H S c)
        (memory.used_checkpoint H S c)) p write)))"
    using memory.replay_fold [OF inv l faithful, of "Some policy"] fold unused by auto
  have latest: "entries_of S c \<noteq> []" "checkpoint_revision cp = int (length (entries_of S c))"
    using latestRevision_entries [OF inv, of c] cp(3) by (auto simp: getLatestRevision_def split: if_splits)
  then have "expected_revision st = 1 + checkpoint_revision cp"
    using memory.fold_log [OF inv, of c "length (entries_of S c)"] fold by auto
  then have rev: "revision st = Some (checkpoint_revision cp)"
    using latest by (cases "revision st") (simp_all add: expected_revision_def)
  obtain conv where conv: "map_get (conversations S) c = Some conv" "checkpoint conv = Some cp"
    "latestRevision (Some conv) = Some (checkpoint_revision cp)"
    using cp(1,3) by (auto simp: readCheckpoint_def getLatestRevision_def split: option.splits)
  define new where "new = \<lparr>checkpoint_conversationId = c,
    schemaVersion = Some CONVERSATION_CHECKPOINT_SCHEMA_VERSION,
    checkpoint_revision = checkpoint_revision cp, checkpoint_state = st\<rparr>"
  have "writeCheckpoint new S = Inl (checkpointConflict new (Some (checkpoint_revision cp)))"
    using conv differs by (simp add: writeCheckpoint_def new_def)
  then have "write_after_replay H (memory_store H) c (Some policy) None st (length (log_of S c)) S =
      Inl (StoreFailed (checkpointConflict new (Some (checkpoint_revision cp))))"
    using policy rev by (simp add: write_after_replay_def memory_store_def memory_checkpoints_def new_def)
  then show ?thesis using rep by (simp add: checkpointConflict_def)
qed

end
