(* ===== verification/EventStoreRetry.thy ===== *)
theory EventStoreRetry
  imports EventStoreInvariants
begin

text \<open>
  A retry of an append that went through: the store recognizes the whole batch, by event
  id and by client mutation, and answers with the entries it stored the first time.
\<close>

section \<open>Structural equality is reflexive on JSON data\<close>

text \<open>What \<open>JSON.parse\<close> can return, infinities included: distinct names and no NaN.\<close>

fun json_data :: "json \<Rightarrow> bool" where
  "json_data (JNum n) = (n \<noteq> NaN)"
| "json_data (JArr vs) = list_all json_data vs"
| "json_data (JObj kvs) = (distinct (map fst kvs) \<and> list_all (\<lambda>kv. json_data (snd kv)) kvs)"
| "json_data _ = True"

lemma jsonEqual_refl: "json_data v \<Longrightarrow> jsonEqual v v"
proof (induction v rule: json_data.induct)
  case (1 n)
  then show ?case by (cases n) simp_all
next
  case (2 vs)
  then show ?case by (simp add: list_all_iff list.rel_refl_strong)
next
  case (3 kvs)
  have "(case map_of kvs (fst kv) of None \<Rightarrow> False | Some w \<Rightarrow> jsonEqual (snd kv) w)" if "kv \<in> set kvs" for kv
  proof -
    have get: "map_of kvs (fst kv) = Some (snd kv)"
      using 3(2) that by (cases kv) (simp add: map_of_is_SomeI)
    have "jsonEqual (snd kv) (snd kv)" using 3 that by (simp add: list_all_iff)
    then show ?thesis by (simp add: get)
  qed
  then show ?case by (simp add: list_all_iff)
qed simp_all

lemma event_json_data:
  assumes "json_data (event_json ev)"
  shows "json_data (actor_json (actor ev))" "json_data (source_event_json (event_source ev))"
    "json_data (payload_json (payload ev))" "jsonEqual_field (event_metadata ev) (event_metadata ev)"
  using assms
  by (auto simp: event_json_def jsonEqual_field_def opt_field_def jsonEqual_refl split: option.splits)

lemma sameClientMutation_refl:
  assumes "json_data (event_json ev)" "mutation_id ev \<noteq> None"
  shows "sameClientMutation ev ev"
  using assms event_json_data [OF assms(1)] by (simp add: sameClientMutation_def jsonEqual_refl)

section \<open>The second append\<close>

text \<open>The observed revision only shows up in the errors.\<close>

lemma validate_batch_current:
  "validate_batch H input current r eids mids evs = Inr () \<Longrightarrow>
     validate_batch H input current' r eids mids evs = Inr ()"
  by (induction H input current r eids mids evs rule: validate_batch.induct)
    (auto split: sum.splits if_splits option.splits)

lemma validateAppend_current:
  "validateAppend H input current = Inr () \<Longrightarrow> validateAppend H input current' = Inr ()"
  using validate_batch_current by (auto simp: validateAppend_def split: if_splits)

lemma findIdempotentMatch_again:
  assumes inv: "store_inv H S" and e: "e \<in> set (entries_of S c)" and data: "json_data (event_json (event e))"
  shows "findIdempotentMatch S (event e) = Inr (Some \<lparr>indexed_conversationId = c, indexed_entry = e\<rparr>)"
proof -
  let ?ix = "\<lparr>indexed_conversationId = c, indexed_entry = e\<rparr>"
  have "map_get (eventIds S) (event_id (event e)) = Some ?ix"
    using store_invD(4) [OF inv] e by (simp add: indexed_by_def)
  moreover have "map_get (mutationIds S) m = Some ?ix" if "mutation_id (event e) = Some m" for m
    using store_invD(5) [OF inv] e that by (simp add: indexed_by_def)
  ultimately show ?thesis
    using jsonEqual_refl [OF data] sameClientMutation_refl [OF data]
    by (cases "mutation_id (event e)") (simp_all add: findIdempotentMatch_def)
qed

lemma validateCompleteRetry_ok:
  assumes "log_from c r (map event es)" "append_conversationId input = c"
  shows "validateCompleteRetry input current r
    (zip (map (\<lambda>e. \<lparr>indexed_conversationId = c, indexed_entry = e\<rparr>) es) (map event es)) = Inr ()"
  using assms by (induction es arbitrary: r) auto

lemma map_filter_Some [simp]: "List.map_filter (\<lambda>m. m) (map (\<lambda>x. Some (f x)) xs) = map f xs"
  by (induction xs) (simp_all add: List.map_filter_def)

theorem append_again:
  assumes inv: "store_inv H S" and app: "append_batch H input S = Inr (S', res)"
    and new: "append_status res = Appended" and data: "\<forall>ev\<in>set (append_events input). json_data (event_json ev)"
  shows "append_batch H input S' = Inr (S', res\<lparr>append_status := IdempotentAppend\<rparr>)"
proof -
  let ?c = "append_conversationId input" and ?r = "revision_or_zero (append_expectedRevision input) + 1"
  let ?ix = "\<lambda>e. \<lparr>indexed_conversationId = append_conversationId input, indexed_entry = e\<rparr>"
  have inv': "store_inv H S'" using append_batch_inv [OF inv app] .
  from app new have n: "S' = store_entries ?c (stored_batch input) S" "append_events input \<noteq> []"
    "validate_batch H input (getLatestRevision ?c S) ?r [] [] (append_events input) = Inr ()"
    "res = appendResult Appended (stored_batch input) (event_revision (last (append_events input)))"
    by (auto elim!: append_batch_cases simp: appendResult_def)
  have mem: "e \<in> set (entries_of S' ?c)" if "e \<in> set (stored_batch input)" for e
    using that by (simp add: n(1) entries_of_store)
  have match: "findIdempotentMatch S' (event e) = Inr (Some (?ix e))" if "e \<in> set (stored_batch input)" for e
    using findIdempotentMatch_again [OF inv' mem [OF that]] data stored_batch_set [OF that] by blast
  have "map_result (findIdempotentMatch S') (map event es) = Inr (map (\<lambda>e. Some (?ix e)) es)"
    if "\<forall>e\<in>set es. findIdempotentMatch S' (event e) = Inr (Some (?ix e))" for es
    using that by (induction es) auto
  from this [of "stored_batch input"] match
  have matches: "map_result (findIdempotentMatch S') (append_events input) =
      Inr (map (\<lambda>e. Some (?ix e)) (stored_batch input))" by simp
  have valid: "validateAppend H input (latestRevision (map_get (conversations S') ?c)) = Inr ()"
    using n(2,3) validate_batch_current by (simp add: validateAppend_def)
  have "log_from ?c ?r (map event (stored_batch input))"
    using validate_batch_Inr(1) [OF n(3)] by simp
  then have retry: "validateCompleteRetry input current ?r
      (zip (map ?ix (stored_batch input)) (append_events input)) = Inr ()" for current
    using validateCompleteRetry_ok [of ?c ?r "stored_batch input" input current] by simp
  have batch: "stored_batch input \<noteq> []" "length (stored_batch input) = length (append_events input)"
    using n(2) by (simp_all add: stored_batch_def)
  have "the (latestRevision (map_get (conversations S') ?c)) = append_latestRevision res"
    using append_new [OF inv app new] latestRevision_entries [OF inv', of ?c] n(2) n(4)
    by (auto simp: appendResult_def batch(1))
  with batch show ?thesis
    unfolding append_batch_def Let_def
    by (simp add: valid matches retry n(4) appendResult_def comp_def)
qed

end
