(* ===== verification/Scenario.thy ===== *)
theory Scenario
  imports Replay EventStoreRetry "HOL-Library.Code_Target_Numeral"
begin

text \<open>
  One concrete conversation, evaluated by the kernel: a user message, a turn with streamed
  text, a tool call with its approval, and the completed turn. The facts of this theory
  instantiate the hypotheses of the properties.
\<close>

lemma take_digits_code [code]:
  "take_digits n acc s = (if n = 0 then Some (acc, s) else case s of [] \<Rightarrow> None
     | c # cs \<Rightarrow> if is_digit c then take_digits (n - 1) (acc * 10 + digit_value c) cs else None)"
  by (cases n; cases s) simp_all

definition demo_host :: host where
  "demo_host = \<lparr>parse_url = (\<lambda>_. None), fraction_string = (\<lambda>_. ''0'')\<rparr>"

definition demo_event ::
    "int \<Rightarrow> string \<Rightarrow> ConversationEventActorType \<Rightarrow> string option \<Rightarrow> ConversationEventPayload \<Rightarrow> ConversationEvent" where
  "demo_event r eid who mut p =
     \<lparr>event_id = eid, event_conversation_id = ''c'', event_revision = r,
      occurred_at = ''2026-01-01T00:00:00.000Z'', actor = \<lparr>actor_type = who, actor_id = None\<rparr>,
      event_source = RuntimeSource, mutation_id = mut, event_metadata = None, payload = p\<rparr>"

definition demo_log :: "ConversationEvent list" where
  "demo_log =
     [demo_event 1 ''e1'' UserActor (Some ''m1'') (MessageCreated ''u'' UserRole [MessageText ''hi'']),
      demo_event 2 ''e2'' SystemActor None (TurnStarted ''t'' [''u''] None),
      demo_event 3 ''e3'' AssistantActor None (MessageTextAppended ''t'' ''a'' ''hello''),
      demo_event 4 ''e4'' AssistantActor None (ToolCallRequested ''t'' ''k'' ''send'' (JObj [])),
      demo_event 5 ''e5'' SystemActor None (ApprovalProposalCreated \<lparr>created_proposal_id = ''p'',
        created_group_id = None, created_turn_id = ''t'', created_tool_call_id = ''k'',
        created_tool_name = ''send'', created_expires_at = ''2026-01-02T00:00:00.000Z'',
        created_reviewed_arguments = RedactedJson (JObj [])\<rparr>),
      demo_event 6 ''e6'' UserActor (Some ''m2'') (ApprovalProposalStatusChanged ''p'' 2 (ChangeRejected None)),
      demo_event 7 ''e7'' SystemActor None (TurnCompleted ''t'' StopOutcome [''a''])]"

lemma demo_parsed: "map (\<lambda>ev. parseConversationEvent demo_host (event_json ev)) demo_log = map Inr demo_log"
  by code_simp

lemma demo_accepted: "ev \<in> set demo_log \<Longrightarrow> parseConversationEvent demo_host (event_json ev) = Inr ev"
  using demo_parsed by (simp add: map_eq_conv)

lemma demo_validated: "\<forall>ev\<in>set demo_log. validated_event demo_host ev"
  using demo_accepted accepted_validated by (simp add: accepted_event_def)

lemma demo_data: "\<forall>ev\<in>set demo_log. json_data (event_json ev)"
  by code_simp

lemma demo_log_length: "length demo_log = 7"
  by (simp add: demo_log_def)

section \<open>Its state\<close>

definition demo_state :: ConversationState where
  "demo_state = projr (reduceEvents demo_host (createInitialConversationState (Some ''c'')) demo_log)"

lemma demo_fold: "reduceEvents demo_host (createInitialConversationState (Some ''c'')) demo_log = Inr demo_state"
proof -
  have "\<not> isl (reduceEvents demo_host (createInitialConversationState (Some ''c'')) demo_log)" by code_simp
  then show ?thesis by (simp add: demo_state_def sum.collapse(2))
qed

lemma demo_state_inv: "state_inv demo_state"
  using reduceEvents_inv [OF initial_state_inv demo_validated demo_fold] .

text \<open>The same conversation goes on: a second turn is cancelled.\<close>

definition demo_tail :: "ConversationEvent list" where
  "demo_tail =
     [demo_event 8 ''e8'' UserActor (Some ''m3'') (MessageCreated ''v'' UserRole [MessageText ''again'']),
      demo_event 9 ''e9'' SystemActor None (TurnStarted ''t2'' [''v''] None),
      demo_event 10 ''e10'' SystemActor None (TurnCancelled ''t2'' CancelUser),
      demo_event 11 ''e11'' UserActor (Some ''m4'') (ApprovalProposalStatusChanged ''p'' 3 (ChangeConfirmed None))]"

lemma demo_tail_parsed: "map (\<lambda>ev. parseConversationEvent demo_host (event_json ev)) demo_tail = map Inr demo_tail"
  by code_simp

lemma demo_tail_validated: "\<forall>ev\<in>set demo_tail. validated_event demo_host ev"
  using demo_tail_parsed accepted_validated by (simp add: accepted_event_def map_eq_conv)

definition demo_later :: ConversationState where
  "demo_later = projr (reduceEvents demo_host demo_state demo_tail)"

lemma demo_tail_fold: "reduceEvents demo_host demo_state demo_tail = Inr demo_later"
proof -
  have "\<not> isl (reduceEvents demo_host demo_state demo_tail)" by code_simp
  then show ?thesis by (simp add: demo_later_def sum.collapse(2))
qed

section \<open>Its store\<close>

definition demo_input :: AppendConversationEventsInput where
  "demo_input = \<lparr>append_conversationId = ''c'', append_expectedRevision = None, append_events = demo_log\<rparr>"

definition demo_store :: InMemoryConversationEventStore where
  "demo_store = fst (projr (append_batch demo_host demo_input empty_event_store))"

definition demo_result :: AppendConversationEventsResult where
  "demo_result = snd (projr (append_batch demo_host demo_input empty_event_store))"

lemma demo_append: "append_batch demo_host demo_input empty_event_store = Inr (demo_store, demo_result)"
proof -
  have "\<not> isl (append_batch demo_host demo_input empty_event_store)" by code_simp
  then show ?thesis by (simp add: demo_store_def demo_result_def sum.collapse(2))
qed

lemma demo_appended: "append_status demo_result = Appended"
  by code_simp

lemma demo_result_length: "length (append_entries demo_result) = 7"
  by code_simp

lemma demo_store_inv: "store_inv demo_host demo_store"
  using append_batch_inv [OF empty_store_inv demo_append] .

lemma demo_log_of: "log_of demo_store ''c'' = demo_log"
  using append_new [OF empty_store_inv demo_append demo_appended]
  by (simp add: demo_input_def entries_of_def empty_event_store_def)

lemma demo_reached: "(session_step demo_host (memory_store demo_host))\<^sup>*\<^sup>* empty_event_store demo_store"
  by (rule r_into_rtranclp, rule step_append [where input = demo_input and res = demo_result])
    (simp add: memory_store_def demo_append)

text \<open>An append that missed all of it.\<close>

definition demo_stale :: AppendConversationEventsInput where
  "demo_stale = \<lparr>append_conversationId = ''c'', append_expectedRevision = None,
     append_events = [demo_event 1 ''x1'' UserActor None (ConversationTitleUpdated (Some ''t''))]\<rparr>"

lemma demo_latest: "getLatestRevision ''c'' demo_store = Some 7"
  by code_simp

lemma demo_stale_valid:
  "validateAppend demo_host demo_stale (getLatestRevision (append_conversationId demo_stale) demo_store) = Inr ()"
  by code_simp

lemma demo_stale_unknown: "\<forall>ev\<in>set (append_events demo_stale). findIdempotentMatch demo_store ev = Inr None"
  by code_simp

text \<open>A checkpoint of schema 2 at the latest revision whose state is another one.\<close>

definition demo_legacy :: ConversationEventCheckpoint where
  "demo_legacy = \<lparr>checkpoint_conversationId = ''c'', schemaVersion = Some 2, checkpoint_revision = 7,
     checkpoint_state = demo_state\<lparr>title := Some ''old''\<rparr>\<rparr>"

definition demo_legacy_store :: InMemoryConversationEventStore where
  "demo_legacy_store = fst (projr (writeCheckpoint demo_legacy demo_store))"

lemma demo_legacy_write:
  "writeCheckpoint demo_legacy demo_store =
     Inr (demo_legacy_store, \<lparr>write_status = Written, written_checkpoint = demo_legacy\<rparr>)"
proof -
  have "getLatestRevision ''c'' demo_store = Some 7" "readCheckpoint ''c'' demo_store = None"
    by code_simp+
  then obtain conv where "map_get (conversations demo_store) ''c'' = Some conv" "checkpoint conv = None"
    "latestRevision (Some conv) = Some 7"
    by (cases "map_get (conversations demo_store) ''c''")
      (simp_all add: getLatestRevision_def readCheckpoint_def latestRevision_def)
  then have "\<exists>S. writeCheckpoint demo_legacy demo_store =
      Inr (S, \<lparr>write_status = Written, written_checkpoint = demo_legacy\<rparr>)"
    by (simp add: writeCheckpoint_def demo_legacy_def safe_int_def max_safe_integer_def Let_def)
  then show ?thesis by (auto simp: demo_legacy_store_def)
qed

lemma demo_legacy_inv: "store_inv demo_host demo_legacy_store"
  using writeCheckpoint_inv [OF demo_store_inv demo_legacy_write] .

lemma demo_legacy_read: "readCheckpoint ''c'' demo_legacy_store = Some demo_legacy"
  using writeCheckpoint_entries(4) [OF demo_legacy_write, of "''c''"] by (simp add: demo_legacy_def)

lemma demo_legacy_log: "log_of demo_legacy_store ''c'' = demo_log"
  by (simp add: writeCheckpoint_entries(1) [OF demo_legacy_write] demo_log_of)

lemma demo_legacy_latest: "getLatestRevision ''c'' demo_legacy_store = Some 7"
  using latestRevision_entries [OF demo_legacy_inv, of "''c''"] arg_cong [OF demo_legacy_log, of length]
  by (auto simp: getLatestRevision_def demo_log_length)

lemma demo_legacy_differs: "\<not> jsonEqual (state_json demo_state) (state_json (checkpoint_state demo_legacy))"
  by code_simp

lemma demo_rewrite:
  "\<exists>S' res. writeCheckpoint (demo_legacy\<lparr>schemaVersion := Some 3\<rparr>) demo_legacy_store = Inr (S', res)"
proof -
  have "\<not> isl (writeCheckpoint (demo_legacy\<lparr>schemaVersion := Some 3\<rparr>) demo_legacy_store)" by code_simp
  then show ?thesis by (cases "writeCheckpoint (demo_legacy\<lparr>schemaVersion := Some 3\<rparr>) demo_legacy_store") auto
qed

text \<open>One source more than a record set may carry.\<close>

definition demo_sources :: "CitationSource list" where
  "demo_sources = map (\<lambda>n. \<lparr>source_id = nat_digits n, source_type = ToolSource, label = ''source'',
     locator = None\<rparr>) [0..<65]"

text \<open>A store without listeners, and one batch waiting behind it.\<close>

definition demo_queue :: "unit ConversationStore" where
  "demo_queue = \<lparr>snapshot = demo_state, destroyed = False, listeners = [0], selectorSubscriptions = [],
     boundary = [take 2 demo_tail, drop 2 demo_tail], next_id = 1, calls = []\<rparr>"

lemma demo_react: "keeps_snapshot (\<lambda>_ s. s)"
  by (simp add: keeps_snapshot_def)

lemma demo_tail_ids: "distinct (processed_event_ids demo_state @ map event_id demo_tail)"
  "distinct (processed_mutation_ids demo_state @ mutation_ids demo_tail)"
  "log_from ''c'' (expected_revision demo_state) demo_tail" "conversation_id demo_state = Some ''c''"
  "replay_error demo_state = None"
  by code_simp+

lemma demo_redelivered: "already_processed demo_state (demo_log ! 2)"
  by code_simp

lemma demo_gap: "\<not> already_processed demo_state (demo_tail ! 1)"
  "rejection demo_state (demo_tail ! 1) = Some (RevisionGapError ''c'' ''e9'' 8 9)"
  by code_simp+

lemma demo_rejected_proposal: "\<exists>p\<in>set (approval_proposals demo_state). proposal_status p = Rejected"
  by code_simp

lemma demo_completed_turn: "\<exists>t\<in>set (turns demo_state). isTerminal t"
  by code_simp

text \<open>A record set with a repeated source: the repetition goes, the citation stays.\<close>

definition demo_source_json :: json where
  "demo_source_json = JObj [(''source_id'', JStr ''s1''), (''type'', JStr ''tool''), (''label'', JStr ''Search'')]"

definition demo_records_json :: json where
  "demo_records_json = JObj [(''sources'', JArr [demo_source_json, demo_source_json]),
     (''citations'', JArr [JObj [(''citation_id'', JStr ''c1''), (''source_id'', JStr ''s1''),
        (''order'', jint 0), (''target'', JObj [(''type'', JStr ''assistant_message''), (''message_id'', JStr ''a'')])]])]"

definition demo_records :: CitationRecordSet where
  "demo_records = projr (normalizeCitationRecords demo_host demo_records_json)"

lemma demo_normalized: "normalizeCitationRecords demo_host demo_records_json = Inr demo_records"
proof -
  have "\<not> isl (normalizeCitationRecords demo_host demo_records_json)" by code_simp
  then show ?thesis by (simp add: demo_records_def sum.collapse(2))
qed

lemma demo_merge: "\<exists>st. mergeCitationRecords demo_state demo_records = Some st"
proof -
  have "mergeCitationRecords demo_state demo_records \<noteq> None" by code_simp
  then show ?thesis by simp
qed

lemma demo_dates:
  "isTimestamp ''2026-01-31T23:59:59.999Z''" "isTimestamp ''2026-02-01T00:00:00Z''"
  "\<exists>d e. match_timestamp ''2026-01-31T23:59:59.999Z'' = Some d \<and> match_timestamp ''2026-02-01T00:00:00Z'' = Some e \<and>
     date_before (date_of d) (date_of e)"
proof -
  show "isTimestamp ''2026-01-31T23:59:59.999Z''" "isTimestamp ''2026-02-01T00:00:00Z''" by code_simp+
  have "match_timestamp ''2026-01-31T23:59:59.999Z'' =
      Some \<lparr>year = 2026, month = 1, day = 31, hour = 23, minute = 59, second = 59, fraction = ''999''\<rparr>"
    "match_timestamp ''2026-02-01T00:00:00Z'' =
      Some \<lparr>year = 2026, month = 2, day = 1, hour = 0, minute = 0, second = 0, fraction = []\<rparr>"
    by code_simp+
  then show "\<exists>d e. match_timestamp ''2026-01-31T23:59:59.999Z'' = Some d \<and>
      match_timestamp ''2026-02-01T00:00:00Z'' = Some e \<and> date_before (date_of d) (date_of e)"
    by (auto simp: date_before_def date_of_def)
qed

end
