(* ===== verification/ToolLoopProperties.thy ===== *)
theory ToolLoopProperties
  imports ToolLoopFacts ToolRegistryFacts Scenario
begin

text \<open>
  The promises of the tool loop (src/tools/loop.ts), with a run of it from a turn that asks for a
  tool to the turn that is continued with the tool's answer.
\<close>

section \<open>A run of the loop\<close>

definition demo_chat :: "string option \<Rightarrow> json list \<Rightarrow> (string \<times> json) list" where
  "demo_chat continuation results =
     [(''protocol_version'', JStr AI_RUNTIME_PROTOCOL_VERSION),
      (''continuation_of'', case continuation of None \<Rightarrow> JNull | Some k \<Rightarrow> JStr k),
      (''messages'', JArr [JObj [(''role'', JStr ''user''), (''content'', JArr [text_part ''hello''])]]),
      (''tools'', JArr [tool_json (demo_read_tool ''read'')]), (''tool_results'', JArr results),
      (''generation'', JObj [(''max_output_tokens'', jint 10), (''temperature'', jint 1)]), (''correlation_hints'', JObj [])]"

definition demo_answered :: ApplicationToolResult where
  "demo_answered = tool_result ''call'' ''read'' [text_part ''ok''] False None"

lemma demo_chat_parsed: "\<exists>req. parseChatRequest demo_host (JObj (demo_chat None [])) = Inr req"
proof -
  have "isChatRequest demo_host (JObj (demo_chat None []))" by code_simp
  then show ?thesis by (simp add: isChatRequest_def split: sum.splits)
qed

lemma demo_continuation_parsed: "\<exists>req. parseChatRequest demo_host (JObj (demo_chat (Some ''r1'') [providerToolResult demo_answered])) = Inr req"
proof -
  have "isChatRequest demo_host (JObj (demo_chat (Some ''r1'') [providerToolResult demo_answered]))" by code_simp
  then show ?thesis by (simp add: isChatRequest_def split: sum.splits)
qed

definition demo_asked_call :: ConversationToolCallRecord where
  "demo_asked_call = \<lparr>tool_call_id = ''call'', call_turn_id = ''t'', tool_call_name = Some ''read'', arguments = Some (JObj []),
     requested_at = None, discovered_at = None, call_started_at = None, approval_required_at = None, call_attribution = None,
     call_result = None\<rparr>"

definition demo_asking :: ConversationState where
  "demo_asking = (createInitialConversationState (Some ''c''))\<lparr>tool_calls := [demo_asked_call]\<rparr>"

definition demo_turn :: RuntimeTurnResult where
  "demo_turn = \<lparr>turnId = ''t'', turnStatus = RuntimeCompleted, turnRequestId = Some ''r1'', turnOutcome = Some ToolCallsOutcome,
     turnUsageReceipts = [], turnError = None\<rparr>"

definition demo_loop :: LoopConfig where
  "demo_loop = \<lparr>loop_host = demo_host, limits = DEFAULT_TOOL_LOOP_LIMITS, parallel_tool_calls = False, has_resolver = False\<rparr>"

definition demo_loop_at :: "int \<Rightarrow> bool \<Rightarrow> (string \<times> json) list \<Rightarrow> LoopPhase \<Rightarrow> LoopEffect list \<Rightarrow> LoopState" where
  "demo_loop_at n stopped request phase effects =
     \<lparr>loop_turn = demo_turn, loop_request = request, iterations = n, totalToolCalls = n, startedAtMs = 0, receipts = [],
      caller_aborted = stopped, loop_phase = phase, loop_effects = effects\<rparr>"

definition demo_pool :: "nat \<Rightarrow> WorkerState \<Rightarrow> (string, ApplicationToolResult) jsmap \<Rightarrow> WorkerPool" where
  "demo_pool n st results = \<lparr>pool_calls = [demo_asked_call], pool_pending = [demo_asked_call], pool_next = n, pool_workers = [st],
     pool_results = results, pool_approvals = [], pool_aborted = False, pool_expired = False\<rparr>"

definition demo_before_tools :: "LoopEffect list" where
  "demo_before_tools = [RecordsEvents [ToolCallDiscovered ''t'' ''call'']]"

definition demo_with_call :: "LoopEffect list" where
  "demo_with_call = demo_before_tools @ [ExecutesCall ''t'' ''call'']"

definition demo_with_result :: "LoopEffect list" where
  "demo_with_result = demo_with_call @ [RecordsEvents [ToolCallResultRecorded ''t'' ''call'' [ToolResultText ''ok''] False None]]"

lemmas demo_loop_defs = demo_asked_call_def demo_asking_def demo_turn_def demo_loop_def demo_loop_at_def demo_pool_def
  demo_before_tools_def demo_with_call_def demo_with_result_def demo_answered_def DEFAULT_TOOL_LOOP_LIMITS_def tool_result_def
  record_events_def set_pool_def set_worker_def Let_def createInitialConversationState_def

lemma demo_loop_started:
  "start_loop demo_loop (Some \<lparr>progress_iterations = 0, progress_totalToolCalls = 0, progress_startedAtMs = 0,
     progress_usageReceipts = []\<rparr>) demo_turn demo_asking 0 (JObj (demo_chat None [])) stopped =
   Inr (demo_loop_at 0 stopped (demo_chat None []) Observing [])"
  using demo_chat_parsed by (auto simp: start_loop_def event_record_def demo_loop_defs)

lemma demo_loop_discovers:
  "usage_collected demo_loop [] 0 demo_asking (demo_loop_at 0 False (demo_chat None []) Observing []) =
     demo_loop_at 0 False (demo_chat None []) (RecordingDiscovered [demo_asked_call]) demo_before_tools"
  by (simp add: usage_collected_def loop_elapsed_def inspect_calls_def demo_loop_defs)

lemma demo_loop_charges:
  "charge_budgets demo_loop [demo_asked_call] demo_asking (demo_loop_at 0 stopped r phase es) =
     demo_loop_at 1 stopped r (Working (demo_pool 0 WorkerReady [])) es"
  by (simp add: charge_budgets_def newly_counted_def start_workers_def resultFromDurableCall_def demo_loop_defs)

lemma demo_loop_takes:
  "worker_takes demo_loop 0 demo_asking (demo_pool 0 WorkerReady []) (demo_loop_at 1 stopped r phase es) =
     demo_loop_at 1 stopped r (Working (demo_pool 1 (WorkerExecuting 0) [])) (es @ [ExecutesCall ''t'' ''call''])"
  by (simp add: worker_takes_def execute_call_def demo_loop_defs)

lemma demo_loop_executed:
  "worker_executed 0 0 (ExecutionCompleted demo_answered) (demo_pool 1 (WorkerExecuting 0) []) (demo_loop_at 1 stopped r phase es) =
     demo_loop_at 1 stopped r (Working (demo_pool 1 WorkerReady [(''call'', demo_answered)])) es"
  by (simp add: worker_executed_def demo_loop_defs)

lemma demo_loop_ends:
  "worker_takes demo_loop 0 demo_asking (demo_pool 1 WorkerReady m) (demo_loop_at 1 stopped r phase es) =
     demo_loop_at 1 stopped r (Working (demo_pool 2 WorkerDone m)) es"
  by (simp add: worker_takes_def demo_loop_defs)

lemma demo_loop_done:
  "workers_done demo_loop 0 demo_asking (demo_pool 2 WorkerDone [(''call'', demo_answered)]) (demo_loop_at 1 False r phase demo_with_call) =
     demo_loop_at 1 False r (RecordingResults (demo_pool 2 WorkerDone [(''call'', demo_answered)]) []) demo_with_result"
  by (simp add: workers_done_def loop_elapsed_def result_events_def new_approvals_def event_part_def text_part_def map_filter_simps demo_loop_defs)

lemma demo_loop_records:
  "citations_recorded P [] (results_recorded demo_loop demo_asking (demo_pool 2 WorkerDone m) [] (demo_loop_at 1 False r phase es)) =
     demo_loop_at 1 False r (RecordingApprovals P) (es @ [RecordsEvents [], RecordsEvents []])"
  by (simp add: citations_recorded_def results_recorded_def citation_events_def map_filter_simps demo_loop_defs)

lemma demo_loop_continues:
  "approvals_recorded demo_loop (demo_pool 2 WorkerDone [(''call'', demo_answered)]) (demo_loop_at 1 False (demo_chat None []) phase es) =
     demo_loop_at 1 False (demo_chat (Some ''r1'') [providerToolResult demo_answered]) ContinuingTurn
       (es @ [ContinuesTurn ''t'' (demo_chat (Some ''r1'') [providerToolResult demo_answered])])"
proof -
  have "continuation_fields (demo_pool 2 WorkerDone [(''call'', demo_answered)]) (demo_loop_at 1 False (demo_chat None []) phase es) =
      demo_chat (Some ''r1'') [providerToolResult demo_answered]"
    by (simp add: continuation_fields_def demo_chat_def demo_loop_defs)
  with demo_continuation_parsed show ?thesis
    by (auto simp: approvals_recorded_def) (simp_all add: demo_loop_defs)
qed

abbreviation demo_sent :: "(string \<times> json) list" where
  "demo_sent \<equiv> demo_chat (Some ''r1'') [providerToolResult demo_answered]"

definition demo_loop_effects :: "LoopEffect list" where
  "demo_loop_effects = demo_with_result @ [RecordsEvents [], RecordsEvents []]"

lemma demo_loop_called:
  "(loop_step demo_loop)\<^sup>*\<^sup>* (demo_loop_at 0 False (demo_chat None []) Observing [])
     (demo_loop_at 1 False (demo_chat None []) (Working (demo_pool 1 (WorkerExecuting 0) [])) demo_with_call)"
proof -
  let ?r = "demo_chat None []"
  have "loop_step demo_loop (demo_loop_at 0 False ?r Observing []) (demo_loop_at 0 False ?r (RecordingDiscovered [demo_asked_call]) demo_before_tools)"
    using loop_step.collects [of "demo_loop_at 0 False ?r Observing []" demo_asking demo_loop "[]" 0]
    unfolding demo_loop_discovers by (simp add: proper_snapshot_def) (simp add: demo_loop_defs)
  moreover have "loop_step demo_loop (demo_loop_at 0 False ?r (RecordingDiscovered [demo_asked_call]) demo_before_tools)
      (demo_loop_at 1 False ?r (Working (demo_pool 0 WorkerReady [])) demo_before_tools)"
    using loop_step.discovers [of "demo_loop_at 0 False ?r (RecordingDiscovered [demo_asked_call]) demo_before_tools" "[demo_asked_call]" demo_loop demo_asking]
    unfolding demo_loop_charges by (simp add: demo_loop_at_def)
  moreover have "loop_step demo_loop (demo_loop_at 1 False ?r (Working (demo_pool 0 WorkerReady [])) demo_before_tools)
      (demo_loop_at 1 False ?r (Working (demo_pool 1 (WorkerExecuting 0) [])) demo_with_call)"
    using loop_step.takes [of "demo_loop_at 1 False ?r (Working (demo_pool 0 WorkerReady [])) demo_before_tools" "demo_pool 0 WorkerReady []" 0
        demo_loop demo_asking]
    unfolding demo_loop_takes by (simp add: demo_loop_at_def demo_pool_def demo_with_call_def)
  ultimately show ?thesis by (meson converse_rtranclp_into_rtranclp rtranclp.rtrancl_refl)
qed

lemma demo_loop_answered:
  "(loop_step demo_loop)\<^sup>*\<^sup>* (demo_loop_at 1 False (demo_chat None []) (Working (demo_pool 1 (WorkerExecuting 0) [])) demo_with_call)
     (demo_loop_at 1 False (demo_chat None []) (RecordingResults (demo_pool 2 WorkerDone [(''call'', demo_answered)]) []) demo_with_result)"
proof -
  let ?at = "\<lambda>P. demo_loop_at 1 False (demo_chat None []) (Working P) demo_with_call" and ?m = "[(''call'', demo_answered)]"
  have "loop_step demo_loop (?at (demo_pool 1 (WorkerExecuting 0) [])) (?at (demo_pool 1 WorkerReady ?m))"
    using loop_step.executes [of "?at (demo_pool 1 (WorkerExecuting 0) [])" "demo_pool 1 (WorkerExecuting 0) []" 0 0
        "ExecutionCompleted demo_answered" demo_loop]
    unfolding demo_loop_executed by (simp add: demo_loop_defs)
  moreover have "loop_step demo_loop (?at (demo_pool 1 WorkerReady ?m)) (?at (demo_pool 2 WorkerDone ?m))"
    using loop_step.takes [of "?at (demo_pool 1 WorkerReady ?m)" "demo_pool 1 WorkerReady ?m" 0 demo_loop demo_asking]
    unfolding demo_loop_ends by (simp add: demo_loop_at_def demo_pool_def)
  moreover have "loop_step demo_loop (?at (demo_pool 2 WorkerDone ?m))
      (demo_loop_at 1 False (demo_chat None []) (RecordingResults (demo_pool 2 WorkerDone ?m) []) demo_with_result)"
    using loop_step.works [of "?at (demo_pool 2 WorkerDone ?m)" "demo_pool 2 WorkerDone ?m" demo_loop 0 demo_asking]
    unfolding demo_loop_done by (simp add: demo_loop_at_def demo_pool_def)
  ultimately show ?thesis by (meson converse_rtranclp_into_rtranclp rtranclp.rtrancl_refl)
qed

lemma demo_loop_continued:
  "(loop_step demo_loop)\<^sup>*\<^sup>* (demo_loop_at 0 False (demo_chat None []) Observing [])
     (demo_loop_at 1 False demo_sent ContinuingTurn (demo_loop_effects @ [ContinuesTurn ''t'' demo_sent]))"
proof -
  let ?P = "demo_pool 2 WorkerDone [(''call'', demo_answered)]" and ?r = "demo_chat None []"
  let ?at = "\<lambda>ph. demo_loop_at 1 False ?r ph"
  let ?recorded = "results_recorded demo_loop demo_asking ?P [] (?at (RecordingResults ?P []) demo_with_result)"
  have "loop_step demo_loop (?at (RecordingResults ?P []) demo_with_result) ?recorded"
    by (rule loop_step.results) (simp add: demo_loop_at_def)
  moreover have "loop_step demo_loop ?recorded (citations_recorded ?P [] ?recorded)"
    by (rule loop_step.citations) (simp add: results_recorded_def record_events_def)
  moreover have "loop_step demo_loop (?at (RecordingApprovals ?P) demo_loop_effects)
      (demo_loop_at 1 False demo_sent ContinuingTurn (demo_loop_effects @ [ContinuesTurn ''t'' demo_sent]))"
    using loop_step.approvals [of "?at (RecordingApprovals ?P) demo_loop_effects" ?P demo_loop]
    unfolding demo_loop_continues by (simp add: demo_loop_at_def)
  ultimately have "(loop_step demo_loop)\<^sup>*\<^sup>* (?at (RecordingResults ?P []) demo_with_result)
      (demo_loop_at 1 False demo_sent ContinuingTurn (demo_loop_effects @ [ContinuesTurn ''t'' demo_sent]))"
    unfolding demo_loop_records demo_loop_effects_def by (meson converse_rtranclp_into_rtranclp rtranclp.rtrancl_refl)
  then show ?thesis using demo_loop_called demo_loop_answered by (meson rtranclp_trans)
qed

section \<open>The promises of the loop\<close>



lemma aborted_loop_executes:
  assumes "loop_phase s = RecordingDiscovered (c # cs)" and "caller_aborted s" and "distinct (map tool_call_id (c # cs))"
    and "call_result c = None" and "tool_call_name c \<noteq> None" and "arguments c \<noteq> None" and "\<not> has_resolver C"
    and "iterations s < maxIterations (limits C)" and "totalToolCalls s + newly_counted (c # cs) \<le> maxTotalToolCalls (limits C)"
  shows "\<exists>s' P. (loop_step C)\<^sup>*\<^sup>* s s' \<and> caller_aborted s' \<and> loop_phase s' = Working P \<and> \<not> pool_aborted P \<and>
    ExecutesCall (turnId (loop_turn s)) (tool_call_id c) \<in> set (loop_effects s')"
proof -
  let ?s1 = "charge_budgets C (c # cs) demo_asking s"
  obtain P where P: "loop_phase ?s1 = Working P" "caller_aborted ?s1" "loop_turn ?s1 = loop_turn s" "\<not> pool_aborted P" "pool_next P = 0"
      "\<exists>rest. pool_pending P = c # rest" "\<exists>ready. pool_workers P = WorkerReady # ready"
    using charged_pool [OF assms(3,4,8,9), of demo_asking] assms(2) by metis
  let ?s2 = "worker_takes C 0 demo_asking P ?s1"
  have "loop_step C s ?s1" by (rule loop_step.discovers [OF assms(1)])
  moreover have "loop_step C ?s1 ?s2" by (rule loop_step.takes [OF P(1)]) (use P(7) in auto)
  moreover have "?s2 = execute_call 0 0 (P\<lparr>pool_next := 1\<rparr>) ?s1"
    using P(4-6) assms(5-7) by (auto simp: worker_takes_def)
  moreover have "caller_aborted (execute_call 0 0 (P\<lparr>pool_next := 1\<rparr>) ?s1)"
      "loop_phase (execute_call 0 0 (P\<lparr>pool_next := 1\<rparr>) ?s1) = Working (set_worker 0 (WorkerExecuting 0) (P\<lparr>pool_next := 1\<rparr>))"
      "ExecutesCall (turnId (loop_turn s)) (tool_call_id c) \<in> set (loop_effects (execute_call 0 0 (P\<lparr>pool_next := 1\<rparr>) ?s1))"
      "\<not> pool_aborted (set_worker 0 (WorkerExecuting 0) (P\<lparr>pool_next := 1\<rparr>))"
    using P by (auto simp: execute_call_def set_pool_def set_worker_def)
  ultimately show ?thesis by (metis converse_rtranclp_into_rtranclp rtranclp.rtrancl_refl)
qed

text \<open>
  C6. An abort that comes while the discovered calls are being recorded does not reach the tools: the
  listener is added afterwards, so the first call is executed although the signal is aborted, with a
  controller that is not.
\<close>

theorem early_abort_does_not_reach_the_tools:
  assumes "loop_phase s = RecordingDiscovered (c # cs)" and "distinct (map tool_call_id (c # cs))"
    and "call_result c = None" and "tool_call_name c \<noteq> None" and "arguments c \<noteq> None" and "\<not> has_resolver C"
    and "iterations s < maxIterations (limits C)" and "totalToolCalls s + newly_counted (c # cs) \<le> maxTotalToolCalls (limits C)"
  shows "\<exists>s' P. (loop_step C)\<^sup>*\<^sup>* (caller_aborts s) s' \<and> caller_aborted s' \<and> loop_phase s' = Working P \<and> \<not> pool_aborted P \<and>
    ExecutesCall (turnId (loop_turn s)) (tool_call_id c) \<in> set (loop_effects s')"
proof -
  have heard: "caller_aborts s = s\<lparr>caller_aborted := True\<rparr>" using assms(1) by (simp add: caller_aborts_def)
  show ?thesis
    using aborted_loop_executes [of "s\<lparr>caller_aborted := True\<rparr>" c cs C] assms unfolding heard by simp
qed

theorem early_abort_does_not_reach_the_tools_witness:
  "\<exists>s' P. (loop_step demo_loop)\<^sup>*\<^sup>* (caller_aborts (demo_loop_at 0 False (demo_chat None []) (RecordingDiscovered [demo_asked_call]) demo_before_tools)) s' \<and>
    caller_aborted s' \<and> loop_phase s' = Working P \<and> \<not> pool_aborted P \<and> ExecutesCall ''t'' ''call'' \<in> set (loop_effects s')"
  using early_abort_does_not_reach_the_tools [of "demo_loop_at 0 False (demo_chat None []) (RecordingDiscovered [demo_asked_call]) demo_before_tools"
      demo_asked_call "[]" demo_loop]
  by (simp add: newly_counted_def) (simp add: demo_loop_defs)

end
