(* ===== verification/ProtocolStream.thy ===== *)
theory ProtocolStream
  imports Protocol
begin

text \<open>
  The stream events of the wire protocol (src/protocol.ts): each event on its own, and the
  sequence of a response. A sequence number is an integer of any size.
\<close>

section \<open>Events\<close>

datatype CompletionOutcome = OutcomeStop | OutcomeLength | OutcomeToolCalls

datatype CancellationReason = ReasonDeadlineExceeded | ReasonPolicyRevoked | ReasonRuntimeShutdown

datatype PublicErrorCategory =
  CategoryRequest | CategoryAuthentication | CategoryAuthorization | CategoryPolicy | CategoryCapacity |
  CategoryUpstream | CategoryInternal

datatype PublicErrorCode =
  CodeInvalidRequest | CodeUnauthenticated | CodeForbidden | CodePolicyDenied | CodeRateLimited |
  CodeCapacityExceeded | CodeIdempotencyConflict | CodeDeadlineExceeded | CodeUpstreamUnavailable |
  CodeInternalError

definition completion_outcomes :: "(string \<times> CompletionOutcome) list" where
  "completion_outcomes = [(''stop'', OutcomeStop), (''length'', OutcomeLength), (''tool_calls'', OutcomeToolCalls)]"

definition cancellation_reasons :: "(string \<times> CancellationReason) list" where
  "cancellation_reasons = [(''deadline_exceeded'', ReasonDeadlineExceeded), (''policy_revoked'', ReasonPolicyRevoked),
     (''runtime_shutdown'', ReasonRuntimeShutdown)]"

definition error_categories :: "(string \<times> PublicErrorCategory) list" where
  "error_categories = [(''request'', CategoryRequest), (''authentication'', CategoryAuthentication),
     (''authorization'', CategoryAuthorization), (''policy'', CategoryPolicy), (''capacity'', CategoryCapacity),
     (''upstream'', CategoryUpstream), (''internal'', CategoryInternal)]"

definition error_codes :: "(string \<times> PublicErrorCode) list" where
  "error_codes = [(''invalid_request'', CodeInvalidRequest), (''unauthenticated'', CodeUnauthenticated),
     (''forbidden'', CodeForbidden), (''policy_denied'', CodePolicyDenied), (''rate_limited'', CodeRateLimited),
     (''capacity_exceeded'', CodeCapacityExceeded), (''idempotency_conflict'', CodeIdempotencyConflict),
     (''deadline_exceeded'', CodeDeadlineExceeded), (''upstream_unavailable'', CodeUpstreamUnavailable),
     (''internal_error'', CodeInternalError)]"

record AuthoritativeAttribution =
  organization :: string
  project :: string
  service_environment :: string
  attributed_user :: "string option"
  attributed_session :: "string option"
  attributed_automation :: "string option"

record Usage =
  input_tokens :: int
  output_tokens :: int
  total_tokens :: int

record PublicError =
  error_category :: PublicErrorCategory
  public_error_code :: PublicErrorCode
  public_error_message :: string
  public_error_retryable :: bool

datatype StreamPayload =
    ResponseStarted AuthoritativeAttribution
  | ResponseTextDelta string
  | ResponseToolCall string string json
  | ResponseCitationBatch string "json list" "Citation list"
  | ResponseUsage Usage
  | ResponseCompleted CompletionOutcome
  | ResponseCancelled CancellationReason
  | ResponseError PublicError

record StreamEvent =
  stream_request_id :: string
  stream_trace_id :: string
  sequence :: int
  stream_metadata :: "json option"
  stream_payload :: StreamPayload

section \<open>One event\<close>

definition nonnegative_integer :: "json option \<Rightarrow> string \<Rightarrow> fault + int" where
  "nonnegative_integer v path =
     (case v of
        Some (JNum n) \<Rightarrow> if isInteger n \<and> 0 \<le> int_of_number n then Inr (int_of_number n)
                         else fail path ''must be a non-negative integer''
      | _ \<Rightarrow> fail path ''must be a non-negative integer'')"

definition envelope_keys :: "string list" where
  "envelope_keys = [''type'', ''protocol_version'', ''request_id'', ''trace_id'', ''sequence'']"

text \<open>The event with a content still to come.\<close>

definition validateEnvelope ::
    "host \<Rightarrow> (string \<times> json) list \<Rightarrow> string \<Rightarrow> string list \<Rightarrow> fault + (StreamPayload \<Rightarrow> StreamEvent)" where
  "validateEnvelope H ev path allowed =
     bind_result (requiredKeys ev envelope_keys path) (\<lambda>_.
     bind_result (allowedKeys ev (envelope_keys @ [''metadata''] @ allowed) path) (\<lambda>_.
     bind_result (guard (obj_get ev ''protocol_version'' = Some (JStr AI_RUNTIME_PROTOCOL_VERSION))
       (path @ ''.protocol_version'', ''must equal \"handrail.ai-runtime.v1\"'')) (\<lambda>_.
     bind_result (stringValue (obj_get ev ''request_id'') (path @ ''.request_id'') False wireIdentifierLength) (\<lambda>request.
     bind_result (stringValue (obj_get ev ''trace_id'') (path @ ''.trace_id'') False wireIdentifierLength) (\<lambda>trace.
     bind_result (nonnegative_integer (obj_get ev ''sequence'') (path @ ''.sequence'')) (\<lambda>number.
     bind_result (optional_field (wire_validateMetadata H) ev ''metadata'' path) (\<lambda>metadata.
       Inr (\<lambda>content. \<lparr>stream_request_id = request, stream_trace_id = trace, sequence = number,
         stream_metadata = metadata, stream_payload = content\<rparr>))))))))"

definition validateAttributionMember :: "json option \<Rightarrow> string \<Rightarrow> bool \<Rightarrow> fault + string option" where
  "validateAttributionMember v path nullable =
     bind_result (event_record v path) (\<lambda>member.
     bind_result (requiredKeys member [''id'', ''source'', ''trust''] path) (\<lambda>_.
     bind_result (allowedKeys member [''id'', ''source'', ''trust''] path) (\<lambda>_.
     bind_result (if nullable \<and> obj_get member ''id'' = Some JNull then Inr None
       else bind_result (stringValue (obj_get member ''id'') (path @ ''.id'') False wireIdentifierLength)
         (\<lambda>s. Inr (Some s))) (\<lambda>ident.
     bind_result (guard (obj_get member ''source'' = Some (JStr ''server_derived''))
       (path @ ''.source'', ''must equal \"server_derived\"'')) (\<lambda>_.
     bind_result (guard (obj_get member ''trust'' = Some (JStr ''authoritative''))
       (path @ ''.trust'', ''must equal \"authoritative\"'')) (\<lambda>_. Inr ident))))))"

definition attribution_keys :: "string list" where
  "attribution_keys = [''organization'', ''project'', ''service_environment'', ''known_user'', ''session'', ''automation'']"

definition validateAttribution :: "json option \<Rightarrow> string \<Rightarrow> fault + AuthoritativeAttribution" where
  "validateAttribution v path =
     bind_result (event_record v path) (\<lambda>a.
     bind_result (requiredKeys a attribution_keys path) (\<lambda>_.
     bind_result (allowedKeys a attribution_keys path) (\<lambda>_.
     bind_result (validateAttributionMember (obj_get a ''organization'') (path @ ''.organization'') False) (\<lambda>org.
     bind_result (validateAttributionMember (obj_get a ''project'') (path @ ''.project'') False) (\<lambda>proj.
     bind_result (validateAttributionMember (obj_get a ''service_environment'') (path @ ''.service_environment'') False) (\<lambda>env.
     bind_result (validateAttributionMember (obj_get a ''known_user'') (path @ ''.known_user'') True) (\<lambda>user.
     bind_result (validateAttributionMember (obj_get a ''session'') (path @ ''.session'') True) (\<lambda>session.
     bind_result (validateAttributionMember (obj_get a ''automation'') (path @ ''.automation'') True) (\<lambda>automation.
       Inr \<lparr>organization = the org, project = the proj, service_environment = the env, attributed_user = user,
            attributed_session = session, attributed_automation = automation\<rparr>)))))))))"

definition validateUsage :: "json option \<Rightarrow> string \<Rightarrow> fault + Usage" where
  "validateUsage v path =
     bind_result (event_record v path) (\<lambda>u.
     bind_result (requiredKeys u [''input_tokens'', ''output_tokens'', ''total_tokens''] path) (\<lambda>_.
     bind_result (allowedKeys u [''input_tokens'', ''output_tokens'', ''total_tokens''] path) (\<lambda>_.
     bind_result (nonnegative_integer (obj_get u ''input_tokens'') (path @ ''.input_tokens'')) (\<lambda>i.
     bind_result (nonnegative_integer (obj_get u ''output_tokens'') (path @ ''.output_tokens'')) (\<lambda>out.
     bind_result (nonnegative_integer (obj_get u ''total_tokens'') (path @ ''.total_tokens'')) (\<lambda>t.
       Inr \<lparr>input_tokens = i, output_tokens = out, total_tokens = t\<rparr>))))))"

text \<open>The links of a batch: all to its target, in contiguous order.\<close>

fun batch_links_ok :: "string \<Rightarrow> json option \<Rightarrow> nat \<Rightarrow> int option \<Rightarrow> Citation list \<Rightarrow> fault + unit" where
  "batch_links_ok path message i previous [] = Inr ()"
| "batch_links_ok path message i previous (c # cs) =
     (if \<not> (case citation_target c of AssistantMessageCitationTarget m \<Rightarrow> message = Some (JStr m) | _ \<Rightarrow> False)
      then fail (item_path (path @ ''.citations'') i @ ''.target'') ''must match the assistant output target''
      else if (case previous of None \<Rightarrow> False | Some p \<Rightarrow> citation_order c \<noteq> p + 1)
      then fail (item_path (path @ ''.citations'') i @ ''.order'')
        ''must be contiguous and strictly increasing within the batch''
      else batch_links_ok path message (Suc i) (Some (citation_order c)) cs)"

definition validateCitationBatch ::
    "host \<Rightarrow> (string \<times> json) list \<Rightarrow> string \<Rightarrow> fault + StreamEvent" where
  "validateCitationBatch H ev path =
     bind_result (validateEnvelope H ev path [''target'', ''sources'', ''citations'']) (\<lambda>mk.
     bind_result (requiredKeys ev [''target'', ''sources'', ''citations''] path) (\<lambda>_.
     bind_result (normalized_records H (JObj [(''sources'', the (obj_get ev ''sources'')),
       (''citations'', the (obj_get ev ''citations''))]) path) (\<lambda>records.
     bind_result (guard (Citations.citations records \<noteq> [])
       (path @ ''.citations'', ''must contain at least one citation link'')) (\<lambda>_.
     bind_result (guard (jsonValuesEqual (JArr (map source_json (Citations.sources records))) (the (obj_get ev ''sources'')) \<and>
         jsonValuesEqual (JArr (map citation_json (Citations.citations records))) (the (obj_get ev ''citations'')))
       (path, ''citation records must already be normalized and identity-deduplicated'')) (\<lambda>_.
     bind_result (event_record (obj_get ev ''target'') (path @ ''.target'')) (\<lambda>target.
     bind_result (requiredKeys target [''type'', ''message_id''] (path @ ''.target'')) (\<lambda>_.
     bind_result (allowedKeys target [''type'', ''message_id''] (path @ ''.target'')) (\<lambda>_.
     bind_result (guard (obj_get target ''type'' = Some (JStr ''assistant_message''))
       (path @ ''.target.type'', ''must equal \"assistant_message\"'')) (\<lambda>_.
     bind_result (batch_links_ok path (obj_get target ''message_id'') 0 None (Citations.citations records)) (\<lambda>_.
       Inr (mk (ResponseCitationBatch
         (case obj_get target ''message_id'' of Some (JStr m) \<Rightarrow> m | _ \<Rightarrow> [])
         (case obj_get ev ''sources'' of Some (JArr xs) \<Rightarrow> xs | _ \<Rightarrow> [])
         (Citations.citations records)))))))))))))"

definition validatePublicError :: "json option \<Rightarrow> string \<Rightarrow> fault + PublicError" where
  "validatePublicError v path =
     bind_result (event_record v path) (\<lambda>e.
     bind_result (requiredKeys e [''category'', ''code'', ''message'', ''retryable''] path) (\<lambda>_.
     bind_result (allowedKeys e [''category'', ''code'', ''message'', ''retryable''] path) (\<lambda>_.
     bind_result (enumValue (obj_get e ''category'') error_categories (path @ ''.category'')) (\<lambda>category.
     bind_result (enumValue (obj_get e ''code'') error_codes (path @ ''.code'')) (\<lambda>error_code.
     bind_result (stringValue (obj_get e ''message'') (path @ ''.message'') False errorMessageLength) (\<lambda>message.
     bind_result (booleanValue (obj_get e ''retryable'') (path @ ''.retryable'')) (\<lambda>retry.
       Inr \<lparr>error_category = category, public_error_code = error_code, public_error_message = message,
            public_error_retryable = retry\<rparr>)))))))"

definition started_event :: "host \<Rightarrow> (string \<times> json) list \<Rightarrow> fault + StreamEvent" where
  "started_event H ev =
     bind_result (validateEnvelope H ev ''$event'' [''attribution'']) (\<lambda>mk.
     bind_result (guard (obj_get ev ''sequence'' = Some (JNum (Fin 0)))
       (''$event.sequence'', ''must be 0 for response.started'')) (\<lambda>_.
     bind_result (requiredKeys ev [''attribution''] ''$event'') (\<lambda>_.
     bind_result (validateAttribution (obj_get ev ''attribution'') ''$event.attribution'') (\<lambda>a.
       Inr (mk (ResponseStarted a))))))"

definition tool_call_event :: "host \<Rightarrow> (string \<times> json) list \<Rightarrow> fault + StreamEvent" where
  "tool_call_event H ev =
     bind_result (validateEnvelope H ev ''$event'' [''tool_call_id'', ''name'', ''arguments'']) (\<lambda>mk.
     bind_result (requiredKeys ev [''tool_call_id'', ''name'', ''arguments''] ''$event'') (\<lambda>_.
     bind_result (stringValue (obj_get ev ''tool_call_id'') ''$event.tool_call_id'' False wireIdentifierLength) (\<lambda>call_id.
     bind_result (stringValue (obj_get ev ''name'') ''$event.name'' False wireIdentifierLength) (\<lambda>name.
     bind_result (event_record (obj_get ev ''arguments'') ''$event.arguments'') (\<lambda>args.
     bind_result (validateCredentialsAbsent (JObj args) ''$event.arguments'') (\<lambda>_.
       Inr (mk (ResponseToolCall call_id name (JObj args)))))))))"

text \<open>An event whose content is one field.\<close>

definition field_event ::
    "host \<Rightarrow> (string \<times> json) list \<Rightarrow> string \<Rightarrow> (json option \<Rightarrow> string \<Rightarrow> fault + StreamPayload) \<Rightarrow> fault + StreamEvent" where
  "field_event H ev key parse =
     bind_result (validateEnvelope H ev ''$event'' [key]) (\<lambda>mk.
     bind_result (requiredKeys ev [key] ''$event'') (\<lambda>_.
     bind_result (parse (obj_get ev key) (''$event.'' @ key)) (\<lambda>content. Inr (mk content))))"

definition map_fault :: "('a \<Rightarrow> 'b) \<Rightarrow> fault + 'a \<Rightarrow> fault + 'b" where
  "map_fault f r = bind_result r (\<lambda>x. Inr (f x))"

datatype StreamEventType = TStarted | TDelta | TToolCall | TCitations | TUsage | TCompleted | TCancelled | TError

definition stream_event_types :: "(string \<times> StreamEventType) list" where
  "stream_event_types = [(''response.started'', TStarted), (''response.text.delta'', TDelta),
     (''response.tool_call'', TToolCall), (''response.citation_batch'', TCitations), (''response.usage'', TUsage),
     (''response.completed'', TCompleted), (''response.cancelled'', TCancelled), (''response.error'', TError)]"

fun event_of_type :: "host \<Rightarrow> (string \<times> json) list \<Rightarrow> StreamEventType \<Rightarrow> fault + StreamEvent" where
  "event_of_type H ev TStarted = started_event H ev"
| "event_of_type H ev TDelta = field_event H ev ''delta''
     (\<lambda>v p. map_fault ResponseTextDelta (stringValue v p True wireTextLength))"
| "event_of_type H ev TToolCall = tool_call_event H ev"
| "event_of_type H ev TCitations = validateCitationBatch H ev ''$event''"
| "event_of_type H ev TUsage = field_event H ev ''usage'' (\<lambda>v p. map_fault ResponseUsage (validateUsage v p))"
| "event_of_type H ev TCompleted = field_event H ev ''outcome''
     (\<lambda>v p. map_fault ResponseCompleted (enumValue v completion_outcomes p))"
| "event_of_type H ev TCancelled = field_event H ev ''reason''
     (\<lambda>v p. map_fault ResponseCancelled (enumValue v cancellation_reasons p))"
| "event_of_type H ev TError = field_event H ev ''error'' (\<lambda>v p. map_fault ResponseError (validatePublicError v p))"

definition parseStreamEvent :: "host \<Rightarrow> json \<Rightarrow> fault + StreamEvent" where
  "parseStreamEvent H v =
     bind_result (event_record (Some v) ''$event'') (\<lambda>ev.
     bind_result (enumValue (obj_get ev ''type'') stream_event_types ''$event.type'') (\<lambda>t.
     bind_result (event_of_type H ev t) (\<lambda>parsed.
       if t \<noteq> TStarted \<and> sequence parsed = 0
       then fail ''$event.sequence'' ''must be greater than 0 after response.started''
       else Inr parsed)))"

section \<open>The events of a response\<close>

record StreamState =
  terminalCount :: nat
  lastUsage :: "Usage option"
  toolCallCount :: nat
  toolCallIds :: "string list"
  citationTargetId :: "string option"
  nextCitationOrder :: int
  seenCitationIds :: "string list"
  citationSources :: "(string, string) jsmap"

definition initial_stream_state :: StreamState where
  "initial_stream_state = \<lparr>terminalCount = 0, lastUsage = None, toolCallCount = 0, toolCallIds = [],
     citationTargetId = None, nextCitationOrder = 0, seenCitationIds = [], citationSources = []\<rparr>"

definition source_id_of :: "json \<Rightarrow> string" where
  "source_id_of v = (case v of JObj kvs \<Rightarrow> (case obj_get kvs ''source_id'' of Some (JStr s) \<Rightarrow> s | _ \<Rightarrow> []) | _ \<Rightarrow> [])"

fun check_sources ::
    "host \<Rightarrow> string \<Rightarrow> nat \<Rightarrow> json list \<Rightarrow> (string, string) jsmap \<Rightarrow> fault + (string, string) jsmap" where
  "check_sources H path i [] m = Inr m"
| "check_sources H path i (s # ss) m =
     (case map_get m (source_id_of s) of
        Some previous \<Rightarrow>
          if previous \<noteq> stringify H s
          then fail (item_path (path @ ''.sources'') i @ ''.source_id'') ''conflicts with an earlier source identity''
          else check_sources H path (Suc i) ss (map_set (source_id_of s) (stringify H s) m)
      | None \<Rightarrow> check_sources H path (Suc i) ss (map_set (source_id_of s) (stringify H s) m))"

fun check_citations ::
    "string \<Rightarrow> nat \<Rightarrow> Citation list \<Rightarrow> int \<times> string list \<Rightarrow> fault + int \<times> string list" where
  "check_citations path i [] (expected, seen) = Inr (expected, seen)"
| "check_citations path i (c # cs) (expected, seen) =
     (if citation_order c \<noteq> expected
      then fail (item_path (path @ ''.citations'') i @ ''.order'') (''must equal '' @ int_string expected)
      else if citation_id c \<in> set seen
      then fail (item_path (path @ ''.citations'') i @ ''.citation_id'') ''must be unique within the stream''
      else check_citations path (Suc i) cs (expected + 1, citation_id c # seen))"

fun is_terminal_payload :: "StreamPayload \<Rightarrow> bool" where
  "is_terminal_payload (ResponseCompleted _) = True"
| "is_terminal_payload (ResponseCancelled _) = True"
| "is_terminal_payload (ResponseError _) = True"
| "is_terminal_payload _ = False"

fun is_started_payload :: "StreamPayload \<Rightarrow> bool" where
  "is_started_payload (ResponseStarted _) = True"
| "is_started_payload _ = False"

definition usage_decreases :: "Usage \<Rightarrow> Usage \<Rightarrow> bool" where
  "usage_decreases earlier u \<longleftrightarrow> input_tokens u < input_tokens earlier \<or> output_tokens u < output_tokens earlier \<or>
     total_tokens u < total_tokens earlier"

definition payload_step :: "host \<Rightarrow> string \<Rightarrow> StreamState \<Rightarrow> StreamPayload \<Rightarrow> fault + StreamState" where
  "payload_step H path st content =
     (case content of
        ResponseUsage u \<Rightarrow>
          if (case lastUsage st of None \<Rightarrow> False | Some earlier \<Rightarrow> usage_decreases earlier u)
          then fail (path @ ''.usage'') ''cumulative usage must not decrease''
          else Inr (st\<lparr>lastUsage := Some u\<rparr>)
      | ResponseToolCall call_id name args \<Rightarrow>
          if call_id \<in> set (toolCallIds st)
          then fail (path @ ''.tool_call_id'') ''must be unique within the stream''
          else Inr (st\<lparr>toolCallCount := toolCallCount st + 1, toolCallIds := call_id # toolCallIds st\<rparr>)
      | ResponseCitationBatch message ss cs \<Rightarrow>
          if (case citationTargetId st of None \<Rightarrow> False | Some m \<Rightarrow> message \<noteq> m)
          then fail (path @ ''.target.message_id'') ''must match the stream assistant output target''
          else bind_result (check_sources H path 0 ss (citationSources st)) (\<lambda>m.
               bind_result (check_citations path 0 cs (nextCitationOrder st, seenCitationIds st)) (\<lambda>(expected, seen).
                 Inr (st\<lparr>citationTargetId := Some message, citationSources := m, nextCitationOrder := expected,
                   seenCitationIds := seen\<rparr>)))
      | _ \<Rightarrow> Inr st)"

definition stream_step ::
    "host \<Rightarrow> string \<Rightarrow> string \<Rightarrow> nat \<Rightarrow> StreamState \<Rightarrow> nat \<times> StreamEvent \<Rightarrow> fault + StreamState" where
  "stream_step H request trace n st ix =
     (let i = fst ix; ev = snd ix; path = item_path ''$events'' i in
      if stream_request_id ev \<noteq> request then fail (path @ ''.request_id'') ''must match the stream request_id''
      else if stream_trace_id ev \<noteq> trace then fail (path @ ''.trace_id'') ''must match the stream trace_id''
      else if sequence ev \<noteq> int i then fail (path @ ''.sequence'') (''must equal '' @ nat_digits i)
      else if i > 0 \<and> is_started_payload (stream_payload ev)
      then fail (path @ ''.type'') ''response.started may appear only once''
      else if is_terminal_payload (stream_payload ev)
      then (if i \<noteq> n - 1 then fail path ''terminal event must be last''
            else Inr (st\<lparr>terminalCount := terminalCount st + 1\<rparr>))
      else payload_step H path st (stream_payload ev))"

definition parseStreamEvents :: "host \<Rightarrow> json \<Rightarrow> fault + StreamEvent list" where
  "parseStreamEvents H v =
     (case v of
        JArr (x # xs) \<Rightarrow>
          bind_result (map_result (parseStreamEvent H) (x # xs)) (\<lambda>events.
          bind_result (guard (is_started_payload (stream_payload (hd events)))
            (''$events[0].type'', ''must be response.started'')) (\<lambda>_.
          bind_result (fold_result (stream_step H (stream_request_id (hd events)) (stream_trace_id (hd events))
            (length events)) initial_stream_state (indexed events)) (\<lambda>st.
          if terminalCount st \<noteq> 1 then fail ''$events'' ''must contain exactly one terminal event''
          else if stream_payload (last events) = ResponseCompleted OutcomeToolCalls \<and> toolCallCount st = 0
          then fail (item_path ''$events'' (length events - 1) @ ''.outcome'')
            ''tool_calls requires at least one tool call event''
          else Inr events)))
      | _ \<Rightarrow> fail ''$events'' ''must be a non-empty array'')"

definition isStreamEvent :: "host \<Rightarrow> json \<Rightarrow> bool" where
  "isStreamEvent H v = (case parseStreamEvent H v of Inr _ \<Rightarrow> True | Inl _ \<Rightarrow> False)"

end
