(* ===== verification/UsageReceipts.thy ===== *)
theory UsageReceipts
  imports ProtocolStream
begin

text \<open>
  Usage receipts (src/usage.ts): what one provider invocation consumed and cost, validated without
  coercion or rounding, and the projection of a provider's report into a receipt. A value that the
  provider does not know is unavailable, never zero.
\<close>

section \<open>Receipts\<close>

definition receiptIdentifierLength :: nat where "receiptIdentifierLength = 256"
definition providerIdLength :: nat where "providerIdLength = 128"
definition modelIdLength :: nat where "modelIdLength = 256"
definition decimalLength :: nat where "decimalLength = 128"
definition currencyLength :: nat where "currencyLength = 3"

datatype UsageValueStatus = ValueReported | ValueEstimated | ValueUnavailable
datatype KnownUsageValueStatus = KnownReported | KnownEstimated
datatype UsageReceiptSource = ProviderReceipt | RuntimeReceipt
datatype UsageReceiptTerminalStatus = ReceiptCompleted | ReceiptCancelled | ReceiptFailed

definition usage_value_statuses :: "(string \<times> UsageValueStatus) list" where
  "usage_value_statuses = [(''reported'', ValueReported), (''estimated'', ValueEstimated), (''unavailable'', ValueUnavailable)]"

definition usage_receipt_sources :: "(string \<times> UsageReceiptSource) list" where
  "usage_receipt_sources = [(''provider'', ProviderReceipt), (''runtime'', RuntimeReceipt)]"

definition usage_terminal_statuses :: "(string \<times> UsageReceiptTerminalStatus) list" where
  "usage_terminal_statuses = [(''completed'', ReceiptCompleted), (''cancelled'', ReceiptCancelled), (''failed'', ReceiptFailed)]"

datatype NormalizedUsageQuantity = KnownQuantity KnownUsageValueStatus int | UnavailableQuantity

datatype NormalizedUsageCost = KnownCost KnownUsageValueStatus string string | UnavailableCost \<comment> \<open>amount, currency\<close>

record NormalizedTokenUsage =
  receipt_input :: NormalizedUsageQuantity
  receipt_cached :: NormalizedUsageQuantity
  receipt_cache_write :: "NormalizedUsageQuantity option"
  receipt_output :: NormalizedUsageQuantity
  receipt_reasoning :: NormalizedUsageQuantity
  receipt_total :: NormalizedUsageQuantity

record UsageIdentity =
  identity_id :: string
  identity_index :: int

record NormalizedUsageReceipt =
  receipt_occurred_at :: "string option"
  usage_receipt_id :: string
  receipt_conversation_id :: string
  receipt_turn_id :: string
  logical_request_id :: string
  receipt_trace_id :: string
  receipt_attempt :: UsageIdentity
  receipt_continuation :: UsageIdentity
  receipt_provider_id :: string
  receipt_model_id :: string
  receipt_attribution :: AuthoritativeAttribution
  receipt_source :: UsageReceiptSource
  receipt_terminal_status :: UsageReceiptTerminalStatus
  receipt_tokens :: NormalizedTokenUsage
  receipt_cost :: NormalizedUsageCost

section \<open>Strings\<close>

definition receipt_string :: "json option \<Rightarrow> string \<Rightarrow> nat \<Rightarrow> fault + string" where
  "receipt_string v path maxLength =
     (case v of
        Some (JStr s) \<Rightarrow>
          if s = [] then fail path ''must not be empty''
          else if length s > maxLength then fail path (''must be at most '' @ nat_digits maxLength @ '' characters'')
          else if list_ex is_control s then fail path ''must not contain control characters''
          else if has_credential s then fail path ''must not contain credential material''
          else Inr s
      | _ \<Rightarrow> fail path ''must be a string'')"

definition receipt_identifier :: "json option \<Rightarrow> string \<Rightarrow> fault + string" where
  "receipt_identifier v path = receipt_string v path receiptIdentifierLength"

text \<open>\<open>EXACT_NON_NEGATIVE_DECIMAL\<close>: an integer without leading zeros, and a fraction.\<close>

definition is_exact_decimal :: "string \<Rightarrow> bool" where
  "is_exact_decimal s \<longleftrightarrow>
     (let whole = takeWhile is_digit s; rest = dropWhile is_digit s in
      whole \<noteq> [] \<and> (hd whole = CHR ''0'' \<longrightarrow> whole = ''0'') \<and>
      (rest = [] \<or> (hd rest = CHR ''.'' \<and> tl rest \<noteq> [] \<and> list_all is_digit (tl rest))))"

definition is_currency :: "string \<Rightarrow> bool" where
  "is_currency s \<longleftrightarrow> length s = 3 \<and> list_all (\<lambda>c. 65 \<le> code c \<and> code c \<le> 90) s"

definition is_provider_id :: "string \<Rightarrow> bool" where
  "is_provider_id s \<longleftrightarrow> first_and_rest is_alnum (\<lambda>c. is_alnum c \<or> c \<in> set ''._:/-'') s"

definition is_model_id :: "string \<Rightarrow> bool" where
  "is_model_id s \<longleftrightarrow> first_and_rest is_alnum (\<lambda>c. is_alnum c \<or> c \<in> set ''._:@/+-'') s"

text \<open>
  \<open>new Date(s).toISOString() === s\<close>: the string is the ISO form of a time the language can
  represent, with an expanded year outside 0 to 9999.
\<close>

definition iso_year :: "string \<Rightarrow> (int \<times> string) option" where
  "iso_year s =
     (case s of
        [] \<Rightarrow> None
      | c # r \<Rightarrow>
          if c = CHR ''+'' then Option.bind (take_digits 6 0 r) (\<lambda>(y, t). if y > 9999 then Some (y, t) else None)
          else if c = CHR ''-'' then Option.bind (take_digits 6 0 r) (\<lambda>(y, t). if y > 0 then Some (- y, t) else None)
          else take_digits 4 0 s)"

definition iso_fields :: "string \<Rightarrow> date_fields option" where
  "iso_fields s =
     Option.bind (iso_year s) (\<lambda>(y, s).
       map_option (\<lambda>d. d\<lparr>year := y\<rparr>) (match_timestamp (''0000'' @ s)))"

definition is_canonical_iso :: "string \<Rightarrow> bool" where
  "is_canonical_iso s \<longleftrightarrow>
     (case iso_fields s of
        None \<Rightarrow> False
      | Some d \<Rightarrow> length (fraction d) = 3 \<and> day d \<ge> 1 \<and>
          (case days_in_month (year d) (month d) of None \<Rightarrow> False | Some n \<Rightarrow> day d \<le> n) \<and>
          hour d \<le> 23 \<and> minute d \<le> 59 \<and> second d \<le> 59 \<and> \<bar>time_ms d\<bar> \<le> 8640000000000000)"

section \<open>Parts of a receipt\<close>

definition validateIdentity :: "json option \<Rightarrow> string \<Rightarrow> fault + UsageIdentity" where
  "validateIdentity v path =
     bind_result (event_record v path) (\<lambda>kvs.
     bind_result (requiredKeys kvs [''id'', ''index''] path) (\<lambda>_.
     bind_result (allowedKeys kvs [''id'', ''index''] path) (\<lambda>_.
     bind_result (receipt_identifier (obj_get kvs ''id'') (path @ ''.id'')) (\<lambda>i.
     bind_result (nonnegativeSafeInteger (obj_get kvs ''index'') (path @ ''.index'')) (\<lambda>n.
       Inr \<lparr>identity_id = i, identity_index = n\<rparr>)))))"

definition known_status :: "UsageValueStatus \<Rightarrow> KnownUsageValueStatus option" where
  "known_status s = (case s of ValueReported \<Rightarrow> Some KnownReported | ValueEstimated \<Rightarrow> Some KnownEstimated | ValueUnavailable \<Rightarrow> None)"

definition validateQuantity :: "json option \<Rightarrow> string \<Rightarrow> fault + NormalizedUsageQuantity" where
  "validateQuantity v path =
     bind_result (event_record v path) (\<lambda>kvs.
     bind_result (requiredKeys kvs [''status''] path) (\<lambda>_.
     bind_result (enumValue (obj_get kvs ''status'') usage_value_statuses (path @ ''.status'')) (\<lambda>status.
     case known_status status of
       None \<Rightarrow> bind_result (allowedKeys kvs [''status''] path) (\<lambda>_. Inr UnavailableQuantity)
     | Some quality \<Rightarrow>
         bind_result (requiredKeys kvs [''value''] path) (\<lambda>_.
         bind_result (allowedKeys kvs [''status'', ''value''] path) (\<lambda>_.
         bind_result (nonnegativeSafeInteger (obj_get kvs ''value'') (path @ ''.value'')) (\<lambda>n.
           Inr (KnownQuantity quality n)))))))"

fun knownQuantityValue :: "NormalizedUsageQuantity \<Rightarrow> int option" where
  "knownQuantityValue UnavailableQuantity = None"
| "knownQuantityValue (KnownQuantity q n) = Some n"

definition token_fields :: "string list" where
  "token_fields = [''input_tokens'', ''cached_input_tokens'', ''output_tokens'', ''reasoning_tokens'', ''total_tokens'']"

text \<open>
  The consistency of the counts. They are safe integers: the sum of two of them is compared
  with a third one, which it equals in double arithmetic exactly when it does as an integer.
\<close>

definition check_totals :: "int option \<Rightarrow> int option \<Rightarrow> int option \<Rightarrow> string \<Rightarrow> fault + unit" where
  "check_totals i out t path =
     (let known = length (filter (\<lambda>x. x \<noteq> None) [i, out, t]) in
      if known \<noteq> 0 \<and> known \<noteq> 3
      then fail path ''input_tokens, output_tokens, and total_tokens must be available together''
      else guard (case (i, out) of (Some a, Some b) \<Rightarrow> t = Some (a + b) | _ \<Rightarrow> True)
        (path @ ''.total_tokens.value'', ''must equal input_tokens + output_tokens''))"

definition check_subset :: "string \<Rightarrow> string \<Rightarrow> int option \<Rightarrow> int option \<Rightarrow> string \<Rightarrow> fault + unit" where
  "check_subset part whole p w path =
     (case (p, w) of
        (Some _, None) \<Rightarrow> fail (path @ ''.'' @ part) (''cannot be available when '' @ whole @ '' is unavailable'')
      | (Some x, Some y) \<Rightarrow> guard (x \<le> y) (path @ ''.'' @ part @ ''.value'', ''must not exceed '' @ whole)
      | _ \<Rightarrow> Inr ())"

definition check_cache_write :: "int option \<Rightarrow> int option \<Rightarrow> int option \<Rightarrow> string \<Rightarrow> fault + unit" where
  "check_cache_write cw i cached path =
     guard (case cw of
         None \<Rightarrow> True
       | Some w \<Rightarrow> (case i of None \<Rightarrow> False
           | Some n \<Rightarrow> w \<le> n \<and> w + (case cached of None \<Rightarrow> 0 | Some c \<Rightarrow> c) \<le> n))
       (path @ ''.cache_write_input_tokens.value'', ''must be a disjoint subset of input_tokens'')"

definition validateTokenUsage :: "json option \<Rightarrow> string \<Rightarrow> fault + NormalizedTokenUsage" where
  "validateTokenUsage v path =
     bind_result (event_record v path) (\<lambda>kvs.
     bind_result (requiredKeys kvs token_fields path) (\<lambda>_.
     bind_result (allowedKeys kvs (token_fields @ [''cache_write_input_tokens'']) path) (\<lambda>_.
     bind_result (validateQuantity (obj_get kvs ''input_tokens'') (path @ ''.input_tokens'')) (\<lambda>i.
     bind_result (validateQuantity (obj_get kvs ''cached_input_tokens'') (path @ ''.cached_input_tokens'')) (\<lambda>cached.
     bind_result (validateQuantity (obj_get kvs ''output_tokens'') (path @ ''.output_tokens'')) (\<lambda>out.
     bind_result (validateQuantity (obj_get kvs ''reasoning_tokens'') (path @ ''.reasoning_tokens'')) (\<lambda>reasoning.
     bind_result (validateQuantity (obj_get kvs ''total_tokens'') (path @ ''.total_tokens'')) (\<lambda>t.
     bind_result (optional_field validateQuantity kvs ''cache_write_input_tokens'' path) (\<lambda>cw.
     bind_result (check_totals (knownQuantityValue i) (knownQuantityValue out) (knownQuantityValue t) path) (\<lambda>_.
     bind_result (check_subset ''cached_input_tokens'' ''input_tokens'' (knownQuantityValue cached) (knownQuantityValue i) path) (\<lambda>_.
     bind_result (check_cache_write (Option.bind cw knownQuantityValue) (knownQuantityValue i) (knownQuantityValue cached) path) (\<lambda>_.
     bind_result (check_subset ''reasoning_tokens'' ''output_tokens'' (knownQuantityValue reasoning) (knownQuantityValue out) path) (\<lambda>_.
       Inr \<lparr>receipt_input = i, receipt_cached = cached, receipt_cache_write = cw, receipt_output = out,
            receipt_reasoning = reasoning, receipt_total = t\<rparr>)))))))))))))"

definition validateCost :: "json option \<Rightarrow> string \<Rightarrow> fault + NormalizedUsageCost" where
  "validateCost v path =
     bind_result (event_record v path) (\<lambda>kvs.
     bind_result (requiredKeys kvs [''status''] path) (\<lambda>_.
     bind_result (enumValue (obj_get kvs ''status'') usage_value_statuses (path @ ''.status'')) (\<lambda>status.
     case known_status status of
       None \<Rightarrow> bind_result (allowedKeys kvs [''status''] path) (\<lambda>_. Inr UnavailableCost)
     | Some quality \<Rightarrow>
         bind_result (requiredKeys kvs [''amount'', ''currency''] path) (\<lambda>_.
         bind_result (allowedKeys kvs [''status'', ''amount'', ''currency''] path) (\<lambda>_.
         bind_result (receipt_string (obj_get kvs ''amount'') (path @ ''.amount'') decimalLength) (\<lambda>amount.
         bind_result (guard (is_exact_decimal amount)
           (path @ ''.amount'', ''must be an exact non-negative base-10 decimal string'')) (\<lambda>_.
         bind_result (receipt_string (obj_get kvs ''currency'') (path @ ''.currency'') currencyLength) (\<lambda>currency.
         bind_result (guard (is_currency currency)
           (path @ ''.currency'', ''must be a three-letter uppercase ISO 4217 code'')) (\<lambda>_.
           Inr (KnownCost quality amount currency))))))))))"

text \<open>The attribution, whose identifiers are checked more strictly than on the wire.\<close>

definition receipt_member :: "json option \<Rightarrow> string \<Rightarrow> bool \<Rightarrow> fault + string option" where
  "receipt_member v path nullable =
     bind_result (event_record v path) (\<lambda>member.
     bind_result (requiredKeys member [''id'', ''source'', ''trust''] path) (\<lambda>_.
     bind_result (allowedKeys member [''id'', ''source'', ''trust''] path) (\<lambda>_.
     bind_result (if nullable \<and> obj_get member ''id'' = Some JNull then Inr None
       else bind_result (receipt_identifier (obj_get member ''id'') (path @ ''.id'')) (\<lambda>s. Inr (Some s))) (\<lambda>ident.
     bind_result (guard (obj_get member ''source'' = Some (JStr ''server_derived''))
       (path @ ''.source'', ''must equal \"server_derived\"'')) (\<lambda>_.
     bind_result (guard (obj_get member ''trust'' = Some (JStr ''authoritative''))
       (path @ ''.trust'', ''must equal \"authoritative\"'')) (\<lambda>_. Inr ident))))))"

definition receipt_attribution_of :: "json option \<Rightarrow> string \<Rightarrow> fault + AuthoritativeAttribution" where
  "receipt_attribution_of v path =
     bind_result (event_record v path) (\<lambda>a.
     bind_result (requiredKeys a attribution_keys path) (\<lambda>_.
     bind_result (allowedKeys a attribution_keys path) (\<lambda>_.
     bind_result (receipt_member (obj_get a ''organization'') (path @ ''.organization'') False) (\<lambda>org.
     bind_result (receipt_member (obj_get a ''project'') (path @ ''.project'') False) (\<lambda>proj.
     bind_result (receipt_member (obj_get a ''service_environment'') (path @ ''.service_environment'') False) (\<lambda>env.
     bind_result (receipt_member (obj_get a ''known_user'') (path @ ''.known_user'') True) (\<lambda>user.
     bind_result (receipt_member (obj_get a ''session'') (path @ ''.session'') True) (\<lambda>session.
     bind_result (receipt_member (obj_get a ''automation'') (path @ ''.automation'') True) (\<lambda>automation.
       Inr \<lparr>organization = the org, project = the proj, service_environment = the env, attributed_user = user,
            attributed_session = session, attributed_automation = automation\<rparr>)))))))))"

definition validateProviderIdentity :: "json option \<Rightarrow> string \<Rightarrow> nat \<Rightarrow> (string \<Rightarrow> bool) \<Rightarrow> fault + string" where
  "validateProviderIdentity v path maxLength pattern_matches =
     bind_result (receipt_string v path maxLength) (\<lambda>s.
     bind_result (guard (pattern_matches s) (path, ''must be a safe provider/model identifier'')) (\<lambda>_. Inr s))"

definition validate_occurred_at :: "json option \<Rightarrow> string \<Rightarrow> fault + string" where
  "validate_occurred_at v path =
     bind_result (receipt_string v path 64) (\<lambda>s.
     bind_result (guard (is_canonical_iso s) (path, ''must be a canonical ISO-8601 timestamp'')) (\<lambda>_. Inr s))"

section \<open>The receipt\<close>

definition receipt_keys :: "string list" where
  "receipt_keys = [''version'', ''usage_receipt_id'', ''conversation_id'', ''turn_id'', ''logical_request_id'', ''trace_id'',
     ''attempt'', ''continuation'', ''provider_id'', ''model_id'', ''attribution'', ''source'', ''terminal_status'',
     ''tokens'', ''provider_cost'']"

definition parseNormalizedUsageReceipt :: "json \<Rightarrow> fault + NormalizedUsageReceipt" where
  "parseNormalizedUsageReceipt v =
     bind_result (event_record (Some v) ''$receipt'') (\<lambda>kvs.
     bind_result (requiredKeys kvs receipt_keys ''$receipt'') (\<lambda>_.
     bind_result (allowedKeys kvs (receipt_keys @ [''occurred_at'']) ''$receipt'') (\<lambda>_.
     bind_result (guard (obj_get kvs ''version'' = Some (JNum (Fin 1))) (''$receipt.version'', ''must equal 1'')) (\<lambda>_.
     bind_result (optional_field validate_occurred_at kvs ''occurred_at'' ''$receipt'') (\<lambda>occurred.
     bind_result (receipt_identifier (obj_get kvs ''usage_receipt_id'') ''$receipt.usage_receipt_id'') (\<lambda>rid.
     bind_result (receipt_identifier (obj_get kvs ''conversation_id'') ''$receipt.conversation_id'') (\<lambda>cid.
     bind_result (receipt_identifier (obj_get kvs ''turn_id'') ''$receipt.turn_id'') (\<lambda>tid.
     bind_result (receipt_identifier (obj_get kvs ''logical_request_id'') ''$receipt.logical_request_id'') (\<lambda>lid.
     bind_result (receipt_identifier (obj_get kvs ''trace_id'') ''$receipt.trace_id'') (\<lambda>trace.
     bind_result (validateIdentity (obj_get kvs ''attempt'') ''$receipt.attempt'') (\<lambda>attempt.
     bind_result (validateIdentity (obj_get kvs ''continuation'') ''$receipt.continuation'') (\<lambda>continuation.
     bind_result (validateProviderIdentity (obj_get kvs ''provider_id'') ''$receipt.provider_id'' providerIdLength is_provider_id) (\<lambda>pid.
     bind_result (validateProviderIdentity (obj_get kvs ''model_id'') ''$receipt.model_id'' modelIdLength is_model_id) (\<lambda>mid.
     bind_result (receipt_attribution_of (obj_get kvs ''attribution'') ''$receipt.attribution'') (\<lambda>attribution.
     bind_result (enumValue (obj_get kvs ''source'') usage_receipt_sources ''$receipt.source'') (\<lambda>src.
     bind_result (enumValue (obj_get kvs ''terminal_status'') usage_terminal_statuses ''$receipt.terminal_status'') (\<lambda>status.
     bind_result (validateTokenUsage (obj_get kvs ''tokens'') ''$receipt.tokens'') (\<lambda>tokens.
     bind_result (validateCost (obj_get kvs ''provider_cost'') ''$receipt.provider_cost'') (\<lambda>cost.
       Inr \<lparr>receipt_occurred_at = occurred, usage_receipt_id = rid, receipt_conversation_id = cid, receipt_turn_id = tid,
            logical_request_id = lid, receipt_trace_id = trace, receipt_attempt = attempt, receipt_continuation = continuation,
            receipt_provider_id = pid, receipt_model_id = mid, receipt_attribution = attribution, receipt_source = src,
            receipt_terminal_status = status, receipt_tokens = tokens, receipt_cost = cost\<rparr>)))))))))))))))))))"

definition isNormalizedUsageReceipt :: "json \<Rightarrow> bool" where
  "isNormalizedUsageReceipt v = (case parseNormalizedUsageReceipt v of Inr _ \<Rightarrow> True | Inl _ \<Rightarrow> False)"

section \<open>From a provider's report\<close>

text \<open>What a provider reports: its counts are numbers of the language, its cost known or not.\<close>

record ProviderUsage =
  provider_input :: jsnumber
  provider_cached :: jsnumber
  provider_cache_write :: "jsnumber option"
  provider_output :: jsnumber
  provider_reasoning :: jsnumber
  provider_total :: jsnumber
  provider_cost :: "(string \<times> string) option"

record ProviderUsageReceiptContext =
  context_occurred_at :: "string option"
  context_receipt_id :: string
  context_conversation_id :: string
  context_turn_id :: string
  context_logical_request_id :: string
  context_trace_id :: string
  context_attempt :: "string \<times> jsnumber"
  context_continuation :: "string \<times> jsnumber"
  context_provider_id :: string
  context_model_id :: string
  context_attribution :: AuthoritativeAttribution
  context_source :: UsageReceiptSource
  context_quality :: KnownUsageValueStatus
  context_terminal_status :: UsageReceiptTerminalStatus

definition member_json :: "string option \<Rightarrow> json" where
  "member_json i = JObj [(''id'', case i of None \<Rightarrow> JNull | Some s \<Rightarrow> JStr s), (''source'', JStr ''server_derived''),
     (''trust'', JStr ''authoritative'')]"

definition snapshotAttribution :: "AuthoritativeAttribution \<Rightarrow> json" where
  "snapshotAttribution a = JObj [(''organization'', member_json (Some (organization a))), (''project'', member_json (Some (project a))),
     (''service_environment'', member_json (Some (service_environment a))), (''known_user'', member_json (attributed_user a)),
     (''session'', member_json (attributed_session a)), (''automation'', member_json (attributed_automation a))]"

fun status_name :: "KnownUsageValueStatus \<Rightarrow> string" where
  "status_name KnownReported = ''reported''"
| "status_name KnownEstimated = ''estimated''"

fun source_name :: "UsageReceiptSource \<Rightarrow> string" where
  "source_name ProviderReceipt = ''provider''"
| "source_name RuntimeReceipt = ''runtime''"

fun terminal_name :: "UsageReceiptTerminalStatus \<Rightarrow> string" where
  "terminal_name ReceiptCompleted = ''completed''"
| "terminal_name ReceiptCancelled = ''cancelled''"
| "terminal_name ReceiptFailed = ''failed''"

definition quantity :: "KnownUsageValueStatus \<Rightarrow> jsnumber \<Rightarrow> json" where
  "quantity status n = JObj [(''status'', JStr (status_name status)), (''value'', JNum n)]"

definition identity_json :: "string \<times> jsnumber \<Rightarrow> json" where
  "identity_json i = JObj [(''id'', JStr (fst i)), (''index'', JNum (snd i))]"

definition projected_cost :: "KnownUsageValueStatus \<Rightarrow> (string \<times> string) option \<Rightarrow> json" where
  "projected_cost quality cost =
     (case cost of
        None \<Rightarrow> JObj [(''status'', JStr ''unavailable'')]
      | Some (amount, currency) \<Rightarrow>
          JObj [(''status'', JStr (status_name quality)), (''amount'', JStr amount), (''currency'', JStr currency)])"

definition projected_tokens :: "KnownUsageValueStatus \<Rightarrow> ProviderUsage \<Rightarrow> json" where
  "projected_tokens quality u = JObj
     ([(''input_tokens'', quantity quality (provider_input u)), (''cached_input_tokens'', quantity quality (provider_cached u))] @
      (case provider_cache_write u of None \<Rightarrow> [] | Some n \<Rightarrow> [(''cache_write_input_tokens'', quantity quality n)]) @
      [(''output_tokens'', quantity quality (provider_output u)), (''reasoning_tokens'', quantity quality (provider_reasoning u)),
       (''total_tokens'', quantity quality (provider_total u))])"

definition projected_receipt :: "ProviderUsage \<Rightarrow> ProviderUsageReceiptContext \<Rightarrow> json" where
  "projected_receipt u c = JObj
     ([(''version'', JNum (Fin 1))] @ (case context_occurred_at c of None \<Rightarrow> [] | Some s \<Rightarrow> [(''occurred_at'', JStr s)]) @
      [(''usage_receipt_id'', JStr (context_receipt_id c)), (''conversation_id'', JStr (context_conversation_id c)),
       (''turn_id'', JStr (context_turn_id c)), (''logical_request_id'', JStr (context_logical_request_id c)),
       (''trace_id'', JStr (context_trace_id c)), (''attempt'', identity_json (context_attempt c)),
       (''continuation'', identity_json (context_continuation c)), (''provider_id'', JStr (context_provider_id c)),
       (''model_id'', JStr (context_model_id c)), (''attribution'', snapshotAttribution (context_attribution c)),
       (''source'', JStr (source_name (context_source c))), (''terminal_status'', JStr (terminal_name (context_terminal_status c))),
       (''tokens'', projected_tokens (context_quality c) u), (''provider_cost'', projected_cost (context_quality c) (provider_cost u))])"

definition projectProviderUsageToReceipt :: "ProviderUsage \<Rightarrow> ProviderUsageReceiptContext \<Rightarrow> fault + NormalizedUsageReceipt" where
  "projectProviderUsageToReceipt u c = parseNormalizedUsageReceipt (projected_receipt u c)"

end
