(* ===== verification/UsageFacts.thy ===== *)
theory UsageFacts
  imports UsageReceipts
begin

text \<open>
  What an accepted usage receipt says (src/usage.ts): its counts are consistent, its identities are
  bounded and free of credentials, its cost is an exact decimal; written as JSON it is parsed as
  itself. A projection reports exactly what the provider reported.
\<close>

section \<open>Well-formed receipts\<close>

definition count_ok :: "NormalizedUsageQuantity \<Rightarrow> bool" where
  "count_ok q \<longleftrightarrow> (case q of UnavailableQuantity \<Rightarrow> True | KnownQuantity k n \<Rightarrow> 0 \<le> n \<and> safe_int n)"

definition part_of :: "NormalizedUsageQuantity \<Rightarrow> NormalizedUsageQuantity \<Rightarrow> bool" where
  "part_of p w \<longleftrightarrow> (case p of UnavailableQuantity \<Rightarrow> True
     | KnownQuantity k n \<Rightarrow> (case w of UnavailableQuantity \<Rightarrow> False | KnownQuantity k' m \<Rightarrow> n \<le> m))"

definition counted :: "NormalizedUsageQuantity \<Rightarrow> int" where
  "counted q = (case q of UnavailableQuantity \<Rightarrow> 0 | KnownQuantity k n \<Rightarrow> n)"

definition tokens_ok :: "NormalizedTokenUsage \<Rightarrow> bool" where
  "tokens_ok t \<longleftrightarrow>
     list_all count_ok ([receipt_input t, receipt_cached t, receipt_output t, receipt_reasoning t, receipt_total t] @
       (case receipt_cache_write t of None \<Rightarrow> [] | Some q \<Rightarrow> [q])) \<and>
     (receipt_input t = UnavailableQuantity \<longleftrightarrow> receipt_total t = UnavailableQuantity) \<and>
     (receipt_output t = UnavailableQuantity \<longleftrightarrow> receipt_total t = UnavailableQuantity) \<and>
     counted (receipt_total t) = counted (receipt_input t) + counted (receipt_output t) \<and>
     part_of (receipt_cached t) (receipt_input t) \<and> part_of (receipt_reasoning t) (receipt_output t) \<and>
     (case receipt_cache_write t of None \<Rightarrow> True
      | Some q \<Rightarrow> part_of q (receipt_input t) \<and> (q \<noteq> UnavailableQuantity \<longrightarrow>
          counted q + counted (receipt_cached t) \<le> counted (receipt_input t)))"

definition receipt_text_ok :: "nat \<Rightarrow> string \<Rightarrow> bool" where
  "receipt_text_ok n s \<longleftrightarrow> s \<noteq> [] \<and> length s \<le> n \<and> \<not> list_ex is_control s \<and> \<not> has_credential s"

definition identity_ok :: "UsageIdentity \<Rightarrow> bool" where
  "identity_ok i \<longleftrightarrow> receipt_text_ok 256 (identity_id i) \<and> 0 \<le> identity_index i \<and> safe_int (identity_index i)"

definition cost_ok :: "NormalizedUsageCost \<Rightarrow> bool" where
  "cost_ok c \<longleftrightarrow> (case c of UnavailableCost \<Rightarrow> True
     | KnownCost q amount currency \<Rightarrow> receipt_text_ok 128 amount \<and> is_exact_decimal amount \<and>
         receipt_text_ok 3 currency \<and> is_currency currency)"

definition receipt_attribution_ok :: "AuthoritativeAttribution \<Rightarrow> bool" where
  "receipt_attribution_ok a \<longleftrightarrow> receipt_text_ok 256 (organization a) \<and> receipt_text_ok 256 (project a) \<and>
     receipt_text_ok 256 (service_environment a) \<and> pred_option (receipt_text_ok 256) (attributed_user a) \<and>
     pred_option (receipt_text_ok 256) (attributed_session a) \<and> pred_option (receipt_text_ok 256) (attributed_automation a)"

definition receipt_ok :: "NormalizedUsageReceipt \<Rightarrow> bool" where
  "receipt_ok r \<longleftrightarrow>
     pred_option (\<lambda>s. receipt_text_ok 64 s \<and> is_canonical_iso s) (receipt_occurred_at r) \<and>
     list_all (receipt_text_ok 256) [usage_receipt_id r, receipt_conversation_id r, receipt_turn_id r, logical_request_id r, receipt_trace_id r] \<and>
     identity_ok (receipt_attempt r) \<and> identity_ok (receipt_continuation r) \<and>
     receipt_text_ok 128 (receipt_provider_id r) \<and> is_provider_id (receipt_provider_id r) \<and>
     receipt_text_ok 256 (receipt_model_id r) \<and> is_model_id (receipt_model_id r) \<and>
     receipt_attribution_ok (receipt_attribution r) \<and> tokens_ok (receipt_tokens r) \<and> cost_ok (receipt_cost r)"

text \<open>The JSON of a receipt.\<close>

fun quantity_json :: "NormalizedUsageQuantity \<Rightarrow> json" where
  "quantity_json UnavailableQuantity = JObj [(''status'', JStr ''unavailable'')]"
| "quantity_json (KnownQuantity q n) = quantity q (Fin (of_int n))"

fun cost_json :: "NormalizedUsageCost \<Rightarrow> json" where
  "cost_json UnavailableCost = projected_cost KnownReported None"
| "cost_json (KnownCost q amount currency) = projected_cost q (Some (amount, currency))"

definition tokens_json :: "NormalizedTokenUsage \<Rightarrow> json" where
  "tokens_json t = JObj
     ([(''input_tokens'', quantity_json (receipt_input t)), (''cached_input_tokens'', quantity_json (receipt_cached t))] @
      (case receipt_cache_write t of None \<Rightarrow> [] | Some q \<Rightarrow> [(''cache_write_input_tokens'', quantity_json q)]) @
      [(''output_tokens'', quantity_json (receipt_output t)), (''reasoning_tokens'', quantity_json (receipt_reasoning t)),
       (''total_tokens'', quantity_json (receipt_total t))])"

definition receipt_json :: "NormalizedUsageReceipt \<Rightarrow> json" where
  "receipt_json r = JObj
     ([(''version'', JNum (Fin 1))] @ (case receipt_occurred_at r of None \<Rightarrow> [] | Some s \<Rightarrow> [(''occurred_at'', JStr s)]) @
      [(''usage_receipt_id'', JStr (usage_receipt_id r)), (''conversation_id'', JStr (receipt_conversation_id r)),
       (''turn_id'', JStr (receipt_turn_id r)), (''logical_request_id'', JStr (logical_request_id r)),
       (''trace_id'', JStr (receipt_trace_id r)),
       (''attempt'', identity_json (identity_id (receipt_attempt r), Fin (of_int (identity_index (receipt_attempt r))))),
       (''continuation'', identity_json (identity_id (receipt_continuation r), Fin (of_int (identity_index (receipt_continuation r))))),
       (''provider_id'', JStr (receipt_provider_id r)),
       (''model_id'', JStr (receipt_model_id r)), (''attribution'', snapshotAttribution (receipt_attribution r)),
       (''source'', JStr (source_name (receipt_source r))), (''terminal_status'', JStr (terminal_name (receipt_terminal_status r))),
       (''tokens'', tokens_json (receipt_tokens r)), (''provider_cost'', cost_json (receipt_cost r))])"

section \<open>The parts\<close>

lemma receipt_string_iff: "receipt_string v path n = Inr s \<longleftrightarrow> v = Some (JStr s) \<and> receipt_text_ok n s"
  by (auto simp: receipt_string_def receipt_text_ok_def split: option.splits json.splits if_splits)

lemmas receipt_identifier_iff = receipt_string_iff [where n = receiptIdentifierLength, folded receipt_identifier_def]

lemma safe_count_iff: "nonnegativeSafeInteger v path = Inr n \<longleftrightarrow> v = Some (JNum (Fin (of_int n))) \<and> 0 \<le> n \<and> safe_int n"
proof
  assume "nonnegativeSafeInteger v path = Inr n"
  then obtain x where "v = Some (JNum x)" "isSafeInteger x" "0 \<le> int_of_number x" "n = int_of_number x"
    by (auto simp: nonnegativeSafeInteger_def safe_integer_from_def split: option.splits json.splits if_splits)
  then show "v = Some (JNum (Fin (of_int n))) \<and> 0 \<le> n \<and> safe_int n" using isSafeInteger_int by blast
qed (auto simp: nonnegativeSafeInteger_def safe_integer_from_def)

lemma enum_values:
  "enumValue v usage_value_statuses path = Inr k \<longleftrightarrow> v = Some (JStr (case k of ValueReported \<Rightarrow> ''reported'' | ValueEstimated \<Rightarrow> ''estimated''
     | ValueUnavailable \<Rightarrow> ''unavailable''))"
  by (cases k) (auto simp: enumValue_def usage_value_statuses_def split: option.splits json.splits if_splits)

lemma enum_sources: "enumValue v usage_receipt_sources path = Inr k \<longleftrightarrow> v = Some (JStr (source_name k))"
  by (cases k) (auto simp: enumValue_def usage_receipt_sources_def split: option.splits json.splits if_splits)

lemma enum_terminals: "enumValue v usage_terminal_statuses path = Inr k \<longleftrightarrow> v = Some (JStr (terminal_name k))"
  by (cases k) (auto simp: enumValue_def usage_terminal_statuses_def split: option.splits json.splits if_splits)

lemma quantity_count: "validateQuantity v path = Inr q \<Longrightarrow> count_ok q"
  by (auto simp: validateQuantity_def count_ok_def safe_count_iff split: option.splits NormalizedUsageQuantity.split)

lemma quantity_back: "count_ok q \<Longrightarrow> validateQuantity (Some (quantity_json q)) path = Inr q"
proof (cases q)
  case (KnownQuantity k n)
  assume "count_ok q"
  with KnownQuantity show ?thesis
    by (cases k) (simp_all add: validateQuantity_def quantity_def event_record_def requiredKeys_def allowedKeys_def enumValue_def usage_value_statuses_def
      known_status_def safe_count_iff count_ok_def)
qed (simp add: validateQuantity_def event_record_def requiredKeys_def allowedKeys_def enumValue_def usage_value_statuses_def
      known_status_def)

lemma identity_parsed: "validateIdentity v path = Inr i \<Longrightarrow> identity_ok i"
  by (auto simp: validateIdentity_def identity_ok_def receipt_identifier_iff receiptIdentifierLength_def safe_count_iff)

lemma identity_back:
  "identity_ok i \<Longrightarrow> validateIdentity (Some (identity_json (identity_id i, Fin (of_int (identity_index i))))) path = Inr i"
  by (simp add: validateIdentity_def identity_json_def event_record_def requiredKeys_def allowedKeys_def receipt_identifier_iff
      identity_ok_def receiptIdentifierLength_def safe_count_iff)

lemma cost_parsed: "validateCost v path = Inr c \<Longrightarrow> cost_ok c"
  by (auto simp: validateCost_def cost_ok_def receipt_string_iff decimalLength_def currencyLength_def split: option.splits)

lemma cost_back: "cost_ok c \<Longrightarrow> validateCost (Some (cost_json c)) path = Inr c"
proof (cases c)
  case (KnownCost k amount currency)
  assume "cost_ok c"
  with KnownCost show ?thesis
    by (cases k) (simp_all add: validateCost_def projected_cost_def event_record_def requiredKeys_def allowedKeys_def enumValue_def usage_value_statuses_def
      known_status_def receipt_string_iff decimalLength_def currencyLength_def cost_ok_def)
qed (simp add: validateCost_def projected_cost_def event_record_def requiredKeys_def allowedKeys_def enumValue_def usage_value_statuses_def
      known_status_def)

lemma member_parsed: "receipt_member v path nullable = Inr i \<Longrightarrow> pred_option (receipt_text_ok 256) i \<and> (\<not> nullable \<longrightarrow> i \<noteq> None)"
  by (auto simp: receipt_member_def receipt_identifier_iff receiptIdentifierLength_def split: if_splits)

lemma member_back:
  "pred_option (receipt_text_ok 256) i \<Longrightarrow> nullable \<or> i \<noteq> None \<Longrightarrow> receipt_member (Some (member_json i)) path nullable = Inr i"
  by (cases i) (auto simp: receipt_member_def member_json_def event_record_def requiredKeys_def allowedKeys_def receipt_identifier_iff
      receiptIdentifierLength_def)

lemma attribution_parsed: "receipt_attribution_of v path = Inr a \<Longrightarrow> receipt_attribution_ok a"
  by (auto simp: receipt_attribution_of_def receipt_attribution_ok_def dest!: member_parsed)

lemma attribution_keys_back:
  assumes "map fst kvs = attribution_keys"
  shows "requiredKeys kvs attribution_keys path = Inr ()" "allowedKeys kvs attribution_keys path = Inr ()"
proof -
  have "set attribution_keys = fst ` set kvs" using assms by (metis set_map)
  then show "requiredKeys kvs attribution_keys path = Inr ()" "allowedKeys kvs attribution_keys path = Inr ()"
    by (auto simp: requiredKeys_def allowedKeys_def map_of_eq_None_iff)
qed

lemma attribution_back: "receipt_attribution_ok a \<Longrightarrow> receipt_attribution_of (Some (snapshotAttribution a)) path = Inr a"
  by (simp add: receipt_attribution_of_def snapshotAttribution_def event_record_def attribution_keys_back [unfolded attribution_keys_def]
      attribution_keys_def receipt_attribution_ok_def member_back)

section \<open>The counts\<close>

lemma checks_are_consistency:
  assumes "list_all count_ok [i, cached, out, reasoning, t]" "pred_option count_ok cw"
  shows "(check_totals (knownQuantityValue i) (knownQuantityValue out) (knownQuantityValue t) path = Inr () \<and>
      check_subset ''cached_input_tokens'' ''input_tokens'' (knownQuantityValue cached) (knownQuantityValue i) path = Inr () \<and>
      check_cache_write (Option.bind cw knownQuantityValue) (knownQuantityValue i) (knownQuantityValue cached) path = Inr () \<and>
      check_subset ''reasoning_tokens'' ''output_tokens'' (knownQuantityValue reasoning) (knownQuantityValue out) path = Inr ()) \<longleftrightarrow>
    tokens_ok \<lparr>receipt_input = i, receipt_cached = cached, receipt_cache_write = cw, receipt_output = out,
      receipt_reasoning = reasoning, receipt_total = t\<rparr>"
proof -
  have totals: "check_totals (knownQuantityValue i) (knownQuantityValue out) (knownQuantityValue t) path = Inr () \<longleftrightarrow>
      (i = UnavailableQuantity \<longleftrightarrow> t = UnavailableQuantity) \<and> (out = UnavailableQuantity \<longleftrightarrow> t = UnavailableQuantity) \<and>
      counted t = counted i + counted out"
    by (cases i; cases out; cases t) (simp_all add: check_totals_def counted_def)
  have subset: "check_subset part whole (knownQuantityValue p) (knownQuantityValue w) path = Inr () \<longleftrightarrow> part_of p w" for part whole p w
    by (cases p; cases w) (simp_all add: check_subset_def part_of_def)
  have writes: "check_cache_write (Option.bind cw knownQuantityValue) (knownQuantityValue i) (knownQuantityValue cached) path = Inr () \<longleftrightarrow>
      (case cw of None \<Rightarrow> True | Some q \<Rightarrow> part_of q i \<and> (q \<noteq> UnavailableQuantity \<longrightarrow> counted q + counted cached \<le> counted i))"
    by (cases cw; cases "the cw"; cases i; cases cached) (simp_all add: check_cache_write_def part_of_def counted_def)
  show ?thesis unfolding totals subset writes using assms by (cases cw) (auto simp: tokens_ok_def)
qed

lemma tokens_parsed: assumes "validateTokenUsage v path = Inr t" shows "tokens_ok t"
proof -
  obtain kvs i cached out reasoning total cw where parts:
      "validateQuantity (obj_get kvs ''input_tokens'') (path @ ''.input_tokens'') = Inr i"
      "validateQuantity (obj_get kvs ''cached_input_tokens'') (path @ ''.cached_input_tokens'') = Inr cached"
      "validateQuantity (obj_get kvs ''output_tokens'') (path @ ''.output_tokens'') = Inr out"
      "validateQuantity (obj_get kvs ''reasoning_tokens'') (path @ ''.reasoning_tokens'') = Inr reasoning"
      "validateQuantity (obj_get kvs ''total_tokens'') (path @ ''.total_tokens'') = Inr total"
      "optional_field validateQuantity kvs ''cache_write_input_tokens'' path = Inr cw"
    and checks: "check_totals (knownQuantityValue i) (knownQuantityValue out) (knownQuantityValue total) path = Inr ()"
      "check_subset ''cached_input_tokens'' ''input_tokens'' (knownQuantityValue cached) (knownQuantityValue i) path = Inr ()"
      "check_cache_write (Option.bind cw knownQuantityValue) (knownQuantityValue i) (knownQuantityValue cached) path = Inr ()"
      "check_subset ''reasoning_tokens'' ''output_tokens'' (knownQuantityValue reasoning) (knownQuantityValue out) path = Inr ()"
    and t: "t = \<lparr>receipt_input = i, receipt_cached = cached, receipt_cache_write = cw, receipt_output = out,
      receipt_reasoning = reasoning, receipt_total = total\<rparr>"
    using assms unfolding validateTokenUsage_def bind_result_Inr_iff by fastforce
  have "list_all count_ok [i, cached, out, reasoning, total]" using parts(1-5)[THEN quantity_count] by simp
  moreover have "pred_option count_ok cw" using parts(6) by (auto simp: optional_field_def dest: quantity_count split: if_splits)
  ultimately show ?thesis using checks_are_consistency checks unfolding t by blast
qed

lemma token_keys_back:
  assumes "set (map fst kvs) = set token_fields \<or> set (map fst kvs) = insert ''cache_write_input_tokens'' (set token_fields)"
  shows "requiredKeys kvs token_fields path = Inr ()" "allowedKeys kvs (token_fields @ [''cache_write_input_tokens'']) path = Inr ()"
  using assms by (auto simp: requiredKeys_def allowedKeys_def map_of_eq_None_iff image_iff)

lemma tokens_back: assumes "tokens_ok t" shows "validateTokenUsage (Some (tokens_json t)) path = Inr t"
proof -
  obtain i cached out reasoning total cw where t: "t = \<lparr>receipt_input = i, receipt_cached = cached, receipt_cache_write = cw, receipt_output = out,
      receipt_reasoning = reasoning, receipt_total = total\<rparr>" by (cases t) simp
  have counts: "list_all count_ok [i, cached, out, reasoning, total]" "pred_option count_ok cw"
    using assms by (auto simp: t tokens_ok_def split: option.splits)
  have checks: "check_totals (knownQuantityValue i) (knownQuantityValue out) (knownQuantityValue total) path = Inr ()"
      "check_subset ''cached_input_tokens'' ''input_tokens'' (knownQuantityValue cached) (knownQuantityValue i) path = Inr ()"
      "check_cache_write (Option.bind cw knownQuantityValue) (knownQuantityValue i) (knownQuantityValue cached) path = Inr ()"
      "check_subset ''reasoning_tokens'' ''output_tokens'' (knownQuantityValue reasoning) (knownQuantityValue out) path = Inr ()"
    using checks_are_consistency [OF counts, of path] assms unfolding t by blast+
  obtain kvs where kvs: "tokens_json t = JObj kvs" by (simp add: tokens_json_def)
  have keys: "set (map fst kvs) = set token_fields \<or> set (map fst kvs) = insert ''cache_write_input_tokens'' (set token_fields)"
    using kvs by (cases cw) (auto simp: tokens_json_def t token_fields_def)
  have fields: "obj_get kvs ''input_tokens'' = Some (quantity_json i)" "obj_get kvs ''cached_input_tokens'' = Some (quantity_json cached)"
      "obj_get kvs ''output_tokens'' = Some (quantity_json out)" "obj_get kvs ''reasoning_tokens'' = Some (quantity_json reasoning)"
      "obj_get kvs ''total_tokens'' = Some (quantity_json total)" "obj_get kvs ''cache_write_input_tokens'' = map_option quantity_json cw"
    using kvs by (cases cw; auto simp: tokens_json_def t)+
  have optional: "optional_field validateQuantity kvs ''cache_write_input_tokens'' path = Inr cw"
    using counts(2) by (cases cw) (simp_all add: optional_field_def fields quantity_back)
  show ?thesis
    using counts(1) checks
    by (simp add: validateTokenUsage_def event_record_def kvs token_keys_back [OF keys] fields optional quantity_back) (simp add: t)
qed

section \<open>The receipt\<close>

lemma occurred_iff: "validate_occurred_at v path = Inr s \<longleftrightarrow> v = Some (JStr s) \<and> receipt_text_ok 64 s \<and> is_canonical_iso s"
  by (auto simp: validate_occurred_at_def receipt_string_iff)

lemma provider_identity_iff:
  "validateProviderIdentity v path n P = Inr s \<longleftrightarrow> v = Some (JStr s) \<and> receipt_text_ok n s \<and> P s"
  by (auto simp: validateProviderIdentity_def receipt_string_iff)

text \<open>The fields of an accepted receipt.\<close>

definition receipt_of :: "(string \<times> json) list \<Rightarrow> NormalizedUsageReceipt \<Rightarrow> bool" where
  "receipt_of kvs r \<longleftrightarrow>
     requiredKeys kvs receipt_keys ''$receipt'' = Inr () \<and> allowedKeys kvs (receipt_keys @ [''occurred_at'']) ''$receipt'' = Inr () \<and>
     obj_get kvs ''version'' = Some (JNum (Fin 1)) \<and>
     optional_field validate_occurred_at kvs ''occurred_at'' ''$receipt'' = Inr (receipt_occurred_at r) \<and>
     receipt_identifier (obj_get kvs ''usage_receipt_id'') ''$receipt.usage_receipt_id'' = Inr (usage_receipt_id r) \<and>
     receipt_identifier (obj_get kvs ''conversation_id'') ''$receipt.conversation_id'' = Inr (receipt_conversation_id r) \<and>
     receipt_identifier (obj_get kvs ''turn_id'') ''$receipt.turn_id'' = Inr (receipt_turn_id r) \<and>
     receipt_identifier (obj_get kvs ''logical_request_id'') ''$receipt.logical_request_id'' = Inr (logical_request_id r) \<and>
     receipt_identifier (obj_get kvs ''trace_id'') ''$receipt.trace_id'' = Inr (receipt_trace_id r) \<and>
     validateIdentity (obj_get kvs ''attempt'') ''$receipt.attempt'' = Inr (receipt_attempt r) \<and>
     validateIdentity (obj_get kvs ''continuation'') ''$receipt.continuation'' = Inr (receipt_continuation r) \<and>
     validateProviderIdentity (obj_get kvs ''provider_id'') ''$receipt.provider_id'' providerIdLength is_provider_id = Inr (receipt_provider_id r) \<and>
     validateProviderIdentity (obj_get kvs ''model_id'') ''$receipt.model_id'' modelIdLength is_model_id = Inr (receipt_model_id r) \<and>
     receipt_attribution_of (obj_get kvs ''attribution'') ''$receipt.attribution'' = Inr (receipt_attribution r) \<and>
     enumValue (obj_get kvs ''source'') usage_receipt_sources ''$receipt.source'' = Inr (receipt_source r) \<and>
     enumValue (obj_get kvs ''terminal_status'') usage_terminal_statuses ''$receipt.terminal_status'' = Inr (receipt_terminal_status r) \<and>
     validateTokenUsage (obj_get kvs ''tokens'') ''$receipt.tokens'' = Inr (receipt_tokens r) \<and>
     validateCost (obj_get kvs ''provider_cost'') ''$receipt.provider_cost'' = Inr (receipt_cost r)"

lemma parse_receipt_iff: "parseNormalizedUsageReceipt (JObj kvs) = Inr r \<longleftrightarrow> receipt_of kvs r"
proof -
  have rec: "event_record (Some (JObj kvs)) path = Inr kvs" for path by (simp add: event_record_def)
  show ?thesis
  proof
    assume "parseNormalizedUsageReceipt (JObj kvs) = Inr r"
    then show "receipt_of kvs r"
      unfolding parseNormalizedUsageReceipt_def rec bind_result.simps
      by (simp only: bind_result_Inr_iff guard_Inr_iff sum.inject, elim exE conjE, hypsubst,
        simp only: receipt_of_def NormalizedUsageReceipt.simps) simp
  next
    assume "receipt_of kvs r"
    then show "parseNormalizedUsageReceipt (JObj kvs) = Inr r"
      unfolding parseNormalizedUsageReceipt_def rec bind_result.simps
      by (simp only: receipt_of_def guard_True simp_thms bind_result.simps) simp
  qed
qed

lemma receipt_parsed: assumes "parseNormalizedUsageReceipt v = Inr r" shows "receipt_ok r"
proof -
  obtain kvs where "v = JObj kvs"
    using assms by (auto simp: parseNormalizedUsageReceipt_def event_record_def split: json.splits)
  with assms have r: "receipt_of kvs r" using parse_receipt_iff by blast
  then have "optional_field validate_occurred_at kvs ''occurred_at'' ''$receipt'' = Inr (receipt_occurred_at r)" by (simp add: receipt_of_def)
  then have occurred: "pred_option (\<lambda>s. receipt_text_ok 64 s \<and> is_canonical_iso s) (receipt_occurred_at r)"
    by (cases "receipt_occurred_at r") (auto simp: optional_field_def occurred_iff split: if_splits)
  from r show ?thesis
    unfolding receipt_of_def receipt_identifier_iff provider_identity_iff
    by (elim conjE) (simp add: receipt_ok_def occurred receiptIdentifierLength_def providerIdLength_def modelIdLength_def
      identity_parsed attribution_parsed tokens_parsed cost_parsed)
qed

lemma receipt_keys_back:
  assumes "set (map fst kvs) = set receipt_keys \<or> set (map fst kvs) = insert ''occurred_at'' (set receipt_keys)"
  shows "requiredKeys kvs receipt_keys path = Inr ()" "allowedKeys kvs (receipt_keys @ [''occurred_at'']) path = Inr ()"
  using assms by (auto simp: requiredKeys_def allowedKeys_def map_of_eq_None_iff image_iff)

text \<open>A receipt's JSON, with the JSON of its parts in the place of the parts.\<close>

definition receipt_fields ::
    "string option \<Rightarrow> string list \<Rightarrow> json list \<Rightarrow> (string \<times> json) list" where
  "receipt_fields occurred ids parts =
     [(''version'', JNum (Fin 1))] @ (case occurred of None \<Rightarrow> [] | Some s \<Rightarrow> [(''occurred_at'', JStr s)]) @
     zip (tl receipt_keys) (map JStr ids @ parts)"

lemma receipt_json_fields:
  "receipt_json r = JObj (receipt_fields (receipt_occurred_at r)
     [usage_receipt_id r, receipt_conversation_id r, receipt_turn_id r, logical_request_id r, receipt_trace_id r]
     [identity_json (identity_id (receipt_attempt r), Fin (of_int (identity_index (receipt_attempt r)))),
      identity_json (identity_id (receipt_continuation r), Fin (of_int (identity_index (receipt_continuation r)))),
      JStr (receipt_provider_id r), JStr (receipt_model_id r), snapshotAttribution (receipt_attribution r),
      JStr (source_name (receipt_source r)), JStr (terminal_name (receipt_terminal_status r)),
      tokens_json (receipt_tokens r), cost_json (receipt_cost r)])"
  by (simp add: receipt_json_def receipt_fields_def receipt_keys_def)

lemma projected_receipt_fields:
  "projected_receipt u c = JObj (receipt_fields (context_occurred_at c)
     [context_receipt_id c, context_conversation_id c, context_turn_id c, context_logical_request_id c, context_trace_id c]
     [identity_json (context_attempt c), identity_json (context_continuation c),
      JStr (context_provider_id c), JStr (context_model_id c), snapshotAttribution (context_attribution c),
      JStr (source_name (context_source c)), JStr (terminal_name (context_terminal_status c)),
      projected_tokens (context_quality c) u, projected_cost (context_quality c) (provider_cost u)])"
  by (simp add: projected_receipt_def receipt_fields_def receipt_keys_def)

lemma receipt_field_values:
  assumes "kvs = receipt_fields occurred [a1, a2, a3, a4, a5] [b1, b2, b3, b4, b5, b6, b7, b8, b9]"
  shows "set (map fst kvs) = set receipt_keys \<or> set (map fst kvs) = insert ''occurred_at'' (set receipt_keys)"
    "obj_get kvs ''version'' = Some (JNum (Fin 1))" "obj_get kvs ''occurred_at'' = map_option JStr occurred"
    "obj_get kvs ''usage_receipt_id'' = Some (JStr a1)" "obj_get kvs ''conversation_id'' = Some (JStr a2)"
    "obj_get kvs ''turn_id'' = Some (JStr a3)" "obj_get kvs ''logical_request_id'' = Some (JStr a4)"
    "obj_get kvs ''trace_id'' = Some (JStr a5)" "obj_get kvs ''attempt'' = Some b1" "obj_get kvs ''continuation'' = Some b2"
    "obj_get kvs ''provider_id'' = Some b3" "obj_get kvs ''model_id'' = Some b4" "obj_get kvs ''attribution'' = Some b5"
    "obj_get kvs ''source'' = Some b6" "obj_get kvs ''terminal_status'' = Some b7" "obj_get kvs ''tokens'' = Some b8"
    "obj_get kvs ''provider_cost'' = Some b9"
  unfolding assms receipt_fields_def receipt_keys_def by (cases occurred; auto)+

lemma receipt_back: assumes "receipt_ok r" shows "parseNormalizedUsageReceipt (receipt_json r) = Inr r"
proof -
  obtain kvs where kvs: "receipt_json r = JObj kvs" by (simp add: receipt_json_fields)
  note fields = receipt_field_values [OF kvs [unfolded receipt_json_fields json.inject, symmetric]]
  have "optional_field validate_occurred_at kvs ''occurred_at'' ''$receipt'' = Inr (receipt_occurred_at r)"
    using assms by (cases "receipt_occurred_at r") (simp_all add: optional_field_def fields occurred_iff receipt_ok_def)
  then have "receipt_of kvs r"
    using assms unfolding receipt_of_def receipt_ok_def receipt_identifier_iff provider_identity_iff enum_sources enum_terminals fields
    by (simp add: receipt_keys_back [OF fields(1)] receiptIdentifierLength_def providerIdLength_def modelIdLength_def
      identity_back attribution_back tokens_back cost_back)
  then show ?thesis unfolding kvs parse_receipt_iff .
qed

section \<open>Projections\<close>

lemma identity_same:
  "validateIdentity (Some (identity_json i)) path = Inr x \<Longrightarrow> identity_json (identity_id x, Fin (of_int (identity_index x))) = identity_json i"
  by (cases i) (auto simp: validateIdentity_def identity_json_def event_record_def receipt_identifier_iff safe_count_iff)

lemma quantity_same: "validateQuantity (Some (quantity q n)) path = Inr x \<Longrightarrow> quantity_json x = quantity q n"
  by (cases q) (auto simp: validateQuantity_def quantity_def event_record_def enumValue_def usage_value_statuses_def known_status_def safe_count_iff)

lemma cost_same: "validateCost (Some (projected_cost q cost)) path = Inr x \<Longrightarrow> cost_json x = projected_cost q cost"
  by (cases q; cases cost)
    (auto simp: validateCost_def projected_cost_def event_record_def enumValue_def usage_value_statuses_def known_status_def receipt_string_iff)

lemma member_same: "receipt_member (Some (member_json i)) path nullable = Inr j \<Longrightarrow> j = i"
  by (cases i) (auto simp: receipt_member_def member_json_def event_record_def receipt_identifier_iff split: if_splits)

lemma attribution_same: "receipt_attribution_of (Some (snapshotAttribution a)) path = Inr b \<Longrightarrow> b = a"
  by (auto simp: receipt_attribution_of_def snapshotAttribution_def event_record_def dest!: member_same)

lemma tokens_same:
  assumes "validateTokenUsage (Some (projected_tokens q u)) path = Inr t" shows "tokens_json t = projected_tokens q u"
proof -
  obtain kvs where kvs: "projected_tokens q u = JObj kvs" by (simp add: projected_tokens_def)
  have fields: "obj_get kvs ''input_tokens'' = Some (quantity q (provider_input u))"
      "obj_get kvs ''cached_input_tokens'' = Some (quantity q (provider_cached u))"
      "obj_get kvs ''output_tokens'' = Some (quantity q (provider_output u))"
      "obj_get kvs ''reasoning_tokens'' = Some (quantity q (provider_reasoning u))"
      "obj_get kvs ''total_tokens'' = Some (quantity q (provider_total u))"
      "obj_get kvs ''cache_write_input_tokens'' = map_option (quantity q) (provider_cache_write u)"
    using kvs by (cases "provider_cache_write u"; auto simp: projected_tokens_def)+
  obtain i cached out reasoning total cw where parts:
      "validateQuantity (obj_get kvs ''input_tokens'') (path @ ''.input_tokens'') = Inr i"
      "validateQuantity (obj_get kvs ''cached_input_tokens'') (path @ ''.cached_input_tokens'') = Inr cached"
      "validateQuantity (obj_get kvs ''output_tokens'') (path @ ''.output_tokens'') = Inr out"
      "validateQuantity (obj_get kvs ''reasoning_tokens'') (path @ ''.reasoning_tokens'') = Inr reasoning"
      "validateQuantity (obj_get kvs ''total_tokens'') (path @ ''.total_tokens'') = Inr total"
      "optional_field validateQuantity kvs ''cache_write_input_tokens'' path = Inr cw"
    and t: "t = \<lparr>receipt_input = i, receipt_cached = cached, receipt_cache_write = cw, receipt_output = out,
      receipt_reasoning = reasoning, receipt_total = total\<rparr>"
    using assms unfolding kvs validateTokenUsage_def bind_result_Inr_iff event_record_def by fastforce
  note same = parts(1-5) [unfolded fields, THEN quantity_same]
  have "map_option quantity_json cw = map_option (quantity q) (provider_cache_write u)"
    using parts(6) by (cases "provider_cache_write u") (auto simp: optional_field_def fields dest: quantity_same)
  then show ?thesis
    unfolding t tokens_json_def projected_tokens_def by (cases cw; cases "provider_cache_write u") (simp_all add: same)
qed

lemma projection_same:
  assumes "projectProviderUsageToReceipt u c = Inr r" shows "receipt_json r = projected_receipt u c"
proof -
  obtain kvs where kvs: "projected_receipt u c = JObj kvs" by (simp add: projected_receipt_fields)
  note fields = receipt_field_values [OF kvs [unfolded projected_receipt_fields json.inject, symmetric]]
  have r: "receipt_of kvs r" using assms unfolding projectProviderUsageToReceipt_def kvs parse_receipt_iff .
  then have occurred: "receipt_occurred_at r = context_occurred_at c"
    by (cases "context_occurred_at c") (auto simp: receipt_of_def optional_field_def fields occurred_iff)
  note parts = r [unfolded receipt_of_def receipt_identifier_iff provider_identity_iff enum_sources enum_terminals fields]
  have same: "validateIdentity (Some (identity_json (context_attempt c))) ''$receipt.attempt'' = Inr (receipt_attempt r)"
      "validateIdentity (Some (identity_json (context_continuation c))) ''$receipt.continuation'' = Inr (receipt_continuation r)"
      "receipt_attribution_of (Some (snapshotAttribution (context_attribution c))) ''$receipt.attribution'' = Inr (receipt_attribution r)"
      "validateTokenUsage (Some (projected_tokens (context_quality c) u)) ''$receipt.tokens'' = Inr (receipt_tokens r)"
      "validateCost (Some (projected_cost (context_quality c) (provider_cost u))) ''$receipt.provider_cost'' = Inr (receipt_cost r)"
    using parts by blast+
  have texts: "context_receipt_id c = usage_receipt_id r \<and> context_conversation_id c = receipt_conversation_id r \<and>
      context_turn_id c = receipt_turn_id r \<and> context_logical_request_id c = logical_request_id r \<and> context_trace_id c = receipt_trace_id r \<and>
      context_provider_id c = receipt_provider_id r \<and> context_model_id c = receipt_model_id r \<and>
      source_name (context_source c) = source_name (receipt_source r) \<and>
      terminal_name (context_terminal_status c) = terminal_name (receipt_terminal_status r)"
    using parts by (elim conjE, intro conjI) (simp_all only: option.inject json.inject)
  show ?thesis
    unfolding receipt_json_fields projected_receipt_fields occurred identity_same [OF same(1)] identity_same [OF same(2)]
      attribution_same [OF same(3)] tokens_same [OF same(4)] cost_same [OF same(5)]
    by (simp only: texts)
qed

definition demo_usage :: ProviderUsage where
  "demo_usage = \<lparr>provider_input = Fin 12, provider_cached = Fin 4, provider_cache_write = Some (Fin 3), provider_output = Fin 5,
     provider_reasoning = Fin 2, provider_total = Fin 17, provider_cost = Some (''0.0031'', ''USD'')\<rparr>"

definition demo_usage_context :: ProviderUsageReceiptContext where
  "demo_usage_context = \<lparr>context_occurred_at = Some ''2026-02-28T23:59:59.250Z'', context_receipt_id = ''u1'', context_conversation_id = ''c'',
     context_turn_id = ''t'', context_logical_request_id = ''r'', context_trace_id = ''x'', context_attempt = (''a'', Fin 0),
     context_continuation = (''k'', Fin 1), context_provider_id = ''openai'', context_model_id = ''m1'',
     context_attribution = \<lparr>organization = ''o'', project = ''p'', service_environment = ''e'', attributed_user = None,
       attributed_session = Some ''s'', attributed_automation = None\<rparr>,
     context_source = ProviderReceipt, context_quality = KnownReported, context_terminal_status = ReceiptCompleted\<rparr>"

definition demo_receipt :: NormalizedUsageReceipt where
  "demo_receipt = \<lparr>receipt_occurred_at = Some ''2026-02-28T23:59:59.250Z'', usage_receipt_id = ''u1'', receipt_conversation_id = ''c'',
     receipt_turn_id = ''t'', logical_request_id = ''r'', receipt_trace_id = ''x'',
     receipt_attempt = \<lparr>identity_id = ''a'', identity_index = 0\<rparr>, receipt_continuation = \<lparr>identity_id = ''k'', identity_index = 1\<rparr>,
     receipt_provider_id = ''openai'', receipt_model_id = ''m1'', receipt_attribution = context_attribution demo_usage_context,
     receipt_source = ProviderReceipt, receipt_terminal_status = ReceiptCompleted,
     receipt_tokens = \<lparr>receipt_input = KnownQuantity KnownReported 12, receipt_cached = KnownQuantity KnownReported 4,
       receipt_cache_write = Some (KnownQuantity KnownReported 3), receipt_output = KnownQuantity KnownReported 5,
       receipt_reasoning = KnownQuantity KnownReported 2, receipt_total = KnownQuantity KnownReported 17\<rparr>,
     receipt_cost = KnownCost KnownReported ''0.0031'' ''USD''\<rparr>"

lemma demo_texts:
  "list_all (receipt_text_ok 3) [''u1'', ''c'', ''t'', ''r'', ''x'', ''a'', ''k'', ''o'', ''p'', ''e'', ''s'', ''USD'']"
  "receipt_text_ok 64 ''2026-02-28T23:59:59.250Z''" "receipt_text_ok 128 ''openai''" "receipt_text_ok 256 ''m1''"
  "receipt_text_ok 128 ''0.0031''" "is_canonical_iso ''2026-02-28T23:59:59.250Z''" "is_exact_decimal ''0.0031''" "is_currency ''USD''"
  by code_simp+

lemma demo_ids: "is_provider_id ''openai''" "is_model_id ''m1''"
  by (simp_all add: is_provider_id_def is_model_id_def first_and_rest_def is_alnum_def is_letter_char_def is_lower_char_def is_digit_char_def
      lower_def code_def)

lemma demo_receipt_projected: "projectProviderUsageToReceipt demo_usage demo_usage_context = Inr demo_receipt"
proof -
  have longer: "receipt_text_ok 3 s \<Longrightarrow> receipt_text_ok 256 s" for s by (simp add: receipt_text_ok_def)
  have "receipt_ok demo_receipt"
    using demo_texts demo_ids
    by (simp add: receipt_ok_def demo_receipt_def demo_usage_context_def longer identity_ok_def receipt_attribution_ok_def cost_ok_def
        tokens_ok_def count_ok_def counted_def part_of_def safe_int_def max_safe_integer_def)
  moreover have "projected_receipt demo_usage demo_usage_context = receipt_json demo_receipt"
    by (simp add: projected_receipt_fields receipt_json_fields demo_usage_def demo_usage_context_def demo_receipt_def projected_tokens_def
        tokens_json_def)
  ultimately show ?thesis unfolding projectProviderUsageToReceipt_def using receipt_back by metis
qed



end
