(* ===== verification/ApprovalStore.thy ===== *)
theory ApprovalStore
  imports ReducerTools StateEncoding
begin

text \<open>
  Approval proposals outside the event log (src/conversation/approval-proposal-store.ts):
  the bounded in-memory store with its authorization boundary, optimistic versions,
  idempotency records and expiry. An operation is one step: the promise chain of the
  source runs the bodies one after the other. An operation may change the store and then
  throw (an expired proposal), so a step returns the outcome beside the store.

  The host's authorization check and its clock are parameters: the check answers a
  request (None when it throws), the clock is read once per step (None when it throws).
  Cloning and freezing leave values unchanged.
\<close>

section \<open>Types\<close>

record ApprovalProposalStoreLimits =
  maxProposals :: nat
  maxIdempotencyRecords :: nat
  maxIdempotencyKeyLength :: nat
  maxIdempotencyFingerprintLength :: nat

definition DEFAULT_APPROVAL_PROPOSAL_STORE_LIMITS :: ApprovalProposalStoreLimits where
  "DEFAULT_APPROVAL_PROPOSAL_STORE_LIMITS = \<lparr>maxProposals = 1000, maxIdempotencyRecords = 2000,
     maxIdempotencyKeyLength = 256, maxIdempotencyFingerprintLength = 256\<rparr>"

datatype ApprovalProposalStoreOperation = CreateOperation | GetOperation | ListGroupOperation | TransitionOperation

record 'ctx ApprovalProposalPermissionRequest =
  request_operation :: ApprovalProposalStoreOperation
  request_context :: 'ctx
  request_proposalId :: "string option"
  request_groupId :: "string option"
  request_targetStatus :: "ConversationApprovalProposalStatus option"

datatype Permission = Allow | Deny

record 'ctx CreateApprovalProposalInput =
  create_context :: 'ctx
  create_proposalId :: string
  create_groupId :: "string option"
  create_turnId :: string
  create_toolCallId :: string
  create_toolName :: string
  create_reviewedArguments :: ConversationApprovalReviewedArguments
  create_expiresAt :: string
  create_attribution :: ConversationEventAttribution
  create_idempotencyKey :: string
  create_idempotencyFingerprint :: string

record 'ctx TransitionApprovalProposalInput =
  transition_context :: 'ctx
  transition_proposalId :: string
  expectedVersion :: jsnumber
  transition_status :: ConversationApprovalProposalStatus
  transition_attribution :: ConversationEventAttribution
  decisionReason :: "string option"
  failureReason :: "string option"
  transition_idempotencyKey :: string
  transition_idempotencyFingerprint :: string

datatype ApprovalProposalStoreErrorCode =
  PermissionDenied | InvalidInput | NotFound | CapacityExceeded | KeyConflict |
  VersionConflict | InvalidTransition | NotExpired | StoreUnavailable

datatype ApprovalProposalStoreError =
  ApprovalProposalStoreError ApprovalProposalStoreErrorCode ApprovalProposalStoreOperation

fun retryable :: "ApprovalProposalStoreError \<Rightarrow> bool" where
  "retryable (ApprovalProposalStoreError why operation) \<longleftrightarrow> why = StoreUnavailable \<or> why = VersionConflict"

record IdempotencyRecord =
  retained_operation :: ApprovalProposalStoreOperation
  retained_fingerprint :: string
  requestSignature :: string
  retained_result :: ConversationApprovalProposalRecord

record 'ctx ApprovalStoreOptions =
  authorize :: "'ctx ApprovalProposalPermissionRequest \<Rightarrow> Permission option"
  store_limits :: ApprovalProposalStoreLimits
  expiryAttribution :: ConversationEventAttribution
  localeCompare :: "string \<Rightarrow> string \<Rightarrow> int"

record InMemoryApprovalProposalStore =
  proposals :: "(string, ConversationApprovalProposalRecord) jsmap"
  idempotency :: "(string, IdempotencyRecord) jsmap"

definition empty_approval_store :: InMemoryApprovalProposalStore where
  "empty_approval_store = \<lparr>proposals = [], idempotency = []\<rparr>"

type_synonym 'a store_result = "(ApprovalProposalStoreError + 'a) \<times> InMemoryApprovalProposalStore"

definition DEFAULT_EXPIRY_ATTRIBUTION :: ConversationEventAttribution where
  "DEFAULT_EXPIRY_ATTRIBUTION = \<lparr>attributed_actor = \<lparr>actor_type = SystemActor, actor_id = None\<rparr>,
     attributed_source = RuntimeSource\<rparr>"

text \<open>\<open>resolveLimits\<close>: every limit is a positive safe integer, the two lengths are bounded.\<close>

definition resolveLimits ::
    "jsnumber option \<Rightarrow> jsnumber option \<Rightarrow> jsnumber option \<Rightarrow> jsnumber option \<Rightarrow>
     ApprovalProposalStoreLimits option" where
  "resolveLimits proposal_limit record_limit key_length fingerprint_length =
     (let resolve = (\<lambda>over fallback. case over of None \<Rightarrow> Fin (of_nat fallback) | Some n \<Rightarrow> n);
          ps = resolve proposal_limit (maxProposals DEFAULT_APPROVAL_PROPOSAL_STORE_LIMITS);
          rs = resolve record_limit (maxIdempotencyRecords DEFAULT_APPROVAL_PROPOSAL_STORE_LIMITS);
          ks = resolve key_length (maxIdempotencyKeyLength DEFAULT_APPROVAL_PROPOSAL_STORE_LIMITS);
          fs = resolve fingerprint_length (maxIdempotencyFingerprintLength DEFAULT_APPROVAL_PROPOSAL_STORE_LIMITS)
      in if list_all (\<lambda>n. isSafeInteger n \<and> 0 < int_of_number n) [ps, rs, ks, fs] \<and>
            nat (int_of_number ks) \<le> textLength \<and> nat (int_of_number fs) \<le> textLength
         then Some \<lparr>maxProposals = nat (int_of_number ps), maxIdempotencyRecords = nat (int_of_number rs),
                maxIdempotencyKeyLength = nat (int_of_number ks),
                maxIdempotencyFingerprintLength = nat (int_of_number fs)\<rparr>
         else None)"

section \<open>Validation\<close>

definition bounded_identifier :: "string \<Rightarrow> bool" where
  "bounded_identifier s \<longleftrightarrow> s \<noteq> [] \<and> length s \<le> eventIdentifierLength"

definition store_guard ::
    "bool \<Rightarrow> ApprovalProposalStoreErrorCode \<Rightarrow> ApprovalProposalStoreOperation \<Rightarrow>
     ApprovalProposalStoreError + unit" where
  "store_guard ok why operation = guard ok (ApprovalProposalStoreError why operation)"

definition validateIdentifier ::
    "string \<Rightarrow> ApprovalProposalStoreOperation \<Rightarrow> ApprovalProposalStoreError + unit" where
  "validateIdentifier s operation = store_guard (bounded_identifier s) InvalidInput operation"

definition isBoundedOpaqueValue :: "string \<Rightarrow> nat \<Rightarrow> bool" where
  "isBoundedOpaqueValue s maximum \<longleftrightarrow>
     s \<noteq> [] \<and> length s \<le> maximum \<and>
     first_and_rest is_alnum (\<lambda>c. is_alnum c \<or> c \<in> set ''._:/-'') s \<and> \<not> includes_scheme s"

definition validateIdempotency ::
    "string \<Rightarrow> string \<Rightarrow> ApprovalProposalStoreLimits \<Rightarrow> ApprovalProposalStoreOperation \<Rightarrow>
     ApprovalProposalStoreError + unit" where
  "validateIdempotency key fingerprint limits operation =
     bind_result (store_guard (isBoundedOpaqueValue key (maxIdempotencyKeyLength limits)) InvalidInput operation) (\<lambda>_.
       store_guard (isBoundedOpaqueValue fingerprint (maxIdempotencyFingerprintLength limits)) InvalidInput operation)"

definition optional_identifier :: "string option \<Rightarrow> bool" where
  "optional_identifier x \<longleftrightarrow> (case x of None \<Rightarrow> True | Some s \<Rightarrow> bounded_identifier s)"

text \<open>\<open>cloneAttribution\<close> on a typed attribution: the identifiers it carries are bounded.\<close>

definition attribution_ok :: "ConversationEventAttribution \<Rightarrow> bool" where
  "attribution_ok a \<longleftrightarrow>
     optional_identifier (actor_id (attributed_actor a)) \<and>
     (case attributed_source a of
        ClientSource client device \<Rightarrow> bounded_identifier client \<and> optional_identifier device
      | _ \<Rightarrow> True)"

definition validateCreateInput ::
    "host \<Rightarrow> 'ctx CreateApprovalProposalInput \<Rightarrow> ApprovalProposalStoreLimits \<Rightarrow>
     ApprovalProposalStoreError + unit" where
  "validateCreateInput H input limits =
     bind_result (validateIdentifier (create_proposalId input) CreateOperation) (\<lambda>_.
     bind_result (store_guard (optional_identifier (create_groupId input)) InvalidInput CreateOperation) (\<lambda>_.
     bind_result (validateIdentifier (create_turnId input) CreateOperation) (\<lambda>_.
     bind_result (validateIdentifier (create_toolCallId input) CreateOperation) (\<lambda>_.
     bind_result (validateIdentifier (create_toolName input) CreateOperation) (\<lambda>_.
     bind_result (validateIdempotency (create_idempotencyKey input) (create_idempotencyFingerprint input)
                    limits CreateOperation) (\<lambda>_.
     bind_result (store_guard (isTimestamp (create_expiresAt input)) InvalidInput CreateOperation) (\<lambda>_.
     bind_result (store_guard (isConversationApprovalReviewedArguments H
                    (reviewed_json (create_reviewedArguments input))) InvalidInput CreateOperation) (\<lambda>_.
       store_guard (attribution_ok (create_attribution input)) InvalidInput CreateOperation))))))))"

definition reason_ok :: "string \<Rightarrow> bool" where
  "reason_ok r \<longleftrightarrow> isConversationApprovalReason (JStr r)"

definition validateTransitionInput ::
    "'ctx TransitionApprovalProposalInput \<Rightarrow> ApprovalProposalStoreLimits \<Rightarrow>
     ApprovalProposalStoreError + unit" where
  "validateTransitionInput input limits =
     bind_result (validateIdentifier (transition_proposalId input) TransitionOperation) (\<lambda>_.
     bind_result (validateIdempotency (transition_idempotencyKey input) (transition_idempotencyFingerprint input)
                    limits TransitionOperation) (\<lambda>_.
     bind_result (store_guard (isSafeInteger (expectedVersion input) \<and> 0 < int_of_number (expectedVersion input))
                    InvalidInput TransitionOperation) (\<lambda>_.
     bind_result (store_guard (transition_status input \<noteq> Pending) InvalidInput TransitionOperation) (\<lambda>_.
     bind_result (store_guard (case decisionReason input of None \<Rightarrow> True
                    | Some r \<Rightarrow> is_decision (transition_status input) \<and> reason_ok r)
                    InvalidInput TransitionOperation) (\<lambda>_.
     bind_result (store_guard (if transition_status input = Failed
                    then (case failureReason input of None \<Rightarrow> False | Some r \<Rightarrow> reason_ok r)
                    else failureReason input = None) InvalidInput TransitionOperation) (\<lambda>_.
       store_guard (attribution_ok (transition_attribution input)) InvalidInput TransitionOperation))))))"

section \<open>Request signatures\<close>

text \<open>\<open>stableStringify\<close>: the fields in the order of their names.\<close>

function stableStringify :: "host \<Rightarrow> json \<Rightarrow> string" where
  "stableStringify H (JArr xs) = ''['' @ join_with '','' (map (stableStringify H) xs) @ '']''"
| "stableStringify H (JObj kvs) = ''{'' @ join_with '',''
     (map (\<lambda>kv. quote (fst kv) @ '':'' @ stableStringify H (snd kv)) (sort_key fst kvs)) @ ''}''"
| "stableStringify H JNull = stringify H JNull"
| "stableStringify H (JBool b) = stringify H (JBool b)"
| "stableStringify H (JNum n) = stringify H (JNum n)"
| "stableStringify H (JStr s) = stringify H (JStr s)"
  by pat_completeness auto

termination
proof (relation "measure (\<lambda>(H, v). size v)")
  fix H :: host and kvs :: "(string \<times> json) list" and kv
  assume "kv \<in> set (sort_key fst kvs)"
  then have "kv \<in> set kvs" by simp
  then have "size (snd kv) < Suc (size_list (size_prod (\<lambda>_. 0) size) kvs)"
    by (induction kvs) (auto simp: less_Suc_eq)
  then show "((H, snd kv), (H, JObj kvs)) \<in> measure (\<lambda>(H, v). size v)" by simp
qed (auto simp: less_Suc_eq_le size_list_estimation')

definition createRequestSignature :: "host \<Rightarrow> 'ctx CreateApprovalProposalInput \<Rightarrow> string" where
  "createRequestSignature H input = stableStringify H (JObj
     [(''operation'', JStr ''create''), (''proposalId'', JStr (create_proposalId input)),
      (''groupId'', nullable JStr (create_groupId input)), (''turnId'', JStr (create_turnId input)),
      (''toolCallId'', JStr (create_toolCallId input)), (''toolName'', JStr (create_toolName input)),
      (''reviewedArguments'', reviewed_json (create_reviewedArguments input)),
      (''expiresAt'', JStr (create_expiresAt input)),
      (''attribution'', attribution_json (create_attribution input))])"

definition transitionRequestSignature :: "host \<Rightarrow> 'ctx TransitionApprovalProposalInput \<Rightarrow> string" where
  "transitionRequestSignature H input = stableStringify H (JObj
     [(''operation'', JStr ''transition''), (''proposalId'', JStr (transition_proposalId input)),
      (''expectedVersion'', JNum (expectedVersion input)),
      (''status'', JStr (proposal_status_string (transition_status input))),
      (''attribution'', attribution_json (transition_attribution input)),
      (''decisionReason'', nullable JStr (decisionReason input)),
      (''failureReason'', nullable JStr (failureReason input))])"

section \<open>Steps of the store\<close>

definition authorized ::
    "'ctx ApprovalStoreOptions \<Rightarrow> 'ctx ApprovalProposalPermissionRequest \<Rightarrow> ApprovalProposalStoreError + unit" where
  "authorized opts request =
     store_guard (authorize opts request = Some Allow) PermissionDenied (request_operation request)"

definition store_now ::
    "string option \<Rightarrow> ApprovalProposalStoreOperation \<Rightarrow> ApprovalProposalStoreError + string" where
  "store_now clock operation =
     (case clock of None \<Rightarrow> Inl (ApprovalProposalStoreError StoreUnavailable operation)
      | Some now \<Rightarrow> if isTimestamp now then Inr now
          else Inl (ApprovalProposalStoreError StoreUnavailable operation))"

definition transitionProposal ::
    "ConversationApprovalProposalRecord \<Rightarrow> ConversationApprovalProposalStatus \<Rightarrow> string option \<Rightarrow> string option \<Rightarrow>
     string \<Rightarrow> ConversationEventAttribution \<Rightarrow> ConversationApprovalProposalRecord" where
  "transitionProposal current status reason failure now attribution =
     current\<lparr>proposal_status := status, proposal_version := proposal_version current + 1,
       updated_at := now, latest_attribution := attribution,
       decision_at := (if is_decision status then Some now else decision_at current),
       decision_attribution := (if is_decision status then Some attribution else decision_attribution current),
       decision_reason := (if is_decision status then reason else decision_reason current),
       failure_reason := (if status = Failed then failure
                          else if status = Executing then None else failure_reason current)\<rparr>"

definition put_proposal ::
    "ConversationApprovalProposalRecord \<Rightarrow> InMemoryApprovalProposalStore \<Rightarrow> InMemoryApprovalProposalStore" where
  "put_proposal p S = S\<lparr>proposals := map_set (proposal_id p) p (proposals S)\<rparr>"

definition expireIfDue ::
    "'ctx ApprovalStoreOptions \<Rightarrow> ConversationApprovalProposalRecord \<Rightarrow> string \<Rightarrow> InMemoryApprovalProposalStore \<Rightarrow>
     ConversationApprovalProposalRecord \<times> InMemoryApprovalProposalStore" where
  "expireIfDue opts p now S =
     (if proposal_status p \<noteq> Pending \<or> time_less (Date_parse now) (Date_parse (expires_at p)) then (p, S)
      else (let expired = transitionProposal p Expired None None now (expiryAttribution opts)
            in (expired, put_proposal expired S)))"

definition idempotentResult ::
    "ApprovalProposalStoreOperation \<Rightarrow> string \<Rightarrow> string \<Rightarrow> string \<Rightarrow> InMemoryApprovalProposalStore \<Rightarrow>
     ApprovalProposalStoreError + ConversationApprovalProposalRecord option" where
  "idempotentResult operation key fingerprint signature S =
     (case map_get (idempotency S) key of
        None \<Rightarrow> Inr None
      | Some retained \<Rightarrow>
          if retained_operation retained \<noteq> operation \<or> retained_fingerprint retained \<noteq> fingerprint \<or>
             requestSignature retained \<noteq> signature
          then Inl (ApprovalProposalStoreError KeyConflict operation)
          else Inr (Some (retained_result retained)))"

text \<open>Eviction: the oldest keys go while the map is full.\<close>

fun evict :: "nat \<Rightarrow> ('k, 'v) jsmap \<Rightarrow> ('k, 'v) jsmap" where
  "evict maximum [] = []"
| "evict maximum (kv # m) = (if length (kv # m) \<ge> maximum then evict maximum m else kv # m)"

definition retainIdempotency ::
    "ApprovalProposalStoreLimits \<Rightarrow> string \<Rightarrow> IdempotencyRecord \<Rightarrow> InMemoryApprovalProposalStore \<Rightarrow>
     InMemoryApprovalProposalStore" where
  "retainIdempotency limits key r S =
     S\<lparr>idempotency := map_set key r (evict (maxIdempotencyRecords limits) (idempotency S))\<rparr>"

definition new_proposal ::
    "'ctx CreateApprovalProposalInput \<Rightarrow> string \<Rightarrow> ConversationApprovalProposalRecord" where
  "new_proposal input now =
     \<lparr>proposal_id = create_proposalId input, group_id = create_groupId input,
      proposal_turn_id = create_turnId input, proposal_tool_call_id = create_toolCallId input,
      tool_name = create_toolName input, reviewed_arguments = create_reviewedArguments input,
      proposal_status = Pending, proposal_version = 1, expires_at = create_expiresAt input,
      proposal_created_at = now, updated_at = now, created_attribution = create_attribution input,
      latest_attribution = create_attribution input, decision_at = None, decision_attribution = None,
      decision_reason = None, failure_reason = None\<rparr>"

section \<open>Operations\<close>

text \<open>What stops a creation, in the order of the source, once it is not a retry.\<close>

definition create_checks ::
    "'ctx ApprovalStoreOptions \<Rightarrow> string option \<Rightarrow> 'ctx CreateApprovalProposalInput \<Rightarrow>
     InMemoryApprovalProposalStore \<Rightarrow> ApprovalProposalStoreError + string" where
  "create_checks opts clock input S =
     bind_result (store_guard (map_get (proposals S) (create_proposalId input) = None) KeyConflict CreateOperation) (\<lambda>_.
     bind_result (store_guard (length (proposals S) < maxProposals (store_limits opts))
                    CapacityExceeded CreateOperation) (\<lambda>_.
     bind_result (store_now clock CreateOperation) (\<lambda>now.
     bind_result (store_guard (\<not> time_le (Date_parse (create_expiresAt input)) (Date_parse now))
                    InvalidInput CreateOperation) (\<lambda>_.
     bind_result (store_guard (actor_type (attributed_actor (create_attribution input)) = SystemActor)
                    InvalidInput CreateOperation) (\<lambda>_. Inr now)))))"

definition create_proposal ::
    "host \<Rightarrow> 'ctx ApprovalStoreOptions \<Rightarrow> string option \<Rightarrow> 'ctx CreateApprovalProposalInput \<Rightarrow>
     InMemoryApprovalProposalStore \<Rightarrow> ConversationApprovalProposalRecord store_result" where
  "create_proposal H opts clock input S =
     (case bind_result (validateCreateInput H input (store_limits opts)) (\<lambda>_.
           bind_result (authorized opts \<lparr>request_operation = CreateOperation,
             request_context = create_context input, request_proposalId = Some (create_proposalId input),
             request_groupId = create_groupId input, request_targetStatus = None\<rparr>) (\<lambda>_.
           idempotentResult CreateOperation (create_idempotencyKey input) (create_idempotencyFingerprint input)
             (createRequestSignature H input) S)) of
        Inl e \<Rightarrow> (Inl e, S)
      | Inr (Some retry) \<Rightarrow> (Inr retry, S)
      | Inr None \<Rightarrow>
          (case create_checks opts clock input S of
             Inl e \<Rightarrow> (Inl e, S)
           | Inr now \<Rightarrow>
               (let proposal = new_proposal input now in
                (Inr proposal, retainIdempotency (store_limits opts) (create_idempotencyKey input)
                   \<lparr>retained_operation = CreateOperation,
                    retained_fingerprint = create_idempotencyFingerprint input,
                    requestSignature = createRequestSignature H input, retained_result = proposal\<rparr>
                   (put_proposal proposal S)))))"

definition get_proposal ::
    "'ctx ApprovalStoreOptions \<Rightarrow> string option \<Rightarrow> 'ctx \<Rightarrow> string \<Rightarrow> InMemoryApprovalProposalStore \<Rightarrow>
     ConversationApprovalProposalRecord option store_result" where
  "get_proposal opts clock ctx pid S =
     (case bind_result (validateIdentifier pid GetOperation) (\<lambda>_.
           authorized opts \<lparr>request_operation = GetOperation, request_context = ctx,
             request_proposalId = Some pid, request_groupId = None, request_targetStatus = None\<rparr>) of
        Inl e \<Rightarrow> (Inl e, S)
      | Inr _ \<Rightarrow>
          (case map_get (proposals S) pid of
             None \<Rightarrow> (Inr None, S)
           | Some p \<Rightarrow>
               (case store_now clock GetOperation of
                  Inl e \<Rightarrow> (Inl e, S)
                | Inr now \<Rightarrow> (let (q, S') = expireIfDue opts p now S in (Inr (Some q), S')))))"

text \<open>\<open>proposals.sort(compareProposals)\<close>: stable, by creation time and then by id.\<close>

definition compareProposals ::
    "'ctx ApprovalStoreOptions \<Rightarrow> ConversationApprovalProposalRecord \<Rightarrow> ConversationApprovalProposalRecord \<Rightarrow> int" where
  "compareProposals opts left right =
     (case (Date_parse (proposal_created_at left), Date_parse (proposal_created_at right)) of
        (Some x, Some y) \<Rightarrow> if x - y \<noteq> 0 then x - y else localeCompare opts (proposal_id left) (proposal_id right)
      | _ \<Rightarrow> localeCompare opts (proposal_id left) (proposal_id right))"

text \<open>The loop over the proposals of a group: each one is expired when due.\<close>

fun expire_group ::
    "'ctx ApprovalStoreOptions \<Rightarrow> string \<Rightarrow> string \<Rightarrow> ConversationApprovalProposalRecord list \<Rightarrow>
     InMemoryApprovalProposalStore \<Rightarrow>
     ConversationApprovalProposalRecord list \<times> InMemoryApprovalProposalStore" where
  "expire_group opts gid now [] S = ([], S)"
| "expire_group opts gid now (p # ps) S =
     (if group_id p \<noteq> Some gid then expire_group opts gid now ps S
      else (let (q, S') = expireIfDue opts p now S; (qs, S'') = expire_group opts gid now ps S'
            in (q # qs, S'')))"

definition listGroup ::
    "'ctx ApprovalStoreOptions \<Rightarrow> string option \<Rightarrow> 'ctx \<Rightarrow> string \<Rightarrow> InMemoryApprovalProposalStore \<Rightarrow>
     ConversationApprovalProposalRecord list store_result" where
  "listGroup opts clock ctx gid S =
     (case bind_result (validateIdentifier gid ListGroupOperation) (\<lambda>_.
           bind_result (authorized opts \<lparr>request_operation = ListGroupOperation, request_context = ctx,
             request_proposalId = None, request_groupId = Some gid, request_targetStatus = None\<rparr>) (\<lambda>_.
           store_now clock ListGroupOperation)) of
        Inl e \<Rightarrow> (Inl e, S)
      | Inr now \<Rightarrow>
          (let (ps, S') = expire_group opts gid now (map snd (proposals S)) S
           in (Inr (sort_by (compareProposals opts) ps), S')))"

text \<open>
  The body of a transition that is not a retry. A pending proposal found to be past its
  expiry is expired, and the transition fails.
\<close>

definition system_only :: "ConversationApprovalProposalStatus \<Rightarrow> bool" where
  "system_only s \<longleftrightarrow> s \<in> {Expired, Executing, Executed, Failed}"

definition transition_checks ::
    "'ctx TransitionApprovalProposalInput \<Rightarrow> string \<Rightarrow> ConversationApprovalProposalRecord \<Rightarrow>
     ApprovalProposalStoreError + unit" where
  "transition_checks input now current =
     (let status = transition_status input; who = actor_type (attributed_actor (transition_attribution input)) in
      bind_result (store_guard (\<not> (status = Expired \<and>
        time_less (Date_parse now) (Date_parse (expires_at current)))) NotExpired TransitionOperation) (\<lambda>_.
      bind_result (store_guard (\<not> (status = Executing \<and>
        time_le (Date_parse (expires_at current)) (Date_parse now))) InvalidTransition TransitionOperation) (\<lambda>_.
      bind_result (store_guard (isLegalConversationApprovalProposalTransition (proposal_status current) status)
        InvalidTransition TransitionOperation) (\<lambda>_.
      bind_result (store_guard (\<not> (system_only status \<and> who \<noteq> SystemActor)) InvalidInput TransitionOperation) (\<lambda>_.
        store_guard (\<not> (status \<in> {Confirmed, Rejected} \<and> who \<notin> {UserActor, SystemActor}))
          InvalidInput TransitionOperation)))))"

definition transition_body ::
    "host \<Rightarrow> 'ctx ApprovalStoreOptions \<Rightarrow> string option \<Rightarrow> 'ctx TransitionApprovalProposalInput \<Rightarrow>
     InMemoryApprovalProposalStore \<Rightarrow> ConversationApprovalProposalRecord store_result" where
  "transition_body H opts clock input S =
     (let failed = (\<lambda>why. Inl (ApprovalProposalStoreError why TransitionOperation)) in
      case map_get (proposals S) (transition_proposalId input) of
        None \<Rightarrow> (failed NotFound, S)
      | Some current \<Rightarrow>
          if Fin (of_int (proposal_version current)) \<noteq> expectedVersion input
          then (failed VersionConflict, S)
          else (case store_now clock TransitionOperation of
             Inl e \<Rightarrow> (Inl e, S)
           | Inr now \<Rightarrow>
               if time_less (Date_parse now) (Date_parse (updated_at current)) then (failed StoreUnavailable, S)
               else if proposal_status current = Pending \<and>
                       time_le (Date_parse (expires_at current)) (Date_parse now) \<and> transition_status input \<noteq> Expired
               then (failed InvalidTransition, snd (expireIfDue opts current now S))
               else (case transition_checks input now current of
                  Inl e \<Rightarrow> (Inl e, S)
                | Inr _ \<Rightarrow>
                    (let next = transitionProposal current (transition_status input) (decisionReason input)
                           (failureReason input) now (transition_attribution input) in
                     (Inr next, retainIdempotency (store_limits opts) (transition_idempotencyKey input)
                        \<lparr>retained_operation = TransitionOperation,
                         retained_fingerprint = transition_idempotencyFingerprint input,
                         requestSignature = transitionRequestSignature H input, retained_result = next\<rparr>
                        (put_proposal next S))))))"

definition transition ::
    "host \<Rightarrow> 'ctx ApprovalStoreOptions \<Rightarrow> string option \<Rightarrow> 'ctx TransitionApprovalProposalInput \<Rightarrow>
     InMemoryApprovalProposalStore \<Rightarrow> ConversationApprovalProposalRecord store_result" where
  "transition H opts clock input S =
     (case bind_result (validateTransitionInput input (store_limits opts)) (\<lambda>_.
           bind_result (authorized opts \<lparr>request_operation = TransitionOperation,
             request_context = transition_context input, request_proposalId = Some (transition_proposalId input),
             request_groupId = None, request_targetStatus = Some (transition_status input)\<rparr>) (\<lambda>_.
           idempotentResult TransitionOperation (transition_idempotencyKey input)
             (transition_idempotencyFingerprint input) (transitionRequestSignature H input) S)) of
        Inl e \<Rightarrow> (Inl e, S)
      | Inr (Some retry) \<Rightarrow> (Inr retry, S)
      | Inr None \<Rightarrow> transition_body H opts clock input S)"

end
