(* ===== verification/ApprovalStoreInvariants.thy ===== *)
theory ApprovalStoreInvariants
  imports ApprovalStore
begin

text \<open>
  What the approval store promises: every proposal it holds is well-formed and moves along
  legal edges only, exactly as the reducer would move it; results are retained for
  retries; both maps stay within their capacity; a denied request learns nothing.
\<close>

section \<open>A transition is a step of the lifecycle\<close>

text \<open>The status change an event would carry for a requested transition.\<close>

fun change_for ::
    "ConversationApprovalProposalStatus \<Rightarrow> string option \<Rightarrow> string option \<Rightarrow> ApprovalProposalStatusChange option" where
  "change_for Pending r f = None"
| "change_for Confirmed r f = Some (ChangeConfirmed r)"
| "change_for Rejected r f = Some (ChangeRejected r)"
| "change_for Expired r f = Some (ChangeExpired r)"
| "change_for Executing r f = Some ChangeExecuting"
| "change_for Executed r f = Some ChangeExecuted"
| "change_for Failed r f = map_option ChangeFailed f"

lemma change_for_Some:
  assumes "change_for s r f = Some ch"
  shows "change_status ch = s" "is_decision s \<Longrightarrow> change_decision_reason ch = r"
    "s = Failed \<Longrightarrow> change_failure_reason ch = f"
  using assms by (cases s; auto simp: is_decision_def)+

lemma transitionProposal_step:
  assumes "change_for s r f = Some ch"
  shows "transitionProposal p s r f now a = proposal_step now a (proposal_version p + 1) ch p"
  using change_for_Some [OF assms] by (simp add: transitionProposal_def proposal_step_def Let_def)

lemma expire_step:
  "transitionProposal p Expired None None now a = proposal_step now a (proposal_version p + 1) (ChangeExpired None) p"
  by (rule transitionProposal_step) simp

lemma transitionProposal_id [simp]: "proposal_id (transitionProposal p s r f now a) = proposal_id p"
  by (simp add: transitionProposal_def)

section \<open>The invariant\<close>

text \<open>A proposal that was confirmed: a user or the system did it, before the expiry.\<close>

definition approved_in_time :: "ConversationApprovalProposalRecord \<Rightarrow> bool" where
  "approved_in_time p \<longleftrightarrow>
     (\<exists>a t. decision_attribution p = Some a \<and> actor_type (attributed_actor a) \<in> {UserActor, SystemActor} \<and>
        decision_at p = Some t \<and> time_less (Date_parse t) (Date_parse (expires_at p)))"

definition approval_ok :: "ConversationApprovalProposalRecord \<Rightarrow> bool" where
  "approval_ok p \<longleftrightarrow>
     proposal_wf p \<and> isTimestamp (expires_at p) \<and> isTimestamp (proposal_created_at p) \<and> isTimestamp (updated_at p) \<and>
     time_less (Date_parse (proposal_created_at p)) (Date_parse (expires_at p)) \<and>
     time_le (Date_parse (proposal_created_at p)) (Date_parse (updated_at p)) \<and>
     actor_type (attributed_actor (created_attribution p)) = SystemActor \<and>
     (proposal_status p \<in> {Confirmed, Executing, Executed, Failed} \<longrightarrow> approved_in_time p)"

definition approval_inv :: "ApprovalProposalStoreLimits \<Rightarrow> InMemoryApprovalProposalStore \<Rightarrow> bool" where
  "approval_inv limits S \<longleftrightarrow>
     (\<forall>pid p. map_get (proposals S) pid = Some p \<longrightarrow> proposal_id p = pid \<and> approval_ok p) \<and>
     distinct (map fst (proposals S)) \<and> length (proposals S) \<le> maxProposals limits \<and>
     distinct (map fst (idempotency S)) \<and> length (idempotency S) \<le> maxIdempotencyRecords limits \<and>
     (\<forall>k r. map_get (idempotency S) k = Some r \<longrightarrow>
        (\<exists>p. map_get (proposals S) (proposal_id (retained_result r)) = Some p \<and>
             proposal_edge\<^sup>*\<^sup>* (retained_result r) p))"

lemma empty_approval_inv [simp]: "approval_inv limits empty_approval_store"
  by (simp add: approval_inv_def empty_approval_store_def)

lemma store_guard_Inr [simp]: "store_guard ok why operation = Inr u \<longleftrightarrow> ok"
  by (simp add: store_guard_def)

lemma store_now_Inr: "store_now clock operation = Inr now \<longleftrightarrow> clock = Some now \<and> isTimestamp now"
  by (auto simp: store_now_def split: option.splits if_splits)

section \<open>One step of a stored proposal\<close>

text \<open>
  The two ways a proposal moves. Both are the reducer's step, taken at a time the reducer
  accepts.
\<close>

definition moves :: "string \<Rightarrow> ConversationApprovalProposalRecord \<Rightarrow> ConversationApprovalProposalRecord \<Rightarrow> bool" where
  "moves now p q \<longleftrightarrow> (\<exists>a ch. step_allowed now (proposal_version p + 1) ch p \<and>
     (change_status ch = Confirmed \<longrightarrow> actor_type (attributed_actor a) \<in> {UserActor, SystemActor}) \<and>
     q = proposal_step now a (proposal_version p + 1) ch p)"

lemma moves_edge: "moves now p q \<Longrightarrow> proposal_edge p q"
  by (auto simp: moves_def proposal_edge_def step_allowed_def)

lemma proposal_step_approved:
  assumes "approval_ok p" "isTimestamp now" "step_allowed now v ch p"
    and who: "change_status ch = Confirmed \<Longrightarrow> actor_type (attributed_actor a) \<in> {UserActor, SystemActor}"
    and status: "change_status ch \<in> {Confirmed, Executing, Executed, Failed}"
  shows "approved_in_time (proposal_step now a v ch p)"
proof (cases "change_status ch = Confirmed")
  case True
  with assms(1,2,3) have "time_less (Date_parse now) (Date_parse (expires_at p))"
    using isTimestamp_le_or_less [of "expires_at p" now] by (simp add: step_allowed_def approval_ok_def)
  with True who show ?thesis by (simp add: approved_in_time_def proposal_step_def is_decision_def)
next
  case False
  with status have "\<not> is_decision (change_status ch)" by (auto simp: is_decision_def)
  moreover from False status assms(3) have "proposal_status p \<in> {Confirmed, Executing, Executed, Failed}"
    by (auto simp: step_allowed_def legal_transition_iff)
  ultimately show ?thesis
    using assms(1) by (simp add: approved_in_time_def proposal_step_def approval_ok_def Let_def)
qed

lemma moves_ok:
  assumes "approval_ok p" "moves now p q" "isTimestamp now"
    "time_le (Date_parse (proposal_created_at p)) (Date_parse now)"
  shows "approval_ok q"
proof -
  from assms(2) obtain a ch where step: "step_allowed now (proposal_version p + 1) ch p"
    "change_status ch = Confirmed \<Longrightarrow> actor_type (attributed_actor a) \<in> {UserActor, SystemActor}"
    "q = proposal_step now a (proposal_version p + 1) ch p" unfolding moves_def by blast
  have "proposal_wf q"
    using assms(1) step by (auto simp: approval_ok_def step_allowed_def intro: proposal_step_wf)
  moreover have "proposal_status q \<in> {Confirmed, Executing, Executed, Failed} \<longrightarrow> approved_in_time q"
    using proposal_step_approved [OF assms(1,3) step(1,2)] by (simp add: step(3) proposal_step_def Let_def)
  ultimately show ?thesis using assms by (simp add: approval_ok_def step(3) proposal_step_def Let_def)
qed

lemma expire_moves:
  assumes "proposal_status p = Pending" "\<not> time_less (Date_parse now) (Date_parse (expires_at p))"
  shows "moves now p (transitionProposal p Expired None None now a)"
  unfolding moves_def expire_step
  using assms by (auto simp: step_allowed_def legal_transition_iff intro!: exI [of _ "ChangeExpired None"] exI [of _ a])

text \<open>Replacing a stored proposal by what it moved to.\<close>

lemma put_moved_inv:
  assumes inv: "approval_inv limits S" and p: "map_get (proposals S) (proposal_id p) = Some p"
    and q: "moves now p q" "approval_ok q"
  shows "approval_inv limits (put_proposal q S)"
proof -
  have qid: "proposal_id q = proposal_id p" using moves_edge [OF q(1)] by (simp add: proposal_edge_def)
  have mem: "proposal_id p \<in> fst ` set (proposals S)" using p by (metis domI dom_map_of_conv_image_fst)
  have "\<exists>p'. map_get (proposals (put_proposal q S)) (proposal_id (retained_result r)) = Some p' \<and>
      proposal_edge\<^sup>*\<^sup>* (retained_result r) p'" if r: "map_get (idempotency S) k = Some r" for k r
  proof -
    obtain p0 where p0: "map_get (proposals S) (proposal_id (retained_result r)) = Some p0"
      "proposal_edge\<^sup>*\<^sup>* (retained_result r) p0" using inv r unfolding approval_inv_def by blast
    show ?thesis
    proof (cases "proposal_id (retained_result r) = proposal_id p")
      case True
      with p0 p have "proposal_edge\<^sup>*\<^sup>* (retained_result r) q"
        using moves_edge [OF q(1)] by (auto intro: rtranclp.rtrancl_into_rtrancl)
      with True qid show ?thesis by (simp add: put_proposal_def)
    next
      case False
      with p0 qid show ?thesis by (simp add: put_proposal_def)
    qed
  qed
  then show ?thesis
    using inv q(2) qid mem by (auto simp: approval_inv_def put_proposal_def map_set_distinct map_set_length)
qed

lemma created_before:
  assumes "approval_ok p" "isTimestamp now" "\<not> time_less (Date_parse now) (Date_parse (expires_at p))"
  shows "time_le (Date_parse (proposal_created_at p)) (Date_parse now)"
  using assms isTimestamp_parses [of now] by (auto simp: approval_ok_def time_le_iff time_less_iff)

lemma expireIfDue_inv:
  assumes inv: "approval_inv limits S" and p: "map_get (proposals S) (proposal_id p) = Some p"
    and now: "isTimestamp now" and e: "expireIfDue opts p now S = (q, S')"
  shows "approval_inv limits S' \<and> map_get (proposals S') (proposal_id p) = Some q \<and>
    (\<forall>x. x \<noteq> proposal_id p \<longrightarrow> map_get (proposals S') x = map_get (proposals S) x)"
proof (cases "proposal_status p \<noteq> Pending \<or> time_less (Date_parse now) (Date_parse (expires_at p))")
  case True
  with e inv p show ?thesis by (auto simp: expireIfDue_def)
next
  case False
  let ?q = "transitionProposal p Expired None None now (expiryAttribution opts)"
  from False e have q: "q = ?q" "S' = put_proposal ?q S" by (auto simp: expireIfDue_def Let_def)
  have ok: "approval_ok p" using inv p by (auto simp: approval_inv_def)
  have moved: "moves now p ?q" using False by (auto intro: expire_moves)
  have "approval_ok ?q" using moves_ok [OF ok moved now created_before [OF ok now]] False by blast
  with put_moved_inv [OF inv p moved] q show ?thesis by (auto simp: put_proposal_def)
qed

section \<open>Retained results\<close>

lemma evict_length: "0 < n \<Longrightarrow> length (evict n m) < n"
  by (induction n m rule: evict.induct) auto

lemma evict_suffix: "\<exists>k. evict n m = drop k m"
proof (induction n m rule: evict.induct)
  case (2 n kv m)
  then obtain k where "length (kv # m) \<ge> n \<Longrightarrow> evict n m = drop k m" by blast
  then show ?case
    by (cases "length (kv # m) \<ge> n") (auto intro: exI [of _ "Suc k"] exI [of _ 0])
qed simp

lemma evict_get:
  assumes "distinct (map fst m)" "map_get (evict n m) k = Some v"
  shows "map_get m k = Some v"
proof -
  obtain i where i: "evict n m = drop i m" using evict_suffix by blast
  have "(k, v) \<in> set (drop i m)" using assms(2) unfolding i by (rule map_of_SomeD)
  then show ?thesis using assms(1) by (auto dest: in_set_dropD)
qed

lemma retainIdempotency_inv:
  assumes inv: "approval_inv limits S" and n: "0 < maxIdempotencyRecords limits"
    and p: "map_get (proposals S) (proposal_id (retained_result r)) = Some (retained_result r)"
  shows "approval_inv limits (retainIdempotency limits key r S)"
proof -
  let ?m = "evict (maxIdempotencyRecords limits) (idempotency S)"
  have d: "distinct (map fst (idempotency S))" using inv by (simp only: approval_inv_def)
  have "distinct (map fst ?m)"
    using d evict_suffix [of "maxIdempotencyRecords limits" "idempotency S"] by (auto simp: drop_map [symmetric])
  then have keys: "distinct (map fst (map_set key r ?m))" by (rule map_set_distinct)
  have len: "length (map_set key r ?m) \<le> maxIdempotencyRecords limits"
    using evict_length [OF n, of "idempotency S"] by (simp add: map_set_length)
  have "\<exists>p. map_get (proposals S) (proposal_id (retained_result r')) = Some p \<and> proposal_edge\<^sup>*\<^sup>* (retained_result r') p"
    if "map_get (map_set key r ?m) k = Some r'" for k r'
  proof (cases "k = key")
    case True
    with that p show ?thesis by auto
  next
    case False
    with that have "map_get (idempotency S) k = Some r'" by (auto intro: evict_get [OF d])
    with inv show ?thesis unfolding approval_inv_def by blast
  qed
  with inv keys len show ?thesis unfolding approval_inv_def retainIdempotency_def by simp
qed

section \<open>Every operation keeps the invariant\<close>

lemma get_proposal_inv:
  assumes inv: "approval_inv limits S" and g: "get_proposal opts clock ctx pid S = (out, S')"
  shows "approval_inv limits S'"
proof (cases "S' = S")
  case False
  with g obtain p now where p: "map_get (proposals S) pid = Some p" "isTimestamp now"
    "S' = snd (expireIfDue opts p now S)"
    by (auto simp: get_proposal_def case_prod_beta store_now_Inr split: sum.splits option.splits)
  have "proposal_id p = pid" using inv p(1) unfolding approval_inv_def by blast
  with expireIfDue_inv [OF inv _ p(2), of p opts "fst (expireIfDue opts p now S)" S'] p show ?thesis by simp
qed (use inv in simp)

lemma expire_group_inv:
  assumes "approval_inv limits S" "isTimestamp now" "distinct (map proposal_id ps)"
    "\<forall>p\<in>set ps. map_get (proposals S) (proposal_id p) = Some p"
    "expire_group opts gid now ps S = (qs, S')"
  shows "approval_inv limits S'"
  using assms
proof (induction ps arbitrary: S qs S')
  case (Cons p ps)
  show ?case
  proof (cases "group_id p = Some gid")
    case False
    with Cons show ?thesis by simp
  next
    case True
    obtain q T where q: "expireIfDue opts p now S = (q, T)" by fastforce
    obtain qs' T' where rest: "expire_group opts gid now ps T = (qs', T')" by fastforce
    have "approval_inv limits T" and other: "\<And>x. x \<noteq> proposal_id p \<Longrightarrow> map_get (proposals T) x = map_get (proposals S) x"
      using expireIfDue_inv [OF Cons.prems(1) _ Cons.prems(2) q] Cons.prems(4) by auto
    moreover have "\<forall>r\<in>set ps. map_get (proposals T) (proposal_id r) = Some r"
      using Cons.prems(3,4) other by (metis distinct.simps(2) image_eqI list.set_intros(2) list.simps(9) set_map)
    ultimately have "approval_inv limits T'" using Cons.IH [OF _ Cons.prems(2) _ _ rest] Cons.prems(3) by simp
    with True q rest Cons.prems(5) show ?thesis by simp
  qed
qed simp

lemma stored_proposals:
  assumes "approval_inv limits S"
  shows "distinct (map proposal_id (map snd (proposals S)))"
    "\<forall>p\<in>set (map snd (proposals S)). map_get (proposals S) (proposal_id p) = Some p"
proof -
  have d: "distinct (map fst (proposals S))"
    and ids: "\<And>pid p. map_get (proposals S) pid = Some p \<Longrightarrow> proposal_id p = pid"
    using assms unfolding approval_inv_def by blast+
  have at: "proposal_id (snd kv) = fst kv" if "kv \<in> set (proposals S)" for kv
    using ids [OF map_of_is_SomeI [OF d, of "fst kv" "snd kv"]] that by simp
  then have "map proposal_id (map snd (proposals S)) = map fst (proposals S)" by simp
  with d show "distinct (map proposal_id (map snd (proposals S)))" by (simp only:)
  show "\<forall>p\<in>set (map snd (proposals S)). map_get (proposals S) (proposal_id p) = Some p"
    using at d by (auto simp: map_of_eq_Some_iff)
qed

lemma listGroup_inv:
  assumes inv: "approval_inv limits S" and l: "listGroup opts clock ctx gid S = (out, S')"
  shows "approval_inv limits S'"
proof (cases "S' = S")
  case False
  with l obtain now where "isTimestamp now" "S' = snd (expire_group opts gid now (map snd (proposals S)) S)"
    by (auto simp: listGroup_def case_prod_beta store_now_Inr split: sum.splits)
  then show ?thesis
    using expire_group_inv [OF inv _ stored_proposals [OF inv],
        of now opts gid "fst (expire_group opts gid now (map snd (proposals S)) S)" S'] by simp
qed (use inv in simp)

lemma create_checks_Inr:
  assumes "create_checks opts clock input S = Inr now"
  shows "map_get (proposals S) (create_proposalId input) = None"
    "length (proposals S) < maxProposals (store_limits opts)" "isTimestamp now" "clock = Some now"
    "\<not> time_le (Date_parse (create_expiresAt input)) (Date_parse now)"
    "actor_type (attributed_actor (create_attribution input)) = SystemActor"
  using assms by (auto simp: create_checks_def store_now_Inr)

lemma new_proposal_ok:
  assumes "create_checks opts clock input S = Inr now" "isTimestamp (create_expiresAt input)"
  shows "approval_ok (new_proposal input now)"
  using create_checks_Inr [OF assms(1)] assms(2) isTimestamp_le_or_less [OF assms(2), of now]
    isTimestamp_parses [of now]
  by (auto simp: approval_ok_def new_proposal_def proposal_wf_def time_le_iff)

lemma put_new_inv:
  assumes inv: "approval_inv limits S" and q: "map_get (proposals S) (proposal_id q) = None" "approval_ok q"
    and len: "length (proposals S) < maxProposals limits"
  shows "approval_inv limits (put_proposal q S)"
proof -
  have "\<exists>p. map_get (proposals (put_proposal q S)) (proposal_id (retained_result r)) = Some p \<and>
      proposal_edge\<^sup>*\<^sup>* (retained_result r) p" if r: "map_get (idempotency S) k = Some r" for k r
  proof -
    obtain p where p: "map_get (proposals S) (proposal_id (retained_result r)) = Some p"
      "proposal_edge\<^sup>*\<^sup>* (retained_result r) p" using inv r unfolding approval_inv_def by blast
    moreover from p(1) q(1) have "proposal_id (retained_result r) \<noteq> proposal_id q" by auto
    ultimately show ?thesis by (simp add: put_proposal_def)
  qed
  then show ?thesis
    using inv q(2) len by (auto simp: approval_inv_def put_proposal_def map_set_distinct map_set_length)
qed

lemma put_proposal_get [simp]: "map_get (proposals (put_proposal q S)) (proposal_id q) = Some q"
  by (simp add: put_proposal_def)

lemma create_proposal_inv:
  assumes inv: "approval_inv (store_limits opts) S" and n: "0 < maxIdempotencyRecords (store_limits opts)"
    and c: "create_proposal H opts clock input S = (out, S')"
  shows "approval_inv (store_limits opts) S'"
proof (cases "S' = S")
  case False
  with c obtain now where now: "create_checks opts clock input S = Inr now"
    and valid: "isTimestamp (create_expiresAt input)"
    and S': "S' = retainIdempotency (store_limits opts) (create_idempotencyKey input)
        \<lparr>retained_operation = CreateOperation, retained_fingerprint = create_idempotencyFingerprint input,
         requestSignature = createRequestSignature H input, retained_result = new_proposal input now\<rparr>
        (put_proposal (new_proposal input now) S)"
    by (auto simp: create_proposal_def validateCreateInput_def Let_def split: sum.splits option.splits)
  have "approval_inv (store_limits opts) (put_proposal (new_proposal input now) S)"
    using put_new_inv [OF inv _ new_proposal_ok [OF now valid]] create_checks_Inr [OF now]
    by (simp add: new_proposal_def)
  then show ?thesis unfolding S' using n by (rule retainIdempotency_inv) simp
qed (use inv in simp)

section \<open>Transitions\<close>

text \<open>A transition that is validated names a status change.\<close>

lemma validateTransitionInput_change:
  assumes "validateTransitionInput input limits = Inr ()"
  obtains ch where "change_for (transition_status input) (decisionReason input) (failureReason input) = Some ch"
  using assms
  by (cases "transition_status input") (auto simp: validateTransitionInput_def split: option.splits if_splits)

lemma transition_checks_Inr:
  assumes "transition_checks input now current = Inr ()"
  shows "\<not> (transition_status input = Expired \<and> time_less (Date_parse now) (Date_parse (expires_at current)))"
    "\<not> (transition_status input = Executing \<and> time_le (Date_parse (expires_at current)) (Date_parse now))"
    "isLegalConversationApprovalProposalTransition (proposal_status current) (transition_status input)"
    "system_only (transition_status input) \<Longrightarrow>
       actor_type (attributed_actor (transition_attribution input)) = SystemActor"
    "transition_status input \<in> {Confirmed, Rejected} \<Longrightarrow>
       actor_type (attributed_actor (transition_attribution input)) \<in> {UserActor, SystemActor}"
  using assms by (auto simp: transition_checks_def Let_def)

text \<open>What a transition that goes through does.\<close>

lemma transition_body_Inr:
  assumes "transition_body H opts clock input S = (Inr next, S')"
  obtains current now where "map_get (proposals S) (transition_proposalId input) = Some current"
    "clock = Some now" "isTimestamp now" "expectedVersion input = Fin (of_int (proposal_version current))"
    "\<not> time_less (Date_parse now) (Date_parse (updated_at current))"
    "\<not> (proposal_status current = Pending \<and> time_le (Date_parse (expires_at current)) (Date_parse now) \<and>
        transition_status input \<noteq> Expired)"
    "transition_checks input now current = Inr ()"
    "next = transitionProposal current (transition_status input) (decisionReason input) (failureReason input) now
       (transition_attribution input)"
    "S' = retainIdempotency (store_limits opts) (transition_idempotencyKey input)
       \<lparr>retained_operation = TransitionOperation, retained_fingerprint = transition_idempotencyFingerprint input,
        requestSignature = transitionRequestSignature H input, retained_result = next\<rparr> (put_proposal next S)"
  using assms
  by (auto simp: transition_body_def Let_def store_now_Inr split: option.splits if_splits sum.splits)

lemma transition_allowed:
  assumes "change_for (transition_status input) r f = Some ch"
    and "transition_checks input now current = Inr ()"
    and "\<not> (proposal_status current = Pending \<and> time_le (Date_parse (expires_at current)) (Date_parse now) \<and>
        transition_status input \<noteq> Expired)"
  shows "step_allowed now (proposal_version current + 1) ch current"
  using transition_checks_Inr [OF assms(2)] assms(3) change_for_Some(1) [OF assms(1)]
  by (auto simp: step_allowed_def legal_transition_iff)

lemma transition_body_inv:
  assumes inv: "approval_inv (store_limits opts) S" and n: "0 < maxIdempotencyRecords (store_limits opts)"
    and valid: "validateTransitionInput input (store_limits opts) = Inr ()"
    and t: "transition_body H opts clock input S = (out, S')"
  shows "approval_inv (store_limits opts) S'"
proof (cases out)
  case (Inl e)
  show ?thesis
  proof (cases "S' = S")
    case False
    with t Inl obtain p now where p: "map_get (proposals S) (transition_proposalId input) = Some p" "isTimestamp now"
      "S' = snd (expireIfDue opts p now S)"
      by (auto simp: transition_body_def Let_def store_now_Inr split: option.splits if_splits sum.splits)
    have "proposal_id p = transition_proposalId input" using inv p(1) unfolding approval_inv_def by blast
    with expireIfDue_inv [OF inv _ p(2), of p opts "fst (expireIfDue opts p now S)" S'] p show ?thesis by simp
  qed (use inv in simp)
next
  case (Inr q)
  from t [unfolded Inr] show ?thesis
  proof (rule transition_body_Inr)
    fix p now
    assume p: "map_get (proposals S) (transition_proposalId input) = Some p" "isTimestamp now"
      and late: "\<not> time_less (Date_parse now) (Date_parse (updated_at p))"
      and timely: "\<not> (proposal_status p = Pending \<and> time_le (Date_parse (expires_at p)) (Date_parse now) \<and>
        transition_status input \<noteq> Expired)"
      and checks: "transition_checks input now p = Inr ()"
      and q: "q = transitionProposal p (transition_status input) (decisionReason input) (failureReason input) now
       (transition_attribution input)"
      and S': "S' = retainIdempotency (store_limits opts) (transition_idempotencyKey input)
       \<lparr>retained_operation = TransitionOperation, retained_fingerprint = transition_idempotencyFingerprint input,
        requestSignature = transitionRequestSignature H input, retained_result = q\<rparr> (put_proposal q S)"
    have pid: "proposal_id p = transition_proposalId input" and ok: "approval_ok p"
      using inv p(1) unfolding approval_inv_def by blast+
    obtain ch where ch: "change_for (transition_status input) (decisionReason input) (failureReason input) = Some ch"
      using validateTransitionInput_change [OF valid] .
    have moved: "moves now p q"
      unfolding moves_def q transitionProposal_step [OF ch] using transition_allowed [OF ch checks timely]
        transition_checks_Inr(5) [OF checks] change_for_Some(1) [OF ch]
      by (intro exI [of _ "transition_attribution input"] exI [of _ ch]) simp
    have "time_le (Date_parse (proposal_created_at p)) (Date_parse now)"
      using ok late p(2) isTimestamp_parses [of now] by (auto simp: approval_ok_def time_le_iff time_less_iff)
    then have "approval_ok q" using moves_ok [OF ok moved p(2)] by blast
    with put_moved_inv [OF inv _ moved] p(1) pid have "approval_inv (store_limits opts) (put_proposal q S)" by simp
    then show ?thesis unfolding S' using n by (rule retainIdempotency_inv) simp
  qed
qed

lemma transition_inv:
  assumes inv: "approval_inv (store_limits opts) S" and n: "0 < maxIdempotencyRecords (store_limits opts)"
    and t: "transition H opts clock input S = (out, S')"
  shows "approval_inv (store_limits opts) S'"
proof (cases "S' = S")
  case False
  with t have "validateTransitionInput input (store_limits opts) = Inr ()"
    "transition_body H opts clock input S = (out, S')"
    by (auto simp: transition_def split: sum.splits option.splits)
  then show ?thesis using transition_body_inv [OF inv n] by blast
qed (use inv in simp)

section \<open>Reachable stores\<close>

inductive approval_step ::
    "host \<Rightarrow> 'ctx ApprovalStoreOptions \<Rightarrow> InMemoryApprovalProposalStore \<Rightarrow> InMemoryApprovalProposalStore \<Rightarrow> bool"
  for H opts where
  step_create: "create_proposal H opts clock input S = (out, S') \<Longrightarrow> approval_step H opts S S'"
| step_get: "get_proposal opts clock ctx pid S = (found, S') \<Longrightarrow> approval_step H opts S S'"
| step_list: "listGroup opts clock ctx gid S = (list, S') \<Longrightarrow> approval_step H opts S S'"
| step_transition: "transition H opts clock change S = (out, S') \<Longrightarrow> approval_step H opts S S'"

lemma approval_step_inv:
  assumes "approval_step H opts S S'" "approval_inv (store_limits opts) S"
    "0 < maxIdempotencyRecords (store_limits opts)"
  shows "approval_inv (store_limits opts) S'"
  using assms
  by (cases rule: approval_step.cases)
    (auto intro: create_proposal_inv get_proposal_inv listGroup_inv transition_inv)

lemma reachable_approval_inv:
  assumes "(approval_step H opts)\<^sup>*\<^sup>* empty_approval_store S" "0 < maxIdempotencyRecords (store_limits opts)"
  shows "approval_inv (store_limits opts) S"
  using assms by (induction rule: rtranclp_induct) (auto intro: approval_step_inv)

text \<open>\<open>resolveLimits\<close> leaves room for at least one record of each kind.\<close>

lemma resolveLimits_pos:
  "resolveLimits a b c d = Some limits \<Longrightarrow> 0 < maxProposals limits \<and> 0 < maxIdempotencyRecords limits"
  by (auto simp: resolveLimits_def Let_def split: if_splits)

section \<open>The store and the reducer agree\<close>

lemma transition_new:
  assumes "transition H opts clock input S = (Inr next, S')" "map_get (idempotency S) (transition_idempotencyKey input) = None"
  shows "validateTransitionInput input (store_limits opts) = Inr ()"
    "transition_body H opts clock input S = (Inr next, S')"
  using assms by (auto simp: transition_def idempotentResult_def split: sum.splits option.splits)

text \<open>
  A projection that holds the same proposal takes the same step on the event of the
  transition, at the time of the transition.
\<close>

lemma transition_matches_reducer:
  assumes t: "transition H opts clock input S = (Inr next, S')"
    and fresh: "map_get (idempotency S) (transition_idempotencyKey input) = None"
    and st: "find_proposal st (transition_proposalId input) = Some i"
      "map_get (proposals S) (transition_proposalId input) = Some (approval_proposals st ! i)"
  shows "\<exists>ch now. clock = Some now \<and>
    change_for (transition_status input) (decisionReason input) (failureReason input) = Some ch \<and>
    next = proposal_step now (transition_attribution input) (proposal_version next) ch (approval_proposals st ! i) \<and>
    map_get (proposals S') (transition_proposalId input) = Some next \<and>
    approvalProposalStatusChanged st now (transition_attribution input) (transition_proposalId input)
      (proposal_version next) ch = updateApprovalProposal st i next"
proof -
  note new = transition_new [OF t fresh]
  obtain ch where ch: "change_for (transition_status input) (decisionReason input) (failureReason input) = Some ch"
    using validateTransitionInput_change [OF new(1)] .
  obtain now where now: "clock = Some now"
    "\<not> (proposal_status (approval_proposals st ! i) = Pending \<and>
        time_le (Date_parse (expires_at (approval_proposals st ! i))) (Date_parse now) \<and> transition_status input \<noteq> Expired)"
    "transition_checks input now (approval_proposals st ! i) = Inr ()"
    "next = transitionProposal (approval_proposals st ! i) (transition_status input) (decisionReason input)
       (failureReason input) now (transition_attribution input)"
    "proposals S' = map_set (proposal_id next) next (proposals S)"
  proof (rule transition_body_Inr [OF new(2)], goal_cases)
    case (1 current now)
    from 1(2) st(2) have "current = approval_proposals st ! i" by simp
    with 1 show ?case by (simp add: retainIdempotency_def put_proposal_def)
  qed
  have version: "proposal_version next = proposal_version (approval_proposals st ! i) + 1"
    by (simp add: now(4) transitionProposal_def)
  have "step_allowed now (proposal_version next) ch (approval_proposals st ! i)"
    unfolding version using transition_allowed [OF ch now(3,2)] .
  moreover have "next = proposal_step now (transition_attribution input) (proposal_version next) ch (approval_proposals st ! i)"
    unfolding version by (simp add: now(4) transitionProposal_step [OF ch])
  moreover have "proposal_id next = transition_proposalId input"
    using find_index_SomeD [OF st(1) [unfolded find_proposal_def]] by (simp add: now(4))
  ultimately show ?thesis
    using st(1) now(1,5) ch
    by (intro exI [of _ ch] exI [of _ now]) (simp add: approvalProposalStatusChanged_eq)
qed

section \<open>Retries\<close>

lemma retained_get:
  "map_get (idempotency (retainIdempotency limits key r S)) key = Some r"
  by (simp add: retainIdempotency_def)

lemma transition_again:
  assumes t: "transition H opts clock input S = (Inr next, S')"
  shows "transition H opts clock' input S' = (Inr next, S')"
proof (cases "map_get (idempotency S) (transition_idempotencyKey input)")
  case None
  have "map_get (idempotency S') (transition_idempotencyKey input) = Some
      \<lparr>retained_operation = TransitionOperation, retained_fingerprint = transition_idempotencyFingerprint input,
       requestSignature = transitionRequestSignature H input, retained_result = next\<rparr>"
    using transition_new(2) [OF t None] by (auto elim!: transition_body_Inr simp: retained_get)
  with t show ?thesis
    by (auto simp: transition_def idempotentResult_def split: sum.splits option.splits)
next
  case (Some r)
  with t have "S' = S" by (auto simp: transition_def idempotentResult_def split: sum.splits option.splits if_splits)
  with t Some show ?thesis by (auto simp: transition_def idempotentResult_def split: sum.splits option.splits if_splits)
qed

lemma create_again:
  assumes c: "create_proposal H opts clock input S = (Inr p, S')"
  shows "create_proposal H opts clock' input S' = (Inr p, S')"
proof (cases "map_get (idempotency S) (create_idempotencyKey input)")
  case None
  with c have "map_get (idempotency S') (create_idempotencyKey input) = Some
      \<lparr>retained_operation = CreateOperation, retained_fingerprint = create_idempotencyFingerprint input,
       requestSignature = createRequestSignature H input, retained_result = p\<rparr>"
    by (auto simp: create_proposal_def idempotentResult_def Let_def retained_get split: sum.splits option.splits)
  with c show ?thesis
    by (auto simp: create_proposal_def idempotentResult_def split: sum.splits option.splits)
next
  case (Some r)
  with c have "S' = S"
    by (auto simp: create_proposal_def idempotentResult_def split: sum.splits option.splits if_splits)
  with c Some show ?thesis
    by (auto simp: create_proposal_def idempotentResult_def split: sum.splits option.splits if_splits)
qed

section \<open>Authorization\<close>

text \<open>A denied request: the answer does not depend on the store, which stays as it is.\<close>

lemma denied_operations:
  assumes "\<forall>request. authorize opts request \<noteq> Some Allow"
  shows "\<exists>e. \<forall>S. create_proposal H opts clock input S = (Inl e, S)"
    and "\<exists>e. \<forall>S. get_proposal opts clock ctx pid S = (Inl e, S)"
    and "\<exists>e. \<forall>S. listGroup opts clock ctx gid S = (Inl e, S)"
    and "\<exists>e. \<forall>S. transition H opts clock change S = (Inl e, S)"
proof -
  have denied: "\<exists>e. bind_result r (\<lambda>_. bind_result (authorized opts request) f) = Inl e"
    "authorized opts request = Inl (ApprovalProposalStoreError PermissionDenied (request_operation request))"
    for r :: "ApprovalProposalStoreError + unit" and request and f :: "unit \<Rightarrow> ApprovalProposalStoreError + 'x"
    using assms by (cases r; simp add: authorized_def store_guard_def)+
  show "\<exists>e. \<forall>S. create_proposal H opts clock input S = (Inl e, S)"
    by (cases "validateCreateInput H input (store_limits opts)") (simp_all add: create_proposal_def denied(2))
  show "\<exists>e. \<forall>S. get_proposal opts clock ctx pid S = (Inl e, S)"
    by (cases "validateIdentifier pid GetOperation") (simp_all add: get_proposal_def denied(2))
  show "\<exists>e. \<forall>S. listGroup opts clock ctx gid S = (Inl e, S)"
    by (cases "validateIdentifier gid ListGroupOperation") (simp_all add: listGroup_def denied(2))
  show "\<exists>e. \<forall>S. transition H opts clock change S = (Inl e, S)"
    by (cases "validateTransitionInput change (store_limits opts)") (simp_all add: transition_def denied(2))
qed

end
