(* ===== verification/ApprovalCoordinator.thy ===== *)
theory ApprovalCoordinator
  imports ApprovalStoreInvariants EventStoreInvariants
begin

text \<open>
  Durable decisions (src/conversation/approval-coordinator.ts): a decision is a transition
  of the approval store followed by an event in the conversation's log. The two stores are
  the interfaces the coordinator is given; the state is the pair of theirs.

  The run awaits at every call of a store, and other clients may act there: what they do to
  each store at each await point is a parameter. The abort signal is what it reads at each
  point, the host's authorization check is what the race with the signal settles to.
\<close>

section \<open>Types\<close>

record ApprovalCoordinatorLimits =
  maxGroupSize :: nat
  maxEventAppendAttempts :: nat
  reconciliationPageSize :: nat
  maxReconciliationPages :: nat

definition DEFAULT_APPROVAL_COORDINATOR_LIMITS :: ApprovalCoordinatorLimits where
  "DEFAULT_APPROVAL_COORDINATOR_LIMITS = \<lparr>maxGroupSize = 25, maxEventAppendAttempts = 4,
     reconciliationPageSize = 100, maxReconciliationPages = 50\<rparr>"

definition resolveCoordinatorLimits ::
    "jsnumber option \<Rightarrow> jsnumber option \<Rightarrow> jsnumber option \<Rightarrow> jsnumber option \<Rightarrow>
     ApprovalCoordinatorLimits option" where
  "resolveCoordinatorLimits group_size attempts page_size pages =
     (let resolve = (\<lambda>over fallback. case over of None \<Rightarrow> Fin (of_nat fallback) | Some n \<Rightarrow> n);
          gs = resolve group_size (maxGroupSize DEFAULT_APPROVAL_COORDINATOR_LIMITS);
          ats = resolve attempts (maxEventAppendAttempts DEFAULT_APPROVAL_COORDINATOR_LIMITS);
          ss = resolve page_size (reconciliationPageSize DEFAULT_APPROVAL_COORDINATOR_LIMITS);
          ps = resolve pages (maxReconciliationPages DEFAULT_APPROVAL_COORDINATOR_LIMITS)
      in if list_all (\<lambda>n. isSafeInteger n \<and> 0 < int_of_number n) [gs, ats, ss, ps]
         then Some \<lparr>maxGroupSize = nat (int_of_number gs), maxEventAppendAttempts = nat (int_of_number ats),
                reconciliationPageSize = nat (int_of_number ss), maxReconciliationPages = nat (int_of_number ps)\<rparr>
         else None)"

datatype ApprovalDecision = Confirm | Reject | Expire

fun transitionStatus :: "ApprovalDecision \<Rightarrow> ConversationApprovalProposalStatus" where
  "transitionStatus Confirm = Confirmed"
| "transitionStatus Reject = Rejected"
| "transitionStatus Expire = Expired"

record 'ctx ApprovalDecisionPermissionRequest =
  permission_context :: 'ctx
  permission_conversationId :: string
  permission_proposalId :: string
  permission_expectedVersion :: jsnumber
  permission_decision :: ApprovalDecision
  permission_groupId :: "string option"

record ApprovalDecisionTarget =
  target_proposalId :: string
  target_expectedVersion :: jsnumber
  target_idempotencyKey :: string
  target_idempotencyFingerprint :: string

text \<open>Where a run reads the abort signal, and where it awaits a store.\<close>

datatype SignalRead = AtDecision string | AtGroup | AtTarget string

datatype AwaitPoint =
  AtTransition string | AtGet string | AtLatest string nat | AtAppend string nat | AtPage string nat

record ('p, 's) Interference =
  others_approvals :: "AwaitPoint \<Rightarrow> 'p \<Rightarrow> 'p"
  others_events :: "AwaitPoint \<Rightarrow> 's \<Rightarrow> 's"

definition undisturbed :: "('p, 's) Interference" where
  "undisturbed = \<lparr>others_approvals = (\<lambda>_ p. p), others_events = (\<lambda>_ s. s)\<rparr>"

record 'ctx DecideApprovalInput = ApprovalDecisionTarget +
  decide_context :: 'ctx
  decide_conversationId :: string
  decide_decision :: ApprovalDecision
  decide_attribution :: ConversationEventAttribution
  decide_reason :: "string option"
  decide_aborted :: "SignalRead \<Rightarrow> bool"

text \<open>A snapshot is an input with the group it is decided in.\<close>

record 'ctx DecisionSnapshot = "'ctx DecideApprovalInput" +
  snapshot_groupId :: "string option"

record 'ctx DecideApprovalGroupInput =
  group_context :: 'ctx
  group_conversationId :: string
  group_groupId :: string
  group_targets :: "ApprovalDecisionTarget list"
  group_decision :: ApprovalDecision
  group_attribution :: ConversationEventAttribution
  group_reason :: "string option"
  group_aborted :: "SignalRead \<Rightarrow> bool"

datatype EventStatus = EventAppended | EventReconciled

record AcceptedApprovalDecision =
  accepted_decision :: ConversationApprovalProposalStatus
  accepted_proposalId :: string
  authorizedVersion :: jsnumber
  accepted_proposalVersion :: int
  accepted_eventId :: string
  accepted_eventRevision :: int
  accepted_eventStatus :: EventStatus

datatype ConflictKind = VersionMismatch | IdempotencyMismatch | EventIdentity

datatype InvalidReason = InvalidRequest | NotYetExpired

datatype ApprovalDecisionResult =
    Accepted AcceptedApprovalDecision
  | DecisionNotFound string
  | DecisionConflict string ConflictKind
  | DecisionForbidden string
  | DecisionExpired string int
  | AlreadyDecided string int ConversationApprovalProposalStatus
  | DecisionCancelled string
  | DecisionInvalid string InvalidReason
  | PersistenceFailure string

datatype GroupFault = GroupRequest | GroupBounds | GroupMembership

datatype ApprovalGroupDecisionResult =
    GroupCompleted string "ApprovalDecisionResult list"
  | GroupPartial string "ApprovalDecisionResult list"
  | GroupInvalid string GroupFault
  | GroupForbidden string
  | GroupPersistenceFailure string
  | GroupCancelled string

section \<open>The stores and the host\<close>

text \<open>An operation of an approval store may throw its own error or any other.\<close>

datatype ApprovalStoreFailure = Refused ApprovalProposalStoreError | Crashed

record ('ctx, 'p) ApprovalProposalStore =
  approvals_transition :: "'ctx TransitionApprovalProposalInput \<Rightarrow> 'p \<Rightarrow>
    (ApprovalStoreFailure + ConversationApprovalProposalRecord) \<times> 'p"
  approvals_get :: "'ctx \<Rightarrow> string \<Rightarrow> 'p \<Rightarrow>
    (ApprovalStoreFailure + ConversationApprovalProposalRecord option) \<times> 'p"
  approvals_listGroup :: "'ctx \<Rightarrow> string \<Rightarrow> 'p \<Rightarrow>
    (ApprovalStoreFailure + ConversationApprovalProposalRecord list) \<times> 'p"

text \<open>The race of the host's answer with the signal: an answer, an exception, or the abort.\<close>

datatype AuthorizationRun = Answered Permission | Threw | AbortedFirst

record ('ctx, 'p, 's) ApprovalCoordinatorOptions =
  proposalStore :: "('ctx, 'p) ApprovalProposalStore"
  eventStore :: "'s ConversationEventStore"
  decide_authorize :: "'ctx ApprovalDecisionPermissionRequest \<Rightarrow> AuthorizationRun"
  coordinator_limits :: ApprovalCoordinatorLimits
  target_localeCompare :: "string \<Rightarrow> string \<Rightarrow> int"

datatype DecisionPermission = PermissionAllow | PermissionDeny | PermissionCancelled

fun permission_of :: "AuthorizationRun \<Rightarrow> DecisionPermission" where
  "permission_of (Answered Allow) = PermissionAllow"
| "permission_of (Answered Deny) = PermissionDeny"
| "permission_of Threw = PermissionDeny"
| "permission_of AbortedFirst = PermissionCancelled"

definition authorizeDecision ::
    "('ctx ApprovalDecisionPermissionRequest \<Rightarrow> AuthorizationRun) \<Rightarrow> 'ctx DecisionSnapshot \<Rightarrow> DecisionPermission" where
  "authorizeDecision check input =
     permission_of (check \<lparr>permission_context = decide_context input,
       permission_conversationId = decide_conversationId input, permission_proposalId = target_proposalId input,
       permission_expectedVersion = target_expectedVersion input, permission_decision = decide_decision input,
       permission_groupId = snapshot_groupId input\<rparr>)"

section \<open>The event of a decision\<close>

definition decisionEventId :: "string \<Rightarrow> string" where
  "decisionEventId key = ''approval-decision:'' @ key"

definition nextRevision :: "int option \<Rightarrow> int" where
  "nextRevision r = revision_or_zero r + 1"

text \<open>The status change of the payload; a record in another status has no such event.\<close>

definition decision_change :: "ConversationApprovalProposalRecord \<Rightarrow> ApprovalProposalStatusChange option" where
  "decision_change p =
     (case proposal_status p of
        Confirmed \<Rightarrow> Some (ChangeConfirmed (decision_reason p))
      | Rejected \<Rightarrow> Some (ChangeRejected (decision_reason p))
      | Expired \<Rightarrow> Some (ChangeExpired (decision_reason p))
      | _ \<Rightarrow> None)"

definition decisionEvent ::
    "string \<Rightarrow> ConversationApprovalProposalRecord \<Rightarrow> string \<Rightarrow> int \<Rightarrow> ConversationEvent option" where
  "decisionEvent cid p eid r =
     map_option (\<lambda>ch. \<lparr>event_id = eid, event_conversation_id = cid, event_revision = r,
       occurred_at = updated_at p, actor = attributed_actor (latest_attribution p),
       event_source = attributed_source (latest_attribution p),
       mutation_id = (case attributed_source (latest_attribution p) of ClientSource _ _ \<Rightarrow> Some eid | _ \<Rightarrow> None),
       event_metadata = None, payload = ApprovalProposalStatusChanged (proposal_id p) (proposal_version p) ch\<rparr>)
     (decision_change p)"

definition eventMatchesDecision ::
    "host \<Rightarrow> ConversationEvent \<Rightarrow> string \<Rightarrow> ConversationApprovalProposalRecord \<Rightarrow> bool" where
  "eventMatchesDecision H ev cid p \<longleftrightarrow>
     (case decisionEvent cid p (event_id ev) (event_revision ev) of
        None \<Rightarrow> False
      | Some expected \<Rightarrow> stringify H (event_json ev) = stringify H (event_json expected))"

definition acceptedResult ::
    "jsnumber \<Rightarrow> ConversationApprovalProposalRecord \<Rightarrow> ConversationEvent \<Rightarrow> EventStatus \<Rightarrow> ApprovalDecisionResult" where
  "acceptedResult version p ev status = Accepted \<lparr>accepted_decision = proposal_status p,
     accepted_proposalId = proposal_id p, authorizedVersion = version,
     accepted_proposalVersion = proposal_version p, accepted_eventId = event_id ev,
     accepted_eventRevision = event_revision ev, accepted_eventStatus = status\<rparr>"

section \<open>Recording the decision\<close>

datatype EventReconciliation = Matching ConversationEvent | Conflicting | Absent | LogUnavailable

text \<open>The pages that are left, the number of the page, and the cursor behind the last one.\<close>

fun reconcile_pages ::
    "host \<Rightarrow> 's ConversationEventStore \<Rightarrow> (AwaitPoint \<Rightarrow> 's \<Rightarrow> 's) \<Rightarrow> ApprovalCoordinatorLimits \<Rightarrow>
     'ctx DecisionSnapshot \<Rightarrow> ConversationApprovalProposalRecord \<Rightarrow> string \<Rightarrow>
     nat \<Rightarrow> nat \<Rightarrow> string option \<Rightarrow> 's \<Rightarrow> EventReconciliation \<times> 's" where
  "reconcile_pages H store others limits input p eid 0 page k s = (LogUnavailable, s)"
| "reconcile_pages H store others limits input p eid (Suc n) page k s =
     (let s' = others (AtPage (target_proposalId input) page) s in
      case store_read store \<lparr>read_conversationId = decide_conversationId input,
             read_after = map_option AfterCursor k,
             read_limit = Some (Fin (of_nat (reconciliationPageSize limits)))\<rparr> s' of
        Inl _ \<Rightarrow> (LogUnavailable, s')
      | Inr result \<Rightarrow>
          (case List.find (\<lambda>e. event_id (event e) = eid) (read_entries result) of
             Some matched \<Rightarrow>
               (if eventMatchesDecision H (event matched) (decide_conversationId input) p
                then Matching (event matched) else Conflicting, s')
           | None \<Rightarrow>
               if \<not> hasMore result then (Absent, s')
               else (case nextCursor result of
                  None \<Rightarrow> (LogUnavailable, s')
                | Some k' \<Rightarrow>
                    reconcile_pages H store others limits input p eid n (Suc page) (Some k') s')))"

definition reconcileEvent ::
    "host \<Rightarrow> 's ConversationEventStore \<Rightarrow> (AwaitPoint \<Rightarrow> 's \<Rightarrow> 's) \<Rightarrow> ApprovalCoordinatorLimits \<Rightarrow>
     'ctx DecisionSnapshot \<Rightarrow> ConversationApprovalProposalRecord \<Rightarrow> string \<Rightarrow> 's \<Rightarrow>
     EventReconciliation \<times> 's" where
  "reconcileEvent H store others limits input p eid s =
     reconcile_pages H store others limits input p eid (maxReconciliationPages limits) 0 None s"

text \<open>What an identity conflict of the append comes to.\<close>

definition reconciled_result ::
    "'ctx DecisionSnapshot \<Rightarrow> ConversationApprovalProposalRecord \<Rightarrow> EventReconciliation \<Rightarrow>
     ApprovalDecisionResult" where
  "reconciled_result input p reconciliation =
     (case reconciliation of
        Matching ev \<Rightarrow> acceptedResult (target_expectedVersion input) p ev EventReconciled
      | Conflicting \<Rightarrow> DecisionConflict (target_proposalId input) EventIdentity
      | _ \<Rightarrow> PersistenceFailure (target_proposalId input))"

text \<open>The attempts that are left and the number of the attempt.\<close>

fun append_attempts ::
    "host \<Rightarrow> 's ConversationEventStore \<Rightarrow> (AwaitPoint \<Rightarrow> 's \<Rightarrow> 's) \<Rightarrow> ApprovalCoordinatorLimits \<Rightarrow>
     'ctx DecisionSnapshot \<Rightarrow> ConversationApprovalProposalRecord \<Rightarrow> nat \<Rightarrow> nat \<Rightarrow> 's \<Rightarrow>
     ApprovalDecisionResult \<times> 's" where
  "append_attempts H store others limits input p 0 k s = (PersistenceFailure (target_proposalId input), s)"
| "append_attempts H store others limits input p (Suc n) k s =
     (let pid = target_proposalId input; cid = decide_conversationId input;
          eid = decisionEventId (target_idempotencyKey input);
          s1 = others (AtLatest pid k) s; latest = store_latest store cid s1;
          s2 = others (AtAppend pid k) s1
      in case decisionEvent cid p eid (nextRevision latest) of
           None \<Rightarrow> (PersistenceFailure pid, s2)
         | Some ev \<Rightarrow>
             (case store_append store \<lparr>append_conversationId = cid, append_expectedRevision = latest,
                     append_events = [ev]\<rparr> s2 of
                Inr (s3, res) \<Rightarrow>
                  (case append_entries res of
                     [] \<Rightarrow> (PersistenceFailure pid, s3)
                   | e # _ \<Rightarrow> (acceptedResult (target_expectedVersion input) p (event e) EventAppended, s3))
              | Inl (Conflict d) \<Rightarrow>
                  if conflict_code d = RevisionConflict
                  then append_attempts H store others limits input p n (Suc k) s2
                  else if conflict_code d = IdempotencyConflict
                  then (let (reconciliation, s3) = reconcileEvent H store others limits input p eid s2
                        in (reconciled_result input p reconciliation, s3))
                  else (PersistenceFailure pid, s2)
              | Inl _ \<Rightarrow> (PersistenceFailure pid, s2)))"

definition appendDecisionEvent ::
    "host \<Rightarrow> 's ConversationEventStore \<Rightarrow> (AwaitPoint \<Rightarrow> 's \<Rightarrow> 's) \<Rightarrow> ApprovalCoordinatorLimits \<Rightarrow>
     'ctx DecisionSnapshot \<Rightarrow> ConversationApprovalProposalRecord \<Rightarrow> 's \<Rightarrow> ApprovalDecisionResult \<times> 's" where
  "appendDecisionEvent H store others limits input p s =
     append_attempts H store others limits input p (maxEventAppendAttempts limits) 0 s"

section \<open>Deciding one proposal\<close>

definition classifyCurrentProposal ::
    "('ctx, 'p) ApprovalProposalStore \<Rightarrow> 'ctx DecisionSnapshot \<Rightarrow> 'p \<Rightarrow> ApprovalDecisionResult \<times> 'p" where
  "classifyCurrentProposal store input p =
     (let pid = target_proposalId input; (out, p') = approvals_get store (decide_context input) pid p
      in (case out of
            Inl (Refused (ApprovalProposalStoreError PermissionDenied _)) \<Rightarrow> DecisionForbidden pid
          | Inl _ \<Rightarrow> PersistenceFailure pid
          | Inr None \<Rightarrow> DecisionNotFound pid
          | Inr (Some current) \<Rightarrow>
              if proposal_status current = Expired then DecisionExpired pid (proposal_version current)
              else if proposal_status current \<noteq> Pending
              then AlreadyDecided pid (proposal_version current) (proposal_status current)
              else DecisionConflict pid VersionMismatch, p'))"

definition mapTransitionFailure ::
    "('ctx, 'p) ApprovalProposalStore \<Rightarrow> (AwaitPoint \<Rightarrow> 'p \<Rightarrow> 'p) \<Rightarrow> ApprovalStoreFailure \<Rightarrow>
     'ctx DecisionSnapshot \<Rightarrow> 'p \<Rightarrow> ApprovalDecisionResult \<times> 'p" where
  "mapTransitionFailure store others failure input p =
     (let pid = target_proposalId input in
      case failure of
        Crashed \<Rightarrow> (PersistenceFailure pid, p)
      | Refused (ApprovalProposalStoreError why _) \<Rightarrow>
          (case why of
             PermissionDenied \<Rightarrow> (DecisionForbidden pid, p)
           | InvalidInput \<Rightarrow> (DecisionInvalid pid InvalidRequest, p)
           | NotFound \<Rightarrow> (DecisionNotFound pid, p)
           | KeyConflict \<Rightarrow> (DecisionConflict pid IdempotencyMismatch, p)
           | NotExpired \<Rightarrow> (DecisionInvalid pid NotYetExpired, p)
           | VersionConflict \<Rightarrow> classifyCurrentProposal store input (others (AtGet pid) p)
           | InvalidTransition \<Rightarrow> classifyCurrentProposal store input (others (AtGet pid) p)
           | CapacityExceeded \<Rightarrow> (PersistenceFailure pid, p)
           | StoreUnavailable \<Rightarrow> (PersistenceFailure pid, p)))"

definition decision_transition :: "'ctx DecisionSnapshot \<Rightarrow> 'ctx TransitionApprovalProposalInput" where
  "decision_transition input =
     \<lparr>transition_context = decide_context input, transition_proposalId = target_proposalId input,
      expectedVersion = target_expectedVersion input, transition_status = transitionStatus (decide_decision input),
      transition_attribution = decide_attribution input, decisionReason = decide_reason input, failureReason = None,
      transition_idempotencyKey = target_idempotencyKey input,
      transition_idempotencyFingerprint = target_idempotencyFingerprint input\<rparr>"

definition decideSnapshot ::
    "host \<Rightarrow> ('ctx, 'p, 's) ApprovalCoordinatorOptions \<Rightarrow> ('p, 's) Interference \<Rightarrow> 'ctx DecisionSnapshot \<Rightarrow>
     'p \<times> 's \<Rightarrow> ApprovalDecisionResult \<times> 'p \<times> 's" where
  "decideSnapshot H opts others input = (\<lambda>(p, s).
     let pid = target_proposalId input in
     if decide_aborted input (AtDecision pid) then (DecisionCancelled pid, p, s)
     else (case authorizeDecision (decide_authorize opts) input of
        PermissionCancelled \<Rightarrow> (DecisionCancelled pid, p, s)
      | PermissionDeny \<Rightarrow> (DecisionForbidden pid, p, s)
      | PermissionAllow \<Rightarrow>
          (case approvals_transition (proposalStore opts) (decision_transition input)
                  (others_approvals others (AtTransition pid) p) of
             (Inl failure, p') \<Rightarrow>
               (let (result, p'') = mapTransitionFailure (proposalStore opts) (others_approvals others) failure input p'
                in (result, p'', s))
           | (Inr transitioned, p') \<Rightarrow>
               if proposal_status transitioned \<in> {Executing, Executed, Failed}
               then (AlreadyDecided pid (proposal_version transitioned) (proposal_status transitioned), p', s)
               else (let (result, s') = appendDecisionEvent H (eventStore opts) (others_events others)
                           (coordinator_limits opts) input transitioned s
                     in (result, p', s')))))"

section \<open>Inputs\<close>

definition validReason :: "string option \<Rightarrow> bool" where
  "validReason r \<longleftrightarrow> (case r of None \<Rightarrow> True | Some t \<Rightarrow> t \<noteq> [] \<and> length t \<le> approvalReasonLength)"

definition isTarget :: "('a) ApprovalDecisionTarget_scheme \<Rightarrow> bool" where
  "isTarget t \<longleftrightarrow>
     bounded_identifier (target_proposalId t) \<and>
     isSafeInteger (target_expectedVersion t) \<and> 0 < int_of_number (target_expectedVersion t) \<and>
     isBoundedOpaqueValue (target_idempotencyKey t) (eventIdentifierLength - 18) \<and>
     isBoundedOpaqueValue (target_idempotencyFingerprint t) eventIdentifierLength"

definition isDecisionInput :: "'ctx DecideApprovalInput \<Rightarrow> bool" where
  "isDecisionInput input \<longleftrightarrow>
     bounded_identifier (decide_conversationId input) \<and> isTarget input \<and> validReason (decide_reason input)"

definition invalidSingleResult :: "'ctx DecideApprovalInput \<Rightarrow> ApprovalDecisionResult" where
  "invalidSingleResult input =
     DecisionInvalid (if bounded_identifier (target_proposalId input) then target_proposalId input
                      else ''invalid-proposal'') InvalidRequest"

definition snapshotDecision :: "'ctx DecideApprovalInput \<Rightarrow> 'ctx DecisionSnapshot option" where
  "snapshotDecision input =
     (if isDecisionInput input then Some (DecideApprovalInput.extend input \<lparr>snapshot_groupId = None\<rparr>) else None)"

definition decide ::
    "host \<Rightarrow> ('ctx, 'p, 's) ApprovalCoordinatorOptions \<Rightarrow> ('p, 's) Interference \<Rightarrow> 'ctx DecideApprovalInput \<Rightarrow>
     'p \<times> 's \<Rightarrow> ApprovalDecisionResult \<times> 'p \<times> 's" where
  "decide H opts others input world =
     (case snapshotDecision input of
        None \<Rightarrow> (invalidSingleResult input, world)
      | Some snapshot \<Rightarrow> decideSnapshot H opts others snapshot world)"

section \<open>Deciding a group\<close>

text \<open>The targets of a valid group, in the order of \<open>localeCompare\<close>.\<close>

definition snapshotGroup ::
    "(string \<Rightarrow> string \<Rightarrow> int) \<Rightarrow> 'ctx DecideApprovalGroupInput \<Rightarrow> ApprovalCoordinatorLimits \<Rightarrow>
     ApprovalGroupDecisionResult + ApprovalDecisionTarget list" where
  "snapshotGroup compare input limits =
     (let gid = (if bounded_identifier (group_groupId input) then group_groupId input else ''invalid-group'');
          targets = sort_by (\<lambda>left right. compare (target_proposalId left) (target_proposalId right))
                      (group_targets input)
      in if \<not> bounded_identifier (group_conversationId input) \<or> \<not> bounded_identifier (group_groupId input) \<or>
            \<not> validReason (group_reason input)
         then Inl (GroupInvalid gid GroupRequest)
         else if group_targets input = [] \<or> length (group_targets input) > maxGroupSize limits
         then Inl (GroupInvalid gid GroupBounds)
         else if \<not> list_all isTarget (group_targets input) then Inl (GroupInvalid gid GroupRequest)
         else if \<not> distinct (map target_proposalId targets) then Inl (GroupInvalid gid GroupRequest)
         else Inr targets)"

definition group_snapshot :: "'ctx DecideApprovalGroupInput \<Rightarrow> ApprovalDecisionTarget \<Rightarrow> 'ctx DecisionSnapshot" where
  "group_snapshot input t =
     \<lparr>target_proposalId = target_proposalId t, target_expectedVersion = target_expectedVersion t,
      target_idempotencyKey = target_idempotencyKey t,
      target_idempotencyFingerprint = target_idempotencyFingerprint t,
      decide_context = group_context input, decide_conversationId = group_conversationId input,
      decide_decision = group_decision input, decide_attribution = group_attribution input,
      decide_reason = group_reason input, decide_aborted = group_aborted input,
      snapshot_groupId = Some (group_groupId input)\<rparr>"

fun decide_targets ::
    "host \<Rightarrow> ('ctx, 'p, 's) ApprovalCoordinatorOptions \<Rightarrow> ('p, 's) Interference \<Rightarrow>
     'ctx DecideApprovalGroupInput \<Rightarrow> ApprovalDecisionTarget list \<Rightarrow> 'p \<times> 's \<Rightarrow>
     ApprovalDecisionResult list \<times> 'p \<times> 's" where
  "decide_targets H opts others input [] world = ([], world)"
| "decide_targets H opts others input (t # ts) world =
     (let (result, world') =
            (if group_aborted input (AtTarget (target_proposalId t))
             then (DecisionCancelled (target_proposalId t), world)
             else decideSnapshot H opts others (group_snapshot input t) world);
          (results, world'') = decide_targets H opts others input ts world'
      in (result # results, world''))"

fun is_accepted :: "ApprovalDecisionResult \<Rightarrow> bool" where
  "is_accepted (Accepted a) = True"
| "is_accepted r = False"

definition decideGroup ::
    "host \<Rightarrow> ('ctx, 'p, 's) ApprovalCoordinatorOptions \<Rightarrow> ('p, 's) Interference \<Rightarrow>
     'ctx DecideApprovalGroupInput \<Rightarrow> 'p \<times> 's \<Rightarrow> ApprovalGroupDecisionResult \<times> 'p \<times> 's" where
  "decideGroup H opts others input = (\<lambda>(p, s).
     (case snapshotGroup (target_localeCompare opts) input (coordinator_limits opts) of
        Inl result \<Rightarrow> (result, p, s)
      | Inr targets \<Rightarrow>
          (let gid = group_groupId input in
           if group_aborted input AtGroup then (GroupCancelled gid, p, s)
           else (case approvals_listGroup (proposalStore opts) (group_context input) gid p of
              (Inl (Refused (ApprovalProposalStoreError PermissionDenied _)), p') \<Rightarrow> (GroupForbidden gid, p', s)
            | (Inl _, p') \<Rightarrow> (GroupPersistenceFailure gid, p', s)
            | (Inr persisted, p') \<Rightarrow>
                if length persisted > maxGroupSize (coordinator_limits opts)
                then (GroupInvalid gid GroupBounds, p', s)
                else if sort (map proposal_id persisted) \<noteq> map target_proposalId targets
                then (GroupInvalid gid GroupMembership, p', s)
                else (let (results, world) = decide_targets H opts others input targets (p', s)
                      in ((if list_all is_accepted results then GroupCompleted else GroupPartial) gid results,
                          world))))))"

section \<open>The in-memory approval store as an adapter\<close>

text \<open>The clock is a sequence of readings; an operation reads it at most once.\<close>

definition ticking ::
    "(nat \<Rightarrow> string option) \<Rightarrow>
     (string option \<Rightarrow> InMemoryApprovalProposalStore \<Rightarrow> 'a store_result) \<Rightarrow>
     nat \<times> InMemoryApprovalProposalStore \<Rightarrow>
     (ApprovalStoreFailure + 'a) \<times> nat \<times> InMemoryApprovalProposalStore" where
  "ticking clock operation = (\<lambda>(n, S).
     case operation (clock n) S of
       (Inl e, S') \<Rightarrow> (Inl (Refused e), Suc n, S')
     | (Inr a, S') \<Rightarrow> (Inr a, Suc n, S'))"

definition memory_approvals ::
    "host \<Rightarrow> 'ctx ApprovalStoreOptions \<Rightarrow> (nat \<Rightarrow> string option) \<Rightarrow>
     ('ctx, nat \<times> InMemoryApprovalProposalStore) ApprovalProposalStore" where
  "memory_approvals H opts clock =
     \<lparr>approvals_transition = (\<lambda>input. ticking clock (\<lambda>now. transition H opts now input)),
      approvals_get = (\<lambda>ctx pid. ticking clock (\<lambda>now. get_proposal opts now ctx pid)),
      approvals_listGroup = (\<lambda>ctx gid. ticking clock (\<lambda>now. listGroup opts now ctx gid))\<rparr>"

end
