(* ===== verification/DecisionEvents.thy ===== *)
theory DecisionEvents
  imports ApprovalCoordinator
begin

text \<open>
  The event a decision writes: it is valid whatever the decision, so an append is never
  refused for its content. The key of a decision leaves room for the prefix of the event's
  identity, and what the approval store let through is what the event format asks for.
\<close>

section \<open>The event of a decision\<close>

lemma decisionEvent_fields:
  assumes "decisionEvent cid p eid r = Some ev"
  shows "event_id ev = eid" "event_conversation_id ev = cid" "event_revision ev = r"
  using assms by (auto simp: decisionEvent_def)

lemma decisionEvent_matches: "decisionEvent cid p eid r = Some ev \<Longrightarrow> eventMatchesDecision H ev cid p"
  by (simp add: eventMatchesDecision_def decisionEvent_fields)

text \<open>An event of the log that stands for the decision.\<close>

definition records_decision :: "host \<Rightarrow> string \<Rightarrow> ConversationApprovalProposalRecord \<Rightarrow> ConversationEvent \<Rightarrow> bool" where
  "records_decision H cid p ev \<longleftrightarrow>
     eventMatchesDecision H ev cid p \<or>
     (\<exists>eid r expected. decisionEvent cid p eid r = Some expected \<and>
        (jsonEqual (event_json ev) (event_json expected) \<or> sameClientMutation ev expected))"

section \<open>The event is valid\<close>

lemma identifier_accepted: "bounded_identifier s \<Longrightarrow> event_identifier (Some (JStr s)) path = Inr s"
  by (simp add: bounded_identifier_def event_identifier_def stringValue_def)

lemmas keys_simps = requiredKeys_def allowedKeys_def opt_field_def

lemma attribution_accepted:
  assumes "attribution_ok a"
  shows "validateActor (Some (actor_json (attributed_actor a))) path = Inr (attributed_actor a)"
    "validateSource (Some (source_event_json (attributed_source a))) path = Inr (attributed_source a)"
proof -
  show "validateActor (Some (actor_json (attributed_actor a))) path = Inr (attributed_actor a)"
    using assms
    by (cases "actor_id (attributed_actor a)")
      (simp_all add: attribution_ok_def validateActor_def actor_json_def event_record_def decode_simps
        optional_identifier_def optional_field_def identifier_accepted keys_simps)
  show "validateSource (Some (source_event_json (attributed_source a))) path = Inr (attributed_source a)"
  proof (cases "attributed_source a")
    case (ClientSource c d)
    with assms show ?thesis
      by (cases d) (simp_all add: attribution_ok_def validateSource_def event_record_def enumValue_def source_types_def
        optional_identifier_def optional_field_def identifier_accepted keys_simps)
  qed (simp_all add: validateSource_def event_record_def enumValue_def source_types_def keys_simps)
qed

lemma reason_accepted: 
  assumes "reason_ok r"
  shows "validateApprovalReason (Some (JStr r)) path = Inr r"
proof -
  have "\<not> isl (validateApprovalReason (Some (JStr r)) ''$reason'')"
    using assms by (simp add: reason_ok_def isConversationApprovalReason_def)
  then show ?thesis
    by (simp add: validateApprovalReason_def stringValue_def fail_def split: if_splits)
qed

lemma change_accepted:
  assumes "bounded_identifier pid" "1 \<le> version" "safe_int version"
    and "change = ChangeConfirmed r \<or> change = ChangeRejected r \<or> change = ChangeExpired r"
    and "\<forall>t. r = Some t \<longrightarrow> reason_ok t"
  shows "validatePayload H (Some (payload_json (ApprovalProposalStatusChanged pid version change))) path =
    Inr (ApprovalProposalStatusChanged pid version change)"
proof -
  have int: "positiveSafeInteger (Some (jint version)) q = Inr version" for q
    using assms(2,3) by (simp add: positiveSafeInteger_def safe_integer_from_def jint_def)
  note simps = validatePayload_type decode_simps parse_proposal_changed_def int keys_simps
    enumValue_def transition_statuses_def optional_field_def identifier_accepted [OF assms(1)]
  from assms(4) show ?thesis
    using assms(5) by (elim disjE; cases r) (simp_all add: simps reason_accepted)
qed

text \<open>A record that came out of a decision, in a status the log has an event for.\<close>

definition decision_ok :: "ConversationApprovalProposalRecord \<Rightarrow> bool" where
  "decision_ok p \<longleftrightarrow>
     bounded_identifier (proposal_id p) \<and> 1 \<le> proposal_version p \<and> safe_int (proposal_version p) \<and>
     isTimestamp (updated_at p) \<and> attribution_ok (latest_attribution p) \<and>
     (\<forall>t. decision_reason p = Some t \<longrightarrow> reason_ok t) \<and>
     actor_type (attributed_actor (latest_attribution p)) \<in> {UserActor, SystemActor} \<and>
     (proposal_status p = Expired \<longrightarrow> actor_type (attributed_actor (latest_attribution p)) = SystemActor)"

lemma timestamp_accepted: "isTimestamp t \<Longrightarrow> validateTimestamp (Some (JStr t)) path = Inr t"
  by (simp add: validateTimestamp_def stringValue_def isTimestamp_def)

lemma decision_event_accepted:
  assumes p: "decision_ok p" and ev: "decisionEvent cid p eid r = Some ev"
    and ids: "bounded_identifier cid" "bounded_identifier eid" and r: "1 \<le> r" "safe_int r"
  shows "accepted_event H ev"
proof -
  obtain ch where ch: "decision_change p = Some ch" using ev by (auto simp: decisionEvent_def)
  then have change: "ch = ChangeConfirmed (decision_reason p) \<or> ch = ChangeRejected (decision_reason p) \<or>
      ch = ChangeExpired (decision_reason p)" and status: "change_status ch = proposal_status p"
    "proposal_status p \<in> {Confirmed, Rejected, Expired}"
    by (auto simp: decision_change_def split: ConversationApprovalProposalStatus.splits)
  let ?a = "latest_attribution p"
  have e: "ev = \<lparr>event_id = eid, event_conversation_id = cid, event_revision = r,
      occurred_at = updated_at p, actor = attributed_actor ?a, event_source = attributed_source ?a,
      mutation_id = (case attributed_source ?a of ClientSource _ _ \<Rightarrow> Some eid | _ \<Rightarrow> None),
      event_metadata = None, payload = ApprovalProposalStatusChanged (proposal_id p) (proposal_version p) ch\<rparr>"
    using ev ch by (simp add: decisionEvent_def)
  have parts: "validateRevision (Some (jint r)) q = Inr r"
    "validateTimestamp (Some (JStr (updated_at p))) q = Inr (updated_at p)"
    "validateActor (Some (actor_json (attributed_actor ?a))) q = Inr (attributed_actor ?a)"
    "validateSource (Some (source_event_json (attributed_source ?a))) q = Inr (attributed_source ?a)"
    "validatePayload H (Some (payload_json (ApprovalProposalStatusChanged (proposal_id p) (proposal_version p) ch))) q =
       Inr (ApprovalProposalStatusChanged (proposal_id p) (proposal_version p) ch)" for q
    using p change_accepted [OF _ _ _ change, of "proposal_id p" "proposal_version p" H q] r
    by (simp_all add: decision_ok_def timestamp_accepted attribution_accepted validateRevision_def
        safe_integer_from_def jint_def)
  have actor: "check_actor ev (ApprovalProposalStatusChanged (proposal_id p) (proposal_version p) ch) = Inr ()"
    using p status by (auto simp: e decision_ok_def)
  show ?thesis
    using parts actor ids
    by (cases "attributed_source ?a")
      (simp_all add: accepted_event_def parseConversationEvent_def event_json_def event_record_def e Let_def
        optional_field_def identifier_accepted keys_simps del: check_actor.simps payload_json.simps)
qed

end
