(* ===== verification/ApprovalDecisions.thy ===== *)
theory ApprovalDecisions
  imports DecisionEvents Replay "HOL-Library.Sublist"
begin

text \<open>
  What a decision promises: an accepted decision is in the log, the log and the approval
  store take the same step, a retry finds the event it recorded, and a decision is lost
  only when every attempt was overtaken.
\<close>

section \<open>Pages of the log\<close>

abbreviation page_limit :: "ApprovalCoordinatorLimits \<Rightarrow> jsnumber option" where
  "page_limit limits \<equiv> Some (Fin (of_nat (reconciliationPageSize limits)))"

lemma page_limit_nat [simp]: "limit_nat (page_limit limits) = Some (reconciliationPageSize limits)"
  by (simp add: limit_nat_def)

lemma page_limit_pos: "positive_limit (page_limit limits) \<Longrightarrow> 0 < reconciliationPageSize limits"
  by (simp add: positive_limit_def)

lemma bounded_page:
  assumes "k < length all" "0 < n"
  defines "m \<equiv> min n (length all - k)"
  shows "read_entries (page_of all k (Some n)) = take m (drop k all)"
    "hasMore (page_of all k (Some n)) \<longleftrightarrow> k + m < length all"
    "nextCursor (page_of all k (Some n)) = Some (cursor (all ! (k + m - 1)))"
proof -
  show sel: "read_entries (page_of all k (Some n)) = take m (drop k all)"
    by (simp add: page_of_def m_def Let_def min_def)
  show "hasMore (page_of all k (Some n)) \<longleftrightarrow> k + m < length all"
    using assms by (auto simp: page_of_def Let_def min_def)
  have "k + m \<le> length all" "0 < m" using assms(1,2) by (auto simp: m_def)
  then have "take m (drop k all) \<noteq> []" "last (take m (drop k all)) = all ! (k + m - 1)"
    by (auto simp: last_conv_nth intro!: arg_cong [of _ _ "nth all"])
  then show "nextCursor (page_of all k (Some n)) = Some (cursor (all ! (k + m - 1)))"
    unfolding sel [symmetric] by (simp add: page_of_def Let_def)
qed

lemma find_unique:
  assumes "distinct (map f xs)" "i < length xs" "f (xs ! i) = v"
  shows "List.find (\<lambda>x. f x = v) xs = Some (xs ! i)"
proof -
  have "f (xs ! j) \<noteq> v" if "j < i" for j
    using assms that nth_eq_iff_index_eq [OF assms(1), of j i] by auto
  with assms(2,3) show ?thesis by (auto simp: find_Some_iff intro!: exI [of _ i])
qed

section \<open>Recording a decision\<close>

text \<open>
  What other clients may do to a store while the coordinator awaits: they keep it
  well-formed and only extend its logs.
\<close>

definition only_append :: "('s \<Rightarrow> bool) \<Rightarrow> ('s \<Rightarrow> string \<Rightarrow> StoredConversationEvent list) \<Rightarrow> ('s \<Rightarrow> 's) \<Rightarrow> bool" where
  "only_append ok stored f \<longleftrightarrow> (\<forall>s. ok s \<longrightarrow> ok (f s) \<and> (\<forall>c. prefix (stored s c) (stored (f s) c)))"

lemma only_appendD:
  assumes "only_append ok stored f" "ok s"
  shows "ok (f s)" "prefix (stored s c) (stored (f s) c)"
  using assms unfolding only_append_def by blast+

text \<open>No event of any log has this identity, or it as its mutation.\<close>

definition free_identity :: "string \<Rightarrow> (string \<Rightarrow> StoredConversationEvent list) \<Rightarrow> bool" where
  "free_identity eid logs \<longleftrightarrow>
     (\<forall>c. \<forall>e\<in>set (logs c). event_id (event e) \<noteq> eid \<and> mutation_id (event e) \<noteq> Some eid)"

context retrying_writer
begin

text \<open>The cursor behind the first \<open>m\<close> entries.\<close>

definition behind :: "'a \<Rightarrow> string \<Rightarrow> nat \<Rightarrow> string option \<Rightarrow> bool" where
  "behind s c m k \<longleftrightarrow>
     m \<le> length (stored s c) \<and>
     (case k of None \<Rightarrow> m = 0 | Some x \<Rightarrow> 0 < m \<and> x = cursor (stored s c ! (m - 1)))"

lemma behind_extends:
  assumes "behind s c m k" "prefix (stored s c) (stored s' c)"
  shows "behind s' c m k"
  using assms by (auto simp: behind_def prefix_def nth_append split: option.splits)

lemma read_behind:
  assumes "store_ok s" "positive_limit l" "behind s c m k"
  shows "store_read adapter \<lparr>read_conversationId = c, read_after = map_option AfterCursor k, read_limit = l\<rparr> s =
    Inr (page_of (stored s c) m (limit_nat l))"
  using assms(3) read_start [OF assms(1,2), of c] read_cursor [OF assms(1,2), of "m - 1" c]
  by (auto simp: behind_def split: option.splits)

lemma page_keys_distinct:
  assumes "store_ok s"
  shows "distinct (map (\<lambda>e. event_id (event e)) (take m (drop k (stored s c))))"
proof -
  have "distinct (map event_id (map event (stored s c)))" by (rule stored_event_ids [OF assms])
  then have "distinct (take m (drop k (map (\<lambda>e. event_id (event e)) (stored s c))))"
    by (simp add: comp_def)
  then show ?thesis by (simp add: take_map drop_map)
qed

lemma not_on_page:
  assumes "store_ok s" "j < length (stored s c)" "event_id (event (stored s c ! j)) = eid" "k + m \<le> j"
  shows "List.find (\<lambda>e. event_id (event e) = eid) (take m (drop k (stored s c))) = None"
proof -
  have d: "distinct (map event_id (map event (stored s c)))" by (rule stored_event_ids [OF assms(1)])
  have "event_id (event e) \<noteq> eid" if e: "e \<in> set (take m (drop k (stored s c)))" for e
  proof -
    from e obtain i where i: "i < m" "k + i < length (stored s c)" "e = stored s c ! (k + i)"
      by (auto simp: in_set_conv_nth)
    with d assms show ?thesis
      using nth_eq_iff_index_eq [OF d, of "k + i" j] by auto
  qed
  then show ?thesis by (auto simp: find_None_iff)
qed

text \<open>An event within the pages that are left is found, whatever is appended meanwhile.\<close>

lemma reconcile_finds:
  assumes ok: "store_ok s" and l: "positive_limit (page_limit limits)"
    and others: "\<And>pt. only_append store_ok stored (others pt)"
    and c: "decide_conversationId input = c"
    and "behind s c m k" "m \<le> j" "j < length (stored s c)" "event_id (event (stored s c ! j)) = eid"
    and "j < m + n * reconciliationPageSize limits"
  shows "\<exists>s'. reconcile_pages H adapter others limits input p eid n page k s =
      (if eventMatchesDecision H (event (stored s c ! j)) c p
       then Matching (event (stored s c ! j)) else Conflicting, s') \<and>
    store_ok s' \<and> prefix (stored s c) (stored s' c)"
  using ok assms(5-)
proof (induction n arbitrary: s m k page)
  case (Suc n)
  let ?s = "others (AtPage (target_proposalId input) page) s" and ?L = "reconciliationPageSize limits"
  have new: "prefix (stored s c) (stored ?s c)" using only_appendD(2) [OF others Suc.prems(1)] .
  have ok': "store_ok ?s" using only_appendD(1) [OF others Suc.prems(1)] .
  have b: "behind ?s c m k" using behind_extends [OF Suc.prems(2) new] .
  let ?all = "stored ?s c"
  define w where "w = min ?L (length ?all - m)"
  have j: "j < length ?all" "?all ! j = stored s c ! j" using Suc.prems(4) new by (auto simp: prefix_def nth_append)
  have eid: "event_id (event (?all ! j)) = eid" using Suc.prems(5) j by simp
  have page: "read_entries (page_of ?all m (Some ?L)) = take w (drop m ?all)"
    "hasMore (page_of ?all m (Some ?L)) \<longleftrightarrow> m + w < length ?all"
    "nextCursor (page_of ?all m (Some ?L)) = Some (cursor (?all ! (m + w - 1)))"
    using bounded_page [of m ?all ?L] Suc.prems(3) j(1) page_limit_pos [OF l] unfolding w_def by auto
  note run = reconcile_pages.simps(2) [of H adapter others limits input p eid n page k s]
  show ?case
  proof (cases "j < m + w")
    case True
    then have at: "take w (drop m ?all) ! (j - m) = ?all ! j" "j - m < length (take w (drop m ?all))"
      using Suc.prems(3) j(1) by auto
    have "List.find (\<lambda>e. event_id (event e) = eid) (take w (drop m ?all)) = Some (?all ! j)"
      using find_unique [OF page_keys_distinct [OF ok', of w m c] at(2)] at(1) eid by simp
    with run have "reconcile_pages H adapter others limits input p eid (Suc n) page k s =
        (if eventMatchesDecision H (event (?all ! j)) c p then Matching (event (?all ! j)) else Conflicting, ?s)"
      by (simp add: Let_def c read_behind [OF ok' l b] page)
    then show ?thesis unfolding j(2) using new ok' by blast
  next
    case False
    then have w: "w = ?L" using j(1) Suc.prems(3) by (auto simp: w_def)
    have "List.find (\<lambda>e. event_id (event e) = eid) (take w (drop m ?all)) = None"
      using not_on_page [OF ok' j(1) eid] False by simp
    with run have step: "reconcile_pages H adapter others limits input p eid (Suc n) page k s =
        reconcile_pages H adapter others limits input p eid n (Suc page) (Some (cursor (?all ! (m + w - 1)))) ?s"
      using False j(1) by (simp add: Let_def c read_behind [OF ok' l b] page)
    have further: "behind ?s c (m + w) (Some (cursor (?all ! (m + w - 1))))" "m + w \<le> j" "j < m + w + n * ?L"
      using False j(1) w page_limit_pos [OF l] Suc.prems(6) by (simp_all add: behind_def)
    obtain s' where "reconcile_pages H adapter others limits input p eid n (Suc page)
          (Some (cursor (?all ! (m + w - 1)))) ?s =
        (if eventMatchesDecision H (event (?all ! j)) c p then Matching (event (?all ! j)) else Conflicting, s')"
      "store_ok s'" "prefix ?all (stored s' c)"
      using Suc.IH [OF ok' further(1,2) j(1) eid further(3), of "Suc page"] by blast
    then show ?thesis unfolding step j(2) [symmetric] using prefix_order.trans [OF new] by blast
  qed
qed simp

text \<open>A match is an event of the log with that identity.\<close>

lemma reconcile_matching:
  assumes "store_ok s" "positive_limit (page_limit limits)"
    and others: "\<And>pt. only_append store_ok stored (others pt)"
    and "behind s (decide_conversationId input) m k"
    and "reconcile_pages H adapter others limits input p eid n page k s = (out, s')"
  shows "store_ok s' \<and> prefix (stored s (decide_conversationId input)) (stored s' (decide_conversationId input)) \<and>
    (\<forall>ev. out = Matching ev \<longrightarrow> ev \<in> set (log s' (decide_conversationId input)) \<and> event_id ev = eid \<and>
      eventMatchesDecision H ev (decide_conversationId input) p)"
  using assms(1,4-)
proof (induction n arbitrary: s m k page)
  case (Suc n)
  let ?c = "decide_conversationId input"
  let ?s = "others (AtPage (target_proposalId input) page) s"
  have new: "prefix (stored s ?c) (stored ?s ?c)" using only_appendD(2) [OF others Suc.prems(1)] .
  have ok': "store_ok ?s" using only_appendD(1) [OF others Suc.prems(1)] .
  have b: "behind ?s ?c m k" using behind_extends [OF Suc.prems(2) new] .
  let ?page = "page_of (stored ?s ?c) m (limit_nat (page_limit limits))"
  have m: "m \<le> length (stored ?s ?c)" using b by (simp add: behind_def)
  obtain w where w: "m + w \<le> length (stored ?s ?c)" "read_entries ?page = take w (drop m (stored ?s ?c))"
    "hasMore ?page \<longleftrightarrow> m + w < length (stored ?s ?c)" "m + w < length (stored ?s ?c) \<Longrightarrow> 0 < w"
    "nextCursor ?page = (if w = 0 then None else Some (cursor (stored ?s ?c ! (m + w - 1))))"
    by (rule page_shape [OF m assms(2)]) (rule that)
  note run = Suc.prems(3) [unfolded reconcile_pages.simps Let_def read_behind [OF ok' assms(2) b] sum.case]
  show ?case
  proof (cases "List.find (\<lambda>e. event_id (event e) = eid) (read_entries ?page)")
    case (Some e)
    then have "e \<in> set (read_entries ?page)" "event_id (event e) = eid"
      by (auto simp: find_Some_iff)
    then have "e \<in> set (stored ?s ?c)" "event_id (event e) = eid"
      unfolding w(2) by (auto dest: in_set_takeD in_set_dropD)
    with run Some new ok' show ?thesis by (auto split: if_splits)
  next
    case None
    show ?thesis
    proof (cases "hasMore ?page")
      case True
      with w have pos: "0 < w" by simp
      with run None True w(5) have rest: "reconcile_pages H adapter others limits input p eid n (Suc page)
          (Some (cursor (stored ?s ?c ! (m + w - 1)))) ?s = (out, s')" by simp
      have "behind ?s ?c (m + w) (Some (cursor (stored ?s ?c ! (m + w - 1))))"
        using pos w(1) by (simp add: behind_def)
      from Suc.IH [OF ok' this rest] prefix_order.trans [OF new] show ?thesis by blast
    next
      case False
      with run None new ok' show ?thesis by auto
    qed
  qed
qed auto

text \<open>An accepted decision is an event of the log that stands for it.\<close>

lemma append_entry_logged:
  assumes ok: "store_ok s" and ev: "decisionEvent c p eid r = Some ev"
    and app: "store_append adapter \<lparr>append_conversationId = c, append_expectedRevision = l, append_events = [ev]\<rparr> s =
      Inr (s', res)" and e: "append_entries res = e # es"
  shows "store_ok s'" "prefix (stored s c) (stored s' c)" "event e \<in> set (log s' c)"
    "records_decision H c p (event e)"
proof -
  note law = append_law [OF ok app]
  show "store_ok s'" using law by (simp split: if_splits)
  show "prefix (stored s c) (stored s' c)" using law by (auto split: if_splits)
  show "event e \<in> set (log s' c)" using law e by (auto split: if_splits)
  show "records_decision H c p (event e)"
  proof (cases "append_status res = Appended")
    case True
    with law e have "event e = ev" by simp
    with decisionEvent_matches [OF ev] show ?thesis by (simp add: records_decision_def)
  next
    case False
    with law e ev show ?thesis unfolding records_decision_def by auto
  qed
qed

lemma append_attempts_accepted:
  assumes "store_ok s" and l: "positive_limit (page_limit limits)"
    and others: "\<And>pt. only_append store_ok stored (others pt)"
    and "append_attempts H adapter others limits input p n k s = (out, s')"
  shows "store_ok s' \<and> prefix (stored s (decide_conversationId input)) (stored s' (decide_conversationId input)) \<and>
    (0 < n \<longrightarrow> prefix (stored (others (AtLatest (target_proposalId input) k) s) (decide_conversationId input))
       (stored s' (decide_conversationId input))) \<and>
    (\<forall>a. out = Accepted a \<longrightarrow>
      (\<exists>ev\<in>set (log s' (decide_conversationId input)). records_decision H (decide_conversationId input) p ev \<and>
        out = acceptedResult (target_expectedVersion input) p ev (accepted_eventStatus a)))"
  using assms(1,4)
proof (induction n arbitrary: s k)
  case (Suc n)
  let ?c = "decide_conversationId input" and ?pid = "target_proposalId input"
  let ?eid = "decisionEventId (target_idempotencyKey input)"
  let ?s1 = "others (AtLatest ?pid k) s"
  let ?s2 = "others (AtAppend ?pid k) ?s1"
  let ?latest = "store_latest adapter ?c ?s1"
  have ok2: "store_ok ?s2" using Suc.prems(1) only_appendD(1) [OF others] by blast
  have new: "prefix (stored s ?c) (stored ?s1 ?c)" "prefix (stored ?s1 ?c) (stored ?s2 ?c)"
    using Suc.prems(1) only_appendD [OF others] by blast+
  have "prefix (stored s ?c) xs \<and> prefix (stored ?s1 ?c) xs" if "prefix (stored ?s2 ?c) xs" for xs
    using new that by (meson prefix_order.trans)
  note grows = this
  show ?case
  proof (cases "decisionEvent ?c p ?eid (nextRevision ?latest)")
    case None
    with Suc.prems(2) ok2 grows [OF prefix_order.refl] show ?thesis by (auto simp: Let_def)
  next
    case ev: (Some ev)
    let ?input = "\<lparr>append_conversationId = ?c, append_expectedRevision = ?latest, append_events = [ev]\<rparr>"
    note run = Suc.prems(2) [unfolded append_attempts.simps Let_def ev option.case]
    show ?thesis
    proof (cases "store_append adapter ?input ?s2")
      case (Inr r)
      obtain s3 res where r: "r = (s3, res)" by fastforce
      note app = Inr [unfolded r]
      note logged = append_entry_logged [OF ok2 ev app]
      show ?thesis
      proof (cases "append_entries res")
        case Nil
        with run app have out: "out = PersistenceFailure ?pid" "s' = s3" by auto
        have "store_ok s3" "prefix (stored ?s2 ?c) (stored s3 ?c)"
          using append_law [OF ok2 app] by (auto split: if_splits)
        with out grows show ?thesis by simp
      next
        case (Cons e es)
        with run app have out: "out = acceptedResult (target_expectedVersion input) p (event e) EventAppended" "s' = s3"
          by auto
        with logged [OF Cons] grows [OF logged(2) [OF Cons]] show ?thesis by (auto simp: acceptedResult_def)
      qed
    next
      case (Inl err)
      show ?thesis
      proof (cases "\<exists>d. err = Conflict d \<and> conflict_code d = RevisionConflict")
        case True
        with run Inl have "append_attempts H adapter others limits input p n (Suc k) ?s2 = (out, s')" by auto
        from Suc.IH [OF ok2 this] grows show ?thesis by simp
      next
        case revision: False
        show ?thesis
        proof (cases "\<exists>d. err = Conflict d \<and> conflict_code d = IdempotencyConflict")
          case True
          obtain rec s3 where rec: "reconcileEvent H adapter others limits input p ?eid ?s2 = (rec, s3)" by fastforce
          with run Inl True have out: "out = reconciled_result input p rec" "s' = s3" by auto
          have "behind ?s2 ?c 0 None" by (simp add: behind_def)
          note found = reconcile_matching [OF ok2 l others this rec [unfolded reconcileEvent_def]]
          have "prefix (stored ?s2 ?c) (stored s3 ?c)" using found by blast
          from found grows [OF this] show ?thesis unfolding out
            by (cases rec) (auto simp: reconciled_result_def acceptedResult_def records_decision_def)
        next
          case False
          with run Inl revision ok2 grows [OF prefix_order.refl] show ?thesis by (cases err) (auto split: if_splits)
        qed
      qed
    qed
  qed
qed auto

text \<open>
  A decision whose event is valid and whose identity is free is recorded by the first
  attempt that is not overtaken; the attempts before it change nothing.
\<close>

lemma free_not_taken:
  "free_identity eid (stored s) \<Longrightarrow> decisionEvent c p eid r = Some ev \<Longrightarrow> \<not> identity_taken (stored s) ev"
  by (auto simp: free_identity_def identity_taken_def decisionEvent_def split: ConversationEventSource.splits)

lemma append_entries_nonempty:
  assumes "store_ok s" "store_append adapter \<lparr>append_conversationId = c, append_expectedRevision = r, append_events = [ev]\<rparr> s =
      Inr (s', res)"
  obtains e es where "append_entries res = e # es"
  using append_law [OF assms] by (cases "append_entries res") (auto split: if_splits)

lemma append_free:
  assumes ok: "store_ok s" and ev: "decisionEvent c p eid (nextRevision (store_latest adapter c s)) = Some ev"
    and valid: "accepted_event H ev" and free: "free_identity eid (stored s)"
  obtains s' res e where "store_append adapter \<lparr>append_conversationId = c,
      append_expectedRevision = store_latest adapter c s, append_events = [ev]\<rparr> s = Inr (s', res)"
    "append_entries res = [e]" "event e = ev" "stored s' = (stored s)(c := stored s c @ [e])" "store_ok s'"
proof -
  let ?input = "\<lparr>append_conversationId = c, append_expectedRevision = store_latest adapter c s, append_events = [ev]\<rparr>"
  from single_append [OF ok valid decisionEvent_fields(2) [OF ev], of "store_latest adapter c s"]
  obtain s' res where app: "store_append adapter ?input s = Inr (s', res)"
    using free_not_taken [OF free ev] decisionEvent_fields(3) [OF ev]
    by (auto simp: nextRevision_def split: sum.splits EventStoreError.splits)
  note law = append_law [OF ok app]
  obtain e es where e: "append_entries res = e # es" using append_entries_nonempty [OF ok app] .
  have "append_status res = Appended"
  proof (rule ccontr)
    assume "append_status res \<noteq> Appended"
    with law e have "e \<in> set (stored s c)"
      "jsonEqual (event_json (event e)) (event_json ev) \<or> sameClientMutation (event e) ev" by auto
    then have "identity_taken (stored s) ev"
      using jsonEqual_event_id [of "event e" ev] by (auto simp: identity_taken_def sameClientMutation_def)
    with free_not_taken [OF free ev] show False by blast
  qed
  with law e show thesis by (auto intro!: that [OF app])
qed

lemma append_attempts_recorded:
  assumes "store_ok s" and l: "positive_limit (page_limit limits)"
    and others: "\<And>pt. only_append store_ok stored (others pt)"
    and free: "\<And>pt s. store_ok s \<Longrightarrow> free_identity eid (stored s) \<Longrightarrow> free_identity eid (stored (others pt s))"
    and eid: "eid = decisionEventId (target_idempotencyKey input)" and c: "decide_conversationId input = c"
    and p: "decision_ok p" "is_decision (proposal_status p)"
    and ids: "bounded_identifier c" "bounded_identifier eid"
    and quiet: "\<And>s. store_ok s \<Longrightarrow>
      store_latest adapter c (others (AtAppend (target_proposalId input) (k + i)) s) = store_latest adapter c s"
    and "i < n" "free_identity eid (stored s)"
    and "append_attempts H adapter others limits input p n k s = (out, s')"
  shows "(\<exists>a. out = Accepted a) \<or> \<not> safe_int (int (length (stored s' c)) + 1)"
  using assms(1,11-)
proof (induction n arbitrary: s k i)
  case (Suc n)
  let ?pid = "target_proposalId input"
  let ?s1 = "others (AtLatest ?pid k) s"
  let ?s2 = "others (AtAppend ?pid k) ?s1"
  let ?latest = "store_latest adapter c ?s1"
  have ok: "store_ok ?s1" "store_ok ?s2" using Suc.prems(1) only_appendD(1) [OF others] by blast+
  have free2: "free_identity eid (stored ?s2)" using Suc.prems(1,4) free ok by blast
  obtain ev where ev: "decisionEvent c p eid (nextRevision ?latest) = Some ev"
    using p(2) by (auto simp: decisionEvent_def decision_change_def is_decision_def
        split: ConversationApprovalProposalStatus.splits)
  have rev: "nextRevision ?latest = int (length (stored ?s1 c)) + 1"
    by (simp add: latest_law [OF ok(1)] nextRevision_def revision_or_zero_def)
  let ?input = "\<lparr>append_conversationId = c, append_expectedRevision = ?latest, append_events = [ev]\<rparr>"
  note run = Suc.prems(5) [unfolded append_attempts.simps Let_def c eid [symmetric] ev option.case]
  show ?case
  proof (cases "safe_int (nextRevision ?latest)")
    case False
    have "length (stored ?s1 c) \<le> length (stored s' c)"
      using append_attempts_accepted [OF Suc.prems(1) l others Suc.prems(5)] by (simp add: c prefix_length_le)
    with False rev show ?thesis by (simp add: safe_int_def max_safe_integer_def)
  next
    case True
    have "accepted_event H ev"
      using decision_event_accepted [OF p(1) ev ids] rev True by simp
    from single_append [OF ok(2) this decisionEvent_fields(2) [OF ev], of ?latest] decisionEvent_fields(3) [OF ev]
    have law: "case store_append adapter ?input ?s2 of Inr _ \<Rightarrow> True
       | Inl (Conflict d) \<Rightarrow> conflict_code d = RevisionConflict \<and> ?latest \<noteq> store_latest adapter c ?s2
       | Inl _ \<Rightarrow> False"
      using free_not_taken [OF free2 ev]
      by (auto simp: nextRevision_def split: sum.splits EventStoreError.splits)
    show ?thesis
    proof (cases "store_append adapter ?input ?s2")
      case (Inr r)
      obtain s3 res where r: "r = (s3, res)" by fastforce
      obtain e es where "append_entries res = e # es" using append_entries_nonempty [OF ok(2) Inr [unfolded r]] .
      with run Inr r show ?thesis by (auto simp: acceptedResult_def)
    next
      case (Inl err)
      with law obtain d where d: "err = Conflict d" "conflict_code d = RevisionConflict"
        "?latest \<noteq> store_latest adapter c ?s2" by (auto split: EventStoreError.splits)
      from d(3) Suc.prems(2) [OF ok(1)] obtain i' where i: "i = Suc i'" by (cases i) auto
      from run Inl d have "append_attempts H adapter others limits input p n (Suc k) ?s2 = (out, s')" by simp
      from Suc.IH [OF ok(2) _ _ free2 this, of i'] Suc.prems(2,3) i show ?thesis by simp
    qed
  qed
qed simp

text \<open>
  A decision that was recorded: the next attempt finds its event within the pages it reads
  and reports it as it stands.
\<close>

lemma append_attempts_again:
  assumes ok: "store_ok s" and l: "positive_limit (page_limit limits)"
    and others: "\<And>pt. only_append store_ok stored (others pt)"
    and eid: "eid = decisionEventId (target_idempotencyKey input)" and c: "decide_conversationId input = c"
    and p: "decision_ok p" "is_decision (proposal_status p)"
    and ids: "bounded_identifier c" "bounded_identifier eid"
    and j: "j < length (stored s c)" "event_id (event (stored s c ! j)) = eid"
      "j < maxReconciliationPages limits * reconciliationPageSize limits"
    and matches: "eventMatchesDecision H (event (stored s c ! j)) c p"
    and run: "append_attempts H adapter others limits input p (Suc n) k s = (out, s')"
    and safe: "safe_int (int (length (stored s' c)) + 1)"
  shows "out = acceptedResult (target_expectedVersion input) p (event (stored s c ! j)) EventReconciled"
proof -
  let ?pid = "target_proposalId input"
  let ?s1 = "others (AtLatest ?pid k) s"
  let ?s2 = "others (AtAppend ?pid k) ?s1"
  let ?latest = "store_latest adapter c ?s1"
  have ok': "store_ok ?s1" "store_ok ?s2" using ok only_appendD(1) [OF others] by blast+
  have grow: "prefix (stored s c) (stored ?s1 c)" "prefix (stored ?s1 c) (stored ?s2 c)"
    using ok ok' only_appendD(2) [OF others] by blast+
  then have at: "j < length (stored ?s1 c)" "j < length (stored ?s2 c)" "stored ?s2 c ! j = stored s c ! j"
    using j(1) by (auto simp: prefix_def nth_append)
  have rev: "nextRevision ?latest = int (length (stored ?s1 c)) + 1"
    by (simp add: latest_law [OF ok'(1)] nextRevision_def revision_or_zero_def)
  have "length (stored ?s1 c) \<le> length (stored s' c)"
    using append_attempts_accepted [OF ok l others run] by (simp add: c prefix_length_le)
  with safe rev have safe': "safe_int (nextRevision ?latest)" by (simp add: safe_int_def max_safe_integer_def)
  obtain ev where ev: "decisionEvent c p eid (nextRevision ?latest) = Some ev"
    using p(2) by (auto simp: decisionEvent_def decision_change_def is_decision_def
        split: ConversationApprovalProposalStatus.splits)
  have valid: "accepted_event H ev" using decision_event_accepted [OF p(1) ev ids] rev safe' by simp
  have "event_revision (event (stored ?s2 c ! j)) = 1 + int j"
    using log_from_nth [OF stored_log [OF ok'(2), of c], of j] at(2) by simp
  then have old: "event_revision (event (stored ?s2 c ! j)) \<noteq> event_revision ev"
    using at(1) rev decisionEvent_fields(3) [OF ev] by simp
  obtain d where d: "store_append adapter \<lparr>append_conversationId = c, append_expectedRevision = ?latest,
      append_events = [ev]\<rparr> ?s2 = Inl (Conflict d)" "conflict_code d = IdempotencyConflict"
    using known_event [OF ok'(2) valid decisionEvent_fields(2) [OF ev] _ nth_mem [OF at(2)] _ old, of ?latest]
      decisionEvent_fields [OF ev] at(3) j(2) by (auto simp: nextRevision_def)
  have "behind ?s2 c 0 None" by (simp add: behind_def)
  from reconcile_finds [where others = others, OF ok'(2) l others c this _ at(2), where eid = eid and n = "maxReconciliationPages limits" and p = p and page = 0]
  obtain s3 where "reconcileEvent H adapter others limits input p eid ?s2 = (Matching (event (stored s c ! j)), s3)"
    using at(3) j(2,3) matches by (auto simp: reconcileEvent_def)
  with run d show ?thesis
    by (simp add: Let_def c eid [symmetric] ev reconciled_result_def)
qed

end

end
