(* ===== verification/DecisionStores.thy ===== *)
theory DecisionStores
  imports ApprovalDecisions
begin

text \<open>
  Decisions over the two in-memory stores: what the approval store lets through is always
  recordable, the projection of the log and the approval store take the same step, and a
  retry is answered with the event of the first run.
\<close>

section \<open>Results of the approval store\<close>

lemma validateTransitionInput_Inr:
  assumes "validateTransitionInput input limits = Inr ()"
  shows "bounded_identifier (transition_proposalId input)" "attribution_ok (transition_attribution input)"
    "\<And>r. decisionReason input = Some r \<Longrightarrow> reason_ok r"
  using assms by (auto simp: validateTransitionInput_def validateIdentifier_def split: option.splits)

lemma transition_body_decision:
  assumes inv: "approval_inv (store_limits opts) S" and n: "0 < maxIdempotencyRecords (store_limits opts)"
    and valid: "validateTransitionInput input (store_limits opts) = Inr ()"
    and t: "transition_body H opts clock input S = (Inr q, S')" and d: "is_decision (proposal_status q)"
  shows "decision_ok q"
  using t
proof (rule transition_body_Inr)
  fix p now
  assume p: "map_get (proposals S) (transition_proposalId input) = Some p" "isTimestamp now"
    and checks: "transition_checks input now p = Inr ()"
    and q: "q = transitionProposal p (transition_status input) (decisionReason input) (failureReason input) now
       (transition_attribution input)"
    and S': "S' = retainIdempotency (store_limits opts) (transition_idempotencyKey input)
       \<lparr>retained_operation = TransitionOperation, retained_fingerprint = transition_idempotencyFingerprint input,
        requestSignature = transitionRequestSignature H input, retained_result = q\<rparr> (put_proposal q S)"
  have status: "is_decision (transition_status input)" using d by (simp add: q transitionProposal_def)
  have pid: "proposal_id p = transition_proposalId input" using inv p(1) unfolding approval_inv_def by blast
  have "approval_inv (store_limits opts) S'" by (rule transition_body_inv [OF inv n valid t])
  moreover have "map_get (proposals S') (proposal_id q) = Some q"
    by (simp add: S' retainIdempotency_def)
  ultimately have ok: "approval_ok q" unfolding approval_inv_def by blast
  then have "proposal_version q = 2"
    using d by (auto simp: approval_ok_def proposal_wf_def is_decision_def split: ConversationApprovalProposalStatus.splits)
  moreover have "isTimestamp (updated_at q)" using ok by (simp add: approval_ok_def)
  moreover have "actor_type (attributed_actor (transition_attribution input)) \<in> {UserActor, SystemActor}"
    "transition_status input = Expired \<Longrightarrow> actor_type (attributed_actor (transition_attribution input)) = SystemActor"
    using transition_checks_Inr(4,5) [OF checks] status by (auto simp: is_decision_def system_only_def)
  moreover have "proposal_status q = transition_status input" "latest_attribution q = transition_attribution input"
    "decision_reason q = decisionReason input" "proposal_id q = transition_proposalId input"
    using status pid by (simp_all add: q transitionProposal_def)
  ultimately show "decision_ok q"
    using validateTransitionInput_Inr [OF valid] by (simp add: decision_ok_def safe_int_def max_safe_integer_def)
qed

text \<open>Retained results stay recordable.\<close>

definition retained_ok :: "InMemoryApprovalProposalStore \<Rightarrow> bool" where
  "retained_ok S \<longleftrightarrow> (\<forall>k r. map_get (idempotency S) k = Some r \<longrightarrow> retained_operation r = TransitionOperation \<longrightarrow>
     is_decision (proposal_status (retained_result r)) \<longrightarrow> decision_ok (retained_result r))"

lemma expireIfDue_idempotency [simp]: "idempotency (snd (expireIfDue opts p now S)) = idempotency S"
  by (simp add: expireIfDue_def put_proposal_def Let_def)

lemma expire_group_idempotency [simp]: "idempotency (snd (expire_group opts gid now ps S)) = idempotency S"
proof (induction ps arbitrary: S)
  case (Cons p ps)
  have "idempotency (snd (expire_group opts gid now ps (snd (expireIfDue opts p now S)))) = idempotency S"
    by (simp add: Cons)
  with Cons show ?case by (simp add: case_prod_beta Let_def)
qed simp

lemma retain_ok:
  assumes "retained_ok S" "distinct (map fst (idempotency S))"
    and "retained_operation r = TransitionOperation \<Longrightarrow> is_decision (proposal_status (retained_result r)) \<Longrightarrow>
      decision_ok (retained_result r)"
  shows "retained_ok (retainIdempotency limits key r (put_proposal q S))"
  unfolding retained_ok_def
proof (intro allI impI)
  fix k r'
  assume r': "map_get (idempotency (retainIdempotency limits key r (put_proposal q S))) k = Some r'"
    and op: "retained_operation r' = TransitionOperation" "is_decision (proposal_status (retained_result r'))"
  show "decision_ok (retained_result r')"
  proof (cases "k = key")
    case True
    with r' op assms(3) show ?thesis by (simp add: retainIdempotency_def)
  next
    case False
    with r' have "map_get (evict (maxIdempotencyRecords limits) (idempotency S)) k = Some r'"
      by (simp add: retainIdempotency_def put_proposal_def)
    then have "map_get (idempotency S) k = Some r'" by (rule evict_get [OF assms(2)])
    with assms(1) op show ?thesis unfolding retained_ok_def by blast
  qed
qed

lemma retained_same: "idempotency S' = idempotency S \<Longrightarrow> retained_ok S' = retained_ok S"
  by (simp add: retained_ok_def)

lemma create_retained:
  assumes "approval_inv (store_limits opts) S" "retained_ok S" "create_proposal H opts clock input S = (out, S')"
  shows "retained_ok S'"
proof -
  have d: "distinct (map fst (idempotency S))" using assms(1) unfolding approval_inv_def by blast
  show ?thesis
    using assms(2,3)
    by (auto simp: create_proposal_def Let_def split: sum.splits option.splits intro!: retain_ok [OF _ d])
qed

lemma transition_retained:
  assumes inv: "approval_inv (store_limits opts) S" "retained_ok S" and n: "0 < maxIdempotencyRecords (store_limits opts)"
    and t: "transition H opts clock input S = (out, S')"
  shows "retained_ok S'" "\<And>q. out = Inr q \<Longrightarrow> is_decision (proposal_status q) \<Longrightarrow> decision_ok q"
proof -
  have d: "distinct (map fst (idempotency S))" using inv(1) unfolding approval_inv_def by blast
  consider (old) "S' = S" "\<And>q. out = Inr q \<Longrightarrow> \<exists>r. map_get (idempotency S) (transition_idempotencyKey input) = Some r \<and>
      retained_operation r = TransitionOperation \<and> retained_result r = q"
    | (new) "validateTransitionInput input (store_limits opts) = Inr ()"
      "transition_body H opts clock input S = (out, S')"
    using t by (auto simp: transition_def idempotentResult_def split: sum.splits option.splits if_splits)
  then have "retained_ok S' \<and> (\<forall>q. out = Inr q \<longrightarrow> is_decision (proposal_status q) \<longrightarrow> decision_ok q)"
  proof cases
    case old
    with inv(2) show ?thesis unfolding retained_ok_def by blast
  next
    case new
    show ?thesis
    proof (cases out)
      case (Inl e)
      with new(2) have "idempotency S' = idempotency S"
        by (auto simp: transition_body_def Let_def split: option.splits sum.splits if_splits)
      with Inl inv(2) retained_same show ?thesis by blast
    next
      case (Inr q)
      note ok = transition_body_decision [OF inv(1) n new(1) new(2) [unfolded Inr]]
      have "retained_ok S'"
      proof (rule transition_body_Inr [OF new(2) [unfolded Inr]], goal_cases)
        case (1 p now)
        show ?case unfolding 1(9) by (rule retain_ok [OF inv(2) d]) (simp add: ok)
      qed
      with Inr ok show ?thesis by blast
    qed
  qed
  then show "retained_ok S'" "\<And>q. out = Inr q \<Longrightarrow> is_decision (proposal_status q) \<Longrightarrow> decision_ok q" by blast+
qed

lemma reachable_retained:
  assumes "(approval_step H opts)\<^sup>*\<^sup>* empty_approval_store S" "0 < maxIdempotencyRecords (store_limits opts)"
  shows "approval_inv (store_limits opts) S \<and> retained_ok S"
  using assms(1)
proof (induction rule: rtranclp_induct)
  case base
  have "retained_ok empty_approval_store" by (simp add: retained_ok_def empty_approval_store_def)
  then show ?case by simp
next
  case (step S T)
  then have "approval_inv (store_limits opts) T" using approval_step_inv assms(2) by blast
  moreover from step(2,3) have "retained_ok T"
  proof (cases rule: approval_step.cases)
    case (step_get clock ctx pid found)
    then have "idempotency T = idempotency S"
      by (auto simp: get_proposal_def case_prod_beta split: sum.splits option.splits)
    with step.IH retained_same show ?thesis by blast
  next
    case (step_list clock ctx gid list)
    then have "idempotency T = idempotency S"
      by (auto simp: listGroup_def case_prod_beta split: sum.splits)
    with step.IH retained_same show ?thesis by blast
  qed (use step.IH create_retained transition_retained(1) assms(2) in blast)+
  ultimately show ?case by blast
qed

section \<open>One decision\<close>

text \<open>What a decision that is let through does.\<close>

definition permitted :: "('ctx, 'p, 's) ApprovalCoordinatorOptions \<Rightarrow> 'ctx DecideApprovalInput \<Rightarrow> bool" where
  "permitted opts input \<longleftrightarrow>
     isDecisionInput input \<and> \<not> decide_aborted input (AtDecision (target_proposalId input)) \<and>
     decide_authorize opts \<lparr>permission_context = decide_context input,
       permission_conversationId = decide_conversationId input, permission_proposalId = target_proposalId input,
       permission_expectedVersion = target_expectedVersion input, permission_decision = decide_decision input,
       permission_groupId = None\<rparr> = Answered Allow"

abbreviation snapshot_of :: "'ctx DecideApprovalInput \<Rightarrow> 'ctx DecisionSnapshot" where
  "snapshot_of input \<equiv> DecideApprovalInput.extend input \<lparr>snapshot_groupId = None\<rparr>"

lemma snapshot_fields [simp]:
  "target_proposalId (snapshot_of input) = target_proposalId input"
  "target_expectedVersion (snapshot_of input) = target_expectedVersion input"
  "target_idempotencyKey (snapshot_of input) = target_idempotencyKey input"
  "target_idempotencyFingerprint (snapshot_of input) = target_idempotencyFingerprint input"
  "decide_context (snapshot_of input) = decide_context input"
  "decide_conversationId (snapshot_of input) = decide_conversationId input"
  "decide_decision (snapshot_of input) = decide_decision input"
  "decide_attribution (snapshot_of input) = decide_attribution input"
  "decide_reason (snapshot_of input) = decide_reason input"
  "decide_aborted (snapshot_of input) = decide_aborted input"
  "snapshot_groupId (snapshot_of input) = None"
  by (simp_all add: DecideApprovalInput.extend_def)

lemma permission_allow: "permission_of r = PermissionAllow \<longleftrightarrow> r = Answered Allow"
  by (cases r rule: permission_of.cases) auto

lemma decide_permitted:
  assumes "permitted opts input"
    and "approvals_transition (proposalStore opts) (decision_transition (snapshot_of input))
      (others_approvals others (AtTransition (target_proposalId input)) p) = (Inr q, p')"
    and "is_decision (proposal_status q)"
  shows "decide H opts others input (p, s) =
    (let (result, s') = appendDecisionEvent H (eventStore opts) (others_events others)
           (coordinator_limits opts) (snapshot_of input) q s in (result, p', s'))"
  using assms
  by (auto simp: decide_def snapshotDecision_def permitted_def decideSnapshot_def authorizeDecision_def Let_def
      is_decision_def)

lemma classify_not_accepted: "fst (classifyCurrentProposal store input p) \<noteq> Accepted a"
  by (auto simp: classifyCurrentProposal_def Let_def case_prod_beta
      split: sum.split option.split ApprovalStoreFailure.split ApprovalProposalStoreError.split
        ApprovalProposalStoreErrorCode.split)

lemma failure_not_accepted: "fst (mapTransitionFailure store others failure input p) \<noteq> Accepted a"
  by (auto simp: mapTransitionFailure_def Let_def classify_not_accepted
      split: ApprovalStoreFailure.split ApprovalProposalStoreError.split ApprovalProposalStoreErrorCode.split)

lemma decide_accepted:
  assumes "decide H opts others input (p, s) = (Accepted a, p', s')"
  obtains q where "permitted opts input"
    "approvals_transition (proposalStore opts) (decision_transition (snapshot_of input))
      (others_approvals others (AtTransition (target_proposalId input)) p) = (Inr q, p')"
    "appendDecisionEvent H (eventStore opts) (others_events others) (coordinator_limits opts) (snapshot_of input) q s =
      (Accepted a, s')"
proof -
  have input: "isDecisionInput input" using assms
    by (auto simp: decide_def snapshotDecision_def invalidSingleResult_def split: if_splits)
  note run = assms [unfolded decide_def snapshotDecision_def if_P [OF input] option.case decideSnapshot_def prod.case Let_def]
  have signal: "\<not> decide_aborted input (AtDecision (target_proposalId input))"
    using run by (auto split: if_splits)
  have allowed: "authorizeDecision (decide_authorize opts) (snapshot_of input) = PermissionAllow"
    using run signal by (cases "authorizeDecision (decide_authorize opts) (snapshot_of input)") auto
  then have "permitted opts input"
    using input signal by (simp add: permitted_def authorizeDecision_def permission_allow)
  obtain out p1 where t: "approvals_transition (proposalStore opts) (decision_transition (snapshot_of input))
      (others_approvals others (AtTransition (target_proposalId input)) p) = (out, p1)" by fastforce
  obtain q where q: "out = Inr q"
    using run signal allowed t
      failure_not_accepted [of "proposalStore opts" "others_approvals others" _ "snapshot_of input" p1 a]
    by (cases out) (auto simp: case_prod_beta)
  with run signal allowed t have "proposal_status q \<notin> {Executing, Executed, Failed}"
    "appendDecisionEvent H (eventStore opts) (others_events others) (coordinator_limits opts) (snapshot_of input) q s =
      (Accepted a, s')" "p1 = p'"
    by (auto simp: case_prod_beta split: if_splits intro: prod_eqI)
  with \<open>permitted opts input\<close> t q show thesis by (intro that) auto
qed

section \<open>The projection of the log\<close>

definition projected :: "ConversationState \<Rightarrow> string \<Rightarrow> ConversationApprovalProposalRecord option" where
  "projected st pid = map_option (nth (approval_proposals st)) (find_proposal st pid)"

text \<open>One more event of a log is applied to the projection of the log before it.\<close>

context event_reader
begin

lemma next_event_applied:
  assumes ok: "store_ok s'" and log: "log s' c = evs @ [ev]"
    and st: "reduceEvents H (createInitialConversationState (Some c)) evs = Inr st"
  shows "reduceEvents H (createInitialConversationState (Some c)) (log s' c) = applied H st ev"
proof -
  have take: "take (length evs) (log s' c) = evs" by (simp add: log)
  from fold_log [OF ok, of c "length evs"] st
  have facts: "processed_event_ids st = map event_id evs" "processed_mutation_ids st = mutation_ids evs"
    "expected_revision st = 1 + int (length evs)" "conversation_id st = Some c"
    by (auto simp: take)
  have "log_from c 1 (evs @ [ev])" using stored_log [OF ok, of c] by (simp add: log)
  then have "rejection st ev = None" by (simp add: rejection_None facts log_from_append)
  moreover have "distinct (map event_id (evs @ [ev]))" "distinct (mutation_ids (evs @ [ev]))"
    using stored_event_ids [OF ok, of c] stored_mutation_ids [OF ok, of c] by (simp_all only: log)
  then have "\<not> already_processed st ev"
    by (auto simp: already_processed_def facts split: option.splits)
  ultimately show ?thesis
    by (cases "applied H st ev") (simp_all add: log reduceEvents_append st reduceConversationEvent_eq)
qed

end

lemma decision_change_step:
  assumes "change_for s r f = Some ch" "is_decision s" "q = proposal_step now a v ch p"
  shows "decision_change q = Some ch" "updated_at q = now" "latest_attribution q = a" "proposal_id q = proposal_id p"
proof -
  from assms(1,2) have "ch = ChangeConfirmed r \<or> ch = ChangeRejected r \<or> ch = ChangeExpired r"
    by (cases s) (auto simp: is_decision_def)
  then show "decision_change q = Some ch"
    unfolding assms(3) by (elim disjE) (simp_all add: decision_change_def proposal_step_def is_decision_def)
qed (simp_all add: assms(3) proposal_step_def Let_def)

lemma cloneAttribution_same [simp]: "cloneAttribution (attributed_actor a) (attributed_source a) = a"
  by (simp add: cloneAttribution_def)

lemma projection_follows:
  assumes inv: "store_inv H S'" and log: "log_of S' c = log_of S c @ [ev]"
    and ev: "decisionEvent c q eid r = Some ev"
    and t: "transition H opts clock input A = (Inr q, A')" and d: "is_decision (transition_status input)"
    and fresh: "map_get (idempotency A) (transition_idempotencyKey input) = None"
    and st: "reduceEvents H (createInitialConversationState (Some c)) (log_of S c) = Inr st"
    and agree: "projected st (transition_proposalId input) = map_get (proposals A) (transition_proposalId input)"
  shows "\<exists>st'. reduceEvents H (createInitialConversationState (Some c)) (log_of S' c) = Inr st' \<and>
    projected st' (transition_proposalId input) = map_get (proposals A') (transition_proposalId input)"
proof -
  let ?pid = "transition_proposalId input" and ?a = "transition_attribution input"
  let ?st = "acceptEnvelope st ev"
  obtain p where p: "map_get (proposals A) ?pid = Some p"
    using transition_new(2) [OF t fresh] by (auto elim!: transition_body_Inr)
  with agree obtain i where i: "find_proposal st ?pid = Some i" "approval_proposals st ! i = p"
    by (auto simp: projected_def)
  have st': "find_proposal ?st ?pid = Some i" "approval_proposals ?st = approval_proposals st"
    using i by (simp_all add: find_proposal_def acceptEnvelope_def)
  obtain ch now where ch: "change_for (transition_status input) (decisionReason input) (failureReason input) = Some ch"
    and q: "q = proposal_step now ?a (proposal_version q) ch p" "map_get (proposals A') ?pid = Some q"
    and step: "approvalProposalStatusChanged ?st now ?a ?pid (proposal_version q) ch = updateApprovalProposal ?st i q"
    using transition_matches_reducer [OF t fresh st'(1)] p i(2) st'(2) by auto
  note parts = decision_change_step [OF ch d q(1)]
  have pid: "proposal_id p = ?pid" "i < length (approval_proposals st)"
    using find_index_SomeD [OF i(1) [unfolded find_proposal_def]] i(2) by auto
  have "applied H st ev = Inr (approvalProposalStatusChanged ?st now ?a ?pid (proposal_version q) ch)"
    using ev parts(1) by (auto simp: applied_def decisionEvent_def parts(2-4) pid(1))
  then have "reduceEvents H (createInitialConversationState (Some c)) (log_of S' c) = Inr (updateApprovalProposal ?st i q)"
    using memory.next_event_applied [OF inv log st] step by simp
  moreover have "projected (updateApprovalProposal ?st i q) ?pid = Some q"
  proof -
    have "find_proposal (updateApprovalProposal ?st i q) ?pid = Some i"
      using i(1) pid parts(4) st'(2) unfolding find_proposal_def find_index_Some_iff
      by (auto simp: updateApprovalProposal_def nth_list_update)
    then show ?thesis using pid(2) st'(2) by (simp add: projected_def updateApprovalProposal_def)
  qed
  ultimately show ?thesis using q(2) by simp
qed

section \<open>Decisions over the in-memory stores\<close>

lemma memory_transition:
  "approvals_transition (memory_approvals H aopts clock) change (n, A) = (Inr q, n', A') \<longleftrightarrow>
     transition H aopts (clock n) change A = (Inr q, A') \<and> n' = Suc n"
  by (auto simp: memory_approvals_def ticking_def split: prod.splits sum.splits)

lemma decision_status: "is_decision (transitionStatus d)"
  by (cases d) (simp_all add: is_decision_def)

lemma transition_status_new:
  assumes "transition H opts clock input S = (Inr q, S')"
    and "map_get (idempotency S) (transition_idempotencyKey input) = None"
  shows "proposal_status q = transition_status input"
  using transition_new(2) [OF assms] by (auto elim!: transition_body_Inr simp: transitionProposal_def)

lemma coordinator_limits_pos:
  assumes "resolveCoordinatorLimits a b c d = Some limits"
  shows "0 < maxEventAppendAttempts limits" "positive_limit (page_limit limits)"
proof -
  have "isSafeInteger n \<Longrightarrow> 0 < int_of_number n \<Longrightarrow> positive_limit (Some (Fin (of_nat (nat (int_of_number n)))))" for n
    by (cases n) (auto simp: positive_limit_def safe_int_def of_nat_nat)
  with assms show "0 < maxEventAppendAttempts limits" "positive_limit (page_limit limits)"
    by (auto simp: resolveCoordinatorLimits_def Let_def split: if_splits)
qed

lemma undisturbed_appends: "only_append ok stored (others_events undisturbed pt)"
  by (simp add: only_append_def undisturbed_def)

lemma decision_identifiers:
  assumes "isDecisionInput input"
  shows "bounded_identifier (decide_conversationId input)"
    "bounded_identifier (decisionEventId (target_idempotencyKey input))"
  using assms
  by (auto simp: isDecisionInput_def isTarget_def isBoundedOpaqueValue_def bounded_identifier_def decisionEventId_def
      eventIdentifierLength_def)

lemma decisionEvent_exists: "is_decision (proposal_status q) \<Longrightarrow> \<exists>ev. decisionEvent c q eid r = Some ev"
  by (auto simp: decisionEvent_def decision_change_def is_decision_def split: ConversationApprovalProposalStatus.splits)

lemma decision_recorded:
  assumes opts: "proposalStore opts = memory_approvals H aopts clock" "eventStore opts = memory_store H"
    and inv: "approval_inv (store_limits aopts) A" "retained_ok A" "0 < maxIdempotencyRecords (store_limits aopts)"
      "store_inv H S"
    and attempts: "0 < maxEventAppendAttempts (coordinator_limits opts)"
    and input: "permitted opts input"
    and t: "transition H aopts (clock n) (decision_transition (snapshot_of input)) A = (Inr q, A')"
      "is_decision (proposal_status q)"
    and free: "free_identity (decisionEventId (target_idempotencyKey input)) (entries_of S)"
    and safe: "safe_int (int (length (log_of S (decide_conversationId input))) + 1)"
  obtains S' ev where
    "decisionEvent (decide_conversationId input) q (decisionEventId (target_idempotencyKey input))
       (int (length (log_of S (decide_conversationId input))) + 1) = Some ev"
    "decide H opts undisturbed input ((n, A), S) =
       (acceptedResult (target_expectedVersion input) q ev EventAppended, (Suc n, A'), S')"
    "store_inv H S'"
    "log_of S' (decide_conversationId input) = log_of S (decide_conversationId input) @ [ev]"
proof -
  let ?c = "decide_conversationId input" and ?eid = "decisionEventId (target_idempotencyKey input)"
  have q: "decision_ok q" using transition_retained(2) [OF inv(1-3) t(1) refl t(2)] .
  have rev: "nextRevision (getLatestRevision ?c S) = int (length (log_of S ?c)) + 1"
    using memory.latest_law [OF inv(4), of ?c]
    by (simp add: memory_store_def nextRevision_def revision_or_zero_def)
  obtain ev where ev: "decisionEvent ?c q ?eid (nextRevision (getLatestRevision ?c S)) = Some ev"
    using decisionEvent_exists [OF t(2)] by blast
  have "isDecisionInput input" using input by (simp add: permitted_def)
  from decision_event_accepted [OF q ev decision_identifiers [OF this]] safe
  have valid: "accepted_event H ev" by (simp add: rev)
  have latest: "store_latest (memory_store H) ?c S = getLatestRevision ?c S" by (simp add: memory_store_def)
  obtain S' res e where app: "store_append (memory_store H) \<lparr>append_conversationId = ?c,
      append_expectedRevision = getLatestRevision ?c S, append_events = [ev]\<rparr> S = Inr (S', res)"
    and e: "append_entries res = [e]" "event e = ev" "entries_of S' = (entries_of S)(?c := entries_of S ?c @ [e])"
      "store_inv H S'"
    by (rule memory.append_free [OF inv(4) ev [folded latest] valid free]) (simp add: latest)
  obtain m where m: "maxEventAppendAttempts (coordinator_limits opts) = Suc m" using attempts gr0_conv_Suc by blast
  have run: "appendDecisionEvent H (eventStore opts) (\<lambda>_ s. s) (coordinator_limits opts)
      (snapshot_of input) q S = (acceptedResult (target_expectedVersion input) q ev EventAppended, S')"
    using app e by (simp add: appendDecisionEvent_def m Let_def opts(2) latest ev)
  have "approvals_transition (proposalStore opts) (decision_transition (snapshot_of input))
      (others_approvals undisturbed (AtTransition (target_proposalId input)) (n, A)) = (Inr q, Suc n, A')"
    by (simp add: opts(1) undisturbed_def memory_transition t(1))
  from decide_permitted [OF input this t(2)] run
  have "decide H opts undisturbed input ((n, A), S) =
      (acceptedResult (target_expectedVersion input) q ev EventAppended, (Suc n, A'), S')"
    by (simp add: undisturbed_def)
  moreover have "log_of S' ?c = log_of S ?c @ [ev]" using e(2,3) by simp
  ultimately show thesis using ev [unfolded rev] e(4) that by blast
qed

text \<open>Sent again, whatever other clients append in between or meanwhile.\<close>

lemma decision_again:
  assumes opts: "proposalStore opts = memory_approvals H aopts clock" "eventStore opts = memory_store H"
    and inv: "approval_inv (store_limits aopts) A" "retained_ok A" "0 < maxIdempotencyRecords (store_limits aopts)"
      "store_inv H S"
    and limits: "0 < maxEventAppendAttempts (coordinator_limits opts)"
      "positive_limit (page_limit (coordinator_limits opts))"
    and others: "\<And>pt. only_append (store_inv H) entries_of (others_events others pt)" "others_approvals others = (\<lambda>_ p. p)"
    and input: "permitted opts input"
    and t: "transition H aopts now (decision_transition (snapshot_of input)) A0 = (Inr q, A)"
      "is_decision (proposal_status q)"
    and ev: "decisionEvent (decide_conversationId input) q (decisionEventId (target_idempotencyKey input)) r = Some ev"
    and at: "j < length (entries_of S (decide_conversationId input))"
      "event (entries_of S (decide_conversationId input) ! j) = ev"
      "j < maxReconciliationPages (coordinator_limits opts) * reconciliationPageSize (coordinator_limits opts)"
    and run: "decide H opts others input ((n, A), S) = (out, world, S')"
    and safe: "safe_int (int (length (log_of S' (decide_conversationId input))) + 1)"
  shows "out = acceptedResult (target_expectedVersion input) q ev EventReconciled \<and> world = (Suc n, A)"
proof -
  let ?c = "decide_conversationId input" and ?eid = "decisionEventId (target_idempotencyKey input)"
  have again: "transition H aopts (clock n) (decision_transition (snapshot_of input)) A = (Inr q, A)"
    by (rule transition_again [OF t(1)])
  have q: "decision_ok q" using transition_retained(2) [OF inv(1-3) again refl t(2)] .
  have valid: "isDecisionInput input" using input by (simp add: permitted_def)
  have "approvals_transition (proposalStore opts) (decision_transition (snapshot_of input))
      (others_approvals others (AtTransition (target_proposalId input)) (n, A)) = (Inr q, Suc n, A)"
    by (simp add: opts(1) others(2) memory_transition again)
  from decide_permitted [OF input this t(2), of H S] run
  have app: "appendDecisionEvent H (eventStore opts) (others_events others) (coordinator_limits opts)
      (snapshot_of input) q S = (out, S')" and world: "world = (Suc n, A)"
    by (auto simp: case_prod_beta prod_eq_iff)
  obtain m where m: "maxEventAppendAttempts (coordinator_limits opts) = Suc m" using limits(1) gr0_conv_Suc by blast
  note attempts = app [unfolded appendDecisionEvent_def m opts(2)]
  have "out = acceptedResult (target_expectedVersion (snapshot_of input)) q (event (entries_of S ?c ! j)) EventReconciled"
    by (rule memory.append_attempts_again [where c = ?c, OF inv(4) limits(2) others(1) refl _ q t(2) _ _ at(1) _ at(3) _ attempts])
      (use at(2) ev valid safe in \<open>simp_all add: decision_identifiers decisionEvent_fields decisionEvent_matches\<close>)
  with at(2) world show ?thesis by simp
qed

text \<open>An accepted decision, over any approval store: the log has an event that stands for it.\<close>

lemma accepted_logged:
  assumes opts: "eventStore opts = memory_store H" and inv: "store_inv H S"
    and l: "positive_limit (page_limit (coordinator_limits opts))"
    and others: "\<And>pt. only_append (store_inv H) entries_of (others_events others pt)"
    and run: "decide H opts others input (p, S) = (Accepted a, p', S')"
  obtains q ev where "permitted opts input"
    "approvals_transition (proposalStore opts) (decision_transition (snapshot_of input))
      (others_approvals others (AtTransition (target_proposalId input)) p) = (Inr q, p')"
    "ev \<in> set (log_of S' (decide_conversationId input))" "records_decision H (decide_conversationId input) q ev"
    "Accepted a = acceptedResult (target_expectedVersion input) q ev (accepted_eventStatus a)"
    "prefix (entries_of S (decide_conversationId input)) (entries_of S' (decide_conversationId input))"
proof (rule decide_accepted [OF run], goal_cases)
  case (1 q)
  note attempts = 1(4) [unfolded appendDecisionEvent_def opts]
  from memory.append_attempts_accepted [OF inv l others attempts]
  obtain ev where ev: "ev \<in> set (log_of S' (decide_conversationId input))"
    "records_decision H (decide_conversationId input) q ev"
    "Accepted a = acceptedResult (target_expectedVersion input) q ev (accepted_eventStatus a)"
    and grown: "prefix (entries_of S (decide_conversationId input)) (entries_of S' (decide_conversationId input))"
    by auto
  from 1(1) [OF 1(2,3) ev grown] show ?case .
qed

end
