(* ===== verification/GroupDecisions.thy ===== *)
theory GroupDecisions
  imports DecisionStores
begin

text \<open>
  Decisions of a whole group over the in-memory approval store. Listing a group expires the
  proposals that are due, so a group expiry finds nothing left to expire; the membership
  test compares two orders of the same identifiers.
\<close>

section \<open>Listing a group\<close>

text \<open>A proposal that an expiry at this time has nothing to do to.\<close>

definition settled :: "string \<Rightarrow> ConversationApprovalProposalRecord \<Rightarrow> bool" where
  "settled now p \<longleftrightarrow> (proposal_status p = Pending \<longrightarrow> time_less (Date_parse now) (Date_parse (expires_at p)))"

lemma expireIfDue_settled:
  assumes "expireIfDue opts p now S = (q, S')" "map_get (proposals S) (proposal_id p) = Some p"
  shows "settled now q" "proposal_id q = proposal_id p" "map_get (proposals S') (proposal_id p) = Some q"
    "x \<noteq> proposal_id p \<Longrightarrow> map_get (proposals S') x = map_get (proposals S) x"
  using assms by (auto simp: expireIfDue_def settled_def put_proposal_def transitionProposal_def Let_def split: if_splits)

lemma settled_same: "settled now p \<Longrightarrow> expireIfDue opts p now S = (p, S)"
  by (auto simp: expireIfDue_def settled_def)

lemma expire_group_other:
  assumes "x \<notin> proposal_id ` set ps"
  shows "map_get (proposals (snd (expire_group opts gid now ps S))) x = map_get (proposals S) x"
  using assms
proof (induction ps arbitrary: S)
  case (Cons p ps)
  have "map_get (proposals (snd (expireIfDue opts p now S))) x = map_get (proposals S) x"
    using Cons.prems by (auto simp: expireIfDue_def put_proposal_def Let_def)
  with Cons show ?case by (simp add: case_prod_beta Let_def)
qed simp

lemma expire_group_settled:
  assumes "distinct (map proposal_id ps)" "\<forall>p\<in>set ps. map_get (proposals S) (proposal_id p) = Some p"
    and "q \<in> set (fst (expire_group opts gid now ps S))"
  shows "settled now q \<and> proposal_id q \<in> proposal_id ` set ps \<and>
    map_get (proposals (snd (expire_group opts gid now ps S))) (proposal_id q) = Some q"
  using assms
proof (induction ps arbitrary: S)
  case (Cons p ps)
  show ?case
  proof (cases "group_id p = Some gid")
    case False
    with Cons.prems(3) have "q \<in> set (fst (expire_group opts gid now ps S))" by simp
    with Cons.IH [of S] Cons.prems(1,2) False show ?thesis by auto
  next
    case True
    obtain r T where r: "expireIfDue opts p now S = (r, T)" by fastforce
    note e = expireIfDue_settled [OF r]
    have p: "map_get (proposals S) (proposal_id p) = Some p" using Cons.prems(2) by simp
    have rest: "\<forall>p'\<in>set ps. map_get (proposals T) (proposal_id p') = Some p'"
      using Cons.prems(1,2) e(4) [OF p] by (metis distinct.simps(2) image_eqI list.set_intros(2) list.simps(9) set_map)
    have run: "expire_group opts gid now (p # ps) S =
        (r # fst (expire_group opts gid now ps T), snd (expire_group opts gid now ps T))"
      using True r by (simp add: case_prod_beta)
    show ?thesis
    proof (cases "q = r")
      case True
      with Cons.prems(1) e [OF p] have "proposal_id q \<notin> proposal_id ` set ps" by auto
      with True e [OF p] show ?thesis by (simp add: run expire_group_other del: expire_group.simps)
    next
      case False
      with Cons.prems(3) run have "q \<in> set (fst (expire_group opts gid now ps T))" by simp
      with Cons.IH [OF _ rest] Cons.prems(1) run show ?thesis by simp
    qed
  qed
qed simp

lemma listGroup_settled:
  assumes inv: "approval_inv limits A" and l: "listGroup opts (Some now) ctx gid A = (Inr ps, A')"
  shows "\<forall>p\<in>set ps. settled now p \<and> map_get (proposals A') (proposal_id p) = Some p" "idempotency A' = idempotency A"
proof -
  have run: "ps = sort_by (compareProposals opts) (fst (expire_group opts gid now (map snd (proposals A)) A))"
    "A' = snd (expire_group opts gid now (map snd (proposals A)) A)"
    using l by (auto simp: listGroup_def case_prod_beta store_now_Inr split: sum.splits)
  show "idempotency A' = idempotency A" by (simp add: run(2))
  show "\<forall>p\<in>set ps. settled now p \<and> map_get (proposals A') (proposal_id p) = Some p"
    using expire_group_settled [OF stored_proposals [OF inv]] unfolding run set_sort_by by blast
qed

section \<open>Expiring what is settled\<close>

lemma settled_transition:
  assumes "transition_status input = Expired" "map_get (idempotency A) (transition_idempotencyKey input) = None"
    and "\<And>p. map_get (proposals A) (transition_proposalId input) = Some p \<Longrightarrow> settled now p"
  shows "\<exists>e. transition H opts (Some now) input A = (Inl e, A)"
proof -
  have "\<exists>e. transition_checks input now p = Inl e" if "settled now p" for p
    using that assms(1) by (auto simp: transition_checks_def Let_def settled_def store_guard_def guard_def legal_transition_iff)
  note refused = this
  have "\<exists>e. transition_body H opts (Some now) input A = (Inl e, A)"
  proof (cases "map_get (proposals A) (transition_proposalId input)")
    case (Some p)
    obtain e where "transition_checks input now p = Inl e" using refused [OF assms(3) [OF Some]] by blast
    with Some assms(1) show ?thesis by (auto simp: transition_body_def store_now_def)
  qed (simp add: transition_body_def)
  then show ?thesis
    using assms(2) by (auto simp: transition_def idempotentResult_def split: sum.splits option.splits)
qed

lemma settled_get:
  assumes "\<And>p. map_get (proposals A) pid = Some p \<Longrightarrow> settled now p"
  shows "snd (get_proposal opts (Some now) ctx pid A) = A"
  using assms
  by (auto simp: get_proposal_def case_prod_beta store_now_Inr settled_same store_now_def split: sum.splits option.splits)

lemma ticking_snd: "snd (ticking clock f (n, A)) = (Suc n, snd (f (clock n) A))"
  by (simp add: ticking_def split: prod.split sum.split)

lemma expiry_refused:
  assumes opts: "proposalStore opts = memory_approvals H aopts clock" and clock: "\<And>m. clock m = Some now"
    and input: "decide_decision input = Expire" "map_get (idempotency A) (target_idempotencyKey input) = None"
    and settled: "\<And>p. map_get (proposals A) (target_proposalId input) = Some p \<Longrightarrow> settled now p"
  shows "\<exists>result n'. decideSnapshot H opts undisturbed input ((n, A), S) = (result, (n', A), S) \<and> \<not> is_accepted result"
proof -
  have "\<exists>e. transition H aopts (clock n) (decision_transition input) A = (Inl e, A)"
    unfolding clock using input settled by (intro settled_transition) (simp_all add: decision_transition_def)
  then obtain e where t: "approvals_transition (proposalStore opts) (decision_transition input) (n, A) =
      (Inl (Refused e), Suc n, A)"
    by (auto simp: opts memory_approvals_def ticking_def)
  have get: "\<exists>m'. snd (approvals_get (proposalStore opts) ctx (target_proposalId input) (m, A)) = (m', A)" for ctx m
    by (simp add: opts memory_approvals_def ticking_snd clock settled_get [OF settled])
  have "\<exists>m'. snd (classifyCurrentProposal (proposalStore opts) input (m, A)) = (m', A)" for m
    using get by (simp add: classifyCurrentProposal_def Let_def case_prod_beta)
  then have "\<exists>m'. snd (mapTransitionFailure (proposalStore opts) (\<lambda>_ p. p) (Refused e) input (Suc n, A)) = (m', A)"
    by (cases e) (simp add: mapTransitionFailure_def Let_def split: ApprovalProposalStoreErrorCode.split)
  then obtain m' where m': "snd (mapTransitionFailure (proposalStore opts) (\<lambda>_ p. p) (Refused e) input (Suc n, A)) = (m', A)"
    by blast
  have no: "\<not> is_accepted (fst (mapTransitionFailure (proposalStore opts) (\<lambda>_ p. p) (Refused e) input (Suc n, A)))"
    using failure_not_accepted by (metis is_accepted.elims(2))
  show ?thesis
    using t m' no
    by (auto simp: decideSnapshot_def undisturbed_def Let_def case_prod_beta split: DecisionPermission.split)
qed

lemma expiry_targets_refused:
  assumes opts: "proposalStore opts = memory_approvals H aopts clock" and clock: "\<And>m. clock m = Some now"
    and input: "group_decision input = Expire"
    and targets: "\<forall>t\<in>set ts. map_get (idempotency A) (target_idempotencyKey t) = None \<and>
      (\<forall>p. map_get (proposals A) (target_proposalId t) = Some p \<longrightarrow> settled now p)"
  shows "\<exists>results n'. decide_targets H opts undisturbed input ts ((n, A), S) = (results, (n', A), S) \<and>
    list_all (\<lambda>r. \<not> is_accepted r) results \<and> length results = length ts"
  using targets
proof (induction ts arbitrary: n)
  case (Cons t ts)
  have "\<exists>result m. (if group_aborted input (AtTarget (target_proposalId t))
      then (DecisionCancelled (target_proposalId t), (n, A), S)
      else decideSnapshot H opts undisturbed (group_snapshot input t) ((n, A), S)) = (result, (m, A), S) \<and>
      \<not> is_accepted result"
    using expiry_refused [OF opts clock, of "group_snapshot input t" A n S] Cons.prems input
    by (auto simp: group_snapshot_def)
  then obtain result m where head: "(if group_aborted input (AtTarget (target_proposalId t))
      then (DecisionCancelled (target_proposalId t), (n, A), S)
      else decideSnapshot H opts undisturbed (group_snapshot input t) ((n, A), S)) = (result, (m, A), S)"
    "\<not> is_accepted result" by blast
  with Cons.IH [of m] Cons.prems show ?case by auto
qed simp

section \<open>Group expiry\<close>

lemma group_expiry:
  assumes opts: "proposalStore opts = memory_approvals H aopts clock" and clock: "\<And>m. clock m = Some now"
    and inv: "approval_inv limits A" and input: "group_decision input = Expire"
    and fresh: "\<forall>t\<in>set (group_targets input). map_get (idempotency A) (target_idempotencyKey t) = None"
    and run: "decideGroup H opts undisturbed input ((n, A), S) = (result, world, S')"
  shows "S' = S \<and> (\<forall>gid rs. result \<noteq> GroupCompleted gid rs) \<and>
    (\<forall>gid rs. result = GroupPartial gid rs \<longrightarrow> list_all (\<lambda>r. \<not> is_accepted r) rs)"
proof (cases "snapshotGroup (target_localeCompare opts) input (coordinator_limits opts)")
  case (Inl r)
  then have "(\<forall>gid rs. r \<noteq> GroupCompleted gid rs) \<and> (\<forall>gid rs. r \<noteq> GroupPartial gid rs)"
    by (auto simp: snapshotGroup_def Let_def split: if_splits)
  with Inl run show ?thesis by (auto simp: decideGroup_def)
next
  case (Inr targets)
  then have targets: "set targets = set (group_targets input)" "group_targets input \<noteq> []"
    by (auto simp: snapshotGroup_def Let_def split: if_splits)
  have ne: "targets \<noteq> []" using targets by auto
  obtain out A' where l: "listGroup aopts (Some now) (group_context input) (group_groupId input) A = (out, A')" by fastforce
  have list: "approvals_listGroup (proposalStore opts) (group_context input) (group_groupId input) (n, A) =
      (case out of Inl e \<Rightarrow> Inl (Refused e) | Inr ps \<Rightarrow> Inr ps, Suc n, A')"
    by (simp add: opts memory_approvals_def ticking_def clock l split: sum.split)
  note run' = run [unfolded decideGroup_def prod.case Inr sum.case Let_def list]
  show ?thesis
  proof (cases out)
    case (Inl e)
    with run' show ?thesis by (cases e) (auto split: if_splits ApprovalProposalStoreErrorCode.splits)
  next
    case out: (Inr ps)
    note settled = listGroup_settled [OF inv l [unfolded out]]
    show ?thesis
    proof (cases "sort (map proposal_id ps) = map target_proposalId targets")
      case True
      have "settled now p" if "t \<in> set targets" "map_get (proposals A') (target_proposalId t) = Some p" for t p
      proof -
        from True that(1) have "target_proposalId t \<in> proposal_id ` set ps"
          by (metis image_eqI image_set set_sort)
        with settled(1) that(2) show ?thesis by auto
      qed
      then have "\<forall>t\<in>set targets. map_get (idempotency A') (target_idempotencyKey t) = None \<and>
          (\<forall>p. map_get (proposals A') (target_proposalId t) = Some p \<longrightarrow> settled now p)"
        using fresh targets(1) settled(2) by simp
      from expiry_targets_refused [OF opts clock input this, of "Suc n" S]
      obtain rs m where rs: "decide_targets H opts undisturbed input targets ((Suc n, A'), S) = (rs, (m, A'), S)"
        "list_all (\<lambda>r. \<not> is_accepted r) rs" "length rs = length targets" by blast
      then have "\<not> list_all is_accepted rs" using ne by (cases rs) auto
      with run' out True rs show ?thesis by (auto split: if_splits)
    next
      case False
      with run' out show ?thesis by (auto split: if_splits)
    qed
  qed
qed

section \<open>The membership test\<close>

text \<open>
  The stored identifiers are compared in the order of their code units, the targets in the
  order of \<open>localeCompare\<close>: where the two orders differ, a complete group is refused.
\<close>

lemma membership_order:
  assumes targets: "snapshotGroup (target_localeCompare opts) input (coordinator_limits opts) = Inr targets"
    and signal: "\<not> group_aborted input AtGroup"
    and l: "approvals_listGroup (proposalStore opts) (group_context input) (group_groupId input) p = (Inr ps, p')"
      "length ps \<le> maxGroupSize (coordinator_limits opts)"
    and order: "\<not> sorted (map target_proposalId targets)"
  shows "decideGroup H opts others input (p, s) = (GroupInvalid (group_groupId input) GroupMembership, p', s)"
proof -
  have "sort (map proposal_id ps) \<noteq> map target_proposalId targets" using order by (metis sorted_sort)
  with assms show ?thesis by (simp add: decideGroup_def Let_def)
qed

end
