(* ===== verification/ApprovalScenario.thy ===== *)
theory ApprovalScenario
  imports Scenario GroupDecisions
begin

text \<open>
  One proposal in the in-memory approval store, evaluated by the kernel: it is created by
  the runtime and rejected by a user. The facts instantiate the hypotheses of the
  properties about approvals.
\<close>

definition demo_options :: "unit ApprovalStoreOptions" where
  "demo_options = \<lparr>authorize = (\<lambda>_. Some Allow), store_limits = DEFAULT_APPROVAL_PROPOSAL_STORE_LIMITS,
     expiryAttribution = DEFAULT_EXPIRY_ATTRIBUTION, localeCompare = (\<lambda>_ _. 0)\<rparr>"

definition demo_create :: "unit CreateApprovalProposalInput" where
  "demo_create = \<lparr>create_context = (), create_proposalId = ''p'', create_groupId = None, create_turnId = ''t'',
     create_toolCallId = ''k'', create_toolName = ''send'', create_reviewedArguments = RedactedJson (JObj []),
     create_expiresAt = ''2026-01-02T00:00:00.000Z'',
     create_attribution = \<lparr>attributed_actor = \<lparr>actor_type = SystemActor, actor_id = None\<rparr>,
       attributed_source = RuntimeSource\<rparr>,
     create_idempotencyKey = ''create:p'', create_idempotencyFingerprint = ''f1''\<rparr>"

definition demo_reject :: "unit TransitionApprovalProposalInput" where
  "demo_reject = \<lparr>transition_context = (), transition_proposalId = ''p'', expectedVersion = Fin 1,
     transition_status = Rejected,
     transition_attribution = \<lparr>attributed_actor = \<lparr>actor_type = UserActor, actor_id = None\<rparr>,
       attributed_source = RuntimeSource\<rparr>,
     decisionReason = None, failureReason = None,
     transition_idempotencyKey = ''decide:p'', transition_idempotencyFingerprint = ''f2''\<rparr>"

definition demo_time :: string where
  "demo_time = ''2026-01-01T00:00:00.000Z''"

definition demo_created :: InMemoryApprovalProposalStore where
  "demo_created = snd (create_proposal demo_host demo_options (Some demo_time) demo_create empty_approval_store)"

definition demo_pending :: ConversationApprovalProposalRecord where
  "demo_pending = projr (fst (create_proposal demo_host demo_options (Some demo_time) demo_create empty_approval_store))"

lemma demo_create_run:
  "create_proposal demo_host demo_options (Some demo_time) demo_create empty_approval_store = (Inr demo_pending, demo_created)"
proof -
  have "\<not> isl (fst (create_proposal demo_host demo_options (Some demo_time) demo_create empty_approval_store))"
    by code_simp
  then show ?thesis by (simp add: demo_created_def demo_pending_def sum.collapse(2) prod_eq_iff)
qed

definition demo_rejected :: InMemoryApprovalProposalStore where
  "demo_rejected = snd (transition demo_host demo_options (Some demo_time) demo_reject demo_created)"

definition demo_decided :: ConversationApprovalProposalRecord where
  "demo_decided = projr (fst (transition demo_host demo_options (Some demo_time) demo_reject demo_created))"

lemma demo_reject_run:
  "transition demo_host demo_options (Some demo_time) demo_reject demo_created = (Inr demo_decided, demo_rejected)"
proof -
  have "\<not> isl (fst (transition demo_host demo_options (Some demo_time) demo_reject demo_created))" by code_simp
  then show ?thesis by (simp add: demo_rejected_def demo_decided_def sum.collapse(2) prod_eq_iff)
qed

lemma demo_decided_status: "proposal_status demo_decided = Rejected"
  by code_simp

lemma demo_approvals_reached: "(approval_step demo_host demo_options)\<^sup>*\<^sup>* empty_approval_store demo_rejected"
  using step_create [OF demo_create_run] step_transition [OF demo_reject_run]
  by (rule rtranclp.rtrancl_into_rtrancl [OF r_into_rtranclp])

lemma demo_limits: "resolveLimits None None None None = Some (store_limits demo_options)"
  by code_simp

lemma demo_reject_fresh: "map_get (idempotency demo_created) (transition_idempotencyKey demo_reject) = None"
  by code_simp

text \<open>The projection of the conversation up to the pending proposal holds the same proposal.\<close>

definition demo_before :: ConversationState where
  "demo_before = projr (reduceEvents demo_host (createInitialConversationState (Some ''c'')) (take 5 demo_log))"

lemma demo_before_holds:
  "find_proposal demo_before (transition_proposalId demo_reject) = Some 0"
  "map_get (proposals demo_created) (transition_proposalId demo_reject) = Some (approval_proposals demo_before ! 0)"
  by code_simp+

section \<open>The decision through the coordinator\<close>

text \<open>The conversation before the decision, in its own event store.\<close>

definition demo_open_store :: InMemoryConversationEventStore where
  "demo_open_store = fst (projr (append_batch demo_host \<lparr>append_conversationId = ''c'',
     append_expectedRevision = None, append_events = take 5 demo_log\<rparr> empty_event_store))"

definition demo_open_result :: AppendConversationEventsResult where
  "demo_open_result = snd (projr (append_batch demo_host \<lparr>append_conversationId = ''c'',
     append_expectedRevision = None, append_events = take 5 demo_log\<rparr> empty_event_store))"

lemma demo_open_append:
  "append_batch demo_host \<lparr>append_conversationId = ''c'', append_expectedRevision = None,
     append_events = take 5 demo_log\<rparr> empty_event_store = Inr (demo_open_store, demo_open_result)"
proof -
  have "\<not> isl (append_batch demo_host \<lparr>append_conversationId = ''c'', append_expectedRevision = None,
     append_events = take 5 demo_log\<rparr> empty_event_store)" by code_simp
  then show ?thesis by (simp add: demo_open_store_def demo_open_result_def sum.collapse(2))
qed

lemma demo_open_reached: "(session_step demo_host (memory_store demo_host))\<^sup>*\<^sup>* empty_event_store demo_open_store"
  using step_append [where H = demo_host and adapter = "memory_store demo_host", unfolded memory_store_def, simplified,
      OF demo_open_append]
  by (simp add: memory_store_def r_into_rtranclp)

lemma demo_open_status: "append_status demo_open_result = Appended"
  by code_simp

lemma demo_open_entries:
  "entries_of demo_open_store = (\<lambda>_. [])(''c'' := append_entries demo_open_result)"
  "map event (append_entries demo_open_result) = take 5 demo_log"
proof -
  have "entries_of empty_event_store = (\<lambda>_. [])" by (rule ext) simp
  with append_new [OF empty_store_inv demo_open_append demo_open_status]
  show "entries_of demo_open_store = (\<lambda>_. [])(''c'' := append_entries demo_open_result)"
    "map event (append_entries demo_open_result) = take 5 demo_log" by simp_all
qed

lemma demo_open_log: "log_of demo_open_store ''c'' = take 5 demo_log"
  by (simp add: demo_open_entries)

definition demo_coordinator ::
    "(unit, nat \<times> InMemoryApprovalProposalStore, InMemoryConversationEventStore) ApprovalCoordinatorOptions" where
  "demo_coordinator = \<lparr>proposalStore = memory_approvals demo_host demo_options (\<lambda>_. Some demo_time),
     eventStore = memory_store demo_host, decide_authorize = (\<lambda>_. Answered Allow),
     coordinator_limits = DEFAULT_APPROVAL_COORDINATOR_LIMITS, target_localeCompare = (\<lambda>_ _. 0)\<rparr>"

definition demo_decision :: "unit DecideApprovalInput" where
  "demo_decision = \<lparr>target_proposalId = ''p'', target_expectedVersion = Fin 1,
     target_idempotencyKey = ''decide:p'', target_idempotencyFingerprint = ''f2'',
     decide_context = (), decide_conversationId = ''c'', decide_decision = Reject,
     decide_attribution = \<lparr>attributed_actor = \<lparr>actor_type = UserActor, actor_id = None\<rparr>,
       attributed_source = RuntimeSource\<rparr>,
     decide_reason = None, decide_aborted = (\<lambda>_. False)\<rparr>"

lemma demo_decision_transition: "decision_transition (snapshot_of demo_decision) = demo_reject"
  by (simp add: decision_transition_def demo_decision_def demo_reject_def)

lemma demo_permitted: "permitted demo_coordinator demo_decision"
proof -
  have "isDecisionInput demo_decision" by code_simp
  then show ?thesis by (simp add: permitted_def demo_coordinator_def) (simp add: demo_decision_def)
qed

lemma demo_coordinator_limits:
  "resolveCoordinatorLimits None None None None = Some (coordinator_limits demo_coordinator)"
  by (simp add: demo_coordinator_def) code_simp

lemma demo_free: "free_identity (decisionEventId (target_idempotencyKey demo_decision)) (entries_of demo_open_store)"
  unfolding free_identity_def
proof (intro allI ballI)
  fix c e assume e: "e \<in> set (entries_of demo_open_store c)"
  then have "c = ''c''" by (simp add: demo_open_entries split: if_splits)
  with e have ev: "event e \<in> set (take 5 demo_log)"
    unfolding demo_open_entries(2) [symmetric] by (simp add: demo_open_entries(1))
  have "list_all (\<lambda>ev. event_id ev \<noteq> decisionEventId (target_idempotencyKey demo_decision) \<and>
      mutation_id ev \<noteq> Some (decisionEventId (target_idempotencyKey demo_decision))) (take 5 demo_log)" by code_simp
  then show "event_id (event e) \<noteq> decisionEventId (target_idempotencyKey demo_decision) \<and>
      mutation_id (event e) \<noteq> Some (decisionEventId (target_idempotencyKey demo_decision))"
    using ev by (simp add: list_all_iff)
qed

lemma demo_before_fold:
  "reduceEvents demo_host (createInitialConversationState (Some ''c'')) (take 5 demo_log) = Inr demo_before"
proof -
  have "\<not> isl (reduceEvents demo_host (createInitialConversationState (Some ''c'')) (take 5 demo_log))" by code_simp
  then show ?thesis by (simp add: demo_before_def sum.collapse(2))
qed


lemma demo_decide:
  obtains a p' S' where "decide demo_host demo_coordinator undisturbed demo_decision ((0, demo_created), demo_open_store) =
    (Accepted a, p', S')"
proof -
  have "is_accepted (fst (decide demo_host demo_coordinator undisturbed demo_decision ((0, demo_created), demo_open_store)))"
    by code_simp
  then show thesis
    by (cases "decide demo_host demo_coordinator undisturbed demo_decision ((0, demo_created), demo_open_store)")
      (auto elim!: is_accepted.elims(2) intro: that)
qed

lemma demo_decision_fields:
  "decide_conversationId demo_decision = ''c''" "target_proposalId demo_decision = ''p''"
  "target_expectedVersion demo_decision = Fin 1" "target_idempotencyKey demo_decision = ''decide:p''"
  by (simp_all add: demo_decision_def)

lemma demo_stores:
  "proposalStore demo_coordinator = memory_approvals demo_host demo_options (\<lambda>_. Some demo_time)"
  "eventStore demo_coordinator = memory_store demo_host"
  by (simp_all add: demo_coordinator_def)

lemma demo_created_reached: "(approval_step demo_host demo_options)\<^sup>*\<^sup>* empty_approval_store demo_created"
  by (rule r_into_rtranclp, rule step_create [OF demo_create_run])

lemma demo_fresh_key: "map_get (idempotency demo_created) (target_idempotencyKey demo_decision) = None"
  using demo_reject_fresh by (simp add: demo_reject_def demo_decision_def)

text \<open>The log once the decision is in it.\<close>

definition demo_decision_event :: ConversationEvent where
  "demo_decision_event = the (decisionEvent ''c'' demo_decided ''approval-decision:decide:p'' 6)"

lemma demo_decision_event: "decisionEvent ''c'' demo_decided ''approval-decision:decide:p'' 6 = Some demo_decision_event"
proof -
  have "decisionEvent ''c'' demo_decided ''approval-decision:decide:p'' 6 \<noteq> None" by code_simp
  then show ?thesis by (auto simp: demo_decision_event_def)
qed

definition demo_closing :: AppendConversationEventsInput where
  "demo_closing = \<lparr>append_conversationId = ''c'', append_expectedRevision = Some 5, append_events = [demo_decision_event]\<rparr>"

definition demo_closed_store :: InMemoryConversationEventStore where
  "demo_closed_store = fst (projr (append_batch demo_host demo_closing demo_open_store))"

definition demo_closed_result :: AppendConversationEventsResult where
  "demo_closed_result = snd (projr (append_batch demo_host demo_closing demo_open_store))"

lemma demo_closed_append: "append_batch demo_host demo_closing demo_open_store = Inr (demo_closed_store, demo_closed_result)"
proof -
  have "\<not> isl (append_batch demo_host demo_closing demo_open_store)" by code_simp
  then show ?thesis by (simp add: demo_closed_store_def demo_closed_result_def sum.collapse(2))
qed

lemma demo_closed_reached: "(session_step demo_host (memory_store demo_host))\<^sup>*\<^sup>* empty_event_store demo_closed_store"
  using demo_open_reached
    step_append [where H = demo_host and adapter = "memory_store demo_host", unfolded memory_store_def, simplified,
      OF demo_closed_append]
  by (simp add: memory_store_def rtranclp.rtrancl_into_rtrancl)

lemma demo_closed_log: "log_of demo_closed_store ''c'' = take 5 demo_log @ [demo_decision_event]"
proof -
  have "append_status demo_closed_result = Appended" by code_simp
  from append_new [OF append_batch_inv [OF empty_store_inv demo_open_append] demo_closed_append this]
  show ?thesis by (simp add: demo_closing_def demo_open_log)
qed

lemma demo_again_length:
  "length (log_of (snd (snd (decide demo_host demo_coordinator undisturbed demo_decision
     ((1, demo_rejected), demo_closed_store)))) ''c'') = 6"
  by code_simp

text \<open>Another client that gets in before the first attempt.\<close>

definition demo_rival_append :: "InMemoryConversationEventStore \<Rightarrow> InMemoryConversationEventStore" where
  "demo_rival_append s =
     (case append_batch demo_host \<lparr>append_conversationId = ''c'', append_expectedRevision = Some 5,
         append_events = [demo_event 6 ''x6'' UserActor None (ConversationTitleUpdated (Some ''t''))]\<rparr> s of
        Inr (s', _) \<Rightarrow> s' | Inl _ \<Rightarrow> s)"

definition demo_rival :: "(nat \<times> InMemoryApprovalProposalStore, InMemoryConversationEventStore) Interference" where
  "demo_rival = \<lparr>others_approvals = (\<lambda>_ p. p),
     others_events = (\<lambda>pt s. if pt = AtAppend ''p'' 0 then demo_rival_append s else s)\<rparr>"

lemma demo_rival_append_law:
  assumes "store_inv demo_host s"
  shows "store_inv demo_host (demo_rival_append s) \<and>
    (demo_rival_append s = s \<or> (\<exists>e. entries_of (demo_rival_append s) = (entries_of s)(''c'' := entries_of s ''c'' @ [e]) \<and>
       event e = demo_event 6 ''x6'' UserActor None (ConversationTitleUpdated (Some ''t''))))"
proof (cases "append_batch demo_host \<lparr>append_conversationId = ''c'', append_expectedRevision = Some 5,
         append_events = [demo_event 6 ''x6'' UserActor None (ConversationTitleUpdated (Some ''t''))]\<rparr> s")
  case (Inl e)
  with assms show ?thesis by (simp add: demo_rival_append_def)
next
  case (Inr r)
  obtain s' res where r: "r = (s', res)" by fastforce
  note app = Inr [unfolded r]
  have s': "demo_rival_append s = s'" by (simp add: demo_rival_append_def app)
  show ?thesis
  proof (cases "append_status res = Appended")
    case True
    from append_new [OF assms app True] append_batch_inv [OF assms app] show ?thesis by (auto simp: s')
  next
    case False
    then have "append_status res = IdempotentAppend" by (simp add: append_status_cases)
    from append_retry [OF assms app this] assms show ?thesis by (simp add: s')
  qed
qed

lemma demo_rival_approvals: "others_approvals demo_rival = (\<lambda>_ p. p)"
  by (simp add: demo_rival_def)

lemma demo_rival_appends: "only_append (store_inv demo_host) entries_of (others_events demo_rival pt)"
  unfolding only_append_def
proof (intro allI impI)
  fix s assume "store_inv demo_host s"
  from demo_rival_append_law [OF this] this
  show "store_inv demo_host (others_events demo_rival pt s) \<and>
      (\<forall>c. prefix (entries_of s c) (entries_of (others_events demo_rival pt s) c))"
    by (auto simp: demo_rival_def)
qed

lemma demo_rival_length:
  "length (log_of (snd (snd (decide demo_host demo_coordinator demo_rival demo_decision
     ((0, demo_created), demo_open_store)))) ''c'') = 7"
  by code_simp

lemma demo_rival_quiet: "others_events demo_rival (AtAppend pid (Suc 0)) s = s"
  by (simp add: demo_rival_def)

lemma demo_rival_free:
  assumes "store_inv demo_host s" "free_identity (decisionEventId (target_idempotencyKey demo_decision)) (entries_of s)"
  shows "free_identity (decisionEventId (target_idempotencyKey demo_decision)) (entries_of (others_events demo_rival pt s))"
  using demo_rival_append_law [OF assms(1)] assms(2)
  by (auto simp: demo_rival_def free_identity_def demo_event_def decisionEventId_def split: if_splits)

section \<open>A group whose proposal is due\<close>

definition demo_group_create :: "unit CreateApprovalProposalInput" where
  "demo_group_create = demo_create\<lparr>create_groupId := Some ''g''\<rparr>"

definition demo_group_store :: InMemoryApprovalProposalStore where
  "demo_group_store = snd (create_proposal demo_host demo_options (Some demo_time) demo_group_create empty_approval_store)"

lemma demo_group_reached: "(approval_step demo_host demo_options)\<^sup>*\<^sup>* empty_approval_store demo_group_store"
  by (rule r_into_rtranclp, rule step_create [where out = "fst (create_proposal demo_host demo_options (Some demo_time)
      demo_group_create empty_approval_store)"]) (simp add: demo_group_store_def)

definition demo_late_coordinator ::
    "(unit, nat \<times> InMemoryApprovalProposalStore, InMemoryConversationEventStore) ApprovalCoordinatorOptions" where
  "demo_late_coordinator = demo_coordinator\<lparr>proposalStore :=
     memory_approvals demo_host demo_options (\<lambda>_. Some ''2026-01-03T00:00:00.000Z'')\<rparr>"

lemma demo_late_store: "proposalStore demo_late_coordinator =
    memory_approvals demo_host demo_options (\<lambda>_. Some ''2026-01-03T00:00:00.000Z'')"
  by (simp add: demo_late_coordinator_def)

definition demo_group_expiry :: "unit DecideApprovalGroupInput" where
  "demo_group_expiry = \<lparr>group_context = (), group_conversationId = ''c'', group_groupId = ''g'',
     group_targets = [\<lparr>target_proposalId = ''p'', target_expectedVersion = Fin 1,
       target_idempotencyKey = ''expire:p'', target_idempotencyFingerprint = ''f3''\<rparr>],
     group_decision = Expire,
     group_attribution = \<lparr>attributed_actor = \<lparr>actor_type = SystemActor, actor_id = None\<rparr>,
       attributed_source = RuntimeSource\<rparr>,
     group_reason = None, group_aborted = (\<lambda>_. False)\<rparr>"

lemma demo_group_fields:
  "group_decision demo_group_expiry = Expire"
  "\<forall>t\<in>set (group_targets demo_group_expiry). map_get (idempotency demo_group_store) (target_idempotencyKey t) = None"
  by code_simp+

end
