(* ===== verification/ApprovalProperties.thy ===== *)
theory ApprovalProperties
  imports ApprovalScenario
begin

text \<open>
  The properties of approvals: the in-memory proposal store, its agreement with the
  projection of the event log, and the coordinator that writes both.
\<close>

section \<open>The approval store\<close>

text \<open>
  C27. In every state the in-memory approval store can reach, both maps are within their
  limits, every proposal is stored under its id with a well-formed history, and a proposal
  that is confirmed, executing, executed or failed was confirmed by a user or the system
  before its expiry. What is retained for retries is an earlier state of the proposal: a
  path of legal transitions leads from it to the stored one.
\<close>

theorem approval_store_well_formed:
  assumes "(approval_step H opts)\<^sup>*\<^sup>* empty_approval_store S" "resolveLimits a b c d = Some (store_limits opts)"
  shows "length (proposals S) \<le> maxProposals (store_limits opts) \<and>
    length (idempotency S) \<le> maxIdempotencyRecords (store_limits opts) \<and>
    (\<forall>pid p. map_get (proposals S) pid = Some p \<longrightarrow> proposal_id p = pid \<and> proposal_wf p \<and>
      time_less (Date_parse (proposal_created_at p)) (Date_parse (expires_at p)) \<and>
      (proposal_status p \<in> {Confirmed, Executing, Executed, Failed} \<longrightarrow> approved_in_time p)) \<and>
    (\<forall>k r. map_get (idempotency S) k = Some r \<longrightarrow>
      (\<exists>p. map_get (proposals S) (proposal_id (retained_result r)) = Some p \<and>
        proposal_edge\<^sup>*\<^sup>* (retained_result r) p))"
proof -
  have "approval_inv (store_limits opts) S"
    by (rule reachable_approval_inv [OF assms(1) conjunct2 [OF resolveLimits_pos [OF assms(2)]]])
  then show ?thesis unfolding approval_inv_def approval_ok_def by blast
qed

theorem approval_store_well_formed_witness:
  "length (proposals demo_rejected) \<le> 1000 \<and> length (idempotency demo_rejected) \<le> 2000"
  using approval_store_well_formed [OF demo_approvals_reached demo_limits]
  by (simp add: demo_options_def DEFAULT_APPROVAL_PROPOSAL_STORE_LIMITS_def)



text \<open>
  A creation or transition that succeeded can be sent again: as long as its record is
  retained it returns the same proposal, whatever the clock says, and changes nothing.
\<close>

theorem approval_retries_are_idempotent:
  "(create_proposal H opts clock input S = (Inr p, S') \<longrightarrow>
      create_proposal H opts clock' input S' = (Inr p, S')) \<and>
   (transition H opts clock change S = (Inr p, S') \<longrightarrow> transition H opts clock' change S' = (Inr p, S'))"
  using create_again transition_again by blast

theorem approval_retries_are_idempotent_witness:
  "transition demo_host demo_options None demo_reject demo_rejected = (Inr demo_decided, demo_rejected)"
  using approval_retries_are_idempotent demo_reject_run by blast



section \<open>Decisions\<close>

text \<open>
  C31. A decision over reachable in-memory stores keeps the log and the approval store
  together. The host permits it, the approval store takes the transition, and the event's
  identity is free: then it is accepted at the first attempt, exactly one event is appended,
  and where the projection of the log held the proposal as the store did before, both hold
  the decided proposal after.
\<close>

theorem decisions_keep_log_and_store_together:
  assumes "proposalStore opts = memory_approvals H aopts clock" "eventStore opts = memory_store H"
    and "(approval_step H aopts)\<^sup>*\<^sup>* empty_approval_store A" "resolveLimits a1 a2 a3 a4 = Some (store_limits aopts)"
    and "(session_step H (memory_store H))\<^sup>*\<^sup>* empty_event_store S"
    and "resolveCoordinatorLimits c1 c2 c3 c4 = Some (coordinator_limits opts)"
    and "permitted opts input"
    and "transition H aopts (clock n) (decision_transition (snapshot_of input)) A = (Inr q, A')"
    and "map_get (idempotency A) (target_idempotencyKey input) = None"
    and "free_identity (decisionEventId (target_idempotencyKey input)) (entries_of S)"
    and "int (length (log_of S (decide_conversationId input))) < max_safe_integer"
    and "reduceEvents H (createInitialConversationState (Some (decide_conversationId input)))
      (log_of S (decide_conversationId input)) = Inr st"
    and "projected st (target_proposalId input) = map_get (proposals A) (target_proposalId input)"
  shows "\<exists>S' ev st'.
    decide H opts undisturbed input ((n, A), S) =
      (acceptedResult (target_expectedVersion input) q ev EventAppended, (Suc n, A'), S') \<and>
    log_of S' (decide_conversationId input) = log_of S (decide_conversationId input) @ [ev] \<and>
    reduceEvents H (createInitialConversationState (Some (decide_conversationId input)))
      (log_of S' (decide_conversationId input)) = Inr st' \<and>
    projected st' (target_proposalId input) = map_get (proposals A') (target_proposalId input)"
proof -
  let ?change = "decision_transition (snapshot_of input)"
  have "0 < maxIdempotencyRecords (store_limits aopts)" using resolveLimits_pos [OF assms(4)] by blast
  with reachable_retained [OF assms(3)]
  have inv: "approval_inv (store_limits aopts) A" "retained_ok A" "0 < maxIdempotencyRecords (store_limits aopts)"
    by blast+
  have fresh: "map_get (idempotency A) (transition_idempotencyKey ?change) = None"
    using assms(9) by (simp add: decision_transition_def)
  have status: "is_decision (transition_status ?change)" "transition_proposalId ?change = target_proposalId input"
    by (simp_all add: decision_transition_def decision_status)
  have q: "is_decision (proposal_status q)" using transition_status_new [OF assms(8) fresh] status(1) by simp
  have attempts: "0 < maxEventAppendAttempts (coordinator_limits opts)"
    using coordinator_limits_pos(1) [OF assms(6)] .
  have safe: "safe_int (int (length (log_of S (decide_conversationId input))) + 1)"
    using assms(11) by (simp add: safe_int_def max_safe_integer_def)
  have S: "store_inv H S" using memory_session_inv [OF assms(5)] by blast
  obtain S' ev where run:
    "decisionEvent (decide_conversationId input) q (decisionEventId (target_idempotencyKey input))
       (int (length (log_of S (decide_conversationId input))) + 1) = Some ev"
    "decide H opts undisturbed input ((n, A), S) =
       (acceptedResult (target_expectedVersion input) q ev EventAppended, (Suc n, A'), S')"
    "store_inv H S'" "log_of S' (decide_conversationId input) = log_of S (decide_conversationId input) @ [ev]"
    by (rule decision_recorded [OF assms(1,2) inv S attempts assms(7,8) q assms(10) safe])
  from projection_follows [OF run(3,4,1) assms(8) status(1) fresh assms(12)] assms(13) run(2,4) status(2)
  show ?thesis by auto
qed

theorem decisions_keep_log_and_store_together_witness:
  "\<exists>S' ev. decide demo_host demo_coordinator undisturbed demo_decision ((0, demo_created), demo_open_store) =
      (acceptedResult (Fin 1) demo_decided ev EventAppended, (1, demo_rejected), S') \<and>
    log_of S' ''c'' = take 5 demo_log @ [ev]"
proof -
  note keep = decisions_keep_log_and_store_together [where opts = demo_coordinator and H = demo_host and
    aopts = demo_options and clock = "\<lambda>_. Some demo_time" and A = demo_created and S = demo_open_store and
    input = demo_decision and n = 0 and q = demo_decided and A' = demo_rejected and st = demo_before,
    OF demo_stores demo_created_reached demo_limits demo_open_reached demo_coordinator_limits demo_permitted
      _ demo_fresh_key demo_free]
  have "projected demo_before ''p'' = map_get (proposals demo_created) ''p''"
    using demo_before_holds by (simp add: projected_def demo_reject_def)
  then show ?thesis
    using keep by (auto simp: demo_decision_transition demo_reject_run demo_decision_fields demo_open_log
        demo_before_fold demo_log_length max_safe_integer_def)
qed

text \<open>
  C32. An accepted decision is in the log, whatever approval store the host provides and
  whatever other clients append while it runs: the host had permitted exactly this decision,
  the approval store returned the decided proposal, the log has only grown, and the reported
  identity and revision are those of an event of the log that stands for the decision.
\<close>

theorem accepted_decisions_are_logged:
  assumes "eventStore opts = memory_store H" "(session_step H (memory_store H))\<^sup>*\<^sup>* empty_event_store S"
    and "resolveCoordinatorLimits c1 c2 c3 c4 = Some (coordinator_limits opts)"
    and "\<And>pt. only_append (store_inv H) entries_of (others_events others pt)"
    and "decide H opts others input (p, S) = (Accepted a, p', S')"
  shows "permitted opts input \<and>
    prefix (entries_of S (decide_conversationId input)) (entries_of S' (decide_conversationId input)) \<and>
    (\<exists>q. approvals_transition (proposalStore opts) (decision_transition (snapshot_of input))
        (others_approvals others (AtTransition (target_proposalId input)) p) = (Inr q, p') \<and>
      accepted_decision a = proposal_status q \<and> accepted_proposalId a = proposal_id q \<and>
      accepted_proposalVersion a = proposal_version q \<and>
      (\<exists>ev\<in>set (log_of S' (decide_conversationId input)). records_decision H (decide_conversationId input) q ev \<and>
        accepted_eventId a = event_id ev \<and> accepted_eventRevision a = event_revision ev))"
proof -
  have "store_inv H S" using memory_session_inv [OF assms(2)] by blast
  from accepted_logged [OF assms(1) this coordinator_limits_pos(2) [OF assms(3)] assms(4,5)]
  obtain q ev where "permitted opts input"
    "approvals_transition (proposalStore opts) (decision_transition (snapshot_of input))
      (others_approvals others (AtTransition (target_proposalId input)) p) = (Inr q, p')"
    "ev \<in> set (log_of S' (decide_conversationId input))" "records_decision H (decide_conversationId input) q ev"
    "Accepted a = acceptedResult (target_expectedVersion input) q ev (accepted_eventStatus a)"
    "prefix (entries_of S (decide_conversationId input)) (entries_of S' (decide_conversationId input))" .
  moreover from this(5) have "accepted_decision a = proposal_status q" "accepted_proposalId a = proposal_id q"
    "accepted_proposalVersion a = proposal_version q" "accepted_eventId a = event_id ev"
    "accepted_eventRevision a = event_revision ev"
    by (cases a, simp add: acceptedResult_def)+
  ultimately show ?thesis by blast
qed

theorem accepted_decisions_are_logged_witness:
  "\<exists>a p' S' ev. decide demo_host demo_coordinator undisturbed demo_decision ((0, demo_created), demo_open_store) =
      (Accepted a, p', S') \<and> ev \<in> set (log_of S' ''c'') \<and> accepted_eventId a = event_id ev"
proof (rule demo_decide)
  fix a p' S'
  assume run: "decide demo_host demo_coordinator undisturbed demo_decision ((0, demo_created), demo_open_store) =
    (Accepted a, p', S')"
  have "eventStore demo_coordinator = memory_store demo_host" by (simp add: demo_coordinator_def)
  from accepted_decisions_are_logged [OF this demo_open_reached demo_coordinator_limits undisturbed_appends run] run
  show ?thesis by (auto simp: demo_decision_def)
qed

text \<open>
  A decision that was recorded and is sent again, whatever was appended in between and
  is appended meanwhile, is answered with the same event at the same revision, reported as
  reconciled, and the approval store stays as it is. The event has to lie within the pages
  the reconciliation reads, and the log must be able to grow.
\<close>

theorem decision_retry_finds_its_event:
  assumes "proposalStore opts = memory_approvals H aopts clock" "eventStore opts = memory_store H"
    and "(approval_step H aopts)\<^sup>*\<^sup>* empty_approval_store A" "resolveLimits a1 a2 a3 a4 = Some (store_limits aopts)"
    and "(session_step H (memory_store H))\<^sup>*\<^sup>* empty_event_store S"
    and "resolveCoordinatorLimits c1 c2 c3 c4 = Some (coordinator_limits opts)"
    and "\<And>pt. only_append (store_inv H) entries_of (others_events others pt)" "others_approvals others = (\<lambda>_ p. p)"
    and "permitted opts input"
    and "transition H aopts now (decision_transition (snapshot_of input)) A0 = (Inr q, A)" "is_decision (proposal_status q)"
    and "decisionEvent (decide_conversationId input) q (decisionEventId (target_idempotencyKey input)) r = Some ev"
    and "log_of S (decide_conversationId input) = before @ ev # later"
    and "length before < maxReconciliationPages (coordinator_limits opts) * reconciliationPageSize (coordinator_limits opts)"
    and "decide H opts others input ((n, A), S) = (out, world, S')"
    and "int (length (log_of S' (decide_conversationId input))) < max_safe_integer"
  shows "out = acceptedResult (target_expectedVersion input) q ev EventReconciled \<and> world = (Suc n, A)"
proof -
  let ?c = "decide_conversationId input"
  have "0 < maxIdempotencyRecords (store_limits aopts)" using resolveLimits_pos [OF assms(4)] by blast
  with reachable_retained [OF assms(3)]
  have inv: "approval_inv (store_limits aopts) A" "retained_ok A" "0 < maxIdempotencyRecords (store_limits aopts)"
    by blast+
  have S: "store_inv H S" using memory_session_inv [OF assms(5)] by blast
  have len: "length (entries_of S ?c) = length before + Suc (length later)"
    using arg_cong [OF assms(13), of length] by simp
  then have at: "length before < length (entries_of S ?c)" "event (entries_of S ?c ! length before) = ev"
    using arg_cong [OF assms(13), of "\<lambda>l. l ! length before"] by simp_all
  have safe: "safe_int (int (length (log_of S' ?c)) + 1)"
    using assms(16) by (simp add: safe_int_def max_safe_integer_def)
  show ?thesis
    by (rule decision_again [OF assms(1,2) inv S coordinator_limits_pos [OF assms(6)] assms(7,8,9,10,11,12)
          at assms(14,15) safe])
qed

theorem decision_retry_finds_its_event_witness:
  "\<exists>S'. decide demo_host demo_coordinator undisturbed demo_decision ((1, demo_rejected), demo_closed_store) =
     (acceptedResult (Fin 1) demo_decided demo_decision_event EventReconciled, (2, demo_rejected), S')"
proof -
  obtain out world S' where run: "decide demo_host demo_coordinator undisturbed demo_decision
      ((1, demo_rejected), demo_closed_store) = (out, world, S')" by (metis surj_pair)
  have len: "int (length (log_of S' ''c'')) < max_safe_integer"
    using demo_again_length unfolding run by (simp add: max_safe_integer_def)
  have decided: "is_decision (proposal_status demo_decided)" by (simp add: demo_decided_status is_decision_def)
  have t: "transition demo_host demo_options (Some demo_time) (decision_transition (snapshot_of demo_decision)) demo_created =
      (Inr demo_decided, demo_rejected)"
    by (simp add: demo_decision_transition demo_reject_run)
  have "length (take 5 demo_log) < maxReconciliationPages (coordinator_limits demo_coordinator) *
      reconciliationPageSize (coordinator_limits demo_coordinator)"
    by (simp add: demo_coordinator_def DEFAULT_APPROVAL_COORDINATOR_LIMITS_def)
  with decision_retry_finds_its_event [where later = "[]" and before = "take 5 demo_log" and r = 6,
      OF demo_stores demo_approvals_reached demo_limits demo_closed_reached
      demo_coordinator_limits undisturbed_appends _ demo_permitted t decided _ _ _ run] demo_decision_event len
  have "out = acceptedResult (Fin 1) demo_decided demo_decision_event EventReconciled \<and> world = (Suc 1, demo_rejected)"
    by (simp add: demo_decision_fields demo_closed_log decisionEventId_def undisturbed_def)
  with run show ?thesis by auto
qed

text \<open>
  C34. A decision survives interference. Other clients append what they like while it runs,
  as long as they do not take the identity of its event; if they leave the conversation
  alone during just one of its attempts, the decision is accepted, unless the log has
  reached the last safe revision.
\<close>

theorem decisions_survive_interference:
  assumes "proposalStore opts = memory_approvals H aopts clock" "eventStore opts = memory_store H"
    and "(approval_step H aopts)\<^sup>*\<^sup>* empty_approval_store A" "resolveLimits a1 a2 a3 a4 = Some (store_limits aopts)"
    and "(session_step H (memory_store H))\<^sup>*\<^sup>* empty_event_store S"
    and "resolveCoordinatorLimits c1 c2 c3 c4 = Some (coordinator_limits opts)"
    and "\<And>pt. only_append (store_inv H) entries_of (others_events others pt)" "others_approvals others = (\<lambda>_ p. p)"
    and "permitted opts input"
    and "transition H aopts (clock n) (decision_transition (snapshot_of input)) A = (Inr q, A')" "is_decision (proposal_status q)"
    and "eid = decisionEventId (target_idempotencyKey input)" "free_identity eid (entries_of S)"
    and "\<And>pt s. store_inv H s \<Longrightarrow> free_identity eid (entries_of s) \<Longrightarrow> free_identity eid (entries_of (others_events others pt s))"
    and "i < maxEventAppendAttempts (coordinator_limits opts)"
    and "\<And>s. store_inv H s \<Longrightarrow>
      getLatestRevision (decide_conversationId input) (others_events others (AtAppend (target_proposalId input) i) s) =
      getLatestRevision (decide_conversationId input) s"
    and "decide H opts others input ((n, A), S) = (out, world, S')"
    and "int (length (log_of S' (decide_conversationId input))) < max_safe_integer"
  shows "\<exists>a. out = Accepted a"
proof -
  let ?c = "decide_conversationId input"
  have "0 < maxIdempotencyRecords (store_limits aopts)" using resolveLimits_pos [OF assms(4)] by blast
  with reachable_retained [OF assms(3)]
  have q: "decision_ok q" using transition_retained(2) [OF _ _ _ assms(10) refl assms(11)] by blast
  have S: "store_inv H S" using memory_session_inv [OF assms(5)] by blast
  have valid: "isDecisionInput input" using assms(9) by (simp add: permitted_def)
  have "approvals_transition (proposalStore opts) (decision_transition (snapshot_of input))
      (others_approvals others (AtTransition (target_proposalId input)) (n, A)) = (Inr q, Suc n, A')"
    by (simp add: assms(1,8) memory_transition assms(10))
  from decide_permitted [OF assms(9) this assms(11), of H S] assms(17)
  have app: "append_attempts H (memory_store H) (others_events others) (coordinator_limits opts) (snapshot_of input) q
      (maxEventAppendAttempts (coordinator_limits opts)) 0 S = (out, S')"
    by (auto simp: case_prod_beta prod_eq_iff appendDecisionEvent_def assms(2))
  have quiet: "store_latest (memory_store H) ?c
      (others_events others (AtAppend (target_proposalId (snapshot_of input)) (0 + i)) s) = store_latest (memory_store H) ?c s"
    if "store_inv H s" for s
    using assms(16) [OF that] by (simp add: memory_store_def)
  have "(\<exists>a. out = Accepted a) \<or> \<not> safe_int (int (length (entries_of S' ?c)) + 1)"
    by (rule memory.append_attempts_recorded [where eid = eid and c = ?c and i = i, OF S coordinator_limits_pos(2) [OF assms(6)] assms(7,14)
          _ _ q assms(11) decision_identifiers(1) [OF valid] _ quiet assms(15,13) app])
      (simp_all add: assms(12) decision_identifiers(2) [OF valid])
  with assms(18) show ?thesis by (simp add: safe_int_def max_safe_integer_def)
qed

theorem decisions_survive_interference_witness:
  "\<exists>a world S'. decide demo_host demo_coordinator demo_rival demo_decision ((0, demo_created), demo_open_store) =
     (Accepted a, world, S')"
proof -
  obtain out world S' where run: "decide demo_host demo_coordinator demo_rival demo_decision
      ((0, demo_created), demo_open_store) = (out, world, S')" by (metis surj_pair)
  have len: "int (length (log_of S' ''c'')) < max_safe_integer"
    using demo_rival_length unfolding run by (simp add: max_safe_integer_def)
  have decided: "is_decision (proposal_status demo_decided)" by (simp add: demo_decided_status is_decision_def)
  have t: "transition demo_host demo_options (Some demo_time) (decision_transition (snapshot_of demo_decision)) demo_created =
      (Inr demo_decided, demo_rejected)"
    by (simp add: demo_decision_transition demo_reject_run)
  have "1 < maxEventAppendAttempts (coordinator_limits demo_coordinator)"
    by (simp add: demo_coordinator_def DEFAULT_APPROVAL_COORDINATOR_LIMITS_def)
  from decisions_survive_interference [OF demo_stores demo_created_reached demo_limits demo_open_reached
      demo_coordinator_limits demo_rival_appends demo_rival_approvals demo_permitted t decided refl demo_free
      demo_rival_free this _ run] len
  have "\<exists>a. out = Accepted a" by (simp add: demo_decision_fields demo_rival_quiet)
  with run show ?thesis by auto
qed



end
