(* ===== verification/DualWrite.thy ===== *)
theory DualWrite
  imports EventStoreInvariants
begin

text \<open>
  Writing to two event stores (src/conversation/dual-write-event-store.ts): the primary is
  authoritative, the shadow follows it as far as it can and its failures are reported. The
  stores are interfaces; the state is the pair of theirs and the reports handed to
  \<open>onShadowError\<close>. Reconciliation compares the two logs of a conversation and appends to
  the shadow what it misses.
\<close>

section \<open>The adapter\<close>

datatype ShadowOperation = ShadowAppend | ShadowCheckpoint

record ('p, 's) DualWriteState =
  primary_state :: 'p
  shadow_state :: 's
  shadow_errors :: "(ShadowOperation \<times> string) list"

text \<open>The page size of the constructor: a safe integer from 1 to 1000, 100 by default.\<close>

definition resolvePageSize :: "jsnumber option \<Rightarrow> nat option" where
  "resolvePageSize override =
     (let n = (case override of None \<Rightarrow> Fin 100 | Some n \<Rightarrow> n)
      in if isSafeInteger n \<and> 1 \<le> int_of_number n \<and> int_of_number n \<le> 1000
         then Some (nat (int_of_number n)) else None)"

definition report_shadow :: "ShadowOperation \<Rightarrow> string \<Rightarrow> ('p, 's) DualWriteState \<Rightarrow> ('p, 's) DualWriteState" where
  "report_shadow operation c w = w\<lparr>shadow_errors := shadow_errors w @ [(operation, c)]\<rparr>"

definition dual_append ::
    "'p ConversationEventStore \<Rightarrow> 's ConversationEventStore \<Rightarrow> AppendConversationEventsInput \<Rightarrow>
     ('p, 's) DualWriteState \<Rightarrow> EventStoreError + ('p, 's) DualWriteState \<times> AppendConversationEventsResult" where
  "dual_append primary shadow input w =
     (case store_append primary input (primary_state w) of
        Inl e \<Rightarrow> Inl e
      | Inr (p, result) \<Rightarrow>
          (let w' = w\<lparr>primary_state := p\<rparr> in
           case store_append shadow input (shadow_state w) of
             Inl _ \<Rightarrow> Inr (report_shadow ShadowAppend (append_conversationId input) w', result)
           | Inr (s, _) \<Rightarrow> Inr (w'\<lparr>shadow_state := s\<rparr>, result)))"

definition dual_writeCheckpoint ::
    "'p ConversationEventCheckpointStore \<Rightarrow> 's ConversationEventStore \<Rightarrow> ConversationEventCheckpoint \<Rightarrow>
     ('p, 's) DualWriteState \<Rightarrow>
     EventStoreError + ('p, 's) DualWriteState \<times> WriteConversationEventCheckpointResult" where
  "dual_writeCheckpoint primary shadow cp w =
     (case checkpoint_write primary cp (primary_state w) of
        Inl e \<Rightarrow> Inl e
      | Inr (p, result) \<Rightarrow>
          (let w' = w\<lparr>primary_state := p\<rparr> in
           case checkpoints shadow of
             None \<Rightarrow> Inr (w', result)
           | Some cps \<Rightarrow>
               (case checkpoint_write cps cp (shadow_state w) of
                  Inl _ \<Rightarrow> Inr (report_shadow ShadowCheckpoint (checkpoint_conversationId cp) w', result)
                | Inr (s, _) \<Rightarrow> Inr (w'\<lparr>shadow_state := s\<rparr>, result))))"

definition dual_checkpoints ::
    "'p ConversationEventCheckpointStore \<Rightarrow> 's ConversationEventStore \<Rightarrow>
     ('p, 's) DualWriteState ConversationEventCheckpointStore" where
  "dual_checkpoints primary shadow =
     \<lparr>checkpoint_read = (\<lambda>c w. checkpoint_read primary c (primary_state w)),
      checkpoint_write = dual_writeCheckpoint primary shadow\<rparr>"

definition DualWriteConversationEventStore ::
    "'p ConversationEventStore \<Rightarrow> 's ConversationEventStore \<Rightarrow> ('p, 's) DualWriteState ConversationEventStore" where
  "DualWriteConversationEventStore primary shadow =
     \<lparr>checkpoints = map_option (\<lambda>cps. dual_checkpoints cps shadow) (checkpoints primary),
      store_append = dual_append primary shadow,
      store_read = (\<lambda>input w. store_read primary input (primary_state w)),
      store_latest = (\<lambda>c w. store_latest primary c (primary_state w))\<rparr>"

section \<open>Reconciliation\<close>

text \<open>The loop of \<open>all\<close>: pages behind the last revision read.\<close>

partial_function (option) read_all ::
    "'s ConversationEventStore \<Rightarrow> nat \<Rightarrow> string \<Rightarrow> 's \<Rightarrow> int option \<Rightarrow> StoredConversationEvent list \<Rightarrow>
     (EventStoreError + StoredConversationEvent list) option" where
  [code]: "read_all store n c s behind acc =
     (case store_read store \<lparr>read_conversationId = c, read_after = map_option AfterRevision behind,
             read_limit = Some (Fin (of_nat n))\<rparr> s of
        Inl e \<Rightarrow> Some (Inl e)
      | Inr page \<Rightarrow>
          (let acc' = acc @ read_entries page in
           if \<not> hasMore page \<or> read_entries page = [] then Some (Inr acc')
           else read_all store n c s (Some (event_revision (event (last (read_entries page))))) acc'))"

datatype ConversationEventReconciliationResult = Converged nat "int option" | Divergent int string string

text \<open>\<open>batch[0].revision - 1 || null\<close>: zero counts as no revision.\<close>

definition shadow_expected :: "ConversationEvent \<Rightarrow> int option" where
  "shadow_expected ev = (if event_revision ev - 1 = 0 then None else Some (event_revision ev - 1))"

text \<open>The repair appends batches of a page; one that is refused stops it where it is.\<close>

function repair_shadow ::
    "'s ConversationEventStore \<Rightarrow> nat \<Rightarrow> string \<Rightarrow> ConversationEvent list \<Rightarrow> 's \<Rightarrow>
     (EventStoreError + unit) \<times> 's" where
  "repair_shadow shadow n c missing s =
     (if missing = [] \<or> n = 0 then (Inr (), s)
      else (case store_append shadow \<lparr>append_conversationId = c,
                   append_expectedRevision = shadow_expected (hd missing), append_events = take n missing\<rparr> s of
              Inl e \<Rightarrow> (Inl e, s)
            | Inr (s', _) \<Rightarrow> repair_shadow shadow n c (drop n missing) s'))"
  by pat_completeness auto

termination by (relation "measure (\<lambda>(shadow, n, c, missing, s). length missing)") auto

declare repair_shadow.simps [simp del]

definition events_differ :: "ConversationEvent \<Rightarrow> ConversationEvent \<Rightarrow> bool" where
  "events_differ left right \<longleftrightarrow> \<not> jsonValuesEqual (event_json left) (event_json right)"

definition reconcile_logs ::
    "'s ConversationEventStore \<Rightarrow> nat \<Rightarrow> string \<Rightarrow> ConversationEvent list \<Rightarrow> ConversationEvent list \<Rightarrow> 's \<Rightarrow>
     (EventStoreError + ConversationEventReconciliationResult) \<times> 's" where
  "reconcile_logs shadow n c primary_log shadow_log s =
     (case find_index (\<lambda>(left, right). events_differ left right) (zip primary_log shadow_log) of
        Some i \<Rightarrow> (Inr (Divergent (event_revision (primary_log ! i)) (event_id (primary_log ! i))
                          (event_id (shadow_log ! i))), s)
      | None \<Rightarrow>
          if length shadow_log > length primary_log
          then (let left = (if primary_log = [] then shadow_log ! length primary_log else last primary_log)
                in (Inr (Divergent (event_revision left) (event_id left)
                          (event_id (shadow_log ! length primary_log))), s))
          else (let missing = drop (length shadow_log) primary_log in
                case repair_shadow shadow n c missing s of
                  (Inl e, s') \<Rightarrow> (Inl e, s')
                | (Inr _, s') \<Rightarrow> (Inr (Converged (length missing)
                    (if primary_log = [] then None else Some (event_revision (last primary_log)))), s')))"

text \<open>None: one of the reads goes on for ever.\<close>

definition reconcile ::
    "'p ConversationEventStore \<Rightarrow> 's ConversationEventStore \<Rightarrow> nat \<Rightarrow> string \<Rightarrow> ('p, 's) DualWriteState \<Rightarrow>
     ((EventStoreError + ConversationEventReconciliationResult) \<times> ('p, 's) DualWriteState) option" where
  "reconcile primary shadow n c w =
     (case read_all primary n c (primary_state w) None [] of
        None \<Rightarrow> None
      | Some (Inl e) \<Rightarrow> Some (Inl e, w)
      | Some (Inr ps) \<Rightarrow>
          (case read_all shadow n c (shadow_state w) None [] of
             None \<Rightarrow> None
           | Some (Inl e) \<Rightarrow> Some (Inl e, w)
           | Some (Inr ss) \<Rightarrow>
               (let (out, s) = reconcile_logs shadow n c (map event ps) (map event ss) (shadow_state w)
                in Some (out, w\<lparr>shadow_state := s\<rparr>))))"

section \<open>The primary's contract\<close>

text \<open>Whatever the shadow is, a store that writes to both is a store like its primary.\<close>

locale dual_writer = primary: retrying_writer H okp storedp primary
  for H okp storedp and primary :: "'p ConversationEventStore" +
  fixes shadow :: "'s ConversationEventStore"

lemma dual_simps [simp]:
  "store_read (DualWriteConversationEventStore primary shadow) input w = store_read primary input (primary_state w)"
  "store_latest (DualWriteConversationEventStore primary shadow) c w = store_latest primary c (primary_state w)"
  "store_append (DualWriteConversationEventStore primary shadow) = dual_append primary shadow"
  by (simp_all add: DualWriteConversationEventStore_def)

text \<open>The result is the primary's, its state is what the primary makes of it.\<close>

lemma dual_append_primary:
  "dual_append primary shadow input w = Inl e \<longleftrightarrow> store_append primary input (primary_state w) = Inl e"
  "dual_append primary shadow input w = Inr (w', result) \<Longrightarrow>
     store_append primary input (primary_state w) = Inr (primary_state w', result)"
  by (auto simp: dual_append_def report_shadow_def Let_def split: sum.splits)

lemma dual_append_shadow:
  assumes "dual_append primary shadow input w = Inr (w', result)"
  shows "(case store_append shadow input (shadow_state w) of
      Inl _ \<Rightarrow> shadow_state w' = shadow_state w \<and>
        shadow_errors w' = shadow_errors w @ [(ShadowAppend, append_conversationId input)]
    | Inr (s, _) \<Rightarrow> shadow_state w' = s \<and> shadow_errors w' = shadow_errors w)"
  using assms by (auto simp: dual_append_def report_shadow_def Let_def split: sum.splits)

sublocale dual_writer \<subseteq> dual: event_reader H "\<lambda>w. okp (primary_state w)" "\<lambda>w. storedp (primary_state w)"
    "DualWriteConversationEventStore primary shadow"
  by unfold_locales
    (simp_all add: primary.stored_log primary.stored_accepted primary.stored_event_ids primary.stored_mutation_ids
      primary.stored_cursors primary.latest_law primary.read_start primary.read_cursor primary.read_revision
      del: map_map)

sublocale dual_writer \<subseteq> dual: event_writer H "\<lambda>w. okp (primary_state w)" "\<lambda>w. storedp (primary_state w)"
    "DualWriteConversationEventStore primary shadow"
proof unfold_locales
  fix w w' :: "('p, 's) DualWriteState" and input res
  assume "okp (primary_state w)" "store_append (DualWriteConversationEventStore primary shadow) input w = Inr (w', res)"
  then show "okp (primary_state w') \<and>
      (if append_status res = Appended
       then append_expectedRevision input =
           store_latest (DualWriteConversationEventStore primary shadow) (append_conversationId input) w \<and>
         map event (append_entries res) = append_events input \<and>
         storedp (primary_state w') = (storedp (primary_state w))(append_conversationId input :=
           storedp (primary_state w) (append_conversationId input) @ append_entries res)
       else storedp (primary_state w') = storedp (primary_state w) \<and>
         set (append_entries res) \<subseteq> set (storedp (primary_state w) (append_conversationId input)) \<and>
         list_all2 (\<lambda>e ev. event_revision (event e) = event_revision ev \<and>
             (jsonEqual (event_json (event e)) (event_json ev) \<or> sameClientMutation (event e) ev))
           (append_entries res) (append_events input))"
    using primary.append_law [of "primary_state w" input "primary_state w'" res]
    by (simp add: dual_append_primary(2))
qed

sublocale dual_writer \<subseteq> dual: retrying_writer H "\<lambda>w. okp (primary_state w)" "\<lambda>w. storedp (primary_state w)"
    "DualWriteConversationEventStore primary shadow"
proof unfold_locales
  fix w :: "('p, 's) DualWriteState" and ev c r
  assume ok: "okp (primary_state w)" and ev: "accepted_event H ev" "event_conversation_id ev = c"
    "event_revision ev = revision_or_zero r + 1"
  let ?input = "\<lparr>append_conversationId = c, append_expectedRevision = r, append_events = [ev]\<rparr>"
  have result: "dual_append primary shadow ?input w = Inl e" if "store_append primary ?input (primary_state w) = Inl e" for e
    using that by (simp only: dual_append_primary(1))
  show "case store_append (DualWriteConversationEventStore primary shadow) ?input w of Inr _ \<Rightarrow> True
       | Inl (Conflict d) \<Rightarrow>
           conflict_code d = RevisionConflict \<and>
             r \<noteq> store_latest (DualWriteConversationEventStore primary shadow) c w \<or>
           conflict_code d = IdempotencyConflict \<and> identity_taken (storedp (primary_state w)) ev
       | Inl _ \<Rightarrow> False"
    using primary.single_append [OF ok ev]
    by (cases "store_append primary ?input (primary_state w)"; cases "dual_append primary shadow ?input w")
      (simp_all only: dual_simps sum.case result sum.inject dual_append_primary(1) sum.distinct)
  fix e
  assume "e \<in> set (storedp (primary_state w) c)" "event_id (event e) = event_id ev"
    "event_revision (event e) \<noteq> event_revision ev"
  from primary.known_event [OF ok ev this]
  show "\<exists>d. store_append (DualWriteConversationEventStore primary shadow) ?input w = Inl (Conflict d) \<and>
      conflict_code d = IdempotencyConflict"
    by (simp add: dual_append_primary(1))
qed

text \<open>With checkpoints in the primary, the pair is a checkpoint store as well.\<close>

locale dual_checkpointed = dual_writer H okp storedp primary shadow + primary: checkpointed_store H okp storedp primary cps
  for H okp storedp and primary :: "'p ConversationEventStore" and shadow :: "'s ConversationEventStore" and cps

lemma dual_writeCheckpoint_primary:
  "dual_writeCheckpoint cps shadow cp w = Inr (w', res) \<Longrightarrow>
     checkpoint_write cps cp (primary_state w) = Inr (primary_state w', res)"
  by (auto simp: dual_writeCheckpoint_def report_shadow_def Let_def split: sum.splits option.splits)

sublocale dual_checkpointed \<subseteq> dual: checkpointed_store H "\<lambda>w. okp (primary_state w)"
    "\<lambda>w. storedp (primary_state w)" "DualWriteConversationEventStore primary shadow" "dual_checkpoints cps shadow"
proof unfold_locales
  show "checkpoints (DualWriteConversationEventStore primary shadow) = Some (dual_checkpoints cps shadow)"
    by (simp add: DualWriteConversationEventStore_def primary.checkpoints_law)
next
  fix w w' :: "('p, 's) DualWriteState" and cp res
  assume "okp (primary_state w)" "checkpoint_write (dual_checkpoints cps shadow) cp w = Inr (w', res)"
  then have "okp (primary_state w)" "checkpoint_write cps cp (primary_state w) = Inr (primary_state w', res)"
    by (simp_all add: dual_checkpoints_def dual_writeCheckpoint_primary)
  from primary.write_law [OF this]
  show "okp (primary_state w') \<and> storedp (primary_state w') = storedp (primary_state w) \<and>
      (write_status res = Written \<longrightarrow> written_checkpoint res = cp) \<and>
      (write_status res = IdempotentWrite \<longrightarrow> checkpoint_read (dual_checkpoints cps shadow)
        (checkpoint_conversationId cp) w = Some (written_checkpoint res)) \<and>
      (\<forall>c. checkpoint_read (dual_checkpoints cps shadow) c w' = (if c = checkpoint_conversationId cp
        then Some (written_checkpoint res) else checkpoint_read (dual_checkpoints cps shadow) c w))"
    by (simp add: dual_checkpoints_def)
next
  fix w w' :: "('p, 's) DualWriteState" and input r c
  assume "okp (primary_state w)" "store_append (DualWriteConversationEventStore primary shadow) input w = Inr (w', r)"
  then show "checkpoint_read (dual_checkpoints cps shadow) c w' = checkpoint_read (dual_checkpoints cps shadow) c w"
    using primary.append_keeps_checkpoints [of "primary_state w" input "primary_state w'" r c]
    by (simp add: dual_checkpoints_def dual_append_primary(2))
qed

section \<open>Reading a whole log\<close>

lemma find_index_pairs_None:
  "find_index (\<lambda>(x, y). P x y) (zip xs ys) = None \<longleftrightarrow>
     list_all2 (\<lambda>x y. \<not> P x y) (take (length ys) xs) (take (length xs) ys)"
  by (auto simp: find_index_None_iff list_all2_conv_all_nth set_zip min_def)

context event_reader
begin

lemma read_page:
  assumes ok: "store_ok s" and n: "0 < n" "safe_int (int n)" and k: "k \<le> length (stored s c)"
    and behind: "behind = (if k = 0 then None else Some (int k))"
  shows "store_read adapter \<lparr>read_conversationId = c, read_after = map_option AfterRevision behind,
      read_limit = Some (Fin (of_nat n))\<rparr> s = Inr (page_of (stored s c) k (Some n))"
proof -
  have l: "positive_limit (Some (Fin (of_nat n)))" "limit_nat (Some (Fin (of_nat n))) = Some n"
    using n by (auto simp: positive_limit_def limit_nat_def)
  show ?thesis
    using read_start [OF ok l(1), of c] read_revision [OF ok l(1), of "int k" c] by (simp add: behind l(2))
qed

lemma read_all_from:
  assumes ok: "store_ok s" and n: "0 < n" "safe_int (int n)" and "k \<le> length (stored s c)"
  shows "read_all adapter n c s (if k = 0 then None else Some (int k)) (take k (stored s c)) =
    Some (Inr (stored s c))"
  using assms(4)
proof (induction "length (stored s c) - k" arbitrary: k rule: less_induct)
  case less
  let ?all = "stored s c"
  let ?page = "page_of ?all k (Some n)"
  have page: "read_entries ?page = take n (drop k ?all)" "hasMore ?page \<longleftrightarrow> n < length ?all - k"
    by (auto simp: page_of_def Let_def)
  have acc: "take k ?all @ take n (drop k ?all) = take (k + n) ?all" by (simp add: take_add)
  note step = read_all.simps [of adapter n c s _ "take k ?all"] read_page [OF ok n less.prems refl] page acc
  show ?case
  proof (cases "n < length ?all - k")
    case True
    then have "take n (drop k ?all) \<noteq> []" using n(1) by simp
    moreover have "event_revision (event (last (take n (drop k ?all)))) = int (k + n)"
    proof -
      have "last (take n (drop k ?all)) = ?all ! (k + n - 1)"
        using True n(1) by (simp add: last_conv_nth add.commute)
      then show ?thesis
        using True n(1) log_from_nth [OF stored_log [OF ok], of "k + n - 1" c] by (simp add: of_nat_diff)
    qed
    ultimately have "read_all adapter n c s (if k = 0 then None else Some (int k)) (take k ?all) =
        read_all adapter n c s (if k + n = 0 then None else Some (int (k + n))) (take (k + n) ?all)"
      using True n(1) by (simp add: step)
    with less.hyps [of "k + n"] True n(1) show ?thesis by simp
  next
    case False
    then show ?thesis by (simp add: step)
  qed
qed

lemma read_all_returns:
  "store_ok s \<Longrightarrow> 0 < n \<Longrightarrow> safe_int (int n) \<Longrightarrow> read_all adapter n c s None [] = Some (Inr (stored s c))"
  using read_all_from [of s n 0 c] by simp

end

section \<open>Repairing the shadow\<close>

context event_writer
begin

lemma append_behind:
  assumes ok: "store_ok s" and app: "store_append adapter input s = Inr (s', res)"
    and log: "log_from c (1 + int (length (stored s c))) (append_events input)" "append_events input \<noteq> []"
    and c: "append_conversationId input = c"
  shows "store_ok s'" "map event (append_entries res) = append_events input"
    "stored s' = (stored s)(c := stored s c @ append_entries res)"
proof -
  note law = append_law [OF ok app, unfolded c]
  have "append_status res = Appended"
  proof (rule ccontr)
    assume retry: "append_status res \<noteq> Appended"
    obtain ev evs where ev: "append_events input = ev # evs" using log(2) by (cases "append_events input") auto
    with law retry obtain e where "e \<in> set (stored s c)" "event_revision (event e) = event_revision ev"
      by (auto simp: list_all2_Cons2)
    then obtain i where "i < length (stored s c)" "event_revision (event (stored s c ! i)) = event_revision ev"
      by (auto simp: in_set_conv_nth)
    with log_from_nth [OF stored_log [OF ok], of i c] log(1) ev show False by simp
  qed
  with law show "store_ok s'" "map event (append_entries res) = append_events input"
    "stored s' = (stored s)(c := stored s c @ append_entries res)" by simp_all
qed

lemma repair_shadow_appends:
  assumes "store_ok s" "0 < n" "log_from c (1 + int (length (stored s c))) missing"
    and "repair_shadow adapter n c missing s = (out, s')"
  shows "store_ok s' \<and> (\<exists>k\<le>length missing. log s' c = log s c @ take k missing \<and>
      (out = Inr () \<longleftrightarrow> k = length missing)) \<and> (\<forall>c'. c' \<noteq> c \<longrightarrow> stored s' c' = stored s c')"
  using assms
proof (induction "length missing" arbitrary: missing s rule: less_induct)
  case less
  show ?case
  proof (cases "missing = []")
    case True
    then show ?thesis using less.prems by (auto simp: repair_shadow.simps)
  next
    case False
    let ?input = "\<lparr>append_conversationId = c, append_expectedRevision = shadow_expected (hd missing),
        append_events = take n missing\<rparr>"
    show ?thesis
    proof (cases "store_append adapter ?input s")
      case (Inl e)
      then show ?thesis using False less.prems by (auto simp: repair_shadow.simps intro!: exI [of _ 0])
    next
      case (Inr r)
      obtain s2 res where app: "store_append adapter ?input s = Inr (s2, res)" using Inr by (cases r) auto
      have split: "missing = take n missing @ drop n missing" by simp
      have logs: "log_from c (1 + int (length (stored s c))) (take n missing)"
        "log_from c (1 + int (length (stored s c)) + int (length (take n missing))) (drop n missing)"
        using less.prems(3) by (metis split log_from_append)+
      from append_behind [OF less.prems(1) app] logs(1) False less.prems(2)
      have s2: "store_ok s2" "map event (append_entries res) = take n missing"
        "stored s2 = (stored s)(c := stored s c @ append_entries res)" by simp_all
      then have "length (stored s2 c) = length (stored s c) + length (take n missing)"
        by (metis fun_upd_same length_append length_map)
      then have rest: "log_from c (1 + int (length (stored s2 c))) (drop n missing)"
        using logs(2) by (simp add: algebra_simps)
      have "repair_shadow adapter n c (drop n missing) s2 = (out, s')"
        using less.prems(2,4) False app by (subst (asm) repair_shadow.simps) simp
      from less.hyps [OF _ s2(1) less.prems(2) rest this] False less.prems(2)
      obtain k where k: "store_ok s'" "k \<le> length (drop n missing)" "log s' c = log s2 c @ take k (drop n missing)"
        "out = Inr () \<longleftrightarrow> k = length (drop n missing)" "\<forall>c'. c' \<noteq> c \<longrightarrow> stored s' c' = stored s2 c'"
        by auto
      have "log s' c = log s c @ take (min n (length missing) + k) missing"
        using k(2,3) s2(2,3) by (auto simp: take_add min_def)
      moreover have "min n (length missing) + k \<le> length missing"
        "out = Inr () \<longleftrightarrow> min n (length missing) + k = length missing" using k(2,4) by auto
      ultimately show ?thesis using k(1,5) s2(3) by (auto intro!: exI [of _ "min n (length missing) + k"])
    qed
  qed
qed

end

section \<open>Reconciliation\<close>

lemma resolvePageSize_bounds:
  "resolvePageSize override = Some n \<Longrightarrow> 0 < n \<and> n \<le> 1000 \<and> safe_int (int n)"
  by (auto simp: resolvePageSize_def Let_def safe_int_def max_safe_integer_def split: if_splits)

text \<open>The logs agree on what they share, and the shadow has nothing the primary has not.\<close>

definition follows :: "ConversationEvent list \<Rightarrow> ConversationEvent list \<Rightarrow> bool" where
  "follows shadow_log primary_log \<longleftrightarrow> length shadow_log \<le> length primary_log \<and>
     list_all2 (\<lambda>left right. \<not> events_differ left right) (take (length shadow_log) primary_log) shadow_log"

definition reconciled :: "ConversationEvent list \<Rightarrow> ConversationEvent list \<Rightarrow> ConversationEvent list \<Rightarrow>
    EventStoreError + ConversationEventReconciliationResult \<Rightarrow> bool" where
  "reconciled primary_log shadow_log shadow_log' out \<longleftrightarrow>
     (case out of
        Inr (Converged k r) \<Rightarrow> follows shadow_log primary_log \<and>
          shadow_log' = shadow_log @ drop (length shadow_log) primary_log \<and>
          k = length primary_log - length shadow_log \<and>
          r = (if primary_log = [] then None else Some (int (length primary_log)))
      | Inr (Divergent r pid sid) \<Rightarrow> \<not> follows shadow_log primary_log \<and> shadow_log' = shadow_log
      | Inl e \<Rightarrow> follows shadow_log primary_log \<and>
          (\<exists>k < length primary_log - length shadow_log.
            shadow_log' = shadow_log @ take k (drop (length shadow_log) primary_log)))"

lemma find_index_follows:
  "find_index (\<lambda>(left, right). events_differ left right) (zip ps ss) = None \<Longrightarrow> length ss \<le> length ps \<Longrightarrow> follows ss ps"
  by (simp add: find_index_pairs_None follows_def)

lemma find_index_not_follows:
  assumes "find_index (\<lambda>(left, right). events_differ left right) (zip ps ss) = Some i"
  shows "\<not> follows ss ps"
proof
  assume f: "follows ss ps"
  then have "find_index (\<lambda>(left, right). events_differ left right) (zip ps ss) = None"
    by (simp add: find_index_pairs_None follows_def)
  with assms show False by simp
qed

context event_writer
begin

lemma reconcile_logs_outcome:
  assumes ok: "store_ok s" and n: "0 < n" and ps: "log_from c 1 ps" and ss: "log s c = ss"
    and run: "reconcile_logs adapter n c ps ss s = (out, s')"
  shows "store_ok s' \<and> (\<forall>c'. c' \<noteq> c \<longrightarrow> stored s' c' = stored s c') \<and> reconciled ps ss (log s' c) out"
proof (cases "find_index (\<lambda>(left, right). events_differ left right) (zip ps ss)")
  case (Some i)
  with run have "s' = s" "\<exists>r p q. out = Inr (Divergent r p q)" by (auto simp: reconcile_logs_def)
  with ok ss find_index_not_follows [OF Some] show ?thesis by (auto simp: reconciled_def)
next
  case None
  show ?thesis
  proof (cases "length ss > length ps")
    case True
    with None run have "s' = s" "\<exists>r p q. out = Inr (Divergent r p q)" by (auto simp: reconcile_logs_def Let_def)
    with True ok ss show ?thesis by (auto simp: reconciled_def follows_def)
  next
    case False
    let ?missing = "drop (length ss) ps"
    have f: "follows ss ps" using find_index_follows [OF None] False by simp
    obtain r where rep: "repair_shadow adapter n c ?missing s = (r, s')"
      "out = (case r of Inl e \<Rightarrow> Inl e | Inr _ \<Rightarrow> Inr (Converged (length ?missing)
         (if ps = [] then None else Some (event_revision (last ps)))))"
      using run None False by (auto simp: reconcile_logs_def Let_def split: prod.splits sum.splits)
    have "ps = take (length ss) ps @ ?missing" by simp
    then have "log_from c (1 + int (length ss)) ?missing"
      using ps False by (metis log_from_append length_take min.absorb2 not_less)
    moreover have "length ss = length (stored s c)" using ss by auto
    ultimately have missing: "log_from c (1 + int (length (stored s c))) ?missing" by simp
    from repair_shadow_appends [OF ok n missing rep(1)] ss obtain k where k: "store_ok s'"
      "k \<le> length ?missing" "log s' c = ss @ take k ?missing" "r = Inr () \<longleftrightarrow> k = length ?missing"
      "\<forall>c'. c' \<noteq> c \<longrightarrow> stored s' c' = stored s c'" by blast
    have "reconciled ps ss (log s' c) out"
    proof (cases r)
      case (Inr u)
      then have out: "out = Inr (Converged (length ps - length ss)
          (if ps = [] then None else Some (int (length ps))))"
        using rep(2) log_from_last [OF ps] by simp
      show ?thesis using k(2-4) Inr f unfolding reconciled_def out by simp
    next
      case (Inl e)
      then have "k < length ps - length ss" using k(2,4) by auto
      then show ?thesis using k(3) f rep(2) Inl by (auto simp: reconciled_def simp del: map_map)
    qed
    with k show ?thesis by blast
  qed
qed

end

locale reconciling = primary: event_reader H okp storedp primary + shadow: event_writer H oks storeds shadow
  for H okp storedp and primary :: "'p ConversationEventStore" and oks storeds and shadow :: "'s ConversationEventStore"
begin

lemma reconcile_outcome:
  assumes ok: "okp (primary_state w)" "oks (shadow_state w)" and n: "0 < n" "safe_int (int n)"
  shows "\<exists>out w'. reconcile primary shadow n c w = Some (out, w') \<and> primary_state w' = primary_state w \<and>
    shadow_errors w' = shadow_errors w \<and> oks (shadow_state w') \<and>
    (\<forall>c'. c' \<noteq> c \<longrightarrow> storeds (shadow_state w') c' = storeds (shadow_state w) c') \<and>
    reconciled (primary.log (primary_state w) c) (shadow.log (shadow_state w) c) (shadow.log (shadow_state w') c) out"
proof -
  obtain out s where logs: "reconcile_logs shadow n c (primary.log (primary_state w) c)
      (shadow.log (shadow_state w) c) (shadow_state w) = (out, s)" by fastforce
  then have "reconcile primary shadow n c w = Some (out, w\<lparr>shadow_state := s\<rparr>)"
    by (simp add: reconcile_def primary.read_all_returns [OF ok(1) n] shadow.read_all_returns [OF ok(2) n])
  with shadow.reconcile_logs_outcome [OF ok(2) n(1) primary.stored_log [OF ok(1)] refl logs]
  show ?thesis by auto
qed

end

section \<open>Two stores in memory\<close>

interpretation memory_pair: dual_checkpointed H "store_inv H" entries_of "memory_store H" shadow memory_checkpoints
  for H and shadow :: "'s ConversationEventStore"
  by unfold_locales

interpretation memory_pair: reconciling H "store_inv H" entries_of "memory_store H" "store_inv H" entries_of "memory_store H"
  for H
  by unfold_locales

end
