(* ===== verification/DualProperties.thy ===== *)
theory DualProperties
  imports DualWrite Replay ApprovalScenario
begin

text \<open>
  What writing to two event stores promises: the pair behaves as its primary, whatever the
  shadow does, and reconciliation always comes to an end and repairs or reports.
\<close>

section \<open>Replaying the pair\<close>

text \<open>Replay depends on a store through its reads only.\<close>

lemma replay_pages_reads:
  assumes "replay_pages H a c l cr s p = Some y" and "\<And>input. store_read b input t = store_read a input s"
  shows "replay_pages H b c l cr t p = Some y"
  using assms
proof (induction rule: replay_pages.raw_induct [rotated 1, consumes 1])
  case (1 f H a c l cr s p y)
  note step = replay_pages.simps [of H b c l cr t p, unfolded 1(3)]
  show ?case
  proof (cases "store_read a \<lparr>read_conversationId = c, read_after = read_position cr p, read_limit = l\<rparr> s")
    case (Inl e)
    with 1(2) show ?thesis by (simp add: step)
  next
    case (Inr page)
    with 1(2) 1(1) [OF _ 1(3)] show ?thesis
      by (cases "fold_result (replay_entry H c) p (read_entries page)") (auto simp: step split: if_splits)
  qed
qed

lemma dual_replay_pages:
  "replay_pages H (DualWriteConversationEventStore primary shadow) c l cr w p =
   replay_pages H primary c l cr (primary_state w) p" (is "?dual = ?primary")
proof -
  have "?dual = Some y \<Longrightarrow> ?primary = Some y" for y by (erule replay_pages_reads) simp
  moreover have "?primary = Some y \<Longrightarrow> ?dual = Some y" for y by (erule replay_pages_reads) simp
  ultimately show ?thesis by (cases ?dual; cases ?primary) auto
qed

text \<open>The checkpoint written at the end is the primary's.\<close>

definition seen_by_primary :: "'e + ('p, 's) DualWriteState \<times> 'r \<Rightarrow> 'e + 'p \<times> 'r" where
  "seen_by_primary = map_sum id (apfst primary_state)"

lemma seen_by_primary_simps [simp]:
  "seen_by_primary (Inl e) = Inl e" "seen_by_primary (Inr (w, r)) = Inr (primary_state w, r)"
  by (simp_all add: seen_by_primary_def)

lemma dual_append_seen: "seen_by_primary (dual_append primary shadow input w) = store_append primary input (primary_state w)"
  by (auto simp: dual_append_def report_shadow_def Let_def split: sum.splits)

lemma dual_checkpoint_seen:
  "seen_by_primary (dual_writeCheckpoint cps shadow cp w) = checkpoint_write cps cp (primary_state w)"
  by (auto simp: dual_writeCheckpoint_def report_shadow_def Let_def split: sum.splits option.splits)

lemma dual_write_after_replay:
  "seen_by_primary (write_after_replay H (DualWriteConversationEventStore primary shadow) c policy cr st n w) =
   write_after_replay H primary c policy cr st n (primary_state w)"
proof (cases "checkpoints primary")
  case (Some cps)
  have seen: "seen_by_primary (case dual_writeCheckpoint cps shadow cp w of
        Inl e \<Rightarrow> Inl (StoreFailed e) | Inr (s', res) \<Rightarrow> Inr (s', Some res)) =
      (case checkpoint_write cps cp (primary_state w) of
        Inl e \<Rightarrow> Inl (StoreFailed e) | Inr (s', res) \<Rightarrow> Inr (s', Some res))" for cp
    unfolding dual_checkpoint_seen [of cps shadow cp w, symmetric]
    by (cases "dual_writeCheckpoint cps shadow cp w") auto
  let ?due = "\<lambda>pol. shouldWriteConversationCheckpoint n (utf8ByteLength (stringify H (state_json st))) pol"
  show ?thesis
    by (cases policy; cases "revision st"; cases "?due (the policy)")
      (simp_all add: write_after_replay_def DualWriteConversationEventStore_def dual_checkpoints_def Some seen)
qed (simp add: write_after_replay_def DualWriteConversationEventStore_def split: option.splits)

section \<open>The properties\<close>

text \<open>
  C36. Writing to two stores looks to its users like writing to the primary alone, whatever
  the shadow does: appends, reads, the latest revision, and a whole replay (the checkpoint
  it writes included) return what they return on the primary, and leave its state.
\<close>

theorem dual_store_acts_as_its_primary:
  "seen_by_primary (store_append (DualWriteConversationEventStore primary shadow) input w) =
     store_append primary input (primary_state w) \<and>
   store_read (DualWriteConversationEventStore primary shadow) position w =
     store_read primary position (primary_state w) \<and>
   store_latest (DualWriteConversationEventStore primary shadow) c w = store_latest primary c (primary_state w) \<and>
   map_option seen_by_primary (replayConversation H (DualWriteConversationEventStore primary shadow) c l policy w) =
     replayConversation H primary c l policy (primary_state w)"
proof -
  have raw: "(case checkpoints (DualWriteConversationEventStore primary shadow) of None \<Rightarrow> None
        | Some cps \<Rightarrow> checkpoint_read cps c w) =
      (case checkpoints primary of None \<Rightarrow> None | Some cps \<Rightarrow> checkpoint_read cps c (primary_state w))"
    by (simp add: DualWriteConversationEventStore_def dual_checkpoints_def split: option.split)
  have bind: "seen_by_primary (bind_result r (\<lambda>(s', cpw). Inr (s', f cpw))) =
      bind_result (seen_by_primary r) (\<lambda>(s', cpw). Inr (s', f cpw))" for r f
    by (cases r) auto
  have "map_option seen_by_primary (replayConversation H (DualWriteConversationEventStore primary shadow) c l policy w) =
     replayConversation H primary c l policy (primary_state w)"
    unfolding replayConversation_def Let_def raw dual_simps dual_replay_pages
    by (simp add: bind dual_write_after_replay split: sum.split option.split)
  then show ?thesis by (simp add: dual_append_seen)
qed

text \<open>
  C37. Reconciling two well-formed in-memory stores always returns, whatever the logs and
  the page size the constructor accepts. The primary and the shadow's other conversations
  are left alone. It converges exactly by appending to the shadow the events it misses,
  reports a divergence (and changes nothing) exactly when the shadow's log is not one the
  primary's continues, and a refused repair leaves a shadow the primary still continues.
\<close>

theorem reconciliation_always_returns:
  assumes "store_inv H (primary_state w)" and "store_inv H (shadow_state w)" and "resolvePageSize override = Some n"
  shows "\<exists>out w'. reconcile (memory_store H) (memory_store H) n c w = Some (out, w') \<and>
    primary_state w' = primary_state w \<and> store_inv H (shadow_state w') \<and>
    (\<forall>c'. c' \<noteq> c \<longrightarrow> log_of (shadow_state w') c' = log_of (shadow_state w) c') \<and>
    reconciled (log_of (primary_state w) c) (log_of (shadow_state w) c) (log_of (shadow_state w') c) out"
  using memory_pair.reconcile_outcome [OF assms(1,2), of n c] resolvePageSize_bounds [OF assms(3)] by fastforce

definition demo_pair :: "(InMemoryConversationEventStore, InMemoryConversationEventStore) DualWriteState" where
  "demo_pair = \<lparr>primary_state = demo_store, shadow_state = demo_open_store, shadow_errors = []\<rparr>"

lemma demo_pair_converges:
  "map_option (map_prod id (\<lambda>w. log_of (shadow_state w) ''c''))
     (reconcile (memory_store demo_host) (memory_store demo_host) 100 ''c'' demo_pair) =
   Some (Inr (Converged 2 (Some 7)), demo_log)"
  by code_simp

theorem reconciliation_always_returns_witness:
  "\<exists>out w'. reconcile (memory_store demo_host) (memory_store demo_host) 100 ''c'' demo_pair = Some (out, w') \<and>
     primary_state w' = demo_store \<and> reconciled demo_log (take 5 demo_log) (log_of (shadow_state w') ''c'') out \<and>
     out = Inr (Converged 2 (Some 7))"
  using reconciliation_always_returns [of demo_host demo_pair None 100 "''c''"] demo_pair_converges
    demo_store_inv memory_session_inv [OF demo_open_reached] demo_log_of demo_open_log
  by (auto simp: demo_pair_def resolvePageSize_def safe_int_def max_safe_integer_def simp del: map_map)

end
