(* ===== verification/DualApprovals.thy ===== *)
theory DualApprovals
  imports ApprovalCoordinator StateEncoding
begin

text \<open>
  Two small parts around approvals: the approval store that writes to a primary and a
  shadow (src/conversation/dual-write-approval-store.ts), over the interface the
  coordinator uses and the creation of proposals, and the selection of the original
  approval evidence of a log (src/conversation/approval-evidence.ts).
\<close>

section \<open>The approval store that writes to two stores\<close>

record ('ctx, 'p) CreatingApprovalProposalStore = "('ctx, 'p) ApprovalProposalStore" +
  approvals_create :: "'ctx CreateApprovalProposalInput \<Rightarrow> 'p \<Rightarrow>
    (ApprovalStoreFailure + ConversationApprovalProposalRecord) \<times> 'p"

datatype ApprovalShadowOperation = ShadowCreate | ShadowTransition

record ('p, 's) DualWriteApprovalState =
  approvals_primary :: 'p
  approvals_shadow :: 's
  approvals_reports :: "(ApprovalShadowOperation \<times> string) list"

text \<open>The primary's operation, then the shadow's, whose failure is reported only.\<close>

definition shadowed ::
    "ApprovalShadowOperation \<Rightarrow> string \<Rightarrow> ('p \<Rightarrow> (ApprovalStoreFailure + 'r) \<times> 'p) \<Rightarrow>
     ('s \<Rightarrow> (ApprovalStoreFailure + 'r) \<times> 's) \<Rightarrow> ('p, 's) DualWriteApprovalState \<Rightarrow>
     (ApprovalStoreFailure + 'r) \<times> ('p, 's) DualWriteApprovalState" where
  "shadowed operation pid on_primary on_shadow w =
     (case on_primary (approvals_primary w) of
        (Inl e, p) \<Rightarrow> (Inl e, w\<lparr>approvals_primary := p\<rparr>)
      | (Inr result, p) \<Rightarrow>
          (case on_shadow (approvals_shadow w) of
             (out, s) \<Rightarrow> (Inr result, w\<lparr>approvals_primary := p, approvals_shadow := s,
               approvals_reports := approvals_reports w @ (if isl out then [(operation, pid)] else [])\<rparr>)))"

definition on_primary_only ::
    "('p \<Rightarrow> 'r \<times> 'p) \<Rightarrow> ('p, 's) DualWriteApprovalState \<Rightarrow> 'r \<times> ('p, 's) DualWriteApprovalState" where
  "on_primary_only operation w = (case operation (approvals_primary w) of (r, p) \<Rightarrow> (r, w\<lparr>approvals_primary := p\<rparr>))"

definition DualWriteApprovalProposalStore ::
    "('ctx, 'p) CreatingApprovalProposalStore \<Rightarrow> ('ctx, 's) CreatingApprovalProposalStore \<Rightarrow>
     ('ctx, ('p, 's) DualWriteApprovalState) CreatingApprovalProposalStore" where
  "DualWriteApprovalProposalStore primary shadow =
     \<lparr>approvals_transition = (\<lambda>input. shadowed ShadowTransition (transition_proposalId input)
        (approvals_transition primary input) (approvals_transition shadow input)),
      approvals_get = (\<lambda>ctx pid. on_primary_only (approvals_get primary ctx pid)),
      approvals_listGroup = (\<lambda>ctx gid. on_primary_only (approvals_listGroup primary ctx gid)),
      approvals_create = (\<lambda>input. shadowed ShadowCreate (create_proposalId input)
        (approvals_create primary input) (approvals_create shadow input))\<rparr>"

datatype ApprovalProposalReconciliationResult =
  ApprovalsConverged | MissingPrimary | MissingShadow | ApprovalsDivergent

definition compare_approvals ::
    "ConversationApprovalProposalRecord option \<Rightarrow> ConversationApprovalProposalRecord option \<Rightarrow>
     ApprovalProposalReconciliationResult" where
  "compare_approvals primary shadow =
     (case (primary, shadow) of
        (None, None) \<Rightarrow> ApprovalsConverged
      | (None, Some _) \<Rightarrow> MissingPrimary
      | (Some _, None) \<Rightarrow> MissingShadow
      | (Some l, Some r) \<Rightarrow>
          if jsonValuesEqual (proposal_json l) (proposal_json r) then ApprovalsConverged else ApprovalsDivergent)"

text \<open>
  Both stores are asked at once; when one of them fails the reconciliation does, with the
  primary's failure when both do and the primary's comes first.
\<close>

definition reconcile_approvals ::
    "('ctx, 'p) CreatingApprovalProposalStore \<Rightarrow> ('ctx, 's) CreatingApprovalProposalStore \<Rightarrow> 'ctx \<Rightarrow> string \<Rightarrow>
     ('p, 's) DualWriteApprovalState \<Rightarrow>
     (ApprovalStoreFailure + ApprovalProposalReconciliationResult) \<times> ('p, 's) DualWriteApprovalState" where
  "reconcile_approvals primary shadow ctx pid w =
     (case approvals_get primary ctx pid (approvals_primary w) of
        (left, p) \<Rightarrow>
          (case approvals_get shadow ctx pid (approvals_shadow w) of
             (right, s) \<Rightarrow>
               ((case (left, right) of
                   (Inl e, _) \<Rightarrow> Inl e
                 | (_, Inl e) \<Rightarrow> Inl e
                 | (Inr l, Inr r) \<Rightarrow> Inr (compare_approvals l r)),
                w\<lparr>approvals_primary := p, approvals_shadow := s\<rparr>)))"

lemma shadowed_primary:
  "map_prod id approvals_primary (shadowed operation pid f g w) = f (approvals_primary w)"
  by (auto simp: shadowed_def split: prod.splits sum.splits)

lemma on_primary_only_primary:
  "map_prod id approvals_primary (on_primary_only f w) = f (approvals_primary w)"
  "approvals_shadow (snd (on_primary_only f w)) = approvals_shadow w"
  by (auto simp: on_primary_only_def split: prod.splits)

section \<open>Original evidence\<close>

text \<open>\<open>event.metadata?.repair_of_event_id\<close>.\<close>

definition repair_reference :: "ConversationEvent \<Rightarrow> json option" where
  "repair_reference ev =
     (case event_metadata ev of Some (JObj kvs) \<Rightarrow> obj_get kvs ''repair_of_event_id'' | _ \<Rightarrow> None)"

definition display_copy :: "host \<Rightarrow> ConversationEvent \<Rightarrow> ConversationEvent \<Rightarrow> bool" where
  "display_copy H original ev \<longleftrightarrow>
     mutation_id ev = None \<and> event_conversation_id ev = event_conversation_id original \<and>
     event_revision original < event_revision ev \<and> occurred_at ev = occurred_at original \<and>
     stringify H (actor_json (actor ev)) = stringify H (actor_json (actor original)) \<and>
     stringify H (source_event_json (event_source ev)) = stringify H (source_event_json (event_source original)) \<and>
     stringify H (payload_json (payload ev)) = stringify H (payload_json (payload original))"

text \<open>None: the exception for evidence that does not match.\<close>

fun retain_originals ::
    "host \<Rightarrow> (string, ConversationEvent) jsmap \<Rightarrow> ConversationEvent list \<Rightarrow> (string, ConversationEvent) jsmap option" where
  "retain_originals H originals [] = Some originals"
| "retain_originals H originals (ev # evs) =
     (case repair_reference ev of
        None \<Rightarrow> retain_originals H (map_set (event_id ev) ev originals) evs
      | Some refersTo \<Rightarrow>
          (case (case refersTo of JStr eid \<Rightarrow> map_get originals eid | _ \<Rightarrow> None) of
             None \<Rightarrow> None
           | Some original \<Rightarrow> if display_copy H original ev then retain_originals H originals evs else None))"

definition originalApprovalEvidence :: "host \<Rightarrow> ConversationEvent list \<Rightarrow> ConversationEvent list option" where
  "originalApprovalEvidence H evs = map_option (map snd) (retain_originals H [] evs)"

text \<open>
  On a log (distinct identities) the evidence is what is no copy, in order, and every copy
  names an earlier original it matches.
\<close>

lemma retain_originals_filter:
  assumes "retain_originals H m evs = Some m'" and "distinct (map event_id evs)"
    and "\<forall>ev\<in>set evs. map_get m (event_id ev) = None"
  shows "m' = m @ map (\<lambda>ev. (event_id ev, ev)) (filter (\<lambda>ev. repair_reference ev = None) evs)"
  using assms
proof (induction H m evs rule: retain_originals.induct)
  case (2 H m ev evs)
  show ?case
  proof (cases "repair_reference ev")
    case None
    have "\<forall>e\<in>set evs. map_get (map_set (event_id ev) ev m) (event_id e) = None"
      using 2(4,5) by (auto simp: map_of_map_set) (metis image_eqI)
    with 2(1) [OF None] 2(3-5) None show ?thesis by (simp add: map_set_new)
  next
    case (Some r)
    with 2 show ?thesis by (auto split: option.splits if_splits)
  qed
qed simp

lemma originalApprovalEvidence_filter:
  assumes "originalApprovalEvidence H evs = Some originals" and "distinct (map event_id evs)"
  shows "originals = filter (\<lambda>ev. repair_reference ev = None) evs"
  using assms retain_originals_filter [of H "[]" evs]
  by (auto simp: originalApprovalEvidence_def comp_def)

lemma retain_originals_copies:
  assumes "retain_originals H m evs = Some m'" and "ev \<in> set evs" and "repair_reference ev = Some r"
    and "\<forall>(k, e)\<in>set m. event_id e = k \<and> e \<in> S"
  shows "\<exists>original. r = JStr (event_id original) \<and> original \<in> S \<union> set evs \<and> display_copy H original ev"
  using assms
proof (induction H m evs arbitrary: S rule: retain_originals.induct)
  case (2 H m e evs)
  show ?case
  proof (cases "repair_reference e")
    case None
    have sub: "(k, v) \<in> set (map_set (event_id e) e m) \<Longrightarrow> (k, v) \<in> set m \<or> (k, v) = (event_id e, e)" for k v
      by (induction "event_id e" e m rule: map_set.induct) (auto split: if_splits)
    have "\<forall>(k, v)\<in>set (map_set (event_id e) e m). event_id v = k \<and> v \<in> insert e S"
      using 2(6) sub by fastforce
    with 2(1) [OF None, of "insert e S"] 2(3-5) None show ?thesis by auto
  next
    case (Some q)
    note found = Some
    obtain original where o: "(case q of JStr eid \<Rightarrow> map_get m eid | _ \<Rightarrow> None) = Some original"
      "display_copy H original e" "retain_originals H m evs = Some m'"
      using 2(3) Some by (auto split: option.splits if_splits)
    show ?thesis
    proof (cases "ev = e")
      case True
      with Some 2(5) have "r = q" by simp
      with o(1,2) True 2(6) show ?thesis by (fastforce split: json.splits dest: map_of_SomeD)
    next
      case False
      with 2(2) [OF Some o(1,2,3), of S] 2(4-6) show ?thesis by auto
    qed
  qed
qed simp

end
