(* ===== verification/Numbers.thy ===== *)
theory Numbers
  imports Json "HOL-Library.Log_Nat"
begin

text \<open>
  Arithmetic on the numbers of the language (IEEE 754 doubles): a result is the exact one
  rounded to 53 bits, half to even, with gradual underflow; what exceeds the range is an
  infinity. \<open>Infinite True\<close> is the positive one. The sign of zero is not modelled.
  \<open>Math.min\<close>, \<open>Math.max\<close> and \<open>Math.ceil\<close> do not round.
\<close>

section \<open>Rounding\<close>

definition pow2 :: "int \<Rightarrow> rat" where
  "pow2 e = (if 0 \<le> e then 2 ^ nat e else 1 / 2 ^ nat (- e))"

text \<open>The exponent of a positive rational: the largest e with \<open>pow2 e\<close> below it.\<close>

definition exponent_of :: "rat \<Rightarrow> int" where
  "exponent_of q = (let (n, d) = quotient_of q; e = bitlen n - bitlen d in if pow2 e \<le> q then e else e - 1)"

definition round_half_even :: "rat \<Rightarrow> int" where
  "round_half_even q =
     (let f = \<lfloor>q\<rfloor>; r = q - of_int f
      in if r < 1 / 2 then f else if 1 / 2 < r then f + 1 else if even f then f else f + 1)"

definition double :: "rat \<Rightarrow> jsnumber" where
  "double q =
     (if q = 0 then Fin 0
      else let u = pow2 (max (exponent_of \<bar>q\<bar>) (- 1022) - 52);
               m = of_int (round_half_even (q / u)) * u
           in if pow2 1024 \<le> \<bar>m\<bar> then Infinite (0 < q) else Fin m)"

section \<open>Operations\<close>

fun num_neg :: "jsnumber \<Rightarrow> jsnumber" where
  "num_neg (Fin q) = Fin (- q)"
| "num_neg (Infinite b) = Infinite (\<not> b)"
| "num_neg NaN = NaN"

fun num_add :: "jsnumber \<Rightarrow> jsnumber \<Rightarrow> jsnumber" where
  "num_add (Fin a) (Fin b) = double (a + b)"
| "num_add (Infinite a) (Infinite b) = (if a = b then Infinite a else NaN)"
| "num_add (Infinite a) (Fin _) = Infinite a"
| "num_add (Fin _) (Infinite b) = Infinite b"
| "num_add _ _ = NaN"

definition num_sub :: "jsnumber \<Rightarrow> jsnumber \<Rightarrow> jsnumber" where
  "num_sub a b = num_add a (num_neg b)"

fun num_mul :: "jsnumber \<Rightarrow> jsnumber \<Rightarrow> jsnumber" where
  "num_mul (Fin a) (Fin b) = double (a * b)"
| "num_mul (Infinite a) (Infinite b) = Infinite (a = b)"
| "num_mul (Infinite a) (Fin b) = (if b = 0 then NaN else Infinite (a = (0 < b)))"
| "num_mul (Fin a) (Infinite b) = (if a = 0 then NaN else Infinite (b = (0 < a)))"
| "num_mul _ _ = NaN"

text \<open>\<open><\<close>; a comparison with NaN is false.\<close>

fun num_less :: "jsnumber \<Rightarrow> jsnumber \<Rightarrow> bool" where
  "num_less (Fin a) (Fin b) = (a < b)"
| "num_less (Fin _) (Infinite b) = b"
| "num_less (Infinite a) (Fin _) = (\<not> a)"
| "num_less (Infinite a) (Infinite b) = (\<not> a \<and> b)"
| "num_less _ _ = False"

definition num_le :: "jsnumber \<Rightarrow> jsnumber \<Rightarrow> bool" where
  "num_le a b \<longleftrightarrow> num_less a b \<or> number_eq a b"

definition num_min :: "jsnumber \<Rightarrow> jsnumber \<Rightarrow> jsnumber" where
  "num_min a b = (if a = NaN \<or> b = NaN then NaN else if num_less a b then a else b)"

definition num_max :: "jsnumber \<Rightarrow> jsnumber \<Rightarrow> jsnumber" where
  "num_max a b = (if a = NaN \<or> b = NaN then NaN else if num_less a b then b else a)"

fun num_ceil :: "jsnumber \<Rightarrow> jsnumber" where
  "num_ceil (Fin a) = Fin (of_int \<lceil>a\<rceil>)"
| "num_ceil a = a"

section \<open>Facts\<close>

lemma pow2_pos [simp]: "0 < pow2 e"
  by (simp add: pow2_def)

lemma pow2_add: "pow2 (a + b) = pow2 a * pow2 b"
proof -
  have "pow2 e = 2 powi e" for e by (simp add: pow2_def power_int_def inverse_eq_divide power_one_over)
  then show ?thesis by (simp add: power_int_add)
qed

lemma pow2_of_nat: "pow2 (int n) = 2 ^ n"
  by (simp add: pow2_def)

lemma pow2_mono: "a \<le> b \<Longrightarrow> pow2 a \<le> pow2 b"
proof -
  assume "a \<le> b"
  then have "1 \<le> pow2 (b - a)" by (simp add: pow2_def)
  then show "pow2 a \<le> pow2 b" using pow2_add [of a "b - a"] pow2_pos [of a] by simp
qed

lemma round_half_even_int [simp]: "round_half_even (of_int n) = n"
  by (simp add: round_half_even_def)

lemma round_half_even_nonneg: "0 \<le> q \<Longrightarrow> 0 \<le> round_half_even q"
  by (auto simp: round_half_even_def Let_def)

lemma double_not_NaN [simp]: "double q \<noteq> NaN"
  by (simp add: double_def Let_def)

lemma double_zero [simp]: "double 0 = Fin 0"
  by (simp add: double_def)

lemma double_nonneg:
  assumes "0 \<le> q"
  shows "double q = Infinite True \<or> (\<exists>r\<ge>0. double q = Fin r)"
proof -
  let ?u = "pow2 (max (exponent_of \<bar>q\<bar>) (- 1022) - 52)"
  have "0 \<le> round_half_even (q / ?u)" using assms by (intro round_half_even_nonneg) (simp add: less_imp_le)
  then have "0 \<le> of_int (round_half_even (q / ?u)) * ?u" by (simp add: less_imp_le)
  with assms show ?thesis by (auto simp: double_def Let_def)
qed

text \<open>Integers of up to 53 bits are exact.\<close>

lemma exponent_of_int:
  assumes "0 < n"
  shows "pow2 (exponent_of (of_int n)) \<le> of_int n" "0 \<le> exponent_of (of_int n)"
proof -
  have b: "2 ^ nat (bitlen n - 1) \<le> n" "bitlen n \<ge> 1" "bitlen (1::int) = 1"
    using bitlen_bounds [OF assms] assms by (auto simp: bitlen_alt_def)
  have le: "pow2 (bitlen n - 1) \<le> of_int n"
  proof -
    have "pow2 (bitlen n - 1) = of_int (2 ^ nat (bitlen n - 1))" using b(2) by (simp add: pow2_def)
    with b(1) show ?thesis by (simp only: of_int_le_iff)
  qed
  have e: "exponent_of (of_int n) = bitlen n - 1"
    using le b by (simp add: exponent_of_def Let_def)
  show "pow2 (exponent_of (of_int n)) \<le> of_int n" using le by (simp add: e)
  show "0 \<le> exponent_of (of_int n)" using b by (simp add: e)
qed

lemma double_of_int:
  assumes "\<bar>n\<bar> < 2 ^ 53"
  shows "double (of_int n) = Fin (of_int n)"
proof (cases "n = 0")
  case False
  let ?e = "exponent_of \<bar>of_int n\<bar>"
  have e: "pow2 ?e \<le> of_int \<bar>n\<bar>" "0 \<le> ?e" using exponent_of_int [of "\<bar>n\<bar>"] False by simp_all
  have "?e \<le> 52"
  proof (rule ccontr)
    assume "\<not> ?e \<le> 52"
    then have "pow2 53 \<le> pow2 ?e" by (intro pow2_mono) simp
    with e(1) have "of_int (2 ^ 53) \<le> (of_int \<bar>n\<bar> :: rat)" by (simp add: pow2_def)
    then have "2 ^ 53 \<le> \<bar>n\<bar>" by (simp only: of_int_le_iff)
    with assms show False by simp
  qed
  then have "52 - ?e \<ge> 0" by simp
  have u: "pow2 (max ?e (- 1022) - 52) = 1 / 2 ^ nat (52 - ?e)"
    using e(2) \<open>?e \<le> 52\<close> by (auto simp: pow2_def max_def)
  have m: "of_int n / (1 / 2 ^ nat (52 - ?e)) = (of_int (n * 2 ^ nat (52 - ?e)) :: rat)" by simp
  have "(of_int \<bar>n\<bar> :: rat) < of_int (2 ^ 53)" using assms by (simp only: of_int_less_iff)
  then have "\<not> pow2 1024 \<le> \<bar>of_int n\<bar>" using pow2_mono [of 53 1024] by (simp add: pow2_def)
  then show ?thesis using False unfolding double_def Let_def u m round_half_even_int by simp
qed simp

lemma double_simps [simp]:
  "numeral k < (2 ^ 53 :: int) \<Longrightarrow> double (numeral k) = Fin (numeral k)"
  "numeral k < (2 ^ 53 :: int) \<Longrightarrow> double (- numeral k) = Fin (- numeral k)"
  "double 1 = Fin 1" "double (- 1) = Fin (- 1)"
  using double_of_int [of "numeral k"] double_of_int [of "- numeral k"] double_of_int [of 1] double_of_int [of "- 1"]
  by simp_all

text \<open>Numbers well inside the range stay finite.\<close>

lemma exponent_of_le:
  assumes "0 < q"
  shows "pow2 (exponent_of q) \<le> q"
proof (cases "quotient_of q")
  case (Pair n d)
  have d: "0 < d" and q: "q = of_int n / of_int d"
    using quotient_of_denom_pos [OF Pair] quotient_of_div [OF Pair] by auto
  then have n: "0 < n" using assms by (simp add: zero_less_divide_iff)
  have "bitlen n \<ge> 1" "bitlen d \<ge> 0" using n by (auto simp: bitlen_alt_def bitlen_nonneg)
  then have "pow2 (bitlen n - 1) = of_int (2 ^ nat (bitlen n - 1))" "pow2 (bitlen d) = of_int (2 ^ nat (bitlen d))"
    by (simp_all add: pow2_def)
  then have "pow2 (bitlen n - 1) \<le> of_int n" "of_int d \<le> pow2 (bitlen d)"
    using bitlen_bounds [OF n] bitlen_bounds [OF d] by (simp_all only: of_int_le_iff less_imp_le)
  moreover have "pow2 (bitlen n - bitlen d - 1) * pow2 (bitlen d) = pow2 (bitlen n - 1)"
    by (simp flip: pow2_add)
  ultimately have "pow2 (bitlen n - bitlen d - 1) * of_int d \<le> of_int n"
    using mult_left_mono [of "of_int d" "pow2 (bitlen d)" "pow2 (bitlen n - bitlen d - 1)"]
    by (simp add: less_imp_le)
  then have "pow2 (bitlen n - bitlen d - 1) \<le> q" using d by (simp add: q pos_le_divide_eq)
  then show ?thesis by (simp add: exponent_of_def Pair Let_def)
qed

lemma round_half_even_near: "\<bar>of_int (round_half_even q) - q\<bar> \<le> 1"
proof -
  have "of_int \<lfloor>q\<rfloor> \<le> q" "q < of_int \<lfloor>q\<rfloor> + 1" using floor_correct [of q] by simp_all
  moreover have "round_half_even q = \<lfloor>q\<rfloor> \<or> round_half_even q = \<lfloor>q\<rfloor> + 1" by (simp add: round_half_even_def Let_def)
  ultimately show ?thesis by (elim disjE; simp only: abs_le_iff of_int_add of_int_1; linarith)
qed

lemma double_near:
  fixes q :: rat
  defines "u \<equiv> pow2 (max (exponent_of \<bar>q\<bar>) (- 1022) - 52)"
  defines "m \<equiv> of_int (round_half_even (q / u)) * u"
  assumes "q \<noteq> 0"
  shows "double q = (if pow2 1024 \<le> \<bar>m\<bar> then Infinite (0 < q) else Fin m)"
    and "\<bar>m - q\<bar> \<le> u" and "2 * u \<le> \<bar>q\<bar> + 1"
proof -
  let ?e = "exponent_of \<bar>q\<bar>"
  have u: "0 < u" by (simp add: u_def)
  show "double q = (if pow2 1024 \<le> \<bar>m\<bar> then Infinite (0 < q) else Fin m)"
    using assms(3) by (simp add: double_def Let_def m_def u_def)
  have "m - q = (of_int (round_half_even (q / u)) - q / u) * u" using u by (simp add: m_def field_simps)
  then have "\<bar>m - q\<bar> = \<bar>of_int (round_half_even (q / u)) - q / u\<bar> * u" using u by (simp add: abs_mult)
  also have "\<dots> \<le> 1 * u" using round_half_even_near u by (intro mult_right_mono) auto
  finally show "\<bar>m - q\<bar> \<le> u" by simp
  have "pow2 ?e \<le> \<bar>q\<bar>" using exponent_of_le [of "\<bar>q\<bar>"] assms(3) by simp
  moreover have "pow2 (- 1022) \<le> 1" using pow2_mono [of "- 1022" 0] by (simp add: pow2_def [of 0])
  ultimately have e: "pow2 (max ?e (- 1022)) \<le> \<bar>q\<bar> + 1" by (cases "?e \<le> - 1022") (simp_all add: max_def)
  have "pow2 1 * u = pow2 (max ?e (- 1022) - 51)" unfolding u_def by (simp flip: pow2_add)
  also have "\<dots> \<le> pow2 (max ?e (- 1022))" by (rule pow2_mono) simp
  finally show "2 * u \<le> \<bar>q\<bar> + 1" using e by (simp add: pow2_def [of 1])
qed

lemma double_finite:
  assumes "\<bar>q\<bar> \<le> 2 ^ 60"
  shows "\<exists>r. double q = Fin r \<and> \<bar>r\<bar> \<le> 2 * \<bar>q\<bar> + 1"
proof (cases "q = 0")
  case False
  note near = double_near [OF False]
  define m where "m = of_int (round_half_even (q / pow2 (max (exponent_of \<bar>q\<bar>) (- 1022) - 52))) *
    pow2 (max (exponent_of \<bar>q\<bar>) (- 1022) - 52)"
  have m: "\<bar>m\<bar> \<le> 2 * \<bar>q\<bar> + 1" using near(2,3) unfolding m_def [symmetric] by linarith
  have "pow2 64 \<le> pow2 1024" by (rule pow2_mono) simp
  then have "(2 ^ 64 :: rat) \<le> pow2 1024" by (simp add: pow2_def [of 64])
  moreover have "2 * \<bar>q\<bar> + 1 < 2 ^ 64" using assms by simp
  ultimately have "\<not> pow2 1024 \<le> \<bar>m\<bar>" using m by linarith
  with near(1) m show ?thesis by (simp add: m_def)
qed simp

lemma double_overflow:
  assumes "2 ^ 1026 \<le> q"
  shows "double q = Infinite True"
proof -
  have one: "(1 :: rat) \<le> 2 ^ 1026" by (rule one_le_power) simp
  then have q: "q \<noteq> 0" "1 \<le> q" using assms by linarith+
  note near = double_near [OF q(1)]
  define m where "m = of_int (round_half_even (q / pow2 (max (exponent_of \<bar>q\<bar>) (- 1022) - 52))) *
    pow2 (max (exponent_of \<bar>q\<bar>) (- 1022) - 52)"
  have "q - 1 \<le> 2 * m" using near(2,3) q(2) unfolding m_def [symmetric] by linarith
  moreover have "(2::rat) ^ 1026 = 4 * 2 ^ 1024" by (simp add: power_add [of 2 2 1024, simplified])
  moreover have "(1 :: rat) \<le> 2 ^ 1024" by (rule one_le_power) simp
  ultimately have "2 ^ 1024 \<le> m" using assms by linarith
  then have "pow2 1024 \<le> \<bar>m\<bar>" by (simp add: pow2_def)
  then show ?thesis using near(1) q by (simp add: m_def)
qed

lemma num_less_irrefl [simp]: "\<not> num_less a a"
  by (cases a) auto

lemma num_min_Fin [simp]: "num_min (Fin a) (Fin b) = Fin (min a b)"
  and num_max_Fin [simp]: "num_max (Fin a) (Fin b) = Fin (max a b)"
  by (auto simp: num_min_def num_max_def)

lemma num_min_NaN [simp]: "num_min a NaN = NaN" "num_max a NaN = NaN" "num_min NaN b = NaN" "num_max NaN b = NaN"
  by (simp_all add: num_min_def num_max_def)

lemma num_min_Infinite [simp]: "num_min (Fin a) (Infinite True) = Fin a"
  by (simp add: num_min_def)

end
