(* ===== verification/Retry.thy ===== *)
theory Retry
  imports Numbers Events
begin

text \<open>
  Bounded retries (src/retry.ts): the policy and its validation, the delay before the next
  attempt and the loop that runs an operation until it succeeds, fails for good or runs out
  of attempts or time.

  The clock, the random source, sleeping, the operation and the hooks act on a world
  \<open>'w\<close>; any of the last three may reject with a value of type \<open>'x\<close>. The abort signal is a
  reading of the world. Promises settle: what an operation does that never answers is not
  modelled. The operator \<open>**\<close> is approximated by every implementation in its own way
  and is a parameter of the model.
\<close>

section \<open>The types\<close>

record RetryFailure =
  failure_retryable :: bool
  failure_reasonCategory :: ConversationRetryReasonCategory
  retryAfterMs :: "jsnumber option"

datatype RetryExhaustionReason = ExhaustedNonRetryable | ExhaustedAttempts | ExhaustedElapsedTime

datatype 'x RetryException = AbortReason | RetryTypeError string | RetryRejected 'x

type_synonym ('w, 'x, 'a) run = "'w \<Rightarrow> ('x RetryException + 'a) \<times> 'w"

record ('w, 'x) RetryPolicy =
  maximumAttempts :: jsnumber
  maximumElapsedMs :: jsnumber
  initialDelayMs :: jsnumber
  backoffMultiplier :: jsnumber
  maximumDelayMs :: jsnumber
  jitterRatio :: jsnumber
  maximumRetryAfterMs :: jsnumber
  policy_now :: "'w \<Rightarrow> jsnumber \<times> 'w"
  policy_sleep :: "jsnumber \<Rightarrow> ('w, 'x, unit) run"
  policy_random :: "'w \<Rightarrow> jsnumber \<times> 'w"

record ('w, 'x) RetryPolicyOptions =
  option_maximumAttempts :: "jsnumber option"
  option_maximumElapsedMs :: "jsnumber option"
  option_initialDelayMs :: "jsnumber option"
  option_backoffMultiplier :: "jsnumber option"
  option_maximumDelayMs :: "jsnumber option"
  option_jitterRatio :: "jsnumber option"
  option_maximumRetryAfterMs :: "jsnumber option"
  option_now :: "('w \<Rightarrow> jsnumber \<times> 'w) option"
  option_sleep :: "(jsnumber \<Rightarrow> ('w, 'x, unit) run) option"
  option_random :: "('w \<Rightarrow> jsnumber \<times> 'w) option"

record RetryAttemptContext =
  context_attempt :: int
  context_elapsedMs :: jsnumber

record RetryScheduledContext = RetryAttemptContext +
  nextAttempt :: int
  scheduled_reasonCategory :: ConversationRetryReasonCategory
  delayMs :: jsnumber

record RetryExhaustedContext = RetryAttemptContext +
  exhausted_reasonCategory :: ConversationRetryReasonCategory
  exhausted_reason :: RetryExhaustionReason

record ('w, 'x) RetryExecutionHooks =
  onAttemptStarted :: "(RetryAttemptContext \<Rightarrow> ('w, 'x, unit) run) option"
  onRetryScheduled :: "(RetryScheduledContext \<Rightarrow> ('w, 'x, unit) run) option"
  onRetryExhausted :: "(RetryExhaustedContext \<Rightarrow> ('w, 'x, unit) run) option"

datatype ('v, 'f) RetryExecutionResult =
    RetrySucceeded 'v int jsnumber
  | RetryFailed 'f int jsnumber RetryExhaustionReason

fun result_attempts :: "('v, 'f) RetryExecutionResult \<Rightarrow> int" where
  "result_attempts (RetrySucceeded v n e) = n"
| "result_attempts (RetryFailed f n e r) = n"

text \<open>Effects in sequence; an exception ends them.\<close>

definition then_run :: "('w, 'x, 'a) run \<Rightarrow> ('a \<Rightarrow> ('w, 'x, 'b) run) \<Rightarrow> ('w, 'x, 'b) run" where
  "then_run m f w = (case m w of (Inl e, w') \<Rightarrow> (Inl e, w') | (Inr x, w') \<Rightarrow> f x w')"

definition done_run :: "'a \<Rightarrow> ('w, 'x, 'a) run" where
  "done_run x w = (Inr x, w)"

section \<open>Policies\<close>

definition nonnegativeFinite :: "jsnumber \<Rightarrow> bool" where
  "nonnegativeFinite v \<longleftrightarrow> isFinite v \<and> \<not> num_less v (Fin 0)"

definition positive_attempts :: "jsnumber \<Rightarrow> bool" where
  "positive_attempts v \<longleftrightarrow> isSafeInteger v \<and> \<not> num_less v (Fin 1)"

definition validatePolicy :: "('w, 'x) RetryPolicy \<Rightarrow> 'x RetryException + unit" where
  "validatePolicy policy =
     bind_result (guard (positive_attempts (maximumAttempts policy)) (RetryTypeError ''maximumAttempts'')) (\<lambda>_.
     bind_result (guard (nonnegativeFinite (maximumElapsedMs policy)) (RetryTypeError ''maximumElapsedMs'')) (\<lambda>_.
     bind_result (guard (nonnegativeFinite (initialDelayMs policy)) (RetryTypeError ''initialDelayMs'')) (\<lambda>_.
     bind_result (guard (isFinite (backoffMultiplier policy) \<and> \<not> num_less (backoffMultiplier policy) (Fin 1))
       (RetryTypeError ''backoffMultiplier'')) (\<lambda>_.
     bind_result (guard (nonnegativeFinite (maximumDelayMs policy)) (RetryTypeError ''maximumDelayMs'')) (\<lambda>_.
     bind_result (guard (isFinite (jitterRatio policy) \<and> \<not> num_less (jitterRatio policy) (Fin 0) \<and>
         \<not> num_less (Fin 1) (jitterRatio policy)) (RetryTypeError ''jitterRatio'')) (\<lambda>_.
     guard (nonnegativeFinite (maximumRetryAfterMs policy)) (RetryTypeError ''maximumRetryAfterMs'')))))))"

text \<open>\<open>createRetryPolicy\<close>, with the clock, the sleep and the random source of the host.\<close>

definition createRetryPolicy ::
    "('w \<Rightarrow> jsnumber \<times> 'w) \<Rightarrow> (jsnumber \<Rightarrow> ('w, 'x, unit) run) \<Rightarrow> ('w \<Rightarrow> jsnumber \<times> 'w) \<Rightarrow>
     ('w, 'x) RetryPolicyOptions \<Rightarrow> 'x RetryException + ('w, 'x) RetryPolicy" where
  "createRetryPolicy date_now abortable_sleep math_random options =
     (let policy =
        \<lparr>maximumAttempts = case_option (Fin 3) id (option_maximumAttempts options),
         maximumElapsedMs = case_option (Fin 30000) id (option_maximumElapsedMs options),
         initialDelayMs = case_option (Fin 250) id (option_initialDelayMs options),
         backoffMultiplier = case_option (Fin 2) id (option_backoffMultiplier options),
         maximumDelayMs = case_option (Fin 5000) id (option_maximumDelayMs options),
         jitterRatio = case_option (double (1 / 5)) id (option_jitterRatio options),
         maximumRetryAfterMs = case_option (Fin 30000) id (option_maximumRetryAfterMs options),
         policy_now = case_option date_now id (option_now options),
         policy_sleep = case_option abortable_sleep id (option_sleep options),
         policy_random = case_option math_random id (option_random options)\<rparr>
      in bind_result (validatePolicy policy) (\<lambda>_. Inr policy))"

definition throwIfAborted :: "('w \<Rightarrow> bool) \<Rightarrow> ('w, 'x, unit) run" where
  "throwIfAborted aborted w = (if aborted w then Inl AbortReason else Inr (), w)"

text \<open>\<open>abortableSleep\<close>: the timer and the signal race; \<open>timer\<close> tells whether it fired first.\<close>

definition abortableSleep ::
    "('w \<Rightarrow> bool) \<Rightarrow> (jsnumber \<Rightarrow> 'w \<Rightarrow> bool \<times> 'w) \<Rightarrow> jsnumber \<Rightarrow> ('w, 'x, unit) run" where
  "abortableSleep aborted timer delay =
     then_run (throwIfAborted aborted) (\<lambda>_ w.
       case timer delay w of (fired, w') \<Rightarrow> (if fired then Inr () else Inl AbortReason, w'))"

definition elapsed :: "('w, 'x) RetryPolicy \<Rightarrow> jsnumber \<Rightarrow> ('w, 'x, jsnumber) run" where
  "elapsed policy startedAt w =
     (case policy_now policy w of (t, w') \<Rightarrow>
        let v = num_sub t startedAt
        in (if isFinite v then Inr (num_max (Fin 0) v) else Inl (RetryTypeError ''now''), w'))"

section \<open>The delay\<close>

definition exponential_delay :: "(jsnumber \<Rightarrow> jsnumber \<Rightarrow> jsnumber) \<Rightarrow> ('w, 'x) RetryPolicy \<Rightarrow> jsnumber \<Rightarrow> jsnumber" where
  "exponential_delay pow policy failedAttempt =
     num_min (maximumDelayMs policy)
       (num_mul (initialDelayMs policy) (pow (backoffMultiplier policy) (num_sub failedAttempt (Fin 1))))"

definition normalizedHint :: "('w, 'x) RetryPolicy \<Rightarrow> jsnumber option \<Rightarrow> jsnumber" where
  "normalizedHint policy hint =
     (case hint of None \<Rightarrow> Fin 0
      | Some h \<Rightarrow> num_min (maximumRetryAfterMs policy) (num_max (Fin 0) (if isFinite h then h else Fin 0)))"

definition jittered_delay :: "('w, 'x) RetryPolicy \<Rightarrow> jsnumber \<Rightarrow> jsnumber \<Rightarrow> jsnumber" where
  "jittered_delay policy exponential random =
     num_max (Fin 0) (num_min (maximumDelayMs policy)
       (num_mul exponential (num_add (Fin 1)
         (num_mul (num_sub (num_mul random (Fin 2)) (Fin 1)) (jitterRatio policy)))))"

definition retryDelay ::
    "(jsnumber \<Rightarrow> jsnumber \<Rightarrow> jsnumber) \<Rightarrow> ('w, 'x) RetryPolicy \<Rightarrow> jsnumber \<Rightarrow> jsnumber option \<Rightarrow>
     ('w, 'x, jsnumber) run" where
  "retryDelay pow policy failedAttempt hint w =
     (if \<not> positive_attempts failedAttempt then (Inl (RetryTypeError ''failedAttempt''), w)
      else let exponential = exponential_delay pow policy failedAttempt in
        (case policy_random policy w of (random, w') \<Rightarrow>
           (if \<not> isFinite random \<or> num_less random (Fin 0) \<or> num_le (Fin 1) random
            then Inl (RetryTypeError ''random'')
            else Inr (num_ceil (num_max (jittered_delay policy exponential random) (normalizedHint policy hint))),
            w')))"

section \<open>The loop\<close>

definition run_hook :: "('c \<Rightarrow> ('w, 'x, unit) run) option \<Rightarrow> 'c \<Rightarrow> ('w, 'x, unit) run" where
  "run_hook hook context = (case hook of None \<Rightarrow> done_run () | Some f \<Rightarrow> f context)"

record ('w, 'x, 'v, 'f) RetryExecution =
  retry_power :: "jsnumber \<Rightarrow> jsnumber \<Rightarrow> jsnumber"
  retry_policy :: "('w, 'x) RetryPolicy"
  signal_aborted :: "'w \<Rightarrow> bool"
  retry_hooks :: "('w, 'x) RetryExecutionHooks"
  retry_operation :: "RetryAttemptContext \<Rightarrow> ('w, 'x, 'f + 'v) run"

text \<open>One turn of the loop: a result (Some), or the next attempt (None).\<close>

definition give_up ::
    "('w, 'x, 'v, 'z RetryFailure_scheme) RetryExecution \<Rightarrow> int \<Rightarrow> jsnumber \<Rightarrow> 'z RetryFailure_scheme \<Rightarrow>
     RetryExhaustionReason \<Rightarrow> ('w, 'x, ('v, 'z RetryFailure_scheme) RetryExecutionResult option) run" where
  "give_up X attempt elapsedMs failure reason =
     then_run (run_hook (onRetryExhausted (retry_hooks X))
       \<lparr>context_attempt = attempt, context_elapsedMs = elapsedMs,
        exhausted_reasonCategory = failure_reasonCategory failure, exhausted_reason = reason\<rparr>) (\<lambda>_.
     done_run (Some (RetryFailed failure attempt elapsedMs reason)))"

definition schedule_retry ::
    "('w, 'x, 'v, 'z RetryFailure_scheme) RetryExecution \<Rightarrow> int \<Rightarrow> jsnumber \<Rightarrow> 'z RetryFailure_scheme \<Rightarrow> jsnumber \<Rightarrow>
     ('w, 'x, ('v, 'z RetryFailure_scheme) RetryExecutionResult option) run" where
  "schedule_retry X attempt elapsedMs failure delay =
     then_run (run_hook (onRetryScheduled (retry_hooks X))
       \<lparr>context_attempt = attempt, context_elapsedMs = elapsedMs, nextAttempt = attempt + 1,
        scheduled_reasonCategory = failure_reasonCategory failure, delayMs = delay\<rparr>) (\<lambda>_.
     then_run (throwIfAborted (signal_aborted X)) (\<lambda>_.
     then_run (policy_sleep (retry_policy X) delay) (\<lambda>_.
     then_run (throwIfAborted (signal_aborted X)) (\<lambda>_. done_run None))))"

definition after_failure ::
    "('w, 'x, 'v, 'z RetryFailure_scheme) RetryExecution \<Rightarrow> int \<Rightarrow> jsnumber \<Rightarrow> 'z RetryFailure_scheme \<Rightarrow>
     ('w, 'x, ('v, 'z RetryFailure_scheme) RetryExecutionResult option) run" where
  "after_failure X attempt elapsedMs failure =
     (if \<not> failure_retryable failure
      then done_run (Some (RetryFailed failure attempt elapsedMs ExhaustedNonRetryable))
      else if attempt \<ge> int_of_number (maximumAttempts (retry_policy X))
      then give_up X attempt elapsedMs failure ExhaustedAttempts
      else then_run (retryDelay (retry_power X) (retry_policy X) (Fin (of_int attempt)) (retryAfterMs failure)) (\<lambda>delay.
           if num_le (maximumElapsedMs (retry_policy X)) elapsedMs \<or>
              num_less (num_sub (maximumElapsedMs (retry_policy X)) elapsedMs) delay
           then give_up X attempt elapsedMs failure ExhaustedElapsedTime
           else schedule_retry X attempt elapsedMs failure delay))"

definition attempt_once ::
    "('w, 'x, 'v, 'z RetryFailure_scheme) RetryExecution \<Rightarrow> jsnumber \<Rightarrow> int \<Rightarrow>
     ('w, 'x, ('v, 'z RetryFailure_scheme) RetryExecutionResult option) run" where
  "attempt_once X startedAt attempt =
     then_run (throwIfAborted (signal_aborted X)) (\<lambda>_.
     then_run (elapsed (retry_policy X) startedAt) (\<lambda>before.
     then_run (run_hook (onAttemptStarted (retry_hooks X))
       \<lparr>context_attempt = attempt, context_elapsedMs = before\<rparr>) (\<lambda>_.
     then_run (throwIfAborted (signal_aborted X)) (\<lambda>_.
     then_run (retry_operation X \<lparr>context_attempt = attempt, context_elapsedMs = before\<rparr>) (\<lambda>outcome.
     then_run (elapsed (retry_policy X) startedAt) (\<lambda>elapsedMs.
     case outcome of
       Inr v \<Rightarrow> done_run (Some (RetrySucceeded v attempt elapsedMs))
     | Inl failure \<Rightarrow> after_failure X attempt elapsedMs failure))))))"

lemma then_run_Inr:
  "then_run m f w = (Inr y, w') \<longleftrightarrow> (\<exists>x w1. m w = (Inr x, w1) \<and> f x w1 = (Inr y, w'))"
  by (auto simp: then_run_def split: prod.splits sum.splits)

lemma done_run_eq [simp]: "done_run x w = (r, w') \<longleftrightarrow> r = Inr x \<and> w' = w"
  by (auto simp: done_run_def)

text \<open>Only an attempt below the maximum is followed by another.\<close>

lemma after_failure_again:
  assumes "after_failure X attempt e failure w = (Inr None, w')"
  shows "attempt < int_of_number (maximumAttempts (retry_policy X)) \<and> failure_retryable failure"
  using assms by (auto simp: after_failure_def give_up_def then_run_Inr split: if_splits)

lemma attempt_once_ends:
  assumes "attempt_once X startedAt attempt w = (Inr r, w')"
  obtains (success) v e where "r = Some (RetrySucceeded v attempt e)"
  | (failure) failure e w1 where "after_failure X attempt e failure w1 = (Inr r, w')"
proof -
  obtain outcome e w1 where "(case outcome of Inr v \<Rightarrow> done_run (Some (RetrySucceeded v attempt e))
      | Inl failure \<Rightarrow> after_failure X attempt e failure) w1 = (Inr r, w')"
    using assms unfolding attempt_once_def then_run_Inr by blast
  then show thesis by (cases outcome) (auto intro: that)
qed

lemma attempt_once_again:
  "attempt_once X startedAt attempt w = (Inr None, w') \<Longrightarrow> attempt < int_of_number (maximumAttempts (retry_policy X))"
  by (erule attempt_once_ends) (auto dest: after_failure_again)

function retry_loop ::
    "('w, 'x, 'v, 'z RetryFailure_scheme) RetryExecution \<Rightarrow> jsnumber \<Rightarrow> int \<Rightarrow>
     ('w, 'x, ('v, 'z RetryFailure_scheme) RetryExecutionResult) run" where
  "retry_loop X startedAt attempt w =
     (case attempt_once X startedAt attempt w of
        (Inl e, w') \<Rightarrow> (Inl e, w')
      | (Inr (Some result), w') \<Rightarrow> (Inr result, w')
      | (Inr None, w') \<Rightarrow> retry_loop X startedAt (attempt + 1) w')"
  by pat_completeness auto

termination
  by (relation "measure (\<lambda>(X, startedAt, attempt, w). nat (int_of_number (maximumAttempts (retry_policy X)) - attempt))")
    (auto dest!: attempt_once_again [OF sym])

declare retry_loop.simps [simp del]

definition executeWithRetry ::
    "('w, 'x, 'v, 'z RetryFailure_scheme) RetryExecution \<Rightarrow>
     ('w, 'x, ('v, 'z RetryFailure_scheme) RetryExecutionResult) run" where
  "executeWithRetry X w =
     (case validatePolicy (retry_policy X) of
        Inl e \<Rightarrow> (Inl e, w)
      | Inr _ \<Rightarrow> (case policy_now (retry_policy X) w of (startedAt, w') \<Rightarrow> retry_loop X startedAt 1 w'))"

end
