(* ===== verification/RetryProperties.thy ===== *)
theory RetryProperties
  imports Retry
begin

text \<open>
  What bounded retries promise: the loop comes to an end within the attempts of the policy
  and answers for the attempt that ended it; a delay stays within the bounds of the policy,
  with one exception.
\<close>

section \<open>Valid policies\<close>

lemma nonnegativeFinite_iff: "nonnegativeFinite v \<longleftrightarrow> (\<exists>q\<ge>0. v = Fin q)"
  by (cases v) (auto simp: nonnegativeFinite_def)

lemma positive_attempts_iff:
  "positive_attempts v \<longleftrightarrow> (\<exists>n\<ge>1. v = Fin (of_int n) \<and> safe_int n)"
proof
  assume v: "positive_attempts v"
  then have n: "v = Fin (of_int (int_of_number v))" "safe_int (int_of_number v)"
    using isSafeInteger_int [of v] by (auto simp: positive_attempts_def)
  moreover have "\<not> num_less (Fin (of_int (int_of_number v))) (Fin 1)"
    using v n(1) by (simp add: positive_attempts_def)
  then have "1 \<le> int_of_number v" by simp
  ultimately show "\<exists>n\<ge>1. v = Fin (of_int n) \<and> safe_int n" by blast
qed (auto simp: positive_attempts_def)

lemma validatePolicy_ok:
  assumes "validatePolicy p = Inr ()"
  obtains m e i b d j r where "maximumAttempts p = Fin (of_int m)" "1 \<le> m" "safe_int m"
    "maximumElapsedMs p = Fin e" "0 \<le> e" "initialDelayMs p = Fin i" "0 \<le> i"
    "backoffMultiplier p = Fin b" "1 \<le> b" "maximumDelayMs p = Fin d" "0 \<le> d"
    "jitterRatio p = Fin j" "0 \<le> j" "j \<le> 1" "maximumRetryAfterMs p = Fin r" "0 \<le> r"
proof -
  have "\<exists>b\<ge>1. backoffMultiplier p = Fin b" "\<exists>j\<ge>0. j \<le> 1 \<and> jitterRatio p = Fin j"
    using assms by (cases "backoffMultiplier p"; cases "jitterRatio p"; auto simp: validatePolicy_def)+
  moreover have "positive_attempts (maximumAttempts p)" "nonnegativeFinite (maximumElapsedMs p)"
    "nonnegativeFinite (initialDelayMs p)" "nonnegativeFinite (maximumDelayMs p)"
    "nonnegativeFinite (maximumRetryAfterMs p)" using assms by (auto simp: validatePolicy_def)
  ultimately show thesis using that unfolding nonnegativeFinite_iff positive_attempts_iff by metis
qed

section \<open>The delay\<close>

lemma double_bound:
  assumes "\<bar>q\<bar> \<le> c" "c \<le> 2 ^ 60"
  shows "\<exists>r. double q = Fin r \<and> \<bar>r\<bar> \<le> 2 * c + 1"
proof -
  from double_finite [of q] assms obtain r where "double q = Fin r" "\<bar>r\<bar> \<le> 2 * \<bar>q\<bar> + 1" by auto
  then show ?thesis using assms(1) by (intro exI [of _ r]) simp
qed

lemma jitter_factor_finite:
  assumes "0 \<le> x" "x < 1" "0 \<le> j" "j \<le> 1"
  shows "\<exists>f. num_add (Fin 1) (num_mul (num_sub (num_mul (Fin x) (Fin 2)) (Fin 1)) (Fin j)) = Fin f"
proof -
  have "\<bar>x * 2\<bar> \<le> 2" using assms by simp
  then obtain a where a: "double (x * 2) = Fin a" "\<bar>a\<bar> \<le> 5" using double_bound [of _ 2] by auto
  then have "\<bar>a - 1\<bar> \<le> 6" by simp
  then obtain b where b: "double (a - 1) = Fin b" "\<bar>b\<bar> \<le> 13" using double_bound [of _ 6] by auto
  have "\<bar>b * j\<bar> \<le> 13 * 1" unfolding abs_mult using b(2) assms by (intro mult_mono) auto
  then have "\<bar>b * j\<bar> \<le> 13" by simp
  then obtain c where c: "double (b * j) = Fin c" "\<bar>c\<bar> \<le> 27" using double_bound [of _ 13] by auto
  then have "\<bar>1 + c\<bar> \<le> 28" by simp
  then obtain d where "double (1 + c) = Fin d" using double_bound [of _ 28] by auto
  then show ?thesis by (simp add: a(1) b(1) c(1) num_sub_def)
qed

lemma clamped:
  assumes "v \<noteq> NaN" "0 \<le> d"
  shows "\<exists>q. num_max (Fin 0) (num_min (Fin d) v) = Fin q \<and> 0 \<le> q \<and> q \<le> d"
  using assms by (cases v) (auto simp: num_max_def num_min_def)

lemma jittered_bounds:
  assumes "validatePolicy p = Inr ()" and "0 \<le> x" "x < 1" and "maximumDelayMs p = Fin d"
  shows "jittered_delay p (Fin q) (Fin x) \<noteq> NaN \<and> (\<exists>y. jittered_delay p (Fin q) (Fin x) = Fin y \<and> 0 \<le> y \<and> y \<le> d)"
proof -
  obtain j where j: "jitterRatio p = Fin j" "0 \<le> j" "j \<le> 1" and d: "0 \<le> d"
    using validatePolicy_ok [OF assms(1)] assms(4) by (metis jsnumber.inject(1))
  obtain f where "num_add (Fin 1) (num_mul (num_sub (num_mul (Fin x) (Fin 2)) (Fin 1)) (Fin j)) = Fin f"
    using jitter_factor_finite assms(2,3) j(2,3) by blast
  then show ?thesis using clamped [of "double (q * f)" d] d by (auto simp: jittered_delay_def j(1) assms(4))
qed

lemma hint_bounds:
  assumes "maximumRetryAfterMs p = Fin r" "0 \<le> r"
  shows "\<exists>h. normalizedHint p hint = Fin h \<and> 0 \<le> h \<and> h \<le> r \<and>
    (\<forall>q. hint = Some (Fin q) \<longrightarrow> min r q \<le> h)"
  using assms by (cases hint; cases "the hint") (auto simp: normalizedHint_def)

text \<open>What the language promises of a power: at least one for a base and an exponent that allow it.\<close>

definition power_ok :: "jsnumber \<Rightarrow> bool" where
  "power_ok v \<longleftrightarrow> v = Infinite True \<or> (\<exists>q\<ge>1. v = Fin q)"

lemma exponential_cases:
  assumes "power_ok (pow (backoffMultiplier p) (num_sub n (Fin 1)))" "initialDelayMs p = Fin i" "0 \<le> i"
    and "maximumDelayMs p = Fin d"
  shows "if i = 0 \<and> pow (backoffMultiplier p) (num_sub n (Fin 1)) = Infinite True
    then exponential_delay pow p n = NaN else \<exists>q. exponential_delay pow p n = Fin q"
proof -
  let ?v = "pow (backoffMultiplier p) (num_sub n (Fin 1))"
  show ?thesis
  proof (cases "?v = Infinite True")
    case True
    then show ?thesis using assms(2-4) by (auto simp: exponential_delay_def)
  next
    case False
    then obtain q where q: "?v = Fin q" "1 \<le> q" using assms(1) by (auto simp: power_ok_def)
    then have "double (i * q) = Infinite True \<or> (\<exists>r\<ge>0. double (i * q) = Fin r)"
      using assms(3) by (intro double_nonneg) simp
    then show ?thesis using q assms(2,4) by (auto simp: exponential_delay_def)
  qed
qed

text \<open>
  C38. A delay under a valid policy is a whole number of milliseconds between zero and the
  larger of the two maxima (rounded up), and a finite hint is honoured up to its maximum;
  with one exception: with an initial delay of zero and a power that overflows, zero times
  infinity makes the delay NaN, whatever the hint.
\<close>

theorem retry_delay_bounded:
  assumes "validatePolicy p = Inr ()" and "maximumDelayMs p = Fin d" and "maximumRetryAfterMs p = Fin r"
    and "power_ok (pow (backoffMultiplier p) (num_sub (Fin (of_int n)) (Fin 1)))"
    and "retryDelay pow p (Fin (of_int n)) hint w = (Inr delay, w')"
  shows "(delay = NaN \<longleftrightarrow> initialDelayMs p = Fin 0 \<and>
      pow (backoffMultiplier p) (num_sub (Fin (of_int n)) (Fin 1)) = Infinite True) \<and>
    (delay \<noteq> NaN \<longrightarrow> (\<exists>k. delay = Fin (of_int k) \<and> 0 \<le> k \<and> k \<le> \<lceil>max d r\<rceil> \<and>
      (\<forall>h. hint = Some (Fin h) \<longrightarrow> min r h \<le> of_int k)))"
proof -
  obtain i where i: "initialDelayMs p = Fin i" "0 \<le> i" and r: "0 \<le> r"
    using validatePolicy_ok [OF assms(1)] assms(3) by (metis jsnumber.inject(1))
  obtain x where x: "0 \<le> x" "x < 1" and delay: "delay = num_ceil (num_max
      (jittered_delay p (exponential_delay pow p (Fin (of_int n))) (Fin x)) (normalizedHint p hint))"
  proof -
    obtain random where random: "isFinite random" "\<not> num_less random (Fin 0)" "\<not> num_le (Fin 1) random"
      "delay = num_ceil (num_max (jittered_delay p (exponential_delay pow p (Fin (of_int n))) random)
         (normalizedHint p hint))"
      using assms(5) by (auto simp: retryDelay_def Let_def split: if_splits prod.splits)
    then obtain x where x: "random = Fin x" by (cases random) auto
    moreover have "0 \<le> x" "x < 1" using random(2,3) by (auto simp: x num_le_def)
    ultimately show thesis using that random(4) by blast
  qed
  obtain h where h: "normalizedHint p hint = Fin h" "0 \<le> h" "h \<le> r" "\<forall>q. hint = Some (Fin q) \<longrightarrow> min r q \<le> h"
    using hint_bounds [OF assms(3) r] by metis
  note exponential = exponential_cases [where pow = pow, OF assms(4) i assms(2)]
  show ?thesis
  proof (cases "i = 0 \<and> pow (backoffMultiplier p) (num_sub (Fin (of_int n)) (Fin 1)) = Infinite True")
    case True
    with exponential have "exponential_delay pow p (Fin (of_int n)) = NaN" by simp
    then have "delay = NaN" by (simp add: delay jittered_delay_def)
    with True i show ?thesis by simp
  next
    case False
    with exponential obtain q where q: "exponential_delay pow p (Fin (of_int n)) = Fin q" by metis
    obtain y where y: "jittered_delay p (Fin q) (Fin x) = Fin y" "0 \<le> y" "y \<le> d"
      using jittered_bounds [OF assms(1) x assms(2)] by blast
    have eq: "delay = Fin (of_int \<lceil>max y h\<rceil>)" by (simp add: delay q y(1) h(1))
    have "max y h \<le> max d r" using y h by auto
    then have "0 \<le> \<lceil>max y h\<rceil>" "\<lceil>max y h\<rceil> \<le> \<lceil>max d r\<rceil>" using y(2) by (auto intro: ceiling_mono)
    moreover have "h \<le> of_int \<lceil>max y h\<rceil>" by (rule order_trans [OF max.cobounded2 le_of_int_ceiling])
    ultimately show ?thesis using False i h(4) eq by fastforce
  qed
qed

section \<open>The loop\<close>

text \<open>The world after n attempts, from attempt k on, that were all followed by another.\<close>

fun after_retries ::
    "('w, 'x, 'v, 'z RetryFailure_scheme) RetryExecution \<Rightarrow> jsnumber \<Rightarrow> int \<Rightarrow> nat \<Rightarrow> 'w \<Rightarrow> 'w option" where
  "after_retries X startedAt k 0 w = Some w"
| "after_retries X startedAt k (Suc n) w =
     (case attempt_once X startedAt k w of
        (Inr None, w') \<Rightarrow> after_retries X startedAt (k + 1) n w'
      | _ \<Rightarrow> None)"

lemma retry_loop_run:
  assumes "retry_loop X startedAt k w = (out, w')"
  shows "\<exists>n w1. after_retries X startedAt k n w = Some w1 \<and>
    (n = 0 \<or> k + int n \<le> int_of_number (maximumAttempts (retry_policy X))) \<and>
    attempt_once X startedAt (k + int n) w1 = (map_sum id Some out, w')"
  using assms
proof (induction X startedAt k w rule: retry_loop.induct)
  case (1 X startedAt k w)
  obtain r w1 where r: "attempt_once X startedAt k w = (r, w1)" by fastforce
  show ?case
  proof (cases "r = Inr None")
    case True
    then have "retry_loop X startedAt (k + 1) w1 = (out, w')" using 1(2) r by (simp add: retry_loop.simps [of X startedAt k])
    with 1(1) [OF r [symmetric] True refl] obtain n w2 where n: "after_retries X startedAt (k + 1) n w1 = Some w2"
      "n = 0 \<or> k + 1 + int n \<le> int_of_number (maximumAttempts (retry_policy X))"
      "attempt_once X startedAt (k + 1 + int n) w2 = (map_sum id Some out, w')" by blast
    with attempt_once_again [of X startedAt k w w1] r True show ?thesis
      by (intro exI [of _ "Suc n"] exI [of _ w2]) (auto simp: algebra_simps id_def)
  next
    case False
    then have "attempt_once X startedAt (k + int 0) w = (map_sum id Some out, w')"
      using 1(2) r by (auto simp: retry_loop.simps [of X startedAt k] split: sum.splits option.splits)
    then show ?thesis by (intro exI [of _ 0]) (simp add: id_def)
  qed
qed

lemma attempt_once_result:
  assumes "attempt_once X startedAt k w = (Inr (Some r), w')"
  shows "result_attempts r = k \<and>
    (\<forall>f n e. r = RetryFailed f n e ExhaustedNonRetryable \<longrightarrow> \<not> failure_retryable f) \<and>
    (\<forall>f n e. r = RetryFailed f n e ExhaustedAttempts \<longrightarrow>
      n = k \<and> int_of_number (maximumAttempts (retry_policy X)) \<le> k) \<and>
    (\<forall>f n e. r = RetryFailed f n e ExhaustedElapsedTime \<longrightarrow>
      n = k \<and> k < int_of_number (maximumAttempts (retry_policy X)))"
  using assms
proof (cases rule: attempt_once_ends)
  case (failure f e w1)
  then show ?thesis
    by (auto simp: after_failure_def give_up_def schedule_retry_def then_run_Inr split: if_splits)
qed auto


section \<open>Concrete runs\<close>

text \<open>A power computed by rounding the exact one, and policies whose clock and random source stand still.\<close>

fun demo_power :: "jsnumber \<Rightarrow> jsnumber \<Rightarrow> jsnumber" where
  "demo_power (Fin b) (Fin n) = double (b ^ nat \<lfloor>n\<rfloor>)"
| "demo_power _ _ = NaN"

definition demo_policy :: "rat \<Rightarrow> rat \<Rightarrow> (unit, unit) RetryPolicy" where
  "demo_policy initial multiplier =
     \<lparr>maximumAttempts = Fin 3, maximumElapsedMs = Fin 30000, initialDelayMs = Fin initial,
      backoffMultiplier = Fin multiplier, maximumDelayMs = Fin 5000, jitterRatio = Fin 0,
      maximumRetryAfterMs = Fin 30000, policy_now = (\<lambda>w. (Fin 0, w)), policy_sleep = (\<lambda>_. done_run ()),
      policy_random = (\<lambda>w. (Fin 0, w))\<rparr>"

definition demo_failure :: RetryFailure where
  "demo_failure = \<lparr>failure_retryable = True, failure_reasonCategory = RateLimit, retryAfterMs = None\<rparr>"

definition demo_execution :: "(unit, unit, nat, RetryFailure) RetryExecution" where
  "demo_execution = \<lparr>retry_power = demo_power, retry_policy = demo_policy 250 2, signal_aborted = (\<lambda>_. False),
     retry_hooks = \<lparr>onAttemptStarted = None, onRetryScheduled = None, onRetryExhausted = None\<rparr>,
     retry_operation = (\<lambda>_. done_run (Inl demo_failure))\<rparr>"

lemma demo_policy_valid:
  "0 \<le> initial \<Longrightarrow> 1 \<le> multiplier \<Longrightarrow> validatePolicy (demo_policy initial multiplier) = Inr ()"
  by (simp add: validatePolicy_def demo_policy_def nonnegativeFinite_def positive_attempts_def guard_def
      safe_int_def max_safe_integer_def)

definition demo_large :: rat where
  "demo_large = 2 ^ 600"

lemma demo_powers:
  "demo_power (Fin demo_large) (Fin 2) = Infinite True" "demo_power (Fin 2) (Fin 2) = Fin 4"
  "demo_power (Fin 2) (Fin 1) = Fin 2" "demo_power (Fin 2) (Fin 0) = Fin 1"
proof -
  have "(2::rat) ^ 1026 \<le> 2 ^ 1200" by (rule power_increasing) simp_all
  then have "double (2 ^ 1200) = Infinite True" by (rule double_overflow)
  then show "demo_power (Fin demo_large) (Fin 2) = Infinite True"
    by (simp add: demo_large_def flip: power_mult)
qed simp_all

lemmas delay_defs = retryDelay_def Let_def positive_attempts_def safe_int_def max_safe_integer_def
  exponential_delay_def jittered_delay_def normalizedHint_def num_sub_def num_le_def

lemma demo_delay:
  "retryDelay demo_power (demo_policy 250 2) (Fin 3) (Some (Fin 2000)) () = (Inr (Fin 2000), ())"
  "retryDelay demo_power (demo_policy 0 demo_large) (Fin 3) (Some (Fin 2000)) () = (Inr NaN, ())"
  by (simp_all add: delay_defs demo_policy_def demo_powers del: demo_power.simps)

lemma demo_run: "executeWithRetry demo_execution () = (Inr (RetryFailed demo_failure 3 (Fin 0) ExhaustedAttempts), ())"
proof -
  have valid: "validatePolicy (retry_policy demo_execution) = Inr ()"
    using demo_policy_valid [of 250 2] by (simp add: demo_execution_def)
  have fields: "policy_now (retry_policy demo_execution) = (\<lambda>w. (Fin 0, w))" 
    "signal_aborted demo_execution = (\<lambda>_. False)" "onAttemptStarted (retry_hooks demo_execution) = None"
    "retry_operation demo_execution = (\<lambda>_. done_run (Inl demo_failure))"
    by (simp_all add: demo_execution_def demo_policy_def)
  have turn: "attempt_once demo_execution (Fin 0) k () = after_failure demo_execution k (Fin 0) demo_failure ()" for k
    by (simp add: attempt_once_def then_run_def throwIfAborted_def elapsed_def num_sub_def fields run_hook_def done_run_def)
  have delays: "retryDelay demo_power (demo_policy 250 2) (Fin 1) None () = (Inr (Fin 250), ())"
    "retryDelay demo_power (demo_policy 250 2) (Fin 2) None () = (Inr (Fin 500), ())"
    by (simp_all add: delay_defs demo_policy_def demo_powers del: demo_power.simps)
  have again: "after_failure demo_execution k (Fin 0) demo_failure () = (Inr None, ())" if "k = 1 \<or> k = 2" for k
    using that delays by (auto simp: after_failure_def schedule_retry_def then_run_def throwIfAborted_def run_hook_def
        done_run_def demo_execution_def demo_failure_def demo_policy_def num_le_def num_sub_def)
  have final: "after_failure demo_execution 3 (Fin 0) demo_failure () =
      (Inr (Some (RetryFailed demo_failure 3 (Fin 0) ExhaustedAttempts)), ())"
    by (simp add: after_failure_def give_up_def then_run_def run_hook_def done_run_def demo_execution_def
        demo_failure_def demo_policy_def)
  show ?thesis
    by (simp add: executeWithRetry_def valid fields(1) retry_loop.simps [of _ _ 1] retry_loop.simps [of _ _ 2]
        retry_loop.simps [of _ _ 3] turn again final)
qed

theorem retry_delay_bounded_witness:
  "(\<exists>k. (Fin 2000 :: jsnumber) = Fin (of_int k) \<and> 0 \<le> k \<and> k \<le> 30000) \<and>
   retryDelay demo_power (demo_policy 250 2) (Fin 3) (Some (Fin 2000)) () = (Inr (Fin 2000), ()) \<and>
   retryDelay demo_power (demo_policy 0 demo_large) (Fin 3) (Some (Fin 2000)) () = (Inr NaN, ())"
proof -
  have two: "num_sub (Fin (of_int 3)) (Fin 1) = Fin 2" by (simp add: num_sub_def)
  have "power_ok (demo_power (backoffMultiplier (demo_policy 250 2)) (num_sub (Fin (of_int 3)) (Fin 1)))"
    unfolding two by (simp add: demo_policy_def power_ok_def demo_powers del: demo_power.simps)
  moreover have "retryDelay demo_power (demo_policy 250 2) (Fin (of_int 3)) (Some (Fin 2000)) () = (Inr (Fin 2000), ())"
    using demo_delay(1) by simp
  ultimately have "\<exists>k. (Fin 2000 :: jsnumber) = Fin (of_int k) \<and> 0 \<le> k \<and> k \<le> \<lceil>max 5000 (30000 :: rat)\<rceil>"
    using retry_delay_bounded [where pow = demo_power and p = "demo_policy 250 2" and n = 3 and d = 5000 and
        r = 30000 and hint = "Some (Fin 2000)" and w = "()" and delay = "Fin 2000" and w' = "()"]
      demo_policy_valid [of 250 2] by (simp add: demo_policy_def)
  then show ?thesis using demo_delay by simp
qed


end
