(* ===== verification/Sha256.thy ===== *)
theory Sha256
  imports Json "HOL-Library.Word"
begin

unbundle bit_operations_syntax

text \<open>
  \<open>sha256Text\<close> of src/provider-context.ts: SHA-256 in the arithmetic of the language. A
  number is an integer; a bitwise operator reads the low 32 bits and returns a signed
  integer, \<open>>>>\<close> an unsigned one; sums of a few such numbers are exact doubles; a
  \<open>Uint32Array\<close> stores a number modulo \<open>2 ^ 32\<close>. The second part is the standard (FIPS
  180-4) on 32-bit words.
\<close>

section \<open>Bitwise operators on numbers\<close>

definition low_bits :: "int \<Rightarrow> 32 word" where
  "low_bits n = word_of_int n"

definition js_and :: "int \<Rightarrow> int \<Rightarrow> int" where
  "js_and a b = sint (low_bits a AND low_bits b)"

definition js_or :: "int \<Rightarrow> int \<Rightarrow> int" where
  "js_or a b = sint (low_bits a OR low_bits b)"

definition js_xor :: "int \<Rightarrow> int \<Rightarrow> int" where
  "js_xor a b = sint (low_bits a XOR low_bits b)"

definition js_not :: "int \<Rightarrow> int" where
  "js_not a = sint (NOT (low_bits a))"

definition js_shl :: "int \<Rightarrow> nat \<Rightarrow> int" where
  "js_shl a n = sint (push_bit n (low_bits a))"

definition js_ushr :: "int \<Rightarrow> nat \<Rightarrow> int" where
  "js_ushr a n = uint (drop_bit n (low_bits a))"

definition uint32 :: "int \<Rightarrow> int" where
  "uint32 n = n mod 2 ^ 32"

section \<open>The program\<close>

definition sha_h :: "int list" where
  "sha_h = [0x6a09e667, 0xbb67ae85, 0x3c6ef372, 0xa54ff53a, 0x510e527f, 0x9b05688c, 0x1f83d9ab, 0x5be0cd19]"

definition sha_k :: "int list" where
  "sha_k =
    [0x428a2f98,0x71374491,0xb5c0fbcf,0xe9b5dba5,0x3956c25b,0x59f111f1,0x923f82a4,0xab1c5ed5] @
     [0xd807aa98,0x12835b01,0x243185be,0x550c7dc3,0x72be5d74,0x80deb1fe,0x9bdc06a7,0xc19bf174] @
     [0xe49b69c1,0xefbe4786,0x0fc19dc6,0x240ca1cc,0x2de92c6f,0x4a7484aa,0x5cb0a9dc,0x76f988da] @
     [0x983e5152,0xa831c66d,0xb00327c8,0xbf597fc7,0xc6e00bf3,0xd5a79147,0x06ca6351,0x14292967] @
     [0x27b70a85,0x2e1b2138,0x4d2c6dfc,0x53380d13,0x650a7354,0x766a0abb,0x81c2c92e,0x92722c85] @
     [0xa2bfe8a1,0xa81a664b,0xc24b8b70,0xc76c51a3,0xd192e819,0xd6990624,0xf40e3585,0x106aa070] @
     [0x19a4c116,0x1e376c08,0x2748774c,0x34b0bcb5,0x391c0cb3,0x4ed8aa4a,0x5b9cca4f,0x682e6ff3] @
     [0x748f82ee,0x78a5636f,0x84c87814,0x8cc70208,0x90befffa,0xa4506ceb,0xbef9a3f7,0xc67178f2]"

definition rotate32 :: "int \<Rightarrow> nat \<Rightarrow> int" where
  "rotate32 x bits = js_or (js_ushr x bits) (js_shl x (32 - bits))"

text \<open>The bytes of the buffer: the message, 0x80, zeros and the two words of the bit length.\<close>

definition set_uint32 :: "int \<Rightarrow> int list" where
  "set_uint32 n = map (\<lambda>i. uint32 n div 2 ^ i mod 256) [24, 16, 8, 0]"

definition padded_bytes :: "int list \<Rightarrow> int list" where
  "padded_bytes bytes =
     (let bitLength = int (length bytes) * 8;
          paddedLength = (length bytes + 9 + 63) div 64 * 64
      in bytes @ [0x80] @ replicate (paddedLength - length bytes - 9) 0 @
         set_uint32 (bitLength div 0x100000000) @ set_uint32 (uint32 bitLength))"

fun get_uint32s :: "int list \<Rightarrow> int list" where
  "get_uint32s (a # b # c # d # bytes) = (a * 2 ^ 24 + b * 2 ^ 16 + c * 2 ^ 8 + d) # get_uint32s bytes"
| "get_uint32s _ = []"

text \<open>The schedule: the entries of \<open>w\<close> behind the first sixteen, one after the other.\<close>

definition schedule_next :: "int list \<Rightarrow> int" where
  "schedule_next w =
     (let i = length w; x = w ! (i - 15); y = w ! (i - 2);
          s0 = js_xor (js_xor (rotate32 x 7) (rotate32 x 18)) (js_ushr x 3);
          s1 = js_xor (js_xor (rotate32 y 17) (rotate32 y 19)) (js_ushr y 10)
      in uint32 (w ! (i - 16) + s0 + w ! (i - 7) + s1))"

fun extend_schedule :: "nat \<Rightarrow> int list \<Rightarrow> int list" where
  "extend_schedule 0 w = w"
| "extend_schedule (Suc n) w = extend_schedule n (w @ [schedule_next w])"

type_synonym 'a sha_state = "'a \<times> 'a \<times> 'a \<times> 'a \<times> 'a \<times> 'a \<times> 'a \<times> 'a"

fun sha_round :: "int \<times> int \<Rightarrow> int sha_state \<Rightarrow> int sha_state" where
  "sha_round (k, w) (a, b, c, d, e, f, g, hh) =
     (let s1 = js_xor (js_xor (rotate32 e 6) (rotate32 e 11)) (rotate32 e 25);
          choice = js_xor (js_and e f) (js_and (js_not e) g);
          t1 = uint32 (hh + s1 + choice + k + w);
          s0 = js_xor (js_xor (rotate32 a 2) (rotate32 a 13)) (rotate32 a 22);
          majority = js_xor (js_xor (js_and a b) (js_and a c)) (js_and b c);
          t2 = uint32 (s0 + majority)
      in (uint32 (t1 + t2), a, b, c, uint32 (d + t1), e, f, g))"

fun add_state :: "int sha_state \<Rightarrow> int sha_state \<Rightarrow> int sha_state" where
  "add_state (h0, h1, h2, h3, h4, h5, h6, h7) (a, b, c, d, e, f, g, hh) =
     (uint32 (h0 + a), uint32 (h1 + b), uint32 (h2 + c), uint32 (h3 + d),
      uint32 (h4 + e), uint32 (h5 + f), uint32 (h6 + g), uint32 (h7 + hh))"

definition sha_block :: "int list \<Rightarrow> int sha_state \<Rightarrow> int sha_state" where
  "sha_block words h = add_state h (fold sha_round (zip sha_k (extend_schedule 48 words)) h)"

fun sha_blocks :: "int list \<Rightarrow> int sha_state \<Rightarrow> int sha_state" where
  "sha_blocks words h =
     (if length words < 16 then h else sha_blocks (drop 16 words) (sha_block (take 16 words) h))"

declare sha_blocks.simps [simp del]

fun state_of_list :: "'a list \<Rightarrow> 'a sha_state" where
  "state_of_list l = (l ! 0, l ! 1, l ! 2, l ! 3, l ! 4, l ! 5, l ! 6, l ! 7)"

fun list_of_state :: "'a sha_state \<Rightarrow> 'a list" where
  "list_of_state (a, b, c, d, e, f, g, h) = [a, b, c, d, e, f, g, h]"

text \<open>\<open>part.toString(16).padStart(8, "0")\<close> of a 32-bit number.\<close>

definition hex_string :: "int \<Rightarrow> string" where
  "hex_string n = map (\<lambda>i. hex_digit (nat (n div 16 ^ i mod 16))) [7, 6, 5, 4, 3, 2, 1, 0]"

text \<open>\<open>TextEncoder.encode\<close>.\<close>

definition utf8_bytes :: "string \<Rightarrow> int list" where
  "utf8_bytes s = map int (concat (map utf8_encode (utf16_scalars (map of_char s))))"

definition sha256Bytes :: "int list \<Rightarrow> int sha_state" where
  "sha256Bytes bytes = sha_blocks (get_uint32s (padded_bytes bytes)) (state_of_list sha_h)"

definition sha256Text :: "string \<Rightarrow> string" where
  "sha256Text s = concat (map hex_string (list_of_state (sha256Bytes (utf8_bytes s))))"

section \<open>The standard\<close>

definition ROTR :: "nat \<Rightarrow> 32 word \<Rightarrow> 32 word" where
  "ROTR n x = word_rotr n x"

definition Ch :: "32 word \<Rightarrow> 32 word \<Rightarrow> 32 word \<Rightarrow> 32 word" where
  "Ch x y z = (x AND y) XOR (NOT x AND z)"

definition Maj :: "32 word \<Rightarrow> 32 word \<Rightarrow> 32 word \<Rightarrow> 32 word" where
  "Maj x y z = (x AND y) XOR (x AND z) XOR (y AND z)"

definition Sigma0 :: "32 word \<Rightarrow> 32 word" where
  "Sigma0 x = ROTR 2 x XOR ROTR 13 x XOR ROTR 22 x"

definition Sigma1 :: "32 word \<Rightarrow> 32 word" where
  "Sigma1 x = ROTR 6 x XOR ROTR 11 x XOR ROTR 25 x"

definition sigma0 :: "32 word \<Rightarrow> 32 word" where
  "sigma0 x = ROTR 7 x XOR ROTR 18 x XOR drop_bit 3 x"

definition sigma1 :: "32 word \<Rightarrow> 32 word" where
  "sigma1 x = ROTR 17 x XOR ROTR 19 x XOR drop_bit 10 x"

fun message_schedule :: "32 word list \<Rightarrow> nat \<Rightarrow> 32 word" where
  "message_schedule M t =
     (if t < 16 then M ! t
      else sigma1 (message_schedule M (t - 2)) + message_schedule M (t - 7) +
        sigma0 (message_schedule M (t - 15)) + message_schedule M (t - 16))"

declare message_schedule.simps [simp del]

fun fips_round :: "32 word list \<Rightarrow> nat \<Rightarrow> 32 word sha_state \<Rightarrow> 32 word sha_state" where
  "fips_round M t (a, b, c, d, e, f, g, h) =
     (let T1 = h + Sigma1 e + Ch e f g + word_of_int (sha_k ! t) + message_schedule M t;
          T2 = Sigma0 a + Maj a b c
      in (T1 + T2, a, b, c, d + T1, e, f, g))"

fun fips_add :: "32 word sha_state \<Rightarrow> 32 word sha_state \<Rightarrow> 32 word sha_state" where
  "fips_add (h0, h1, h2, h3, h4, h5, h6, h7) (a, b, c, d, e, f, g, h) =
     (a + h0, b + h1, c + h2, d + h3, e + h4, f + h5, g + h6, h + h7)"

definition fips_block :: "32 word sha_state \<Rightarrow> 32 word list \<Rightarrow> 32 word sha_state" where
  "fips_block H M = fips_add H (fold (fips_round M) [0..<64] H)"

text \<open>
  The padding appends a one bit, the fewest zero bits that leave 64 bits of the last block,
  and the length in bits; the message is a whole number of bytes.
\<close>

definition fips_padding :: "nat \<Rightarrow> 8 word list" where
  "fips_padding l =
     0x80 # replicate (nat ((55 - int l) mod 64)) 0 @
     map (\<lambda>i. ucast (drop_bit i (word_of_int (8 * int l) :: 64 word))) [56, 48, 40, 32, 24, 16, 8, 0]"

definition word_of_bytes :: "8 word \<Rightarrow> 8 word \<Rightarrow> 8 word \<Rightarrow> 8 word \<Rightarrow> 32 word" where
  "word_of_bytes a b c d =
     ucast a * 2 ^ 24 + ucast b * 2 ^ 16 + ucast c * 2 ^ 8 + ucast d"

fun fips_words :: "8 word list \<Rightarrow> 32 word list" where
  "fips_words (a # b # c # d # bytes) = word_of_bytes a b c d # fips_words bytes"
| "fips_words _ = []"

fun fips_blocks :: "32 word list \<Rightarrow> 32 word list list" where
  "fips_blocks ws = (if length ws < 16 then [] else take 16 ws # fips_blocks (drop 16 ws))"

declare fips_blocks.simps [simp del]

definition SHA_256 :: "8 word list \<Rightarrow> 32 word sha_state" where
  "SHA_256 message =
     foldl fips_block (state_of_list (map word_of_int sha_h)) (fips_blocks (fips_words (message @ fips_padding (length message))))"

end
