(* ===== verification/Sha256Facts.thy ===== *)
theory Sha256Facts
  imports Sha256
begin

unbundle bit_operations_syntax

text \<open>
  The program computes the standard: its numbers stand for 32-bit words (\<open>low_bits\<close>), its
  operators for theirs.
\<close>

section \<open>Operators\<close>

lemma low_bits_ops [simp]:
  "low_bits (js_and a b) = low_bits a AND low_bits b"
  "low_bits (js_or a b) = low_bits a OR low_bits b"
  "low_bits (js_xor a b) = low_bits a XOR low_bits b"
  "low_bits (js_not a) = NOT (low_bits a)"
  "low_bits (js_shl a n) = push_bit n (low_bits a)"
  "low_bits (js_ushr a n) = drop_bit n (low_bits a)"
  by (simp_all add: low_bits_def js_and_def js_or_def js_xor_def js_not_def js_shl_def js_ushr_def)

lemma low_bits_add [simp]: "low_bits (a + b) = low_bits a + low_bits b"
  by (simp add: low_bits_def)

lemma uint32_low_bits: "uint32 n = uint (low_bits n)"
  by (simp add: uint32_def low_bits_def uint_word_of_int)

lemma uint_low_bits [simp]: "low_bits (uint w) = w"
  by (simp add: low_bits_def)

lemma low_bits_uint32 [simp]: "low_bits (uint32 n) = low_bits n"
  by (simp add: uint32_low_bits)

lemma sha_state_exhaust:
  obtains a b c d e f g h where "s = (a, b, c, d, e, f, g, h)"
  by (metis prod.exhaust)

lemma low_bits_rotate [simp]:
  assumes "0 < n" "n < 32"
  shows "low_bits (rotate32 x n) = ROTR n (low_bits x)"
proof (rule bit_word_eqI)
  fix i assume "i < LENGTH(32)"
  then have i: "i < 32" by simp
  show "bit (low_bits (rotate32 x n)) i = bit (ROTR n (low_bits x)) i"
  proof (cases "i + n < 32")
    case True
    then have "(i + n) mod 32 = i + n" "\<not> 32 - n \<le> i" by auto
    with True i show ?thesis
      by (simp add: rotate32_def ROTR_def bit_or_iff bit_push_bit_iff bit_drop_bit_eq bit_word_rotr_iff add.commute)
  next
    case False
    then have "(i + n) mod 32 = i + n - 32" "32 - n \<le> i" using i assms by (auto simp: mod_if)
    moreover have "i - (32 - n) = i + n - 32" using False assms by simp
    moreover have "\<not> bit (low_bits x) (n + i)"
      using False bit_imp_le_length [of "low_bits x" "n + i"] by fastforce
    ultimately show ?thesis using i
      by (simp add: rotate32_def ROTR_def bit_or_iff bit_push_bit_iff bit_drop_bit_eq bit_word_rotr_iff add.commute)
  qed
qed

section \<open>Blocks\<close>

lemma low_bits_schedule_next:
  assumes "map low_bits w = map (message_schedule M) [0..<length w]" and "16 \<le> length w"
  shows "low_bits (schedule_next w) = message_schedule M (length w)"
proof -
  have at: "low_bits (w ! i) = message_schedule M i" if "i < length w" for i
    using arg_cong [OF assms(1), of "\<lambda>l. l ! i"] that by simp
  show ?thesis
    using assms(2) unfolding message_schedule.simps [of M "length w"]
    by (simp add: schedule_next_def Let_def at sigma0_def sigma1_def ac_simps)
qed

lemma low_bits_extend_schedule:
  assumes "map low_bits w = map (message_schedule M) [0..<length w]" and "16 \<le> length w"
  shows "map low_bits (extend_schedule n w) = map (message_schedule M) [0..<length w + n]"
  using assms
proof (induction n arbitrary: w)
  case (Suc n)
  have "map low_bits (w @ [schedule_next w]) = map (message_schedule M) [0..<length (w @ [schedule_next w])]"
    using Suc.prems low_bits_schedule_next [OF Suc.prems] by simp
  from Suc.IH [OF this] Suc.prems(2) show ?case by simp
qed simp

lemma extend_schedule_length [simp]: "length (extend_schedule n w) = length w + n"
  by (induction n w rule: extend_schedule.induct) auto

fun map_state :: "('a \<Rightarrow> 'b) \<Rightarrow> 'a sha_state \<Rightarrow> 'b sha_state" where
  "map_state f (a, b, c, d, e, f', g, h) = (f a, f b, f c, f d, f e, f f', f g, f h)"

lemma low_bits_round:
  assumes "low_bits w = message_schedule M t" and "k = sha_k ! t"
  shows "map_state low_bits (sha_round (k, w) s) = fips_round M t (map_state low_bits s)"
  using assms
proof (cases s rule: sha_state_exhaust)
  case (1 a b c d e f g h)
  have "low_bits (sha_k ! t) = word_of_int (sha_k ! t)" by (simp add: low_bits_def)
  then show ?thesis using assms
    by (simp add: 1 Let_def Sigma0_def Sigma1_def Ch_def Maj_def ac_simps)
qed

lemma low_bits_rounds:
  assumes "\<forall>t\<in>set ts. low_bits (W t) = message_schedule M t"
  shows "map_state low_bits (fold sha_round (map (\<lambda>t. (sha_k ! t, W t)) ts) s) = fold (fips_round M) ts (map_state low_bits s)"
  using assms by (induction ts arbitrary: s) (simp_all add: low_bits_round)

lemma zip_nth: "length xs = n \<Longrightarrow> length ys = n \<Longrightarrow> zip xs ys = map (\<lambda>t. (xs ! t, ys ! t)) [0..<n]"
  by (rule nth_equalityI) auto

lemma sha_block_fips:
  assumes "length words = 16"
  shows "sha_block words (map_state uint H) = map_state uint (fips_block H (map low_bits words))"
proof -
  let ?M = "map low_bits words"
  have start: "map low_bits words = map (message_schedule ?M) [0..<length words]"
    by (rule nth_equalityI) (use assms in \<open>auto simp: message_schedule.simps [of ?M]\<close>)
  have ext: "map low_bits (extend_schedule 48 words) = map (message_schedule ?M) [0..<64]"
    using low_bits_extend_schedule [OF start, of 48] assms by simp
  have "\<forall>t\<in>set [0..<64]. low_bits (extend_schedule 48 words ! t) = message_schedule ?M t"
  proof
    fix t assume "t \<in> set [0..<64::nat]"
    then show "low_bits (extend_schedule 48 words ! t) = message_schedule ?M t"
      using arg_cong [OF ext, of "\<lambda>l. l ! t"] assms by simp
  qed
  moreover have "zip sha_k (extend_schedule 48 words) = map (\<lambda>t. (sha_k ! t, extend_schedule 48 words ! t)) [0..<64]"
    by (rule zip_nth) (use assms in \<open>simp_all add: sha_k_def\<close>)
  moreover have "map_state low_bits (map_state uint H) = H" by (cases H rule: sha_state_exhaust) simp
  ultimately have rounds: "map_state low_bits (fold sha_round (zip sha_k (extend_schedule 48 words)) (map_state uint H)) =
      fold (fips_round ?M) [0..<64] H"
    using low_bits_rounds [of "[0..<64]" "\<lambda>t. extend_schedule 48 words ! t" ?M "map_state uint H"] by simp
  have "add_state (map_state uint H) s = map_state uint (fips_add H (map_state low_bits s))" for s
    by (cases H rule: sha_state_exhaust; cases s rule: sha_state_exhaust) (simp add: uint32_low_bits add.commute)
  then show ?thesis unfolding sha_block_def fips_block_def rounds [symmetric] .
qed

lemma sha_blocks_fips:
  "sha_blocks words (map_state uint H) = map_state uint (foldl fips_block H (fips_blocks (map low_bits words)))"
proof (induction "length words" arbitrary: words H rule: less_induct)
  case less
  show ?case
  proof (cases "length words < 16")
    case True
    then show ?thesis by (simp add: sha_blocks.simps [of words] fips_blocks.simps [of "map low_bits words"])
  next
    case False
    then have "sha_block (take 16 words) (map_state uint H) = map_state uint (fips_block H (map low_bits (take 16 words)))"
      by (intro sha_block_fips) simp
    with False less [of "drop 16 words"] show ?thesis
      by (simp add: sha_blocks.simps [of words] fips_blocks.simps [of "map low_bits words"] take_map drop_map)
  qed
qed

section \<open>Bytes\<close>

definition is_byte :: "int \<Rightarrow> bool" where
  "is_byte b \<longleftrightarrow> 0 \<le> b \<and> b < 256"

lemma low_bits_of_bytes:
  assumes "is_byte a" "is_byte b" "is_byte c" "is_byte d"
  shows "low_bits (a * 2 ^ 24 + b * 2 ^ 16 + c * 2 ^ 8 + d) =
    word_of_bytes (word_of_int a) (word_of_int b) (word_of_int c) (word_of_int d)"
proof -
  have "ucast (word_of_int x :: 8 word) = (word_of_int x :: 32 word)" if "is_byte x" for x
    using that by (simp add: is_byte_def ucast_eq uint_word_of_int)
  then show ?thesis using assms by (simp add: word_of_bytes_def low_bits_def)
qed

lemma get_uint32s_fips:
  "list_all is_byte bytes \<Longrightarrow> map low_bits (get_uint32s bytes) = fips_words (map word_of_int bytes)"
  by (induction bytes rule: get_uint32s.induct) (simp_all only: get_uint32s.simps list.map fips_words.simps low_bits_of_bytes list.pred_inject simp_thms)

section \<open>Padding\<close>

lemma div_mod_bytes:
  "(n mod 2 ^ (k + 8 + m)) div 2 ^ k mod 256 = n div 2 ^ k mod (256 :: int)"
proof -
  have "take_bit 8 (drop_bit k (take_bit (k + 8 + m) n)) = take_bit 8 (drop_bit k n)"
    by (rule bit_eqI) (auto simp: bit_take_bit_iff bit_drop_bit_eq)
  then show ?thesis by (simp add: take_bit_eq_mod drop_bit_eq_div)
qed

lemma byte_of_length:
  assumes "k + 8 \<le> 64"
  shows "ucast (drop_bit k (word_of_int n :: 64 word)) = (word_of_int (n div 2 ^ k mod 256) :: 8 word)"
proof -
  have "uint (drop_bit k (word_of_int n :: 64 word)) = n mod 2 ^ (k + 8 + (64 - (k + 8))) div 2 ^ k"
  proof -
    have "uint (drop_bit k (word_of_int n :: 64 word)) = drop_bit k (uint (word_of_int n :: 64 word))"
      by (simp add: unsigned_drop_bit_eq uint_word_of_int take_bit_eq_mod)
    also have "\<dots> = drop_bit k (n mod 2 ^ 64)" by (simp add: uint_word_of_int)
    also have "\<dots> = n mod 2 ^ (k + 8 + (64 - (k + 8))) div 2 ^ k" using assms by (simp add: drop_bit_eq_div)
    finally show ?thesis .
  qed
  then have "ucast (drop_bit k (word_of_int n :: 64 word)) = (word_of_int (n mod 2 ^ (k + 8 + (64 - (k + 8))) div 2 ^ k) :: 8 word)"
    by (simp add: ucast_eq)
  also have "\<dots> = word_of_int (n mod 2 ^ (k + 8 + (64 - (k + 8))) div 2 ^ k mod 256)"
    using word_of_int_uint [of "word_of_int (n mod 2 ^ (k + 8 + (64 - (k + 8))) div 2 ^ k) :: 8 word"]
    by (simp add: uint_word_of_int)
  finally show ?thesis by (simp only: div_mod_bytes)
qed

lemma set_uint32_bytes:
  "map word_of_int (set_uint32 (n div 0x100000000) @ set_uint32 (uint32 n)) =
   map (\<lambda>i. ucast (drop_bit i (word_of_int n :: 64 word)) :: 8 word) [56, 48, 40, 32, 24, 16, 8, 0]"
proof -
  have low: "uint32 (uint32 n) div 2 ^ i mod 256 = n div 2 ^ i mod 256" if "i + 8 \<le> 32" for i
    using div_mod_bytes [of n i "24 - i"] that by (simp add: uint32_def)
  have high: "uint32 (n div 0x100000000) div 2 ^ i mod 256 = n div 2 ^ k mod 256" if "k = 32 + i" "i + 8 \<le> 32" for i k
    using div_mod_bytes [of "n div 0x100000000" i "24 - i"] that
    by (simp add: uint32_def power_add zdiv_zmult2_eq)
  have lows: "uint32 (uint32 n) div 2 ^ 24 mod 256 = n div 2 ^ 24 mod 256"
    "uint32 (uint32 n) div 2 ^ 16 mod 256 = n div 2 ^ 16 mod 256"
    "uint32 (uint32 n) div 2 ^ 8 mod 256 = n div 2 ^ 8 mod 256"
    "uint32 (uint32 n) div 2 ^ 0 mod 256 = n div 2 ^ 0 mod 256"
    by (rule low; simp)+
  have highs: "uint32 (n div 0x100000000) div 2 ^ 24 mod 256 = n div 2 ^ 56 mod 256"
    "uint32 (n div 0x100000000) div 2 ^ 16 mod 256 = n div 2 ^ 48 mod 256"
    "uint32 (n div 0x100000000) div 2 ^ 8 mod 256 = n div 2 ^ 40 mod 256"
    "uint32 (n div 0x100000000) div 2 ^ 0 mod 256 = n div 2 ^ 32 mod 256"
    by (rule high; simp)+
  have "ucast (drop_bit k (word_of_int n :: 64 word)) = (word_of_int (n div 2 ^ k mod 256) :: 8 word)"
    if "k \<in> set [56, 48, 40, 32, 24, 16, 8, 0]" for k
    by (rule byte_of_length) (use that in auto)
  then have "map (\<lambda>i. ucast (drop_bit i (word_of_int n :: 64 word)) :: 8 word) [56, 48, 40, 32, 24, 16, 8, 0] =
      map (\<lambda>i. word_of_int (n div 2 ^ i mod 256)) [56, 48, 40, 32, 24, 16, 8, 0]" by (intro map_cong refl)
  then show ?thesis
    by (simp only: set_uint32_def map_append list.map append.simps lows highs)
qed

lemma padding_length:
  "(72 + l) div 64 * 64 - (l + 9) = nat ((55 - int l) mod 64)"
proof -
  define q r where "q = l div 64" and "r = l mod 64"
  have l: "l = q * 64 + r" "r < 64" by (simp_all add: q_def r_def)
  have "(72 + l) div 64 = q + (72 + r) div 64" by (simp add: l(1) algebra_simps)
  moreover have "(72 + r) div 64 = (if r \<le> 55 then 1 else 2)"
  proof (cases "r \<le> 55")
    case True
    then have "(72 + r) div 64 = 1" by (intro div_nat_eqI) auto
    with True show ?thesis by simp
  next
    case False
    with l(2) have "(72 + r) div 64 = 2" by (intro div_nat_eqI) auto
    with False show ?thesis by simp
  qed
  ultimately have len: "(72 + l) div 64 * 64 - (l + 9) = (if r \<le> 55 then 55 - r else 119 - r)"
    using l(2) by (cases "r \<le> 55") (simp_all add: l(1))
  have "(55 - int l) mod 64 = (55 - int r) mod 64"
    using mod_mult_self2 [of "55 - int r" "64" "- int q"] by (simp add: l(1) algebra_simps)
  moreover have "(55 - int r) mod 64 = (if r \<le> 55 then 55 - int r else 119 - int r)"
  proof (cases "r \<le> 55")
    case False
    have "(55 - int r) mod 64 = (55 - int r + 64) mod 64" by (rule mod_add_self2 [symmetric])
    also have "\<dots> = 119 - int r" using False l(2) by simp
    finally show ?thesis using False by simp
  qed simp
  ultimately have "nat ((55 - int l) mod 64) = (if r \<le> 55 then 55 - r else 119 - r)"
    using l(2) by (simp add: nat_diff_distrib')
  with len show ?thesis by simp
qed

lemma padded_bytes_fips:
  "map word_of_int (padded_bytes bytes) = map word_of_int bytes @ fips_padding (length bytes)"
proof -
  have "map word_of_int (set_uint32 (int (length bytes) * 8 div 0x100000000) @ set_uint32 (uint32 (int (length bytes) * 8))) =
      map (\<lambda>i. ucast (drop_bit i (word_of_int (8 * int (length bytes)) :: 64 word)) :: 8 word) [56, 48, 40, 32, 24, 16, 8, 0]"
    by (simp only: set_uint32_bytes mult.commute [of 8])
  then show ?thesis
    by (simp add: padded_bytes_def Let_def fips_padding_def padding_length del: upt_Suc)
qed

lemma set_uint32_is_byte [simp]: "list_all is_byte (set_uint32 n)"
  by (simp add: set_uint32_def is_byte_def)

lemma padded_is_byte: "list_all is_byte bytes \<Longrightarrow> list_all is_byte (padded_bytes bytes)"
proof -
  have "list_all is_byte (replicate n 0)" "is_byte 128" for n by (induction n) (simp_all add: is_byte_def)
  moreover assume "list_all is_byte bytes"
  ultimately show ?thesis using set_uint32_is_byte by (simp add: padded_bytes_def Let_def)
qed

lemma utf8_encode_bytes: "n < 0x110000 \<Longrightarrow> b \<in> set (utf8_encode n) \<Longrightarrow> b < 256"
  by (auto simp: utf8_encode_def split: if_splits)

lemma utf16_scalars_bound: "\<forall>u\<in>set us. u < 0x10000 \<Longrightarrow> n \<in> set (utf16_scalars us) \<Longrightarrow> n < 0x110000"
  by (induction us rule: utf16_scalars.induct) (auto split: if_splits)

lemma utf8_bytes_are_bytes: "list_all is_byte (utf8_bytes s)"
proof -
  have "\<forall>u\<in>set (map (of_char :: char \<Rightarrow> nat) s). u < 0x10000"
    by (auto intro: order_less_trans [OF nat_of_char_less_256])
  then have scalars: "n < 0x110000" if "n \<in> set (utf16_scalars (map of_char s))" for n
    using utf16_scalars_bound that by blast
  have "is_byte (int b)" if "n \<in> set (utf16_scalars (map of_char s))" "b \<in> set (utf8_encode n)" for n b
    using utf8_encode_bytes [OF scalars [OF that(1)] that(2)] by (simp add: is_byte_def)
  then show ?thesis by (auto simp: utf8_bytes_def list_all_iff)
qed

lemma sha256Bytes_fips:
  assumes "list_all is_byte bytes"
  shows "sha256Bytes bytes = map_state uint (SHA_256 (map word_of_int bytes))"
proof -
  have start: "state_of_list sha_h = map_state uint (state_of_list (map word_of_int sha_h) :: 32 word sha_state)"
    by (simp add: sha_h_def)
  show ?thesis
    unfolding sha256Bytes_def start sha_blocks_fips get_uint32s_fips [OF padded_is_byte [OF assms]]
      padded_bytes_fips SHA_256_def by simp
qed

text \<open>
  C24. The fingerprint hash is SHA-256. Computed in the number arithmetic of the source
  (doubles that hold integers, signed 32-bit results of the bitwise operators, \<open>>>> 0\<close> after
  each sum), it is for every text the digest that FIPS 180-4 defines on 32-bit words, over
  the UTF-8 bytes of the text, as 64 lowercase hexadecimal digits.
\<close>

theorem sha256_is_fips_180_4:
  "sha256Text s = concat (map (\<lambda>w. hex_string (uint w)) (list_of_state (SHA_256 (map word_of_int (utf8_bytes s)))))"
proof -
  have "map hex_string (list_of_state (map_state uint H)) = map (\<lambda>w. hex_string (uint w)) (list_of_state H)"
    for H :: "32 word sha_state" by (cases H rule: sha_state_exhaust) simp
  then show ?thesis by (simp add: sha256Text_def sha256Bytes_fips [OF utf8_bytes_are_bytes])
qed

end
