(* ===== verification/StreamSequence.thy ===== *)
theory StreamSequence
  imports ProtocolStream
begin

text \<open>
  The sequence of a response, declaratively: what the loop of parseStreamEvents (src/protocol.ts)
  accepts, and the state it has reached after a prefix of the events.
\<close>

section \<open>What a sequence holds\<close>

definition payload_usages :: "StreamPayload \<Rightarrow> Usage list" where
  "payload_usages p = (case p of ResponseUsage u \<Rightarrow> [u] | _ \<Rightarrow> [])"

definition payload_calls :: "StreamPayload \<Rightarrow> string list" where
  "payload_calls p = (case p of ResponseToolCall c _ _ \<Rightarrow> [c] | _ \<Rightarrow> [])"

definition payload_targets :: "StreamPayload \<Rightarrow> string list" where
  "payload_targets p = (case p of ResponseCitationBatch m _ _ \<Rightarrow> [m] | _ \<Rightarrow> [])"

definition payload_sources :: "StreamPayload \<Rightarrow> json list" where
  "payload_sources p = (case p of ResponseCitationBatch _ ss _ \<Rightarrow> ss | _ \<Rightarrow> [])"

definition payload_citations :: "StreamPayload \<Rightarrow> Citation list" where
  "payload_citations p = (case p of ResponseCitationBatch _ _ cs \<Rightarrow> cs | _ \<Rightarrow> [])"

definition over_events :: "(StreamPayload \<Rightarrow> 'a list) \<Rightarrow> StreamEvent list \<Rightarrow> 'a list" where
  "over_events f es = concat (map (\<lambda>e. f (stream_payload e)) es)"

lemma over_events_simps [simp]:
  "over_events f [] = []" "over_events f (es @ [e]) = over_events f es @ f (stream_payload e)"
  by (simp_all add: over_events_def)

lemmas payload_parts = payload_usages_def payload_calls_def payload_targets_def payload_sources_def
  payload_citations_def

section \<open>What a sequence keeps\<close>

definition event_in_place :: "string \<Rightarrow> string \<Rightarrow> nat \<Rightarrow> nat \<times> StreamEvent \<Rightarrow> bool" where
  "event_in_place request trace n ix \<longleftrightarrow>
     stream_request_id (snd ix) = request \<and> stream_trace_id (snd ix) = trace \<and>
     sequence (snd ix) = int (fst ix) \<and>
     (is_started_payload (stream_payload (snd ix)) \<longrightarrow> fst ix = 0) \<and>
     (is_terminal_payload (stream_payload (snd ix)) \<longrightarrow> fst ix = n - 1)"

definition sources_agree :: "host \<Rightarrow> json list \<Rightarrow> bool" where
  "sources_agree H ss \<longleftrightarrow>
     (\<forall>s\<in>set ss. \<forall>s'\<in>set ss. source_id_of s = source_id_of s' \<longrightarrow> stringify H s = stringify H s')"

definition citations_numbered :: "Citation list \<Rightarrow> bool" where
  "citations_numbered cs \<longleftrightarrow>
     map citation_order cs = map int [0..<length cs] \<and> distinct (map citation_id cs)"

definition stream_contents_ok :: "host \<Rightarrow> StreamEvent list \<Rightarrow> bool" where
  "stream_contents_ok H es \<longleftrightarrow>
     sorted_wrt (\<lambda>a b. \<not> usage_decreases a b) (over_events payload_usages es) \<and>
     distinct (over_events payload_calls es) \<and>
     (\<forall>m\<in>set (over_events payload_targets es). \<forall>m'\<in>set (over_events payload_targets es). m = m') \<and>
     sources_agree H (over_events payload_sources es) \<and>
     citations_numbered (over_events payload_citations es)"

definition stream_well_formed :: "host \<Rightarrow> StreamEvent list \<Rightarrow> bool" where
  "stream_well_formed H es \<longleftrightarrow>
     es \<noteq> [] \<and> is_started_payload (stream_payload (hd es)) \<and> is_terminal_payload (stream_payload (last es)) \<and>
     (\<forall>ix\<in>set (indexed es).
        event_in_place (stream_request_id (hd es)) (stream_trace_id (hd es)) (length es) ix) \<and>
     stream_contents_ok H es \<and>
     (stream_payload (last es) = ResponseCompleted OutcomeToolCalls \<longrightarrow> over_events payload_calls es \<noteq> [])"

section \<open>The state after a prefix\<close>

definition source_map :: "host \<Rightarrow> json list \<Rightarrow> (string, string) jsmap" where
  "source_map H ss = fold (\<lambda>s. map_set (source_id_of s) (stringify H s)) ss []"

lemma source_map_snoc [simp]:
  "source_map H [] = []"
  "source_map H (ss @ [s]) = map_set (source_id_of s) (stringify H s) (source_map H ss)"
  by (simp_all add: source_map_def)

lemma sources_agreeD:
  "sources_agree H ss \<Longrightarrow> s \<in> set ss \<Longrightarrow> s' \<in> set ss \<Longrightarrow> source_id_of s = source_id_of s' \<Longrightarrow>
   stringify H s = stringify H s'"
  unfolding sources_agree_def by blast

lemma sources_agree_append: "sources_agree H (xs @ ys) \<Longrightarrow> sources_agree H xs"
  unfolding sources_agree_def by auto

lemma source_map_get:
  "sources_agree H ss \<Longrightarrow>
   map_get (source_map H ss) k = Some f \<longleftrightarrow> (\<exists>s\<in>set ss. source_id_of s = k \<and> stringify H s = f)"
proof (induction ss rule: rev_induct)
  case Nil
  show ?case by simp
next
  case (snoc s ss)
  have IH: "map_get (source_map H ss) k = Some f \<longleftrightarrow> (\<exists>s\<in>set ss. source_id_of s = k \<and> stringify H s = f)"
    using snoc.IH sources_agree_append [OF snoc.prems] by blast
  show ?case
  proof (cases "source_id_of s = k")
    case True
    have "stringify H s' = stringify H s" if "s' \<in> set ss" "source_id_of s' = k" for s'
      using sources_agreeD [OF snoc.prems, of s' s] that True by simp
    then show ?thesis using True by fastforce
  next
    case False
    then have e: "map_get (source_map H (ss @ [s])) k = map_get (source_map H ss) k" by simp
    show ?thesis unfolding e IH using False by simp
  qed
qed

lemma sources_agree_snoc:
  assumes "sources_agree H ss"
  shows "sources_agree H (ss @ [s]) \<longleftrightarrow>
    (\<forall>s'\<in>set ss. source_id_of s' = source_id_of s \<longrightarrow> stringify H s' = stringify H s)"
    (is "?L = ?R")
proof
  assume L: ?L
  show ?R by (intro ballI impI sources_agreeD [OF L]) simp_all
next
  assume R: ?R
  have "stringify H x = stringify H y"
    if "x \<in> set ss \<or> x = s" "y \<in> set ss \<or> y = s" and same: "source_id_of x = source_id_of y" for x y
    using that(1)
  proof
    assume x: "x \<in> set ss"
    show ?thesis using that(2) sources_agreeD [OF assms x _ same] R [rule_format, OF x] same by (elim disjE) simp_all
  next
    assume x: "x = s"
    show ?thesis using that(2) R [rule_format, of y] same x by (elim disjE) simp_all
  qed
  note equal = this
  show ?L unfolding sources_agree_def by (intro ballI impI equal) auto
qed

lemma sources_agree_lookup:
  assumes "sources_agree H ss"
  shows "sources_agree H (ss @ [s]) \<longleftrightarrow>
    map_get (source_map H ss) (source_id_of s) \<in> {None, Some (stringify H s)}"
proof (cases "map_get (source_map H ss) (source_id_of s)")
  case None
  then have "s' \<in> set ss \<Longrightarrow> source_id_of s' \<noteq> source_id_of s" for s'
    using source_map_get [OF assms, of "source_id_of s" "stringify H s'"] by auto
  then show ?thesis using None by (simp add: sources_agree_snoc [OF assms])
next
  case (Some f)
  then obtain s' where s': "s' \<in> set ss" "source_id_of s' = source_id_of s" "stringify H s' = f"
    using source_map_get [OF assms, of "source_id_of s" f] by blast
  have "f = stringify H s''" if "s'' \<in> set ss" "source_id_of s'' = source_id_of s" for s''
    using source_map_get [OF assms, of "source_id_of s" "stringify H s''"] Some that by auto
  then have "sources_agree H (ss @ [s]) \<longleftrightarrow> f = stringify H s"
    unfolding sources_agree_snoc [OF assms] using s' by (metis (no_types))
  then show ?thesis using Some by simp
qed

lemma check_sources_iff:
  "sources_agree H ss \<Longrightarrow>
   check_sources H path i new (source_map H ss) = Inr m \<longleftrightarrow>
   sources_agree H (ss @ new) \<and> m = source_map H (ss @ new)"
proof (induction new arbitrary: ss i)
  case Nil
  then show ?case by auto
next
  case (Cons s new)
  show ?case
  proof (cases "sources_agree H (ss @ [s])")
    case True
    have "check_sources H path i (s # new) (source_map H ss) =
      check_sources H path (Suc i) new (source_map H (ss @ [s]))"
      using True unfolding sources_agree_lookup [OF Cons.prems, of s]
      by (cases "map_get (source_map H ss) (source_id_of s)") simp_all
    then show ?thesis using Cons.IH [OF True] by simp
  next
    case False
    then have "\<not> sources_agree H (ss @ s # new)"
      using sources_agree_append [of H "ss @ [s]" new] by auto
    moreover have "\<exists>e. check_sources H path i (s # new) (source_map H ss) = Inl e"
      using False unfolding sources_agree_lookup [OF Cons.prems, of s]
      by (cases "map_get (source_map H ss) (source_id_of s)") (simp_all add: fail_def)
    ultimately show ?thesis by auto
  qed
qed

lemma citations_numbered_snoc:
  "citations_numbered (cs @ [c]) \<longleftrightarrow>
   citations_numbered cs \<and> citation_order c = int (length cs) \<and> citation_id c \<notin> set (map citation_id cs)"
  by (auto simp: citations_numbered_def)

lemma citations_numbered_append: "citations_numbered (xs @ ys) \<Longrightarrow> citations_numbered xs"
proof (induction ys rule: rev_induct)
  case (snoc y ys)
  then show ?case using citations_numbered_snoc [of "xs @ ys" y] by simp
qed simp

lemma check_citations_iff:
  "citations_numbered cs \<Longrightarrow>
   check_citations path i new (int (length cs), rev (map citation_id cs)) = Inr p \<longleftrightarrow>
   citations_numbered (cs @ new) \<and> p = (int (length (cs @ new)), rev (map citation_id (cs @ new)))"
proof (induction new arbitrary: cs i)
  case Nil
  then show ?case by auto
next
  case (Cons c new)
  show ?case
  proof (cases "citations_numbered (cs @ [c])")
    case True
    have "check_citations path i (c # new) (int (length cs), rev (map citation_id cs)) =
      check_citations path (Suc i) new (int (length (cs @ [c])), rev (map citation_id (cs @ [c])))"
      using True by (simp add: citations_numbered_snoc add.commute)
    then show ?thesis using Cons.IH [OF True] by simp
  next
    case False
    then have "\<not> citations_numbered (cs @ c # new)"
      using citations_numbered_append [of "cs @ [c]" new] by auto
    moreover have "\<exists>e. check_citations path i (c # new) (int (length cs), rev (map citation_id cs)) = Inl e"
      using False Cons.prems by (auto simp: citations_numbered_snoc fail_def)
    ultimately show ?thesis by auto
  qed
qed

definition last_of :: "'a list \<Rightarrow> 'a option" where
  "last_of xs = (if xs = [] then None else Some (last xs))"

lemma last_of_simps [simp]: "last_of [] = None" "last_of (xs @ [x]) = Some x"
  by (simp_all add: last_of_def)

definition state_after :: "host \<Rightarrow> StreamEvent list \<Rightarrow> StreamState" where
  "state_after H es =
     \<lparr>terminalCount = length (filter (\<lambda>e. is_terminal_payload (stream_payload e)) es),
      lastUsage = last_of (over_events payload_usages es),
      toolCallCount = length (over_events payload_calls es),
      toolCallIds = rev (over_events payload_calls es),
      citationTargetId = last_of (over_events payload_targets es),
      nextCitationOrder = int (length (over_events payload_citations es)),
      seenCitationIds = rev (map citation_id (over_events payload_citations es)),
      citationSources = source_map H (over_events payload_sources es)\<rparr>"

lemma state_after_Nil: "state_after H [] = initial_stream_state"
  by (simp add: state_after_def initial_stream_state_def)

lemma stream_contents_Nil: "stream_contents_ok H []"
  by (simp add: stream_contents_ok_def sources_agree_def citations_numbered_def)

lemma usage_decreases_trans:
  "\<not> usage_decreases a b \<Longrightarrow> \<not> usage_decreases b c \<Longrightarrow> \<not> usage_decreases a c"
  by (auto simp: usage_decreases_def)

lemma usages_snoc:
  "sorted_wrt (\<lambda>a b. \<not> usage_decreases a b) (us @ [u]) \<longleftrightarrow>
   sorted_wrt (\<lambda>a b. \<not> usage_decreases a b) us \<and> (\<forall>p. last_of us = Some p \<longrightarrow> \<not> usage_decreases p u)"
proof (cases us rule: rev_cases)
  case Nil
  then show ?thesis by simp
next
  case (snoc vs v)
  then show ?thesis by (auto simp: sorted_wrt_append dest: usage_decreases_trans)
qed

lemma targets_snoc:
  "(\<forall>m\<in>set (ms @ [x]). \<forall>m'\<in>set (ms @ [x]). m = m') \<longleftrightarrow>
   (\<forall>m\<in>set ms. \<forall>m'\<in>set ms. m = m') \<and> (\<forall>p. last_of ms = Some p \<longrightarrow> x = p)"
proof (cases ms rule: rev_cases)
  case Nil
  then show ?thesis by simp
next
  case (snoc vs v)
  then show ?thesis by auto
qed

section \<open>The loop\<close>

lemma indexed_snoc: "indexed (xs @ [x]) = indexed xs @ [(length xs, x)]"
  by (simp add: indexed_def)

lemma fold_result_append:
  "fold_result f s (xs @ ys) = bind_result (fold_result f s xs) (\<lambda>s'. fold_result f s' ys)"
proof (induction xs arbitrary: s)
  case (Cons x xs)
  then show ?case by (cases "f s x") simp_all
qed simp

lemma payload_step_iff:
  assumes "stream_contents_ok H es" and "\<not> is_terminal_payload (stream_payload e)"
  shows "payload_step H path (state_after H es) (stream_payload e) = Inr st \<longleftrightarrow>
    stream_contents_ok H (es @ [e]) \<and> st = state_after H (es @ [e])"
proof (cases "stream_payload e")
  case (ResponseUsage u)
  then show ?thesis using assms
    by (auto simp: payload_step_def stream_contents_ok_def payload_parts usages_snoc state_after_def fail_def
        split: option.splits)
next
  case (ResponseToolCall c n a)
  then show ?thesis using assms
    by (auto simp: payload_step_def stream_contents_ok_def payload_parts state_after_def fail_def)
next
  case (ResponseCitationBatch m ss cs)
  have agree: "sources_agree H (over_events payload_sources es)"
    and numbered: "citations_numbered (over_events payload_citations es)"
    using assms(1) by (simp_all add: stream_contents_ok_def)
  have targets: "(\<forall>m\<in>set (over_events payload_targets es). \<forall>m'\<in>set (over_events payload_targets es). m = m')"
    using assms(1) unfolding stream_contents_ok_def by blast
  show ?thesis
  proof (cases "\<forall>p. last_of (over_events payload_targets es) = Some p \<longrightarrow> m = p")
    case True
    have p: "payload_step H path (state_after H es) (stream_payload e) =
      bind_result (check_sources H path 0 ss (source_map H (over_events payload_sources es))) (\<lambda>mp.
        bind_result (check_citations path 0 cs (int (length (over_events payload_citations es)),
            rev (map citation_id (over_events payload_citations es)))) (\<lambda>(expected, seen).
          Inr ((state_after H es)\<lparr>citationTargetId := Some m, citationSources := mp, nextCitationOrder := expected,
            seenCitationIds := seen\<rparr>)))"
      using True ResponseCitationBatch by (auto simp: payload_step_def state_after_def split: option.splits)
    show ?thesis unfolding p bind_result_Inr_iff check_sources_iff [OF agree] check_citations_iff [OF numbered]
      using assms(1) ResponseCitationBatch True targets_snoc [of "over_events payload_targets es" m] targets
      by (auto simp: stream_contents_ok_def payload_parts state_after_def)
  next
    case False
    then have "\<not> stream_contents_ok H (es @ [e])"
      using ResponseCitationBatch targets_snoc [of "over_events payload_targets es" m]
      unfolding stream_contents_ok_def by (simp add: payload_targets_def)
    moreover have "\<exists>f. payload_step H path (state_after H es) (stream_payload e) = Inl f"
      using False ResponseCitationBatch by (auto simp: payload_step_def state_after_def fail_def)
    ultimately show ?thesis by auto
  qed
next
  case (ResponseStarted a)
  then show ?thesis using assms
    by (auto simp: payload_step_def stream_contents_ok_def payload_parts state_after_def)
next
  case (ResponseTextDelta d)
  then show ?thesis using assms
    by (auto simp: payload_step_def stream_contents_ok_def payload_parts state_after_def)
qed (use assms(2) in simp_all)

lemma terminal_contents:
  "is_terminal_payload p \<Longrightarrow> payload_usages p = [] \<and> payload_calls p = [] \<and> payload_targets p = [] \<and>
   payload_sources p = [] \<and> payload_citations p = []"
  by (cases p) (simp_all add: payload_parts)

lemma stream_step_iff:
  assumes "stream_contents_ok H es"
  shows "stream_step H request trace n (state_after H es) (length es, e) = Inr st \<longleftrightarrow>
    event_in_place request trace n (length es, e) \<and> stream_contents_ok H (es @ [e]) \<and>
    st = state_after H (es @ [e])"
proof (cases "is_terminal_payload (stream_payload e)")
  case True
  then have "stream_contents_ok H (es @ [e])"
    using assms terminal_contents [OF True] by (simp add: stream_contents_ok_def)
  moreover have "state_after H (es @ [e]) = (state_after H es)\<lparr>terminalCount := terminalCount (state_after H es) + 1\<rparr>"
    using terminal_contents [OF True] True by (simp add: state_after_def)
  ultimately show ?thesis using True
    by (cases "stream_payload e") (auto simp: stream_step_def Let_def event_in_place_def fail_def)
next
  case False
  show ?thesis
  proof (cases "event_in_place request trace n (length es, e)")
    case True
    then have "stream_step H request trace n (state_after H es) (length es, e) =
      payload_step H (item_path ''$events'' (length es)) (state_after H es) (stream_payload e)"
      using False by (auto simp: stream_step_def Let_def event_in_place_def)
    then show ?thesis using payload_step_iff [OF assms False] True by simp
  next
    case wrong: False
    then show ?thesis using False by (auto simp: stream_step_def Let_def event_in_place_def fail_def)
  qed
qed

lemma stream_contents_prefix: "stream_contents_ok H (es @ [e]) \<Longrightarrow> stream_contents_ok H es"
  by (auto simp: stream_contents_ok_def sorted_wrt_append
      intro: sources_agree_append citations_numbered_append)

lemma stream_loop_iff:
  "fold_result (stream_step H request trace n) initial_stream_state (indexed es) = Inr st \<longleftrightarrow>
   (\<forall>ix\<in>set (indexed es). event_in_place request trace n ix) \<and> stream_contents_ok H es \<and> st = state_after H es"
proof (induction es arbitrary: st rule: rev_induct)
  case Nil
  show ?case by (auto simp: indexed_def state_after_Nil stream_contents_Nil)
next
  case (snoc e es)
  show ?case
  proof (cases "\<exists>st'. fold_result (stream_step H request trace n) initial_stream_state (indexed es) = Inr st'")
    case True
    then obtain st' where st': "fold_result (stream_step H request trace n) initial_stream_state (indexed es) = Inr st'"
      by blast
    then have ok: "\<forall>ix\<in>set (indexed es). event_in_place request trace n ix" "stream_contents_ok H es"
      "st' = state_after H es"
      using snoc.IH by blast+
    have "fold_result (stream_step H request trace n) initial_stream_state (indexed (es @ [e])) =
      stream_step H request trace n (state_after H es) (length es, e)"
      unfolding indexed_snoc fold_result_append st' ok(3)
      by (cases "stream_step H request trace n (state_after H es) (length es, e)") simp_all
    then show ?thesis using stream_step_iff [OF ok(2)] ok(1) by (auto simp: indexed_snoc)
  next
    case False
    have "\<not> ((\<forall>ix\<in>set (indexed es). event_in_place request trace n ix) \<and> stream_contents_ok H es)"
      using snoc.IH [of "state_after H es"] False by blast
    then have "\<not> ((\<forall>ix\<in>set (indexed (es @ [e])). event_in_place request trace n ix) \<and>
        stream_contents_ok H (es @ [e]))"
      using stream_contents_prefix by (auto simp: indexed_snoc)
    moreover have "\<not> (fold_result (stream_step H request trace n) initial_stream_state (indexed (es @ [e])) = Inr st)"
      unfolding indexed_snoc fold_result_append using False by simp
    ultimately show ?thesis by blast
  qed
qed

lemma single_terminal:
  assumes "\<forall>ix\<in>set (indexed es). event_in_place request trace (length es) ix" and "es \<noteq> []"
  shows "length (filter (\<lambda>e. is_terminal_payload (stream_payload e)) es) = 1 \<longleftrightarrow>
    is_terminal_payload (stream_payload (last es))"
proof -
  have es: "es = butlast es @ [last es]" using assms(2) by simp
  have "\<not> is_terminal_payload (stream_payload e)" if "e \<in> set (butlast es)" for e
  proof
    assume t: "is_terminal_payload (stream_payload e)"
    obtain i where i: "i < length (butlast es)" "butlast es ! i = e" using \<open>e \<in> set (butlast es)\<close> by (auto simp: in_set_conv_nth)
    then have "(i, e) \<in> set (indexed es)"
      by (auto simp: indexed_def in_set_zip nth_butlast intro!: exI [of _ i])
    then have "i = length es - 1" using assms(1) t by (auto simp: event_in_place_def)
    then show False using i by simp
  qed
  then have "filter (\<lambda>e. is_terminal_payload (stream_payload e)) (butlast es) = []"
    by (simp add: filter_empty_conv)
  then show ?thesis by (subst es) (simp del: append_butlast_last_id)
qed

section \<open>The stream\<close>

lemma hd_started:
  assumes "\<forall>ix\<in>set (indexed es). event_in_place request trace n ix" and "es \<noteq> []"
  shows "stream_request_id (hd es) = request \<and> stream_trace_id (hd es) = trace"
proof -
  have "(0, hd es) \<in> set (indexed es)"
    using assms(2) by (cases es) (auto simp: indexed_def upt_conv_Cons simp del: upt_Suc)
  then show ?thesis using assms(1) by (auto simp: event_in_place_def)
qed

text \<open>C40. A response is accepted exactly when each of its events is valid and the sequence is
  well-formed: it starts with the only response.started, ends with the only terminal event, numbers
  its events from 0 under one request and trace id, never repeats a tool call, never lowers its
  usage, cites one message in the order 0, 1, 2, \<dots> without repeating a citation or contradicting a
  source, and finishes for tool calls only after one. The events are returned as they are.\<close>

theorem stream_accepted_iff_well_formed:
  "parseStreamEvents H (JArr vs) = Inr es \<longleftrightarrow>
   map_result (parseStreamEvent H) vs = Inr es \<and> stream_well_formed H es"
proof (cases vs)
  case Nil
  then show ?thesis by (auto simp: parseStreamEvents_def fail_def stream_well_formed_def)
next
  case (Cons v vs')
  have ne: "es \<noteq> []" if "map_result (parseStreamEvent H) vs = Inr es" for es :: "StreamEvent list"
    using map_result_length [OF that] Cons by auto
  have calls: "toolCallCount (state_after H es) = 0 \<longleftrightarrow> over_events payload_calls es = []" for es
    by (simp add: state_after_def)
  have terminals: "terminalCount (state_after H es) = 1 \<longleftrightarrow> is_terminal_payload (stream_payload (last es))"
    if "\<forall>ix\<in>set (indexed es). event_in_place request trace (length es) ix" "es \<noteq> []" for es request trace
    using single_terminal [OF that] by (simp add: state_after_def)
  show ?thesis
  proof
    assume "parseStreamEvents H (JArr vs) = Inr es"
    then obtain st where parsed: "map_result (parseStreamEvent H) vs = Inr es"
      and started: "is_started_payload (stream_payload (hd es))"
      and loop: "fold_result (stream_step H (stream_request_id (hd es)) (stream_trace_id (hd es)) (length es))
        initial_stream_state (indexed es) = Inr st"
      and count: "terminalCount st = 1"
      and tools: "\<not> (stream_payload (last es) = ResponseCompleted OutcomeToolCalls \<and> toolCallCount st = 0)"
      using Cons unfolding parseStreamEvents_def
      by (simp add: fail_def del: map_result.simps split: if_splits)
    note facts = loop [unfolded stream_loop_iff]
    then have st: "st = state_after H es" by simp
    show "map_result (parseStreamEvent H) vs = Inr es \<and> stream_well_formed H es"
      unfolding stream_well_formed_def
      using parsed started facts count tools ne [OF parsed] terminals [of es] calls [of es] unfolding st by blast
  next
    assume R: "map_result (parseStreamEvent H) vs = Inr es \<and> stream_well_formed H es"
    then have parsed: "map_result (parseStreamEvent H) vs = Inr es" by simp
    note ok = R [THEN conjunct2, unfolded stream_well_formed_def]
    have "fold_result (stream_step H (stream_request_id (hd es)) (stream_trace_id (hd es)) (length es))
        initial_stream_state (indexed es) = Inr (state_after H es)"
      unfolding stream_loop_iff using ok by blast
    moreover have "terminalCount (state_after H es) = 1" using terminals [of es] ok by blast
    ultimately show "parseStreamEvents H (JArr vs) = Inr es"
      using parsed ok calls [of es] Cons unfolding parseStreamEvents_def
      by (simp add: fail_def del: map_result.simps)
  qed
qed

end
