(* ===== verification/ProviderContext.thy ===== *)
theory ProviderContext
  imports Protocol
begin

text \<open>
  The provider-context contract (src/provider-context.ts): identifiers, history positions,
  checkpoints and their assessment, measurements, requests, results and safe errors. Host objects
  that are not data (the abort signal and the provider input) appear as values that a parameter
  recognizes or parses.
\<close>

section \<open>Limits and tables\<close>

definition PROVIDER_CONTEXT_CONTRACT_VERSION :: string where
  "PROVIDER_CONTEXT_CONTRACT_VERSION = ''handrail.provider-context.v1''"

definition contextIdentifierLength :: nat where "contextIdentifierLength = 256"
definition checkpointOpaqueStateLength :: nat where "checkpointOpaqueStateLength = 65536"
definition checkpointSerializedBytes :: nat where "checkpointSerializedBytes = 70000"
definition idempotencyKeyLength :: nat where "idempotencyKeyLength = 128"

datatype ProviderContextUnsupportedReason =
  ProviderNotSupported | ModelNotSupported | CompactionNotConfigured

datatype ProviderContextInvalidationReason =
  ContextFingerprintChanged | CanonicalHistoryChanged | CanonicalHistoryRewound | CheckpointExpired |
  CheckpointRejected | CheckpointCorrupt | VersionUnsupported

datatype ProviderContextErrorCode =
  ContextInvalidRequest | ContextIdempotencyConflict | ContextCancelled | ContextDeadlineExceeded |
  ContextProviderUnavailable | ContextInternalFailure

definition unsupported_reasons :: "(string \<times> ProviderContextUnsupportedReason) list" where
  "unsupported_reasons = [(''provider_not_supported'', ProviderNotSupported),
     (''model_not_supported'', ModelNotSupported), (''compaction_not_configured'', CompactionNotConfigured)]"

definition invalidation_reasons :: "(string \<times> ProviderContextInvalidationReason) list" where
  "invalidation_reasons = [(''context_fingerprint_changed'', ContextFingerprintChanged),
     (''canonical_history_changed'', CanonicalHistoryChanged), (''canonical_history_rewound'', CanonicalHistoryRewound),
     (''checkpoint_expired'', CheckpointExpired), (''checkpoint_rejected'', CheckpointRejected),
     (''checkpoint_corrupt'', CheckpointCorrupt), (''version_unsupported'', VersionUnsupported)]"

definition context_error_codes :: "(string \<times> ProviderContextErrorCode) list" where
  "context_error_codes = [(''invalid_request'', ContextInvalidRequest),
     (''idempotency_conflict'', ContextIdempotencyConflict), (''cancelled'', ContextCancelled),
     (''deadline_exceeded'', ContextDeadlineExceeded), (''provider_unavailable'', ContextProviderUnavailable),
     (''internal_failure'', ContextInternalFailure)]"

section \<open>Strings and numbers\<close>

text \<open>\<open>/^[A-Za-z0-9][...]*$/\<close> for the characters of a tail.\<close>

definition token_of :: "string \<Rightarrow> string \<Rightarrow> bool" where
  "token_of extra s \<longleftrightarrow>
     (case s of [] \<Rightarrow> False | c # cs \<Rightarrow> is_alnum c \<and> list_all (\<lambda>d. is_alnum d \<or> d \<in> set extra) cs)"

definition is_context_identifier :: "string \<Rightarrow> bool" where
  "is_context_identifier s = token_of ''._:@/+~-'' s"

definition is_idempotency_key :: "string \<Rightarrow> bool" where
  "is_idempotency_key s = token_of ''._:-'' s"

text \<open>\<open>/^sha256:[a-f0-9]{64}$/\<close>\<close>

definition is_fingerprint :: "string \<Rightarrow> bool" where
  "is_fingerprint s \<longleftrightarrow>
     take 7 s = ''sha256:'' \<and> length s = 71 \<and>
     list_all (\<lambda>c. is_digit_char c \<or> (97 \<le> code c \<and> code c \<le> 102)) (drop 7 s)"

text \<open>\<open>/^[A-Za-z0-9_-]+={0,2}$/\<close>\<close>

definition is_opaque_state :: "string \<Rightarrow> bool" where
  "is_opaque_state s \<longleftrightarrow>
     (let digit = (\<lambda>c. is_alnum c \<or> c \<in> set ''_-'') in
      takeWhile digit s \<noteq> [] \<and> dropWhile digit s \<in> {'''', ''='', ''==''})"

definition exactFields :: "(string \<times> json) list \<Rightarrow> string list \<Rightarrow> string list \<Rightarrow> string \<Rightarrow> fault + unit" where
  "exactFields kvs required optional path =
     bind_result (allowedKeys kvs (required @ optional) path) (\<lambda>_. requiredKeys kvs required path)"

definition safeString :: "json option \<Rightarrow> string \<Rightarrow> nat \<Rightarrow> fault + string" where
  "safeString v path maxLength =
     (case v of
        Some (JStr s) \<Rightarrow>
          if s = [] \<or> length s > maxLength
          then fail path (''must contain 1-'' @ nat_digits maxLength @ '' characters'')
          else if list_ex is_control s then fail path ''must not contain control characters''
          else if citation_has_credential s then fail path ''must not contain credential material''
          else Inr s
      | _ \<Rightarrow> fail path ''must be a string'')"

definition context_identifier :: "json option \<Rightarrow> string \<Rightarrow> fault + string" where
  "context_identifier v path =
     bind_result (safeString v path contextIdentifierLength) (\<lambda>parsed.
     bind_result (guard (is_context_identifier parsed) (path, ''must be an opaque identifier'')) (\<lambda>_. Inr parsed))"

definition finiteInteger :: "json option \<Rightarrow> string \<Rightarrow> int \<Rightarrow> fault + int" where
  "finiteInteger v path minimum =
     (case v of
        Some (JNum n) \<Rightarrow>
          if isSafeInteger n \<and> minimum \<le> int_of_number n then Inr (int_of_number n)
          else fail path (''must be a safe integer greater than or equal to '' @ int_string minimum)
      | _ \<Rightarrow> fail path (''must be a safe integer greater than or equal to '' @ int_string minimum))"

definition parseFingerprint :: "json option \<Rightarrow> string \<Rightarrow> fault + string" where
  "parseFingerprint v path =
     (case v of
        Some (JStr s) \<Rightarrow> if is_fingerprint s then Inr s else fail path ''must be a lowercase sha256 fingerprint''
      | _ \<Rightarrow> fail path ''must be a lowercase sha256 fingerprint'')"

definition context_record :: "json option \<Rightarrow> string \<Rightarrow> fault + (string \<times> json) list" where
  "context_record v path =
     (case v of Some (JObj kvs) \<Rightarrow> Inr kvs | _ \<Rightarrow> fail path ''must be a plain JSON object'')"

text \<open>A field that is null or parsed.\<close>

definition nullable_field :: "json option \<Rightarrow> (json option \<Rightarrow> fault + 'a) \<Rightarrow> fault + 'a option" where
  "nullable_field v parse =
     (case v of Some JNull \<Rightarrow> Inr None | _ \<Rightarrow> bind_result (parse v) (\<lambda>x. Inr (Some x)))"

section \<open>Positions and checkpoints\<close>

record ProviderContextHistoryPosition =
  position_conversation_id :: string
  position_revision :: int
  position_event_id :: "string option"

definition parseHistoryPosition :: "json option \<Rightarrow> string \<Rightarrow> fault + ProviderContextHistoryPosition" where
  "parseHistoryPosition v path =
     bind_result (context_record v path) (\<lambda>source.
     bind_result (exactFields source [''conversation_id'', ''revision'', ''event_id''] [] path) (\<lambda>_.
     bind_result (finiteInteger (obj_get source ''revision'') (path @ ''.revision'') 0) (\<lambda>revision.
     bind_result (nullable_field (obj_get source ''event_id'') (\<lambda>w. context_identifier w (path @ ''.event_id''))) (\<lambda>eventId.
     bind_result (guard ((revision = 0) = (eventId = None))
       (path, ''revision zero requires a null event_id and nonzero revisions require an event_id'')) (\<lambda>_.
     bind_result (context_identifier (obj_get source ''conversation_id'') (path @ ''.conversation_id'')) (\<lambda>conversation.
       Inr \<lparr>position_conversation_id = conversation, position_revision = revision, position_event_id = eventId\<rparr>))))))"

definition parseProviderContextHistoryPosition :: "json \<Rightarrow> fault + ProviderContextHistoryPosition" where
  "parseProviderContextHistoryPosition v = parseHistoryPosition (Some v) ''$history_position''"

record ProviderContextCheckpoint =
  checkpoint_provider_id :: string
  checkpoint_id :: string
  checkpoint_format :: string
  opaque_state :: string
  checkpoint_fingerprint :: string
  history_position :: ProviderContextHistoryPosition

definition position_json :: "ProviderContextHistoryPosition \<Rightarrow> json" where
  "position_json p = JObj [(''conversation_id'', JStr (position_conversation_id p)),
     (''revision'', jint (position_revision p)),
     (''event_id'', case position_event_id p of None \<Rightarrow> JNull | Some e \<Rightarrow> JStr e)]"

text \<open>The frozen object, in the order its fields are written.\<close>

definition checkpoint_json :: "ProviderContextCheckpoint \<Rightarrow> json" where
  "checkpoint_json cp = JObj [(''version'', jint 1), (''provider_id'', JStr (checkpoint_provider_id cp)),
     (''checkpoint_id'', JStr (checkpoint_id cp)), (''format'', JStr (checkpoint_format cp)),
     (''opaque_state'', JStr (opaque_state cp)), (''context_fingerprint'', JStr (checkpoint_fingerprint cp)),
     (''history_position'', position_json (history_position cp))]"

definition checkpoint_keys :: "string list" where
  "checkpoint_keys = [''version'', ''provider_id'', ''checkpoint_id'', ''format'', ''opaque_state'',
     ''context_fingerprint'', ''history_position'']"

definition parseProviderContextCheckpoint :: "host \<Rightarrow> json option \<Rightarrow> fault + ProviderContextCheckpoint" where
  "parseProviderContextCheckpoint H v =
     (let path = ''$checkpoint'' in
      bind_result (context_record v path) (\<lambda>source.
      bind_result (exactFields source checkpoint_keys [] path) (\<lambda>_.
      bind_result (guard (obj_get source ''version'' = Some (jint 1)) (path @ ''.version'', ''must equal 1'')) (\<lambda>_.
      bind_result (safeString (obj_get source ''opaque_state'') (path @ ''.opaque_state'') checkpointOpaqueStateLength) (\<lambda>opaque.
      bind_result (guard (is_opaque_state opaque)
        (path @ ''.opaque_state'', ''must be a provider-issued base64url value'')) (\<lambda>_.
      bind_result (context_identifier (obj_get source ''provider_id'') (path @ ''.provider_id'')) (\<lambda>provider.
      bind_result (context_identifier (obj_get source ''checkpoint_id'') (path @ ''.checkpoint_id'')) (\<lambda>ident.
      bind_result (context_identifier (obj_get source ''format'') (path @ ''.format'')) (\<lambda>format.
      bind_result (parseFingerprint (obj_get source ''context_fingerprint'') (path @ ''.context_fingerprint'')) (\<lambda>fingerprint.
      bind_result (parseHistoryPosition (obj_get source ''history_position'') (path @ ''.history_position'')) (\<lambda>position.
        let cp = \<lparr>checkpoint_provider_id = provider, checkpoint_id = ident, checkpoint_format = format,
          opaque_state = opaque, checkpoint_fingerprint = fingerprint, history_position = position\<rparr> in
        if utf8ByteLength (stringify H (checkpoint_json cp)) > checkpointSerializedBytes
        then fail path (''must serialize to at most '' @ nat_digits checkpointSerializedBytes @ '' bytes'')
        else Inr cp)))))))))))"

section \<open>Assessment\<close>

record ExpectedContext =
  expected_provider_id :: string
  expected_fingerprint :: string
  expected_position :: ProviderContextHistoryPosition

datatype ProviderContextCheckpointAssessment =
    ValidCheckpoint ProviderContextCheckpoint
  | InvalidCheckpoint ProviderContextInvalidationReason

text \<open>An own version that is not 1.\<close>

definition other_version :: "json \<Rightarrow> bool" where
  "other_version v \<longleftrightarrow>
     (case v of JObj kvs \<Rightarrow> (case obj_get kvs ''version'' of None \<Rightarrow> False | Some w \<Rightarrow> w \<noteq> jint 1) | _ \<Rightarrow> False)"

definition assessProviderContextCheckpoint ::
    "host \<Rightarrow> json \<Rightarrow> ExpectedContext \<Rightarrow> ProviderContextCheckpointAssessment" where
  "assessProviderContextCheckpoint H v expected =
     (if other_version v then InvalidCheckpoint VersionUnsupported
      else case parseProviderContextCheckpoint H (Some v) of
        Inl e \<Rightarrow> InvalidCheckpoint CheckpointCorrupt
      | Inr cp \<Rightarrow>
          (let actual = history_position cp; desired = expected_position expected in
           if checkpoint_provider_id cp \<noteq> expected_provider_id expected then InvalidCheckpoint CheckpointRejected
           else if checkpoint_fingerprint cp \<noteq> expected_fingerprint expected
           then InvalidCheckpoint ContextFingerprintChanged
           else if position_conversation_id actual \<noteq> position_conversation_id desired
           then InvalidCheckpoint CanonicalHistoryChanged
           else if position_revision actual > position_revision desired then InvalidCheckpoint CanonicalHistoryRewound
           else if position_revision actual = position_revision desired \<and> position_event_id actual \<noteq> position_event_id desired
           then InvalidCheckpoint CanonicalHistoryChanged
           else ValidCheckpoint cp))"

section \<open>Capabilities and measurements\<close>

datatype ProviderContextCapabilityDescriptor =
    SupportedContext
  | UnsupportedContext ProviderContextUnsupportedReason

definition parseProviderContextCapabilityDescriptor :: "json \<Rightarrow> fault + ProviderContextCapabilityDescriptor" where
  "parseProviderContextCapabilityDescriptor v =
     (let path = ''$capability'' in
      bind_result (context_record (Some v) path) (\<lambda>source.
      if obj_get source ''supported'' = Some (JBool True)
      then bind_result (exactFields source [''supported'', ''version''] [] path) (\<lambda>_.
           bind_result (guard (obj_get source ''version'' = Some (JStr PROVIDER_CONTEXT_CONTRACT_VERSION))
             (path @ ''.version'', ''must equal '' @ PROVIDER_CONTEXT_CONTRACT_VERSION)) (\<lambda>_. Inr SupportedContext))
      else if obj_get source ''supported'' = Some (JBool False)
      then bind_result (exactFields source [''supported'', ''reason''] [] path) (\<lambda>_.
           bind_result (enumValue (obj_get source ''reason'') unsupported_reasons (path @ ''.reason''))
             (\<lambda>reason. Inr (UnsupportedContext reason)))
      else fail (path @ ''.supported'') ''must be a boolean discriminant''))"

record ProviderContextMeasurementResult =
  measured_fingerprint :: string
  measured_position :: ProviderContextHistoryPosition
  measured_input_tokens :: int
  context_window_tokens :: "int option"

definition measurement_keys :: "string list" where
  "measurement_keys =
     [''status'', ''context_fingerprint'', ''history_position'', ''input_tokens'', ''context_window_tokens'']"

definition parseMeasurement :: "json option \<Rightarrow> string \<Rightarrow> fault + ProviderContextMeasurementResult" where
  "parseMeasurement v path =
     bind_result (context_record v path) (\<lambda>source.
     bind_result (exactFields source measurement_keys [] path) (\<lambda>_.
     bind_result (guard (obj_get source ''status'' = Some (JStr ''measured''))
       (path @ ''.status'', ''must equal \"measured\"'')) (\<lambda>_.
     bind_result (nullable_field (obj_get source ''context_window_tokens'')
       (\<lambda>w. finiteInteger w (path @ ''.context_window_tokens'') 1)) (\<lambda>window.
     bind_result (finiteInteger (obj_get source ''input_tokens'') (path @ ''.input_tokens'') 0) (\<lambda>input.
     bind_result (parseFingerprint (obj_get source ''context_fingerprint'') (path @ ''.context_fingerprint'')) (\<lambda>fingerprint.
     bind_result (parseHistoryPosition (obj_get source ''history_position'') (path @ ''.history_position'')) (\<lambda>position.
       Inr \<lparr>measured_fingerprint = fingerprint, measured_position = position, measured_input_tokens = input,
            context_window_tokens = window\<rparr>)))))))"

definition parseProviderContextMeasurementResult :: "json \<Rightarrow> fault + ProviderContextMeasurementResult" where
  "parseProviderContextMeasurementResult v = parseMeasurement (Some v) ''$measurement''"

section \<open>Requests\<close>

text \<open>The host objects of a request: the test of an abort signal and the parser of the provider input.\<close>

record 'input request_host =
  isAbortSignal :: "json \<Rightarrow> bool"
  parseInput :: "json \<Rightarrow> fault + 'input"

record 'input ProviderContextMeasurementRequest =
  request_input :: 'input
  request_fingerprint :: string
  request_position :: ProviderContextHistoryPosition
  request_checkpoint :: "ProviderContextCheckpoint option"
  request_signal :: json

record 'input ProviderContextCompactionRequest = "'input ProviderContextMeasurementRequest" +
  idempotency_key :: string
  target_input_tokens :: int

text \<open>The checkpoint lies in this context, not behind this position.\<close>

definition checkpoint_applies :: "ProviderContextCheckpoint \<Rightarrow> string \<Rightarrow> ProviderContextHistoryPosition \<Rightarrow> bool" where
  "checkpoint_applies cp fingerprint position \<longleftrightarrow>
     checkpoint_fingerprint cp = fingerprint \<and>
     position_conversation_id (history_position cp) = position_conversation_id position \<and>
     \<not> position_revision (history_position cp) > position_revision position \<and>
     \<not> (position_revision (history_position cp) = position_revision position \<and>
        position_event_id (history_position cp) \<noteq> position_event_id position)"

definition request_fields :: "string list" where
  "request_fields = [''input'', ''context_fingerprint'', ''history_position'', ''checkpoint'', ''signal'']"

definition parseRequestBase ::
    "host \<Rightarrow> 'input request_host \<Rightarrow> json \<Rightarrow> string \<Rightarrow> string list \<Rightarrow>
     fault + 'input ProviderContextMeasurementRequest \<times> (string \<times> json) list" where
  "parseRequestBase H R v path extraFields =
     bind_result (context_record (Some v) path) (\<lambda>source.
     bind_result (exactFields source (request_fields @ extraFields) [] path) (\<lambda>_.
     bind_result (guard (isAbortSignal R (the (obj_get source ''signal'')))
       (path @ ''.signal'', ''must be an AbortSignal'')) (\<lambda>_.
     bind_result (parseHistoryPosition (obj_get source ''history_position'') (path @ ''.history_position'')) (\<lambda>position.
     bind_result (parseFingerprint (obj_get source ''context_fingerprint'') (path @ ''.context_fingerprint'')) (\<lambda>fingerprint.
     bind_result (nullable_field (obj_get source ''checkpoint'') (parseProviderContextCheckpoint H)) (\<lambda>cp.
     bind_result (guard (case cp of None \<Rightarrow> True | Some c \<Rightarrow> checkpoint_applies c fingerprint position)
       (path @ ''.checkpoint'', ''does not match this context or canonical-history position'')) (\<lambda>_.
     bind_result (parseInput R (the (obj_get source ''input''))) (\<lambda>input.
       Inr (\<lparr>request_input = input, request_fingerprint = fingerprint, request_position = position,
         request_checkpoint = cp, request_signal = the (obj_get source ''signal'')\<rparr>, source)))))))))"

definition parseProviderContextMeasurementRequest ::
    "host \<Rightarrow> 'input request_host \<Rightarrow> json \<Rightarrow> fault + 'input ProviderContextMeasurementRequest" where
  "parseProviderContextMeasurementRequest H R v =
     bind_result (parseRequestBase H R v ''$measurement_request'' []) (\<lambda>(request, source). Inr request)"

definition parseProviderContextIdempotencyKey :: "json option \<Rightarrow> fault + string" where
  "parseProviderContextIdempotencyKey v =
     bind_result (safeString v ''$idempotency_key'' idempotencyKeyLength) (\<lambda>parsed.
     bind_result (guard (is_idempotency_key parsed)
       (''$idempotency_key'', ''must use letters, numbers, dots, underscores, colons, or hyphens'')) (\<lambda>_. Inr parsed))"

definition parseProviderContextCompactionRequest ::
    "host \<Rightarrow> 'input request_host \<Rightarrow> json \<Rightarrow> fault + 'input ProviderContextCompactionRequest" where
  "parseProviderContextCompactionRequest H R v =
     bind_result (parseRequestBase H R v ''$compaction_request'' [''idempotency_key'', ''target_input_tokens''])
       (\<lambda>(request, source).
     bind_result (parseProviderContextIdempotencyKey (obj_get source ''idempotency_key'')) (\<lambda>key.
     bind_result (finiteInteger (obj_get source ''target_input_tokens'') ''$compaction_request.target_input_tokens'' 1)
       (\<lambda>target.
       Inr \<lparr>request_input = request_input request, request_fingerprint = request_fingerprint request,
            request_position = request_position request, request_checkpoint = request_checkpoint request,
            request_signal = request_signal request, idempotency_key = key, target_input_tokens = target\<rparr>)))"

section \<open>Results\<close>

datatype ProviderContextCompactionResult =
    Compacted ProviderContextCheckpoint ProviderContextMeasurementResult
  | UnchangedContext "ProviderContextCheckpoint option" ProviderContextMeasurementResult
  | Invalidated ProviderContextInvalidationReason string ProviderContextHistoryPosition

text \<open>What ties a result's checkpoint to its measurement.\<close>

definition association_ok :: "bool \<Rightarrow> ProviderContextCheckpoint \<Rightarrow> ProviderContextMeasurementResult \<Rightarrow> bool" where
  "association_ok compacted cp m \<longleftrightarrow>
     (let p = history_position cp; q = measured_position m in
      checkpoint_fingerprint cp = measured_fingerprint m \<and>
      position_conversation_id p = position_conversation_id q \<and>
      (if compacted then position_revision p = position_revision q \<and> position_event_id p = position_event_id q
       else \<not> position_revision p > position_revision q \<and>
         \<not> (position_revision p = position_revision q \<and> position_event_id p \<noteq> position_event_id q)))"

definition measured_result ::
    "host \<Rightarrow> (string \<times> json) list \<Rightarrow> bool \<Rightarrow> string \<Rightarrow> fault + ProviderContextCompactionResult" where
  "measured_result H source compacted path =
     bind_result (exactFields source [''status'', ''checkpoint'', ''measurement''] [] path) (\<lambda>_.
     bind_result (nullable_field (obj_get source ''checkpoint'') (parseProviderContextCheckpoint H)) (\<lambda>cp.
     bind_result (guard (\<not> (compacted \<and> cp = None))
       (path @ ''.checkpoint'', ''must be present for a compacted result'')) (\<lambda>_.
     bind_result (parseMeasurement (obj_get source ''measurement'') (path @ ''.measurement'')) (\<lambda>m.
     bind_result (guard (case cp of None \<Rightarrow> True | Some c \<Rightarrow> association_ok compacted c m)
       (path @ ''.checkpoint'', ''must describe the measured context and canonical-history position'')) (\<lambda>_.
       Inr (if compacted then Compacted (the cp) m else UnchangedContext cp m))))))"

definition parseProviderContextCompactionResult :: "host \<Rightarrow> json \<Rightarrow> fault + ProviderContextCompactionResult" where
  "parseProviderContextCompactionResult H v =
     (let path = ''$compaction_result'' in
      bind_result (context_record (Some v) path) (\<lambda>source.
      let status = obj_get source ''status'' in
      if status = Some (JStr ''compacted'') then measured_result H source True path
      else if status = Some (JStr ''unchanged'') then measured_result H source False path
      else if status = Some (JStr ''invalidated'')
      then bind_result (exactFields source [''status'', ''reason'', ''context_fingerprint'', ''history_position''] [] path) (\<lambda>_.
           bind_result (enumValue (obj_get source ''reason'') invalidation_reasons (path @ ''.reason'')) (\<lambda>reason.
           bind_result (parseFingerprint (obj_get source ''context_fingerprint'') (path @ ''.context_fingerprint'')) (\<lambda>fingerprint.
           bind_result (parseHistoryPosition (obj_get source ''history_position'') (path @ ''.history_position'')) (\<lambda>position.
             Inr (Invalidated reason fingerprint position)))))
      else fail (path @ ''.status'') ''must equal compacted, unchanged, or invalidated''))"

section \<open>Safe errors\<close>

record ProviderContextSafeError =
  safe_code :: ProviderContextErrorCode
  safe_message :: string
  safe_retryable :: bool

fun providerContextSafeError :: "ProviderContextErrorCode \<Rightarrow> ProviderContextSafeError" where
  "providerContextSafeError ContextInvalidRequest = \<lparr>safe_code = ContextInvalidRequest,
     safe_message = ''The provider-context request is invalid.'', safe_retryable = False\<rparr>"
| "providerContextSafeError ContextIdempotencyConflict = \<lparr>safe_code = ContextIdempotencyConflict,
     safe_message = ''The idempotency key conflicts with another compaction.'', safe_retryable = False\<rparr>"
| "providerContextSafeError ContextCancelled = \<lparr>safe_code = ContextCancelled,
     safe_message = ''The provider-context operation was cancelled.'', safe_retryable = False\<rparr>"
| "providerContextSafeError ContextDeadlineExceeded = \<lparr>safe_code = ContextDeadlineExceeded,
     safe_message = ''The provider-context operation exceeded its deadline.'', safe_retryable = True\<rparr>"
| "providerContextSafeError ContextProviderUnavailable = \<lparr>safe_code = ContextProviderUnavailable,
     safe_message = ''Provider-context processing is temporarily unavailable.'', safe_retryable = True\<rparr>"
| "providerContextSafeError ContextInternalFailure = \<lparr>safe_code = ContextInternalFailure,
     safe_message = ''Provider-context processing failed.'', safe_retryable = False\<rparr>"

definition parseProviderContextSafeError :: "json \<Rightarrow> fault + ProviderContextSafeError" where
  "parseProviderContextSafeError v =
     (let path = ''$error'' in
      bind_result (context_record (Some v) path) (\<lambda>source.
      bind_result (exactFields source [''code'', ''message'', ''retryable''] [] path) (\<lambda>_.
      bind_result (enumValue (obj_get source ''code'') context_error_codes (path @ ''.code'')) (\<lambda>error_code.
      let expected = providerContextSafeError error_code in
      bind_result (guard (obj_get source ''message'' = Some (JStr (safe_message expected)) \<and>
          obj_get source ''retryable'' = Some (JBool (safe_retryable expected)))
        (path, ''must use the fixed safe message and retryability for its code'')) (\<lambda>_. Inr expected)))))"

text \<open>What an adapter throws: the error of the contract, or anything else.\<close>

datatype thrown_error = OperationError ProviderContextErrorCode | OtherError json

definition normalizeProviderContextError :: "thrown_error \<Rightarrow> bool option \<Rightarrow> ProviderContextSafeError" where
  "normalizeProviderContextError error aborted =
     (if aborted = Some True then providerContextSafeError ContextCancelled
      else case error of
        OperationError c \<Rightarrow> providerContextSafeError c
      | OtherError v \<Rightarrow>
          (case parseProviderContextSafeError v of Inr e \<Rightarrow> e | Inl _ \<Rightarrow> providerContextSafeError ContextInternalFailure))"

end
