(* ===== verification/ProviderFingerprint.thy ===== *)
theory ProviderFingerprint
  imports ProviderContext Sha256 ProtocolStream
begin

text \<open>
  The fingerprint of a provider context (src/provider-context.ts): the normalization of
  instructions, tools and provider settings, the canonical text and its hash. NFC leaves the units
  below 256 as they are; \<open>localeCompare\<close> is a parameter.
\<close>

section \<open>Limits\<close>

definition instructionsLimit :: nat where "instructionsLimit = 32"
definition instructionLength :: nat where "instructionLength = 100000"
definition toolsLimit :: nat where "toolsLimit = 256"
definition providerSettingDepth :: nat where "providerSettingDepth = 8"
definition providerSettingNodes :: nat where "providerSettingNodes = 1024"
definition providerSettingObjectKeys :: nat where "providerSettingObjectKeys = 128"
definition providerSettingArrayLength :: nat where "providerSettingArrayLength = 128"
definition providerSettingKeyLength :: nat where "providerSettingKeyLength = 128"
definition providerSettingStringLength :: nat where "providerSettingStringLength = 4096"
definition providerSettingsSerializedBytes :: nat where "providerSettingsSerializedBytes = 32768"
definition fingerprintSerializedBytes :: nat where "fingerprintSerializedBytes = 2097152"

definition FORBIDDEN_SETTING_FIELDS :: "string list" where
  "FORBIDDEN_SETTING_FIELDS =
     [''accesstoken'', ''apikey'', ''authorization'', ''cookie'', ''credential'', ''credentials'', ''headers'',
      ''input'', ''instructions'', ''messages'', ''output'', ''password'', ''privatekey'', ''prompt'',
      ''refreshtoken'', ''providerrequest'', ''providerresponse'', ''rawrequest'', ''rawresponse'', ''request'',
      ''response'', ''secret'', ''systeminstruction'', ''toolpayload'', ''tooldefinitions'', ''toolresult'',
      ''toolresults'', ''tools'']"

section \<open>Instructions\<close>

definition newline :: char where "newline = CHR 0x0A"

text \<open>\<open>replace(/\r\n?/g, "\n")\<close>\<close>

fun unify_newlines :: "string \<Rightarrow> string" where
  "unify_newlines [] = []"
| "unify_newlines [c] = (if c = CHR 0x0D then [newline] else [c])"
| "unify_newlines (c # d # s) =
     (if c = CHR 0x0D then newline # unify_newlines (if d = newline then s else d # s)
      else c # unify_newlines (d # s))"

text \<open>\<open>split("\n")\<close>\<close>

fun split_lines :: "string \<Rightarrow> string list" where
  "split_lines [] = [[]]"
| "split_lines (c # s) =
     (if c = newline then [] # split_lines s
      else (case split_lines s of l # ls \<Rightarrow> (c # l) # ls | [] \<Rightarrow> [[c]]))"

definition is_blank :: "char \<Rightarrow> bool" where
  "is_blank c \<longleftrightarrow> c = CHR 0x09 \<or> c = CHR 0x20"

text \<open>\<open>replace(/[\t ]+/g, " ")\<close>\<close>

fun collapse_blanks :: "bool \<Rightarrow> string \<Rightarrow> string" where
  "collapse_blanks inside [] = []"
| "collapse_blanks inside (c # s) =
     (if is_blank c then (if inside then collapse_blanks True s else CHR 0x20 # collapse_blanks True s)
      else c # collapse_blanks False s)"

definition normalized_instruction :: "string \<Rightarrow> string" where
  "normalized_instruction s =
     trim (join_with [newline] (map (\<lambda>line. collapse_blanks False (trim line)) (split_lines (unify_newlines s))))"

definition unsupported_control :: "char \<Rightarrow> bool" where
  "unsupported_control c \<longleftrightarrow> (code c \<le> 31 \<and> c \<notin> {newline, CHR 0x0D, CHR 0x09}) \<or> code c = 127"

definition normalize_instruction :: "json \<Rightarrow> string \<Rightarrow> fault + string" where
  "normalize_instruction v path =
     (case v of
        JStr s \<Rightarrow>
          if s = [] \<or> length s > instructionLength
          then fail path (''must contain 1-'' @ nat_digits instructionLength @ '' characters'')
          else if list_ex unsupported_control s then fail path ''must not contain unsupported control characters''
          else if citation_has_credential s then fail path ''must not contain credential material''
          else if normalized_instruction s = [] then fail path ''must not normalize to an empty instruction''
          else Inr (normalized_instruction s)
      | _ \<Rightarrow> fail path (''must contain 1-'' @ nat_digits instructionLength @ '' characters''))"

definition normalizeInstructions :: "json option \<Rightarrow> fault + string list" where
  "normalizeInstructions v =
     (case v of
        Some (JArr values) \<Rightarrow>
          if length values > instructionsLimit
          then fail ''$fingerprint.instructions'' (''must contain at most '' @ nat_digits instructionsLimit @ '' items'')
          else map_result (\<lambda>(i, value). normalize_instruction value (item_path ''$fingerprint.instructions'' i))
                 (indexed values)
      | _ \<Rightarrow> fail ''$fingerprint.instructions'' (''must contain at most '' @ nat_digits instructionsLimit @ '' items''))"

section \<open>Settings\<close>

text \<open>
  The normalized value and the number of values visited so far. Assigning the field
  \<open>__proto__\<close> of an object literal sets its prototype instead of a field.
\<close>

fun settings_visit :: "string \<Rightarrow> string \<Rightarrow> nat \<Rightarrow> nat \<Rightarrow> json \<Rightarrow> fault + nat \<times> json" where
  "settings_visit path currentPath depth visited current =
     (let nodes = visited + 1 in
      if nodes > providerSettingNodes then fail path ''contains too many values''
      else if depth > providerSettingDepth then fail currentPath ''is too deeply nested''
      else case current of
        JNull \<Rightarrow> Inr (nodes, JNull)
      | JBool b \<Rightarrow> Inr (nodes, JBool b)
      | JNum n \<Rightarrow> if isFinite n then Inr (nodes, JNum n) else fail currentPath ''must be a finite JSON number''
      | JStr s \<Rightarrow> bind_result (safeString (Some (JStr s)) currentPath providerSettingStringLength)
                    (\<lambda>t. Inr (nodes, JStr t))
      | JArr xs \<Rightarrow>
          if length xs > providerSettingArrayLength then fail currentPath ''contains too many items''
          else bind_result (fold_result (\<lambda>seen (i, x).
                   bind_result (settings_visit path (item_path currentPath i) (depth + 1) (fst seen) x)
                     (\<lambda>(n', y). Inr (n', snd seen @ [y])))
                 (nodes, []) (indexed xs))
               (\<lambda>(n, ys). Inr (n, JArr ys))
      | JObj kvs \<Rightarrow>
          if length kvs > providerSettingObjectKeys then fail currentPath ''contains too many fields''
          else bind_result (fold_result (\<lambda>seen (k, x).
                   if k = [] \<or> length k > providerSettingKeyLength
                   then fail (currentPath @ ''.'' @ k) ''has an invalid field name length''
                   else if normalizeFieldName k \<in> set FORBIDDEN_SETTING_FIELDS
                   then fail (currentPath @ ''.'' @ k) ''is sensitive or provider-native request data''
                   else bind_result (settings_visit path (currentPath @ ''.'' @ k) (depth + 1) (fst seen) x)
                     (\<lambda>(n', y). Inr (n', if k = ''__proto__'' then snd seen else snd seen @ [(k, y)])))
                 (nodes, []) (sort_key fst kvs))
               (\<lambda>(n, fields). Inr (n, JObj fields)))"

declare settings_visit.simps [simp del]

definition normalizeJson :: "json \<Rightarrow> string \<Rightarrow> fault + json" where
  "normalizeJson v path = map_fault snd (settings_visit path path 0 0 v)"

section \<open>The canonical text\<close>

fun canonicalJson :: "host \<Rightarrow> json \<Rightarrow> string" where
  "canonicalJson H (JArr xs) = ''['' @ join_with '','' (map (canonicalJson H) xs) @ '']''"
| "canonicalJson H (JObj kvs) = ''{'' @ join_with '',''
     (map (\<lambda>(k, x). quote k @ '':'' @ canonicalJson H x) (sort_key fst kvs)) @ ''}''"
| "canonicalJson H v = stringify H v"

definition context_tools :: "host \<Rightarrow> (string \<Rightarrow> string \<Rightarrow> int) \<Rightarrow> json option \<Rightarrow> fault + json list" where
  "context_tools H collate v =
     (case v of
        Some (JArr tools) \<Rightarrow>
          if length tools > toolsLimit
          then fail ''$fingerprint.tools'' (''must contain at most '' @ nat_digits toolsLimit @ '' tools'')
          else map_fault (sort_by (\<lambda>left right. collate (canonicalJson H left) (canonicalJson H right)))
            (map_result (\<lambda>(i, tool). bind_result (parseToolDefinition tool) (\<lambda>_.
               normalizeJson tool (item_path ''$fingerprint.tools'' i))) (indexed tools))
      | _ \<Rightarrow> fail ''$fingerprint.tools'' (''must contain at most '' @ nat_digits toolsLimit @ '' tools''))"

definition context_temperature :: "json option \<Rightarrow> fault + jsnumber" where
  "context_temperature v =
     (case v of
        Some (JNum (Fin q)) \<Rightarrow>
          if q < 0 \<or> q > 2 then fail ''$fingerprint.generation.temperature'' ''must be a finite number from 0 through 2''
          else Inr (Fin q)
      | _ \<Rightarrow> fail ''$fingerprint.generation.temperature'' ''must be a finite number from 0 through 2'')"

text \<open>The normalized context, its canonical text within the limits, and the hash.\<close>

definition normalized_context ::
    "string \<Rightarrow> string \<Rightarrow> string list \<Rightarrow> json list \<Rightarrow> int \<Rightarrow> jsnumber \<Rightarrow> json \<Rightarrow> json" where
  "normalized_context provider ident instructions tools tokens temp settings = JObj
     [(''version'', JStr PROVIDER_CONTEXT_CONTRACT_VERSION),
      (''model'', JObj [(''provider_id'', JStr provider), (''model_id'', JStr ident)]),
      (''instructions'', JArr (map JStr instructions)), (''tools'', JArr tools),
      (''generation'', JObj [(''max_output_tokens'', jint tokens), (''temperature'', JNum temp)]),
      (''provider_settings'', settings)]"

definition hash_context :: "host \<Rightarrow> json \<Rightarrow> json \<Rightarrow> fault + string" where
  "hash_context H settings normalized =
     (let serialized = canonicalJson H normalized in
      if utf8ByteLength (canonicalJson H settings) > providerSettingsSerializedBytes
      then fail ''$fingerprint.provider_settings''
        (''must serialize to at most '' @ nat_digits providerSettingsSerializedBytes @ '' bytes'')
      else if utf8ByteLength serialized > fingerprintSerializedBytes
      then fail ''$fingerprint'' (''must normalize to at most '' @ nat_digits fingerprintSerializedBytes @ '' bytes'')
      else Inr (''sha256:'' @ sha256Text serialized))"

definition context_settings :: "json option \<Rightarrow> fault + json" where
  "context_settings v =
     (case v of None \<Rightarrow> Inr (JObj []) | Some w \<Rightarrow> normalizeJson w ''$fingerprint.provider_settings'')"

definition createProviderContextFingerprint ::
    "host \<Rightarrow> (string \<Rightarrow> string \<Rightarrow> int) \<Rightarrow> json \<Rightarrow> fault + string" where
  "createProviderContextFingerprint H collate v =
     bind_result (context_record (Some v) ''$fingerprint'') (\<lambda>source.
     bind_result (exactFields source [''model'', ''instructions'', ''tools'', ''generation''] [''provider_settings''] ''$fingerprint'') (\<lambda>_.
     bind_result (context_record (obj_get source ''model'') ''$fingerprint.model'') (\<lambda>model.
     bind_result (exactFields model [''provider_id'', ''model_id''] [] ''$fingerprint.model'') (\<lambda>_.
     bind_result (context_tools H collate (obj_get source ''tools'')) (\<lambda>tools.
     bind_result (context_record (obj_get source ''generation'') ''$fingerprint.generation'') (\<lambda>generation.
     bind_result (exactFields generation [''max_output_tokens'', ''temperature''] [] ''$fingerprint.generation'') (\<lambda>_.
     bind_result (finiteInteger (obj_get generation ''max_output_tokens'') ''$fingerprint.generation.max_output_tokens'' 1) (\<lambda>tokens.
     bind_result (context_temperature (obj_get generation ''temperature'')) (\<lambda>temp.
     bind_result (context_identifier (obj_get model ''provider_id'') ''$fingerprint.model.provider_id'') (\<lambda>provider.
     bind_result (context_identifier (obj_get model ''model_id'') ''$fingerprint.model.model_id'') (\<lambda>ident.
     bind_result (normalizeInstructions (obj_get source ''instructions'')) (\<lambda>instructions.
     bind_result (context_settings (obj_get source ''provider_settings'')) (\<lambda>settings.
       hash_context H settings
         (normalized_context provider ident instructions tools tokens temp settings))))))))))))))"

end
