(* ===== verification/ProviderContextFacts.thy ===== *)
theory ProviderContextFacts
  imports ProviderContext
begin

text \<open>
  Checkpoints of a provider context survive being stored: what a parser accepts is written as JSON
  that the parser reads as the same value, and the checkpoint of an accepted result is assessed as
  valid in its context.
\<close>

section \<open>Fields read back\<close>

lemma safeString_again: "safeString v p n = Inr s \<Longrightarrow> safeString (Some (JStr s)) q n = Inr s"
  by (auto simp: safeString_def split: option.splits json.splits if_splits)

lemma context_identifier_again:
  "context_identifier v p = Inr s \<Longrightarrow> context_identifier (Some (JStr s)) q = Inr s"
  by (auto simp: context_identifier_def dest: safeString_again [where q = q])

lemma parseFingerprint_again: "parseFingerprint v p = Inr s \<Longrightarrow> parseFingerprint (Some (JStr s)) q = Inr s"
  by (auto simp: parseFingerprint_def split: option.splits json.splits if_splits)

lemma finiteInteger_again: "finiteInteger v p m = Inr i \<Longrightarrow> finiteInteger (Some (jint i)) q m = Inr i"
proof -
  assume "finiteInteger v p m = Inr i"
  then obtain n where "isSafeInteger n" "m \<le> int_of_number n" "i = int_of_number n"
    by (auto simp: finiteInteger_def split: option.splits json.splits if_splits)
  then show ?thesis using isSafeInteger_int [of n] by (simp add: finiteInteger_def jint_def)
qed

lemmas read_again = safeString_again context_identifier_again parseFingerprint_again finiteInteger_again

lemma exactFields_own:
  "map fst kvs = keys \<Longrightarrow> exactFields kvs keys [] p = Inr ()"
  by (force simp: exactFields_def allowedKeys_def requiredKeys_def map_of_eq_None_iff)

lemma parseHistoryPosition_again:
  assumes "parseHistoryPosition v p = Inr pos"
  shows "parseHistoryPosition (Some (position_json pos)) q = Inr pos"
proof -
  obtain source event_field where
      revision: "finiteInteger (obj_get source ''revision'') (p @ ''.revision'') 0 = Inr (position_revision pos)"
    and event: "nullable_field event_field (\<lambda>w. context_identifier w (p @ ''.event_id'')) = Inr (position_event_id pos)"
    and both: "(position_revision pos = 0) = (position_event_id pos = None)"
    and conversation: "context_identifier (obj_get source ''conversation_id'') (p @ ''.conversation_id'') =
      Inr (position_conversation_id pos)"
    using assms unfolding parseHistoryPosition_def by auto
  have event': "nullable_field (Some (case position_event_id pos of None \<Rightarrow> JNull | Some e \<Rightarrow> JStr e))
      (\<lambda>w. context_identifier w (q @ ''.event_id'')) = Inr (position_event_id pos)"
    using event by (cases "position_event_id pos")
      (auto simp: nullable_field_def dest: context_identifier_again split: option.splits json.splits)
  have fields: "exactFields [(''conversation_id'', JStr (position_conversation_id pos)), (''revision'', jint (position_revision pos)),
       (''event_id'', case position_event_id pos of None \<Rightarrow> JNull | Some e \<Rightarrow> JStr e)]
      [''conversation_id'', ''revision'', ''event_id''] [] q = Inr ()"
    by (rule exactFields_own) simp
  show ?thesis
    unfolding parseHistoryPosition_def position_json_def context_record_def
    using fields event' both read_again(2) [OF conversation] read_again(4) [OF revision]
    by simp
qed

lemma checkpoint_read_again:
  assumes "parseProviderContextCheckpoint H v = Inr cp"
  shows "parseProviderContextCheckpoint H (Some (checkpoint_json cp)) = Inr cp"
proof -
  obtain source where
      opaque: "safeString (obj_get source ''opaque_state'') ''$checkpoint.opaque_state'' checkpointOpaqueStateLength =
        Inr (opaque_state cp)" "is_opaque_state (opaque_state cp)"
    and provider: "context_identifier (obj_get source ''provider_id'') ''$checkpoint.provider_id'' = Inr (checkpoint_provider_id cp)"
    and ident: "context_identifier (obj_get source ''checkpoint_id'') ''$checkpoint.checkpoint_id'' = Inr (checkpoint_id cp)"
    and format: "context_identifier (obj_get source ''format'') ''$checkpoint.format'' = Inr (checkpoint_format cp)"
    and fingerprint: "parseFingerprint (obj_get source ''context_fingerprint'') ''$checkpoint.context_fingerprint'' =
        Inr (checkpoint_fingerprint cp)"
    and position: "parseHistoryPosition (obj_get source ''history_position'') ''$checkpoint.history_position'' =
        Inr (history_position cp)"
    and size: "\<not> utf8ByteLength (stringify H (checkpoint_json cp)) > checkpointSerializedBytes"
    using assms unfolding parseProviderContextCheckpoint_def Let_def
    by (auto split: if_splits)
  obtain fields where fields: "checkpoint_json cp = JObj fields" "map fst fields = checkpoint_keys"
    "obj_get fields ''version'' = Some (jint 1)" "obj_get fields ''opaque_state'' = Some (JStr (opaque_state cp))"
    "obj_get fields ''provider_id'' = Some (JStr (checkpoint_provider_id cp))"
    "obj_get fields ''checkpoint_id'' = Some (JStr (checkpoint_id cp))"
    "obj_get fields ''format'' = Some (JStr (checkpoint_format cp))"
    "obj_get fields ''context_fingerprint'' = Some (JStr (checkpoint_fingerprint cp))"
    "obj_get fields ''history_position'' = Some (position_json (history_position cp))"
    by (simp add: checkpoint_json_def checkpoint_keys_def)
  have rec: "context_record (Some (checkpoint_json cp)) path = Inr fields" for path
    by (simp add: context_record_def fields(1))
  have eta: "\<lparr>checkpoint_provider_id = checkpoint_provider_id cp, checkpoint_id = checkpoint_id cp,
      checkpoint_format = checkpoint_format cp, opaque_state = opaque_state cp,
      checkpoint_fingerprint = checkpoint_fingerprint cp, history_position = history_position cp\<rparr> = cp" by simp
  show ?thesis
    unfolding parseProviderContextCheckpoint_def Let_def
    using opaque(2) size
    by (simp add: rec eta fields(2-) exactFields_own [OF fields(2)] read_again(1) [OF opaque(1)] read_again(2) [OF provider]
        read_again(2) [OF ident] read_again(2) [OF format] read_again(3) [OF fingerprint]
        parseHistoryPosition_again [OF position])
qed

section \<open>Assessment\<close>

text \<open>A position that a log can reach from another one: later in the same conversation, or the same.\<close>

definition position_reaches :: "ProviderContextHistoryPosition \<Rightarrow> ProviderContextHistoryPosition \<Rightarrow> bool" where
  "position_reaches p q \<longleftrightarrow>
     position_conversation_id p = position_conversation_id q \<and>
     (position_revision p < position_revision q \<or> p = q)"

lemma position_reaches_iff:
  "position_reaches p q \<longleftrightarrow> position_conversation_id p = position_conversation_id q \<and>
     \<not> position_revision p > position_revision q \<and>
     \<not> (position_revision p = position_revision q \<and> position_event_id p \<noteq> position_event_id q)"
  unfolding position_reaches_def by (cases p; cases q) auto

lemma position_reaches_trans: "position_reaches p q \<Longrightarrow> position_reaches q r \<Longrightarrow> position_reaches p r"
  by (auto simp: position_reaches_def)

lemma assessment_valid_iff:
  "assessProviderContextCheckpoint H v expected = ValidCheckpoint cp \<longleftrightarrow>
     parseProviderContextCheckpoint H (Some v) = Inr cp \<and>
     checkpoint_provider_id cp = expected_provider_id expected \<and>
     checkpoint_fingerprint cp = expected_fingerprint expected \<and>
     position_reaches (history_position cp) (expected_position expected)"
proof -
  have "parseProviderContextCheckpoint H (Some v) = Inr cp \<Longrightarrow> \<not> other_version v"
    by (auto simp: parseProviderContextCheckpoint_def Let_def other_version_def context_record_def split: json.splits)
  then show ?thesis
    unfolding assessProviderContextCheckpoint_def Let_def position_reaches_iff
    by (auto split: sum.splits)
qed

lemma association_ok_iff:
  "association_ok compacted cp m \<longleftrightarrow>
     checkpoint_fingerprint cp = measured_fingerprint m \<and>
     (if compacted then history_position cp = measured_position m
      else position_reaches (history_position cp) (measured_position m))"
  unfolding association_ok_def Let_def position_reaches_iff
  by (cases "history_position cp"; cases "measured_position m") auto

fun result_checkpoint ::
    "ProviderContextCompactionResult \<Rightarrow> (ProviderContextCheckpoint \<times> ProviderContextMeasurementResult) option" where
  "result_checkpoint (Compacted cp m) = Some (cp, m)"
| "result_checkpoint (UnchangedContext (Some cp) m) = Some (cp, m)"
| "result_checkpoint _ = None"

lemma measured_result_checkpoint:
  assumes "measured_result H source compacted path = Inr r" and "result_checkpoint r = Some (cp, m)"
  shows "(\<exists>v. parseProviderContextCheckpoint H v = Inr cp) \<and>
    checkpoint_fingerprint cp = measured_fingerprint m \<and> position_reaches (history_position cp) (measured_position m)"
proof -
  obtain found m' where
      found: "nullable_field (obj_get source ''checkpoint'') (parseProviderContextCheckpoint H) = Inr found"
    and associated: "case found of None \<Rightarrow> True | Some c \<Rightarrow> association_ok compacted c m'"
    and some: "\<not> (compacted \<and> found = None)"
    and r: "r = (if compacted then Compacted (the found) m' else UnchangedContext found m')"
    using assms(1) unfolding measured_result_def by auto
  have eq: "found = Some cp" "m' = m"
    using assms(2) some unfolding r by (auto split: if_splits elim: result_checkpoint.elims)
  then have "\<exists>v. parseProviderContextCheckpoint H v = Inr cp"
    using found by (auto simp: nullable_field_def split: option.splits json.splits)
  then show ?thesis using associated eq
    by (auto simp: association_ok_iff position_reaches_def split: if_splits)
qed

section \<open>A compaction result\<close>

lemma utf8_units_latin: "\<forall>u\<in>set us. u < 256 \<Longrightarrow> utf8_units us \<le> 2 * length us"
  by (induction us rule: utf8_units.induct) (auto split: list.splits)

lemma utf8ByteLength_bound: "utf8ByteLength s \<le> 2 * length s"
  unfolding utf8ByteLength_def using utf8_units_latin [of "map of_char s"] nat_of_char_less_256 by auto

definition demo_context_host :: host where
  "demo_context_host = \<lparr>parse_url = (\<lambda>_. None), fraction_string = (\<lambda>_. ''0'')\<rparr>"

definition demo_position :: ProviderContextHistoryPosition where
  "demo_position = \<lparr>position_conversation_id = ''c'', position_revision = 3, position_event_id = Some ''e3''\<rparr>"

definition demo_fingerprint :: string where
  "demo_fingerprint = ''sha256:'' @ replicate 64 (CHR ''a'')"

definition demo_context_checkpoint :: ProviderContextCheckpoint where
  "demo_context_checkpoint = \<lparr>checkpoint_provider_id = ''p'', checkpoint_id = ''k1'', checkpoint_format = ''v1'',
     opaque_state = ''QUJD'', checkpoint_fingerprint = demo_fingerprint, history_position = demo_position\<rparr>"

definition demo_measurement :: ProviderContextMeasurementResult where
  "demo_measurement = \<lparr>measured_fingerprint = demo_fingerprint, measured_position = demo_position,
     measured_input_tokens = 10, context_window_tokens = None\<rparr>"

definition demo_compaction :: json where
  "demo_compaction = JObj [(''status'', JStr ''compacted''), (''checkpoint'', checkpoint_json demo_context_checkpoint),
     (''measurement'', JObj [(''status'', JStr ''measured''), (''context_fingerprint'', JStr demo_fingerprint),
        (''history_position'', position_json demo_position), (''input_tokens'', jint 10),
        (''context_window_tokens'', JNull)])]"

lemma demo_tokens:
  "\<not> citation_has_credential ''c'' \<and> \<not> citation_has_credential ''e3'' \<and> \<not> citation_has_credential ''p'' \<and>
   \<not> citation_has_credential ''k1'' \<and> \<not> citation_has_credential ''v1'' \<and> \<not> citation_has_credential ''QUJD''"
  by code_simp

lemma demo_identifiers:
  "list_all (\<lambda>s. context_identifier (Some (JStr s)) p = Inr s) [''c'', ''e3'', ''p'', ''k1'', ''v1'']"
  using demo_tokens by (simp add: context_identifier_def safeString_def contextIdentifierLength_def is_control_def
      is_context_identifier_def token_of_def is_alnum_def is_letter_char_def is_lower_char_def is_digit_char_def lower_def code_def)

lemma demo_fingerprint_read: "parseFingerprint (Some (JStr demo_fingerprint)) p = Inr demo_fingerprint"
  by (simp add: parseFingerprint_def demo_fingerprint_def is_fingerprint_def is_digit_char_def code_def list_all_iff)

lemma demo_position_read: "parseHistoryPosition (Some (position_json demo_position)) p = Inr demo_position"
  using demo_identifiers 
  by (simp add: parseHistoryPosition_def position_json_def context_record_def exactFields_own demo_position_def finiteInteger_def jint_def safe_int_def max_safe_integer_def nullable_field_def)

lemma demo_digits: "nat_digits 1 = ''1'' \<and> nat_digits 3 = ''3''"
  by code_simp

lemma demo_numbers: "stringify H (jint 1) = ''1''" "stringify H (jint 3) = ''3''"
  using demo_digits by (simp_all add: jint_def int_string_def)

lemma demo_length: "length (stringify demo_context_host (checkpoint_json demo_context_checkpoint)) \<le> 400"
  unfolding checkpoint_json_def demo_context_checkpoint_def position_json_def demo_position_def
    ProviderContextCheckpoint.select_convs ProviderContextHistoryPosition.select_convs option.case
    stringify.simps list.map fst_conv snd_conv demo_numbers
  by code_simp

lemma demo_size: "utf8ByteLength (stringify demo_context_host (checkpoint_json demo_context_checkpoint)) \<le> checkpointSerializedBytes"
  using demo_length utf8ByteLength_bound [of "stringify demo_context_host (checkpoint_json demo_context_checkpoint)"]
  by (simp add: checkpointSerializedBytes_def)

lemma demo_opaque_read: "safeString (Some (JStr ''QUJD'')) p checkpointOpaqueStateLength = Inr ''QUJD''" "is_opaque_state ''QUJD''"
  using demo_tokens by (simp_all add: safeString_def checkpointOpaqueStateLength_def is_control_def code_def
    is_opaque_state_def is_alnum_def is_letter_char_def is_lower_char_def lower_def)

lemma demo_checkpoint_read: "parseProviderContextCheckpoint demo_context_host (Some (checkpoint_json demo_context_checkpoint)) = Inr demo_context_checkpoint"
proof -
  have f: "demo_context_checkpoint = \<lparr>checkpoint_provider_id = ''p'', checkpoint_id = ''k1'', checkpoint_format = ''v1'',
     opaque_state = ''QUJD'', checkpoint_fingerprint = demo_fingerprint, history_position = demo_position\<rparr>"
    by (simp add: demo_context_checkpoint_def)
  show ?thesis
    using demo_size demo_identifiers
    by (simp add: parseProviderContextCheckpoint_def Let_def context_record_def checkpoint_json_def f
      exactFields_own checkpoint_keys_def demo_opaque_read demo_fingerprint_read demo_position_read)
qed

lemma demo_compaction_read:
  "parseProviderContextCompactionResult demo_context_host demo_compaction = Inr (Compacted demo_context_checkpoint demo_measurement)"
proof -
  have input: "finiteInteger (Some (jint 10)) p 0 = Inr 10" for p
    by (simp add: finiteInteger_def jint_def safe_int_def max_safe_integer_def)
  have "parseMeasurement (Some (JObj [(''status'', JStr ''measured''), (''context_fingerprint'', JStr demo_fingerprint),
        (''history_position'', position_json demo_position), (''input_tokens'', jint 10),
        (''context_window_tokens'', JNull)])) p = Inr demo_measurement" for p
    by (simp add: parseMeasurement_def context_record_def exactFields_own measurement_keys_def nullable_field_def
        input demo_fingerprint_read demo_position_read demo_measurement_def)
  moreover have "checkpoint_json demo_context_checkpoint \<noteq> JNull" by (simp add: checkpoint_json_def)
  then have "nullable_field (Some (checkpoint_json demo_context_checkpoint)) (parseProviderContextCheckpoint demo_context_host) =
      Inr (Some demo_context_checkpoint)"
    by (cases "checkpoint_json demo_context_checkpoint") (simp_all add: nullable_field_def flip: demo_checkpoint_read)
  ultimately show ?thesis
    by (simp add: parseProviderContextCompactionResult_def demo_compaction_def context_record_def measured_result_def
        exactFields_own association_ok_def demo_measurement_def demo_context_checkpoint_def)
qed

section \<open>Kept checkpoints\<close>

text \<open>
  C23. The checkpoint of an accepted compaction result can be kept: stored as JSON and offered
  again, at the measured position of the conversation or any later one, to the provider and for
  the context it was made for, it is assessed as valid and read as the same checkpoint.
\<close>

theorem accepted_checkpoints_stay_valid:
  assumes "parseProviderContextCompactionResult H v = Inr r" and "result_checkpoint r = Some (cp, m)"
    and "position_reaches (measured_position m) now"
  shows "assessProviderContextCheckpoint H (checkpoint_json cp)
    \<lparr>expected_provider_id = checkpoint_provider_id cp, expected_fingerprint = measured_fingerprint m,
     expected_position = now\<rparr> = ValidCheckpoint cp"
proof -
  obtain source compacted path where "measured_result H source compacted path = Inr r"
    using assms(1,2) by (auto simp: parseProviderContextCompactionResult_def Let_def split: if_splits)
  from measured_result_checkpoint [OF this assms(2)] show ?thesis
    using checkpoint_read_again position_reaches_trans [OF _ assms(3)] by (auto simp: assessment_valid_iff)
qed

theorem accepted_checkpoints_stay_valid_witness:
  "assessProviderContextCheckpoint demo_context_host (checkpoint_json demo_context_checkpoint)
    \<lparr>expected_provider_id = ''p'', expected_fingerprint = demo_fingerprint,
     expected_position = \<lparr>position_conversation_id = ''c'', position_revision = 5, position_event_id = Some ''e5''\<rparr>\<rparr> =
   ValidCheckpoint demo_context_checkpoint"
  using accepted_checkpoints_stay_valid [OF demo_compaction_read, of demo_context_checkpoint demo_measurement
      "\<lparr>position_conversation_id = ''c'', position_revision = 5, position_event_id = Some ''e5''\<rparr>"]
  by (simp add: position_reaches_def demo_measurement_def demo_position_def demo_context_checkpoint_def)

end
