(* ===== verification/FingerprintFacts.thy ===== *)
theory FingerprintFacts
  imports ProviderFingerprint ProtocolFacts ProviderContextFacts
begin

text \<open>
  The fingerprint of a provider context does not depend on the order in which the fields of any
  object of its input are written.
\<close>

lemma fold_result_map: "fold_result f s (map g xs) = fold_result (\<lambda>s x. f s (g x)) s xs"
proof (induction xs arbitrary: s)
  case (Cons x xs)
  then show ?case by (cases "f s (g x)") simp_all
qed simp

lemma indexed_map_snd: "indexed (map g xs) = map (\<lambda>(i, x). (i, g x)) (indexed xs)"
  by (simp add: indexed_def zip_map2)

lemma sorted_members_sorted: "sort_key fst (sorted_members kvs) = map (\<lambda>p. (fst p, sort_fields (snd p))) (sort_key fst kvs)"
proof -
  have "sort_key fst (sorted_members kvs) = sorted_members kvs"
    by (rule sort_key_id_if_sorted) simp
  then show ?thesis by (simp add: sort_key_map split_beta)
qed

lemma settings_visit_sorted:
  "settings_visit path cur d n (sort_fields v) = settings_visit path cur d n v"
proof (induction v arbitrary: cur d n rule: measure_induct_rule [of size])
  case (less v)
  show ?case
  proof (cases v)
    case (JArr xs)
    have item: "settings_visit path c e m (sort_fields x) = settings_visit path c e m x"
      if "p \<in> set (indexed xs)" "snd p = x" for p x c e m
    proof -
      have "x \<in> set xs" using indexed_snd [OF that(1)] that(2) by simp
      then show ?thesis
        using less.IH [of x] size_list_estimation' [of x xs "size x" size] JArr by simp
    qed
    show ?thesis unfolding JArr sort_fields.simps
      by (simp add: settings_visit.simps [of _ _ _ _ "JArr _"] indexed_map_snd fold_result_map split_beta item
          cong: fold_result_cong if_cong)
  next
    case (JObj kvs)
    have member: "settings_visit path c e m (sort_fields (snd p)) = settings_visit path c e m (snd p)"
      if "p \<in> set kvs" for p c e m
      using less.IH [of "snd p"] size_field [of "fst p" "snd p" kvs] that JObj by simp
    show ?thesis unfolding JObj sort_fields.simps
      unfolding settings_visit.simps [of _ _ _ _ "JObj _"] json.case sorted_members_sorted fold_result_map split_beta
        fst_conv snd_conv
      by (intro arg_cong2 [where f = bind_result] refl fold_result_cong let_cong if_cong)
        (simp_all add: member)
  qed simp_all
qed

lemma normalizeJson_sorted: "normalizeJson (sort_fields v) path = normalizeJson v path"
  by (simp add: normalizeJson_def settings_visit_sorted)

lemma tools_sorted:
  assumes "list_all wf_json tools"
  shows "context_tools H collate (Some (JArr (map sort_fields tools))) = Inr ts \<longleftrightarrow>
    context_tools H collate (Some (JArr tools)) = Inr ts"
proof -
  have one: "bind_result (parseToolDefinition (sort_fields v)) (\<lambda>_. normalizeJson (sort_fields v) p) = Inr t \<longleftrightarrow>
      bind_result (parseToolDefinition v) (\<lambda>_. normalizeJson v p) = Inr t" if "wf_json v" for v p t
    using tool_sorted [OF that] by (auto simp: normalizeJson_sorted)
  have all: "map_result (\<lambda>(i, tool). bind_result (parseToolDefinition tool) (\<lambda>_. normalizeJson tool (p i)))
        (map (\<lambda>(i, x). (i, sort_fields x)) ixs) = Inr us \<longleftrightarrow>
      map_result (\<lambda>(i, tool). bind_result (parseToolDefinition tool) (\<lambda>_. normalizeJson tool (p i))) ixs = Inr us"
    if "list_all (\<lambda>ix. wf_json (snd ix)) ixs" for ixs us and p :: "nat \<Rightarrow> string"
    using that
  proof (induction ixs arbitrary: us)
    case (Cons ix ixs)
    obtain i v where ix: "ix = (i, v)" by (cases ix)
    then have "wf_json v" using Cons.prems by simp
    then show ?case using one [of v "p i"] Cons ix by (simp del: bind_result_Inr_iff) (simp add: bind_result_Inr_iff; blast)
  qed simp
  have "list_all (\<lambda>ix. wf_json (snd ix)) (indexed tools)" using assms by (simp add: indexed_list_all)
  then show ?thesis by (simp add: context_tools_def map_fault_def indexed_map_snd all)
qed

lemma instructions_sorted:
  "normalizeInstructions (map_option sort_fields v) = Inr is \<longleftrightarrow> normalizeInstructions v = Inr is"
proof -
  have one: "normalize_instruction (sort_fields v) p = normalize_instruction v p" for v p
    by (cases v) (simp_all add: normalize_instruction_def)
  have "map_result (\<lambda>(i, value). normalize_instruction value (p i)) (map (\<lambda>(i, x). (i, sort_fields x)) ixs) =
      map_result (\<lambda>(i, value). normalize_instruction value (p i)) ixs" for ixs and p :: "nat \<Rightarrow> string"
    by (induction ixs) (simp_all add: one split_beta)
  then show ?thesis
    by (cases v; cases "the v") (simp_all add: normalizeInstructions_def indexed_map_snd)
qed

lemma field_sorted [simp]:
  "context_identifier (map_option sort_fields w) p = context_identifier w p"
  "finiteInteger (map_option sort_fields w) p m = finiteInteger w p m"
  "context_temperature (map_option sort_fields w) = context_temperature w"
  by (cases w; cases "the w"; simp add: context_identifier_def safeString_def finiteInteger_def context_temperature_def)+

lemma exactFields_sorted:
  assumes "distinct (map fst kvs)"
  shows "exactFields (sorted_members kvs) req opt p = Inr () \<longleftrightarrow> exactFields kvs req opt p = Inr ()"
  by (simp add: exactFields_def keys_sorted [OF assms, where q = p])

lemma context_tools_sorted:
  assumes "\<And>w. v = Some w \<Longrightarrow> wf_json w"
  shows "context_tools H collate (map_option sort_fields v) = Inr ts \<longleftrightarrow> context_tools H collate v = Inr ts"
proof (cases "\<exists>tools. v = Some (JArr tools)")
  case True
  then show ?thesis using assms tools_sorted by auto
next
  case False
  then show ?thesis by (cases v; cases "the v") (simp_all add: context_tools_def)
qed

lemma context_settings_sorted: "context_settings (map_option sort_fields v) = context_settings v"
  by (cases v) (simp_all add: context_settings_def normalizeJson_sorted)

lemma context_record_iff: "context_record v p = Inr kvs \<longleftrightarrow> v = Some (JObj kvs)"
  by (auto simp: context_record_def split: option.splits json.splits)

text \<open>The input as its three records.\<close>

definition fingerprint_parts ::
    "host \<Rightarrow> (string \<Rightarrow> string \<Rightarrow> int) \<Rightarrow> (string \<times> json) list \<Rightarrow> (string \<times> json) list \<Rightarrow>
     (string \<times> json) list \<Rightarrow> string \<Rightarrow> bool" where
  "fingerprint_parts H collate source model generation fp \<longleftrightarrow>
     exactFields source [''model'', ''instructions'', ''tools'', ''generation''] [''provider_settings''] ''$fingerprint'' = Inr () \<and>
     exactFields model [''provider_id'', ''model_id''] [] ''$fingerprint.model'' = Inr () \<and>
     exactFields generation [''max_output_tokens'', ''temperature''] [] ''$fingerprint.generation'' = Inr () \<and>
     (\<exists>tools tokens temp provider ident instructions settings.
        context_tools H collate (obj_get source ''tools'') = Inr tools \<and>
        finiteInteger (obj_get generation ''max_output_tokens'') ''$fingerprint.generation.max_output_tokens'' 1 = Inr tokens \<and>
        context_temperature (obj_get generation ''temperature'') = Inr temp \<and>
        context_identifier (obj_get model ''provider_id'') ''$fingerprint.model.provider_id'' = Inr provider \<and>
        context_identifier (obj_get model ''model_id'') ''$fingerprint.model.model_id'' = Inr ident \<and>
        normalizeInstructions (obj_get source ''instructions'') = Inr instructions \<and>
        context_settings (obj_get source ''provider_settings'') = Inr settings \<and>
        hash_context H settings (normalized_context provider ident instructions tools tokens temp settings) = Inr fp)"

lemma fingerprint_iff:
  "createProviderContextFingerprint H collate (JObj source) = Inr fp \<longleftrightarrow>
   (\<exists>model generation. obj_get source ''model'' = Some (JObj model) \<and> obj_get source ''generation'' = Some (JObj generation) \<and>
      fingerprint_parts H collate source model generation fp)"
  unfolding createProviderContextFingerprint_def bind_result_Inr_iff context_record_iff fingerprint_parts_def
  by (simp; blast)

lemma fingerprint_parts_sorted:
  assumes "distinct (map fst source)" "distinct (map fst model)" "distinct (map fst generation)"
    and "\<And>k w. obj_get source k = Some w \<Longrightarrow> wf_json w"
  shows "fingerprint_parts H collate (sorted_members source) (sorted_members model) (sorted_members generation) fp \<longleftrightarrow>
    fingerprint_parts H collate source model generation fp"
proof -
  have tools: "context_tools H collate (map_option sort_fields (obj_get source k)) = Inr ts \<longleftrightarrow>
      context_tools H collate (obj_get source k) = Inr ts" for k ts
    by (rule context_tools_sorted) (rule assms(4))
  show ?thesis
  unfolding fingerprint_parts_def
  unfolding exactFields_sorted [OF assms(1)] exactFields_sorted [OF assms(2)] exactFields_sorted [OF assms(3)]
    sorted_members_get [OF assms(1)] sorted_members_get [OF assms(2)] sorted_members_get [OF assms(3)]
    tools instructions_sorted context_settings_sorted field_sorted ..
qed

lemma fingerprint_sorted:
  assumes "wf_json v"
  shows "createProviderContextFingerprint H collate (sort_fields v) = Inr fp \<longleftrightarrow>
    createProviderContextFingerprint H collate v = Inr fp"
proof (cases v)
  case (JObj source)
  have d: "distinct (map fst source)" using assms JObj by simp
  have wf: "wf_json w" if "obj_get source k = Some w" for k w
    using wf_field assms JObj that by blast
  have own: "distinct (map fst m)" if "obj_get source k = Some (JObj m)" for k m
    using wf [OF that] by simp
  have object: "map_option sort_fields w = Some (JObj kvs) \<longleftrightarrow> (\<exists>l. w = Some (JObj l) \<and> kvs = sorted_members l)" for w kvs
    by (cases w; cases "the w") auto
  have parts: "fingerprint_parts H collate (sorted_members source) (sorted_members m) (sorted_members g) fp \<longleftrightarrow>
      fingerprint_parts H collate source m g fp"
    if "obj_get source k = Some (JObj m)" "obj_get source l = Some (JObj g)" for k l m g
    using that by (intro fingerprint_parts_sorted d) (blast intro: own wf)+
  show ?thesis
    unfolding JObj sort_fields.simps fingerprint_iff sorted_members_get [OF d] object
    using parts by blast
qed (simp_all add: createProviderContextFingerprint_def context_record_def)

section \<open>A context written in two ways\<close>

definition demo_context_input :: "(string \<times> json) list \<Rightarrow> json" where
  "demo_context_input settings = JObj
     [(''model'', JObj [(''provider_id'', JStr ''p''), (''model_id'', JStr ''v1'')]),
      (''instructions'', JArr [JStr ''Be brief'']), (''tools'', JArr []),
      (''generation'', JObj [(''max_output_tokens'', jint 10), (''temperature'', jint 1)]),
      (''provider_settings'', JObj settings)]"

definition demo_settings :: "(string \<times> json) list" where
  "demo_settings = [(''effort'', JStr ''low''), (''cache'', JObj [(''b'', JBool True), (''a'', JNull)])]"

definition demo_settings_reordered :: "(string \<times> json) list" where
  "demo_settings_reordered = [(''cache'', JObj [(''a'', JNull), (''b'', JBool True)]), (''effort'', JStr ''low'')]"

lemma demo_words: "\<not> citation_has_credential ''low'' \<and> \<not> citation_has_credential ''Be brief'' \<and>
   \<not> citation_has_credential ''p'' \<and> \<not> citation_has_credential ''v1'' \<and>
   normalized_instruction ''Be brief'' = ''Be brief''"
  by code_simp

lemma demo_settings_normal:
  "settings_visit p p 0 0 (JObj demo_settings) = Inr (5, JObj demo_settings_reordered)"
  using demo_words by (simp add: settings_visit.simps demo_settings_def demo_settings_reordered_def indexed_def
   providerSettingNodes_def providerSettingDepth_def providerSettingObjectKeys_def providerSettingKeyLength_def
   safeString_def providerSettingStringLength_def Let_def FORBIDDEN_SETTING_FIELDS_def normalizeFieldName_def
   lower_def is_lower_char_def is_digit_char_def code_def is_control_def)

lemma demo_reordered:
  "wf_json (demo_context_input demo_settings) \<and> wf_json (demo_context_input demo_settings_reordered) \<and>
   sort_fields (demo_context_input demo_settings) = sort_fields (demo_context_input demo_settings_reordered)"
  by (simp add: demo_context_input_def demo_settings_def demo_settings_reordered_def jint_def)

lemma demo_instructions: "normalizeInstructions (Some (JArr [JStr ''Be brief''])) = Inr [''Be brief'']"
  using demo_words by (simp add: normalizeInstructions_def normalize_instruction_def indexed_def instructionsLimit_def
    instructionLength_def unsupported_control_def newline_def code_def)

lemma demo_stringify: "canonicalJson H (jint 10) = ''10''" "canonicalJson H (jint 1) = ''1''"
proof -
  have "nat_digits 10 = ''10'' \<and> nat_digits 1 = ''1''" by code_simp
  then show "canonicalJson H (jint 10) = ''10''" "canonicalJson H (jint 1) = ''1''"
    by (simp_all add: jint_def int_string_def)
qed

lemma demo_hash:
  "\<exists>fp. hash_context H (JObj demo_settings_reordered)
     (normalized_context ''p'' ''v1'' [''Be brief''] [] 10 (Fin 1) (JObj demo_settings_reordered)) = Inr fp"
proof -
  let ?s = "JObj demo_settings_reordered"
  let ?c = "normalized_context ''p'' ''v1'' [''Be brief''] [] 10 (Fin 1) ?s"
  have "length (canonicalJson H ?s) \<le> 100"
    by (simp add: demo_settings_reordered_def quote_def escape_char_def)
  moreover have "length (canonicalJson H ?c) \<le> 400"
    using demo_stringify [of H]
    by (simp add: demo_settings_reordered_def normalized_context_def quote_def escape_char_def jint_def PROVIDER_CONTEXT_CONTRACT_VERSION_def)
  ultimately show ?thesis
    using utf8ByteLength_bound [of "canonicalJson H ?s"] utf8ByteLength_bound [of "canonicalJson H ?c"]
    by (simp add: hash_context_def Let_def providerSettingsSerializedBytes_def fingerprintSerializedBytes_def)
qed

lemma demo_fingerprinted: "\<exists>fp. createProviderContextFingerprint H collate (demo_context_input demo_settings) = Inr fp"
proof -
  obtain fp where fp: "hash_context H (JObj demo_settings_reordered)
     (normalized_context ''p'' ''v1'' [''Be brief''] [] 10 (Fin 1) (JObj demo_settings_reordered)) = Inr fp"
    using demo_hash by blast
  have "context_tools H collate (Some (JArr [])) = Inr []"
    by (simp add: context_tools_def map_fault_def indexed_def toolsLimit_def sort_by_def)
  moreover have "context_settings (Some (JObj demo_settings)) = Inr (JObj demo_settings_reordered)"
    by (simp add: context_settings_def normalizeJson_def map_fault_def demo_settings_normal)
  moreover have "finiteInteger (Some (jint 10)) p 1 = Inr 10" for p
    by (simp add: finiteInteger_def jint_def safe_int_def max_safe_integer_def)
  moreover have "context_temperature (Some (jint 1)) = Inr (Fin 1)"
    by (simp add: context_temperature_def jint_def)
  moreover have "context_identifier (Some (JStr s)) q = Inr s" if "s \<in> {''p'', ''v1''}" for s q
    using demo_identifiers [of q] that by auto
  ultimately show ?thesis
    unfolding demo_context_input_def fingerprint_iff fingerprint_parts_def
    using fp demo_instructions by (simp add: exactFields_own exactFields_def allowedKeys_def requiredKeys_def)
qed

text \<open>A setting named \<open>__proto__\<close> leaves no trace in the fingerprint.\<close>

lemma proto_setting_is_dropped:
  "normalizeJson (JObj [(''__proto__'', JObj [(''a'', JNull)])]) p = normalizeJson (JObj []) p"
  by (simp add: normalizeJson_def map_fault_def settings_visit.simps providerSettingNodes_def providerSettingDepth_def
      providerSettingObjectKeys_def providerSettingKeyLength_def FORBIDDEN_SETTING_FIELDS_def normalizeFieldName_def
      lower_def is_lower_char_def is_digit_char_def code_def)

section \<open>Field order\<close>

text \<open>
  C17. The fingerprint identifies a context, not the way it is written: two inputs that differ only
  in the order of the fields of objects, at any depth, in tools, schemas and provider settings
  too, have the same fingerprint, or are both refused.
\<close>

theorem fingerprint_ignores_field_order:
  assumes "wf_json a" and "wf_json b" and "sort_fields a = sort_fields b"
  shows "createProviderContextFingerprint H collate a = Inr fp \<longleftrightarrow>
    createProviderContextFingerprint H collate b = Inr fp"
  using fingerprint_sorted [OF assms(1)] fingerprint_sorted [OF assms(2)] assms(3) by metis

theorem fingerprint_ignores_field_order_witness:
  "\<exists>fp. createProviderContextFingerprint demo_context_host (\<lambda>_ _. 0) (demo_context_input demo_settings_reordered) = Inr fp"
  using fingerprint_ignores_field_order [of "demo_context_input demo_settings" "demo_context_input demo_settings_reordered"]
    demo_reordered demo_fingerprinted by blast

end
