(* ===== verification/Spec2Isabelle.thy ===== *)
theory Spec2Isabelle
  imports ToolExecutorProperties ToolLoopProperties UsageFacts Scenario ApprovalProperties DualProperties DualApprovals RetryProperties Sha256Facts StreamSequence
    FingerprintFacts
begin

text \<open>
  Verification development of the conversation engine.
\<close>

section \<open>Durable logs and their replay\<close>

text \<open>
  C1. Replaying a conversation from any state the in-memory store can reach (by appends
  and by replays that write checkpoints) returns, for every page size and whether or not
  a checkpoint is used; the state is the fold of the conversation's whole log, no event is
  counted as a duplicate and the last revision is the log's.
\<close>

theorem replay_hydrates_the_log:
  assumes "(session_step H (memory_store H))\<^sup>*\<^sup>* empty_event_store S" and "positive_limit l"
  shows "\<exists>res. replayConversation H (memory_store H) c l None S = Some (Inr (S, res)) \<and>
    reduceEvents H (createInitialConversationState (Some c)) (log_of S c) = Inr (result_state res) \<and>
    result_duplicateEventCount res = 0 \<and> result_lastRevision res = getLatestRevision c S"
proof -
  from memory_session_inv [OF assms(1)] have "store_inv H S" "\<forall>c. memory.faithful_checkpoint H S c" by auto
  from memory_replay_outcomes [OF this assms(2), of c None] show ?thesis by (cases; blast)
qed

theorem replay_hydrates_the_log_witness:
  "\<exists>res. replayConversation demo_host (memory_store demo_host) ''c'' (Some (Fin 2)) None demo_store =
      Some (Inr (demo_store, res)) \<and> result_state res = demo_state \<and> result_duplicateEventCount res = 0"
  using replay_hydrates_the_log [OF demo_reached, of "Some (Fin 2)" "''c''"] demo_fold
  by (auto simp: demo_log_of positive_limit_def safe_int_def max_safe_integer_def)

text \<open>
  C2. With a checkpoint policy, a replay of a reachable store hydrates the same state and
  leaves every log as it is, or fails for one of two reasons that are not the log's: a
  threshold of the policy is out of range, or the store refuses the new checkpoint. It
  never reports a corrupt event or a revision gap.
\<close>

theorem replay_fails_only_on_checkpoints:
  assumes "(session_step H (memory_store H))\<^sup>*\<^sup>* empty_event_store S" and "positive_limit l"
  shows "(\<exists>S' res. replayConversation H (memory_store H) c l policy S = Some (Inr (S', res)) \<and>
      reduceEvents H (createInitialConversationState (Some c)) (log_of S c) = Inr (result_state res) \<and>
      entries_of S' = entries_of S) \<or>
    replayConversation H (memory_store H) c l policy S = Some (Inl ThresholdRangeError) \<or>
    (\<exists>d. conflict_code d = CheckpointConflict \<and>
      replayConversation H (memory_store H) c l policy S = Some (Inl (StoreFailed (Conflict d))))"
proof -
  from memory_session_inv [OF assms(1)] have "store_inv H S" "\<forall>c. memory.faithful_checkpoint H S c" by auto
  from memory_replay_outcomes [OF this assms(2), of c policy] show ?thesis by (cases; blast)
qed

theorem replay_fails_only_on_checkpoints_witness:
  "replayConversation demo_host (memory_store demo_host) ''c'' None
     (Some DEFAULT_CONVERSATION_CHECKPOINT_POLICY) demo_store \<noteq> None"
  using replay_fails_only_on_checkpoints [OF demo_reached, of None "''c''" "Some DEFAULT_CONVERSATION_CHECKPOINT_POLICY"]
  by (auto simp: positive_limit_def)

text \<open>
  C3. In every reachable store a conversation's entries are its events at the revisions
  1, 2, ..., all of them valid, behind distinct cursors; an event id names one entry over
  all conversations.
\<close>

theorem reachable_store_well_formed:
  assumes "(session_step H (memory_store H))\<^sup>*\<^sup>* empty_event_store S"
  shows "log_from c 1 (log_of S c) \<and> (\<forall>ev\<in>set (log_of S c). parseConversationEvent H (event_json ev) = Inr ev) \<and>
    distinct (map cursor (entries_of S c)) \<and>
    (\<forall>c' e e'. e \<in> set (entries_of S c) \<and> e' \<in> set (entries_of S c') \<and>
       event_id (event e) = event_id (event e') \<longrightarrow> c' = c \<and> e' = e)"
proof -
  from memory_session_inv [OF assms] have inv: "store_inv H S" by auto
  have "c' = c \<and> e' = e" if "e \<in> set (entries_of S c)" "e' \<in> set (entries_of S c')"
    "event_id (event e) = event_id (event e')" for c' e e'
    using stored_once [OF store_invD(4) [OF inv] that(1,2)] that(3) by simp
  then show ?thesis
    using store_invD(1,3) [OF inv] cursors_distinct [OF inv, of c] by (auto simp: accepted_event_def)
qed

theorem reachable_store_well_formed_witness:
  "log_from ''c'' 1 (log_of demo_store ''c'') \<and> distinct (map cursor (entries_of demo_store ''c''))"
  using reachable_store_well_formed [OF demo_reached, of "''c''"] by blast

text \<open>
  C4. A successful append keeps the invariant and does one of two things: it extends the
  log of its conversation, and no other, by the whole batch, which was expected right
  there; or it is a retry, which changes nothing and returns the stored entries behind the
  expected revision, each the same event or the same client mutation as the one sent.
\<close>

theorem append_extends_or_recognizes:
  assumes "store_inv H S" and "append_batch H input S = Inr (S', res)"
  shows "store_inv H S' \<and> append_latestRevision res = int (length (entries_of S' (append_conversationId input))) \<and>
    (if append_status res = Appended
     then append_expectedRevision input = getLatestRevision (append_conversationId input) S \<and>
       map event (append_entries res) = append_events input \<and>
       entries_of S' = (entries_of S)(append_conversationId input :=
         entries_of S (append_conversationId input) @ append_entries res)
     else S' = S \<and>
       append_entries res = take (length (append_events input))
         (drop (nat (revision_or_zero (append_expectedRevision input))) (entries_of S (append_conversationId input))) \<and>
       list_all2 (\<lambda>e ev. jsonEqual (event_json (event e)) (event_json ev) \<or> sameClientMutation (event e) ev)
         (append_entries res) (append_events input))"
  using append_batch_inv [OF assms] append_new [OF assms] append_retry [OF assms]
  by (cases "append_status res") auto

theorem append_extends_or_recognizes_witness:
  "entries_of demo_store ''c'' = append_entries demo_result \<and> append_latestRevision demo_result = 7"
  using append_extends_or_recognizes [OF empty_store_inv demo_append] demo_appended demo_log_of
    demo_result_length
  by (auto simp: demo_input_def)

text \<open>
  C5. An append that went through can be sent again: the second answer is idempotent, with
  the same entries, and the store does not change.
\<close>

theorem append_retry_is_idempotent:
  assumes "store_inv H S" and "append_batch H input S = Inr (S', res)"
    and "append_status res = Appended" and "\<forall>ev\<in>set (append_events input). json_data (event_json ev)"
  shows "append_batch H input S' = Inr (S', res\<lparr>append_status := IdempotentAppend\<rparr>)"
  using assms by (rule append_again)

theorem append_retry_is_idempotent_witness:
  "append_batch demo_host demo_input demo_store = Inr (demo_store, demo_result\<lparr>append_status := IdempotentAppend\<rparr>)"
  using append_retry_is_idempotent [OF empty_store_inv demo_append demo_appended] demo_data
  by (simp add: demo_input_def)

text \<open>
  Optimistic concurrency: a valid batch none of whose events is known, sent against
  another revision than the latest, is refused with a revision conflict that reports the
  actual revision.
\<close>

theorem stale_append_refused:
  assumes "validateAppend H input (getLatestRevision (append_conversationId input) S) = Inr ()"
    and "\<forall>ev\<in>set (append_events input). findIdempotentMatch S ev = Inr None"
    and "append_expectedRevision input \<noteq> getLatestRevision (append_conversationId input) S"
  shows "append_batch H input S = Inl (Conflict
    \<lparr>conflict_code = RevisionConflict, conflict_conversationId = append_conversationId input,
     conflict_expectedRevision = append_expectedRevision input,
     conflict_actualRevision = getLatestRevision (append_conversationId input) S, conflict_identifier = None\<rparr>)"
proof -
  have "map_result (findIdempotentMatch S) (append_events input) = Inr (map (\<lambda>_. None) (append_events input))"
    using assms(2) by (intro map_result_ok) simp
  then show ?thesis
    using assms(1,3) by (simp add: append_batch_def getLatestRevision_def conflict_def List.map_filter_def comp_def)
qed

theorem stale_append_refused_witness:
  "\<exists>d. append_batch demo_host demo_stale demo_store = Inl (Conflict d) \<and> conflict_code d = RevisionConflict \<and>
    conflict_actualRevision d = Some 7"
  using stale_append_refused [OF demo_stale_valid demo_stale_unknown] demo_latest by (simp add: demo_stale_def)

text \<open>
  Reading behind the cursor of the entry at position \<open>i\<close> with a limit returns the next
  entries of the log, at most as many as asked for, says whether there are more, and hands
  out the cursor of the last one: no entry is skipped or repeated between pages.
\<close>

theorem read_continues_at_cursor:
  assumes "store_inv H S" and "i < length (entries_of S c)" and "0 < n" and "safe_int (int n)"
  shows "\<exists>page. read_log \<lparr>read_conversationId = c, read_after = Some (AfterCursor (cursor (entries_of S c ! i))),
        read_limit = Some (Fin (of_nat n))\<rparr> S = Inr page \<and>
    read_entries page = take n (drop (i + 1) (entries_of S c)) \<and>
    (hasMore page \<longleftrightarrow> i + 1 + n < length (entries_of S c)) \<and>
    nextCursor page = (if i + 1 < length (entries_of S c)
      then Some (cursor (entries_of S c ! (min (i + n) (length (entries_of S c) - 1)))) else None)"
  using assms by (rule read_after_cursor)

theorem read_continues_at_cursor_witness:
  "\<exists>page. read_log \<lparr>read_conversationId = ''c'',
       read_after = Some (AfterCursor (cursor (entries_of demo_store ''c'' ! 2))), read_limit = Some (Fin 3)\<rparr> demo_store =
     Inr page \<and> length (read_entries page) = 3 \<and> hasMore page"
  using read_continues_at_cursor [OF demo_store_inv, of 2 "''c''" 3] arg_cong [OF demo_log_of, of length]
  by (auto simp: demo_log_length safe_int_def max_safe_integer_def)

text \<open>
  C8. Checkpoints are monotonic: a write that succeeds touches no log and leaves every
  conversation with a checkpoint at the same or a later revision, never past its log.
\<close>

theorem checkpoints_never_go_back:
  assumes "store_inv H S" and "writeCheckpoint cp S = Inr (S', res)" and "readCheckpoint c S = Some old"
  shows "store_inv H S' \<and> entries_of S' = entries_of S \<and>
    (\<exists>new. readCheckpoint c S' = Some new \<and> checkpoint_revision old \<le> checkpoint_revision new \<and>
       checkpoint_revision new \<le> int (length (entries_of S c)))"
proof -
  note inv = writeCheckpoint_inv [OF assms(1,2)] and entries = writeCheckpoint_entries(1) [OF assms(2)]
  obtain new where new: "readCheckpoint c S' = Some new" "checkpoint_revision old \<le> checkpoint_revision new"
    using writeCheckpoint_monotone [OF assms(2,3)] by blast
  moreover have "checkpoint_revision new \<le> int (length (entries_of S c))"
    using inv new(1) unfolding store_inv_def entries by blast
  ultimately show ?thesis using inv entries by blast
qed

theorem checkpoints_never_go_back_witness:
  "\<exists>S' res. writeCheckpoint (demo_legacy\<lparr>schemaVersion := Some 3\<rparr>) demo_legacy_store = Inr (S', res) \<and>
    (\<exists>new. readCheckpoint ''c'' S' = Some new \<and> 7 \<le> checkpoint_revision new)"
proof -
  obtain S' res where w: "writeCheckpoint (demo_legacy\<lparr>schemaVersion := Some 3\<rparr>) demo_legacy_store = Inr (S', res)"
    using demo_rewrite by blast
  from checkpoints_never_go_back [OF demo_legacy_inv w demo_legacy_read] w show ?thesis
    by (auto simp: demo_legacy_def)
qed

text \<open>
  C9. A checkpoint of another schema version at the latest revision blocks a replay that
  wants to write one: when its state is not today's projection, the log is folded and the
  replay then throws the store's checkpoint conflict instead of returning the state. The
  comment on the schema version promises a fall back to full replay.
\<close>

theorem legacy_checkpoint_blocks_replay:
  assumes "store_inv H S" and "positive_limit l" and "readCheckpoint c S = Some cp"
    and "schemaVersion cp \<noteq> Some CONVERSATION_CHECKPOINT_SCHEMA_VERSION"
    and "getLatestRevision c S = Some (checkpoint_revision cp)"
    and "reduceEvents H (createInitialConversationState (Some c)) (log_of S c) = Inr st"
    and "\<not> jsonEqual (state_json st) (state_json (checkpoint_state cp))"
    and "shouldWriteConversationCheckpoint (length (log_of S c))
      (utf8ByteLength (stringify H (state_json st))) policy = Inr True"
  shows "\<exists>d. replayConversation H (memory_store H) c l (Some policy) S = Some (Inl (StoreFailed (Conflict d))) \<and>
    conflict_code d = CheckpointConflict"
  using assms by (rule legacy_checkpoint_conflict)

theorem legacy_checkpoint_blocks_replay_witness:
  "\<exists>d. replayConversation demo_host (memory_store demo_host) ''c'' None
      (Some \<lparr>eventCount = Some (Fin 5), serializedBytes = None\<rparr>) demo_legacy_store =
        Some (Inl (StoreFailed (Conflict d))) \<and> conflict_code d = CheckpointConflict"
proof -
  have policy: "shouldWriteConversationCheckpoint 7 b \<lparr>eventCount = Some (Fin 5), serializedBytes = None\<rparr> = Inr True"
    for b
    by (simp add: shouldWriteConversationCheckpoint_def validateThreshold_def positive_limit_def at_least_def
        safe_int_def max_safe_integer_def)
  show ?thesis
    by (rule legacy_checkpoint_blocks_replay [OF demo_legacy_inv _ demo_legacy_read _ _ _ demo_legacy_differs])
      (simp_all add: policy demo_legacy_log demo_fold demo_log_length demo_legacy_latest positive_limit_def
        demo_legacy_def CONVERSATION_CHECKPOINT_SCHEMA_VERSION_def)
qed

text \<open>
  C10. The validator of a checkpoint's state bounds the accumulated citations of the whole
  conversation by the limits of one record set: once a conversation has more sources than
  one record set may carry, no checkpoint of it is ever accepted.
\<close>

theorem long_conversations_lose_checkpoints:
  assumes "length (citation_sources st) > sourcesPerRecordSet"
    and "checkpoint_state cp = st"
  shows "parseCheckpoint H (Some cp) c latest = None"
  using too_many_sources_invalid [OF assms(1)] assms(2) by (simp add: parseCheckpoint_def)

theorem long_conversations_lose_checkpoints_witness:
  "parseCheckpoint demo_host (Some \<lparr>checkpoint_conversationId = ''c'', schemaVersion = Some 3,
     checkpoint_revision = 7, checkpoint_state = demo_state\<lparr>citation_sources := demo_sources\<rparr>\<rparr>)
     ''c'' (Some 7) = None"
  by (rule long_conversations_lose_checkpoints [where st = "demo_state\<lparr>citation_sources := demo_sources\<rparr>"])
    (simp_all add: sourcesPerRecordSet_def demo_sources_def)

section \<open>The reducer\<close>

text \<open>
  C11. Folding validated events never throws, and every state it reaches is well-formed:
  the revision counts the events, identities are unique, at most one turn is active and it
  is not terminal, every proposal reviews a recorded call and its version matches its
  status, every citation has its source and its target.
\<close>

theorem reduction_total_and_well_formed:
  assumes "\<forall>ev\<in>set evs. \<exists>v. parseConversationEvent H v = Inr ev"
  shows "\<exists>st. reduceEvents H (createInitialConversationState c) evs = Inr st \<and> state_inv st"
proof -
  have "\<forall>ev\<in>set evs. validated_event H ev"
    using assms parseConversationEvent_valid unfolding valid_event_def by blast
  then show ?thesis using reduceEvents_total [OF initial_state_inv] reduceEvents_inv [OF initial_state_inv] by blast
qed

theorem reduction_total_and_well_formed_witness:
  "\<exists>st. reduceEvents demo_host (createInitialConversationState None) demo_log = Inr st \<and> state_inv st"
  by (rule reduction_total_and_well_formed) (use demo_accepted in blast)

text \<open>
  C12. A log that continues the state is accepted event by event, whatever the payloads
  say: every event id and mutation id is recorded in order, exactly once, the revision
  advances by the number of events and no replay error is left.
\<close>

theorem log_is_folded_exactly_once:
  assumes "state_inv st" and "\<forall>ev\<in>set evs. validated_event H ev"
    and "log_from c (expected_revision st) evs" and "conversation_id st = Some c"
    and "distinct (processed_event_ids st @ map event_id evs)"
    and "distinct (processed_mutation_ids st @ mutation_ids evs)" and "replay_error st = None"
  shows "\<exists>st'. reduceEvents H st evs = Inr st' \<and>
      processed_event_ids st' = processed_event_ids st @ map event_id evs \<and>
      processed_mutation_ids st' = processed_mutation_ids st @ mutation_ids evs \<and>
      expected_revision st' = expected_revision st + int (length evs) \<and> replay_error st' = None"
  using reduceEvents_continues [of st evs H c] assms by auto

theorem log_is_folded_exactly_once_witness:
  "\<exists>st'. reduceEvents demo_host demo_state demo_tail = Inr st' \<and>
     processed_event_ids st' = processed_event_ids demo_state @ [''e8'', ''e9'', ''e10'', ''e11'']"
  using log_is_folded_exactly_once [OF demo_state_inv demo_tail_validated demo_tail_ids(3,4,1,2,5)]
  by (auto simp: demo_tail_def demo_event_def)



text \<open>
  C14. A decided proposal is final: once rejected, expired or executed, its record never
  changes again, whatever events follow.
\<close>

theorem final_proposals_are_frozen:
  assumes "state_inv st" and "\<forall>ev\<in>set evs. validated_event H ev" and "reduceEvents H st evs = Inr st'"
    and "p \<in> set (approval_proposals st)" and "proposal_status p \<in> {Rejected, Expired, Executed}"
  shows "p \<in> set (approval_proposals st')"
proof -
  from reduceEvents_extends [OF assms(1-3)] assms(4)
  obtain q where q: "q \<in> set (approval_proposals st')" "proposal_edge\<^sup>*\<^sup>* p q"
    unfolding state_extends_def extends_by_def by blast
  with proposal_edges_final [OF q(2) assms(5)] show ?thesis by simp
qed

theorem final_proposals_are_frozen_witness:
  "\<exists>p\<in>set (approval_proposals demo_later). proposal_status p = Rejected"
  using demo_rejected_proposal final_proposals_are_frozen [OF demo_state_inv demo_tail_validated demo_tail_fold]
  by blast

text \<open>
  C15. A terminal turn is final: later events add to its retry history at most.
\<close>

theorem terminal_turns_are_frozen:
  assumes "state_inv st" and "\<forall>ev\<in>set evs. validated_event H ev" and "reduceEvents H st evs = Inr st'"
    and "t \<in> set (turns st)" and "isTerminal t"
  shows "\<exists>new. t\<lparr>retry_history := retry_history t @ new\<rparr> \<in> set (turns st')"
proof -
  from reduceEvents_extends [OF assms(1-3)] assms(4) obtain t' where t': "t' \<in> set (turns st')" "turn_extends t t'"
    unfolding state_extends_def extends_by_def by blast
  then obtain new where "retry_history t' = retry_history t @ new" "t' = t\<lparr>retry_history := retry_history t'\<rparr>"
    using assms(5) unfolding turn_extends_def by blast
  with t'(1) show ?thesis by (intro exI [of _ new]) simp
qed

theorem terminal_turns_are_frozen_witness:
  "\<exists>t\<in>set (turns demo_state). \<exists>new. t\<lparr>retry_history := retry_history t @ new\<rparr> \<in> set (turns demo_later)"
  using demo_completed_turn terminal_turns_are_frozen [OF demo_state_inv demo_tail_validated demo_tail_fold]
  by blast

text \<open>
  A redelivered event (its event id or its mutation id is known) leaves the state as
  it is; an event of another conversation or at another revision than the next sets the
  replay error and nothing else.
\<close>

theorem redelivery_and_rejection:
  shows "(already_processed st ev \<longrightarrow> reduceConversationEvent H st ev = Inr st) \<and>
    (\<forall>err. \<not> already_processed st ev \<and> rejection st ev = Some err \<longrightarrow>
       reduceConversationEvent H st ev = Inr (st\<lparr>replay_error := Some err\<rparr>))"
  by (simp add: reduceConversationEvent_eq withReplayError_def)

theorem redelivery_and_rejection_witness:
  "reduceConversationEvent demo_host demo_state (demo_log ! 2) = Inr demo_state \<and>
   reduceConversationEvent demo_host demo_state (demo_tail ! 1) =
     Inr (demo_state\<lparr>replay_error := Some (RevisionGapError ''c'' ''e9'' 8 9)\<rparr>)"
  using redelivery_and_rejection [of demo_state "demo_log ! 2" demo_host]
    redelivery_and_rejection [of demo_state "demo_tail ! 1" demo_host] demo_redelivered demo_gap by blast

text \<open>
  Each payload touches its own part of the state only: messages and attachments,
  citations, turns, tool calls, proposals, links or settings; no payload touches the
  envelope (conversation, revision, processed identities).
\<close>

theorem payloads_stay_in_their_part:
  assumes "reducePayload H st time a p = Inr st'" and "state_inv st"
  shows "component_frame (component p) st st' \<and> same_envelope st st'"
proof -
  have "component_frame (component p) st st'"
    using reducePayload_frame [OF assms(1)] assms(2) by (simp add: state_inv_def)
  then show ?thesis using component_frame_envelope by blast
qed

theorem payloads_stay_in_their_part_witness:
  "\<exists>st'. reducePayload demo_host demo_state ''2026-01-01T00:00:00.000Z''
      \<lparr>attributed_actor = \<lparr>actor_type = UserActor, actor_id = None\<rparr>, attributed_source = RuntimeSource\<rparr>
      (ConversationTitleUpdated (Some ''title'')) = Inr st' \<and> settings_only demo_state st' \<and> same_envelope demo_state st'"
proof -
  let ?a = "\<lparr>attributed_actor = \<lparr>actor_type = UserActor, actor_id = None\<rparr>, attributed_source = RuntimeSource\<rparr>"
  obtain st' where "reducePayload demo_host demo_state ''2026-01-01T00:00:00.000Z'' ?a
      (ConversationTitleUpdated (Some ''title'')) = Inr st'" by auto
  with payloads_stay_in_their_part [OF this demo_state_inv] show ?thesis by (auto simp: component_frame_def)
qed

section \<open>The validation boundary\<close>





text \<open>
  C20. The JSON validator, which walks a value with a running count of nodes and a depth
  and stops at the first fault, accepts exactly the values that meet the declarative
  bounds: the number of nodes, the depth, and the limits on strings, arrays, keys and
  numbers at every node.
\<close>

theorem json_validator_is_exact:
  shows "validateJson v path L = Inr u \<longleftrightarrow>
    json_nodes v \<le> maxNodes L \<and> within_depth (maxDepth L) v \<and> json_conforms L v"
  by (rule validateJson_iff)

text \<open>
  Normalized citation records have unique source and citation ids, every citation
  names one of the sources, and both lists are within the limits of a record set.
\<close>

theorem normalized_citations_are_well_formed:
  assumes "normalizeCitationRecords H input = Inr r"
  shows "wf_record_set r"
  using assms by (rule normalizeCitationRecords_wf)

theorem normalized_citations_are_well_formed_witness: "wf_record_set demo_records"
  using normalized_citations_are_well_formed [OF demo_normalized] .

text \<open>
  Merging a record set into a conversation keeps the existing sources and citations
  in place, adds exactly the new ones behind them and leaves no identity twice.
\<close>

theorem citation_merge_adds_the_new_records:
  assumes "citations_inv st" and "mergeCitationRecords st r = Some st'"
  shows "(\<exists>new. citation_sources st' = citation_sources st @ new) \<and>
    (\<exists>new. state_citations st' = state_citations st @ new) \<and>
    set (citation_sources st') = set (citation_sources st) \<union> set (sources r) \<and>
    set (state_citations st') = set (state_citations st) \<union> set (citations r) \<and>
    distinct (map source_id (citation_sources st')) \<and> distinct (map citation_id (state_citations st'))"
proof -
  obtain ss cs where ss: "merge_by_identity source_id (citation_sources st) (sources r) = Some ss"
    and cs: "merge_by_identity citation_id (state_citations st) (citations r) = Some cs"
    and st': "st' = st\<lparr>citation_sources := ss, state_citations := cs\<rparr>"
    using assms(2) by (auto simp: mergeCitationRecords_def split: option.splits)
  have d: "distinct (map source_id (citation_sources st))" "distinct (map citation_id (state_citations st))"
    using assms(1) by (simp_all add: citations_inv_def)
  show ?thesis using merge_by_identity_result [OF ss d(1)] merge_by_identity_result [OF cs d(2)] by (simp add: st')
qed

theorem citation_merge_adds_the_new_records_witness:
  "\<exists>st. mergeCitationRecords demo_state demo_records = Some st \<and>
     set (citation_sources st) = set (citation_sources demo_state) \<union> set (sources demo_records)"
proof -
  have inv: "citations_inv demo_state" using demo_state_inv by (simp add: state_inv_def)
  obtain st where "mergeCitationRecords demo_state demo_records = Some st" using demo_merge by blast
  with citation_merge_adds_the_new_records [OF inv this] show ?thesis by blast
qed

text \<open>
  The byte count of the size limits, computed over UTF-16 code units without an
  encoder, is the length of the UTF-8 encoding, surrogate pairs and lone surrogates
  included.
\<close>

theorem byte_length_is_utf8:
  assumes "\<forall>u\<in>set us. u < 0x10000"
  shows "utf8_units us = length (concat (map utf8_encode (utf16_scalars us)))"
  using assms by (rule utf8_units_reference)

theorem byte_length_is_utf8_witness:
  "utf8_units [0x41, 0xe9, 0xd83d, 0xde00, 0xd800] =
     length (concat (map utf8_encode (utf16_scalars [0x41, 0xe9, 0xd83d, 0xde00, 0xd800])))"
  by (rule byte_length_is_utf8) simp

text \<open>
  Accepted timestamps are compared by the calendar: of two valid timestamps the one
  with the earlier date has the smaller parsed time, so expiry checks order days, months,
  leap years and centuries as the calendar does.
\<close>

theorem timestamps_are_ordered_by_date:
  assumes "isTimestamp s" and "isTimestamp t" and "match_timestamp s = Some d" and "match_timestamp t = Some e"
    and "date_before (date_of d) (date_of e)"
  shows "time_less (Date_parse s) (Date_parse t)"
  using assms by (rule timestamps_follow_calendar)

theorem timestamps_are_ordered_by_date_witness:
  "time_less (Date_parse ''2026-01-31T23:59:59.999Z'') (Date_parse ''2026-02-01T00:00:00Z'')"
  using demo_dates(3) timestamps_are_ordered_by_date [OF demo_dates(1,2)] by blast

section \<open>The headless store\<close>

text \<open>
  A batch is atomic: a destroyed store refuses it, a reduction that throws leaves the
  store as it was, and otherwise the whole fold becomes the snapshot, whatever the
  listeners do through the store's operations.
\<close>

theorem batches_are_atomic:
  assumes "keeps_snapshot react"
  shows "(destroyed s \<longrightarrow> run_batch H react evs s = (Inl DestroyedError, s)) \<and>
    (\<forall>e. \<not> destroyed s \<and> reduceEvents H (snapshot s) evs = Inl e \<longrightarrow>
       run_batch H react evs s = (Inl (ReducerFault e), s)) \<and>
    (\<forall>st. \<not> destroyed s \<and> reduceEvents H (snapshot s) evs = Inr st \<longrightarrow>
       (\<exists>s'. run_batch H react evs s = (Inr st, s') \<and> snapshot s' = st))"
  using run_batch_cases [OF assms, of s H evs] by (fastforce simp: store_extends_def)

theorem batches_are_atomic_witness:
  "\<exists>s'. run_batch demo_host (\<lambda>_ s. s) demo_tail demo_queue = (Inr demo_later, s') \<and> snapshot s' = demo_later"
  using batches_are_atomic [OF demo_react, of demo_queue demo_host demo_tail] demo_tail_fold
  by (simp add: demo_queue_def)

text \<open>
  C26. Batches are serialized: after as many steps of the mutation boundary as there were
  batches queued, the snapshot is the fold of the batches in the order they were applied,
  cut short only by a destruction of the store.
\<close>

theorem batches_run_in_order:
  assumes "keeps_snapshot react" and "n \<le> length (boundary s)"
  shows "\<exists>k\<le>n. snapshot (run_steps H react n s) = fold_batches H (snapshot s) (take k (boundary s)) \<and>
    (destroyed (run_steps H react n s) \<or> k = n)"
  using assms by (rule run_steps_prefix)

theorem batches_run_in_order_witness:
  "\<exists>k\<le>2. snapshot (run_steps demo_host (\<lambda>_ s. s) 2 demo_queue) =
      fold_batches demo_host demo_state (take k [take 2 demo_tail, drop 2 demo_tail])"
  using batches_run_in_order [OF demo_react, of 2 demo_queue demo_host] by (auto simp: demo_queue_def)

end
